(* ===== verification/Grid_Prelude.thy ===== *)
theory Grid_Prelude
  imports Complex_Main "HOL-Library.AList" "HOL-Library.Word" "HOL-Library.Multiset"
begin

text \<open>
  Shared vocabulary of the development: the error values of the engine, JavaScript's insertion-ordered
  \<open>Map\<close> and \<open>Set\<close> as association lists and duplicate-free lists, array reads that may miss,
  the stable \<open>Array.prototype.sort\<close>, the decimal rendering of integers inside template strings,
  and the generic lemmas on them that the component theories use.

  Conventions of the whole development. A method that mutates its object takes the state and returns
  the new one. A method that may throw before it has changed anything returns \<open>pons_error + 'a\<close>
  (\<open>Inl\<close> is the thrown error); a method that may throw half-way returns the state it leaves behind
  and the error. \<open>undefined\<close> is \<open>None\<close>. Clock readings, random identifiers and the results of
  platform services are arguments.
\<close>

named_theorems map_simps \<open>how the ordered maps answer after an update\<close>
named_theorems wf_rules \<open>operations that keep a well-formedness invariant\<close>

section \<open>Errors\<close>

text \<open>\<open>PonsWarpError\<close>: the category defaults to the code's prefix, the error to recoverable.\<close>

record pons_error =
  err_code :: string
  err_category :: string
  err_recoverable :: bool

definition code_prefix :: "string \<Rightarrow> string" where
  "code_prefix code = takeWhile (\<lambda>c. c \<noteq> CHR '':'') code"

definition PonsWarpError :: "string \<Rightarrow> string option \<Rightarrow> bool option \<Rightarrow> pons_error" where
  "PonsWarpError code category recoverable =
     \<lparr>err_code = code,
      err_category = (case category of Some c \<Rightarrow> c | None \<Rightarrow> code_prefix code),
      err_recoverable = (case recoverable of Some r \<Rightarrow> r | None \<Rightarrow> True)\<rparr>"

type_synonym 'a result = "pons_error + 'a"

text \<open>Sequencing of two calls, the second of which is not made when the first throws.\<close>

definition bind_result :: "'e + 'a \<Rightarrow> ('a \<Rightarrow> 'e + 'b) \<Rightarrow> 'e + 'b" where
  "bind_result r f = (case r of Inl e \<Rightarrow> Inl e | Inr a \<Rightarrow> f a)"

lemma bind_result_simps [simp]:
  "bind_result (Inl e) f = Inl e"
  "bind_result (Inr a) f = f a"
  by (simp_all add: bind_result_def)

lemma bind_result_Inr_iff:
  "bind_result r f = Inr b \<longleftrightarrow> (\<exists>a. r = Inr a \<and> f a = Inr b)"
  by (cases r) auto

text \<open>A loop that calls a throwing function on every element and stops at the first throw.\<close>

fun map_result :: "('a \<Rightarrow> 'e + 'b) \<Rightarrow> 'a list \<Rightarrow> 'e + 'b list" where
  "map_result f [] = Inr []"
| "map_result f (x # xs) = bind_result (f x) (\<lambda>y. bind_result (map_result f xs) (\<lambda>ys. Inr (y # ys)))"

lemma map_result_Inr:
  "map_result f xs = Inr ys \<longleftrightarrow> list_all2 (\<lambda>x y. f x = Inr y) xs ys"
  by (induction xs arbitrary: ys) (auto simp: bind_result_Inr_iff list_all2_Cons1)

lemma map_result_total:
  "(\<And>x. x \<in> set xs \<Longrightarrow> f x = Inr (g x)) \<Longrightarrow> map_result f xs = Inr (map g xs)"
  by (induction xs) auto

lemma map_result_first_error:
  assumes "\<forall>x \<in> set xs. \<exists>y. f x = Inr y" and "f z = Inl e"
  shows "map_result f (xs @ z # zs) = Inl e"
  using assms by (induction xs) (auto simp: bind_result_def split: sum.splits)

section \<open>Insertion-ordered maps and sets\<close>

text \<open>
  \<open>Map.set\<close> keeps the position of an existing key and appends a new one, which is what
  \<^const>\<open>AList.update\<close> does; iteration is the order of the list.
\<close>

type_synonym ('k, 'v) js_map = "('k \<times> 'v) list"

abbreviation jm_get :: "('k, 'v) js_map \<Rightarrow> 'k \<Rightarrow> 'v option" where
  "jm_get m k \<equiv> map_of m k"

abbreviation jm_set :: "'k \<Rightarrow> 'v \<Rightarrow> ('k, 'v) js_map \<Rightarrow> ('k, 'v) js_map" where
  "jm_set \<equiv> AList.update"

abbreviation jm_delete :: "'k \<Rightarrow> ('k, 'v) js_map \<Rightarrow> ('k, 'v) js_map" where
  "jm_delete \<equiv> AList.delete"

abbreviation jm_keys :: "('k, 'v) js_map \<Rightarrow> 'k list" where
  "jm_keys m \<equiv> map fst m"

definition jm_wf :: "('k, 'v) js_map \<Rightarrow> bool" where
  "jm_wf m \<longleftrightarrow> distinct (jm_keys m)"

lemma jm_wf_Nil [simp, wf_rules]: "jm_wf []"
  by (simp add: jm_wf_def)

lemma jm_wf_set [simp, wf_rules]: "jm_wf m \<Longrightarrow> jm_wf (jm_set k v m)"
  by (simp add: jm_wf_def AList.distinct_update)

lemma jm_wf_delete [simp, wf_rules]: "jm_wf m \<Longrightarrow> jm_wf (jm_delete k m)"
  by (simp add: jm_wf_def AList.distinct_delete)

lemma jm_wf_filter [simp, wf_rules]: "jm_wf m \<Longrightarrow> jm_wf (filter P m)"
  by (induction m) (auto simp: jm_wf_def)

lemma jm_wf_map_val [simp]: "jm_wf (map (\<lambda>(k, v). (k, f k v)) m) = jm_wf m"
  by (simp add: jm_wf_def comp_def case_prod_unfold)

lemma jm_get_set [simp, map_simps]: "jm_get (jm_set k v m) k' = (if k' = k then Some v else jm_get m k')"
  by (simp add: AList.update_conv')

lemma jm_get_delete [simp, map_simps]: "jm_get (jm_delete k m) k' = (if k' = k then None else jm_get m k')"
  by (simp add: AList.delete_conv')

lemma jm_get_filter:
  "jm_wf m \<Longrightarrow> jm_get (filter P m) k = (case jm_get m k of None \<Rightarrow> None | Some v \<Rightarrow> if P (k, v) then Some v else None)"
  by (induction m) (auto simp: jm_wf_def split: option.splits dest: map_of_SomeD intro: rev_image_eqI)

lemma jm_get_in_set: "jm_wf m \<Longrightarrow> (k, v) \<in> set m \<longleftrightarrow> jm_get m k = Some v"
  by (simp add: jm_wf_def)

lemma jm_set_entries:
  "jm_wf m \<Longrightarrow> set (jm_set k v m) = insert (k, v) {e \<in> set m. fst e \<noteq> k}"
  by (induction m) (auto simp: jm_wf_def intro: rev_image_eqI)

lemma jm_delete_entries: "set (jm_delete k m) = {e \<in> set m. fst e \<noteq> k}"
  by (auto simp: AList.delete_eq)

lemma jm_length_delete: "length (jm_delete k m) \<le> length m"
  by (simp add: AList.delete_eq)

lemma jm_get_map_val:
  "jm_get (map (\<lambda>(k, v). (k, f k v)) m) k = map_option (f k) (jm_get m k)"
  by (induction m) auto

lemma jm_set_new: "k \<notin> set (jm_keys m) \<Longrightarrow> jm_set k v m = m @ [(k, v)]"
  by (induction m) auto

lemma jm_keys_set: "k \<in> set (jm_keys m) \<Longrightarrow> jm_keys (jm_set k v m) = jm_keys m"
  by (induction m) auto

lemma jm_get_None_iff: "jm_get m k = None \<longleftrightarrow> k \<notin> set (jm_keys m)"
  by (simp add: map_of_eq_None_iff)

text \<open>Sets: adding a present element changes nothing, a new one goes to the end.\<close>

type_synonym 'a js_set = "'a list"

definition js_add :: "'a \<Rightarrow> 'a js_set \<Rightarrow> 'a js_set" where
  "js_add x xs = (if x \<in> set xs then xs else xs @ [x])"

definition js_set_of :: "'a list \<Rightarrow> 'a js_set" where
  "js_set_of xs = foldl (\<lambda>acc x. js_add x acc) [] xs"

lemma set_js_add [simp, map_simps]: "set (js_add x xs) = insert x (set xs)"
  by (auto simp: js_add_def)

lemma distinct_js_add [simp, wf_rules]: "distinct xs \<Longrightarrow> distinct (js_add x xs)"
  by (auto simp: js_add_def)

lemma length_js_add: "length (js_add x xs) \<le> Suc (length xs)"
  by (simp add: js_add_def)

lemma set_foldl_js_add: "set (foldl (\<lambda>acc x. js_add x acc) acc xs) = set acc \<union> set xs"
  by (induction xs arbitrary: acc) auto

lemma set_js_set_of [simp]: "set (js_set_of xs) = set xs"
  by (simp add: js_set_of_def set_foldl_js_add)

lemma distinct_js_set_of [simp]: "distinct (js_set_of xs)"
proof -
  have "distinct acc \<Longrightarrow> distinct (foldl (\<lambda>acc x. js_add x acc) acc xs)" for acc :: "'a list"
    by (induction xs arbitrary: acc) auto
  then show ?thesis by (simp add: js_set_of_def)
qed

section \<open>Array reads\<close>

text \<open>\<open>xs[i]\<close> is \<open>undefined\<close> for an index out of range, negative ones included.\<close>

definition arr_at :: "'a list \<Rightarrow> int \<Rightarrow> 'a option" where
  "arr_at xs i = (if 0 \<le> i \<and> i < int (length xs) then Some (xs ! nat i) else None)"

lemma arr_at_nat [simp]: "n < length xs \<Longrightarrow> arr_at xs (int n) = Some (xs ! n)"
  by (simp add: arr_at_def)

lemma arr_at_Some_iff:
  "arr_at xs i = Some x \<longleftrightarrow> 0 \<le> i \<and> nat i < length xs \<and> xs ! nat i = x"
  by (auto simp: arr_at_def)

lemma arr_at_None_iff: "arr_at xs i = None \<longleftrightarrow> i < 0 \<or> int (length xs) \<le> i"
  by (auto simp: arr_at_def)

lemma arr_at_in_set: "arr_at xs i = Some x \<Longrightarrow> x \<in> set xs"
  by (auto simp: arr_at_Some_iff)

section \<open>Stable sorting with a comparison function\<close>

text \<open>
  \<open>xs.sort(cmp)\<close> is stable: elements that compare equal keep their order. Insertion from the right
  is the stable order of a comparison function; \<open>cmp a b > 0\<close> asks for \<open>b\<close> before \<open>a\<close>.
\<close>

fun js_insort :: "('a \<Rightarrow> 'a \<Rightarrow> bool) \<Rightarrow> 'a \<Rightarrow> 'a list \<Rightarrow> 'a list" where
  "js_insort gt x [] = [x]"
| "js_insort gt x (y # ys) = (if gt x y then y # js_insort gt x ys else x # y # ys)"

definition js_sort :: "('a \<Rightarrow> 'a \<Rightarrow> bool) \<Rightarrow> 'a list \<Rightarrow> 'a list" where
  "js_sort gt xs = foldr (js_insort gt) xs []"

lemma js_sort_simps [simp]:
  "js_sort gt [] = []"
  "js_sort gt (x # xs) = js_insort gt x (js_sort gt xs)"
  by (simp_all add: js_sort_def)

lemma mset_js_insort [simp]: "mset (js_insort gt x xs) = add_mset x (mset xs)"
  by (induction xs) auto

lemma set_js_insort [simp]: "set (js_insort gt x xs) = insert x (set xs)"
  by (induction xs) auto

lemma mset_js_sort [simp]: "mset (js_sort gt xs) = mset xs"
  by (induction xs) auto

lemma set_js_sort [simp]: "set (js_sort gt xs) = set xs"
  by (induction xs) auto

lemma length_js_sort [simp]: "length (js_sort gt xs) = length xs"
  by (metis mset_js_sort size_mset)

lemma js_sort_Nil_iff [simp]: "js_sort gt xs = [] \<longleftrightarrow> xs = []"
  by (metis length_0_conv length_js_sort)

text \<open>A comparison that is a strict weak order on the elements sorts them.\<close>

definition weak_order_on :: "'a set \<Rightarrow> ('a \<Rightarrow> 'a \<Rightarrow> bool) \<Rightarrow> bool" where
  "weak_order_on A gt \<longleftrightarrow>
     (\<forall>x\<in>A. \<forall>y\<in>A. gt x y \<longrightarrow> \<not> gt y x) \<and>
     (\<forall>x\<in>A. \<forall>y\<in>A. \<forall>z\<in>A. \<not> gt x y \<longrightarrow> \<not> gt y z \<longrightarrow> \<not> gt x z)"

lemma weak_order_subset: "weak_order_on B gt \<Longrightarrow> A \<subseteq> B \<Longrightarrow> weak_order_on A gt"
  unfolding weak_order_on_def by blast

lemma weak_order_asym: "weak_order_on A gt \<Longrightarrow> x \<in> A \<Longrightarrow> y \<in> A \<Longrightarrow> gt x y \<Longrightarrow> \<not> gt y x"
  unfolding weak_order_on_def by blast

lemma weak_order_trans:
  "weak_order_on A gt \<Longrightarrow> x \<in> A \<Longrightarrow> y \<in> A \<Longrightarrow> z \<in> A \<Longrightarrow> \<not> gt x y \<Longrightarrow> \<not> gt y z \<Longrightarrow> \<not> gt x z"
  unfolding weak_order_on_def by blast

lemma sorted_js_insort:
  "weak_order_on (insert x (set xs)) gt \<Longrightarrow> sorted_wrt (\<lambda>a b. \<not> gt a b) xs \<Longrightarrow>
   sorted_wrt (\<lambda>a b. \<not> gt a b) (js_insort gt x xs)"
proof (induction xs)
  case Nil
  then show ?case by simp
next
  case (Cons y ys)
  have wo: "weak_order_on (insert x (set ys)) gt"
    using Cons.prems(1) by (rule weak_order_subset) auto
  show ?case
  proof (cases "gt x y")
    case True
    then have "\<not> gt y x" by (rule weak_order_asym [OF Cons.prems(1), rotated 2]) simp_all
    moreover have "sorted_wrt (\<lambda>a b. \<not> gt a b) (js_insort gt x ys)"
      using Cons.IH [OF wo] Cons.prems(2) by simp
    ultimately show ?thesis using True Cons.prems(2) by simp
  next
    case False
    have "\<not> gt x z" if z: "z \<in> set ys" for z
      by (rule weak_order_trans [OF Cons.prems(1) _ _ _ False]) (use z Cons.prems(2) in simp_all)
    with False Cons.prems(2) show ?thesis by simp
  qed
qed

lemma sorted_js_sort:
  "weak_order_on (set xs) gt \<Longrightarrow> sorted_wrt (\<lambda>a b. \<not> gt a b) (js_sort gt xs)"
proof (induction xs)
  case Nil
  then show ?case by simp
next
  case (Cons x xs)
  have "weak_order_on (set xs) gt" using Cons.prems by (rule weak_order_subset) auto
  with Cons show ?case by (auto intro: sorted_js_insort)
qed

lemma js_sort_hd_minimal:
  assumes "weak_order_on (set xs) gt" and "js_sort gt xs = y # ys" and "x \<in> set xs"
  shows "x = y \<or> \<not> gt y x"
proof -
  have "sorted_wrt (\<lambda>a b. \<not> gt a b) (y # ys)" using sorted_js_sort [OF assms(1)] assms(2) by simp
  moreover have "x \<in> set (y # ys)" using assms(2,3) by (metis set_js_sort)
  ultimately show ?thesis by auto
qed

section \<open>Decimal rendering\<close>

text \<open>\<open>String(n)\<close> of a safe integer, as it appears inside template strings.\<close>

definition digit_char :: "nat \<Rightarrow> char" where
  "digit_char d = char_of (48 + d)"

fun show_nat :: "nat \<Rightarrow> string" where
  "show_nat n = (if n < 10 then [digit_char n] else show_nat (n div 10) @ [digit_char (n mod 10)])"

declare show_nat.simps [simp del]

definition show_int :: "int \<Rightarrow> string" where
  "show_int i = (if i < 0 then CHR ''-'' # show_nat (nat (- i)) else show_nat (nat i))"

lemma of_char_digit_char: "d < 10 \<Longrightarrow> of_char (digit_char d) = 48 + d"
  by (simp add: digit_char_def)

lemma digit_char_inj: "d < 10 \<Longrightarrow> e < 10 \<Longrightarrow> digit_char d = digit_char e \<Longrightarrow> d = e"
  by (metis of_char_digit_char add_left_cancel)

lemma show_nat_small: "n < 10 \<Longrightarrow> show_nat n = [digit_char n]"
  by (subst show_nat.simps) simp

lemma show_nat_large: "\<not> n < 10 \<Longrightarrow> show_nat n = show_nat (n div 10) @ [digit_char (n mod 10)]"
  by (subst show_nat.simps) simp

lemma show_nat_not_Nil [simp]: "show_nat n \<noteq> []"
  by (subst show_nat.simps) simp

lemma show_nat_digits: "set (show_nat n) \<subseteq> digit_char ` {..<10}"
proof (induction n rule: show_nat.induct)
  case (1 n)
  show ?case
  proof (cases "n < 10")
    case True
    then show ?thesis by (simp add: show_nat_small)
  next
    case False
    with 1 show ?thesis by (simp add: show_nat_large)
  qed
qed

lemma show_nat_inj: "show_nat m = show_nat n \<Longrightarrow> m = n"
proof (induction m arbitrary: n rule: show_nat.induct)
  case (1 m)
  have last: "m mod 10 = n mod 10"
  proof -
    have "last (show_nat k) = digit_char (k mod 10)" for k
      by (subst show_nat.simps) simp
    then have "digit_char (m mod 10) = digit_char (n mod 10)" using "1.prems" by metis
    then show ?thesis by (rule digit_char_inj [rotated 2]) simp_all
  qed
  have front: "butlast (show_nat k) = (if k < 10 then [] else show_nat (k div 10))" for k
    by (subst show_nat.simps) simp
  have "(if m < 10 then [] else show_nat (m div 10)) = (if n < 10 then [] else show_nat (n div 10))"
    using "1.prems" front by metis
  then have "m div 10 = n div 10"
    using "1.IH" not_sym [OF show_nat_not_Nil [of "n div 10"]] by (auto split: if_splits)
  with last show ?case by (metis div_mult_mod_eq)
qed

lemma digit_char_not: "c \<in> digit_char ` {..<10} \<Longrightarrow> of_char c \<in> {48 ..< 58 :: nat}"
  by (auto simp: of_char_digit_char)

lemma show_int_chars: "c \<in> set (show_int i) \<Longrightarrow> c = CHR ''-'' \<or> of_char c \<in> {48 ..< 58 :: nat}"
  using show_nat_digits digit_char_not by (fastforce simp: show_int_def split: if_splits)

lemma show_int_no_colon: "CHR '':'' \<notin> set (show_int i)"
  using show_int_chars by fastforce

lemma minus_not_in_show_nat: "CHR ''-'' \<notin> set (show_nat n)"
  using show_nat_digits [of n] digit_char_not by fastforce

lemma minus_Cons_not_show_nat: "CHR ''-'' # xs \<noteq> show_nat n"
  using minus_not_in_show_nat [of n] by (metis list.set_intros(1))

lemma show_int_inj: "show_int i = show_int j \<Longrightarrow> i = j"
  using minus_Cons_not_show_nat not_sym [OF minus_Cons_not_show_nat]
  by (auto simp: show_int_def split: if_splits dest!: show_nat_inj)

section \<open>Cutting a list into blocks\<close>

text \<open>\<open>slice xs a b\<close> is \<open>xs.slice(a, b)\<close> for \<open>0 \<le> a\<close>; both \<open>Blob\<close> and \<open>ArrayBuffer\<close> clip at the end.\<close>

definition slice :: "'a list \<Rightarrow> int \<Rightarrow> int \<Rightarrow> 'a list" where
  "slice xs a b = take (nat (b - a)) (drop (nat a) xs)"

text \<open>The number of blocks of \<open>k\<close> that cover \<open>n\<close>, as \<open>Math.ceil(n / k)\<close>.\<close>

definition ceil_div :: "int \<Rightarrow> int \<Rightarrow> int" where
  "ceil_div n k = \<lceil>(of_int n :: real) / of_int k\<rceil>"

lemma ceil_div_eq: "ceil_div n k = - ((- n) div k)"
  using floor_divide_of_int_eq [where ?'a = real, of "- n" k] by (simp add: ceil_div_def ceiling_def)

lemma ceil_div_bounds:
  assumes "0 < k"
  shows "n \<le> ceil_div n k * k" and "(ceil_div n k - 1) * k < n"
proof -
  have "(- n) div k * k + (- n) mod k = - n" by (rule div_mult_mod_eq)
  moreover have "0 \<le> (- n) mod k" and "(- n) mod k < k" using assms by simp_all
  ultimately show "n \<le> ceil_div n k * k" and "(ceil_div n k - 1) * k < n"
    by (simp_all only: ceil_div_eq left_diff_distrib minus_mult_left [symmetric] mult_1)
qed

lemma ceil_div_pos: "0 < k \<Longrightarrow> 0 < n \<Longrightarrow> 0 < ceil_div n k"
  using ceil_div_bounds(1) [of k n] by (metis linorder_not_less mult_nonpos_nonneg order_le_less_trans order_less_imp_le)

lemma ceil_div_zero [simp]: "ceil_div 0 k = 0"
  by (simp add: ceil_div_def)

lemma ceil_div_nonneg: "0 < k \<Longrightarrow> 0 \<le> n \<Longrightarrow> 0 \<le> ceil_div n k"
  using ceil_div_pos [of k n] by (cases "n = 0") auto

lemma concat_blocks: "concat (map (\<lambda>i. take k (drop (i * k) xs)) [0..<m]) = take (m * k) xs"
proof (induction m)
  case (Suc m)
  have "take (m * k) xs @ take k (drop (m * k) xs) = take (m * k + k) xs"
    by (rule take_add [symmetric])
  with Suc show ?case by (simp add: add.commute)
qed simp

lemma upto_map_int: "[0..int m - 1] = map int [0..<m]"
  by (rule nth_equalityI) simp_all

lemma concat_int_blocks:
  assumes k: "0 < k" and c: "int (length xs) \<le> c * k" and c0: "0 \<le> c"
  shows "concat (map (\<lambda>i. take (nat (min k (int (length xs) - i * k))) (drop (nat (i * k)) xs)) [0..c - 1]) = xs"
proof -
  obtain K where K: "k = int K" using k by (metis nonneg_int_cases order_less_imp_le)
  obtain C where C: "c = int C" using c0 by (metis nonneg_int_cases)
  have blk: "take (nat (min k (int (length xs) - int i * k))) (drop (nat (int i * k)) xs) = take K (drop (i * K) xs)" for i
  proof -
    have off: "nat (int i * k) = i * K" using K by (simp flip: of_nat_mult)
    have "nat (min k (int (length xs) - int i * k)) = min K (length xs - i * K)"
      using K off by (auto simp: min_def nat_diff_distrib simp flip: of_nat_mult)
    then show ?thesis unfolding off by (metis length_drop min.commute take_all_iff take_take nle_le)
  qed
  have "concat (map (\<lambda>i. take (nat (min k (int (length xs) - i * k))) (drop (nat (i * k)) xs)) [0..c - 1])
      = concat (map (\<lambda>i. take K (drop (i * K) xs)) [0..<C])"
    unfolding C upto_map_int by (simp add: comp_def blk)
  also have "\<dots> = take (C * K) xs" by (rule concat_blocks)
  also have "\<dots> = xs" using c K C by (simp flip: of_nat_mult)
  finally show ?thesis .
qed

end
