(* ===== verification/Js_Number.thy ===== *)
theory Js_Number
  imports Grid_Prelude
begin

text \<open>
  JavaScript numbers and the numeric helpers of \<open>packages/core/src/index.ts\<close>. A number is a finite
  real, an infinity or NaN. Finite arithmetic is exact: the rounding of binary64 (and the overflow of
  a finite result to an infinity) is not modelled, and zero has one sign. Quantities the code
  keeps as safe integers (sizes, counts, indices, milliseconds) are \<open>int\<close> everywhere else.
\<close>

section \<open>Numbers\<close>

datatype jsnum = Fin real | PosInf | NegInf | NaN

fun js_isFinite :: "jsnum \<Rightarrow> bool" where
  "js_isFinite (Fin _) = True"
| "js_isFinite _ = False"

definition MAX_SAFE_INTEGER :: int where
  "MAX_SAFE_INTEGER = 2 ^ 53 - 1"

definition is_integral :: "real \<Rightarrow> bool" where
  "is_integral x \<longleftrightarrow> of_int \<lfloor>x\<rfloor> = x"

fun js_isSafeInteger :: "jsnum \<Rightarrow> bool" where
  "js_isSafeInteger (Fin x) = (is_integral x \<and> \<bar>\<lfloor>x\<rfloor>\<bar> \<le> MAX_SAFE_INTEGER)"
| "js_isSafeInteger _ = False"

fun js_floor :: "jsnum \<Rightarrow> jsnum" where
  "js_floor (Fin x) = Fin (of_int \<lfloor>x\<rfloor>)"
| "js_floor n = n"

text \<open>Comparisons are false when a side is NaN.\<close>

fun js_less :: "jsnum \<Rightarrow> jsnum \<Rightarrow> bool" where
  "js_less NaN _ = False"
| "js_less _ NaN = False"
| "js_less (Fin x) (Fin y) = (x < y)"
| "js_less NegInf y = (y \<noteq> NegInf)"
| "js_less x PosInf = (x \<noteq> PosInf)"
| "js_less _ _ = False"

fun js_le :: "jsnum \<Rightarrow> jsnum \<Rightarrow> bool" where
  "js_le NaN _ = False"
| "js_le _ NaN = False"
| "js_le (Fin x) (Fin y) = (x \<le> y)"
| "js_le NegInf _ = True"
| "js_le _ PosInf = True"
| "js_le _ _ = False"

text \<open>\<open>Math.max\<close> and \<open>Math.min\<close> of two arguments: NaN wins.\<close>

definition js_max :: "jsnum \<Rightarrow> jsnum \<Rightarrow> jsnum" where
  "js_max a b = (if a = NaN \<or> b = NaN then NaN else if js_le a b then b else a)"

definition js_min :: "jsnum \<Rightarrow> jsnum \<Rightarrow> jsnum" where
  "js_min a b = (if a = NaN \<or> b = NaN then NaN else if js_le a b then a else b)"

lemma js_max_Fin [simp]: "js_max (Fin x) (Fin y) = Fin (max x y)"
  by (simp add: js_max_def max_def)

lemma js_min_Fin [simp]: "js_min (Fin x) (Fin y) = Fin (min x y)"
  by (simp add: js_min_def min_def)

lemma js_isFinite_iff: "js_isFinite n \<longleftrightarrow> (\<exists>x. n = Fin x)"
  by (cases n) auto

lemma is_integral_of_int [simp]: "is_integral (of_int i)"
  by (simp add: is_integral_def)

lemma js_isSafeInteger_iff:
  "js_isSafeInteger n \<longleftrightarrow> (\<exists>i. n = Fin (of_int i) \<and> \<bar>i\<bar> \<le> MAX_SAFE_INTEGER)"
proof (cases n)
  case (Fin x)
  show ?thesis
  proof
    assume "js_isSafeInteger n"
    with Fin have "n = Fin (of_int \<lfloor>x\<rfloor>) \<and> \<bar>\<lfloor>x\<rfloor>\<bar> \<le> MAX_SAFE_INTEGER" by (auto simp: is_integral_def)
    then show "\<exists>i. n = Fin (of_int i) \<and> \<bar>i\<bar> \<le> MAX_SAFE_INTEGER" by blast
  next
    assume "\<exists>i. n = Fin (of_int i) \<and> \<bar>i\<bar> \<le> MAX_SAFE_INTEGER"
    then obtain i where "n = Fin (of_int i)" and "\<bar>i\<bar> \<le> MAX_SAFE_INTEGER" by blast
    then show "js_isSafeInteger n" by simp
  qed
qed auto

definition num_of_int :: "int \<Rightarrow> jsnum" where
  "num_of_int i = Fin (of_int i)"

lemma num_of_int_inj [simp]: "num_of_int i = num_of_int j \<longleftrightarrow> i = j"
  by (simp add: num_of_int_def)

lemma js_isFinite_num_of_int [simp]: "js_isFinite (num_of_int i)"
  by (simp add: num_of_int_def)

section \<open>Argument checks\<close>

definition validation_error :: pons_error where
  "validation_error = PonsWarpError ''validation:invalid_number'' None None"

definition assertSafeNonNegativeInteger :: "jsnum \<Rightarrow> int result" where
  "assertSafeNonNegativeInteger value =
     (if \<not> js_isSafeInteger value \<or> js_less value (Fin 0) then Inl validation_error
      else case value of Fin x \<Rightarrow> Inr \<lfloor>x\<rfloor> | _ \<Rightarrow> Inl validation_error)"

definition assertPositiveSafeInteger :: "jsnum \<Rightarrow> int result" where
  "assertPositiveSafeInteger value =
     (if \<not> js_isSafeInteger value \<or> js_le value (Fin 0) then Inl validation_error
      else case value of Fin x \<Rightarrow> Inr \<lfloor>x\<rfloor> | _ \<Rightarrow> Inl validation_error)"

lemma assertSafeNonNegativeInteger_Inr:
  "assertSafeNonNegativeInteger n = Inr i \<longleftrightarrow> n = num_of_int i \<and> 0 \<le> i \<and> i \<le> MAX_SAFE_INTEGER"
  by (auto simp: assertSafeNonNegativeInteger_def js_isSafeInteger_iff num_of_int_def)

lemma assertPositiveSafeInteger_Inr:
  "assertPositiveSafeInteger n = Inr i \<longleftrightarrow> n = num_of_int i \<and> 0 < i \<and> i \<le> MAX_SAFE_INTEGER"
  by (auto simp: assertPositiveSafeInteger_def js_isSafeInteger_iff num_of_int_def)

section \<open>Clamping helpers\<close>

definition DEFAULT_TRANSFER_CHUNK_BYTES :: int where
  "DEFAULT_TRANSFER_CHUNK_BYTES = 64 * 1024"

definition MAX_TRANSFER_CHUNK_BYTES :: int where
  "MAX_TRANSFER_CHUNK_BYTES = 256 * 1024"

definition clampTransferChunkBytes :: "jsnum \<Rightarrow> jsnum \<Rightarrow> jsnum" where
  "clampTransferChunkBytes requestedBytes maxBytes =
     (let flr = Fin 1;
          cap = js_max flr (js_floor maxBytes)
      in if \<not> js_isFinite requestedBytes then num_of_int DEFAULT_TRANSFER_CHUNK_BYTES
         else let requested = js_floor requestedBytes
              in if js_le requested (Fin 0) then num_of_int DEFAULT_TRANSFER_CHUNK_BYTES
                 else js_min (js_max requested flr) cap)"

definition clampPercent :: "jsnum \<Rightarrow> jsnum" where
  "clampPercent value =
     (if \<not> js_isFinite value then Fin 0 else js_max (Fin 0) (js_min (Fin 100) value))"

definition calculateProgressPercent :: "jsnum \<Rightarrow> jsnum \<Rightarrow> jsnum" where
  "calculateProgressPercent bytesTransferred totalBytes =
     (case totalBytes of
        Fin tb \<Rightarrow>
          (if tb \<le> 0 then Fin 0
           else let safeBytes = (case bytesTransferred of Fin b \<Rightarrow> max 0 b | _ \<Rightarrow> 0)
                in clampPercent (Fin ((safeBytes / tb) * 100)))
      | _ \<Rightarrow> Fin 0)"

definition clampBytes :: "jsnum \<Rightarrow> int \<Rightarrow> int" where
  "clampBytes value hi =
     (case value of Fin v \<Rightarrow> max 0 (min hi \<lfloor>v\<rfloor>) | _ \<Rightarrow> 0)"

lemma clampPercent_range: "\<exists>p. clampPercent v = Fin p \<and> 0 \<le> p \<and> p \<le> 100"
  by (cases v) (simp_all add: clampPercent_def)

lemma calculateProgressPercent_range:
  "\<exists>p. calculateProgressPercent b t = Fin p \<and> 0 \<le> p \<and> p \<le> 100"
  using clampPercent_range by (cases t) (auto simp: calculateProgressPercent_def Let_def)

lemma calculateProgressPercent_exact:
  assumes "0 \<le> b" and "b \<le> t" and "0 < t"
  shows "calculateProgressPercent (num_of_int b) (num_of_int t) = Fin (of_int b / of_int t * 100)"
proof -
  have "(of_int b :: real) / of_int t \<le> 1" using assms by simp
  then have "(of_int b :: real) / of_int t * 100 \<le> 1 * 100" by (rule mult_right_mono) simp
  with assms show ?thesis
    by (simp add: calculateProgressPercent_def num_of_int_def clampPercent_def)
qed

lemma clampBytes_bounds: "0 \<le> m \<Longrightarrow> 0 \<le> clampBytes v m \<and> clampBytes v m \<le> m"
  by (cases v) (auto simp: clampBytes_def)

lemma clampBytes_id: "0 \<le> b \<Longrightarrow> b \<le> m \<Longrightarrow> clampBytes (num_of_int b) m = b"
  by (simp add: clampBytes_def num_of_int_def)

text \<open>
  \<open>clampTransferChunkBytes\<close> always returns a positive whole number of bytes, never more than
  the larger of the requested ceiling and the 64 KiB default; a positive finite request within the
  ceiling is only rounded down (to at least one byte).
\<close>

theorem clampTransferChunkBytes_bounds:
  "\<exists>n. clampTransferChunkBytes requested (Fin m) = num_of_int n \<and> 1 \<le> n \<and>
       n \<le> max DEFAULT_TRANSFER_CHUNK_BYTES \<lfloor>m\<rfloor> \<and>
       (case requested of
          Fin r \<Rightarrow> if 1 \<le> r then n = min \<lfloor>r\<rfloor> (max 1 \<lfloor>m\<rfloor>) else n = DEFAULT_TRANSFER_CHUNK_BYTES
        | _ \<Rightarrow> n = DEFAULT_TRANSFER_CHUNK_BYTES)"
proof (cases requested)
  case (Fin r)
  have cap: "max (1::real) (of_int \<lfloor>m\<rfloor>) = of_int (max 1 \<lfloor>m\<rfloor>)" by simp
  show ?thesis
  proof (cases "1 \<le> r")
    case True
    then have r: "1 \<le> \<lfloor>r\<rfloor>" by (simp add: one_le_floor)
    have "max (of_int \<lfloor>r\<rfloor>) (1::real) = of_int \<lfloor>r\<rfloor>" by (rule max_absorb1) (use r in simp)
    then have "clampTransferChunkBytes requested (Fin m) = num_of_int (min \<lfloor>r\<rfloor> (max 1 \<lfloor>m\<rfloor>))"
      using Fin r True by (simp add: clampTransferChunkBytes_def num_of_int_def Let_def)
    with Fin True r show ?thesis
      by (intro exI [of _ "min \<lfloor>r\<rfloor> (max 1 \<lfloor>m\<rfloor>)"])
        (simp add: DEFAULT_TRANSFER_CHUNK_BYTES_def del: one_le_floor)
  next
    case False
    then have "\<lfloor>r\<rfloor> \<le> 0" by (simp add: floor_le_iff)
    with Fin False show ?thesis
      by (simp add: clampTransferChunkBytes_def num_of_int_def DEFAULT_TRANSFER_CHUNK_BYTES_def)
  qed
qed (simp_all add: clampTransferChunkBytes_def num_of_int_def DEFAULT_TRANSFER_CHUNK_BYTES_def)

end
