(* ===== verification/Js_Text.thy ===== *)
theory Js_Text
  imports Js_Number
begin

text \<open>
  What the sources use of JavaScript's string library: trimming, letter case, \<open>slice\<close> and \<open>startsWith\<close>, and the conversion of a text to a
  number by \<open>Number(text)\<close>. A text is a list of UTF-16 code units below 256. As everywhere, a finite number is its exact
  value; rounding to binary64 is not modelled.
\<close>

section \<open>Characters\<close>

definition js_space :: "char \<Rightarrow> bool" where
  "js_space c \<longleftrightarrow> (let n = of_char c :: nat in 9 \<le> n \<and> n \<le> 13 \<or> n = 32 \<or> n = 160)"

definition js_trim :: "string \<Rightarrow> string" where
  "js_trim s = rev (dropWhile js_space (rev (dropWhile js_space s)))"

definition lower_char :: "char \<Rightarrow> char" where
  "lower_char c =
     (let n = of_char c :: nat in
      if 65 \<le> n \<and> n \<le> 90 \<or> 192 \<le> n \<and> n \<le> 222 \<and> n \<noteq> 215 then char_of (n + 32) else c)"

definition js_startsWith :: "string \<Rightarrow> string \<Rightarrow> bool" where
  "js_startsWith s p \<longleftrightarrow> take (length p) s = p"

lemma js_startsWith_append [simp]: "js_startsWith (p @ s) p"
  by (simp add: js_startsWith_def)

lemma js_startsWith_iff: "js_startsWith s p \<longleftrightarrow> (\<exists>r. s = p @ r)"
  by (metis append_take_drop_id js_startsWith_append js_startsWith_def)

lemma dropWhile_none: "\<forall>c \<in> set s. \<not> p c \<Longrightarrow> dropWhile p s = s"
  by (cases s) auto

lemma js_trim_id: "\<forall>c \<in> set s. \<not> js_space c \<Longrightarrow> js_trim s = s"
  by (simp add: js_trim_def dropWhile_none)

section \<open>Numbers\<close>

definition digit_value :: "char \<Rightarrow> nat option" where
  "digit_value c =
     (let n = of_char c :: nat in
      if 48 \<le> n \<and> n \<le> 57 then Some (n - 48)
      else if 65 \<le> n \<and> n \<le> 70 then Some (n - 55)
      else if 97 \<le> n \<and> n \<le> 102 then Some (n - 87)
      else None)"

definition radix_digit :: "nat \<Rightarrow> char \<Rightarrow> bool" where
  "radix_digit radix c \<longleftrightarrow> (case digit_value c of Some d \<Rightarrow> d < radix | None \<Rightarrow> False)"

definition digits_value :: "nat \<Rightarrow> string \<Rightarrow> nat" where
  "digits_value radix s = foldl (\<lambda>n c. n * radix + the (digit_value c)) 0 s"

text \<open>The exponent of a decimal literal and what is left of the text; none when the text does not end after it.\<close>

definition read_exponent :: "string \<Rightarrow> int option" where
  "read_exponent s =
     (case s of
        [] \<Rightarrow> Some 0
      | e # r \<Rightarrow>
          let (sign, ds) = (case r of c # r' \<Rightarrow> if c = CHR ''-'' then (- 1, r') else if c = CHR ''+'' then (1, r') else (1, r)
                                    | [] \<Rightarrow> (1, r)) in
          if (e = CHR ''e'' \<or> e = CHR ''E'') \<and> ds \<noteq> [] \<and> (\<forall>c \<in> set ds. radix_digit 10 c)
          then Some (sign * int (digits_value 10 ds)) else None)"

text \<open>A decimal literal without a sign.\<close>

definition read_decimal :: "string \<Rightarrow> real option" where
  "read_decimal s =
     (let whole = takeWhile (radix_digit 10) s;
          r = dropWhile (radix_digit 10) s;
          (frac, r') = (case r of c # t \<Rightarrow> if c = CHR ''.'' then (takeWhile (radix_digit 10) t, dropWhile (radix_digit 10) t) else ([], r)
                                | [] \<Rightarrow> ([], r)) in
      if whole = [] \<and> frac = [] then None
      else map_option (\<lambda>e. real (digits_value 10 (whole @ frac)) * 10 powi (e - int (length frac))) (read_exponent r'))"

definition read_signed :: "string \<Rightarrow> jsnum" where
  "read_signed s =
     (let (neg, t) = (case s of c # r \<Rightarrow> if c = CHR ''-'' then (True, r) else if c = CHR ''+'' then (False, r) else (False, s)
                              | [] \<Rightarrow> (False, s)) in
      if t = ''Infinity'' then (if neg then NegInf else PosInf)
      else case read_decimal t of None \<Rightarrow> NaN | Some x \<Rightarrow> Fin (if neg then - x else x))"

definition radix_of :: "char \<Rightarrow> nat option" where
  "radix_of c = (if c = CHR ''x'' \<or> c = CHR ''X'' then Some 16
                 else if c = CHR ''o'' \<or> c = CHR ''O'' then Some 8
                 else if c = CHR ''b'' \<or> c = CHR ''B'' then Some 2 else None)"

definition js_Number :: "string \<Rightarrow> jsnum" where
  "js_Number s =
     (let t = js_trim s in
      if t = [] then Fin 0
      else case t of
        a # b # ds \<Rightarrow>
          (case (if a = CHR ''0'' then radix_of b else None) of
             Some radix \<Rightarrow> if ds \<noteq> [] \<and> (\<forall>c \<in> set ds. radix_digit radix c) then Fin (real (digits_value radix ds)) else NaN
           | None \<Rightarrow> read_signed t)
      | _ \<Rightarrow> read_signed t)"

text \<open>The decimal rendering of a number reads back as the number.\<close>

lemma digit_value_digit_char [simp]: "d < 10 \<Longrightarrow> digit_value (digit_char d) = Some d"
  by (simp add: digit_value_def Let_def of_char_digit_char)

lemma radix_digit_digit_char [simp]: "d < 10 \<Longrightarrow> radix_digit 10 (digit_char d)"
  by (simp add: radix_digit_def)

lemma show_nat_radix_digit: "c \<in> set (show_nat n) \<Longrightarrow> radix_digit 10 c"
  using show_nat_digits [of n] by auto

lemma digits_value_append_digit: "digits_value 10 (s @ [c]) = digits_value 10 s * 10 + the (digit_value c)"
  by (simp add: digits_value_def)

lemma digits_value_show_nat [simp]: "digits_value 10 (show_nat n) = n"
proof (induction n rule: show_nat.induct)
  case (1 n)
  show ?case
  proof (cases "n < 10")
    case True
    then show ?thesis by (simp add: show_nat_small digits_value_def)
  next
    case False
    with 1 show ?thesis by (simp add: show_nat_large digits_value_append_digit)
  qed
qed

lemma radix_digit_not_space: "radix_digit 10 c \<Longrightarrow> \<not> js_space c"
  by (auto simp: radix_digit_def digit_value_def js_space_def Let_def split: if_splits)

lemma not_digits [simp]:
  "\<not> radix_digit 10 (CHR ''-'')" "\<not> radix_digit 10 (CHR ''+'')" "\<not> radix_digit 10 (CHR ''I'')"
  "\<not> radix_digit 10 (CHR ''x'')" "\<not> radix_digit 10 (CHR ''X'')" "\<not> radix_digit 10 (CHR ''o'')"
  "\<not> radix_digit 10 (CHR ''O'')" "\<not> radix_digit 10 (CHR ''b'')" "\<not> radix_digit 10 (CHR ''B'')"
  by (simp_all add: radix_digit_def digit_value_def)

lemma radix_digit_10_not: "radix_digit 10 c \<Longrightarrow> c \<noteq> CHR ''-'' \<and> c \<noteq> CHR ''+'' \<and> c \<noteq> CHR ''I'' \<and> radix_of c = None"
  using not_digits by (metis radix_of_def)

lemma takeWhile_all: "\<forall>c \<in> set s. p c \<Longrightarrow> takeWhile p s = s \<and> dropWhile p s = []"
  by (simp add: takeWhile_eq_all_conv dropWhile_eq_Nil_conv)

lemma read_decimal_digits:
  "s \<noteq> [] \<Longrightarrow> \<forall>c \<in> set s. radix_digit 10 c \<Longrightarrow> read_decimal s = Some (real (digits_value 10 s))"
  by (simp add: read_decimal_def takeWhile_all read_exponent_def)

lemma read_signed_digits:
  assumes "s \<noteq> []" and "\<forall>c \<in> set s. radix_digit 10 c"
  shows "read_signed s = Fin (real (digits_value 10 s))"
proof -
  obtain c r where s: "s = c # r" using assms(1) by (cases s) auto
  with assms(2) radix_digit_10_not [of c] have "c \<noteq> CHR ''-''" "c \<noteq> CHR ''+''" "c \<noteq> CHR ''I''" by simp_all
  moreover have "s \<noteq> ''Infinity''" using s calculation by auto
  ultimately show ?thesis using read_decimal_digits [OF assms] by (simp add: read_signed_def s)
qed

lemma js_Number_digits:
  assumes "s \<noteq> []" and "\<forall>c \<in> set s. radix_digit 10 c"
  shows "js_Number s = Fin (real (digits_value 10 s))"
proof -
  have t: "js_trim s = s" using assms(2) radix_digit_not_space by (intro js_trim_id) blast
  have radix: "radix_of b = None" if "s = a # b # ds" for a b ds
    using assms(2) radix_digit_10_not [of b] that by simp
  show ?thesis using assms(1) read_signed_digits [OF assms] radix t by (auto simp: js_Number_def split: list.split)
qed

lemma js_Number_show_nat [simp]: "js_Number (show_nat n) = Fin (real n)"
  by (simp add: js_Number_digits show_nat_radix_digit)

lemma js_Number_show_int: "0 \<le> i \<Longrightarrow> js_Number (show_int i) = Fin (of_int i)"
  by (simp add: show_int_def)

end
