(* ===== verification/Cli_Arguments.thy ===== *)
theory Cli_Arguments
  imports Js_Text
begin

text \<open>
  The command line of \<open>packages/cli/src/index.ts\<close>: \<open>parseCliArgs\<close>, the parsers of its commands and the option readers they
  share. An error is the message of the \<open>CliUsageError\<close> that is thrown. The environment variable
  \<open>PONSWARP_COORDINATOR_URL\<close> is the argument \<open>env\<close>. The specification is a printer of commands: it and the parser are inverse to
  each other on well-formed commands.
\<close>

section \<open>Commands\<close>

datatype path_choice = Path_Host | Path_Srflx | Path_Relay | Path_Unknown

record send_command =
  sn_file :: string
  sn_signal :: string
  sn_listen :: string
  sn_advertise :: "string option"
  sn_pieceSize :: int
  sn_session :: "string option"
  sn_keepOpen :: bool
  sn_pathKind :: path_choice

record join_command =
  jn_session :: string
  jn_signal :: string
  jn_listen :: string
  jn_advertise :: "string option"
  jn_peer :: "string option"
  jn_outDir :: string
  jn_seedAfterComplete :: bool
  jn_maxPeers :: int
  jn_transferWindow :: int
  jn_pathKind :: path_choice

record serve_command =
  sv_host :: string
  sv_port :: int

text \<open>\<open>CoordinatorOptions\<close>; the command \<open>files\<close> has no \<open>dryRun\<close>.\<close>

record coordinator_options =
  co_coordinator :: string
  co_workspace :: string
  co_json :: bool

record node_command = coordinator_options +
  nd_nodeId :: string
  nd_displayName :: string
  nd_publicKey :: string
  nd_directJoin :: "string option"
  nd_dryRun :: bool

record publish_command = coordinator_options +
  pb_file :: string
  pb_nodeId :: string
  pb_pieceSize :: int
  pb_dryRun :: bool

record download_command = coordinator_options +
  dl_fileId :: string
  dl_outDir :: string
  dl_dryRun :: bool

record share_command = coordinator_options +
  sh_file :: string
  sh_nodeId :: "string option"
  sh_pieceSize :: int
  sh_ttlSeconds :: "int option"
  sh_dryRun :: bool

record get_command = coordinator_options +
  gt_code :: string
  gt_outDir :: string
  gt_dryRun :: bool

datatype parsed_command =
    Cmd_Send send_command
  | Cmd_Join join_command
  | Cmd_ServeSignal serve_command
  | Cmd_Status string
  | Cmd_Clean string
  | Cmd_NodeStart node_command
  | Cmd_Publish publish_command
  | Cmd_Files coordinator_options
  | Cmd_Download download_command
  | Cmd_Share share_command
  | Cmd_Get get_command
  | Cmd_Help
  | Cmd_Version

type_synonym 'a parsed = "string + 'a"

definition DEFAULT_SIGNAL :: string where "DEFAULT_SIGNAL = ''auto''"

definition DEFAULT_LISTEN :: string where "DEFAULT_LISTEN = ''127.0.0.1:0''"

definition DEFAULT_PIECE_SIZE :: int where "DEFAULT_PIECE_SIZE = 1024 * 1024"

definition DEFAULT_OUT_DIR :: string where "DEFAULT_OUT_DIR = ''.''"

definition DEFAULT_MAX_PEERS :: int where "DEFAULT_MAX_PEERS = 8"

definition DEFAULT_TRANSFER_WINDOW :: int where "DEFAULT_TRANSFER_WINDOW = 1"

definition DEFAULT_COORDINATOR :: "string option \<Rightarrow> string" where
  "DEFAULT_COORDINATOR env = (case env of Some url \<Rightarrow> url | None \<Rightarrow> ''https://grid.ponslink.com'')"

definition TCP_PORT_MAX :: int where "TCP_PORT_MAX = 65535"

section \<open>Options\<close>

datatype option_value = Flag | Value string

type_synonym option_map = "(string, option_value) js_map"

definition isBooleanFlag :: "string \<Rightarrow> bool" where
  "isBooleanFlag key \<longleftrightarrow> key = ''keep-open'' \<or> key = ''seed-after-complete'' \<or> key = ''json'' \<or> key = ''dry-run''"

definition setKnownOption :: "option_map \<Rightarrow> string list \<Rightarrow> string \<Rightarrow> option_value \<Rightarrow> option_map parsed" where
  "setKnownOption options allowed key v =
     (if key \<notin> set allowed then Inl (''Unknown option: --'' @ key) else Inr (jm_set key v options))"

text \<open>Where the text before the first equals sign ends; none when there is no such sign.\<close>

definition split_eq :: "string \<Rightarrow> (string \<times> string) option" where
  "split_eq s = (if CHR ''='' \<in> set s
     then Some (takeWhile (\<lambda>c. c \<noteq> CHR ''='') s, tl (dropWhile (\<lambda>c. c \<noteq> CHR ''='') s)) else None)"

fun parse_options :: "string list \<Rightarrow> string list \<Rightarrow> string list \<Rightarrow> option_map \<Rightarrow> (string list \<times> option_map) parsed" where
  "parse_options allowed [] positionals options = Inr (positionals, options)"
| "parse_options allowed (arg # args) positionals options =
     (if arg = ''--'' then Inr (positionals @ args, options)
      else if \<not> js_startsWith arg ''--'' then parse_options allowed args (positionals @ [arg]) options
      else case split_eq (drop 2 arg) of
        Some (key, v) \<Rightarrow>
          if key = '''' then Inl (''Invalid option: '' @ arg)
          else bind_result (setKnownOption options allowed key (Value v)) (parse_options allowed args positionals)
      | None \<Rightarrow>
          let key = drop 2 arg in
          if key = '''' then Inl (''Invalid option: '' @ arg)
          else if isBooleanFlag key
            then bind_result (setKnownOption options allowed key Flag) (parse_options allowed args positionals)
          else case args of
            [] \<Rightarrow> Inl (''Missing value for --'' @ key)
          | v # rest \<Rightarrow>
              if v = '''' \<or> js_startsWith v ''--'' then Inl (''Missing value for --'' @ key)
              else bind_result (setKnownOption options allowed key (Value v)) (parse_options allowed rest positionals))"

definition parseOptions :: "string list \<Rightarrow> string list \<Rightarrow> (string list \<times> option_map) parsed" where
  "parseOptions args allowed = parse_options allowed args [] []"

definition optionalStringOption :: "option_map \<Rightarrow> string \<Rightarrow> string option parsed" where
  "optionalStringOption options key =
     (case jm_get options key of
        None \<Rightarrow> Inr None
      | Some Flag \<Rightarrow> Inl (''--'' @ key @ '' requires a value'')
      | Some (Value v) \<Rightarrow> if v = [] then Inl (''--'' @ key @ '' requires a value'') else Inr (Some v))"

definition stringOption :: "option_map \<Rightarrow> string \<Rightarrow> string \<Rightarrow> string parsed" where
  "stringOption options key fallback =
     (case jm_get options key of
        None \<Rightarrow> Inr fallback
      | Some Flag \<Rightarrow> Inl (''--'' @ key @ '' requires a value'')
      | Some (Value v) \<Rightarrow> if v = [] then Inl (''--'' @ key @ '' requires a value'') else Inr v)"

definition requiredStringOption :: "option_map \<Rightarrow> string \<Rightarrow> string parsed" where
  "requiredStringOption options key =
     bind_result (optionalStringOption options key) (\<lambda>v.
       case v of None \<Rightarrow> Inl (''--'' @ key @ '' is required'')
       | Some s \<Rightarrow> if s = [] then Inl (''--'' @ key @ '' is required'') else Inr s)"

definition booleanOption :: "option_map \<Rightarrow> string \<Rightarrow> bool parsed" where
  "booleanOption options key =
     (case jm_get options key of
        None \<Rightarrow> Inr False
      | Some (Value _) \<Rightarrow> Inl (''--'' @ key @ '' does not take a value'')
      | Some Flag \<Rightarrow> Inr True)"

definition positive_integer :: "string \<Rightarrow> string \<Rightarrow> int parsed" where
  "positive_integer key raw =
     (case js_Number raw of
        Fin x \<Rightarrow> if \<not> js_isSafeInteger (Fin x) \<or> x \<le> 0 then Inl (''--'' @ key @ '' must be a positive integer'') else Inr \<lfloor>x\<rfloor>
      | _ \<Rightarrow> Inl (''--'' @ key @ '' must be a positive integer''))"

definition positiveIntegerOption :: "option_map \<Rightarrow> string \<Rightarrow> int \<Rightarrow> int parsed" where
  "positiveIntegerOption options key fallback =
     (case jm_get options key of
        None \<Rightarrow> Inr fallback
      | Some Flag \<Rightarrow> Inl (''--'' @ key @ '' requires a value'')
      | Some (Value raw) \<Rightarrow> positive_integer key raw)"

definition optionalPositiveIntegerOption :: "option_map \<Rightarrow> string \<Rightarrow> int option parsed" where
  "optionalPositiveIntegerOption options key =
     (case jm_get options key of
        None \<Rightarrow> Inr None
      | Some Flag \<Rightarrow> Inl (''--'' @ key @ '' requires a value'')
      | Some (Value raw) \<Rightarrow> bind_result (positive_integer key raw) (\<lambda>n. Inr (Some n)))"

definition tcpPortOption :: "option_map \<Rightarrow> string \<Rightarrow> int \<Rightarrow> int parsed" where
  "tcpPortOption options key fallback =
     bind_result (positiveIntegerOption options key fallback) (\<lambda>v.
       if TCP_PORT_MAX < v then Inl (''--'' @ key @ '' must be between 1 and '' @ show_int TCP_PORT_MAX) else Inr v)"

definition pathKindOption :: "option_map \<Rightarrow> string \<Rightarrow> path_choice \<Rightarrow> path_choice parsed" where
  "pathKindOption options key fallback =
     (case jm_get options key of
        None \<Rightarrow> Inr fallback
      | Some Flag \<Rightarrow> Inl (''--'' @ key @ '' requires host|srflx|relay|unknown'')
      | Some (Value raw) \<Rightarrow>
          let v = map lower_char raw in
          if v = ''host'' then Inr Path_Host
          else if v = ''srflx'' then Inr Path_Srflx
          else if v = ''relay'' then Inr Path_Relay
          else if v = ''unknown'' then Inr Path_Unknown
          else Inl (''--'' @ key @ '' must be host|srflx|relay|unknown''))"

section \<open>Commands\<close>

text \<open>The one positional argument of most commands: \<open>what\<close> is how messages name it.\<close>

definition only_positional :: "string \<Rightarrow> string \<Rightarrow> string \<Rightarrow> string list \<Rightarrow> string parsed" where
  "only_positional name missing what positionals =
     (case positionals of
        [] \<Rightarrow> Inl (name @ '' requires '' @ missing)
      | p # rest \<Rightarrow>
          if p = '''' then Inl (name @ '' requires '' @ missing)
          else if rest \<noteq> [] then Inl (name @ '' accepts one '' @ what @ '', got '' @ show_nat (length positionals))
          else Inr p)"

definition parseSend :: "string list \<Rightarrow> parsed_command parsed" where
  "parseSend args =
     bind_result (parseOptions args [''signal'', ''listen'', ''advertise'', ''piece-size'', ''session'', ''keep-open'', ''path-kind'']) (\<lambda>(positionals, options).
     bind_result (only_positional ''send'' ''<file>'' ''file'' positionals) (\<lambda>f.
     bind_result (stringOption options ''signal'' DEFAULT_SIGNAL) (\<lambda>signal.
     bind_result (stringOption options ''listen'' DEFAULT_LISTEN) (\<lambda>listen.
     bind_result (optionalStringOption options ''advertise'') (\<lambda>advertise.
     bind_result (positiveIntegerOption options ''piece-size'' DEFAULT_PIECE_SIZE) (\<lambda>pieceSize.
     bind_result (optionalStringOption options ''session'') (\<lambda>session.
     bind_result (booleanOption options ''keep-open'') (\<lambda>keepOpen.
     bind_result (pathKindOption options ''path-kind'' Path_Unknown) (\<lambda>pathKind.
       Inr (Cmd_Send \<lparr>sn_file = f, sn_signal = signal, sn_listen = listen, sn_advertise = advertise, sn_pieceSize = pieceSize,
         sn_session = session, sn_keepOpen = keepOpen, sn_pathKind = pathKind\<rparr>))))))))))"

definition parseJoin :: "string list \<Rightarrow> parsed_command parsed" where
  "parseJoin args =
     bind_result (parseOptions args [''signal'', ''listen'', ''advertise'', ''out'', ''peer'', ''seed-after-complete'', ''max-peers'', ''transfer-window'', ''path-kind'']) (\<lambda>(positionals, options).
     bind_result (only_positional ''join'' ''<session-or-url>'' ''session'' positionals) (\<lambda>session.
     bind_result (stringOption options ''signal'' DEFAULT_SIGNAL) (\<lambda>signal.
     bind_result (stringOption options ''listen'' DEFAULT_LISTEN) (\<lambda>listen.
     bind_result (optionalStringOption options ''advertise'') (\<lambda>advertise.
     bind_result (stringOption options ''out'' DEFAULT_OUT_DIR) (\<lambda>outDir.
     bind_result (optionalStringOption options ''peer'') (\<lambda>peer.
     bind_result (booleanOption options ''seed-after-complete'') (\<lambda>seed.
     bind_result (positiveIntegerOption options ''max-peers'' DEFAULT_MAX_PEERS) (\<lambda>maxPeers.
     bind_result (positiveIntegerOption options ''transfer-window'' DEFAULT_TRANSFER_WINDOW) (\<lambda>window.
     bind_result (pathKindOption options ''path-kind'' Path_Unknown) (\<lambda>pathKind.
       Inr (Cmd_Join \<lparr>jn_session = session, jn_signal = signal, jn_listen = listen, jn_advertise = advertise, jn_peer = peer,
         jn_outDir = outDir, jn_seedAfterComplete = seed, jn_maxPeers = maxPeers, jn_transferWindow = window,
         jn_pathKind = pathKind\<rparr>))))))))))))"

definition parseServeSignal :: "string list \<Rightarrow> parsed_command parsed" where
  "parseServeSignal args =
     bind_result (parseOptions args [''host'', ''port'']) (\<lambda>(positionals, options).
     if positionals \<noteq> [] then Inl ''serve-signal does not accept positional arguments''
     else bind_result (stringOption options ''host'' ''0.0.0.0'') (\<lambda>host.
     bind_result (tcpPortOption options ''port'' 8787) (\<lambda>port.
       Inr (Cmd_ServeSignal \<lparr>sv_host = host, sv_port = port\<rparr>))))"

definition parseSessionOnly :: "string \<Rightarrow> string list \<Rightarrow> string parsed" where
  "parseSessionOnly command args =
     bind_result (parseOptions args []) (\<lambda>(positionals, options).
     if options \<noteq> [] then Inl (command @ '' does not accept options yet'')
     else only_positional command ''<session>'' ''session'' positionals)"

definition parseNode :: "string option \<Rightarrow> string list \<Rightarrow> parsed_command parsed" where
  "parseNode env args =
     (if args = [] \<or> hd args \<noteq> ''start'' then Inl ''node requires subcommand: start''
      else bind_result (parseOptions (tl args) [''coordinator'', ''workspace'', ''node-id'', ''display-name'', ''public-key'', ''direct-join'', ''json'', ''dry-run'']) (\<lambda>(positionals, options).
     if positionals \<noteq> [] then Inl ''node start does not accept positional arguments''
     else bind_result (stringOption options ''coordinator'' (DEFAULT_COORDINATOR env)) (\<lambda>coordinator.
     bind_result (requiredStringOption options ''workspace'') (\<lambda>workspace.
     bind_result (requiredStringOption options ''node-id'') (\<lambda>nodeId.
     bind_result (stringOption options ''display-name'' nodeId) (\<lambda>displayName.
     bind_result (requiredStringOption options ''public-key'') (\<lambda>publicKey.
     bind_result (optionalStringOption options ''direct-join'') (\<lambda>directJoin.
     bind_result (booleanOption options ''json'') (\<lambda>json.
     bind_result (booleanOption options ''dry-run'') (\<lambda>dryRun.
       Inr (Cmd_NodeStart \<lparr>co_coordinator = coordinator, co_workspace = workspace, co_json = json, nd_nodeId = nodeId,
         nd_displayName = displayName, nd_publicKey = publicKey, nd_directJoin = directJoin, nd_dryRun = dryRun\<rparr>)))))))))))"

definition parsePublish :: "string option \<Rightarrow> string list \<Rightarrow> parsed_command parsed" where
  "parsePublish env args =
     bind_result (parseOptions args [''coordinator'', ''workspace'', ''node-id'', ''piece-size'', ''json'', ''dry-run'']) (\<lambda>(positionals, options).
     bind_result (only_positional ''publish'' ''<file>'' ''file'' positionals) (\<lambda>f.
     bind_result (stringOption options ''coordinator'' (DEFAULT_COORDINATOR env)) (\<lambda>coordinator.
     bind_result (requiredStringOption options ''workspace'') (\<lambda>workspace.
     bind_result (requiredStringOption options ''node-id'') (\<lambda>nodeId.
     bind_result (positiveIntegerOption options ''piece-size'' DEFAULT_PIECE_SIZE) (\<lambda>pieceSize.
     bind_result (booleanOption options ''json'') (\<lambda>json.
     bind_result (booleanOption options ''dry-run'') (\<lambda>dryRun.
       Inr (Cmd_Publish \<lparr>co_coordinator = coordinator, co_workspace = workspace, co_json = json, pb_file = f,
         pb_nodeId = nodeId, pb_pieceSize = pieceSize, pb_dryRun = dryRun\<rparr>)))))))))"

definition parseFiles :: "string option \<Rightarrow> string list \<Rightarrow> parsed_command parsed" where
  "parseFiles env args =
     bind_result (parseOptions args [''coordinator'', ''workspace'', ''json'']) (\<lambda>(positionals, options).
     if positionals \<noteq> [] then Inl ''files does not accept positional arguments''
     else bind_result (stringOption options ''coordinator'' (DEFAULT_COORDINATOR env)) (\<lambda>coordinator.
     bind_result (requiredStringOption options ''workspace'') (\<lambda>workspace.
     bind_result (booleanOption options ''json'') (\<lambda>json.
       Inr (Cmd_Files \<lparr>co_coordinator = coordinator, co_workspace = workspace, co_json = json\<rparr>)))))"

definition parseDownload :: "string option \<Rightarrow> string list \<Rightarrow> parsed_command parsed" where
  "parseDownload env args =
     bind_result (parseOptions args [''coordinator'', ''workspace'', ''out'', ''json'', ''dry-run'']) (\<lambda>(positionals, options).
     bind_result (only_positional ''download'' ''<file-id>'' ''file id'' positionals) (\<lambda>fileId.
     bind_result (stringOption options ''coordinator'' (DEFAULT_COORDINATOR env)) (\<lambda>coordinator.
     bind_result (requiredStringOption options ''workspace'') (\<lambda>workspace.
     bind_result (stringOption options ''out'' DEFAULT_OUT_DIR) (\<lambda>outDir.
     bind_result (booleanOption options ''json'') (\<lambda>json.
     bind_result (booleanOption options ''dry-run'') (\<lambda>dryRun.
       Inr (Cmd_Download \<lparr>co_coordinator = coordinator, co_workspace = workspace, co_json = json, dl_fileId = fileId,
         dl_outDir = outDir, dl_dryRun = dryRun\<rparr>))))))))"

definition parseShare :: "string option \<Rightarrow> string list \<Rightarrow> parsed_command parsed" where
  "parseShare env args =
     bind_result (parseOptions args [''coordinator'', ''workspace'', ''node-id'', ''piece-size'', ''ttl-seconds'', ''json'', ''dry-run'']) (\<lambda>(positionals, options).
     bind_result (only_positional ''share'' ''<file>'' ''file'' positionals) (\<lambda>f.
     bind_result (stringOption options ''coordinator'' (DEFAULT_COORDINATOR env)) (\<lambda>coordinator.
     bind_result (stringOption options ''workspace'' ''default'') (\<lambda>workspace.
     bind_result (optionalStringOption options ''node-id'') (\<lambda>nodeId.
     bind_result (positiveIntegerOption options ''piece-size'' DEFAULT_PIECE_SIZE) (\<lambda>pieceSize.
     bind_result (optionalPositiveIntegerOption options ''ttl-seconds'') (\<lambda>ttl.
     bind_result (booleanOption options ''json'') (\<lambda>json.
     bind_result (booleanOption options ''dry-run'') (\<lambda>dryRun.
       Inr (Cmd_Share \<lparr>co_coordinator = coordinator, co_workspace = workspace, co_json = json, sh_file = f,
         sh_nodeId = nodeId, sh_pieceSize = pieceSize, sh_ttlSeconds = ttl, sh_dryRun = dryRun\<rparr>))))))))))"

definition parseGet :: "string option \<Rightarrow> string list \<Rightarrow> parsed_command parsed" where
  "parseGet env args =
     bind_result (parseOptions args [''coordinator'', ''workspace'', ''out'', ''json'', ''dry-run'']) (\<lambda>(positionals, options).
     bind_result (only_positional ''get'' ''<share-code-or-link>'' ''share code or link'' positionals) (\<lambda>code.
     bind_result (stringOption options ''coordinator'' (DEFAULT_COORDINATOR env)) (\<lambda>coordinator.
     bind_result (stringOption options ''workspace'' ''default'') (\<lambda>workspace.
     bind_result (stringOption options ''out'' DEFAULT_OUT_DIR) (\<lambda>outDir.
     bind_result (booleanOption options ''json'') (\<lambda>json.
     bind_result (booleanOption options ''dry-run'') (\<lambda>dryRun.
       Inr (Cmd_Get \<lparr>co_coordinator = coordinator, co_workspace = workspace, co_json = json, gt_code = code,
         gt_outDir = outDir, gt_dryRun = dryRun\<rparr>))))))))"

definition parseCliArgs :: "string option \<Rightarrow> string list \<Rightarrow> parsed_command parsed" where
  "parseCliArgs env argv =
     (case argv of
        [] \<Rightarrow> Inr Cmd_Help
      | command # rest \<Rightarrow>
          if command \<in> {'''', ''help'', ''--help'', ''-h''} then Inr Cmd_Help
          else if command \<in> {''--version'', ''-v'', ''version''} then Inr Cmd_Version
          else if command = ''node'' then parseNode env rest
          else if command = ''send'' then parseSend rest
          else if command = ''join'' then parseJoin rest
          else if command = ''serve-signal'' then parseServeSignal rest
          else if command = ''status'' then bind_result (parseSessionOnly ''status'' rest) (\<lambda>s. Inr (Cmd_Status s))
          else if command = ''clean'' then bind_result (parseSessionOnly ''clean'' rest) (\<lambda>s. Inr (Cmd_Clean s))
          else if command = ''publish'' then parsePublish env rest
          else if command = ''files'' then parseFiles env rest
          else if command = ''download'' then parseDownload env rest
          else if command = ''share'' then parseShare env rest
          else if command = ''get'' then parseGet env rest
          else Inl (''Unknown command: '' @ command))"

section \<open>Well-formed commands and their rendering\<close>

abbreviation given :: "string option \<Rightarrow> bool" where
  "given s \<equiv> s \<noteq> Some ''''"

definition positive_safe :: "int \<Rightarrow> bool" where
  "positive_safe n \<longleftrightarrow> 0 < n \<and> n \<le> MAX_SAFE_INTEGER"

text \<open>An empty coordinator can only come from the environment variable.\<close>

definition coordinator_ok :: "string option \<Rightarrow> 'a coordinator_options_scheme \<Rightarrow> bool" where
  "coordinator_ok env c \<longleftrightarrow> (co_coordinator c \<noteq> '''' \<or> co_coordinator c = DEFAULT_COORDINATOR env) \<and> co_workspace c \<noteq> ''''"

fun command_ok :: "string option \<Rightarrow> parsed_command \<Rightarrow> bool" where
  "command_ok env (Cmd_Send c) \<longleftrightarrow> sn_file c \<noteq> '''' \<and> sn_signal c \<noteq> '''' \<and> sn_listen c \<noteq> '''' \<and> given (sn_advertise c) \<and>
     positive_safe (sn_pieceSize c) \<and> given (sn_session c)"
| "command_ok env (Cmd_Join c) \<longleftrightarrow> jn_session c \<noteq> '''' \<and> jn_signal c \<noteq> '''' \<and> jn_listen c \<noteq> '''' \<and> given (jn_advertise c) \<and>
     given (jn_peer c) \<and> jn_outDir c \<noteq> '''' \<and> positive_safe (jn_maxPeers c) \<and> positive_safe (jn_transferWindow c)"
| "command_ok env (Cmd_ServeSignal c) \<longleftrightarrow> sv_host c \<noteq> '''' \<and> 0 < sv_port c \<and> sv_port c \<le> TCP_PORT_MAX"
| "command_ok env (Cmd_Status s) \<longleftrightarrow> s \<noteq> ''''"
| "command_ok env (Cmd_Clean s) \<longleftrightarrow> s \<noteq> ''''"
| "command_ok env (Cmd_NodeStart c) \<longleftrightarrow> coordinator_ok env c \<and> nd_nodeId c \<noteq> '''' \<and> nd_displayName c \<noteq> '''' \<and>
     nd_publicKey c \<noteq> '''' \<and> given (nd_directJoin c)"
| "command_ok env (Cmd_Publish c) \<longleftrightarrow> coordinator_ok env c \<and> pb_file c \<noteq> '''' \<and> pb_nodeId c \<noteq> '''' \<and> positive_safe (pb_pieceSize c)"
| "command_ok env (Cmd_Files c) \<longleftrightarrow> coordinator_ok env c"
| "command_ok env (Cmd_Download c) \<longleftrightarrow> coordinator_ok env c \<and> dl_fileId c \<noteq> '''' \<and> dl_outDir c \<noteq> ''''"
| "command_ok env (Cmd_Share c) \<longleftrightarrow> coordinator_ok env c \<and> sh_file c \<noteq> '''' \<and> given (sh_nodeId c) \<and> positive_safe (sh_pieceSize c) \<and>
     (case sh_ttlSeconds c of None \<Rightarrow> True | Some n \<Rightarrow> positive_safe n)"
| "command_ok env (Cmd_Get c) \<longleftrightarrow> coordinator_ok env c \<and> gt_code c \<noteq> '''' \<and> gt_outDir c \<noteq> ''''"
| "command_ok env Cmd_Help \<longleftrightarrow> True"
| "command_ok env Cmd_Version \<longleftrightarrow> True"

text \<open>The options of a command, as the parser is to find them.\<close>

definition text_opt :: "string \<Rightarrow> string \<Rightarrow> option_map" where
  "text_opt k v = [(k, Value v)]"

definition maybe_opt :: "string \<Rightarrow> string option \<Rightarrow> option_map" where
  "maybe_opt k v = (case v of None \<Rightarrow> [] | Some s \<Rightarrow> [(k, Value s)])"

definition flag_opt :: "string \<Rightarrow> bool \<Rightarrow> option_map" where
  "flag_opt k b = (if b then [(k, Flag)] else [])"

fun path_text :: "path_choice \<Rightarrow> string" where
  "path_text Path_Host = ''host''"
| "path_text Path_Srflx = ''srflx''"
| "path_text Path_Relay = ''relay''"
| "path_text Path_Unknown = ''unknown''"

definition shared_opts :: "string option \<Rightarrow> 'a coordinator_options_scheme \<Rightarrow> option_map" where
  "shared_opts env c =
     maybe_opt ''coordinator'' (if co_coordinator c = DEFAULT_COORDINATOR env then None else Some (co_coordinator c)) @
     text_opt ''workspace'' (co_workspace c) @ flag_opt ''json'' (co_json c)"

fun command_options :: "string option \<Rightarrow> parsed_command \<Rightarrow> option_map" where
  "command_options env (Cmd_Send c) = text_opt ''signal'' (sn_signal c) @ text_opt ''listen'' (sn_listen c) @ maybe_opt ''advertise'' (sn_advertise c) @
     text_opt ''piece-size'' (show_int (sn_pieceSize c)) @ maybe_opt ''session'' (sn_session c) @ flag_opt ''keep-open'' (sn_keepOpen c) @
     text_opt ''path-kind'' (path_text (sn_pathKind c))"
| "command_options env (Cmd_Join c) = text_opt ''signal'' (jn_signal c) @ text_opt ''listen'' (jn_listen c) @ maybe_opt ''advertise'' (jn_advertise c) @
     text_opt ''out'' (jn_outDir c) @ maybe_opt ''peer'' (jn_peer c) @ flag_opt ''seed-after-complete'' (jn_seedAfterComplete c) @
     text_opt ''max-peers'' (show_int (jn_maxPeers c)) @ text_opt ''transfer-window'' (show_int (jn_transferWindow c)) @
     text_opt ''path-kind'' (path_text (jn_pathKind c))"
| "command_options env (Cmd_ServeSignal c) = text_opt ''host'' (sv_host c) @ text_opt ''port'' (show_int (sv_port c))"
| "command_options env (Cmd_NodeStart c) = shared_opts env c @ text_opt ''node-id'' (nd_nodeId c) @ text_opt ''display-name'' (nd_displayName c) @
     text_opt ''public-key'' (nd_publicKey c) @ maybe_opt ''direct-join'' (nd_directJoin c) @ flag_opt ''dry-run'' (nd_dryRun c)"
| "command_options env (Cmd_Publish c) = shared_opts env c @ text_opt ''node-id'' (pb_nodeId c) @
     text_opt ''piece-size'' (show_int (pb_pieceSize c)) @ flag_opt ''dry-run'' (pb_dryRun c)"
| "command_options env (Cmd_Files c) = shared_opts env c"
| "command_options env (Cmd_Download c) = shared_opts env c @ text_opt ''out'' (dl_outDir c) @ flag_opt ''dry-run'' (dl_dryRun c)"
| "command_options env (Cmd_Share c) = shared_opts env c @ maybe_opt ''node-id'' (sh_nodeId c) @
     text_opt ''piece-size'' (show_int (sh_pieceSize c)) @ maybe_opt ''ttl-seconds'' (map_option show_int (sh_ttlSeconds c)) @ flag_opt ''dry-run'' (sh_dryRun c)"
| "command_options env (Cmd_Get c) = shared_opts env c @ text_opt ''out'' (gt_outDir c) @ flag_opt ''dry-run'' (gt_dryRun c)"
| "command_options env c = []"

fun command_words :: "parsed_command \<Rightarrow> string list \<times> string list" where
  "command_words (Cmd_Send c) = ([''send''], [sn_file c])"
| "command_words (Cmd_Join c) = ([''join''], [jn_session c])"
| "command_words (Cmd_ServeSignal c) = ([''serve-signal''], [])"
| "command_words (Cmd_Status s) = ([''status''], [s])"
| "command_words (Cmd_Clean s) = ([''clean''], [s])"
| "command_words (Cmd_NodeStart c) = ([''node'', ''start''], [])"
| "command_words (Cmd_Publish c) = ([''publish''], [pb_file c])"
| "command_words (Cmd_Files c) = ([''files''], [])"
| "command_words (Cmd_Download c) = ([''download''], [dl_fileId c])"
| "command_words (Cmd_Share c) = ([''share''], [sh_file c])"
| "command_words (Cmd_Get c) = ([''get''], [gt_code c])"
| "command_words Cmd_Help = ([''help''], [])"
| "command_words Cmd_Version = ([''version''], [])"

fun render_option :: "string \<times> option_value \<Rightarrow> string" where
  "render_option (k, Flag) = ''--'' @ k"
| "render_option (k, Value v) = ''--'' @ k @ ''='' @ v"

text \<open>The positional arguments follow a lone \<open>--\<close>, so that they may start with any characters.\<close>

definition render_command :: "string option \<Rightarrow> parsed_command \<Rightarrow> string list" where
  "render_command env c = fst (command_words c) @ map render_option (command_options env c) @ ''--'' # snd (command_words c)"

section \<open>Every well-formed command is parsed from its rendering\<close>

definition option_ok :: "string list \<Rightarrow> string \<times> option_value \<Rightarrow> bool" where
  "option_ok allowed kv \<longleftrightarrow> fst kv \<in> set allowed \<and> fst kv \<noteq> '''' \<and> CHR ''='' \<notin> set (fst kv) \<and> (snd kv = Flag \<longrightarrow> isBooleanFlag (fst kv))"

lemma cut_at:
  "d \<notin> set k \<Longrightarrow> takeWhile (\<lambda>c. c \<noteq> d) (k @ d # v) = k"
  "d \<notin> set k \<Longrightarrow> dropWhile (\<lambda>c. c \<noteq> d) (k @ d # v) = d # v"
  by (induction k) auto

lemma split_eq_Value [simp]: "CHR ''='' \<notin> set k \<Longrightarrow> split_eq (k @ CHR ''='' # v) = Some (k, v)"
  by (simp add: split_eq_def cut_at)

lemma split_eq_None [simp]: "CHR ''='' \<notin> set k \<Longrightarrow> split_eq k = None"
  by (simp add: split_eq_def)

lemma parse_options_render:
  "\<forall>kv \<in> set items. option_ok allowed kv \<Longrightarrow>
   parse_options allowed (map render_option items @ ''--'' # ps) positionals options =
     Inr (positionals @ ps, fold (\<lambda>(k, v). jm_set k v) items options)"
proof (induction items arbitrary: options)
  case (Cons kv items)
  obtain k v where kv: "kv = (k, v)" by (cases kv)
  have ok: "k \<in> set allowed" "k \<noteq> ''''" "CHR ''='' \<notin> set k" "v = Flag \<Longrightarrow> isBooleanFlag k"
    using Cons.prems by (auto simp: option_ok_def kv)
  show ?case using ok Cons by (cases v) (auto simp: kv setKnownOption_def js_startsWith_def)
qed simp

lemma parseOptions_render:
  assumes "\<forall>kv \<in> set items. option_ok allowed kv" and "distinct (map fst items)"
  shows "parseOptions (map render_option items @ ''--'' # ps) allowed = Inr (ps, items)"
proof -
  have "fold (\<lambda>(k, v). jm_set k v) items acc = acc @ items" if "distinct (map fst (acc @ items))" for acc
    using that
  proof (induction items arbitrary: acc)
    case (Cons kv items)
    then show ?case by (cases kv) (simp add: jm_set_new)
  qed simp
  from this [of "[]"] show ?thesis using parse_options_render [OF assms(1)] assms(2) by (simp add: parseOptions_def)
qed

lemma get_opts [simp]:
  "jm_get (text_opt k v @ r) k' = (if k' = k then Some (Value v) else jm_get r k')"
  "jm_get (maybe_opt k s @ r) k' = (if k' = k then (case s of None \<Rightarrow> jm_get r k' | Some v \<Rightarrow> Some (Value v)) else jm_get r k')"
  "jm_get (flag_opt k b @ r) k' = (if k' = k then (if b then Some Flag else jm_get r k') else jm_get r k')"
  "jm_get (text_opt k v) k' = (if k' = k then Some (Value v) else None)"
  "jm_get (maybe_opt k s) k' = (if k' = k then (case s of None \<Rightarrow> None | Some v \<Rightarrow> Some (Value v)) else None)"
  "jm_get (flag_opt k b) k' = (if k' = k then (if b then Some Flag else None) else None)"
  by (auto simp: text_opt_def maybe_opt_def flag_opt_def split: option.splits)

lemma set_opts [simp]:
  "(\<forall>kv \<in> set (text_opt k v). P kv) = P (k, Value v)"
  "(\<forall>kv \<in> set (maybe_opt k s). P kv) = (\<forall>v. s = Some v \<longrightarrow> P (k, Value v))"
  "(\<forall>kv \<in> set (flag_opt k b). P kv) = (b \<longrightarrow> P (k, Flag))"
  by (auto simp: text_opt_def maybe_opt_def flag_opt_def split: option.splits)

lemma fst_opts [simp]:
  "map fst (text_opt k v) = [k]"
  "map fst (maybe_opt k s) = (if s = None then [] else [k])"
  "map fst (flag_opt k b) = (if b then [k] else [])"
  by (auto simp: text_opt_def maybe_opt_def flag_opt_def split: option.splits)

lemma reads_text:
  "jm_get m k = Some (Value v) \<Longrightarrow> v \<noteq> '''' \<Longrightarrow> stringOption m k d = Inr v"
  "jm_get m k = Some (Value v) \<Longrightarrow> v \<noteq> '''' \<Longrightarrow> requiredStringOption m k = Inr v"
  "jm_get m k = (case s of None \<Rightarrow> None | Some v \<Rightarrow> Some (Value v)) \<Longrightarrow> given s \<Longrightarrow> optionalStringOption m k = Inr s"
  "jm_get m k = (if b then Some Flag else None) \<Longrightarrow> booleanOption m k = Inr b"
  "jm_get m k = None \<Longrightarrow> stringOption m k d = Inr d"
  by (auto simp: stringOption_def requiredStringOption_def optionalStringOption_def booleanOption_def split: option.splits)

lemma positive_integer_show_int: "positive_safe n \<Longrightarrow> positive_integer k (show_int n) = Inr n"
  by (simp add: positive_safe_def positive_integer_def js_Number_show_int)

lemma reads_number:
  "jm_get m k = Some (Value (show_int n)) \<Longrightarrow> positive_safe n \<Longrightarrow> positiveIntegerOption m k d = Inr n"
  "jm_get m k = Some (Value (show_int n)) \<Longrightarrow> 0 < n \<Longrightarrow> n \<le> TCP_PORT_MAX \<Longrightarrow> tcpPortOption m k d = Inr n"
  "jm_get m k = (case map_option show_int t of None \<Rightarrow> None | Some v \<Rightarrow> Some (Value v)) \<Longrightarrow> (\<forall>n. t = Some n \<longrightarrow> positive_safe n) \<Longrightarrow>
     optionalPositiveIntegerOption m k = Inr t"
  "jm_get m k = Some (Value (path_text p)) \<Longrightarrow> pathKindOption m k q = Inr p"
proof -
  assume m: "jm_get m k = Some (Value (show_int n))"
  show *: "positive_safe n \<Longrightarrow> positiveIntegerOption m k d = Inr n"
    by (simp add: positiveIntegerOption_def m positive_integer_show_int)
  assume "0 < n" and n: "n \<le> TCP_PORT_MAX"
  then have "positive_safe n" by (simp add: positive_safe_def MAX_SAFE_INTEGER_def TCP_PORT_MAX_def)
  with * n show "tcpPortOption m k d = Inr n" by (simp add: tcpPortOption_def)
next
  assume "jm_get m k = (case map_option show_int t of None \<Rightarrow> None | Some v \<Rightarrow> Some (Value v))" and "\<forall>n. t = Some n \<longrightarrow> positive_safe n"
  then show "optionalPositiveIntegerOption m k = Inr t"
    by (cases t) (simp_all add: optionalPositiveIntegerOption_def positive_integer_show_int)
next
  assume "jm_get m k = Some (Value (path_text p))"
  then show "pathKindOption m k q = Inr p" by (cases p) (simp_all add: pathKindOption_def lower_char_def Let_def)
qed

lemmas reads = reads_text reads_number

lemma only_positional_one [simp]: "p \<noteq> '''' \<Longrightarrow> only_positional name missing what [p] = Inr p"
  by (simp add: only_positional_def)

lemmas option_checks = option_ok_def isBooleanFlag_def ball_Un

lemmas option_reads = reads optionalStringOption_def booleanOption_def

lemma parsed_step:
  "r = Inr a \<Longrightarrow> f a = Inr b \<Longrightarrow> bind_result r f = Inr b"
  by simp

lemma parse_send_render:
  assumes "command_ok env (Cmd_Send c)"
  shows "parseSend (map render_option (command_options env (Cmd_Send c)) @ [''--'', sn_file c]) = Inr (Cmd_Send c)"
  unfolding parseSend_def
  by (rule parsed_step, rule parseOptions_render, simp_all add: option_checks)
    (use assms in \<open>simp add: option_reads del: map_of_append split: option.split\<close>)

lemma parse_join_render:
  assumes "command_ok env (Cmd_Join c)"
  shows "parseJoin (map render_option (command_options env (Cmd_Join c)) @ [''--'', jn_session c]) = Inr (Cmd_Join c)"
  unfolding parseJoin_def
  by (rule parsed_step, rule parseOptions_render, simp_all add: option_checks)
    (use assms in \<open>simp add: option_reads del: map_of_append split: option.split\<close>)

lemma parse_serve_render:
  assumes "command_ok env (Cmd_ServeSignal c)"
  shows "parseServeSignal (map render_option (command_options env (Cmd_ServeSignal c)) @ [''--'']) = Inr (Cmd_ServeSignal c)"
  unfolding parseServeSignal_def
  by (rule parsed_step, rule parseOptions_render, simp_all add: option_checks)
    (use assms in \<open>simp add: option_reads del: map_of_append split: option.split\<close>)

lemma parse_session_render:
  "s \<noteq> '''' \<Longrightarrow> parseSessionOnly command [''--'', s] = Inr s"
  by (simp add: parseSessionOnly_def parseOptions_def)

lemma parse_node_render:
  assumes "command_ok env (Cmd_NodeStart c)"
  shows "parseNode env (''start'' # map render_option (command_options env (Cmd_NodeStart c)) @ [''--'']) = Inr (Cmd_NodeStart c)"
  unfolding parseNode_def
  apply (simp del: command_options.simps, rule parsed_step, rule parseOptions_render)
    apply (simp add: option_checks shared_opts_def)
   apply (simp add: shared_opts_def)
  using assms
  by (cases "co_coordinator c = DEFAULT_COORDINATOR env")
    (simp_all add: coordinator_ok_def option_reads shared_opts_def del: map_of_append split: option.split)

lemma parse_publish_render:
  assumes "command_ok env (Cmd_Publish c)"
  shows "parsePublish env (map render_option (command_options env (Cmd_Publish c)) @ [''--'', pb_file c]) = Inr (Cmd_Publish c)"
  unfolding parsePublish_def
  apply (rule parsed_step, rule parseOptions_render)
    apply (simp add: option_checks shared_opts_def)
   apply (simp add: shared_opts_def)
  using assms
  by (cases "co_coordinator c = DEFAULT_COORDINATOR env")
    (simp_all add: coordinator_ok_def option_reads shared_opts_def del: map_of_append split: option.splits)

lemma parse_files_render:
  assumes "command_ok env (Cmd_Files c)"
  shows "parseFiles env (map render_option (command_options env (Cmd_Files c)) @ [''--'']) = Inr (Cmd_Files c)"
  unfolding parseFiles_def
  apply (rule parsed_step, rule parseOptions_render)
    apply (simp add: option_checks shared_opts_def)
   apply (simp add: shared_opts_def)
  using assms
  by (cases "co_coordinator c = DEFAULT_COORDINATOR env")
    (simp_all add: coordinator_ok_def option_reads shared_opts_def del: map_of_append split: option.splits)

lemma parse_download_render:
  assumes "command_ok env (Cmd_Download c)"
  shows "parseDownload env (map render_option (command_options env (Cmd_Download c)) @ [''--'', dl_fileId c]) = Inr (Cmd_Download c)"
  unfolding parseDownload_def
  apply (rule parsed_step, rule parseOptions_render)
    apply (simp add: option_checks shared_opts_def)
   apply (simp add: shared_opts_def)
  using assms
  by (cases "co_coordinator c = DEFAULT_COORDINATOR env")
    (simp_all add: coordinator_ok_def option_reads shared_opts_def del: map_of_append split: option.splits)

lemma parse_share_render:
  assumes "command_ok env (Cmd_Share c)"
  shows "parseShare env (map render_option (command_options env (Cmd_Share c)) @ [''--'', sh_file c]) = Inr (Cmd_Share c)"
  unfolding parseShare_def
  apply (rule parsed_step, rule parseOptions_render)
    apply (simp add: option_checks shared_opts_def)
   apply (simp add: shared_opts_def)
  using assms
  by (cases "co_coordinator c = DEFAULT_COORDINATOR env"; cases "sh_ttlSeconds c")
    (simp_all add: optionalPositiveIntegerOption_def positive_integer_show_int coordinator_ok_def option_reads shared_opts_def del: map_of_append split: option.splits)

lemma parse_get_render:
  assumes "command_ok env (Cmd_Get c)"
  shows "parseGet env (map render_option (command_options env (Cmd_Get c)) @ [''--'', gt_code c]) = Inr (Cmd_Get c)"
  unfolding parseGet_def
  apply (rule parsed_step, rule parseOptions_render)
    apply (simp add: option_checks shared_opts_def)
   apply (simp add: shared_opts_def)
  using assms
  by (cases "co_coordinator c = DEFAULT_COORDINATOR env")
    (simp_all add: coordinator_ok_def option_reads shared_opts_def del: map_of_append split: option.splits)

lemma command_no_options:
  "command_options env (Cmd_Status s) = []" "command_options env (Cmd_Clean s) = []"
  "command_options env Cmd_Help = []" "command_options env Cmd_Version = []"
  by simp_all

lemmas parse_render = parse_session_render parse_send_render parse_join_render parse_serve_render parse_node_render
  parse_publish_render parse_files_render parse_download_render parse_share_render parse_get_render

text \<open>
  C30. Every well-formed command is parsed from its rendering: any file name, any option value, in particular one that starts with dashes or holds
  an equals sign, can be given on the command line.
\<close>

theorem render_parse_roundtrip:
  assumes "command_ok env c"
  shows "parseCliArgs env (render_command env c) = Inr c"
  using assms
  by (cases c)
    (simp_all add: render_command_def parseCliArgs_def parse_render command_no_options
      del: command_options.simps command_ok.simps(1-3,6-13))

theorem render_parse_roundtrip_witness:
  "parseCliArgs None (render_command None (Cmd_Send \<lparr>sn_file = ''--odd=name'', sn_signal = ''ws://a:1/ws'', sn_listen = ''0.0.0.0:0'',
      sn_advertise = Some ''--x'', sn_pieceSize = 65536, sn_session = None, sn_keepOpen = True, sn_pathKind = Path_Relay\<rparr>)) =
     Inr (Cmd_Send \<lparr>sn_file = ''--odd=name'', sn_signal = ''ws://a:1/ws'', sn_listen = ''0.0.0.0:0'',
      sn_advertise = Some ''--x'', sn_pieceSize = 65536, sn_session = None, sn_keepOpen = True, sn_pathKind = Path_Relay\<rparr>)"
  by (rule render_parse_roundtrip) (simp add: positive_safe_def MAX_SAFE_INTEGER_def)

section \<open>Everything that is parsed is well formed\<close>

lemma read_facts:
  "stringOption m k d = Inr v \<Longrightarrow> v \<noteq> '''' \<or> v = d"
  "optionalStringOption m k = Inr s \<Longrightarrow> given s"
  "requiredStringOption m k = Inr v \<Longrightarrow> v \<noteq> ''''"
  "only_positional name missing what positionals = Inr v \<Longrightarrow> v \<noteq> ''''"
  by (auto simp: stringOption_def optionalStringOption_def requiredStringOption_def only_positional_def bind_result_Inr_iff
      split: option.splits option_value.splits list.splits if_splits)

lemma positive_integer_Inr: "positive_integer k raw = Inr n \<Longrightarrow> positive_safe n"
  by (auto simp: positive_integer_def positive_safe_def is_integral_def split: jsnum.splits if_splits)

lemma number_facts:
  "positiveIntegerOption m k d = Inr n \<Longrightarrow> positive_safe n \<or> n = d"
  "optionalPositiveIntegerOption m k = Inr t \<Longrightarrow> (case t of None \<Rightarrow> True | Some n \<Rightarrow> positive_safe n)"
  by (auto simp: positiveIntegerOption_def optionalPositiveIntegerOption_def bind_result_Inr_iff
      split: option.splits option_value.splits dest: positive_integer_Inr)

lemma tcpPortOption_Inr: "tcpPortOption m k d = Inr n \<Longrightarrow> 0 < d \<Longrightarrow> 0 < n \<and> n \<le> TCP_PORT_MAX"
  by (auto simp: tcpPortOption_def bind_result_Inr_iff positive_safe_def split: if_splits dest: number_facts)

lemma defaults_positive_safe [simp]:
  "positive_safe DEFAULT_PIECE_SIZE" "positive_safe DEFAULT_MAX_PEERS" "positive_safe DEFAULT_TRANSFER_WINDOW"
  by (simp_all add: positive_safe_def MAX_SAFE_INTEGER_def DEFAULT_PIECE_SIZE_def DEFAULT_MAX_PEERS_def DEFAULT_TRANSFER_WINDOW_def)

lemma defaults_given [simp]: "DEFAULT_SIGNAL \<noteq> ''''" "DEFAULT_LISTEN \<noteq> ''''" "DEFAULT_OUT_DIR \<noteq> ''''"
  by (simp_all add: DEFAULT_SIGNAL_def DEFAULT_LISTEN_def DEFAULT_OUT_DIR_def)

lemmas parser_facts = read_facts number_facts tcpPortOption_Inr

lemma parseSend_ok: "parseSend args = Inr c \<Longrightarrow> command_ok env c"
  by (auto simp: parseSend_def bind_result_Inr_iff dest!: read_facts(1,2,4) number_facts(1))

lemma parseJoin_ok: "parseJoin args = Inr c \<Longrightarrow> command_ok env c"
  by (auto simp: parseJoin_def bind_result_Inr_iff dest!: read_facts(1,2,4) number_facts(1))

lemma parseServeSignal_ok: "parseServeSignal args = Inr c \<Longrightarrow> command_ok env c"
  by (auto simp: parseServeSignal_def bind_result_Inr_iff split: if_splits dest!: read_facts(1) tcpPortOption_Inr)

lemma parseSessionOnly_ok: "parseSessionOnly name args = Inr s \<Longrightarrow> s \<noteq> ''''"
  by (auto simp: parseSessionOnly_def bind_result_Inr_iff split: if_splits dest!: read_facts(4))

lemma parseNode_ok: "parseNode env args = Inr c \<Longrightarrow> command_ok env c"
  by (auto simp: parseNode_def coordinator_ok_def bind_result_Inr_iff split: if_splits dest!: read_facts)

lemma parsePublish_ok: "parsePublish env args = Inr c \<Longrightarrow> command_ok env c"
  by (auto simp: parsePublish_def coordinator_ok_def bind_result_Inr_iff dest!: read_facts number_facts(1))

lemma parseFiles_ok: "parseFiles env args = Inr c \<Longrightarrow> command_ok env c"
  by (auto simp: parseFiles_def coordinator_ok_def bind_result_Inr_iff split: if_splits dest!: read_facts)

lemma parseDownload_ok: "parseDownload env args = Inr c \<Longrightarrow> command_ok env c"
  by (auto simp: parseDownload_def coordinator_ok_def bind_result_Inr_iff dest!: read_facts)

lemma parseShare_ok: "parseShare env args = Inr c \<Longrightarrow> command_ok env c"
  by (auto simp: parseShare_def coordinator_ok_def bind_result_Inr_iff split: option.split dest!: read_facts number_facts)

lemma parseGet_ok: "parseGet env args = Inr c \<Longrightarrow> command_ok env c"
  by (auto simp: parseGet_def coordinator_ok_def bind_result_Inr_iff dest!: read_facts)

lemmas parsers_ok = parseSend_ok parseJoin_ok parseServeSignal_ok parseSessionOnly_ok parseNode_ok parsePublish_ok
  parseFiles_ok parseDownload_ok parseShare_ok parseGet_ok

text \<open>
  C29. Whatever the words of the command line, what \<open>parseCliArgs\<close> returns is well typed for the code behind it: sizes, windows and peer counts are
  positive safe integers, ports are TCP ports, required texts are not empty and an optional one is left out or not empty.
\<close>

theorem parsed_commands_are_well_typed:
  assumes "parseCliArgs env argv = Inr c"
  shows "command_ok env c"
proof (cases argv)
  case (Cons command rest)
  from assms show ?thesis
    unfolding parseCliArgs_def Cons list.case
    by (simp only: split: if_split_asm)
      (erule parsers_ok | (clarsimp simp: bind_result_Inr_iff simp del: command_ok.simps, simp add: parseSessionOnly_ok) | clarsimp)+
qed (use assms in \<open>simp add: parseCliArgs_def\<close>)

theorem parsed_commands_are_well_typed_witness:
  "command_ok None (Cmd_ServeSignal \<lparr>sv_host = ''::1'', sv_port = 99\<rparr>)"
proof (rule parsed_commands_are_well_typed)
  show "parseCliArgs None [''serve-signal'', ''--host'', ''::1'', ''--port=99''] = Inr (Cmd_ServeSignal \<lparr>sv_host = ''::1'', sv_port = 99\<rparr>)"
  proof -
    have "js_Number ''99'' = Fin 99" using js_Number_digits [of "''99''"] by (simp add: radix_digit_def digit_value_def digits_value_def)
    then have "positive_integer k ''99'' = Inr 99" for k
      by (simp add: positive_integer_def is_integral_def MAX_SAFE_INTEGER_def)
    then show ?thesis
      by (simp add: parseCliArgs_def parseServeSignal_def parseOptions_def js_startsWith_def split_eq_def isBooleanFlag_def
          setKnownOption_def stringOption_def tcpPortOption_def positiveIntegerOption_def TCP_PORT_MAX_def)
  qed
qed

text \<open>An option may be given as two words or as one with an equals sign, unless its value is empty or starts with two dashes.\<close>

theorem option_forms_agree:
  assumes "k \<noteq> ''''" and "CHR ''='' \<notin> set k" and "\<not> isBooleanFlag k" and "v \<noteq> ''''" and "\<not> js_startsWith v ''--''"
  shows "parse_options allowed ((''--'' @ k) # v # args) positionals options =
    parse_options allowed ((''--'' @ k @ ''='' @ v) # args) positionals options"
  using assms by (simp add: js_startsWith_def Let_def)

end
