(* ===== verification/Piece_Layout.thy ===== *)
theory Piece_Layout
  imports Js_Number
begin

text \<open>
  Manifests: how a file is cut into pieces, hashed and described
  (\<open>createPieceDescriptors\<close>, \<open>IntegrityChecker\<close>, \<open>ManifestGenerator\<close>, \<open>mergeManifests\<close> of
  \<open>packages/core/src/index.ts\<close>). The platform digest (\<open>crypto.subtle.digest\<close>) is the parameter
  \<open>D\<close> of every definition that hashes.
\<close>

type_synonym byte = "8 word"
type_synonym bytes = "byte list"
type_synonym digest = "bytes \<Rightarrow> bytes"

section \<open>Data\<close>

record piece_descriptor =
  pd_index :: int
  pd_offset :: int
  pd_size :: int
  pd_hash :: "string option"

record file_manifest =
  fm_version :: string
  fm_fileId :: string
  fm_name :: string
  fm_size :: int
  fm_mimeType :: string
  fm_pieceSize :: int
  fm_pieceCount :: int
  fm_fileHash :: "string option"
  fm_fileHashUnavailableReason :: "string option"
  fm_pieces :: "piece_descriptor list"

datatype file_hash_policy =
    PieceOnly
  | WholeFileIfSafe int
  | WorkerIncremental string

record manifest_options =
  mo_pieceSize :: jsnum
  mo_includeFileHash :: bool
  mo_maxFileHashBytes :: "int option"
  mo_fileId :: "string option"
  mo_fileHashPolicy :: "file_hash_policy option"

record blob =
  blob_bytes :: bytes
  blob_name :: "string option"
  blob_type :: "string option"

datatype hash_progress = HashProgress "string option" int int

text \<open>A string that is present and not empty: the truthiness test of an optional string.\<close>

fun truthy :: "string option \<Rightarrow> bool" where
  "truthy None = False"
| "truthy (Some s) = (s \<noteq> '''')"

section \<open>Cutting a file\<close>

definition piece_at :: "int \<Rightarrow> int \<Rightarrow> int \<Rightarrow> piece_descriptor" where
  "piece_at fileSize pieceSize index =
     (let offset = index * pieceSize
      in \<lparr>pd_index = index, pd_offset = offset, pd_size = min pieceSize (fileSize - offset), pd_hash = None\<rparr>)"

definition createPieceDescriptors :: "jsnum \<Rightarrow> jsnum \<Rightarrow> piece_descriptor list result" where
  "createPieceDescriptors fileSize pieceSize =
     bind_result (assertSafeNonNegativeInteger fileSize) (\<lambda>n.
     bind_result (assertPositiveSafeInteger pieceSize) (\<lambda>k.
       let pieceCount = ceil_div n k
       in Inr (map (piece_at n k) [0..pieceCount - 1])))"

section \<open>Hashing\<close>

definition hex_digit :: "nat \<Rightarrow> char" where
  "hex_digit d = (if d < 10 then char_of (48 + d) else char_of (87 + d))"

definition byte_hex :: "byte \<Rightarrow> string" where
  "byte_hex b =
     (let n = unat b;
          s = (if n < 16 then [hex_digit n] else [hex_digit (n div 16), hex_digit (n mod 16)])
      in replicate (2 - length s) (CHR ''0'') @ s)"

definition bytesToHex :: "bytes \<Rightarrow> string" where
  "bytesToHex bs = concat (map byte_hex bs)"

definition integrity_hash :: "digest \<Rightarrow> bytes \<Rightarrow> string" where
  "integrity_hash D data = bytesToHex (D data)"

definition verifyPiece :: "digest \<Rightarrow> bytes \<Rightarrow> piece_descriptor \<Rightarrow> bool" where
  "verifyPiece D data descriptor =
     (if \<not> truthy (pd_hash descriptor) then True
      else if int (length data) \<noteq> pd_size descriptor then False
      else Some (integrity_hash D data) = pd_hash descriptor)"

definition verifyFile :: "digest \<Rightarrow> bytes \<Rightarrow> file_manifest \<Rightarrow> bool" where
  "verifyFile D data manifest =
     (if \<not> truthy (fm_fileHash manifest) then True
      else Some (integrity_hash D data) = fm_fileHash manifest)"

section \<open>Manifest generation\<close>

definition worker_hash_error :: pons_error where
  "worker_hash_error = PonsWarpError ''manifest:worker_hash_unavailable'' (Some ''manifest'') (Some True)"

definition hash_too_large_error :: pons_error where
  "hash_too_large_error = PonsWarpError ''manifest:file_hash_too_large'' (Some ''manifest'') (Some True)"

definition hashWholeFileWhenSafe :: "digest \<Rightarrow> bytes \<Rightarrow> int \<Rightarrow> string result" where
  "hashWholeFileWhenSafe D file maxBytes =
     (if maxBytes < int (length file) then Inl hash_too_large_error
      else Inr (integrity_hash D file))"

fun createWholeFileHash :: "digest \<Rightarrow> bytes \<Rightarrow> file_hash_policy \<Rightarrow> string option result" where
  "createWholeFileHash D file PieceOnly = Inr None"
| "createWholeFileHash D file (WorkerIncremental _) = Inl worker_hash_error"
| "createWholeFileHash D file (WholeFileIfSafe maxBytes) =
     bind_result (hashWholeFileWhenSafe D file maxBytes) (\<lambda>h. Inr (Some h))"

text \<open>The loop of \<open>create\<close>: it hashes each slice and reports the bytes done so far.\<close>

fun hash_pieces :: "digest \<Rightarrow> blob \<Rightarrow> manifest_options \<Rightarrow> int \<Rightarrow> piece_descriptor list
    \<Rightarrow> piece_descriptor list \<times> hash_progress list" where
  "hash_pieces D file opts done [] = ([], [])"
| "hash_pieces D file opts done (p # ps) =
     (let data = slice (blob_bytes file) (pd_offset p) (pd_offset p + pd_size p);
          hashed = p\<lparr>pd_hash := Some (integrity_hash D data)\<rparr>;
          bytesProcessed = done + pd_size p;
          event = HashProgress (mo_fileId opts) bytesProcessed (int (length (blob_bytes file)));
          (rest, events) = hash_pieces D file opts bytesProcessed ps
      in (hashed # rest, event # events))"

definition effective_policy :: "manifest_options \<Rightarrow> file_hash_policy" where
  "effective_policy opts =
     (case mo_fileHashPolicy opts of
        Some policy \<Rightarrow> policy
      | None \<Rightarrow>
          if mo_includeFileHash opts
          then WholeFileIfSafe (case mo_maxFileHashBytes opts of Some m \<Rightarrow> m | None \<Rightarrow> 256 * 1024 * 1024)
          else PieceOnly)"

text \<open>\<open>ManifestGenerator.create\<close>; \<open>newFileId\<close> is what \<open>createFileId()\<close> would return.\<close>

definition create_manifest :: "digest \<Rightarrow> string \<Rightarrow> blob \<Rightarrow> manifest_options
    \<Rightarrow> hash_progress list \<times> file_manifest result" where
  "create_manifest D newFileId file opts =
     (case bind_result (assertPositiveSafeInteger (mo_pieceSize opts)) (\<lambda>k.
             bind_result (createPieceDescriptors (num_of_int (int (length (blob_bytes file)))) (mo_pieceSize opts))
               (\<lambda>pieces. Inr (k, pieces))) of
        Inl e \<Rightarrow> ([], Inl e)
      | Inr (k, pieces) \<Rightarrow>
          (let (hashedPieces, events) = hash_pieces D file opts 0 pieces;
               policy = effective_policy opts
           in (events,
               bind_result (createWholeFileHash D (blob_bytes file) policy) (\<lambda>fileHash. Inr
                 \<lparr>fm_version = ''1.0.0'',
                  fm_fileId = (case mo_fileId opts of Some i \<Rightarrow> i | None \<Rightarrow> newFileId),
                  fm_name = (case blob_name file of Some n \<Rightarrow> n | None \<Rightarrow> ''unnamed''),
                  fm_size = int (length (blob_bytes file)),
                  fm_mimeType = (case blob_type file of Some t \<Rightarrow> t | None \<Rightarrow> ''''),
                  fm_pieceSize = k,
                  fm_pieceCount = int (length pieces),
                  fm_fileHash = fileHash,
                  fm_fileHashUnavailableReason =
                    (if truthy fileHash then None
                     else if policy = PieceOnly then Some ''piece-only policy'' else None),
                  fm_pieces = hashedPieces\<rparr>))))"

section \<open>Merging persisted and incoming manifests\<close>

definition same_piece :: "piece_descriptor \<Rightarrow> piece_descriptor \<Rightarrow> bool" where
  "same_piece a b \<longleftrightarrow>
     pd_index a = pd_index b \<and> pd_offset a = pd_offset b \<and> pd_size a = pd_size b \<and> pd_hash a = pd_hash b"

definition manifestsEquivalent :: "file_manifest \<Rightarrow> file_manifest \<Rightarrow> bool" where
  "manifestsEquivalent a b \<longleftrightarrow>
     fm_version a = fm_version b \<and> fm_fileId a = fm_fileId b \<and> fm_name a = fm_name b \<and>
     fm_size a = fm_size b \<and> fm_mimeType a = fm_mimeType b \<and> fm_pieceSize a = fm_pieceSize b \<and>
     fm_pieceCount a = fm_pieceCount b \<and> fm_fileHash a = fm_fileHash b \<and>
     length (fm_pieces a) = length (fm_pieces b) \<and>
     list_all2 same_piece (fm_pieces a) (fm_pieces b)"

definition manifest_mismatch_error :: pons_error where
  "manifest_mismatch_error = PonsWarpError ''resume:manifest_mismatch'' (Some ''resume'') (Some True)"

fun merge_incoming :: "(string, file_manifest) js_map \<Rightarrow> file_manifest list
    \<Rightarrow> (string, file_manifest) js_map result" where
  "merge_incoming merged [] = Inr merged"
| "merge_incoming merged (m # ms) =
     (case jm_get merged (fm_fileId m) of
        Some existing \<Rightarrow>
          if \<not> manifestsEquivalent existing m then Inl manifest_mismatch_error
          else merge_incoming merged ms
      | None \<Rightarrow> merge_incoming (jm_set (fm_fileId m) m merged) ms)"

definition mergeManifests :: "file_manifest list \<Rightarrow> file_manifest list \<Rightarrow> file_manifest list result" where
  "mergeManifests persisted incoming =
     bind_result
       (merge_incoming (foldl (\<lambda>acc m. jm_set (fm_fileId m) m acc) [] persisted) incoming)
       (\<lambda>merged. Inr (map snd merged))"

section \<open>The layout covers the file exactly once\<close>

text \<open>What a well-cut list of pieces is, on its own terms: numbered from 0, adjacent, never empty, never
  longer than the piece size, and ending at the end of the file.\<close>

definition piece_cover :: "int \<Rightarrow> int \<Rightarrow> piece_descriptor list \<Rightarrow> bool" where
  "piece_cover n k ps \<longleftrightarrow>
     (\<forall>i < length ps. pd_index (ps ! i) = int i \<and> 0 < pd_size (ps ! i) \<and> pd_size (ps ! i) \<le> k \<and>
        pd_offset (ps ! i) = sum_list (map pd_size (take i ps))) \<and>
     sum_list (map pd_size ps) = n"

lemma createPieceDescriptors_Inr:
  "createPieceDescriptors fs psz = Inr ps \<longleftrightarrow>
     (\<exists>n k. fs = num_of_int n \<and> psz = num_of_int k \<and> 0 \<le> n \<and> n \<le> MAX_SAFE_INTEGER \<and>
        0 < k \<and> k \<le> MAX_SAFE_INTEGER \<and> ps = map (piece_at n k) [0..ceil_div n k - 1])"
  by (auto simp: createPieceDescriptors_def bind_result_Inr_iff assertSafeNonNegativeInteger_Inr
      assertPositiveSafeInteger_Inr)

lemma createPieceDescriptors_ok:
  "0 \<le> n \<Longrightarrow> n \<le> MAX_SAFE_INTEGER \<Longrightarrow> 0 < k \<Longrightarrow> k \<le> MAX_SAFE_INTEGER \<Longrightarrow>
   createPieceDescriptors (num_of_int n) (num_of_int k) = Inr (map (piece_at n k) [0..ceil_div n k - 1])"
  unfolding createPieceDescriptors_Inr by blast

lemma piece_at_simps [simp]:
  "pd_index (piece_at n k i) = i"
  "pd_offset (piece_at n k i) = i * k"
  "pd_size (piece_at n k i) = min k (n - i * k)"
  "pd_hash (piece_at n k i) = None"
  by (simp_all add: piece_at_def Let_def)

lemma piece_at_sizes_sum:
  "0 \<le> n \<Longrightarrow> 0 < k \<Longrightarrow> int m \<le> ceil_div n k \<Longrightarrow>
   sum_list (map (\<lambda>i. min k (n - i * k)) [0..int m - 1]) = min (int m * k) n"
proof (induction m)
  case (Suc m)
  have lt: "int m * k < n"
  proof -
    have "int m \<le> ceil_div n k - 1" using Suc.prems by simp
    then have "int m * k \<le> (ceil_div n k - 1) * k" using Suc.prems(2) by simp
    with ceil_div_bounds(2) [OF Suc.prems(2), of n] show ?thesis by linarith
  qed
  have "[0..int (Suc m) - 1] = [0..int m - 1] @ [int m]"
    by (simp only: upto_map_int upt_Suc_append le0 map_append list.map)
  with Suc lt show ?case by (simp add: distrib_right)
qed simp

lemma take_upto_int: "i \<le> m \<Longrightarrow> take i [0..int m - 1] = [0..int i - 1]"
  by (simp only: upto_map_int take_map take_upt) simp

lemma createPieceDescriptors_cover:
  assumes "0 \<le> n" and "0 < k"
  shows "piece_cover n k (map (piece_at n k) [0..ceil_div n k - 1])"
proof -
  obtain c where c: "ceil_div n k = int c" using ceil_div_nonneg [OF assms(2,1)] by (metis nonneg_int_cases)
  have sizes: "map pd_size (map (piece_at n k) xs) = map (\<lambda>i. min k (n - i * k)) xs" for xs
    by simp
  have below: "int i * k < n" if "i < c" for i
  proof -
    have "int i * k \<le> (ceil_div n k - 1) * k" using that c assms(2) by simp
    with ceil_div_bounds(2) [OF assms(2), of n] show ?thesis by linarith
  qed
  have prefix: "sum_list (map (\<lambda>i. min k (n - i * k)) [0..int i - 1]) = min (int i * k) n" if "i \<le> c" for i
    using piece_at_sizes_sum [OF assms, of i] that c by simp
  have "sum_list (map pd_size (map (piece_at n k) [0..ceil_div n k - 1])) = n"
    unfolding sizes using prefix [of c] ceil_div_bounds(1) [OF assms(2), of n] c by simp
  moreover have "pd_offset (piece_at n k (int i)) = sum_list (map pd_size (take i (map (piece_at n k) [0..ceil_div n k - 1])))"
    if "i < c" for i
    using prefix [of i] below [OF that] that
    by (simp add: c take_map take_upto_int sizes flip: map_map)
  ultimately show ?thesis
    unfolding piece_cover_def using below assms by (auto simp: c)
qed


section \<open>Hex digests\<close>

lemma of_char_hex_digit: "d < 16 \<Longrightarrow> of_char (hex_digit d) = (if d < 10 then 48 + d else 87 + d)"
  by (simp add: hex_digit_def)

lemma hex_digit_inj:
  assumes d: "d < 16" and e: "e < 16" and eq: "hex_digit d = hex_digit e"
  shows "d = e"
proof -
  from eq have "(of_char (hex_digit d) :: nat) = of_char (hex_digit e)" by (rule arg_cong)
  then have "(if d < 10 then 48 + d else 87 + d) = (if e < 10 then 48 + e else 87 + e)"
    by (simp only: of_char_hex_digit [OF d] of_char_hex_digit [OF e])
  then show ?thesis by (simp split: if_splits)
qed

lemma byte_hex_eq: "byte_hex b = [hex_digit (unat b div 16), hex_digit (unat b mod 16)]"
proof -
  have "hex_digit 0 = CHR ''0''" by code_simp
  then show ?thesis by (simp add: byte_hex_def Let_def)
qed

lemma byte_hex_inj: "byte_hex a = byte_hex b \<Longrightarrow> a = b"
proof -
  assume eq: "byte_hex a = byte_hex b"
  have "unat a < 256" and "unat b < 256" using unsigned_less [of a] unsigned_less [of b] by simp_all
  then have "unat a div 16 = unat b div 16" and "unat a mod 16 = unat b mod 16"
    using eq by (auto simp: byte_hex_eq intro: hex_digit_inj)
  then have "unat a = unat b" by (metis div_mult_mod_eq)
  then show "a = b" by (rule unsigned_word_eqI)
qed

lemma bytesToHex_inj: "bytesToHex xs = bytesToHex ys \<Longrightarrow> xs = ys"
proof (induction xs arbitrary: ys)
  case Nil
  then show ?case by (cases ys) (simp_all add: bytesToHex_def byte_hex_eq)
next
  case (Cons x xs)
  then obtain y ys' where ys: "ys = y # ys'" by (cases ys) (simp_all add: bytesToHex_def byte_hex_eq)
  with Cons.prems have "byte_hex x = byte_hex y \<and> bytesToHex xs = bytesToHex ys'"
    by (simp add: bytesToHex_def byte_hex_eq)
  with ys Cons.IH show ?case using byte_hex_inj by blast
qed

lemma length_bytesToHex [simp]: "length (bytesToHex xs) = 2 * length xs"
  by (induction xs) (simp_all add: bytesToHex_def byte_hex_eq)

section \<open>Generated manifests describe their file\<close>

definition piece_slice :: "bytes \<Rightarrow> piece_descriptor \<Rightarrow> bytes" where
  "piece_slice bs p = slice bs (pd_offset p) (pd_offset p + pd_size p)"

lemma piece_slice_hash [simp]: "piece_slice bs (p\<lparr>pd_hash := h\<rparr>) = piece_slice bs p"
  by (simp add: piece_slice_def)

lemma piece_at_range:
  assumes "0 < k" and "i \<in> set [0..ceil_div n k - 1]"
  shows "0 < pd_size (piece_at n k i)" "0 \<le> pd_offset (piece_at n k i)"
    "pd_offset (piece_at n k i) + pd_size (piece_at n k i) \<le> n"
proof -
  have "i * k \<le> (ceil_div n k - 1) * k" using assms by (intro mult_right_mono) auto
  then have "i * k < n" using ceil_div_bounds(2) [OF assms(1), of n] by (rule order_le_less_trans)
  with assms show "0 < pd_size (piece_at n k i)"
    "0 \<le> pd_offset (piece_at n k i)" "pd_offset (piece_at n k i) + pd_size (piece_at n k i) \<le> n" by auto
qed

lemma length_piece_slice:
  "0 \<le> pd_offset p \<Longrightarrow> 0 \<le> pd_size p \<Longrightarrow> pd_offset p + pd_size p \<le> int (length bs) \<Longrightarrow>
   int (length (piece_slice bs p)) = pd_size p"
  by (simp add: piece_slice_def slice_def min_def) linarith

lemma hash_pieces_fst:
  "fst (hash_pieces D file opts d ps) =
     map (\<lambda>p. p\<lparr>pd_hash := Some (integrity_hash D (piece_slice (blob_bytes file) p))\<rparr>) ps"
  by (induction ps arbitrary: d) (simp_all add: Let_def piece_slice_def case_prod_unfold)

lemma hash_pieces_snd:
  "snd (hash_pieces D file opts d ps) =
     map (\<lambda>i. HashProgress (mo_fileId opts) (d + sum_list (map pd_size (take (Suc i) ps))) (int (length (blob_bytes file))))
       [0..<length ps]"
proof (induction ps arbitrary: d)
  case (Cons p ps)
  have "[0..<length (p # ps)] = 0 # map Suc [0..<length ps]"
    by (simp add: map_Suc_upt upt_conv_Cons del: upt_Suc)
  with Cons show ?case by (simp add: Let_def case_prod_unfold comp_def add.assoc)
qed simp

lemma concat_piece_slices:
  assumes "0 < k" and "int (length bs) = n"
  shows "concat (map (piece_slice bs) (map (piece_at n k) [0..ceil_div n k - 1])) = bs"
proof -
  have "concat (map (\<lambda>i. take (nat (min k (int (length bs) - i * k))) (drop (nat (i * k)) bs)) [0..ceil_div n k - 1]) = bs"
    using ceil_div_bounds(1) [OF assms(1), of n] ceil_div_nonneg [OF assms(1), of n] assms
    by (intro concat_int_blocks) auto
  then show ?thesis
    by (simp add: piece_slice_def slice_def comp_def assms(2))
qed

lemma create_manifest_Inr:
  assumes "create_manifest D newId file opts = (evs, Inr m)"
  obtains k where "mo_pieceSize opts = num_of_int k" "0 < k" "fm_pieceSize m = k"
    "fm_size m = int (length (blob_bytes file))"
    "fm_pieces m = map (\<lambda>p. p\<lparr>pd_hash := Some (integrity_hash D (piece_slice (blob_bytes file) p))\<rparr>)
       (map (piece_at (fm_size m) k) [0..ceil_div (fm_size m) k - 1])"
    "fm_pieceCount m = int (length (fm_pieces m))"
    "createWholeFileHash D (blob_bytes file) (effective_policy opts) = Inr (fm_fileHash m)"
    "evs = snd (hash_pieces D file opts 0 (map (piece_at (fm_size m) k) [0..ceil_div (fm_size m) k - 1]))"
    "fm_version m = ''1.0.0''"
  using assms
  by (auto simp: create_manifest_def bind_result_Inr_iff createPieceDescriptors_Inr assertPositiveSafeInteger_Inr
      case_prod_unfold Let_def hash_pieces_fst split: sum.splits)

lemma truthy_hash: "truthy (Some (integrity_hash D data)) \<longleftrightarrow> D data \<noteq> []"
  by (cases "D data") (simp_all add: integrity_hash_def bytesToHex_def byte_hex_eq)

text \<open>
  A generated manifest describes its file: the pieces' slices, in order, are the file; every slice
  passes the piece check and has the length its descriptor says; the counts and sizes agree; the
  whole-file hash, when it is there, accepts the file; and the progress events report the running
  totals, ending at the file size.
\<close>

theorem create_manifest_describes:
  assumes "create_manifest D newId file opts = (evs, Inr m)"
  shows "concat (map (piece_slice (blob_bytes file)) (fm_pieces m)) = blob_bytes file \<and>
    piece_cover (fm_size m) (fm_pieceSize m) (fm_pieces m) \<and>
    fm_size m = int (length (blob_bytes file)) \<and> fm_pieceCount m = int (length (fm_pieces m)) \<and>
    (\<forall>p \<in> set (fm_pieces m). verifyPiece D (piece_slice (blob_bytes file) p) p \<and>
        int (length (piece_slice (blob_bytes file) p)) = pd_size p) \<and>
    verifyFile D (blob_bytes file) m \<and>
    map (\<lambda>e. case e of HashProgress _ b _ \<Rightarrow> b) evs =
      map (\<lambda>i. sum_list (map pd_size (take (Suc i) (fm_pieces m)))) [0..<length (fm_pieces m)]"
proof -
  let ?bs = "blob_bytes file"
  obtain k where k: "0 < k" "fm_pieceSize m = k" and n: "fm_size m = int (length ?bs)"
    and ps: "fm_pieces m = map (\<lambda>p. p\<lparr>pd_hash := Some (integrity_hash D (piece_slice ?bs p))\<rparr>)
       (map (piece_at (fm_size m) k) [0..ceil_div (fm_size m) k - 1])"
    and pc: "fm_pieceCount m = int (length (fm_pieces m))"
    and fh: "createWholeFileHash D ?bs (effective_policy opts) = Inr (fm_fileHash m)"
    and evs: "evs = snd (hash_pieces D file opts 0 (map (piece_at (fm_size m) k) [0..ceil_div (fm_size m) k - 1]))"
    by (rule create_manifest_Inr [OF assms]) blast
  define qs where "qs = map (piece_at (fm_size m) k) [0..ceil_div (fm_size m) k - 1]"
  have ps': "fm_pieces m = map (\<lambda>p. p\<lparr>pd_hash := Some (integrity_hash D (piece_slice ?bs p))\<rparr>) qs"
    using ps by (simp add: qs_def)
  have "piece_cover (fm_size m) k qs"
    unfolding qs_def using n k by (intro createPieceDescriptors_cover) simp_all
  then have cover: "piece_cover (fm_size m) k (fm_pieces m)"
    by (simp add: ps' piece_cover_def take_map comp_def)
  have cat: "concat (map (piece_slice ?bs) (fm_pieces m)) = ?bs"
    unfolding ps' map_map comp_def piece_slice_hash
    unfolding qs_def using k n by (intro concat_piece_slices) simp_all
  have len: "int (length (piece_slice ?bs p)) = pd_size p" if "p \<in> set (fm_pieces m)" for p
    using that piece_at_range [OF k(1)] n unfolding ps by (auto simp: length_piece_slice less_imp_le)
  have ver: "verifyPiece D (piece_slice ?bs p) p" if "p \<in> set (fm_pieces m)" for p
  proof -
    have "pd_hash p = Some (integrity_hash D (piece_slice ?bs p))"
      using that by (auto simp: ps piece_slice_def)
    with len [OF that] show ?thesis by (simp add: verifyPiece_def)
  qed
  have "verifyFile D ?bs m"
    using fh by (cases "effective_policy opts")
      (auto simp: verifyFile_def bind_result_Inr_iff hashWholeFileWhenSafe_def split: if_splits)
  moreover have "map (\<lambda>e. case e of HashProgress _ b _ \<Rightarrow> b) evs =
      map (\<lambda>i. sum_list (map pd_size (take (Suc i) (fm_pieces m)))) [0..<length (fm_pieces m)]"
    unfolding evs [folded qs_def] hash_pieces_snd by (simp add: ps' take_map comp_def)
  ultimately show ?thesis using cat cover n pc len ver k by blast
qed

lemma manifest_slices:
  assumes "create_manifest D newId file opts = (evs, Inr m)"
  shows "concat (map (piece_slice (blob_bytes file)) (fm_pieces m)) = blob_bytes file"
    and "distinct (map pd_index (fm_pieces m))" and "fm_size m = int (length (blob_bytes file))"
proof -
  obtain k where k: "0 < k" and n: "fm_size m = int (length (blob_bytes file))"
    and ps: "fm_pieces m = map (\<lambda>p. p\<lparr>pd_hash := Some (integrity_hash D (piece_slice (blob_bytes file) p))\<rparr>)
       (map (piece_at (fm_size m) k) [0..ceil_div (fm_size m) k - 1])"
    by (rule create_manifest_Inr [OF assms]) blast
  show "concat (map (piece_slice (blob_bytes file)) (fm_pieces m)) = blob_bytes file"
    unfolding ps map_map comp_def piece_slice_hash
    using concat_piece_slices [OF k, of "blob_bytes file" "fm_size m"] n by (simp add: comp_def)
  show "distinct (map pd_index (fm_pieces m))" by (simp add: ps comp_def)
  show "fm_size m = int (length (blob_bytes file))" by (rule n)
qed

definition example_options :: manifest_options where
  "example_options = \<lparr>mo_pieceSize = num_of_int 2, mo_includeFileHash = True, mo_maxFileHashBytes = None,
     mo_fileId = None, mo_fileHashPolicy = None\<rparr>"

definition example_file :: blob where
  "example_file = \<lparr>blob_bytes = [1, 2, 3], blob_name = None, blob_type = None\<rparr>"

lemma example_manifest_created:
  "\<exists>evs m. create_manifest (take 1) ''id'' example_file example_options = (evs, Inr m) \<and> fm_fileId m = ''id''"
  by (simp add: create_manifest_def example_file_def example_options_def assertPositiveSafeInteger_Inr
      createPieceDescriptors_def assertSafeNonNegativeInteger_def assertPositiveSafeInteger_def num_of_int_def
      MAX_SAFE_INTEGER_def case_prod_unfold effective_policy_def hashWholeFileWhenSafe_def is_integral_def Let_def)

theorem create_manifest_describes_witness:
  "\<exists>evs m. create_manifest (take 1) ''id'' example_file example_options = (evs, Inr m) \<and>
     concat (map (piece_slice [1, 2, 3]) (fm_pieces m)) = [1, 2, 3] \<and> fm_size m = 3"
proof -
  obtain evs m where m: "create_manifest (take 1) ''id'' example_file example_options = (evs, Inr m)"
    using example_manifest_created by blast
  from create_manifest_describes [OF m] show ?thesis
    by (intro exI conjI) (rule m, simp_all add: example_file_def)
qed

section \<open>Merging keeps what was persisted\<close>

lemma manifestsEquivalent_refl [simp]: "manifestsEquivalent m m"
  by (simp add: manifestsEquivalent_def list_all2_refl same_piece_def)

lemma persisted_map:
  "distinct (map fm_fileId P) \<Longrightarrow>
   foldl (\<lambda>acc m. jm_set (fm_fileId m) m acc) [] P = map (\<lambda>m. (fm_fileId m, m)) P"
  by (induction P rule: rev_induct) (auto simp: jm_set_new comp_def)

lemma merge_incoming_Inr:
  assumes "merge_incoming M I = Inr R" and "\<forall>(k, m) \<in> set M. fm_fileId m = k" and "jm_wf M"
  shows "(\<exists>N. R = M @ N \<and> snd ` set N \<subseteq> set I) \<and> jm_wf R \<and> (\<forall>(k, m) \<in> set R. fm_fileId m = k) \<and>
    (\<forall>m \<in> set I. \<exists>m' \<in> snd ` set R. fm_fileId m' = fm_fileId m \<and> manifestsEquivalent m' m)"
  using assms
proof (induction M I rule: merge_incoming.induct)
  case (2 M m ms)
  show ?case
  proof (cases "jm_get M (fm_fileId m)")
    case None
    let ?M = "M @ [(fm_fileId m, m)]"
    have M: "jm_set (fm_fileId m) m M = ?M" using None by (simp add: jm_set_new jm_get_None_iff)
    have "merge_incoming ?M ms = Inr R" using 2(3) None M by simp
    moreover have "\<forall>(k, m) \<in> set ?M. fm_fileId m = k" using 2(4) by simp
    moreover have "jm_wf ?M" unfolding M [symmetric] using 2(5) by simp
    ultimately obtain N where "R = ?M @ N" "snd ` set N \<subseteq> set ms" "jm_wf R" "\<forall>(k, m) \<in> set R. fm_fileId m = k"
      and all: "\<forall>m \<in> set ms. \<exists>m' \<in> snd ` set R. fm_fileId m' = fm_fileId m \<and> manifestsEquivalent m' m"
      using 2(1) [OF None] unfolding M by blast
    then have "R = M @ ((fm_fileId m, m) # N) \<and> snd ` set ((fm_fileId m, m) # N) \<subseteq> set (m # ms) \<and> m \<in> snd ` set R"
      by auto
    with all \<open>jm_wf R\<close> \<open>\<forall>(k, m) \<in> set R. fm_fileId m = k\<close> show ?thesis
      by (auto intro: manifestsEquivalent_refl)
  next
    case (Some e)
    then have e: "(fm_fileId m, e) \<in> set M" by (rule map_of_SomeD)
    have eq: "manifestsEquivalent e m" using 2(3) Some by (auto split: if_splits)
    have r: "merge_incoming M ms = Inr R" using 2(3) Some eq by simp
    have ih: "(\<exists>N. R = M @ N \<and> snd ` set N \<subseteq> set ms) \<and> jm_wf R \<and> (\<forall>(k, m) \<in> set R. fm_fileId m = k) \<and>
      (\<forall>m \<in> set ms. \<exists>m' \<in> snd ` set R. fm_fileId m' = fm_fileId m \<and> manifestsEquivalent m' m)"
      using 2(2) [OF Some _ r 2(4,5)] eq by simp
    then have "(fm_fileId m, e) \<in> set R" using e by auto
    moreover have "fm_fileId e = fm_fileId m" using e 2(4) by auto
    ultimately have "\<exists>m' \<in> snd ` set R. fm_fileId m' = fm_fileId m \<and> manifestsEquivalent m' m"
      using eq by (intro bexI [of _ e]) (auto intro: rev_image_eqI)
    with ih show ?thesis by auto
  qed
qed auto

lemma merge_incoming_Inl:
  assumes "merge_incoming M I = Inl e" and "\<forall>(k, m) \<in> set M. fm_fileId m = k \<and> m \<in> A"
  shows "e = manifest_mismatch_error \<and>
    (\<exists>m \<in> set I. \<exists>m' \<in> A \<union> set I. fm_fileId m' = fm_fileId m \<and> \<not> manifestsEquivalent m' m)"
  using assms
proof (induction M I arbitrary: A rule: merge_incoming.induct)
  case (2 M m ms)
  show ?case
  proof (cases "jm_get M (fm_fileId m)")
    case None
    have "jm_set (fm_fileId m) m M = M @ [(fm_fileId m, m)]"
      using None by (simp add: jm_set_new jm_get_None_iff)
    with 2(1) [OF None, of "insert m A"] 2(3,4) None show ?thesis by fastforce
  next
    case (Some x)
    then have x: "fm_fileId x = fm_fileId m \<and> x \<in> A" using 2(4) map_of_SomeD by fastforce
    show ?thesis
    proof (cases "manifestsEquivalent x m")
      case True
      with 2(2) [OF Some, of A] 2(3,4) Some show ?thesis by fastforce
    next
      case False
      with 2(3) Some x show ?thesis by auto
    qed
  qed
qed simp

text \<open>
  Merging a join's manifests into the persisted ones keeps every persisted manifest and its place,
  has one manifest per file, accepts every incoming manifest that agrees with the kept one, and
  throws \<open>resume:manifest_mismatch\<close> only when two manifests of one file disagree.
\<close>

theorem mergeManifests_keeps:
  assumes "distinct (map fm_fileId P)"
  shows "case mergeManifests P I of
      Inl e \<Rightarrow> e = manifest_mismatch_error \<and>
        (\<exists>m \<in> set I. \<exists>m' \<in> set P \<union> set I. fm_fileId m' = fm_fileId m \<and> \<not> manifestsEquivalent m' m)
    | Inr ms \<Rightarrow> take (length P) ms = P \<and> distinct (map fm_fileId ms) \<and> set ms \<subseteq> set P \<union> set I \<and>
        (\<forall>m \<in> set I. \<exists>m' \<in> set ms. fm_fileId m' = fm_fileId m \<and> manifestsEquivalent m' m)"
proof (cases "merge_incoming (map (\<lambda>m. (fm_fileId m, m)) P) I")
  case (Inl e)
  with merge_incoming_Inl [OF Inl, of "set P"] show ?thesis
    by (auto simp: mergeManifests_def persisted_map [OF assms])
next
  case (Inr R)
  have wf: "jm_wf (map (\<lambda>m. (fm_fileId m, m)) P)" using assms by (simp add: jm_wf_def comp_def)
  from merge_incoming_Inr [OF Inr _ wf] obtain N where
    R: "R = map (\<lambda>m. (fm_fileId m, m)) P @ N" "snd ` set N \<subseteq> set I" and
    ids: "\<forall>(k, m) \<in> set R. fm_fileId m = k" and "jm_wf R" and
    all: "\<forall>m \<in> set I. \<exists>m' \<in> snd ` set R. fm_fileId m' = fm_fileId m \<and> manifestsEquivalent m' m"
    by auto
  have "map fm_fileId (map snd R) = jm_keys R" using ids by auto
  with \<open>jm_wf R\<close> have "distinct (map fm_fileId (map snd R))" by (simp add: jm_wf_def del: map_map)
  moreover have "map snd R = P @ map snd N" using R by (simp add: comp_def)
  ultimately show ?thesis using R(2) all Inr
    by (simp add: mergeManifests_def persisted_map [OF assms] flip: set_map) auto
qed

definition example_manifest :: file_manifest where
  "example_manifest = \<lparr>fm_version = ''1.0.0'', fm_fileId = ''f'', fm_name = ''a'', fm_size = 3,
     fm_mimeType = '''', fm_pieceSize = 2, fm_pieceCount = 2, fm_fileHash = None,
     fm_fileHashUnavailableReason = None, fm_pieces = [piece_at 3 2 0, piece_at 3 2 1]\<rparr>"

theorem mergeManifests_keeps_witness:
  "distinct (map fm_fileId [example_manifest]) \<and>
   (\<exists>ms. mergeManifests [example_manifest] [example_manifest] = Inr ms \<and> take 1 ms = [example_manifest])"
proof -
  have "distinct (map fm_fileId [example_manifest])" by simp
  note mergeManifests_keeps [OF this, of "[example_manifest]"]
  moreover have "mergeManifests [example_manifest] [example_manifest] = Inr [example_manifest]"
    by (simp add: mergeManifests_def)
  ultimately show ?thesis by simp
qed

end
