(* ===== verification/Piece_Manager.thy ===== *)
theory Piece_Manager
  imports Piece_Layout
begin

text \<open>
  \<open>PieceManager\<close> and \<open>OwnerFirstScheduler\<close> of \<open>packages/core/src/index.ts\<close>: the state of every piece
  of a file on the receiving side, its transitions, its export and import, and the progress computed
  from it. \<open>now\<close> is the clock reading of the call. Piece indices are integers.
\<close>

section \<open>State\<close>

datatype piece_status = Missing | Requested | Receiving | Received | Verified | Failed

record piece_state =
  ps_index :: int
  ps_status :: piece_status
  ps_size :: int
  ps_receivedBytes :: int
  ps_retryCount :: int
  ps_requestedFrom :: "string option"
  ps_updatedAt :: int
  ps_failureReason :: "string option"

record piece_map =
  px_fileId :: string
  px_pieces :: "piece_state list"
  px_exportedAt :: int

record piece_manager =
  pm_fileId :: string
  pm_states :: "piece_state list"

record transfer_progress =
  tp_progress :: jsnum
  tp_bytesTransferred :: int
  tp_totalBytes :: int
  tp_verifiedPieces :: int
  tp_totalPieces :: int

definition new_piece_manager :: "string \<Rightarrow> piece_descriptor list \<Rightarrow> int \<Rightarrow> piece_manager" where
  "new_piece_manager fileId pieces now =
     \<lparr>pm_fileId = fileId,
      pm_states = map (\<lambda>piece. \<lparr>ps_index = pd_index piece, ps_status = Missing, ps_size = pd_size piece,
        ps_receivedBytes = 0, ps_retryCount = 0, ps_requestedFrom = None, ps_updatedAt = now,
        ps_failureReason = None\<rparr>) pieces\<rparr>"

section \<open>Reads and updates of one piece\<close>

definition piece_not_found :: pons_error where
  "piece_not_found = PonsWarpError ''piece:not_found'' None None"

definition requirePiece :: "piece_manager \<Rightarrow> int \<Rightarrow> piece_state result" where
  "requirePiece m index =
     (case arr_at (pm_states m) index of
        None \<Rightarrow> Inl piece_not_found
      | Some state \<Rightarrow> if ps_index state \<noteq> index then Inl piece_not_found else Inr state)"

definition update_piece :: "piece_manager \<Rightarrow> int \<Rightarrow> int \<Rightarrow> (piece_state \<Rightarrow> piece_state) \<Rightarrow> piece_manager result" where
  "update_piece m now index patch =
     bind_result (requirePiece m index) (\<lambda>current.
       Inr (m\<lparr>pm_states := (pm_states m)[nat index := (patch current)\<lparr>ps_updatedAt := now\<rparr>]\<rparr>))"

definition markRequested :: "piece_manager \<Rightarrow> int \<Rightarrow> int \<Rightarrow> string \<Rightarrow> piece_manager result" where
  "markRequested m now index peerId =
     bind_result (requirePiece m index) (\<lambda>_.
       update_piece m now index (\<lambda>s. s\<lparr>ps_status := Requested, ps_requestedFrom := Some peerId,
         ps_receivedBytes := 0, ps_failureReason := None\<rparr>))"

definition markReceiving :: "piece_manager \<Rightarrow> int \<Rightarrow> int \<Rightarrow> jsnum \<Rightarrow> piece_manager result" where
  "markReceiving m now index receivedBytes =
     bind_result (requirePiece m index) (\<lambda>state.
       update_piece m now index (\<lambda>s. s\<lparr>ps_status := Receiving,
         ps_receivedBytes := clampBytes receivedBytes (ps_size state)\<rparr>))"

definition markReceived :: "piece_manager \<Rightarrow> int \<Rightarrow> int \<Rightarrow> piece_manager result" where
  "markReceived m now index =
     bind_result (requirePiece m index) (\<lambda>state.
       update_piece m now index (\<lambda>s. s\<lparr>ps_status := Received, ps_receivedBytes := ps_size state\<rparr>))"

definition markVerified :: "piece_manager \<Rightarrow> int \<Rightarrow> int \<Rightarrow> piece_manager result" where
  "markVerified m now index =
     bind_result (requirePiece m index) (\<lambda>state.
       update_piece m now index (\<lambda>s. s\<lparr>ps_status := Verified, ps_receivedBytes := ps_size state,
         ps_failureReason := None\<rparr>))"

definition markFailed :: "piece_manager \<Rightarrow> int \<Rightarrow> int \<Rightarrow> string \<Rightarrow> piece_manager result" where
  "markFailed m now index reason =
     bind_result (requirePiece m index) (\<lambda>state.
       update_piece m now index (\<lambda>s. s\<lparr>ps_status := Failed, ps_receivedBytes := 0,
         ps_retryCount := ps_retryCount state + 1, ps_requestedFrom := None,
         ps_failureReason := Some reason\<rparr>))"

definition resetFailedToMissing :: "piece_manager \<Rightarrow> int \<Rightarrow> int \<Rightarrow> piece_manager result" where
  "resetFailedToMissing m now index =
     bind_result (requirePiece m index) (\<lambda>state.
       if ps_status state \<noteq> Failed then Inr m
       else update_piece m now index (\<lambda>s. s\<lparr>ps_status := Missing, ps_failureReason := None\<rparr>))"

section \<open>Queries\<close>

definition getMissingPieces :: "piece_manager \<Rightarrow> int list" where
  "getMissingPieces m =
     map ps_index (filter (\<lambda>p. ps_status p = Missing \<or> ps_status p = Failed) (pm_states m))"

definition getVerifiedPieces :: "piece_manager \<Rightarrow> int list" where
  "getVerifiedPieces m = map ps_index (filter (\<lambda>p. ps_status p = Verified) (pm_states m))"

definition getPieceState :: "piece_manager \<Rightarrow> int \<Rightarrow> piece_state result" where
  "getPieceState m index = requirePiece m index"

definition getProgress :: "piece_manager \<Rightarrow> transfer_progress" where
  "getProgress m =
     (let totalBytes = sum_list (map ps_size (pm_states m));
          bytesTransferred = sum_list (map (\<lambda>p.
            if ps_status p = Verified then ps_size p
            else clampBytes (num_of_int (ps_receivedBytes p)) (ps_size p)) (pm_states m));
          verifiedPieces = int (length (getVerifiedPieces m))
      in \<lparr>tp_progress = calculateProgressPercent (num_of_int bytesTransferred) (num_of_int totalBytes),
          tp_bytesTransferred = bytesTransferred, tp_totalBytes = totalBytes,
          tp_verifiedPieces = verifiedPieces, tp_totalPieces = int (length (pm_states m))\<rparr>)"

section \<open>Export and import\<close>

definition exportPieceMap :: "piece_manager \<Rightarrow> int \<Rightarrow> piece_map" where
  "exportPieceMap m now = \<lparr>px_fileId = pm_fileId m, px_pieces = pm_states m, px_exportedAt = now\<rparr>"

definition file_mismatch_error :: pons_error where
  "file_mismatch_error = PonsWarpError ''piece_map:file_mismatch'' None None"

definition import_status :: "piece_status \<Rightarrow> piece_status" where
  "import_status s = (if s = Requested \<or> s = Receiving then Missing else s)"

definition import_patch :: "piece_state \<Rightarrow> int \<Rightarrow> piece_state \<Rightarrow> piece_state" where
  "import_patch imported sz current =
     (let status = import_status (ps_status imported)
      in current\<lparr>ps_status := status, ps_retryCount := ps_retryCount imported,
           ps_requestedFrom := (if status = Missing then None else ps_requestedFrom imported),
           ps_receivedBytes := (if status = Missing then 0
              else clampBytes (num_of_int (ps_receivedBytes imported)) sz),
           ps_failureReason := ps_failureReason imported\<rparr>)"

text \<open>The loop stops at the first unknown index; the pieces before it stay imported.\<close>

fun import_pieces :: "piece_manager \<Rightarrow> int \<Rightarrow> piece_state list \<Rightarrow> piece_manager \<times> pons_error option" where
  "import_pieces m now [] = (m, None)"
| "import_pieces m now (imported # rest) =
     (case requirePiece m (ps_index imported) of
        Inl e \<Rightarrow> (m, Some e)
      | Inr state \<Rightarrow>
          (case update_piece m now (ps_index imported) (import_patch imported (ps_size state)) of
             Inl e \<Rightarrow> (m, Some e)
           | Inr m' \<Rightarrow> import_pieces m' now rest))"

definition importPieceMap :: "piece_manager \<Rightarrow> int \<Rightarrow> piece_map \<Rightarrow> piece_manager \<times> pons_error option" where
  "importPieceMap m now pieceMap =
     (if px_fileId pieceMap \<noteq> pm_fileId m then (m, Some file_mismatch_error)
      else import_pieces m now (px_pieces pieceMap))"

section \<open>Owner-first scheduling\<close>

record scheduled_piece =
  sp_piece :: piece_state
  sp_peerId :: string

fun owner_first_scan :: "piece_manager \<Rightarrow> string \<Rightarrow> int \<Rightarrow> int list \<Rightarrow> scheduled_piece option result" where
  "owner_first_scan m owner maxRetries [] = Inr None"
| "owner_first_scan m owner maxRetries (index # rest) =
     bind_result (getPieceState m index) (\<lambda>piece.
       if ps_retryCount piece \<le> maxRetries then Inr (Some \<lparr>sp_piece = piece, sp_peerId = owner\<rparr>)
       else owner_first_scan m owner maxRetries rest)"

definition owner_first_next :: "string \<Rightarrow> int \<Rightarrow> piece_manager \<Rightarrow> scheduled_piece option result" where
  "owner_first_next owner maxRetries m = owner_first_scan m owner maxRetries (getMissingPieces m)"

section \<open>Operations as values\<close>

text \<open>The mutators, to speak of any sequence of calls; a call that throws leaves the manager as it was.\<close>

datatype piece_op =
    MarkRequested int string
  | MarkReceiving int jsnum
  | MarkReceived int
  | MarkVerified int
  | MarkFailed int string
  | ResetFailed int
  | ImportMap piece_map

fun piece_step :: "piece_manager \<Rightarrow> int \<times> piece_op \<Rightarrow> piece_manager" where
  "piece_step m (now, MarkRequested i p) = (case markRequested m now i p of Inr m' \<Rightarrow> m' | Inl _ \<Rightarrow> m)"
| "piece_step m (now, MarkReceiving i n) = (case markReceiving m now i n of Inr m' \<Rightarrow> m' | Inl _ \<Rightarrow> m)"
| "piece_step m (now, MarkReceived i) = (case markReceived m now i of Inr m' \<Rightarrow> m' | Inl _ \<Rightarrow> m)"
| "piece_step m (now, MarkVerified i) = (case markVerified m now i of Inr m' \<Rightarrow> m' | Inl _ \<Rightarrow> m)"
| "piece_step m (now, MarkFailed i r) = (case markFailed m now i r of Inr m' \<Rightarrow> m' | Inl _ \<Rightarrow> m)"
| "piece_step m (now, ResetFailed i) = (case resetFailedToMissing m now i of Inr m' \<Rightarrow> m' | Inl _ \<Rightarrow> m)"
| "piece_step m (now, ImportMap pm) = fst (importPieceMap m now pm)"

definition piece_run :: "piece_manager \<Rightarrow> (int \<times> piece_op) list \<Rightarrow> piece_manager" where
  "piece_run m ops = foldl piece_step m ops"

section \<open>Well-formed managers\<close>

text \<open>What each status promises about the other fields of its piece.\<close>

definition piece_ok :: "piece_state \<Rightarrow> bool" where
  "piece_ok p \<longleftrightarrow> 0 \<le> ps_receivedBytes p \<and> ps_receivedBytes p \<le> ps_size p \<and> 0 \<le> ps_retryCount p \<and>
     (case ps_status p of
        Missing \<Rightarrow> ps_receivedBytes p = 0 \<and> ps_requestedFrom p = None
      | Requested \<Rightarrow> ps_receivedBytes p = 0 \<and> ps_requestedFrom p \<noteq> None \<and> ps_failureReason p = None
      | Receiving \<Rightarrow> True
      | Received \<Rightarrow> ps_receivedBytes p = ps_size p
      | Verified \<Rightarrow> ps_receivedBytes p = ps_size p
      | Failed \<Rightarrow> ps_receivedBytes p = 0 \<and> ps_requestedFrom p = None \<and> ps_failureReason p \<noteq> None)"

definition pm_wf :: "int list \<Rightarrow> piece_manager \<Rightarrow> bool" where
  "pm_wf sizes m \<longleftrightarrow> map ps_size (pm_states m) = sizes \<and>
     (\<forall>i < length (pm_states m). ps_index (pm_states m ! i) = int i \<and> piece_ok (pm_states m ! i))"

text \<open>An imported map fits when each of its pieces is consistent and has the size of its place.\<close>

definition map_fits :: "int list \<Rightarrow> piece_map \<Rightarrow> bool" where
  "map_fits sizes px \<longleftrightarrow> (\<forall>p \<in> set (px_pieces px). piece_ok p \<and>
     (\<forall>s. arr_at sizes (ps_index p) = Some s \<longrightarrow> s = ps_size p))"

fun op_fits :: "int list \<Rightarrow> piece_op \<Rightarrow> bool" where
  "op_fits sizes (ImportMap px) = map_fits sizes px"
| "op_fits sizes _ = True"

lemma piece_ok_updatedAt [simp]: "piece_ok (p\<lparr>ps_updatedAt := t\<rparr>) = piece_ok p"
  by (simp add: piece_ok_def cong: piece_status.case_cong)

lemma requirePiece_Inr:
  "requirePiece m i = Inr s \<longleftrightarrow> arr_at (pm_states m) i = Some s \<and> ps_index s = i"
  by (auto simp: requirePiece_def split: option.splits)

lemma requirePiece_Inl: "requirePiece m i = Inl e \<Longrightarrow> e = piece_not_found"
  by (auto simp: requirePiece_def split: option.splits if_splits)

lemma requirePiece_wf:
  "pm_wf sizes m \<Longrightarrow> requirePiece m i = Inr s \<longleftrightarrow> 0 \<le> i \<and> i < int (length sizes) \<and> s = pm_states m ! nat i"
  by (auto simp: requirePiece_Inr arr_at_Some_iff pm_wf_def nat_less_iff)

lemma requirePiece_known:
  "pm_wf sizes m \<Longrightarrow> 0 \<le> i \<Longrightarrow> i < int (length sizes) \<Longrightarrow> requirePiece m i = Inr (pm_states m ! nat i)"
  by (simp add: requirePiece_wf)

lemma requirePiece_unknown:
  "pm_wf sizes m \<Longrightarrow> \<not> (0 \<le> i \<and> i < int (length sizes)) \<Longrightarrow> requirePiece m i = Inl piece_not_found"
  by (cases "requirePiece m i") (auto simp: requirePiece_wf dest: requirePiece_Inl)

lemma wf_states_length: "pm_wf sizes m \<Longrightarrow> length (pm_states m) = length sizes"
  by (auto simp: pm_wf_def)

lemma wf_piece_ok: "pm_wf sizes m \<Longrightarrow> requirePiece m i = Inr s \<Longrightarrow> piece_ok s \<and> arr_at sizes i = Some (ps_size s)"
  by (auto simp: requirePiece_Inr arr_at_Some_iff pm_wf_def)

text \<open>Every mutator is one guarded write; the invariant needs a look at the written piece only.\<close>

lemma wf_write:
  assumes "pm_wf sizes m" and "requirePiece m i = Inr s"
    and "ps_index p = ps_index s" and "ps_size p = ps_size s" and "piece_ok s \<Longrightarrow> piece_ok p"
  shows "pm_wf sizes (m\<lparr>pm_states := (pm_states m)[nat i := p]\<rparr>)"
proof -
  have i: "nat i < length (pm_states m)" "pm_states m ! nat i = s" "ps_index s = i" "0 \<le> i"
    using assms(2) by (auto simp: requirePiece_Inr arr_at_Some_iff)
  have "map ps_size ((pm_states m)[nat i := p]) = map ps_size (pm_states m)"
    using i assms(4) by (simp add: map_update list_update_same_conv)
  moreover have "piece_ok p" using assms wf_piece_ok by blast
  ultimately show ?thesis using assms i by (auto simp: pm_wf_def nth_list_update)
qed

lemmas mutator_defs = markRequested_def markReceiving_def markReceived_def markVerified_def markFailed_def
  resetFailedToMissing_def update_piece_def

lemma markRequested_wf [wf_rules]: "pm_wf sizes m \<Longrightarrow> markRequested m now i p = Inr m' \<Longrightarrow> pm_wf sizes m'"
  by (auto simp: mutator_defs bind_result_Inr_iff piece_ok_def intro!: wf_write)

lemma markReceiving_wf [wf_rules]: "pm_wf sizes m \<Longrightarrow> markReceiving m now i n = Inr m' \<Longrightarrow> pm_wf sizes m'"
  using clampBytes_bounds
  by (auto simp: mutator_defs bind_result_Inr_iff piece_ok_def intro!: wf_write)

lemma markReceived_wf [wf_rules]: "pm_wf sizes m \<Longrightarrow> markReceived m now i = Inr m' \<Longrightarrow> pm_wf sizes m'"
  by (auto simp: mutator_defs bind_result_Inr_iff piece_ok_def intro!: wf_write)

lemma markVerified_wf [wf_rules]: "pm_wf sizes m \<Longrightarrow> markVerified m now i = Inr m' \<Longrightarrow> pm_wf sizes m'"
  by (auto simp: mutator_defs bind_result_Inr_iff piece_ok_def intro!: wf_write)

lemma markFailed_wf [wf_rules]: "pm_wf sizes m \<Longrightarrow> markFailed m now i r = Inr m' \<Longrightarrow> pm_wf sizes m'"
  by (auto simp: mutator_defs bind_result_Inr_iff piece_ok_def intro!: wf_write)

lemma resetFailedToMissing_wf [wf_rules]: "pm_wf sizes m \<Longrightarrow> resetFailedToMissing m now i = Inr m' \<Longrightarrow> pm_wf sizes m'"
  by (auto simp: mutator_defs bind_result_Inr_iff piece_ok_def intro!: wf_write split: if_splits)

text \<open>What a call that does not throw writes, and that a call throws exactly for an unknown index.\<close>

lemma import_patch_ok:
  assumes "piece_ok q" and "piece_ok s" and "ps_size q = ps_size s"
  shows "piece_ok (import_patch q (ps_size s) s)"
  using assms by (cases "ps_status q")
    (auto simp: import_patch_def import_status_def piece_ok_def Let_def clampBytes_id clampBytes_bounds
      simp del: not_None_eq)

lemma import_patch_frame [simp]:
  "ps_index (import_patch q sz s) = ps_index s" "ps_size (import_patch q sz s) = ps_size s"
  by (simp_all add: import_patch_def Let_def)

lemma import_pieces_wf:
  "pm_wf sizes m \<Longrightarrow> \<forall>p \<in> set ps. piece_ok p \<and> (\<forall>s. arr_at sizes (ps_index p) = Some s \<longrightarrow> s = ps_size p) \<Longrightarrow>
   pm_wf sizes (fst (import_pieces m now ps))"
proof (induction m now ps rule: import_pieces.induct)
  case (2 m now q rest)
  show ?case
  proof (cases "requirePiece m (ps_index q)")
    case (Inl e)
    with 2 show ?thesis by simp
  next
    case (Inr s)
    let ?m = "m\<lparr>pm_states := (pm_states m)[nat (ps_index q) := (import_patch q (ps_size s) s)\<lparr>ps_updatedAt := now\<rparr>]\<rparr>"
    have upd: "update_piece m now (ps_index q) (import_patch q (ps_size s)) = Inr ?m"
      using Inr by (simp add: update_piece_def)
    have "piece_ok s \<and> ps_size q = ps_size s" and "piece_ok q"
      using wf_piece_ok [OF 2(2) Inr] 2(3) by auto
    then have "pm_wf sizes ?m"
      using import_patch_ok by (intro wf_write [OF 2(2) Inr]) auto
    with 2(1) [OF Inr upd] 2(3) Inr upd show ?thesis by simp
  qed
qed simp

lemma importPieceMap_wf [wf_rules]:
  "pm_wf sizes m \<Longrightarrow> map_fits sizes px \<Longrightarrow> pm_wf sizes (fst (importPieceMap m now px))"
  unfolding importPieceMap_def map_fits_def by (auto intro: import_pieces_wf)

lemma piece_step_wf [wf_rules]: "pm_wf sizes m \<Longrightarrow> op_fits sizes op \<Longrightarrow> pm_wf sizes (piece_step m (now, op))"
  by (cases op) (auto split: sum.splits intro: wf_rules)

lemma new_piece_manager_wf [wf_rules]:
  assumes "\<forall>i < length ps. pd_index (ps ! i) = int i \<and> 0 \<le> pd_size (ps ! i)"
  shows "pm_wf (map pd_size ps) (new_piece_manager f ps now)"
  using assms by (auto simp: pm_wf_def new_piece_manager_def piece_ok_def comp_def)



section \<open>Progress\<close>

lemma clampBytes_received:
  "piece_ok p \<Longrightarrow> clampBytes (num_of_int (ps_receivedBytes p)) (ps_size p) = ps_receivedBytes p"
  by (simp add: piece_ok_def clampBytes_id)

lemma wf_all_ok: "pm_wf sizes m \<Longrightarrow> p \<in> set (pm_states m) \<Longrightarrow> piece_ok p"
  by (auto simp: pm_wf_def in_set_conv_nth)

lemma piece_ok_verified: "piece_ok p \<Longrightarrow> ps_status p = Verified \<Longrightarrow> ps_receivedBytes p = ps_size p"
  by (simp add: piece_ok_def)

lemma wf_progress_bytes:
  assumes "pm_wf sizes m"
  shows "tp_bytesTransferred (getProgress m) = sum_list (map ps_receivedBytes (pm_states m))"
    and "tp_totalBytes (getProgress m) = sum_list sizes"
proof -
  have "map (\<lambda>p. if ps_status p = Verified then ps_size p
            else clampBytes (num_of_int (ps_receivedBytes p)) (ps_size p)) (pm_states m) =
        map ps_receivedBytes (pm_states m)"
    using wf_all_ok [OF assms] by (intro map_cong refl) (auto simp: clampBytes_received piece_ok_verified)
  from arg_cong [OF this, of sum_list]
  show "tp_bytesTransferred (getProgress m) = sum_list (map ps_receivedBytes (pm_states m))"
    by (simp add: getProgress_def Let_def)
  show "tp_totalBytes (getProgress m) = sum_list sizes"
    using assms by (auto simp: getProgress_def Let_def pm_wf_def)
qed

lemma sum_list_le_eq_iff:
  fixes f g :: "'a \<Rightarrow> int"
  assumes "\<forall>x \<in> set xs. f x \<le> g x"
  shows "sum_list (map f xs) \<le> sum_list (map g xs) \<and>
    (sum_list (map f xs) = sum_list (map g xs) \<longleftrightarrow> (\<forall>x \<in> set xs. f x = g x))"
  using assms by (induction xs) (auto dest: add_less_le_mono add_le_less_mono)

text \<open>
  The progress of a well-formed manager with something to transfer is exact: the percentage is the
  share of received bytes, it lies between 0 and 100, it is 100 exactly when every piece
  is complete, and all pieces count as verified exactly when the missing list and every
  intermediate state are empty.
\<close>

theorem getProgress_exact:
  assumes "pm_wf sizes m" and "0 < sum_list sizes"
  shows "tp_progress (getProgress m) =
      Fin (of_int (sum_list (map ps_receivedBytes (pm_states m))) / of_int (sum_list sizes) * 100) \<and>
    (\<exists>p. tp_progress (getProgress m) = Fin p \<and> 0 \<le> p \<and> p \<le> 100 \<and>
       (p = 100 \<longleftrightarrow> (\<forall>s \<in> set (pm_states m). ps_receivedBytes s = ps_size s))) \<and>
    (tp_verifiedPieces (getProgress m) = tp_totalPieces (getProgress m) \<longleftrightarrow>
       (\<forall>s \<in> set (pm_states m). ps_status s = Verified))"
proof -
  let ?b = "sum_list (map ps_receivedBytes (pm_states m))"
  have sz: "sum_list (map ps_size (pm_states m)) = sum_list sizes" using assms(1) by (auto simp: pm_wf_def)
  have b: "0 \<le> ?b" using wf_all_ok [OF assms(1)] by (intro sum_list_nonneg) (auto simp: piece_ok_def)
  have "\<forall>s \<in> set (pm_states m). ps_receivedBytes s \<le> ps_size s"
    using wf_all_ok [OF assms(1)] by (auto simp: piece_ok_def)
  from sum_list_le_eq_iff [OF this] sz
  have le: "?b \<le> sum_list sizes" and eq: "?b = sum_list sizes \<longleftrightarrow> (\<forall>s \<in> set (pm_states m). ps_receivedBytes s = ps_size s)"
    by auto
  have p: "tp_progress (getProgress m) = Fin (of_int ?b / of_int (sum_list sizes) * 100)"
    using calculateProgressPercent_exact [OF b le assms(2)] wf_progress_bytes [OF assms(1)]
    by (simp add: getProgress_def Let_def)
  have "(of_int ?b / of_int (sum_list sizes) * 100 :: real) = 100 \<longleftrightarrow> ?b = sum_list sizes"
    using assms(2) by (auto simp: field_simps)
  moreover have "0 \<le> (of_int ?b / of_int (sum_list sizes) * 100 :: real)"
    and "(of_int ?b / of_int (sum_list sizes) * 100 :: real) \<le> 100"
    using b le assms(2) by (simp_all add: field_simps)
  moreover have "tp_verifiedPieces (getProgress m) = tp_totalPieces (getProgress m) \<longleftrightarrow>
       (\<forall>s \<in> set (pm_states m). ps_status s = Verified)"
    by (simp add: getProgress_def Let_def getVerifiedPieces_def length_filter_less filter_id_conv)
      (metis (mono_tags, lifting) filter_id_conv length_filter_less nat_neq_iff)
  ultimately show ?thesis using p eq by auto
qed

theorem getProgress_exact_witness:
  "pm_wf [2, 1] (new_piece_manager ''f'' [piece_at 3 2 0, piece_at 3 2 1] 0) \<and>
   tp_progress (getProgress (new_piece_manager ''f'' [piece_at 3 2 0, piece_at 3 2 1] 0)) = Fin 0"
proof -
  let ?m = "new_piece_manager ''f'' [piece_at 3 2 0, piece_at 3 2 1] 0"
  have wf: "pm_wf [2, 1] ?m"
    by (simp add: pm_wf_def new_piece_manager_def piece_ok_def less_Suc_eq numeral_2_eq_2)
  with getProgress_exact [OF wf] show ?thesis by (simp add: new_piece_manager_def)
qed

section \<open>Export and import are a round trip\<close>

text \<open>What a piece becomes when its state is saved and restored: work in flight is forgotten.\<close>

definition restored :: "int \<Rightarrow> piece_state \<Rightarrow> piece_state" where
  "restored now p =
     (if ps_status p = Requested \<or> ps_status p = Receiving
      then p\<lparr>ps_status := Missing, ps_receivedBytes := 0, ps_requestedFrom := None\<rparr> else p)
     \<lparr>ps_updatedAt := now\<rparr>"

lemma import_patch_restored:
  assumes "piece_ok q" and "ps_index b = ps_index q" and "ps_size b = ps_size q"
  shows "(import_patch q (ps_size b) b)\<lparr>ps_updatedAt := now\<rparr> = restored now q"
  using assms by (cases "ps_status q")
    (auto simp: import_patch_def import_status_def restored_def Let_def clampBytes_received piece_ok_def
      clampBytes_id intro!: piece_state.equality)

lemma import_pieces_all:
  assumes "pm_states m = A @ B" and "length Q = length B"
    and "\<forall>j < length Q. ps_index (Q ! j) = int (length A + j) \<and> ps_index (B ! j) = int (length A + j) \<and>
          ps_size (B ! j) = ps_size (Q ! j) \<and> piece_ok (Q ! j)"
  shows "import_pieces m now Q = (m\<lparr>pm_states := A @ map (restored now) Q\<rparr>, None)"
  using assms
proof (induction Q arbitrary: m A B)
  case Nil
  then show ?case by simp
next
  case (Cons q Q)
  then obtain b B' where B: "B = b # B'" by (cases B) auto
  have q: "ps_index q = int (length A)" "ps_index b = int (length A)" "ps_size b = ps_size q" "piece_ok q"
    using Cons.prems(3) B by (auto simp: All_less_Suc2)
  have req: "requirePiece m (ps_index q) = Inr b"
    using Cons.prems(1) B q by (simp add: requirePiece_Inr arr_at_Some_iff)
  have upd: "update_piece m now (ps_index q) (import_patch q (ps_size b)) =
      Inr (m\<lparr>pm_states := (A @ [restored now q]) @ B'\<rparr>)"
    using req q B Cons.prems(1) import_patch_restored [OF q(4), of b now]
    by (simp add: update_piece_def list_update_append)
  have "import_pieces (m\<lparr>pm_states := (A @ [restored now q]) @ B'\<rparr>) now Q =
      (m\<lparr>pm_states := (A @ [restored now q]) @ B'\<rparr>\<lparr>pm_states := (A @ [restored now q]) @ map (restored now) Q\<rparr>, None)"
    by (rule Cons.IH [where B = B']) (use Cons.prems B in \<open>auto simp: All_less_Suc2\<close>)
  then show ?case using req upd by simp
qed

text \<open>
  Saving a manager's map and importing it into a fresh manager of the same file restores every
  piece, except that requested and half-received pieces come back as missing; nothing is thrown.
\<close>

theorem export_import_roundtrip:
  assumes "pm_wf (map pd_size ps) m" and "\<forall>i < length ps. pd_index (ps ! i) = int i" and "pm_fileId m = f"
  shows "importPieceMap (new_piece_manager f ps t0) now (exportPieceMap m t1) =
    (\<lparr>pm_fileId = f, pm_states = map (restored now) (pm_states m)\<rparr>, None)"
proof -
  have len: "length (pm_states m) = length ps" using assms(1) by (auto dest: wf_states_length)
  have "map ps_size (pm_states m) = map pd_size ps" using assms(1) by (simp add: pm_wf_def)
  then have sz: "ps_size (pm_states m ! i) = pd_size (ps ! i)" if "i < length ps" for i
    using that len by (metis nth_map)
  have "import_pieces (new_piece_manager f ps t0) now (pm_states m) =
     (new_piece_manager f ps t0\<lparr>pm_states := [] @ map (restored now) (pm_states m)\<rparr>, None)"
    by (rule import_pieces_all [where B = "pm_states (new_piece_manager f ps t0)"])
      (use assms len sz in \<open>auto simp: new_piece_manager_def pm_wf_def\<close>)
  then show ?thesis
    using assms(3) by (simp add: importPieceMap_def exportPieceMap_def) (simp add: new_piece_manager_def)
qed

theorem export_import_roundtrip_witness:
  "importPieceMap (new_piece_manager ''f'' [piece_at 3 2 0, piece_at 3 2 1] 0) 9
     (exportPieceMap (piece_run (new_piece_manager ''f'' [piece_at 3 2 0, piece_at 3 2 1] 0)
       [(1, MarkRequested 0 ''p''), (2, MarkVerified 1)]) 5) =
   (\<lparr>pm_fileId = ''f'', pm_states = map (restored 9) (pm_states
     (piece_run (new_piece_manager ''f'' [piece_at 3 2 0, piece_at 3 2 1] 0)
       [(1, MarkRequested 0 ''p''), (2, MarkVerified 1)]))\<rparr>, None)"
proof -
  let ?ps = "[piece_at 3 2 0, piece_at 3 2 1]"
  let ?m = "piece_run (new_piece_manager ''f'' ?ps 0) [(1, MarkRequested 0 ''p''), (2, MarkVerified 1)]"
  have "pm_wf (map pd_size ?ps) (new_piece_manager ''f'' ?ps 0)"
    by (rule new_piece_manager_wf) (simp add: less_Suc_eq numeral_2_eq_2)
  then have "pm_wf (map pd_size ?ps) ?m"
    unfolding piece_run_def foldl_Cons foldl_Nil by (intro piece_step_wf) auto
  then show ?thesis
    by (rule export_import_roundtrip) (simp_all add: less_Suc_eq numeral_2_eq_2 piece_run_def new_piece_manager_def
      mutator_defs requirePiece_def arr_at_def)
qed

section \<open>Owner-first scheduling picks the first eligible piece\<close>

definition wanted :: "int \<Rightarrow> piece_state \<Rightarrow> bool" where
  "wanted maxRetries p \<longleftrightarrow> (ps_status p = Missing \<or> ps_status p = Failed) \<and> ps_retryCount p \<le> maxRetries"

lemma wf_state_by_index:
  "pm_wf sizes m \<Longrightarrow> p \<in> set (pm_states m) \<Longrightarrow> requirePiece m (ps_index p) = Inr p"
  by (auto simp: pm_wf_def in_set_conv_nth requirePiece_def)

lemma owner_first_scan_find:
  assumes "\<forall>p \<in> set ps. requirePiece m (ps_index p) = Inr p"
  shows "owner_first_scan m owner maxRetries (map ps_index ps) =
    Inr (map_option (\<lambda>p. \<lparr>sp_piece = p, sp_peerId = owner\<rparr>) (find (\<lambda>p. ps_retryCount p \<le> maxRetries) ps))"
  using assms by (induction ps) (auto simp: getPieceState_def)

lemma find_filter: "find P (filter Q xs) = find (\<lambda>x. Q x \<and> P x) xs"
  by (induction xs) auto

lemma owner_first_next_find:
  assumes "pm_wf sizes m"
  shows "owner_first_next owner maxRetries m =
    Inr (map_option (\<lambda>p. \<lparr>sp_piece = p, sp_peerId = owner\<rparr>) (find (wanted maxRetries) (pm_states m)))"
proof -
  have "wanted maxRetries = (\<lambda>x. (ps_status x = Missing \<or> ps_status x = Failed) \<and> ps_retryCount x \<le> maxRetries)"
    by (simp add: wanted_def fun_eq_iff)
  then show ?thesis
    unfolding owner_first_next_def getMissingPieces_def
    using wf_state_by_index [OF assms] by (subst owner_first_scan_find) (auto simp: find_filter)
qed

text \<open>
  Owner-first scheduling never throws on a well-formed manager; it offers the owner the missing or
  failed piece of lowest index whose retries are not used up, and offers nothing exactly
  when no such piece is left.
\<close>

theorem owner_first_next_lowest:
  assumes "pm_wf sizes m"
  shows "case owner_first_next owner maxRetries m of
      Inl _ \<Rightarrow> False
    | Inr None \<Rightarrow> \<forall>p \<in> set (pm_states m). \<not> wanted maxRetries p
    | Inr (Some s) \<Rightarrow> sp_peerId s = owner \<and> sp_piece s \<in> set (pm_states m) \<and> wanted maxRetries (sp_piece s) \<and>
        (\<forall>p \<in> set (pm_states m). wanted maxRetries p \<longrightarrow> ps_index (sp_piece s) \<le> ps_index p)"
proof (cases "find (wanted maxRetries) (pm_states m)")
  case None
  then have "owner_first_next owner maxRetries m = Inr None" using owner_first_next_find [OF assms] by simp
  moreover have "\<forall>p \<in> set (pm_states m). \<not> wanted maxRetries p" using None by (simp add: find_None_iff)
  ultimately show ?thesis by simp
next
  case (Some s)
  then obtain i where i: "i < length (pm_states m)" "wanted maxRetries (pm_states m ! i)" "s = pm_states m ! i"
    "\<forall>j < i. \<not> wanted maxRetries (pm_states m ! j)"
    by (auto simp: find_Some_iff)
  have "ps_index s \<le> ps_index p" if "p \<in> set (pm_states m)" "wanted maxRetries p" for p
  proof -
    from that(1) obtain j where j: "j < length (pm_states m)" "pm_states m ! j = p" unfolding in_set_conv_nth by blast
    moreover have "i \<le> j" using i(4) that(2) j by (metis linorder_not_less)
    ultimately show ?thesis using assms i by (auto simp: pm_wf_def)
  qed
  with owner_first_next_find [OF assms] Some i show ?thesis by simp
qed

theorem owner_first_next_lowest_witness:
  "\<exists>s. owner_first_next ''o'' 3 (new_piece_manager ''f'' [piece_at 3 2 0, piece_at 3 2 1] 0) = Inr (Some s) \<and>
     sp_peerId s = ''o'' \<and> ps_index (sp_piece s) = 0"
proof -
  let ?m = "new_piece_manager ''f'' [piece_at 3 2 0, piece_at 3 2 1] 0"
  have wf: "pm_wf [2, 1] ?m"
    by (simp add: pm_wf_def new_piece_manager_def piece_ok_def less_Suc_eq numeral_2_eq_2)
  have "\<exists>s. owner_first_next ''o'' 3 ?m = Inr (Some s) \<and> ps_index (sp_piece s) = 0"
    unfolding owner_first_next_find [OF wf] by (simp add: wanted_def new_piece_manager_def)
  with owner_first_next_lowest [OF wf, where owner = "''o''" and maxRetries = 3] show ?thesis by auto
qed

section \<open>Frame facts the engine uses\<close>

text \<open>A mark on one piece leaves the file id, the missing and verified lists' other members and all other pieces alone.\<close>

definition same_except :: "int \<Rightarrow> piece_manager \<Rightarrow> piece_manager \<Rightarrow> bool" where
  "same_except i m m' \<longleftrightarrow> pm_fileId m' = pm_fileId m \<and> length (pm_states m') = length (pm_states m) \<and>
     (\<forall>j < length (pm_states m). int j \<noteq> i \<longrightarrow> pm_states m' ! j = pm_states m ! j)"

lemma same_except_refl [simp]: "same_except i m m"
  by (simp add: same_except_def)

lemma same_except_trans: "same_except i m m' \<Longrightarrow> same_except i m' m'' \<Longrightarrow> same_except i m m''"
  by (auto simp: same_except_def)

lemma write_same_except:
  "requirePiece m i = Inr s \<Longrightarrow> same_except i m (m\<lparr>pm_states := (pm_states m)[nat i := p]\<rparr>)"
  by (auto simp: same_except_def requirePiece_Inr arr_at_Some_iff nth_list_update)

lemma mutators_same_except:
  "markRequested m now i q = Inr m' \<Longrightarrow> same_except i m m'"
  "markReceiving m now i n = Inr m' \<Longrightarrow> same_except i m m'"
  "markReceived m now i = Inr m' \<Longrightarrow> same_except i m m'"
  "markVerified m now i = Inr m' \<Longrightarrow> same_except i m m'"
  "markFailed m now i r = Inr m' \<Longrightarrow> same_except i m m'"
  "resetFailedToMissing m now i = Inr m' \<Longrightarrow> same_except i m m'"
  by (auto simp: mutator_defs bind_result_Inr_iff intro: write_same_except split: if_splits)

end
