(* ===== verification/Session_State.thy ===== *)
theory Session_State
  imports Piece_Manager
begin

text \<open>
  The persisted session state and its validation (\<open>validatePersistedSessionState\<close>,
  \<open>validatePieceMapForManifest\<close> and the \<open>validate*Shape\<close> helpers of \<open>packages/core/src/index.ts\<close>).
  Validation runs on untyped values: a value of type \<open>unknown\<close> is a \<open>js_value\<close>. A state that the
  engine holds is the record \<open>persisted_session\<close>, which \<open>encode_session\<close> shows as such a value.
\<close>

section \<open>Untyped values\<close>

datatype js_value =
    JUndef
  | JNull
  | JBool bool
  | JNum jsnum
  | JStr string
  | JArr "js_value list"
  | JObj "(string \<times> js_value) list"

fun isRecord :: "js_value \<Rightarrow> bool" where
  "isRecord (JObj _) = True"
| "isRecord _ = False"

fun jfield :: "js_value \<Rightarrow> string \<Rightarrow> js_value" where
  "jfield (JObj fs) k = (case map_of fs k of Some v \<Rightarrow> v | None \<Rightarrow> JUndef)"
| "jfield _ k = JUndef"

fun is_string :: "js_value \<Rightarrow> bool" where
  "is_string (JStr _) = True"
| "is_string _ = False"

fun nonempty_string :: "js_value \<Rightarrow> bool" where
  "nonempty_string (JStr s) = (s \<noteq> '''')"
| "nonempty_string _ = False"

fun is_number :: "js_value \<Rightarrow> bool" where
  "is_number (JNum _) = True"
| "is_number _ = False"

fun finite_number :: "js_value \<Rightarrow> bool" where
  "finite_number (JNum n) = js_isFinite n"
| "finite_number _ = False"

fun elements :: "js_value \<Rightarrow> js_value list option" where
  "elements (JArr vs) = Some vs"
| "elements _ = None"

text \<open>A number field that may not be below a bound; NaN is below nothing and passes.\<close>

fun number_from :: "real \<Rightarrow> js_value \<Rightarrow> bool" where
  "number_from b (JNum n) = (\<not> js_less n (Fin b))"
| "number_from b _ = False"

fun positive_number :: "js_value \<Rightarrow> bool" where
  "positive_number (JNum n) = (\<not> js_le n (Fin 0))"
| "positive_number _ = False"

text \<open>
  \<open>String(value)\<close> where it can be a bare word: a string is itself and an array of one element renders
  as that element. \<open>None\<close> stands for every rendering that is not a word of letters
  (numbers, objects, longer arrays) or is one of \<open>true\<close>, \<open>false\<close>, \<open>null\<close>, \<open>undefined\<close>.
\<close>

fun js_word :: "js_value \<Rightarrow> string option" where
  "js_word (JStr s) = Some s"
| "js_word (JArr [v]) = (if v = JNull \<or> v = JUndef then Some '''' else js_word v)"
| "js_word _ = None"

section \<open>The persisted state\<close>

definition CORE_PROTOCOL_VERSION :: string where
  "CORE_PROTOCOL_VERSION = ''ponswarp-grid/1.0.0''"

datatype peer_role = OwnerRole | ReceiverRole

record persisted_peer =
  pp_peerId :: string
  pp_role :: peer_role
  pp_updatedAt :: int

datatype session_mode = DirectMode | GridMode

record persisted_session =
  ss_schemaVersion :: int
  ss_protocolVersion :: string
  ss_sessionId :: string
  ss_ownerPeerId :: "string option"
  ss_mode :: session_mode
  ss_manifests :: "file_manifest list"
  ss_pieceMaps :: "piece_map list"
  ss_peers :: "persisted_peer list"
  ss_updatedAt :: int

section \<open>Validation\<close>

definition invalid_resume_state :: pons_error where
  "invalid_resume_state = PonsWarpError ''resume:state_invalid'' (Some ''resume'') (Some True)"

definition protocol_mismatch_error :: pons_error where
  "protocol_mismatch_error = PonsWarpError ''resume:protocol_mismatch'' (Some ''resume'') (Some True)"

abbreviation throwInvalidResumeState :: "unit result" where
  "throwInvalidResumeState \<equiv> Inl invalid_resume_state"

definition status_names :: "string list" where
  "status_names = [''missing'', ''requested'', ''receiving'', ''received'', ''verified'', ''failed'']"

definition validatePieceDescriptorShape :: "js_value \<Rightarrow> unit result" where
  "validatePieceDescriptorShape v =
     (if \<not> isRecord v then throwInvalidResumeState
      else if \<not> number_from 0 (jfield v ''index'') then throwInvalidResumeState
      else if \<not> number_from 0 (jfield v ''offset'') then throwInvalidResumeState
      else if \<not> number_from 0 (jfield v ''size'') then throwInvalidResumeState
      else if jfield v ''hash'' \<noteq> JUndef \<and> \<not> is_string (jfield v ''hash'') then throwInvalidResumeState
      else Inr ())"

text \<open>A \<open>for\<close> loop of checks, which stops at the first throw.\<close>

fun check_all :: "('a \<Rightarrow> unit result) \<Rightarrow> 'a list \<Rightarrow> unit result" where
  "check_all f [] = Inr ()"
| "check_all f (x # xs) = bind_result (f x) (\<lambda>_. check_all f xs)"

definition validateManifestShape :: "js_value \<Rightarrow> unit result" where
  "validateManifestShape v =
     (if \<not> isRecord v then throwInvalidResumeState
      else if jfield v ''version'' \<noteq> JStr ''1.0.0'' then throwInvalidResumeState
      else if \<not> nonempty_string (jfield v ''fileId'') then throwInvalidResumeState
      else if \<not> is_string (jfield v ''name'') then throwInvalidResumeState
      else if \<not> number_from 0 (jfield v ''size'') then throwInvalidResumeState
      else if \<not> positive_number (jfield v ''pieceSize'') then throwInvalidResumeState
      else if \<not> number_from 0 (jfield v ''pieceCount'') then throwInvalidResumeState
      else case elements (jfield v ''pieces'') of
          None \<Rightarrow> throwInvalidResumeState
        | Some pieces \<Rightarrow>
            if JNum (num_of_int (int (length pieces))) \<noteq> jfield v ''pieceCount'' then throwInvalidResumeState
            else check_all validatePieceDescriptorShape pieces)"

definition validatePieceStateShape :: "js_value \<Rightarrow> unit result" where
  "validatePieceStateShape v =
     (if \<not> isRecord v then throwInvalidResumeState
      else if \<not> number_from 0 (jfield v ''index'') then throwInvalidResumeState
      else if (case js_word (jfield v ''status'') of None \<Rightarrow> True | Some s \<Rightarrow> s \<notin> set status_names)
        then throwInvalidResumeState
      else if \<not> number_from 0 (jfield v ''size'') then throwInvalidResumeState
      else if \<not> number_from 0 (jfield v ''receivedBytes'') then throwInvalidResumeState
      else if \<not> number_from 0 (jfield v ''retryCount'') then throwInvalidResumeState
      else if \<not> finite_number (jfield v ''updatedAt'') then throwInvalidResumeState
      else Inr ())"

definition validatePieceMapShape :: "js_value \<Rightarrow> unit result" where
  "validatePieceMapShape v =
     (if \<not> isRecord v then throwInvalidResumeState
      else if \<not> nonempty_string (jfield v ''fileId'') then throwInvalidResumeState
      else case elements (jfield v ''pieces'') of
          None \<Rightarrow> throwInvalidResumeState
        | Some pieces \<Rightarrow>
            if \<not> finite_number (jfield v ''exportedAt'') then throwInvalidResumeState
            else check_all validatePieceStateShape pieces)"

definition validatePersistedPeerShape :: "js_value \<Rightarrow> unit result" where
  "validatePersistedPeerShape v =
     (if \<not> isRecord v then throwInvalidResumeState
      else if \<not> nonempty_string (jfield v ''peerId'') then throwInvalidResumeState
      else if jfield v ''role'' \<noteq> JStr ''owner'' \<and> jfield v ''role'' \<noteq> JStr ''receiver'' then throwInvalidResumeState
      else if \<not> finite_number (jfield v ''updatedAt'') then throwInvalidResumeState
      else Inr ())"

text \<open>\<open>validatePieceMapForManifest\<close>, on the fields it reads: both ids, the map's length and the count.\<close>

definition piece_map_matches :: "js_value \<Rightarrow> js_value \<Rightarrow> int \<Rightarrow> js_value \<Rightarrow> unit result" where
  "piece_map_matches mapFileId manifestFileId mapLength pieceCount =
     (if mapFileId \<noteq> manifestFileId then Inl manifest_mismatch_error
      else if JNum (num_of_int mapLength) \<noteq> pieceCount then Inl manifest_mismatch_error
      else Inr ())"

definition validatePieceMapForManifest :: "file_manifest \<Rightarrow> piece_map \<Rightarrow> unit result" where
  "validatePieceMapForManifest manifest pieceMap =
     piece_map_matches (JStr (px_fileId pieceMap)) (JStr (fm_fileId manifest)) (int (length (px_pieces pieceMap)))
       (JNum (num_of_int (fm_pieceCount manifest)))"

definition check_piece_map_manifest :: "js_value list \<Rightarrow> js_value \<Rightarrow> unit result" where
  "check_piece_map_manifest manifests pieceMap =
     (if jfield pieceMap ''fileId'' \<notin> set (map (\<lambda>m. jfield m ''fileId'') manifests) then throwInvalidResumeState
      else case find (\<lambda>m. jfield m ''fileId'' = jfield pieceMap ''fileId'') manifests of
          None \<Rightarrow> Inr ()
        | Some manifest \<Rightarrow>
            piece_map_matches (jfield pieceMap ''fileId'') (jfield manifest ''fileId'')
              (case elements (jfield pieceMap ''pieces'') of Some ps \<Rightarrow> int (length ps) | None \<Rightarrow> 0)
              (jfield manifest ''pieceCount''))"

definition validatePersistedSessionState :: "js_value \<Rightarrow> unit result" where
  "validatePersistedSessionState v =
     (if \<not> isRecord v then throwInvalidResumeState
      else if jfield v ''protocolVersion'' \<noteq> JStr CORE_PROTOCOL_VERSION then Inl protocol_mismatch_error
      else if jfield v ''schemaVersion'' \<noteq> JNum (Fin 1) then throwInvalidResumeState
      else if \<not> nonempty_string (jfield v ''sessionId'') then throwInvalidResumeState
      else case elements (jfield v ''manifests'') of None \<Rightarrow> throwInvalidResumeState | Some manifests \<Rightarrow>
           (case elements (jfield v ''pieceMaps'') of None \<Rightarrow> throwInvalidResumeState | Some pieceMaps \<Rightarrow>
             if jfield v ''mode'' \<noteq> JStr ''direct'' \<and> jfield v ''mode'' \<noteq> JStr ''grid'' then throwInvalidResumeState
             else case elements (jfield v ''peers'') of None \<Rightarrow> throwInvalidResumeState | Some peers \<Rightarrow>
               if \<not> finite_number (jfield v ''updatedAt'') then throwInvalidResumeState
               else bind_result (check_all validateManifestShape manifests) (\<lambda>_.
                 bind_result (check_all validatePieceMapShape pieceMaps) (\<lambda>_.
                 bind_result (check_all validatePersistedPeerShape peers) (\<lambda>_.
                 check_all (check_piece_map_manifest manifests) pieceMaps)))))"

section \<open>The typed state as an untyped value\<close>

abbreviation jint :: "int \<Rightarrow> js_value" where
  "jint i \<equiv> JNum (num_of_int i)"

definition opt_field :: "string \<Rightarrow> string option \<Rightarrow> (string \<times> js_value) list" where
  "opt_field k v = (case v of None \<Rightarrow> [] | Some s \<Rightarrow> [(k, JStr s)])"

definition encode_descriptor :: "piece_descriptor \<Rightarrow> js_value" where
  "encode_descriptor p = JObj ([(''index'', jint (pd_index p)), (''offset'', jint (pd_offset p)),
     (''size'', jint (pd_size p))] @ opt_field ''hash'' (pd_hash p))"

definition encode_manifest :: "file_manifest \<Rightarrow> js_value" where
  "encode_manifest m = JObj ([(''version'', JStr (fm_version m)), (''fileId'', JStr (fm_fileId m)),
     (''name'', JStr (fm_name m)), (''size'', jint (fm_size m)), (''mimeType'', JStr (fm_mimeType m)),
     (''pieceSize'', jint (fm_pieceSize m)), (''pieceCount'', jint (fm_pieceCount m)),
     (''pieces'', JArr (map encode_descriptor (fm_pieces m)))]
     @ opt_field ''fileHash'' (fm_fileHash m) @ opt_field ''fileHashUnavailableReason'' (fm_fileHashUnavailableReason m))"

fun status_name :: "piece_status \<Rightarrow> string" where
  "status_name Missing = ''missing''"
| "status_name Requested = ''requested''"
| "status_name Receiving = ''receiving''"
| "status_name Received = ''received''"
| "status_name Verified = ''verified''"
| "status_name Failed = ''failed''"

definition encode_piece_state :: "piece_state \<Rightarrow> js_value" where
  "encode_piece_state p = JObj ([(''index'', jint (ps_index p)), (''status'', JStr (status_name (ps_status p))),
     (''size'', jint (ps_size p)), (''receivedBytes'', jint (ps_receivedBytes p)),
     (''retryCount'', jint (ps_retryCount p)), (''updatedAt'', jint (ps_updatedAt p))]
     @ opt_field ''requestedFrom'' (ps_requestedFrom p) @ opt_field ''failureReason'' (ps_failureReason p))"

definition encode_piece_map :: "piece_map \<Rightarrow> js_value" where
  "encode_piece_map px = JObj [(''fileId'', JStr (px_fileId px)),
     (''pieces'', JArr (map encode_piece_state (px_pieces px))), (''exportedAt'', jint (px_exportedAt px))]"

fun role_name :: "peer_role \<Rightarrow> string" where
  "role_name OwnerRole = ''owner''"
| "role_name ReceiverRole = ''receiver''"

fun mode_name :: "session_mode \<Rightarrow> string" where
  "mode_name DirectMode = ''direct''"
| "mode_name GridMode = ''grid''"

definition encode_peer :: "persisted_peer \<Rightarrow> js_value" where
  "encode_peer p = JObj [(''peerId'', JStr (pp_peerId p)), (''role'', JStr (role_name (pp_role p))),
     (''updatedAt'', jint (pp_updatedAt p))]"

definition encode_session :: "persisted_session \<Rightarrow> js_value" where
  "encode_session s = JObj ([(''schemaVersion'', jint (ss_schemaVersion s)),
     (''protocolVersion'', JStr (ss_protocolVersion s)), (''sessionId'', JStr (ss_sessionId s)),
     (''mode'', JStr (mode_name (ss_mode s))),
     (''manifests'', JArr (map encode_manifest (ss_manifests s))),
     (''pieceMaps'', JArr (map encode_piece_map (ss_pieceMaps s))),
     (''peers'', JArr (map encode_peer (ss_peers s))), (''updatedAt'', jint (ss_updatedAt s))]
     @ opt_field ''ownerPeerId'' (ss_ownerPeerId s))"

section \<open>What validation accepts\<close>

text \<open>The same requirements on the typed state.\<close>

definition descriptor_valid :: "piece_descriptor \<Rightarrow> bool" where
  "descriptor_valid p \<longleftrightarrow> 0 \<le> pd_index p \<and> 0 \<le> pd_offset p \<and> 0 \<le> pd_size p"

definition manifest_valid :: "file_manifest \<Rightarrow> bool" where
  "manifest_valid m \<longleftrightarrow> fm_version m = ''1.0.0'' \<and> fm_fileId m \<noteq> '''' \<and> 0 \<le> fm_size m \<and> 0 < fm_pieceSize m \<and>
     fm_pieceCount m = int (length (fm_pieces m)) \<and> (\<forall>p \<in> set (fm_pieces m). descriptor_valid p)"

definition stored_state_valid :: "piece_state \<Rightarrow> bool" where
  "stored_state_valid p \<longleftrightarrow> 0 \<le> ps_index p \<and> 0 \<le> ps_size p \<and> 0 \<le> ps_receivedBytes p \<and> 0 \<le> ps_retryCount p"

definition piece_map_valid :: "file_manifest list \<Rightarrow> piece_map \<Rightarrow> bool" where
  "piece_map_valid ms px \<longleftrightarrow> px_fileId px \<noteq> '''' \<and> (\<forall>p \<in> set (px_pieces px). stored_state_valid p) \<and>
     (\<exists>m. find (\<lambda>m. fm_fileId m = px_fileId px) ms = Some m \<and> fm_pieceCount m = int (length (px_pieces px)))"

definition session_valid :: "persisted_session \<Rightarrow> bool" where
  "session_valid s \<longleftrightarrow> ss_schemaVersion s = 1 \<and> ss_protocolVersion s = CORE_PROTOCOL_VERSION \<and> ss_sessionId s \<noteq> '''' \<and>
     (\<forall>m \<in> set (ss_manifests s). manifest_valid m) \<and>
     (\<forall>px \<in> set (ss_pieceMaps s). piece_map_valid (ss_manifests s) px) \<and>
     (\<forall>p \<in> set (ss_peers s). pp_peerId p \<noteq> '''')"

lemma check_all_ok: "check_all f xs = Inr () \<longleftrightarrow> (\<forall>x \<in> set xs. f x = Inr ())"
  by (induction xs) (auto simp: bind_result_Inr_iff)

lemma check_all_Inl: "check_all f xs = Inl e \<Longrightarrow> \<exists>x \<in> set xs. f x = Inl e"
  by (induction xs) (auto simp: bind_result_def split: sum.splits)

lemma opt_field_lookup [simp]: "map_of (opt_field k v) k' = (if k = k' then map_option JStr v else None)"
  by (cases v) (auto simp: opt_field_def)

lemma js_less_num_of_int [simp]: "js_less (num_of_int i) (Fin 0) \<longleftrightarrow> i < 0"
  by (simp add: num_of_int_def)

lemma js_le_num_of_int [simp]: "js_le (num_of_int i) (Fin 0) \<longleftrightarrow> i \<le> 0"
  by (simp add: num_of_int_def)

lemma one_num [simp]: "num_of_int i = Fin 1 \<longleftrightarrow> i = 1"
  by (simp add: num_of_int_def)

lemma encode_descriptor_valid:
  "validatePieceDescriptorShape (encode_descriptor p) = Inr () \<longleftrightarrow> descriptor_valid p"
  by (cases "pd_hash p") (auto simp: validatePieceDescriptorShape_def encode_descriptor_def descriptor_valid_def)

lemma encode_manifest_field [simp]: "jfield (encode_manifest m) ''fileId'' = JStr (fm_fileId m)"
  by (simp add: encode_manifest_def)

lemma encode_manifest_count [simp]: "jfield (encode_manifest m) ''pieceCount'' = jint (fm_pieceCount m)"
  by (simp add: encode_manifest_def)

lemma encode_piece_map_fields [simp]:
  "jfield (encode_piece_map px) ''fileId'' = JStr (px_fileId px)"
  "jfield (encode_piece_map px) ''pieces'' = JArr (map encode_piece_state (px_pieces px))"
  by (simp_all add: encode_piece_map_def)

lemma encode_manifest_valid: "validateManifestShape (encode_manifest m) = Inr () \<longleftrightarrow> manifest_valid m"
  unfolding validateManifestShape_def manifest_valid_def
  by (auto simp: encode_manifest_def check_all_ok encode_descriptor_valid)

lemma status_name_known: "status_name s \<in> set status_names"
  by (cases s) (simp_all add: status_names_def)

lemma encode_piece_state_valid:
  "validatePieceStateShape (encode_piece_state p) = Inr () \<longleftrightarrow> stored_state_valid p"
  using status_name_known
  by (auto simp: validatePieceStateShape_def encode_piece_state_def stored_state_valid_def)

lemma encode_piece_map_valid:
  "validatePieceMapShape (encode_piece_map px) = Inr () \<longleftrightarrow>
     px_fileId px \<noteq> '''' \<and> (\<forall>p \<in> set (px_pieces px). stored_state_valid p)"
  by (auto simp: validatePieceMapShape_def encode_piece_map_def check_all_ok encode_piece_state_valid)

lemma encode_peer_valid: "validatePersistedPeerShape (encode_peer p) = Inr () \<longleftrightarrow> pp_peerId p \<noteq> ''''"
  by (cases "pp_role p") (auto simp: validatePersistedPeerShape_def encode_peer_def)

lemma find_encoded:
  "find (\<lambda>m. jfield m ''fileId'' = JStr f) (map encode_manifest ms) =
   map_option encode_manifest (find (\<lambda>m. fm_fileId m = f) ms)"
  by (induction ms) auto

lemma find_Some_prop: "find P xs = Some x \<Longrightarrow> P x \<and> x \<in> set xs"
  by (induction xs) (auto split: if_splits)

lemma find_None_all: "find P xs = None \<longleftrightarrow> (\<forall>x \<in> set xs. \<not> P x)"
  by (induction xs) auto

lemma encode_map_manifest:
  "check_piece_map_manifest (map encode_manifest ms) (encode_piece_map px) = Inr () \<longleftrightarrow>
     (\<exists>m. find (\<lambda>m. fm_fileId m = px_fileId px) ms = Some m \<and> fm_pieceCount m = int (length (px_pieces px)))"
proof (cases "find (\<lambda>m. fm_fileId m = px_fileId px) ms")
  case None
  then have "\<forall>m \<in> set ms. fm_fileId m \<noteq> px_fileId px" by (simp add: find_None_all)
  then have "JStr (px_fileId px) \<notin> set (map (\<lambda>m. jfield m ''fileId'') (map encode_manifest ms))" by auto
  with None show ?thesis by (simp add: check_piece_map_manifest_def)
next
  case (Some m)
  with find_Some_prop [OF Some] show ?thesis
    by (auto simp: check_piece_map_manifest_def find_encoded piece_map_matches_def intro: rev_image_eqI)
qed

lemma encode_session_fields [simp]:
  "jfield (encode_session s) ''schemaVersion'' = jint (ss_schemaVersion s)"
  "jfield (encode_session s) ''protocolVersion'' = JStr (ss_protocolVersion s)"
  "jfield (encode_session s) ''sessionId'' = JStr (ss_sessionId s)"
  "jfield (encode_session s) ''mode'' = JStr (mode_name (ss_mode s))"
  "jfield (encode_session s) ''manifests'' = JArr (map encode_manifest (ss_manifests s))"
  "jfield (encode_session s) ''pieceMaps'' = JArr (map encode_piece_map (ss_pieceMaps s))"
  "jfield (encode_session s) ''peers'' = JArr (map encode_peer (ss_peers s))"
  "jfield (encode_session s) ''updatedAt'' = jint (ss_updatedAt s)"
  "isRecord (encode_session s)"
  by (simp_all add: encode_session_def)

lemma mode_name_known: "mode_name m \<noteq> ''direct'' \<Longrightarrow> mode_name m = ''grid''"
  by (cases m) auto

lemma session_valid_accepted: "validatePersistedSessionState (encode_session s) = Inr () \<longleftrightarrow> session_valid s"
  using mode_name_known [of "ss_mode s"]
  by (auto simp: validatePersistedSessionState_def session_valid_def bind_result_Inr_iff check_all_ok piece_map_valid_def
      encode_manifest_valid encode_piece_map_valid encode_peer_valid encode_map_manifest)

text \<open>
  A session state the engine holds passes validation exactly when it is coherent: the supported schema and
  protocol, non-empty ids, non-negative numbers, every manifest with as many pieces as it
  counts, and every piece map naming a manifest of the state with as many pieces as that manifest
  counts. Everything else is refused with one of the three resume errors, the protocol error
  exactly for a foreign protocol version.
\<close>

theorem validatePersistedSessionState_accepts:
  "case validatePersistedSessionState (encode_session s) of
     Inr _ \<Rightarrow> session_valid s
   | Inl e \<Rightarrow> \<not> session_valid s \<and> e \<in> {invalid_resume_state, protocol_mismatch_error, manifest_mismatch_error} \<and>
       (e = protocol_mismatch_error \<longleftrightarrow> ss_protocolVersion s \<noteq> CORE_PROTOCOL_VERSION)"
proof -
  note acc = session_valid_accepted [of s]
  have inv: "f x = Inl e \<Longrightarrow> e = invalid_resume_state"
    if "f \<in> {validatePieceDescriptorShape, validatePieceStateShape, validatePersistedPeerShape}" for f x e
    using that by (auto simp: validatePieceDescriptorShape_def validatePieceStateShape_def validatePersistedPeerShape_def
        split: if_splits option.splits)
  have m: "validateManifestShape x = Inl e \<Longrightarrow> e = invalid_resume_state" for x e
    using inv by (auto simp: validateManifestShape_def split: if_splits option.splits dest!: check_all_Inl)
  have pm: "validatePieceMapShape x = Inl e \<Longrightarrow> e = invalid_resume_state" for x e
    using inv by (auto simp: validatePieceMapShape_def split: if_splits option.splits dest!: check_all_Inl)
  have pe: "validatePersistedPeerShape x = Inl e \<Longrightarrow> e = invalid_resume_state" for x e
    using inv by auto
  have x: "check_piece_map_manifest ms y = Inl e \<Longrightarrow> e \<in> {invalid_resume_state, manifest_mismatch_error}" for ms y e
    by (auto simp: check_piece_map_manifest_def piece_map_matches_def split: if_splits option.splits)
  have codes: "protocol_mismatch_error \<noteq> invalid_resume_state" "protocol_mismatch_error \<noteq> manifest_mismatch_error"
    by (simp_all add: protocol_mismatch_error_def invalid_resume_state_def manifest_mismatch_error_def PonsWarpError_def)
  have err: "e \<in> {invalid_resume_state, protocol_mismatch_error, manifest_mismatch_error} \<and>
       (e = protocol_mismatch_error \<longleftrightarrow> ss_protocolVersion s \<noteq> CORE_PROTOCOL_VERSION)"
    if "validatePersistedSessionState (encode_session s) = Inl e" for e
    using that codes
    by (auto simp: validatePersistedSessionState_def bind_result_def split: if_splits sum.splits
        dest!: check_all_Inl dest: m pm pe x)
  show ?thesis
  proof (cases "validatePersistedSessionState (encode_session s)")
    case (Inl e)
    then have "\<not> session_valid s" using acc by simp
    with Inl err [OF Inl] show ?thesis by auto
  next
    case (Inr u)
    then have "session_valid s" using acc by simp
    with Inr show ?thesis by simp
  qed
qed

end
