(* ===== verification/Signaling_Protocol.thy ===== *)
theory Signaling_Protocol
  imports Session_State
begin

text \<open>
  The envelopes of \<open>packages/signaling/src/index.ts\<close> and their validation. An envelope is an untyped value, an error is the
  message of the \<open>Error\<close> that is thrown. JSON text is carried as the value it denotes: \<open>json_value\<close> is what \<open>JSON.parse\<close> gives for the
  text that \<open>JSON.stringify\<close> writes.
\<close>

section \<open>JSON\<close>

text \<open>Undefined fields disappear, undefined elements and numbers that are not finite become \<open>null\<close>.\<close>

fun json_value :: "js_value \<Rightarrow> js_value" where
  "json_value (JNum n) = (if js_isFinite n then JNum n else JNull)"
| "json_value (JArr vs) = JArr (map (\<lambda>v. if v = JUndef then JNull else json_value v) vs)"
| "json_value (JObj fs) = JObj (map (\<lambda>(k, v). (k, json_value v)) (filter (\<lambda>(k, v). map_of fs k \<noteq> Some JUndef) fs))"
| "json_value v = v"

fun truthy_value :: "js_value \<Rightarrow> bool" where
  "truthy_value JUndef = False"
| "truthy_value JNull = False"
| "truthy_value (JBool b) = b"
| "truthy_value (JNum n) = (n \<noteq> NaN \<and> n \<noteq> Fin 0)"
| "truthy_value (JStr s) = (s \<noteq> '''')"
| "truthy_value _ = True"

fun has_own :: "js_value \<Rightarrow> string \<Rightarrow> bool" where
  "has_own (JObj fs) k = (k \<in> fst ` set fs)"
| "has_own _ k = False"

section \<open>Checks\<close>

type_synonym check = "string + unit"

text \<open>Checks in sequence; the first that throws ends it.\<close>

fun all_checks :: "check list \<Rightarrow> check" where
  "all_checks [] = Inr ()"
| "all_checks (c # cs) = bind_result c (\<lambda>_. all_checks cs)"

definition malformed :: "string \<Rightarrow> string \<Rightarrow> check" where
  "malformed type detail = Inl (''Malformed '' @ type @ '' payload'' @ detail)"

definition check_that :: "bool \<Rightarrow> string \<Rightarrow> string \<Rightarrow> check" where
  "check_that ok type detail = (if ok then Inr () else malformed type detail)"

definition requirePayloadRecord :: "js_value \<Rightarrow> string \<Rightarrow> check" where
  "requirePayloadRecord v type = check_that (isRecord v) type ''''"

definition requireString :: "js_value \<Rightarrow> string \<Rightarrow> string \<Rightarrow> check" where
  "requireString payload key type = check_that (nonempty_string (jfield payload key)) type ('': missing '' @ key)"

definition requireNumber :: "js_value \<Rightarrow> string \<Rightarrow> string \<Rightarrow> check" where
  "requireNumber payload key type = check_that (finite_number (jfield payload key)) type ('': missing '' @ key)"

definition requireArray :: "js_value \<Rightarrow> string \<Rightarrow> string \<Rightarrow> (js_value list \<Rightarrow> check) \<Rightarrow> check" where
  "requireArray payload key type f =
     (case elements (jfield payload key) of Some vs \<Rightarrow> f vs | None \<Rightarrow> malformed type ('': missing '' @ key))"

definition requireRecord :: "js_value \<Rightarrow> string \<Rightarrow> string \<Rightarrow> (js_value \<Rightarrow> check) \<Rightarrow> check" where
  "requireRecord payload key type f =
     (if isRecord (jfield payload key) then f (jfield payload key) else malformed type ('': missing '' @ key))"

definition requirePieceRequestLike :: "js_value \<Rightarrow> string \<Rightarrow> check" where
  "requirePieceRequestLike payload type =
     all_checks [requireString payload ''fileId'' type, requireNumber payload ''pieceIndex'' type, requireString payload ''requestId'' type]"

definition validateSdp :: "string \<Rightarrow> string \<Rightarrow> js_value \<Rightarrow> check" where
  "validateSdp expectedType type v =
     check_that (jfield v ''type'' = JStr expectedType \<and> nonempty_string (jfield v ''sdp'')) type '': invalid sdp''"

definition validateIceCandidate :: "string \<Rightarrow> js_value \<Rightarrow> check" where
  "validateIceCandidate type v =
     all_checks
       [requireString v ''candidate'' type,
        check_that (jfield v ''sdpMid'' \<in> {JNull, JUndef} \<or> is_string (jfield v ''sdpMid'')) type '': invalid sdpMid'',
        check_that (jfield v ''sdpMLineIndex'' \<in> {JNull, JUndef} \<or> is_number (jfield v ''sdpMLineIndex'')) type '': invalid sdpMLineIndex'']"

fun is_bool :: "js_value \<Rightarrow> bool" where
  "is_bool (JBool _) = True"
| "is_bool _ = False"

definition validateSupports :: "string \<Rightarrow> js_value \<Rightarrow> check" where
  "validateSupports type v =
     all_checks (map (\<lambda>key. check_that (is_bool (jfield v key)) type ('': invalid supports.'' @ key)) [''resume'', ''pieceMap'', ''binaryFrameV1''])"

fun natural_number :: "js_value \<Rightarrow> bool" where
  "natural_number (JNum (Fin x)) = (is_integral x \<and> 0 \<le> x)"
| "natural_number _ = False"

definition validateNumberArray :: "string \<Rightarrow> string \<Rightarrow> js_value list \<Rightarrow> check" where
  "validateNumberArray type key vs = check_that (list_all natural_number vs) type ('': invalid '' @ key)"

definition validatePeers :: "string \<Rightarrow> js_value list \<Rightarrow> check" where
  "validatePeers type vs =
     all_checks (map (\<lambda>v. all_checks [requirePayloadRecord v type, requireString v ''peerId'' type, requireString v ''role'' type]) vs)"

definition validateFileSummary :: "string \<Rightarrow> js_value \<Rightarrow> check" where
  "validateFileSummary type file =
     all_checks [requirePayloadRecord file type, requireString file ''fileId'' type, requireString file ''name'' type,
       requireNumber file ''size'' type, requireNumber file ''pieceSize'' type, requireNumber file ''pieceCount'' type]"

definition validatePieces :: "string \<Rightarrow> js_value list \<Rightarrow> check" where
  "validatePieces type vs =
     all_checks (map (\<lambda>v. all_checks [requirePayloadRecord v type, requireNumber v ''index'' type, requireNumber v ''offset'' type,
       requireNumber v ''size'' type, check_that (jfield v ''hash'' = JUndef \<or> is_string (jfield v ''hash'')) type '': invalid piece hash'']) vs)"

definition validateSessionFileDescriptors :: "string \<Rightarrow> js_value list \<Rightarrow> check" where
  "validateSessionFileDescriptors type vs =
     all_checks (map (\<lambda>file. all_checks [requirePayloadRecord file type, validateFileSummary type file,
       (case elements (jfield file ''pieces'') of
          None \<Rightarrow> Inr ()
        | Some pieces \<Rightarrow> all_checks [requireString file ''version'' type,
            check_that (is_string (jfield file ''mimeType'')) type '': invalid mimeType'', validatePieces type pieces])]) vs)"

definition validateManifests :: "string \<Rightarrow> js_value list \<Rightarrow> check" where
  "validateManifests type vs =
     all_checks (map (\<lambda>file. all_checks [requirePayloadRecord file type, validateFileSummary type file, requireString file ''version'' type,
       check_that (is_string (jfield file ''mimeType'')) type '': invalid mimeType'', requireArray file ''pieces'' type (validatePieces type)]) vs)"

section \<open>Payloads\<close>

definition SIGNALING_MESSAGE_TYPES :: "string list" where
  "SIGNALING_MESSAGE_TYPES = [''CREATE_SESSION'', ''SESSION_CREATED'', ''JOIN_SESSION'', ''SESSION_JOINED'', ''PEER_JOINED'', ''PEER_LEFT'',
     ''WEBRTC_OFFER'', ''WEBRTC_ANSWER'', ''ICE_CANDIDATE'', ''ERROR'']"

definition TRANSFER_MESSAGE_TYPES :: "string list" where
  "TRANSFER_MESSAGE_TYPES = [''HELLO'', ''MANIFEST'', ''PIECE_MAP'', ''PIECE_REQUEST'', ''PIECE_CANCEL'', ''PIECE_ACK'', ''PIECE_REJECT'',
     ''RESUME_STATE'', ''RESUME_ACCEPTED'', ''RESUME_REJECTED'', ''ERROR'']"

definition validateSignalingPayload :: "string \<Rightarrow> js_value \<Rightarrow> check" where
  "validateSignalingPayload type payload =
     all_checks (requirePayloadRecord payload type #
       (if type = ''CREATE_SESSION'' then
          [requireString payload ''ownerPeerId'' type, requireArray payload ''files'' type (validateSessionFileDescriptors type)]
        else if type = ''SESSION_CREATED'' then
          [requireString payload ''ownerPeerId'' type, requireNumber payload ''expiresAt'' type, requireString payload ''shareUrl'' type]
        else if type = ''JOIN_SESSION'' then [requireString payload ''role'' type]
        else if type = ''SESSION_JOINED'' then
          [requireString payload ''selfPeerId'' type, requireString payload ''ownerPeerId'' type,
           requireArray payload ''peers'' type (validatePeers type), requireArray payload ''files'' type (validateSessionFileDescriptors type)]
        else if type = ''PEER_JOINED'' \<or> type = ''PEER_LEFT'' then [requireString payload ''peerId'' type]
        else if type = ''WEBRTC_OFFER'' then [requireRecord payload ''sdp'' type (validateSdp ''offer'' type)]
        else if type = ''WEBRTC_ANSWER'' then [requireRecord payload ''sdp'' type (validateSdp ''answer'' type)]
        else if type = ''ICE_CANDIDATE'' then [requireRecord payload ''candidate'' type (validateIceCandidate type)]
        else if type = ''ERROR'' then [requireString payload ''code'' type, requireString payload ''message'' type]
        else []))"

definition validateTransferPayload :: "string \<Rightarrow> js_value \<Rightarrow> check" where
  "validateTransferPayload type payload =
     all_checks (requirePayloadRecord payload type #
       (if type = ''HELLO'' then [requireString payload ''role'' type, requireRecord payload ''supports'' type (validateSupports type)]
        else if type = ''MANIFEST'' then [requireArray payload ''files'' type (validateManifests type)]
        else if type = ''PIECE_MAP'' then
          [requireString payload ''fileId'' type, requireArray payload ''verifiedPieces'' type (validateNumberArray type ''verifiedPieces''),
           requireNumber payload ''pieceCount'' type]
        else if type = ''PIECE_REQUEST'' then [requirePieceRequestLike payload type, requireNumber payload ''fromOffset'' type]
        else if type = ''PIECE_CANCEL'' then [requirePieceRequestLike payload type, requireString payload ''reason'' type]
        else if type = ''PIECE_ACK'' then
          [requirePieceRequestLike payload type, requireString payload ''status'' type, requireString payload ''hash'' type]
        else if type = ''PIECE_REJECT'' then [requirePieceRequestLike payload type, requireString payload ''reason'' type]
        else if type = ''RESUME_STATE'' then
          [requireString payload ''fileId'' type, requireString payload ''manifestHash'' type,
           requireArray payload ''verifiedPieces'' type (validateNumberArray type ''verifiedPieces''), requireNumber payload ''missingCount'' type]
        else if type = ''RESUME_ACCEPTED'' then [requireString payload ''fileId'' type, requireString payload ''nextStrategy'' type]
        else if type = ''RESUME_REJECTED'' then [requireString payload ''fileId'' type, requireString payload ''reason'' type]
        else if type = ''ERROR'' then [requireString payload ''code'' type, requireString payload ''message'' type]
        else []))"

section \<open>Envelopes\<close>

definition SIGNALING_PROTOCOL :: string where "SIGNALING_PROTOCOL = ''ponswarp-grid/signaling''"

definition TRANSFER_PROTOCOL :: string where "TRANSFER_PROTOCOL = ''ponswarp-grid/transfer''"

definition PROTOCOL_VERSION :: string where "PROTOCOL_VERSION = ''1.0.0''"

definition major_version :: "string \<Rightarrow> string" where
  "major_version v = takeWhile (\<lambda>c. c \<noteq> CHR ''.'') v"

definition validateCompatibleVersion :: "js_value \<Rightarrow> string \<Rightarrow> check" where
  "validateCompatibleVersion version protocol =
     (case version of
        JStr v \<Rightarrow> if major_version v \<noteq> major_version PROTOCOL_VERSION
                  then Inl (''Unsupported '' @ protocol @ '' protocol major version'') else Inr ()
      | _ \<Rightarrow> Inl (''Malformed '' @ protocol @ '' protocol version''))"

text \<open>The type of an envelope whose type is a string.\<close>

definition envelope_type :: "js_value \<Rightarrow> string" where
  "envelope_type envelope = (case jfield envelope ''type'' of JStr t \<Rightarrow> t | _ \<Rightarrow> '''')"

text \<open>Reading a property of \<open>null\<close> throws.\<close>

definition validateSignalingEnvelope :: "js_value \<Rightarrow> check" where
  "validateSignalingEnvelope envelope =
     (if envelope = JNull \<or> envelope = JUndef then Inl ''TypeError''
      else if jfield envelope ''protocol'' \<noteq> JStr SIGNALING_PROTOCOL then Inl ''Invalid signaling protocol''
      else bind_result (validateCompatibleVersion (jfield envelope ''version'') ''signaling'') (\<lambda>_.
        if \<not> truthy_value (jfield envelope ''messageId'') \<or> \<not> is_number (jfield envelope ''timestamp'') \<or> \<not> is_string (jfield envelope ''type'')
        then Inl ''Malformed signaling envelope''
        else if envelope_type envelope \<notin> set SIGNALING_MESSAGE_TYPES
        then Inl (''Unknown signaling message type: '' @ envelope_type envelope)
        else if \<not> has_own envelope ''payload'' then Inl ''Malformed signaling envelope payload''
        else validateSignalingPayload (envelope_type envelope) (jfield envelope ''payload'')))"

definition validateTransferEnvelope :: "js_value \<Rightarrow> check" where
  "validateTransferEnvelope envelope =
     (if envelope = JNull \<or> envelope = JUndef then Inl ''TypeError''
      else if jfield envelope ''protocol'' \<noteq> JStr TRANSFER_PROTOCOL then Inl ''Invalid transfer protocol''
      else bind_result (validateCompatibleVersion (jfield envelope ''version'') ''transfer'') (\<lambda>_.
        if \<not> truthy_value (jfield envelope ''messageId'') \<or> \<not> is_number (jfield envelope ''timestamp'') \<or> \<not> is_string (jfield envelope ''type'')
        then Inl ''Malformed transfer envelope''
        else if \<not> truthy_value (jfield envelope ''sessionId'') \<or> \<not> truthy_value (jfield envelope ''fromPeerId'')
        then Inl ''Malformed transfer routing''
        else if envelope_type envelope \<notin> set TRANSFER_MESSAGE_TYPES
        then Inl (''Unknown transfer message type: '' @ envelope_type envelope)
        else if \<not> has_own envelope ''payload'' then Inl ''Malformed transfer envelope payload''
        else validateTransferPayload (envelope_type envelope) (jfield envelope ''payload'')))"

definition encodeSignaling :: "js_value \<Rightarrow> string + js_value" where
  "encodeSignaling envelope = bind_result (validateSignalingEnvelope envelope) (\<lambda>_. Inr (json_value envelope))"

definition decodeSignaling :: "js_value \<Rightarrow> string + js_value" where
  "decodeSignaling decoded = bind_result (validateSignalingEnvelope decoded) (\<lambda>_. Inr decoded)"

definition encodeTransfer :: "js_value \<Rightarrow> string + js_value" where
  "encodeTransfer envelope = bind_result (validateTransferEnvelope envelope) (\<lambda>_. Inr (json_value envelope))"

definition decodeTransfer :: "js_value \<Rightarrow> string + js_value" where
  "decodeTransfer decoded = bind_result (validateTransferEnvelope decoded) (\<lambda>_. Inr decoded)"

section \<open>What is sent is accepted\<close>

lemma all_checks_iff: "all_checks cs = Inr () \<longleftrightarrow> (\<forall>c \<in> set cs. c = Inr ())"
proof (induction cs)
  case (Cons c cs)
  then show ?case by (cases c) auto
qed simp

declare all_checks.simps [simp del]

lemma check_iff:
  "check_that ok t d = Inr () \<longleftrightarrow> ok" "requirePayloadRecord v t = Inr () \<longleftrightarrow> isRecord v"
  "requireString v k t = Inr () \<longleftrightarrow> nonempty_string (jfield v k)" "requireNumber v k t = Inr () \<longleftrightarrow> finite_number (jfield v k)"
  "requireRecord v k t f = Inr () \<longleftrightarrow> isRecord (jfield v k) \<and> f (jfield v k) = Inr ()"
  "requireArray v k t g = Inr () \<longleftrightarrow> (\<exists>vs. elements (jfield v k) = Some vs \<and> g vs = Inr ())"
  by (auto simp: check_that_def malformed_def requirePayloadRecord_def requireString_def requireNumber_def requireRecord_def requireArray_def
      split: option.splits)

definition json_field :: "js_value \<Rightarrow> js_value" where
  "json_field v = (if v = JUndef then JUndef else json_value v)"

definition json_element :: "js_value \<Rightarrow> js_value" where
  "json_element v = (if v = JUndef then JNull else json_value v)"

lemma map_of_filter_keys: "map_of (filter (\<lambda>(k, v). P k) fs) k = (if P k then map_of fs k else None)"
  by (induction fs) auto

lemma jfield_json [simp]: "jfield (json_value v) k = json_field (jfield v k)"
proof (cases v)
  case (JObj fs)
  have "map_of (map (\<lambda>(k, v). (k, json_value v)) gs) k = map_option json_value (map_of gs k)" for gs
    by (induction gs) auto
  then show ?thesis by (simp add: JObj map_of_filter_keys json_field_def split: option.split)
qed (simp_all add: json_field_def)

lemma jfield_element [simp]: "jfield (json_element v) k = json_field (jfield v k)"
  by (cases "v = JUndef") (simp_all add: json_element_def json_field_def)

lemma json_field_kind [simp]:
  "nonempty_string (json_field v) = nonempty_string v" "is_string (json_field v) = is_string v" "finite_number (json_field v) = finite_number v"
  "is_bool (json_field v) = is_bool v" "isRecord (json_field v) = isRecord v" "json_field v = JUndef \<longleftrightarrow> v = JUndef"
  "json_field v = JStr t \<longleftrightarrow> v = JStr t" "elements (json_field v) = map_option (map json_element) (elements v)"
  by (cases v; auto simp: json_field_def json_element_def)+

lemma json_element_record [simp]: "isRecord (json_element v) = isRecord v"
  by (cases v) (simp_all add: json_element_def)

lemma json_element_natural [simp]: "natural_number v \<Longrightarrow> natural_number (json_element v)"
  by (cases v rule: natural_number.cases) (simp_all add: json_element_def)

lemma validateIceCandidate_json: "validateIceCandidate t v = Inr () \<Longrightarrow> validateIceCandidate t (json_field v) = Inr ()"
proof -
  have "jfield (json_field v) k = json_field (jfield v k)" for k by (cases "v = JUndef") (simp_all add: json_field_def)
  moreover have "is_number w \<Longrightarrow> is_number (json_field w) \<or> json_field w = JNull" for w by (cases w) (auto simp: json_field_def)
  moreover have "json_field JNull = JNull" by (simp add: json_field_def)
  ultimately show "validateIceCandidate t v = Inr () \<Longrightarrow> validateIceCandidate t (json_field v) = Inr ()"
    by (auto simp: validateIceCandidate_def all_checks_iff check_iff)
qed

lemma jfield_field [simp]: "jfield (json_field v) k = json_field (jfield v k)"
  by (cases "v = JUndef") (simp_all add: json_field_def)

lemma validate_json [simp]:
  "validateSdp e t (json_field v) = validateSdp e t v" "validateSupports t (json_field v) = validateSupports t v"
  "validateFileSummary t (json_element v) = validateFileSummary t v"
  by (simp_all add: validateSdp_def validateSupports_def validateFileSummary_def requirePayloadRecord_def requireString_def requireNumber_def)

lemma validate_list_json:
  "validateNumberArray t k vs = Inr () \<Longrightarrow> validateNumberArray t k (map json_element vs) = Inr ()"
  "validatePeers t vs = Inr () \<Longrightarrow> validatePeers t (map json_element vs) = Inr ()"
  "validatePieces t vs = Inr () \<Longrightarrow> validatePieces t (map json_element vs) = Inr ()"
  by (auto simp: validateNumberArray_def validatePeers_def validatePieces_def all_checks_iff check_iff list_all_iff)

lemma requireArray_json:
  "requireArray v k t f = Inr () \<Longrightarrow> (\<And>vs. f vs = Inr () \<Longrightarrow> f (map json_element vs) = Inr ()) \<Longrightarrow> requireArray (json_field v) k t f = Inr ()"
  "requireArray v k t f = Inr () \<Longrightarrow> (\<And>vs. f vs = Inr () \<Longrightarrow> f (map json_element vs) = Inr ()) \<Longrightarrow> requireArray (json_element v) k t f = Inr ()"
  by (auto simp: requireArray_def malformed_def split: option.splits)

lemma validate_files_json:
  "validateSessionFileDescriptors t vs = Inr () \<Longrightarrow> validateSessionFileDescriptors t (map json_element vs) = Inr ()"
  "validateManifests t vs = Inr () \<Longrightarrow> validateManifests t (map json_element vs) = Inr ()"
  by (auto simp: validateSessionFileDescriptors_def validateManifests_def all_checks_iff check_iff(1-5)
      intro: validate_list_json requireArray_json split: option.splits)

text \<open>Two lists of checks of which the second passes when the first does.\<close>

definition carried :: "check list \<Rightarrow> check list \<Rightarrow> bool" where
  "carried cs ds \<longleftrightarrow> (all_checks cs = Inr () \<longrightarrow> all_checks ds = Inr ())"

lemma carried_Nil: "carried cs []"
  by (simp add: carried_def all_checks_iff)

lemma carried_Cons: "(c = Inr () \<Longrightarrow> d = Inr ()) \<Longrightarrow> carried cs ds \<Longrightarrow> carried (c # cs) (d # ds)"
  by (simp add: carried_def all_checks_iff)

lemma carried_if: "carried cs ds \<Longrightarrow> carried cs' ds' \<Longrightarrow> carried (if b then cs else cs') (if b then ds else ds')"
  by simp

lemma carried_checks:
  "requirePayloadRecord v t = Inr () \<Longrightarrow> requirePayloadRecord (json_field v) t = Inr ()"
  "requireString v k t = Inr () \<Longrightarrow> requireString (json_field v) k t = Inr ()"
  "requireNumber v k t = Inr () \<Longrightarrow> requireNumber (json_field v) k t = Inr ()"
  "requirePieceRequestLike v t = Inr () \<Longrightarrow> requirePieceRequestLike (json_field v) t = Inr ()"
  "requireRecord v k t (validateSdp e t) = Inr () \<Longrightarrow> requireRecord (json_field v) k t (validateSdp e t) = Inr ()"
  "requireRecord v k t (validateIceCandidate t) = Inr () \<Longrightarrow> requireRecord (json_field v) k t (validateIceCandidate t) = Inr ()"
  "requireRecord v k t (validateSupports t) = Inr () \<Longrightarrow> requireRecord (json_field v) k t (validateSupports t) = Inr ()"
  by (simp_all add: check_iff requirePieceRequestLike_def all_checks_iff validateIceCandidate_json)

lemma payload_json:
  "validateSignalingPayload t v = Inr () \<Longrightarrow> validateSignalingPayload t (json_field v) = Inr ()"
  "validateTransferPayload t v = Inr () \<Longrightarrow> validateTransferPayload t (json_field v) = Inr ()"
  unfolding validateSignalingPayload_def validateTransferPayload_def
  by (rule carried_def [THEN iffD1, THEN mp, rotated], assumption,
      intro carried_Cons carried_if carried_Nil; intro carried_checks requireArray_json validate_list_json validate_files_json; assumption)+

lemma json_payload: "has_own v k \<Longrightarrow> jfield v k \<noteq> JUndef \<Longrightarrow> has_own (json_value v) k"
  by (cases v) (force split: option.splits dest: map_of_SomeD)+

lemma payload_present:
  "validateSignalingPayload t v = Inr () \<Longrightarrow> v \<noteq> JUndef" "validateTransferPayload t v = Inr () \<Longrightarrow> v \<noteq> JUndef"
  by (auto simp: validateSignalingPayload_def validateTransferPayload_def all_checks_iff check_iff)

lemma json_field_simps [simp]:
  "json_field (JStr s) = JStr s" "is_string v \<Longrightarrow> json_field v = v" "finite_number v \<Longrightarrow> json_field v = v"
  by (cases v; auto simp: json_field_def)+

lemma envelope_type_json [simp]: "envelope_type (json_value v) = envelope_type v"
  by (cases "jfield v ''type''") (simp_all add: envelope_type_def json_field_def)

lemma is_number_finite: "finite_number v \<Longrightarrow> is_number v"
  by (cases v) auto

lemma json_not_null: "json_value v \<in> {JNull, JUndef} \<Longrightarrow> v \<in> {JNull, JUndef} \<or> (\<exists>n. v = JNum n)"
  by (cases v) auto

lemma string_version: "validateCompatibleVersion v p = Inr () \<Longrightarrow> is_string v"
  by (cases v) (auto simp: validateCompatibleVersion_def)

text \<open>
  C18. What \<open>encodeSignaling\<close> writes is read back by \<open>decodeSignaling\<close> as the same envelope, but for undefined fields and numbers that JSON does not
  have, when the message id is a string and the timestamp is finite.
\<close>

theorem signaling_roundtrip:
  assumes "encodeSignaling envelope = Inr text" and "is_string (jfield envelope ''messageId'')" and "finite_number (jfield envelope ''timestamp'')"
  shows "decodeSignaling text = Inr text \<and> envelope_type text = envelope_type envelope \<and>
    (\<forall>key. jfield text key = json_field (jfield envelope key))"
proof -
  have v: "validateSignalingEnvelope envelope = Inr ()" and t: "text = json_value envelope"
    using assms(1) by (auto simp: encodeSignaling_def bind_result_Inr_iff)
  have p: "jfield envelope ''protocol'' = JStr SIGNALING_PROTOCOL" "validateCompatibleVersion (jfield envelope ''version'') ''signaling'' = Inr ()"
    "truthy_value (jfield envelope ''messageId'')" "is_string (jfield envelope ''type'')" "envelope_type envelope \<in> set SIGNALING_MESSAGE_TYPES"
    "has_own envelope ''payload''" "validateSignalingPayload (envelope_type envelope) (jfield envelope ''payload'') = Inr ()"
    using v by (auto simp: validateSignalingEnvelope_def bind_result_Inr_iff split: if_splits)
  have obj: "isRecord envelope" using p(1) by (cases envelope) auto
  then have "json_value envelope \<noteq> JNull" "json_value envelope \<noteq> JUndef" by (cases envelope; simp)+
  moreover have "has_own (json_value envelope) ''payload''" using json_payload [OF p(6) payload_present(1) [OF p(7)]] .
  ultimately have "validateSignalingEnvelope (json_value envelope) = Inr ()"
    using p payload_json(1) [OF p(7)] assms(2,3) string_version [OF p(2)]
    by (simp add: validateSignalingEnvelope_def is_number_finite)
  then show ?thesis by (simp add: t decodeSignaling_def)
qed

text \<open>The same for the envelopes of a transfer, whose session and sender are strings.\<close>

theorem transfer_roundtrip:
  assumes "encodeTransfer envelope = Inr text" and "is_string (jfield envelope ''messageId'')" and "finite_number (jfield envelope ''timestamp'')"
    and "is_string (jfield envelope ''sessionId'')" and "is_string (jfield envelope ''fromPeerId'')"
  shows "decodeTransfer text = Inr text \<and> envelope_type text = envelope_type envelope \<and>
    (\<forall>key. jfield text key = json_field (jfield envelope key))"
proof -
  have v: "validateTransferEnvelope envelope = Inr ()" and t: "text = json_value envelope"
    using assms(1) by (auto simp: encodeTransfer_def bind_result_Inr_iff)
  have p: "jfield envelope ''protocol'' = JStr TRANSFER_PROTOCOL" "validateCompatibleVersion (jfield envelope ''version'') ''transfer'' = Inr ()"
    "truthy_value (jfield envelope ''messageId'')" "is_string (jfield envelope ''type'')" "envelope_type envelope \<in> set TRANSFER_MESSAGE_TYPES"
    "has_own envelope ''payload''" "validateTransferPayload (envelope_type envelope) (jfield envelope ''payload'') = Inr ()"
    "truthy_value (jfield envelope ''sessionId'')" "truthy_value (jfield envelope ''fromPeerId'')"
    using v by (auto simp: validateTransferEnvelope_def bind_result_Inr_iff split: if_splits)
  have obj: "isRecord envelope" using p(1) by (cases envelope) auto
  then have "json_value envelope \<noteq> JNull" "json_value envelope \<noteq> JUndef" by (cases envelope; simp)+
  moreover have "has_own (json_value envelope) ''payload''" using json_payload [OF p(6) payload_present(2) [OF p(7)]] .
  ultimately have "validateTransferEnvelope (json_value envelope) = Inr ()"
    using p payload_json(2) [OF p(7)] assms(2-5) string_version [OF p(2)]
    by (simp add: validateTransferEnvelope_def is_number_finite)
  then show ?thesis by (simp add: t decodeTransfer_def)
qed

definition example_envelope :: js_value where
  "example_envelope = JObj [(''protocol'', JStr SIGNALING_PROTOCOL), (''version'', JStr ''1.2''), (''messageId'', JStr ''m''),
     (''type'', JStr ''PEER_LEFT''), (''sessionId'', JStr ''s''), (''toPeerId'', JUndef), (''timestamp'', JNum (Fin 1)),
     (''payload'', JObj [(''peerId'', JStr ''a'')])]"

theorem signaling_roundtrip_witness:
  "\<exists>text. encodeSignaling example_envelope = Inr text \<and> decodeSignaling text = Inr text \<and> jfield text ''sessionId'' = JStr ''s''"
proof -
  have e: "encodeSignaling example_envelope = Inr (json_value example_envelope)" by code_simp
  from signaling_roundtrip [OF e] have "decodeSignaling (json_value example_envelope) = Inr (json_value example_envelope)"
    "jfield (json_value example_envelope) ''sessionId'' = json_field (jfield example_envelope ''sessionId'')" by (simp_all add: example_envelope_def)
  with e show ?thesis by (auto simp: example_envelope_def)
qed

definition example_transfer :: js_value where
  "example_transfer = JObj [(''protocol'', JStr TRANSFER_PROTOCOL), (''version'', JStr ''1.0.0''), (''messageId'', JStr ''m''),
     (''type'', JStr ''RESUME_REJECTED''), (''sessionId'', JStr ''s''), (''fromPeerId'', JStr ''a''), (''timestamp'', JNum (Fin 1)),
     (''payload'', JObj [(''fileId'', JStr ''f''), (''reason'', JStr ''r'')])]"

theorem transfer_roundtrip_witness:
  "\<exists>text. encodeTransfer example_transfer = Inr text \<and> decodeTransfer text = Inr text"
proof -
  have e: "encodeTransfer example_transfer = Inr (json_value example_transfer)" by code_simp
  with transfer_roundtrip [OF e] show ?thesis by (simp add: example_transfer_def)
qed

end
