(* ===== verification/Cli_Descriptors.thy ===== *)
theory Cli_Descriptors
  imports Signaling_Protocol Js_Text
begin

text \<open>
  Session and peer descriptors of \<open>packages/cli/src/cli-runtime.ts\<close>: the links \<open>ponswarp://join/...\<close> and
  \<open>ponswarp-peer://...\<close> by which the peers of the CLI find each other, as base64url of a JSON text. Base64url is Node's: no padding when encoding; when
  decoding both alphabets are accepted and other characters skipped. \<open>JSON.stringify\<close> and \<open>JSON.parse\<close> (on UTF-8 bytes) are
  parameters.
\<close>

section \<open>Base64url\<close>

definition b64_char :: "nat \<Rightarrow> char" where
  "b64_char n =
     (if n < 26 then char_of (65 + n) else if n < 52 then char_of (71 + n) else if n < 62 then char_of (n - 4)
      else if n = 62 then CHR ''-'' else CHR ''_'')"

definition b64_value :: "char \<Rightarrow> nat option" where
  "b64_value c =
     (let n = of_char c :: nat in
      if 65 \<le> n \<and> n \<le> 90 then Some (n - 65) else if 97 \<le> n \<and> n \<le> 122 then Some (n - 71)
      else if 48 \<le> n \<and> n \<le> 57 then Some (n + 4)
      else if n = 45 \<or> n = 43 then Some 62 else if n = 95 \<or> n = 47 then Some 63 else None)"

fun sextets :: "nat list \<Rightarrow> nat list" where
  "sextets (a # b # c # r) =
     (a div 4) # ((a mod 4) * 16 + b div 16) # ((b mod 16) * 4 + c div 64) # (c mod 64) # sextets r"
| "sextets [a, b] = [a div 4, (a mod 4) * 16 + b div 16, (b mod 16) * 4]"
| "sextets [a] = [a div 4, (a mod 4) * 16]"
| "sextets [] = []"

fun octets :: "nat list \<Rightarrow> nat list" where
  "octets (a # b # c # d # r) =
     (a * 4 + b div 16) # ((b mod 16) * 16 + c div 4) # ((c mod 4) * 64 + d) # octets r"
| "octets [a, b, c] = [a * 4 + b div 16, (b mod 16) * 16 + c div 4]"
| "octets [a, b] = [a * 4 + b div 16]"
| "octets _ = []"

definition b64_encode :: "bytes \<Rightarrow> string" where
  "b64_encode bs = map b64_char (sextets (map unat bs))"

definition b64_decode :: "string \<Rightarrow> bytes" where
  "b64_decode s = map of_nat (octets (List.map_filter b64_value s))"

lemma b64_value_char: "n < 64 \<Longrightarrow> b64_value (b64_char n) = Some n"
  by (auto simp: b64_char_def b64_value_def Let_def)

lemma map_filter_b64: "\<forall>n \<in> set ns. n < 64 \<Longrightarrow> List.map_filter b64_value (map b64_char ns) = ns"
  by (induction ns) (simp_all add: List.map_filter_def b64_value_char)

lemma sextets_less: "\<forall>n \<in> set ns. n < 256 \<Longrightarrow> \<forall>n \<in> set (sextets ns). n < 64"
  by (induction ns rule: sextets.induct) (auto simp: less_mult_imp_div_less)

lemma octets_sextets: "\<forall>n \<in> set ns. n < 256 \<Longrightarrow> octets (sextets ns) = ns"
  by (induction ns rule: sextets.induct) auto

lemma b64_roundtrip [simp]: "b64_decode (b64_encode bs) = bs"
proof -
  have less: "\<forall>n \<in> set (map unat bs). n < 256"
  proof -
    have "unat b < 256" for b :: "8 word" using unsigned_less [of b] by simp
    then show ?thesis by auto
  qed
  show ?thesis
    using octets_sextets [OF less] map_filter_b64 [OF sextets_less [OF less]]
    by (simp add: b64_decode_def b64_encode_def comp_def)
qed

section \<open>Effects\<close>

datatype cli_error = Usage_Error string | Plain_Error string | Type_Error | Syntax_Error | Abort_Error

text \<open>An asynchronous command: it takes the history of what was done so far and returns the longer one with its value or what it threw.\<close>

type_synonym ('s, 'a) effect = "'s \<Rightarrow> 's \<times> (cli_error + 'a)"

definition effect_bind :: "('s, 'a) effect \<Rightarrow> ('a \<Rightarrow> ('s, 'b) effect) \<Rightarrow> ('s, 'b) effect" where
  "effect_bind m f h = (case m h of (h', Inl e) \<Rightarrow> (h', Inl e) | (h', Inr a) \<Rightarrow> f a h')"

definition effect_lift :: "cli_error + 'a \<Rightarrow> ('s, 'a) effect" where
  "effect_lift r h = (h, r)"

lemma effect_bind_Inr:
  "effect_bind m f h = (h', r) \<Longrightarrow> (\<exists>e. m h = (h', Inl e) \<and> r = Inl e) \<or> (\<exists>a h1. m h = (h1, Inr a) \<and> f a h1 = (h', r))"
  by (auto simp: effect_bind_def split: prod.splits sum.splits)

lemma effect_lift_eq: "effect_lift x h = (h', r) \<longleftrightarrow> h' = h \<and> r = x"
  by (auto simp: effect_lift_def)

lemma effect_bind_elim:
  assumes "effect_bind m f h = (h', r)"
  obtains e where "m h = (h', Inl e)" "r = Inl e" | a h1 where "m h = (h1, Inr a)" "f a h1 = (h', r)"
  using effect_bind_Inr [OF assms] by blast

section \<open>Descriptors\<close>

record json_codec =
  jc_print :: "js_value \<Rightarrow> bytes"
  jc_parse :: "bytes \<Rightarrow> js_value option"

text \<open>What \<open>JSON\<close> documents: parsing a printed value gives the value without what JSON cannot say.\<close>

definition json_roundtrips :: "json_codec \<Rightarrow> js_value \<Rightarrow> bool" where
  "json_roundtrips jc v \<longleftrightarrow> jc_parse jc (jc_print jc v) = Some (json_value v)"

record peer_endpoint =
  pe_peerId :: string
  pe_url :: string

record session_descriptor =
  sd_sessionId :: string
  sd_ownerPeerId :: string
  sd_ownerEndpoint :: peer_endpoint
  sd_manifests :: "file_manifest list"

record peer_descriptor =
  qd_peerId :: string
  qd_endpoint :: peer_endpoint
  qd_fileId :: string
  qd_verifiedPieces :: "int list"
  qd_totalPieces :: int

definition endpoint_value :: "peer_endpoint \<Rightarrow> js_value" where
  "endpoint_value e = JObj [(''peerId'', JStr (pe_peerId e)), (''url'', JStr (pe_url e))]"

definition session_value :: "session_descriptor \<Rightarrow> js_value" where
  "session_value d =
     JObj [(''schemaVersion'', JNum (Fin 1)), (''sessionId'', JStr (sd_sessionId d)), (''ownerPeerId'', JStr (sd_ownerPeerId d)),
           (''ownerEndpoint'', endpoint_value (sd_ownerEndpoint d)), (''manifests'', JArr (map encode_manifest (sd_manifests d)))]"

definition peer_value :: "peer_descriptor \<Rightarrow> js_value" where
  "peer_value d =
     JObj [(''schemaVersion'', JNum (Fin 1)), (''peerId'', JStr (qd_peerId d)), (''endpoint'', endpoint_value (qd_endpoint d)),
           (''fileId'', JStr (qd_fileId d)), (''verifiedPieces'', JArr (map (\<lambda>i. JNum (num_of_int i)) (qd_verifiedPieces d))),
           (''totalPieces'', JNum (num_of_int (qd_totalPieces d)))]"

definition encodeJoinDescriptor :: "json_codec \<Rightarrow> session_descriptor \<Rightarrow> string" where
  "encodeJoinDescriptor jc d = ''ponswarp://join/'' @ b64_encode (jc_print jc (session_value d))"

definition encodePeerDescriptor :: "json_codec \<Rightarrow> peer_descriptor \<Rightarrow> string" where
  "encodePeerDescriptor jc d = ''ponswarp-peer://'' @ b64_encode (jc_print jc (peer_value d))"

text \<open>Reading a field of \<open>null\<close> throws; of any other value that is no object it gives \<open>undefined\<close>.\<close>

definition strip_prefix :: "string \<Rightarrow> string \<Rightarrow> string" where
  "strip_prefix p s = (if js_startsWith s p then drop (length p) s else s)"

definition decode_descriptor :: "json_codec \<Rightarrow> string \<Rightarrow> (js_value \<Rightarrow> bool) \<Rightarrow> string \<Rightarrow> string \<Rightarrow> cli_error + js_value" where
  "decode_descriptor jc prefix valid message s =
     (case jc_parse jc (b64_decode (strip_prefix prefix s)) of
        None \<Rightarrow> Inl Syntax_Error
      | Some v \<Rightarrow> if v = JNull then Inl Type_Error else if valid v then Inr v else Inl (Plain_Error message))"

definition join_descriptor_ok :: "js_value \<Rightarrow> bool" where
  "join_descriptor_ok v \<longleftrightarrow>
     jfield v ''schemaVersion'' = JNum (Fin 1) \<and> truthy_value (jfield v ''sessionId'') \<and> truthy_value (jfield v ''ownerPeerId'') \<and>
     truthy_value (jfield (jfield v ''ownerEndpoint'') ''url'') \<and> elements (jfield v ''manifests'') \<noteq> None"

definition decodeJoinDescriptor :: "json_codec \<Rightarrow> string \<Rightarrow> cli_error + js_value" where
  "decodeJoinDescriptor jc s = decode_descriptor jc ''ponswarp://join/'' join_descriptor_ok ''Invalid ponswarp join descriptor'' s"

definition peer_descriptor_ok :: "js_value \<Rightarrow> bool" where
  "peer_descriptor_ok v \<longleftrightarrow>
     jfield v ''schemaVersion'' = JNum (Fin 1) \<and> truthy_value (jfield v ''peerId'') \<and>
     truthy_value (jfield (jfield v ''endpoint'') ''url'') \<and> truthy_value (jfield v ''fileId'') \<and>
     elements (jfield v ''verifiedPieces'') \<noteq> None"

definition decodePeerDescriptor :: "json_codec \<Rightarrow> string \<Rightarrow> cli_error + js_value" where
  "decodePeerDescriptor jc s = decode_descriptor jc ''ponswarp-peer://'' peer_descriptor_ok ''Invalid ponswarp peer descriptor'' s"

text \<open>
  A link read back, with or without its scheme. What is decoded is the value of the descriptor without the absent
  hashes of its manifests.
\<close>

lemma decode_encoded:
  assumes "json_roundtrips jc v" and "valid (json_value v)" and "json_value v \<noteq> JNull"
  shows "decode_descriptor jc p valid message (p @ b64_encode (jc_print jc v)) = Inr (json_value v)"
  using assms by (simp add: decode_descriptor_def strip_prefix_def json_roundtrips_def)

theorem join_link_roundtrip:
  assumes "json_roundtrips jc (session_value d)" and "sd_sessionId d \<noteq> ''''" and "sd_ownerPeerId d \<noteq> ''''"
    and "pe_url (sd_ownerEndpoint d) \<noteq> ''''"
  shows "decodeJoinDescriptor jc (encodeJoinDescriptor jc d) = Inr (json_value (session_value d))"
  unfolding decodeJoinDescriptor_def encodeJoinDescriptor_def
  by (rule decode_encoded [OF assms(1)])
    (use assms in \<open>simp_all add: session_value_def endpoint_value_def join_descriptor_ok_def\<close>)

theorem peer_link_roundtrip:
  assumes "json_roundtrips jc (peer_value d)" and "qd_peerId d \<noteq> ''''" and "pe_url (qd_endpoint d) \<noteq> ''''" and "qd_fileId d \<noteq> ''''"
  shows "decodePeerDescriptor jc (encodePeerDescriptor jc d) = Inr (json_value (peer_value d))"
  unfolding decodePeerDescriptor_def encodePeerDescriptor_def
  by (rule decode_encoded [OF assms(1)])
    (use assms in \<open>simp_all add: peer_value_def endpoint_value_def peer_descriptor_ok_def\<close>)

end
