(* ===== verification/Uri_Codec.thy ===== *)
theory Uri_Codec
  imports Grid_Prelude
begin

text \<open>
  \<open>encodeURIComponent\<close> and \<open>decodeURIComponent\<close> of the JavaScript library. A decoded text is a list of code points; an
  encoded one has only ASCII characters. Strings to encode have code units below 256. Decoding gives \<open>None\<close> where JavaScript
  throws a \<open>URIError\<close>.
\<close>

section \<open>UTF-8\<close>

definition utf8_of :: "nat \<Rightarrow> nat list" where
  "utf8_of c = (if c < 128 then [c] else [192 + c div 64, 128 + c mod 64])"

definition utf8_length :: "nat \<Rightarrow> nat option" where
  "utf8_length b =
     (if b < 128 then Some 1 else if 194 \<le> b \<and> b \<le> 223 then Some 2
      else if 224 \<le> b \<and> b \<le> 239 then Some 3 else if 240 \<le> b \<and> b \<le> 244 then Some 4 else None)"

definition continuation_byte :: "nat \<Rightarrow> bool" where
  "continuation_byte b \<longleftrightarrow> 128 \<le> b \<and> b \<le> 191"

text \<open>The code point of one UTF-8 sequence: overlong forms, surrogates and points above 10FFFF are refused.\<close>

fun utf8_point :: "nat list \<Rightarrow> nat option" where
  "utf8_point [a] = (if a < 128 then Some a else None)"
| "utf8_point [a, b] =
     (if utf8_length a = Some 2 \<and> continuation_byte b then Some ((a - 192) * 64 + (b - 128)) else None)"
| "utf8_point [a, b, c] =
     (let p = (a - 224) * 4096 + (b - 128) * 64 + (c - 128) in
      if utf8_length a = Some 3 \<and> continuation_byte b \<and> continuation_byte c \<and> 2048 \<le> p \<and> \<not> (55296 \<le> p \<and> p \<le> 57343)
      then Some p else None)"
| "utf8_point [a, b, c, d] =
     (let p = (a - 240) * 262144 + (b - 128) * 4096 + (c - 128) * 64 + (d - 128) in
      if utf8_length a = Some 4 \<and> continuation_byte b \<and> continuation_byte c \<and> continuation_byte d \<and> 65536 \<le> p \<and> p \<le> 1114111
      then Some p else None)"
| "utf8_point _ = None"

section \<open>Escapes\<close>

definition upper_hex :: "nat \<Rightarrow> char" where
  "upper_hex n = (if n < 10 then char_of (48 + n) else char_of (55 + n))"

definition hex_value :: "char \<Rightarrow> nat option" where
  "hex_value c =
     (let n = of_char c :: nat in
      if 48 \<le> n \<and> n \<le> 57 then Some (n - 48) else if 65 \<le> n \<and> n \<le> 70 then Some (n - 55)
      else if 97 \<le> n \<and> n \<le> 102 then Some (n - 87) else None)"

definition percent :: "nat \<Rightarrow> string" where
  "percent b = [CHR ''%'', upper_hex (b div 16), upper_hex (b mod 16)]"

definition unescaped :: "char \<Rightarrow> bool" where
  "unescaped c \<longleftrightarrow>
     (let n = of_char c :: nat in
      97 \<le> n \<and> n \<le> 122 \<or> 65 \<le> n \<and> n \<le> 90 \<or> 48 \<le> n \<and> n \<le> 57 \<or> c \<in> set ''-_.!~*()'' \<or> n = 39)"

definition encode_char :: "char \<Rightarrow> string" where
  "encode_char c = (if unescaped c then [c] else concat (map percent (utf8_of (of_char c))))"

definition encodeURIComponent :: "string \<Rightarrow> string" where
  "encodeURIComponent s = concat (map encode_char s)"

fun take_escape :: "string \<Rightarrow> (nat \<times> string) option" where
  "take_escape (c # h # l # rest) =
     (if c = CHR ''%'' then (case (hex_value h, hex_value l) of (Some a, Some b) \<Rightarrow> Some (16 * a + b, rest) | _ \<Rightarrow> None) else None)"
| "take_escape _ = None"

fun take_escapes :: "nat \<Rightarrow> string \<Rightarrow> (nat list \<times> string) option" where
  "take_escapes 0 s = Some ([], s)"
| "take_escapes (Suc n) s =
     (case take_escape s of
        None \<Rightarrow> None
      | Some (b, rest) \<Rightarrow> (case take_escapes n rest of None \<Rightarrow> None | Some (bs, rest') \<Rightarrow> Some (b # bs, rest')))"

definition take_point :: "string \<Rightarrow> (nat \<times> string) option" where
  "take_point s =
     (case take_escape s of
        None \<Rightarrow> None
      | Some (b, _) \<Rightarrow>
          (case utf8_length b of
             None \<Rightarrow> None
           | Some n \<Rightarrow>
               (case take_escapes n s of
                  None \<Rightarrow> None
                | Some (bs, rest) \<Rightarrow> (case utf8_point bs of None \<Rightarrow> None | Some p \<Rightarrow> Some (p, rest)))))"

lemma take_escape_shorter: "take_escape s = Some (b, rest) \<Longrightarrow> length rest < length s"
  by (cases s rule: take_escape.cases) (auto split: if_splits option.splits)

lemma take_escapes_shorter: "take_escapes n s = Some (bs, rest) \<Longrightarrow> length rest + n \<le> length s"
proof (induction n arbitrary: s bs rest)
  case (Suc n)
  then show ?case by (fastforce split: option.splits dest: take_escape_shorter)
qed simp

lemma utf8_length_pos: "utf8_length b = Some n \<Longrightarrow> 0 < n"
  by (auto simp: utf8_length_def split: if_splits)

lemma take_point_shorter: "take_point s = Some (p, rest) \<Longrightarrow> length rest < length s"
  by (fastforce simp: take_point_def split: option.splits dest: take_escapes_shorter utf8_length_pos)

function decodeURIComponent :: "string \<Rightarrow> nat list option" where
  "decodeURIComponent [] = Some []"
| "decodeURIComponent (c # s) =
     (if c = CHR ''%'' then
        (case take_point (c # s) of
           None \<Rightarrow> None
         | Some (p, rest) \<Rightarrow> map_option ((#) p) (decodeURIComponent rest))
      else map_option ((#) (of_char c)) (decodeURIComponent s))"
  by pat_completeness auto
termination by (relation "measure length") (auto dest: take_point_shorter)

lemma hex_upper: "n < 16 \<Longrightarrow> hex_value (upper_hex n) = Some n"
  by (auto simp: upper_hex_def hex_value_def Let_def)

lemma take_escape_percent: "b < 256 \<Longrightarrow> take_escape (percent b @ s) = Some (b, s)"
  by (simp add: percent_def hex_upper)

lemma utf8_of_bytes: "c < 256 \<Longrightarrow> b \<in> set (utf8_of c) \<Longrightarrow> b < 256"
  by (auto simp: utf8_of_def split: if_splits)

lemma take_escapes_percent:
  "(\<forall>b\<in>set bs. b < 256) \<Longrightarrow> take_escapes (length bs) (concat (map percent bs) @ s) = Some (bs, s)"
  by (induction bs) (auto simp: take_escape_percent)

lemma utf8_of_length: "c < 256 \<Longrightarrow> utf8_length (hd (utf8_of c)) = Some (length (utf8_of c))"
  by (auto simp: utf8_of_def utf8_length_def)

lemma utf8_point_of:
  assumes "c < 256"
  shows "utf8_point (utf8_of c) = Some c"
proof -
  have "c div 64 * 64 + c mod 64 = c" by simp
  moreover have "2 \<le> c div 64" if "\<not> c < 128" using that by linarith
  moreover have "c div 64 \<le> 3" using assms by linarith
  ultimately show ?thesis by (auto simp: utf8_of_def utf8_length_def continuation_byte_def)
qed

lemma take_point_of:
  assumes "c < 256"
  shows "take_point (concat (map percent (utf8_of c)) @ s) = Some (c, s)"
proof -
  obtain b bs where bytes: "utf8_of c = b # bs" by (cases "c < 128") (simp_all add: utf8_of_def)
  have "b < 256" using utf8_of_bytes[OF assms] bytes by simp
  then have "take_escape (concat (map percent (utf8_of c)) @ s) = Some (b, concat (map percent bs) @ s)"
    by (simp add: bytes take_escape_percent)
  moreover have "utf8_length b = Some (length (utf8_of c))" using utf8_of_length[OF assms] bytes by simp
  moreover have "take_escapes (length (utf8_of c)) (concat (map percent (utf8_of c)) @ s) = Some (utf8_of c, s)"
    using utf8_of_bytes[OF assms] by (intro take_escapes_percent) auto
  ultimately show ?thesis using utf8_point_of[OF assms] by (simp add: take_point_def)
qed

lemma decode_percent:
  assumes "c < 256"
  shows "decodeURIComponent (concat (map percent (utf8_of c)) @ s) = map_option ((#) c) (decodeURIComponent s)"
proof -
  obtain b bs where "utf8_of c = b # bs" by (cases "c < 128") (simp_all add: utf8_of_def)
  then obtain t where t: "concat (map percent (utf8_of c)) @ s = CHR ''%'' # t" by (simp add: percent_def)
  show ?thesis using take_point_of[OF assms, of s] by (simp add: t)
qed

lemma decode_encode_char:
  "decodeURIComponent (encode_char c @ s) = map_option ((#) (of_char c)) (decodeURIComponent s)"
proof (cases "unescaped c")
  case True
  then have "c \<noteq> CHR ''%''" by (auto simp: unescaped_def Let_def)
  with True show ?thesis by (simp add: encode_char_def)
next
  case False
  have "of_char c < (256::nat)" using nat_of_char_less_256 by simp
  with False show ?thesis by (simp add: encode_char_def decode_percent)
qed

lemma decode_encode: "decodeURIComponent (encodeURIComponent s) = Some (map of_char s)"
  by (induction s) (simp_all add: encodeURIComponent_def decode_encode_char)

end
