(* ===== verification/Refinement.thy ===== *)
theory Refinement
  imports Grid_Prelude
begin

text \<open>
  Forward simulation between a component and its abstract specification. Both take the operations of a run one by
  one and answer each; the bookkeeping \<open>'k\<close> is what a run may depend on besides the states (the time of the last
  operation), and a run is admissible when every operation is enabled by it.
\<close>

fun run_answers :: "('o \<Rightarrow> 's \<Rightarrow> 's \<times> 'v) \<Rightarrow> 'o list \<Rightarrow> 's \<Rightarrow> 'v list" where
  "run_answers step [] s = []"
| "run_answers step (op # ops) s = snd (step op s) # run_answers step ops (fst (step op s))"

fun run_state :: "('o \<Rightarrow> 's \<Rightarrow> 's \<times> 'v) \<Rightarrow> 'o list \<Rightarrow> 's \<Rightarrow> 's" where
  "run_state step [] s = s"
| "run_state step (op # ops) s = run_state step ops (fst (step op s))"

fun admissible :: "('k \<Rightarrow> 'o \<Rightarrow> bool) \<Rightarrow> ('k \<Rightarrow> 'o \<Rightarrow> 'k) \<Rightarrow> 'k \<Rightarrow> 'o list \<Rightarrow> bool" where
  "admissible enabled advance k [] = True"
| "admissible enabled advance k (op # ops) = (enabled k op \<and> admissible enabled advance (advance k op) ops)"

locale forward_simulation =
  fixes cstep :: "'o \<Rightarrow> 'c \<Rightarrow> 'c \<times> 'v"
    and astep :: "'o \<Rightarrow> 'a \<Rightarrow> 'a \<times> 'v"
    and enabled :: "'k \<Rightarrow> 'o \<Rightarrow> bool"
    and advance :: "'k \<Rightarrow> 'o \<Rightarrow> 'k"
    and related :: "'k \<Rightarrow> 'c \<Rightarrow> 'a \<Rightarrow> bool"
  assumes same_answer: "related k c a \<Longrightarrow> enabled k op \<Longrightarrow> snd (cstep op c) = snd (astep op a)"
    and stays_related: "related k c a \<Longrightarrow> enabled k op \<Longrightarrow>
      related (advance k op) (fst (cstep op c)) (fst (astep op a))"
begin

lemma same_answers:
  "related k c a \<Longrightarrow> admissible enabled advance k ops \<Longrightarrow> run_answers cstep ops c = run_answers astep ops a"
  by (induction ops arbitrary: k c a) (auto simp: same_answer intro: stays_related)

lemma related_states:
  "related k c a \<Longrightarrow> admissible enabled advance k ops \<Longrightarrow>
   related (foldl advance k ops) (run_state cstep ops c) (run_state astep ops a)"
  by (induction ops arbitrary: k c a) (auto intro: stays_related)

end

end
