(* ===== verification/Share_Registry.thy ===== *)
theory Share_Registry
  imports Refinement Js_Number
begin

text \<open>
  \<open>BrowserShareRegistry\<close> of \<open>packages/signaling/src/server.ts\<close>: share codes and the signaling session each stands
  for. A code comes in as a list of Unicode code points and is kept as the letters and digits it normalizes to. The
  registry reads its clock twice per operation (once in the clean-up, once for the operation), so an operation takes
  two instants. \<open>registry_refines\<close> relates the registry to a plain function from codes to their
  last published record.
\<close>

section \<open>Codes\<close>

text \<open>
  What \<open>toUpperCase\<close> leaves of a code point once everything but A-Z and 0-9 is removed. Besides the ASCII letters,
  a few code points upper-case to ASCII letters, alone or before a mark that is removed.
\<close>

definition special_upper :: "(nat \<times> string) list" where
  "special_upper =
     [(223, ''SS''), (305, ''I''), (329, ''N''), (383, ''S''), (496, ''J''),
      (7830, ''H''), (7831, ''T''), (7832, ''W''), (7833, ''Y''), (7834, ''A''),
      (64256, ''FF''), (64257, ''FI''), (64258, ''FL''), (64259, ''FFI''), (64260, ''FFL''),
      (64261, ''ST''), (64262, ''ST'')]"

definition upper_code :: "nat \<Rightarrow> string" where
  "upper_code c =
     (if 97 \<le> c \<and> c \<le> 122 then [char_of (c - 32)]
      else if 65 \<le> c \<and> c \<le> 90 \<or> 48 \<le> c \<and> c \<le> 57 then [char_of c]
      else (case map_of special_upper c of Some s \<Rightarrow> s | None \<Rightarrow> []))"

definition normalizeCode :: "nat list \<Rightarrow> string" where
  "normalizeCode code = concat (map upper_code code)"

abbreviation points :: "string \<Rightarrow> nat list" where
  "points s \<equiv> map of_char s"

definition code_char :: "char \<Rightarrow> bool" where
  "code_char c \<longleftrightarrow> (let n = of_char c :: nat in 65 \<le> n \<and> n \<le> 90 \<or> 48 \<le> n \<and> n \<le> 57)"

lemma upper_code_chars: "c \<in> set (upper_code n) \<Longrightarrow> code_char c"
  by (auto simp: upper_code_def code_char_def special_upper_def Let_def split: if_splits option.splits)

lemma normalizeCode_chars: "list_all code_char (normalizeCode code)"
  by (auto simp: normalizeCode_def list_all_iff dest: upper_code_chars)

lemma upper_code_id: "code_char c \<Longrightarrow> upper_code (of_char c) = [c]"
  by (auto simp: upper_code_def code_char_def Let_def)

lemma normalizeCode_id: "list_all code_char s \<Longrightarrow> normalizeCode (points s) = s"
  by (induction s) (auto simp: normalizeCode_def upper_code_id)

lemma normalizeCode_idem: "normalizeCode (points (normalizeCode code)) = normalizeCode code"
  by (simp add: normalizeCode_chars normalizeCode_id)

section \<open>The registry\<close>

record share_input =
  si_code :: "nat list"
  si_sessionId :: string
  si_fileId :: string
  si_fileName :: string
  si_sizeBytes :: jsnum
  si_pieceSize :: jsnum
  si_pieceCount :: jsnum
  si_ownerPeerId :: string
  si_joinUrl :: string
  si_ttlMs :: jsnum

record share_record =
  sr_code :: string
  sr_sessionId :: string
  sr_fileId :: string
  sr_fileName :: string
  sr_sizeBytes :: jsnum
  sr_pieceSize :: jsnum
  sr_pieceCount :: jsnum
  sr_ownerPeerId :: string
  sr_joinUrl :: string
  sr_expiresAt :: jsnum
  sr_createdAt :: int

type_synonym registry = "(string, share_record) js_map"

fun js_plus :: "jsnum \<Rightarrow> jsnum \<Rightarrow> jsnum" where
  "js_plus (Fin x) (Fin y) = Fin (x + y)"
| "js_plus NaN _ = NaN"
| "js_plus _ NaN = NaN"
| "js_plus (Fin _) n = n"
| "js_plus n (Fin _) = n"
| "js_plus PosInf n = (if n = PosInf then PosInf else NaN)"
| "js_plus NegInf n = (if n = NegInf then NegInf else NaN)"

abbreviation instant :: "int \<Rightarrow> jsnum" where
  "instant t \<equiv> Fin (of_int t)"

definition share_expired :: "int \<Rightarrow> share_record \<Rightarrow> bool" where
  "share_expired t r \<longleftrightarrow> js_le (sr_expiresAt r) (instant t)"

definition registry_cleanup :: "int \<Rightarrow> registry \<Rightarrow> registry \<times> int" where
  "registry_cleanup t reg =
     (filter (\<lambda>(_, r). \<not> share_expired t r) reg, int (length (filter (\<lambda>(_, r). share_expired t r) reg)))"

definition share_of :: "int \<Rightarrow> string \<Rightarrow> share_input \<Rightarrow> share_record" where
  "share_of createdAt code i =
     \<lparr>sr_code = code, sr_sessionId = si_sessionId i, sr_fileId = si_fileId i, sr_fileName = si_fileName i,
      sr_sizeBytes = si_sizeBytes i, sr_pieceSize = si_pieceSize i, sr_pieceCount = si_pieceCount i,
      sr_ownerPeerId = si_ownerPeerId i, sr_joinUrl = si_joinUrl i,
      sr_expiresAt = js_plus (instant createdAt) (js_max (Fin 60000) (si_ttlMs i)), sr_createdAt = createdAt\<rparr>"

definition registry_put :: "int \<Rightarrow> int \<Rightarrow> share_input \<Rightarrow> registry \<Rightarrow> registry \<times> (string + share_record)" where
  "registry_put t1 t2 i reg =
     (let reg = fst (registry_cleanup t1 reg); code = normalizeCode (si_code i) in
      if length code < 6 then (reg, Inl ''Share code too short'')
      else (let r = share_of t2 code i in (jm_set code r reg, Inr r)))"

definition registry_get :: "int \<Rightarrow> int \<Rightarrow> nat list \<Rightarrow> registry \<Rightarrow> registry \<times> share_record option" where
  "registry_get t1 t2 code reg =
     (let reg = fst (registry_cleanup t1 reg); normalized = normalizeCode code in
      case jm_get reg normalized of
        None \<Rightarrow> (reg, None)
      | Some r \<Rightarrow> if share_expired t2 r then (jm_delete normalized reg, None) else (reg, Some r))"

text \<open>The timer of \<open>createSignalingHttpServer\<close> calls \<open>cleanup\<close> and drops the count.\<close>

datatype registry_op =
    Reg_Put int int share_input
  | Reg_Get int int "nat list"
  | Reg_Sweep int

datatype registry_answer =
    Ans_Put "string + share_record"
  | Ans_Get "share_record option"
  | Ans_Sweep

fun registry_step :: "registry_op \<Rightarrow> registry \<Rightarrow> registry \<times> registry_answer" where
  "registry_step (Reg_Put t1 t2 i) reg = map_prod id Ans_Put (registry_put t1 t2 i reg)"
| "registry_step (Reg_Get t1 t2 code) reg = map_prod id Ans_Get (registry_get t1 t2 code reg)"
| "registry_step (Reg_Sweep t) reg = (fst (registry_cleanup t reg), Ans_Sweep)"

section \<open>The specification\<close>

text \<open>A code stands for the record last published under it, until that record expires; nothing is ever swept.\<close>

type_synonym share_spec = "string \<Rightarrow> share_record option"

fun spec_step :: "registry_op \<Rightarrow> share_spec \<Rightarrow> share_spec \<times> registry_answer" where
  "spec_step (Reg_Put _ t i) m =
     (let code = normalizeCode (si_code i); r = share_of t code i in
      if length code < 6 then (m, Ans_Put (Inl ''Share code too short'')) else (m(code \<mapsto> r), Ans_Put (Inr r)))"
| "spec_step (Reg_Get _ t code) m =
     (m, Ans_Get (case m (normalizeCode code) of
        None \<Rightarrow> None | Some r \<Rightarrow> if share_expired t r then None else Some r))"
| "spec_step (Reg_Sweep _) m = (m, Ans_Sweep)"

text \<open>The clock does not run backwards.\<close>

fun op_enabled :: "int \<Rightarrow> registry_op \<Rightarrow> bool" where
  "op_enabled k (Reg_Put t1 t2 _) = (k \<le> t1 \<and> t1 \<le> t2)"
| "op_enabled k (Reg_Get t1 t2 _) = (k \<le> t1 \<and> t1 \<le> t2)"
| "op_enabled k (Reg_Sweep t) = (k \<le> t)"

fun op_time :: "int \<Rightarrow> registry_op \<Rightarrow> int" where
  "op_time k (Reg_Put _ t _) = t"
| "op_time k (Reg_Get _ t _) = t"
| "op_time k (Reg_Sweep t) = t"

definition live_share :: "int \<Rightarrow> share_record option \<Rightarrow> share_record option" where
  "live_share t found = (case found of None \<Rightarrow> None | Some r \<Rightarrow> if share_expired t r then None else Some r)"

definition shares_related :: "int \<Rightarrow> registry \<Rightarrow> share_spec \<Rightarrow> bool" where
  "shares_related k reg m \<longleftrightarrow> jm_wf reg \<and> (\<forall>code. live_share k (jm_get reg code) = live_share k (m code))"

lemma share_expired_mono: "share_expired s r \<Longrightarrow> s \<le> t \<Longrightarrow> share_expired t r"
  by (cases "sr_expiresAt r") (auto simp: share_expired_def)

lemma live_share_simps [simp]:
  "live_share t None = None"
  "live_share t (Some r) = (if share_expired t r then None else Some r)"
  by (simp_all add: live_share_def)

lemma live_share_later: "s \<le> t \<Longrightarrow> live_share t (live_share s found) = live_share t found"
  by (auto simp: live_share_def share_expired_mono split: option.splits)

lemma related_later:
  assumes "shares_related k reg m" "k \<le> t"
  shows "shares_related t reg m"
  using assms live_share_later[OF assms(2)] unfolding shares_related_def by metis

lemma cleanup_related:
  assumes "shares_related k reg m" "k \<le> t"
  shows "shares_related t (fst (registry_cleanup t reg)) m"
proof -
  have rel: "shares_related t reg m" using assms by (rule related_later)
  then have "jm_wf reg" by (simp add: shares_related_def)
  then have "live_share t (jm_get (fst (registry_cleanup t reg)) code) = live_share t (jm_get reg code)" for code
    by (simp add: registry_cleanup_def jm_get_filter split: option.splits)
  with rel show ?thesis by (simp add: shares_related_def registry_cleanup_def)
qed

lemma related_set: "shares_related t reg m \<Longrightarrow> shares_related t (jm_set code r reg) (m(code \<mapsto> r))"
  by (simp add: shares_related_def)

lemma related_expire:
  "shares_related t reg m \<Longrightarrow> jm_get reg code = Some r \<Longrightarrow> share_expired t r \<Longrightarrow>
   shares_related t (jm_delete code reg) m"
  unfolding shares_related_def by (metis jm_get_delete jm_wf_delete live_share_simps)

lemma put_related:
  assumes "shares_related k reg m" "op_enabled k (Reg_Put t1 t2 i)"
  shows "snd (registry_step (Reg_Put t1 t2 i) reg) = snd (spec_step (Reg_Put t1 t2 i) m)"
    and "shares_related t2 (fst (registry_step (Reg_Put t1 t2 i) reg)) (fst (spec_step (Reg_Put t1 t2 i) m))"
proof -
  have "shares_related t2 (fst (registry_cleanup t1 reg)) m"
    using related_later[OF cleanup_related] assms by simp
  then show "shares_related t2 (fst (registry_step (Reg_Put t1 t2 i) reg)) (fst (spec_step (Reg_Put t1 t2 i) m))"
    by (simp add: registry_put_def Let_def related_set)
qed (simp add: registry_put_def Let_def)

lemma get_related:
  assumes "shares_related k reg m" "op_enabled k (Reg_Get t1 t2 code)"
  shows "snd (registry_step (Reg_Get t1 t2 code) reg) = snd (spec_step (Reg_Get t1 t2 code) m)"
    and "shares_related t2 (fst (registry_step (Reg_Get t1 t2 code) reg)) m"
proof -
  let ?reg = "fst (registry_cleanup t1 reg)" and ?code = "normalizeCode code"
  have rel: "shares_related t2 ?reg m"
    using related_later[OF cleanup_related] assms by simp
  have got: "live_share t2 (jm_get ?reg ?code) = snd (registry_get t1 t2 code reg)"
    by (simp add: registry_get_def Let_def live_share_def split: option.splits)
  have "snd (registry_get t1 t2 code reg) = live_share t2 (m ?code)"
    using rel got unfolding shares_related_def by metis
  then show "snd (registry_step (Reg_Get t1 t2 code) reg) = snd (spec_step (Reg_Get t1 t2 code) m)"
    by (simp add: live_share_def)
  show "shares_related t2 (fst (registry_step (Reg_Get t1 t2 code) reg)) m"
    using rel by (auto simp: registry_get_def Let_def related_expire split: option.splits)
qed

interpretation shares: forward_simulation registry_step spec_step op_enabled op_time shares_related
proof (unfold_locales, goal_cases)
  case (1 k reg m op)
  then show ?case by (cases op) (simp_all add: put_related get_related del: spec_step.simps(1,2) registry_step.simps(1,2))
next
  case (2 k reg m op)
  then show ?case
    by (cases op)
      (auto dest: put_related(2) get_related(2) cleanup_related simp del: spec_step.simps(1) registry_step.simps(1,2))
qed

lemma no_shares_related: "shares_related k [] Map.empty"
  by (simp add: shares_related_def)

text \<open>
  C38. The registry refines the specification: whatever is published, looked up and swept, in any order at times that do
  not run backwards, each answer is the one of a plain function from normalized codes to the last record
  published, seen through its expiry. Sweeping and the deletions of a lookup cannot be observed.
\<close>

theorem registry_refines:
  assumes "admissible op_enabled op_time start ops"
  shows "run_answers registry_step ops [] = run_answers spec_step ops Map.empty"
  using no_shares_related assms by (rule shares.same_answers)

definition example_share :: share_input where
  "example_share =
     \<lparr>si_code = points ''ab-c12 3'', si_sessionId = ''s1'', si_fileId = ''f1'', si_fileName = ''a.bin'',
      si_sizeBytes = Fin 10, si_pieceSize = Fin 4, si_pieceCount = Fin 3, si_ownerPeerId = ''p1'',
      si_joinUrl = ''https://x/#/join/s1'', si_ttlMs = Fin 1000\<rparr>"

lemma example_code: "normalizeCode (points ''ab-c12 3'') = ''ABC123''"
  by (simp add: normalizeCode_def upper_code_def special_upper_def char_of_def bit_iff_odd)

theorem registry_refines_witness:
  "run_answers registry_step
     [Reg_Put 0 0 example_share, Reg_Get 5 6 (points ''ABC123''), Reg_Sweep 60000, Reg_Get 60001 60001 (points ''abc123'')] [] =
   [Ans_Put (Inr (share_of 0 ''ABC123'' example_share)), Ans_Get (Some (share_of 0 ''ABC123'' example_share)), Ans_Sweep,
    Ans_Get None]"
proof -
  have codes: "normalizeCode (points ''ABC123'') = ''ABC123''" "normalizeCode (points ''abc123'') = ''ABC123''"
    by (simp_all add: normalizeCode_def upper_code_def char_of_def bit_iff_odd)
  have expiry: "sr_expiresAt (share_of 0 ''ABC123'' example_share) = Fin 60000"
    by (simp add: share_of_def example_share_def)
  have code: "si_code example_share = points ''ab-c12 3''" by (simp add: example_share_def)
  show ?thesis
    by (subst registry_refines[of 0])
      (simp_all only: admissible.simps op_enabled.simps op_time.simps run_answers.simps spec_step.simps code example_code codes
        Let_def fst_conv snd_conv share_expired_def expiry fun_upd_same option.case js_le.simps list.size simp_thms, simp_all add: expiry share_expired_def)
qed

end
