(* ===== verification/Signaling_Rooms.thy ===== *)
theory Signaling_Rooms
  imports Signaling_Protocol
begin

text \<open>
  \<open>RoomManager\<close> of \<open>packages/signaling/src/index.ts\<close>. Session and peer ids come out of untyped envelopes and are kept as
  values; two of them are the same key when they are equal, which is JavaScript's rule for strings, numbers and booleans. A method returns the rooms it
  leaves, also when it throws.
\<close>

record room =
  rm_sessionId :: js_value
  rm_ownerPeerId :: js_value
  rm_files :: "js_value list"
  rm_peers :: "(js_value, peer_role) js_map"
  rm_createdAt :: int
  rm_expiresAt :: int

type_synonym rooms = "(js_value, room) js_map"

text \<open>\<open>String(id)\<close> inside a template, for ids that render as a word.\<close>

definition id_text :: "js_value \<Rightarrow> string" where
  "id_text v = (case js_word v of Some s \<Rightarrow> s | None \<Rightarrow> ''?'')"

definition room_create :: "int \<Rightarrow> int \<Rightarrow> js_value \<Rightarrow> js_value \<Rightarrow> js_value list \<Rightarrow> rooms \<Rightarrow> rooms \<times> (string + room)" where
  "room_create now ttlMs sessionId ownerPeerId files rooms =
     (case jm_get rooms sessionId of
        Some _ \<Rightarrow> (rooms, Inl (''Session already exists: '' @ id_text sessionId))
      | None \<Rightarrow>
          let record = \<lparr>rm_sessionId = sessionId, rm_ownerPeerId = ownerPeerId, rm_files = files,
                rm_peers = [(ownerPeerId, OwnerRole)], rm_createdAt = now, rm_expiresAt = now + ttlMs\<rparr>
          in (jm_set sessionId record rooms, Inr record))"

definition getMutableLiveRoom :: "int \<Rightarrow> js_value \<Rightarrow> rooms \<Rightarrow> rooms \<times> (string + room)" where
  "getMutableLiveRoom now sessionId rooms =
     (case jm_get rooms sessionId of
        None \<Rightarrow> (rooms, Inl (''Unknown session: '' @ id_text sessionId))
      | Some room \<Rightarrow>
          if rm_expiresAt room \<le> now then (jm_delete sessionId rooms, Inl (''Expired session: '' @ id_text sessionId))
          else (rooms, Inr room))"

definition room_join :: "int \<Rightarrow> js_value \<Rightarrow> js_value \<Rightarrow> rooms \<Rightarrow> rooms \<times> (string + room)" where
  "room_join now sessionId peerId rooms =
     (case getMutableLiveRoom now sessionId rooms of
        (rooms1, Inl err) \<Rightarrow> (rooms1, Inl err)
      | (rooms1, Inr room) \<Rightarrow>
          let room' = room\<lparr>rm_peers := jm_set peerId ReceiverRole (rm_peers room)\<rparr>
          in (jm_set sessionId room' rooms1, Inr room'))"

definition room_leave :: "js_value \<Rightarrow> js_value \<Rightarrow> rooms \<Rightarrow> rooms \<times> bool" where
  "room_leave sessionId peerId rooms =
     (case jm_get rooms sessionId of
        None \<Rightarrow> (rooms, False)
      | Some room \<Rightarrow>
          let deleted = (jm_get (rm_peers room) peerId \<noteq> None);
              room' = room\<lparr>rm_peers := jm_delete peerId (rm_peers room)\<rparr>
          in (if peerId = rm_ownerPeerId room \<or> rm_peers room' = [] then jm_delete sessionId rooms
              else jm_set sessionId room' rooms, deleted))"

definition relay_types :: "string list" where
  "relay_types = [''WEBRTC_OFFER'', ''WEBRTC_ANSWER'', ''ICE_CANDIDATE'']"

definition relayWebRtc :: "int \<Rightarrow> js_value \<Rightarrow> rooms \<Rightarrow> rooms \<times> (string + unit)" where
  "relayWebRtc now envelope rooms =
     (let sessionId = jfield envelope ''sessionId'';
          fromPeerId = jfield envelope ''fromPeerId'';
          toPeerId = jfield envelope ''toPeerId''
      in if \<not> truthy_value sessionId \<or> \<not> truthy_value fromPeerId \<or> \<not> truthy_value toPeerId
         then (rooms, Inl ''Relay envelope requires sessionId, fromPeerId, and toPeerId'')
         else if envelope_type envelope \<notin> set relay_types
         then (rooms, Inl (''Cannot relay non-WebRTC message '' @ envelope_type envelope))
         else (case getMutableLiveRoom now sessionId rooms of
                 (rooms1, Inl err) \<Rightarrow> (rooms1, Inl err)
               | (rooms1, Inr room) \<Rightarrow>
                   (rooms1,
                    if jm_get (rm_peers room) fromPeerId = None then Inl (''Unknown source peer: '' @ id_text fromPeerId)
                    else if jm_get (rm_peers room) toPeerId = None then Inl (''Unknown target peer: '' @ id_text toPeerId)
                    else Inr ())))"

definition getLiveRoom :: "int \<Rightarrow> js_value \<Rightarrow> rooms \<Rightarrow> rooms \<times> (string + room)" where
  "getLiveRoom now sessionId rooms = getMutableLiveRoom now sessionId rooms"

definition listPeers :: "int \<Rightarrow> js_value \<Rightarrow> rooms \<Rightarrow> rooms \<times> (string + (js_value \<times> peer_role) list)" where
  "listPeers now sessionId rooms =
     (case getLiveRoom now sessionId rooms of (rooms1, r) \<Rightarrow> (rooms1, bind_result r (\<lambda>room. Inr (rm_peers room))))"

definition room_expired :: "int \<Rightarrow> room \<Rightarrow> bool" where
  "room_expired now room \<longleftrightarrow> rm_expiresAt room \<le> now"

definition cleanupExpired :: "int \<Rightarrow> rooms \<Rightarrow> rooms \<times> nat" where
  "cleanupExpired now rooms =
     (filter (\<lambda>(_, room). \<not> room_expired now room) rooms, length (filter (\<lambda>(_, room). room_expired now room) rooms))"

section \<open>Well-formed rooms\<close>

text \<open>Every room is kept under its id, has its owner among its peers, and at most \<open>k\<close> of them.\<close>

definition room_ok :: "nat \<Rightarrow> room \<Rightarrow> bool" where
  "room_ok k room \<longleftrightarrow> jm_wf (rm_peers room) \<and> jm_get (rm_peers room) (rm_ownerPeerId room) \<noteq> None \<and> length (rm_peers room) \<le> k"

definition rooms_ok :: "nat \<Rightarrow> rooms \<Rightarrow> bool" where
  "rooms_ok k rooms \<longleftrightarrow> jm_wf rooms \<and> (\<forall>sid room. jm_get rooms sid = Some room \<longrightarrow> rm_sessionId room = sid \<and> room_ok k room)"

lemma rooms_okD: "rooms_ok k rooms \<Longrightarrow> jm_get rooms sid = Some room \<Longrightarrow> rm_sessionId room = sid \<and> room_ok k room"
  by (simp add: rooms_ok_def)

lemma rooms_ok_set: "rooms_ok k rooms \<Longrightarrow> rm_sessionId room = sid \<Longrightarrow> room_ok k room \<Longrightarrow> rooms_ok k (jm_set sid room rooms)"
  by (auto simp: rooms_ok_def)

lemma rooms_ok_delete: "rooms_ok k rooms \<Longrightarrow> rooms_ok k (jm_delete sid rooms)"
  by (auto simp: rooms_ok_def)

lemma rooms_ok_mono: "rooms_ok k rooms \<Longrightarrow> k \<le> k' \<Longrightarrow> rooms_ok k' rooms"
  by (fastforce simp: rooms_ok_def room_ok_def)

lemma jm_length_set: "length (jm_set k v m) = (if k \<in> set (jm_keys m) then length m else Suc (length m))"
  by (induction m) auto

lemma delete_set_new: "k \<notin> set (jm_keys m) \<Longrightarrow> jm_delete k (jm_set k v m) = m"
  by (induction m) (auto simp: AList.delete_eq)

lemma room_create_ok:
  "rooms_ok k rooms \<Longrightarrow> 1 \<le> k \<Longrightarrow> rooms_ok k (fst (room_create now ttl sid owner files rooms))"
  by (auto simp: room_create_def Let_def room_ok_def jm_wf_def intro!: rooms_ok_set split: option.splits)

lemma live_room_ok: "rooms_ok k rooms \<Longrightarrow> rooms_ok k (fst (getMutableLiveRoom now sid rooms))"
  by (auto simp: getMutableLiveRoom_def intro: rooms_ok_delete split: option.splits)

lemma live_room_Inr: "getMutableLiveRoom now sid rooms = (rooms1, Inr room) \<Longrightarrow> rooms1 = rooms \<and> jm_get rooms sid = Some room \<and> now < rm_expiresAt room"
  by (auto simp: getMutableLiveRoom_def split: option.splits if_splits)

lemma room_leave_ok: "rooms_ok k rooms \<Longrightarrow> rooms_ok k (fst (room_leave sid p rooms))"
proof (cases "jm_get rooms sid")
  case (Some room)
  assume ok: "rooms_ok k rooms"
  from rooms_okD [OF this Some] have r: "rm_sessionId room = sid" "room_ok k room" by auto
  have "room_ok k (room\<lparr>rm_peers := jm_delete p (rm_peers room)\<rparr>)" if "p \<noteq> rm_ownerPeerId room"
    using r(2) that jm_length_delete [of p "rm_peers room"] by (auto simp: room_ok_def)
  with ok r Some show ?thesis by (auto simp: room_leave_def Let_def intro!: rooms_ok_set rooms_ok_delete)
qed (simp add: room_leave_def)

text \<open>A join may make the room one too large; leaving repairs it.\<close>

lemma room_join_ok:
  assumes "rooms_ok k rooms" and "room_join now sid p rooms = (rooms', Inr room)"
  shows "rm_sessionId room = sid" "jm_get rooms' sid = Some room" "jm_wf (rm_peers room)"
    "jm_get (rm_peers room) (rm_ownerPeerId room) \<noteq> None" "jm_get (rm_peers room) p = Some ReceiverRole"
    "length (rm_peers room) \<le> k \<Longrightarrow> rooms_ok k rooms'"
    "k < length (rm_peers room) \<Longrightarrow> rooms_ok k (fst (room_leave sid p rooms'))"
proof -
  obtain old where old: "jm_get rooms sid = Some old" and room: "room = old\<lparr>rm_peers := jm_set p ReceiverRole (rm_peers old)\<rparr>"
    and rooms': "rooms' = jm_set sid room rooms"
    using assms(2) by (auto simp: room_join_def Let_def dest!: live_room_Inr split: sum.splits prod.splits)
  from rooms_okD [OF assms(1) old] have o: "rm_sessionId old = sid" "room_ok k old" by auto
  then show r: "rm_sessionId room = sid" "jm_get rooms' sid = Some room" "jm_wf (rm_peers room)"
    "jm_get (rm_peers room) (rm_ownerPeerId room) \<noteq> None" "jm_get (rm_peers room) p = Some ReceiverRole"
    by (auto simp: room rooms' room_ok_def)
  show "rooms_ok k rooms'" if "length (rm_peers room) \<le> k"
    using assms(1) r that unfolding rooms' by (intro rooms_ok_set) (auto simp: room_ok_def)
  show "rooms_ok k (fst (room_leave sid p rooms'))" if "k < length (rm_peers room)"
  proof -
    have "length (rm_peers old) \<le> k" using o(2) by (simp add: room_ok_def)
    with that have "p \<notin> set (jm_keys (rm_peers old))" by (auto simp: room jm_length_set split: if_splits)
    then have "jm_delete p (rm_peers room) = rm_peers old" and "p \<noteq> rm_ownerPeerId room"
      using o(2) by (auto simp: room delete_set_new room_ok_def map_of_eq_None_iff)
    then show ?thesis using assms(1) r o rooms'
      by (auto simp: room_leave_def Let_def room_ok_def room intro!: rooms_ok_set)
  qed
qed

end
