(* ===== verification/Signaling_Gateway.thy ===== *)
theory Signaling_Gateway
  imports Signaling_Rooms
begin

text \<open>
  \<open>SignalingGateway\<close> of \<open>packages/signaling/src/server.ts\<close>: the connections of a signaling server, the sessions they create and join,
  the relay of WebRTC messages and what happens when a connection goes. Connections are numbered; what each is sent is recorded. A
  handler returns the state it leaves, also when it throws.
\<close>

section \<open>State\<close>

text \<open>The fields of \<open>SignalingServerConfig\<close> that the gateway reads.\<close>

record gateway_config =
  sc_publicBaseUrl :: string
  sc_sessionTtlMs :: int
  sc_maxPeersPerSession :: nat
  sc_stalePeerTimeoutMs :: int

record connection =
  gc_peerId :: js_value
  gc_sessionId :: js_value
  gc_lastSeenAt :: int
  gc_closed :: bool
  gc_sent :: "js_value list"

datatype gateway_event =
    Gv_SessionCreated room
  | Gv_PeerJoined js_value js_value "(js_value \<times> peer_role) list"
  | Gv_PeerLeft js_value js_value
  | Gv_Relayed js_value

record gateway =
  gw_rooms :: rooms
  gw_connections :: "connection list"
  gw_peers :: "nat js_set"
  gw_events :: "gateway_event list"

type_synonym gateway_result = "gateway \<times> check"

text \<open>The clock and the fresh identifiers of a turn.\<close>

record gateway_turn =
  gt_now :: int
  gt_session :: string
  gt_message :: string

definition new_connection :: "int \<Rightarrow> connection" where
  "new_connection now = \<lparr>gc_peerId = JUndef, gc_sessionId = JUndef, gc_lastSeenAt = now, gc_closed = False, gc_sent = []\<rparr>"

definition update_connection :: "nat \<Rightarrow> (connection \<Rightarrow> connection) \<Rightarrow> gateway \<Rightarrow> gateway" where
  "update_connection c f g = g\<lparr>gw_connections := (gw_connections g)[c := f (gw_connections g ! c)]\<rparr>"

definition gateway_send :: "nat \<Rightarrow> js_value \<Rightarrow> gateway \<Rightarrow> gateway" where
  "gateway_send c text = update_connection c (\<lambda>k. k\<lparr>gc_sent := gc_sent k @ [text]\<rparr>)"

definition gateway_emit :: "gateway_event \<Rightarrow> gateway \<Rightarrow> gateway" where
  "gateway_emit ev g = g\<lparr>gw_events := gw_events g @ [ev]\<rparr>"

definition envelope_of :: "gateway_turn \<Rightarrow> string \<Rightarrow> js_value \<Rightarrow> js_value \<Rightarrow> js_value \<Rightarrow> js_value \<Rightarrow> js_value" where
  "envelope_of tn type sessionId fromPeerId toPeerId payload =
     JObj [(''protocol'', JStr SIGNALING_PROTOCOL), (''version'', JStr PROTOCOL_VERSION), (''messageId'', JStr (''msg_'' @ gt_message tn)),
       (''type'', JStr type), (''sessionId'', sessionId), (''fromPeerId'', fromPeerId), (''toPeerId'', toPeerId),
       (''timestamp'', JNum (num_of_int (gt_now tn))), (''payload'', payload)]"

text \<open>\<open>connection.send(encodeSignaling(envelope))\<close>\<close>

definition send_envelope :: "nat \<Rightarrow> js_value \<Rightarrow> gateway \<Rightarrow> gateway_result" where
  "send_envelope c envelope g =
     (case encodeSignaling envelope of Inl err \<Rightarrow> (g, Inl err) | Inr text \<Rightarrow> (gateway_send c text g, Inr ()))"

definition gateway_then :: "gateway_result \<Rightarrow> (gateway \<Rightarrow> gateway_result) \<Rightarrow> gateway_result" where
  "gateway_then r f = (case r of (g, Inl err) \<Rightarrow> (g, Inl err) | (g, Inr _) \<Rightarrow> f g)"

definition broadcast_targets :: "js_value \<Rightarrow> js_value \<Rightarrow> gateway \<Rightarrow> nat list" where
  "broadcast_targets sessionId exceptPeerId g =
     filter (\<lambda>c. gc_sessionId (gw_connections g ! c) = sessionId \<and> gc_peerId (gw_connections g ! c) \<noteq> exceptPeerId) (gw_peers g)"

definition gateway_broadcast :: "js_value \<Rightarrow> js_value \<Rightarrow> js_value \<Rightarrow> gateway \<Rightarrow> gateway_result" where
  "gateway_broadcast sessionId envelope exceptPeerId g =
     (case encodeSignaling envelope of
        Inl err \<Rightarrow> (g, Inl err)
      | Inr text \<Rightarrow> (fold (\<lambda>c. gateway_send c text) (broadcast_targets sessionId exceptPeerId g) g, Inr ()))"

definition broadcastPeerJoined :: "gateway_turn \<Rightarrow> js_value \<Rightarrow> js_value \<Rightarrow> gateway \<Rightarrow> gateway_result" where
  "broadcastPeerJoined tn sessionId peerId =
     gateway_broadcast sessionId (envelope_of tn ''PEER_JOINED'' sessionId peerId JUndef (JObj [(''peerId'', peerId), (''role'', JStr ''receiver'')])) peerId"

definition broadcastPeerLeft :: "gateway_turn \<Rightarrow> js_value \<Rightarrow> js_value \<Rightarrow> gateway \<Rightarrow> gateway_result" where
  "broadcastPeerLeft tn sessionId peerId =
     gateway_broadcast sessionId (envelope_of tn ''PEER_LEFT'' sessionId peerId JUndef (JObj [(''peerId'', peerId)])) peerId"

definition sendError :: "gateway_turn \<Rightarrow> nat \<Rightarrow> js_value \<Rightarrow> js_value \<Rightarrow> string \<Rightarrow> string \<Rightarrow> gateway \<Rightarrow> gateway_result" where
  "sendError tn c sessionId toPeerId message code =
     send_envelope c (envelope_of tn ''ERROR'' sessionId JUndef toPeerId (JObj [(''code'', JStr code), (''message'', JStr message)]))"

section \<open>Connections\<close>

definition gateway_attach :: "gateway_turn \<Rightarrow> gateway \<Rightarrow> gateway" where
  "gateway_attach tn g =
     g\<lparr>gw_connections := gw_connections g @ [new_connection (gt_now tn)], gw_peers := js_add (length (gw_connections g)) (gw_peers g)\<rparr>"

definition gateway_detach :: "gateway_turn \<Rightarrow> nat \<Rightarrow> gateway \<Rightarrow> gateway_result" where
  "gateway_detach tn c g =
     (let g1 = g\<lparr>gw_peers := filter (\<lambda>d. d \<noteq> c) (gw_peers g)\<rparr>;
          sessionId = gc_sessionId (gw_connections g1 ! c);
          peerId = gc_peerId (gw_connections g1 ! c)
      in if truthy_value sessionId \<and> truthy_value peerId
         then gateway_then (broadcastPeerLeft tn sessionId peerId (g1\<lparr>gw_rooms := fst (room_leave sessionId peerId (gw_rooms g1))\<rparr>))
                (\<lambda>g2. (gateway_emit (Gv_PeerLeft sessionId peerId) g2, Inr ()))
         else (g1, Inr ()))"

text \<open>The close of a server's connection, which detaches it the first time.\<close>

definition connection_close :: "gateway_turn \<Rightarrow> nat \<Rightarrow> gateway \<Rightarrow> gateway_result" where
  "connection_close tn c g =
     (if gc_closed (gw_connections g ! c) then (g, Inr ())
      else gateway_detach tn c (update_connection c (\<lambda>k. k\<lparr>gc_closed := True\<rparr>) g))"

fun close_stale :: "gateway_turn \<Rightarrow> int \<Rightarrow> nat list \<Rightarrow> gateway \<Rightarrow> gateway_result" where
  "close_stale tn cutoff [] g = (g, Inr ())"
| "close_stale tn cutoff (c # rest) g =
     (if gc_lastSeenAt (gw_connections g ! c) \<le> cutoff
      then gateway_then (connection_close tn c g) (\<lambda>g1. gateway_then (gateway_detach tn c g1) (close_stale tn cutoff rest))
      else close_stale tn cutoff rest g)"

definition cleanupStalePeers :: "gateway_config \<Rightarrow> gateway_turn \<Rightarrow> gateway \<Rightarrow> gateway_result" where
  "cleanupStalePeers cfg tn g =
     gateway_then (close_stale tn (gt_now tn - sc_stalePeerTimeoutMs cfg) (gw_peers g) g) (\<lambda>g1.
       (g1\<lparr>gw_rooms := fst (cleanupExpired (gt_now tn) (gw_rooms g1))\<rparr>, Inr ()))"

section \<open>Messages\<close>

definition drop_slash :: "string \<Rightarrow> string" where
  "drop_slash url = (if url \<noteq> '''' \<and> last url = CHR ''/'' then butlast url else url)"

definition set_identity :: "nat \<Rightarrow> js_value \<Rightarrow> js_value \<Rightarrow> gateway \<Rightarrow> gateway" where
  "set_identity c sessionId peerId = update_connection c (\<lambda>k. k\<lparr>gc_peerId := peerId, gc_sessionId := sessionId\<rparr>)"

definition handleCreateSession :: "gateway_config \<Rightarrow> gateway_turn \<Rightarrow> nat \<Rightarrow> js_value \<Rightarrow> gateway \<Rightarrow> gateway_result" where
  "handleCreateSession cfg tn c envelope g =
     (let payload = jfield envelope ''payload'';
          owner = jfield payload ''ownerPeerId'';
          given = jfield envelope ''sessionId'';
          sessionId = (if given = JUndef \<or> given = JNull then JStr (''sess_'' @ gt_session tn) else given);
          files = (case elements (jfield payload ''files'') of Some fs \<Rightarrow> fs | None \<Rightarrow> [])
      in case room_create (gt_now tn) (sc_sessionTtlMs cfg) sessionId owner files (gw_rooms g) of
           (rooms, Inl err) \<Rightarrow> (g\<lparr>gw_rooms := rooms\<rparr>, Inl err)
         | (rooms, Inr session) \<Rightarrow>
             gateway_then
               (send_envelope c (envelope_of tn ''SESSION_CREATED'' sessionId owner JUndef
                  (JObj [(''ownerPeerId'', owner), (''expiresAt'', JNum (num_of_int (rm_expiresAt session))),
                    (''shareUrl'', JStr (drop_slash (sc_publicBaseUrl cfg) @ ''/#/join/'' @ id_text sessionId))]))
                  (set_identity c sessionId owner (g\<lparr>gw_rooms := rooms\<rparr>)))
               (\<lambda>g1. (gateway_emit (Gv_SessionCreated session) g1, Inr ())))"

definition role_name :: "peer_role \<Rightarrow> string" where
  "role_name r = (case r of OwnerRole \<Rightarrow> ''owner'' | ReceiverRole \<Rightarrow> ''receiver'')"

definition peers_value :: "(js_value \<times> peer_role) list \<Rightarrow> js_value" where
  "peers_value ps = JArr (map (\<lambda>(p, r). JObj [(''peerId'', p), (''role'', JStr (role_name r))]) ps)"

definition handleJoinSession :: "gateway_config \<Rightarrow> gateway_turn \<Rightarrow> nat \<Rightarrow> js_value \<Rightarrow> gateway \<Rightarrow> gateway_result" where
  "handleJoinSession cfg tn c envelope g =
     (let sessionId = jfield envelope ''sessionId'';
          peerId = jfield envelope ''fromPeerId''
      in if \<not> truthy_value sessionId \<or> \<not> truthy_value peerId then (g, Inl ''JOIN_SESSION requires sessionId and fromPeerId'')
         else (case room_join (gt_now tn) sessionId peerId (gw_rooms g) of
           (rooms, Inl err) \<Rightarrow> (g\<lparr>gw_rooms := rooms\<rparr>, Inl err)
         | (rooms, Inr session) \<Rightarrow>
             if sc_maxPeersPerSession cfg < length (rm_peers session)
             then (g\<lparr>gw_rooms := fst (room_leave sessionId peerId rooms)\<rparr>, Inl ''Session peer limit exceeded'')
             else gateway_then
               (send_envelope c (envelope_of tn ''SESSION_JOINED'' sessionId peerId JUndef
                  (JObj [(''selfPeerId'', peerId), (''ownerPeerId'', rm_ownerPeerId session), (''peers'', peers_value (rm_peers session)),
                    (''files'', JArr (rm_files session))]))
                  (set_identity c sessionId peerId (g\<lparr>gw_rooms := rooms\<rparr>)))
               (\<lambda>g1. gateway_then (broadcastPeerJoined tn sessionId peerId g1) (\<lambda>g2.
                 (gateway_emit (Gv_PeerJoined sessionId peerId (rm_peers session)) g2, Inr ())))))"

definition handleRelay :: "gateway_turn \<Rightarrow> nat \<Rightarrow> js_value \<Rightarrow> gateway \<Rightarrow> gateway_result" where
  "handleRelay tn c envelope g =
     (case relayWebRtc (gt_now tn) envelope (gw_rooms g) of
        (rooms, Inl err) \<Rightarrow> (g\<lparr>gw_rooms := rooms\<rparr>, Inl err)
      | (rooms, Inr _) \<Rightarrow>
          let g1 = g\<lparr>gw_rooms := rooms\<rparr>
          in case find (\<lambda>d. gc_peerId (gw_connections g1 ! d) = jfield envelope ''toPeerId'' \<and>
                 gc_sessionId (gw_connections g1 ! d) = jfield envelope ''sessionId'') (gw_peers g1) of
               None \<Rightarrow> (g1, Inl (''Target peer is not connected: '' @ id_text (jfield envelope ''toPeerId'')))
             | Some d \<Rightarrow> gateway_then (send_envelope d envelope g1) (\<lambda>g2. (gateway_emit (Gv_Relayed envelope) g2, Inr ())))"

definition handleLeave :: "gateway_turn \<Rightarrow> nat \<Rightarrow> js_value \<Rightarrow> js_value \<Rightarrow> gateway \<Rightarrow> gateway_result" where
  "handleLeave tn c sessionId peerId g =
     gateway_then (broadcastPeerLeft tn sessionId peerId (g\<lparr>gw_rooms := fst (room_leave sessionId peerId (gw_rooms g))\<rparr>))
       (\<lambda>g1. (gateway_emit (Gv_PeerLeft sessionId peerId) (set_identity c JUndef JUndef g1), Inr ()))"

definition handleEnvelope :: "gateway_config \<Rightarrow> gateway_turn \<Rightarrow> nat \<Rightarrow> js_value \<Rightarrow> gateway \<Rightarrow> gateway_result" where
  "handleEnvelope cfg tn c envelope g =
     (let type = envelope_type envelope;
          sessionId = jfield envelope ''sessionId'';
          fromPeerId = jfield envelope ''fromPeerId''
      in if type = ''CREATE_SESSION'' then handleCreateSession cfg tn c envelope g
         else if type = ''JOIN_SESSION'' then handleJoinSession cfg tn c envelope g
         else if type \<in> set relay_types then handleRelay tn c envelope g
         else if type = ''PEER_LEFT'' then
           (if truthy_value sessionId \<and> truthy_value fromPeerId then handleLeave tn c sessionId fromPeerId g else (g, Inr ()))
         else sendError tn c sessionId fromPeerId (''Unsupported client message '' @ type) ''unsupported_message'' g)"

text \<open>A text message; \<open>None\<close> is a text that is not JSON.\<close>

definition gateway_text :: "gateway_config \<Rightarrow> gateway_turn \<Rightarrow> nat \<Rightarrow> js_value option \<Rightarrow> gateway \<Rightarrow> gateway_result" where
  "gateway_text cfg tn c data g =
     (let g1 = update_connection c (\<lambda>k. k\<lparr>gc_lastSeenAt := gt_now tn\<rparr>) g
      in case (case data of
                 None \<Rightarrow> (g1, Inl ''SyntaxError'')
               | Some v \<Rightarrow> (case decodeSignaling v of Inl err \<Rightarrow> (g1, Inl err) | Inr envelope \<Rightarrow> handleEnvelope cfg tn c envelope g1)) of
           (g2, Inr _) \<Rightarrow> (g2, Inr ())
         | (g2, Inl err) \<Rightarrow> sendError tn c JUndef JUndef err ''bad_request'' g2)"

end
