(* ===== verification/Http_Routes.thy ===== *)
theory Http_Routes
  imports Uri_Codec Share_Registry Signaling_Gateway Js_Text
begin

text \<open>
  The HTTP side of \<open>packages/signaling/src/server.ts\<close>: \<open>handleHttpRequest\<close> with its health, version, ICE and share routes,
  \<open>readJsonBody\<close>, \<open>createIceResponse\<close> and the reply of \<open>acceptWebSocket\<close>. A request handler either hands a
  reply to the response or rejects its promise, which the server does not catch. What is not code of the
  repository is a field of \<open>http_platform\<close>: the URL parser (the path name of \<open>new URL\<close>, none when it throws), JSON parsing of a body, number/text conversion, HMAC.
\<close>

section \<open>Conversions\<close>

record http_platform =
  hp_url :: "string \<Rightarrow> string \<Rightarrow> string option"
  hp_json :: "bytes \<Rightarrow> js_value option"
  hp_show :: "jsnum \<Rightarrow> string"
  hp_number :: "string \<Rightarrow> jsnum"
  hp_hmac :: "string \<Rightarrow> string \<Rightarrow> string"
  hp_stunUrl :: "string option"

text \<open>
  \<open>String(value)\<close> and \<open>Number(value)\<close> of a value that came out of JSON. Such an object inherits its \<open>toString\<close>, unless it
  has a property of that name, which is never a function: then the conversion throws.
\<close>

definition to_primitive_error :: string where
  "to_primitive_error = ''Cannot convert object to primitive value''"

definition bool_text :: "bool \<Rightarrow> string" where
  "bool_text b = (if b then ''true'' else ''false'')"

fun join_commas :: "string list \<Rightarrow> string" where
  "join_commas [] = ''''"
| "join_commas [s] = s"
| "join_commas (s # ss) = s @ '','' @ join_commas ss"

fun js_string :: "(jsnum \<Rightarrow> string) \<Rightarrow> js_value \<Rightarrow> string + string"
  and join_texts :: "(jsnum \<Rightarrow> string) \<Rightarrow> js_value list \<Rightarrow> string + string list" where
  "js_string sh JUndef = Inr ''undefined''"
| "js_string sh JNull = Inr ''null''"
| "js_string sh (JBool b) = Inr (bool_text b)"
| "js_string sh (JNum n) = Inr (sh n)"
| "js_string sh (JStr s) = Inr s"
| "js_string sh (JArr vs) = bind_result (join_texts sh vs) (\<lambda>ss. Inr (join_commas ss))"
| "js_string sh (JObj fs) =
     (if map_of fs ''toString'' = None then Inr ''[object Object]'' else Inl to_primitive_error)"
| "join_texts sh [] = Inr []"
| "join_texts sh (v # vs) =
     bind_result (if v = JUndef \<or> v = JNull then Inr '''' else js_string sh v) (\<lambda>s.
     bind_result (join_texts sh vs) (\<lambda>ss. Inr (s # ss)))"

fun js_toNumber :: "http_platform \<Rightarrow> js_value \<Rightarrow> string + jsnum" where
  "js_toNumber hp JUndef = Inr NaN"
| "js_toNumber hp JNull = Inr (Fin 0)"
| "js_toNumber hp (JBool b) = Inr (Fin (if b then 1 else 0))"
| "js_toNumber hp (JNum n) = Inr n"
| "js_toNumber hp (JStr s) = Inr (hp_number hp s)"
| "js_toNumber hp v = bind_result (js_string (hp_show hp) v) (\<lambda>s. Inr (hp_number hp s))"

text \<open>\<open>a ?? b\<close> and \<open>Number(value) || 0\<close>.\<close>

definition nullish :: "js_value \<Rightarrow> js_value \<Rightarrow> js_value" where
  "nullish a b = (if a = JUndef \<or> a = JNull then b else a)"

definition number_or_zero :: "http_platform \<Rightarrow> js_value \<Rightarrow> string + jsnum" where
  "number_or_zero hp v = bind_result (js_toNumber hp v) (\<lambda>n. Inr (if n = NaN then Fin 0 else n))"

fun js_times :: "real \<Rightarrow> jsnum \<Rightarrow> jsnum" where
  "js_times k (Fin x) = Fin (k * x)"
| "js_times k NaN = NaN"
| "js_times k PosInf = (if 0 < k then PosInf else if k < 0 then NegInf else NaN)"
| "js_times k NegInf = (if 0 < k then NegInf else if k < 0 then PosInf else NaN)"

section \<open>Requests and replies\<close>

record http_config = gateway_config +
  hc_serviceName :: string
  hc_version :: string
  hc_commitSha :: string
  hc_deploymentDomain :: string
  hc_legacyDomain :: string
  hc_readinessChecks :: "(string \<times> string) list"
  hc_turnStaticAuthSecret :: "string option"
  hc_turnUrls :: "string list"
  hc_turnTtlSeconds :: jsnum

text \<open>A body arrives in chunks; the stream of a request that the client aborts ends with an error.\<close>

record http_request =
  rq_method :: string
  rq_url :: string
  rq_host :: "string option"
  rq_chunks :: "bytes list"
  rq_aborted :: bool

datatype http_reply = Reply nat "(string \<times> string) list" js_value

definition writeJson :: "nat \<Rightarrow> js_value \<Rightarrow> (string \<times> string) list \<Rightarrow> http_reply" where
  "writeJson status body headers = Reply status ((''content-type'', ''application/json'') # headers) body"

definition aborted_error :: string where
  "aborted_error = ''aborted''"

fun read_chunks :: "bytes \<Rightarrow> bytes list \<Rightarrow> bool \<Rightarrow> string + bytes option" where
  "read_chunks got [] aborted = (if aborted then Inl aborted_error else Inr (Some got))"
| "read_chunks got (c # cs) aborted =
     (if length (got @ c) > 1000000 then Inr None else read_chunks (got @ c) cs aborted)"

definition readJsonBody :: "http_platform \<Rightarrow> http_request \<Rightarrow> string + js_value option" where
  "readJsonBody hp rq =
     bind_result (read_chunks [] (rq_chunks rq) (rq_aborted rq)) (\<lambda>got.
       Inr (case got of
              None \<Rightarrow> None
            | Some bs \<Rightarrow>
                if rq_chunks rq = [] then Some (JObj [])
                else (case hp_json hp bs of Some v \<Rightarrow> if isRecord v then Some v else None | None \<Rightarrow> None)))"

section \<open>Health, version and ICE\<close>

definition health_body :: "http_config \<Rightarrow> js_value" where
  "health_body cfg =
     JObj [(''status'', JStr ''ok''), (''service'', JStr (hc_serviceName cfg)), (''version'', JStr (hc_version cfg)),
           (''commitSha'', JStr (hc_commitSha cfg))]"

definition readiness_checks :: "http_config \<Rightarrow> (string, string) js_map" where
  "readiness_checks cfg =
     fold (\<lambda>(k, v). jm_set k v) (hc_readinessChecks cfg) [(''process'', ''ok''), (''websocket'', ''ok'')]"

definition server_ready :: "http_config \<Rightarrow> bool" where
  "server_ready cfg \<longleftrightarrow>
     list_all (\<lambda>(name, status). status = ''ok'' \<or> (name = ''cleanupScheduler'' \<and> status = ''disabled'')) (readiness_checks cfg)"

definition ready_body :: "http_config \<Rightarrow> js_value" where
  "ready_body cfg =
     JObj [(''status'', JStr (if server_ready cfg then ''ready'' else ''not_ready'')), (''service'', JStr (hc_serviceName cfg)),
           (''version'', JStr (hc_version cfg)), (''commitSha'', JStr (hc_commitSha cfg)),
           (''domain'', JStr (hc_deploymentDomain cfg)), (''legacyDomain'', JStr (hc_legacyDomain cfg)),
           (''checks'', JObj (map (\<lambda>(k, v). (k, JStr v)) (readiness_checks cfg)))]"

definition version_body :: "http_config \<Rightarrow> js_value" where
  "version_body cfg =
     JObj [(''service'', JStr (hc_serviceName cfg)), (''version'', JStr (hc_version cfg)), (''commitSha'', JStr (hc_commitSha cfg)),
           (''domain'', JStr (hc_deploymentDomain cfg)), (''legacyDomain'', JStr (hc_legacyDomain cfg))]"

definition ice_ttl :: "http_config \<Rightarrow> jsnum" where
  "ice_ttl cfg =
     (let ttl = hc_turnTtlSeconds cfg in if js_isFinite ttl \<and> js_less (Fin 0) ttl then ttl else Fin 600)"

definition ice_urls :: "string list \<Rightarrow> js_value" where
  "ice_urls urls = JArr (map JStr urls)"

definition createIceResponse :: "http_platform \<Rightarrow> int \<Rightarrow> http_config \<Rightarrow> js_value" where
  "createIceResponse hp now cfg =
     (let stun = (case hp_stunUrl hp of Some u \<Rightarrow> u | None \<Rightarrow> ''stun:turn.ponslink.com:3478'');
          stunServers = (if stun \<noteq> '''' then [JObj [(''urls'', ice_urls [stun])]] else []);
          turnServers =
            (case hc_turnStaticAuthSecret cfg of
               Some secret \<Rightarrow>
                 if secret \<noteq> '''' \<and> hc_turnUrls cfg \<noteq> [] then
                   let username = hp_show hp (js_plus (instant (now div 1000)) (ice_ttl cfg)) @ '':grid'' in
                   [JObj [(''urls'', ice_urls (hc_turnUrls cfg)), (''username'', JStr username),
                          (''credential'', JStr (hp_hmac hp secret username))]]
                 else []
             | None \<Rightarrow> [])
      in JObj [(''iceServers'', JArr (stunServers @ turnServers)), (''ttlSeconds'', JNum (ice_ttl cfg)),
               (''relayPolicyRecommended'', JBool False)])"

section \<open>Share routes\<close>

type_synonym http_result = "registry \<times> (string + http_reply)"

definition no_store :: "(string \<times> string) list" where
  "no_store = [(''cache-control'', ''no-store'')]"

definition no_cache :: "(string \<times> string) list" where
  "no_cache = [(''cache-control'', ''no-cache'')]"

definition invalid_body :: "string option \<Rightarrow> http_reply" where
  "invalid_body message =
     writeJson 400 (JObj ((''error'', JStr ''invalid_body'') # (case message of None \<Rightarrow> [] | Some m \<Rightarrow> [(''message'', JStr m)]))) []"

definition not_found :: http_reply where
  "not_found = writeJson 404 (JObj [(''error'', JStr ''not_found'')]) []"

definition publish_file :: "js_value option \<Rightarrow> http_reply" where
  "publish_file body =
     (case body of
        Some b \<Rightarrow>
          if is_string (jfield b ''fileId'') then
            writeJson 200 (JObj [(''ok'', JBool True), (''fileId'', jfield b ''fileId''), (''published'', JBool True)]) []
          else invalid_body (Some ''fileId required'')
      | None \<Rightarrow> invalid_body (Some ''fileId required''))"

definition share_caps :: "js_value \<Rightarrow> js_value" where
  "share_caps body =
     (case jfield body ''capabilities'' of JObj fs \<Rightarrow> JObj fs | JArr vs \<Rightarrow> JArr vs | _ \<Rightarrow> JObj [])"

definition either_field :: "js_value \<Rightarrow> string \<Rightarrow> js_value \<Rightarrow> string \<Rightarrow> js_value \<Rightarrow> js_value" where
  "either_field a k b l d = nullish (jfield a k) (nullish (jfield b l) d)"

record share_names =
  sn_sessionId :: string
  sn_joinUrl :: string
  sn_codeRaw :: string
  sn_fileId :: string
  sn_ownerPeerId :: string

definition share_names_of :: "http_platform \<Rightarrow> js_value \<Rightarrow> string + share_names" where
  "share_names_of hp body =
     (let caps = share_caps body; str = js_string (hp_show hp) in
      bind_result (str (either_field caps ''signalingSessionId'' body ''signalingSessionId'' (JStr ''''))) (\<lambda>sessionId.
      bind_result (str (either_field caps ''joinUrl'' body ''joinUrl'' (JStr ''''))) (\<lambda>joinUrl.
      bind_result (str (either_field body ''requestedCode'' body ''code'' (JStr ''''))) (\<lambda>codeRaw.
      bind_result (str (nullish (jfield body ''fileId'') (JStr ''''))) (\<lambda>fileId.
      bind_result (str (either_field body ''createdByNodeId'' body ''ownerPeerId'' (JStr ''''))) (\<lambda>ownerPeerId.
        Inr \<lparr>sn_sessionId = sessionId, sn_joinUrl = joinUrl, sn_codeRaw = codeRaw, sn_fileId = fileId,
             sn_ownerPeerId = ownerPeerId\<rparr>))))))"

definition share_ttl_ms :: "js_value \<Rightarrow> jsnum" where
  "share_ttl_ms body =
     js_times 1000 (case jfield body ''ttlSeconds'' of
                      JNum n \<Rightarrow> if js_less (Fin 0) n then n else Fin 86400
                    | _ \<Rightarrow> Fin 86400)"

definition share_input_of :: "http_platform \<Rightarrow> http_config \<Rightarrow> js_value \<Rightarrow> share_names \<Rightarrow> string + share_input" where
  "share_input_of hp cfg body n =
     (let caps = share_caps body in
      bind_result (js_string (hp_show hp) (either_field body ''fileName'' caps ''fileName'' (JStr (sn_fileId n)))) (\<lambda>fileName.
      bind_result (number_or_zero hp (either_field body ''sizeBytes'' caps ''sizeBytes'' (JNum (Fin 0)))) (\<lambda>sizeBytes.
      bind_result (number_or_zero hp (either_field caps ''pieceSize'' body ''pieceSize'' (JNum (Fin 0)))) (\<lambda>pieceSize.
      bind_result (number_or_zero hp (either_field body ''pieceCount'' caps ''pieceCount'' (JNum (Fin 0)))) (\<lambda>pieceCount.
        Inr \<lparr>si_code = points (sn_codeRaw n), si_sessionId = sn_sessionId n, si_fileId = sn_fileId n, si_fileName = fileName,
             si_sizeBytes = sizeBytes, si_pieceSize = pieceSize, si_pieceCount = pieceCount,
             si_ownerPeerId = sn_ownerPeerId n,
             si_joinUrl = (if sn_joinUrl n \<noteq> '''' then sn_joinUrl n
                           else drop_slash (sc_publicBaseUrl cfg) @ ''/#/join/'' @ sn_sessionId n),
             si_ttlMs = share_ttl_ms body\<rparr>)))))"

definition share_link :: "http_config \<Rightarrow> share_record \<Rightarrow> string" where
  "share_link cfg r =
     drop_slash (sc_publicBaseUrl cfg) @ ''/#/get/'' @ encodeURIComponent (sr_code r) @ ''?session='' @
     encodeURIComponent (sr_sessionId r)"

definition published_body :: "http_config \<Rightarrow> share_record \<Rightarrow> js_value" where
  "published_body cfg r =
     JObj [(''code'', JStr (sr_code r)), (''link'', JStr (share_link cfg r)), (''getUrl'', JStr (share_link cfg r)),
           (''fileId'', JStr (sr_fileId r)), (''signalingSessionId'', JStr (sr_sessionId r)), (''joinUrl'', JStr (sr_joinUrl r)),
           (''expiresAt'', JNum (sr_expiresAt r))]"

definition share_failed :: "string \<Rightarrow> http_reply" where
  "share_failed message = writeJson 400 (JObj [(''error'', JStr ''share_failed''), (''message'', JStr message)]) []"

text \<open>The two instants at which \<open>put\<close> and \<open>get\<close> read the clock are arguments of the routes.\<close>

definition publish_share ::
  "http_platform \<Rightarrow> http_config \<Rightarrow> int \<Rightarrow> int \<Rightarrow> js_value option \<Rightarrow> registry \<Rightarrow> http_result" where
  "publish_share hp cfg t1 t2 body reg =
     (case body of
        None \<Rightarrow> (reg, Inr (invalid_body None))
      | Some b \<Rightarrow>
          (case share_names_of hp b of
             Inl err \<Rightarrow> (reg, Inl err)
           | Inr n \<Rightarrow>
               if sn_sessionId n = '''' \<or> sn_codeRaw n = '''' \<or> sn_fileId n = '''' then
                 (reg, Inr (invalid_body (Some ''requestedCode, fileId, capabilities.signalingSessionId required'')))
               else
                 (case share_input_of hp cfg b n of
                    Inl err \<Rightarrow> (reg, Inr (share_failed err))
                  | Inr i \<Rightarrow>
                      (case registry_put t1 t2 i reg of
                         (reg', Inl err) \<Rightarrow> (reg', Inr (share_failed err))
                       | (reg', Inr r) \<Rightarrow> (reg', Inr (writeJson 200 (published_body cfg r) []))))))"

definition candidates_body :: "share_record \<Rightarrow> js_value" where
  "candidates_body r =
     JObj [(''providers'', JArr [JObj [(''nodeId'', JStr (sr_ownerPeerId r)), (''online'', JBool True),
              (''endpointHints'', JArr [JObj [(''kind'', JStr ''ponswarp-join''), (''value'', JStr (sr_joinUrl r))]])]])]"

definition share_body :: "share_record \<Rightarrow> js_value" where
  "share_body r =
     JObj [(''code'', JStr (sr_code r)), (''fileId'', JStr (sr_fileId r)), (''name'', JStr (sr_fileName r)),
           (''fileName'', JStr (sr_fileName r)), (''sizeBytes'', JNum (sr_sizeBytes r)),
           (''signalingSessionId'', JStr (sr_sessionId r)), (''sessionId'', JStr (sr_sessionId r)),
           (''joinUrl'', JStr (sr_joinUrl r)),
           (''capabilities'', JObj [(''browser'', JBool True), (''directTransfer'', JBool True),
              (''signalingSessionId'', JStr (sr_sessionId r)), (''joinUrl'', JStr (sr_joinUrl r)),
              (''pieceSize'', JNum (sr_pieceSize r))]),
           (''expiresAt'', JNum (sr_expiresAt r))]"

definition fetch_share :: "int \<Rightarrow> int \<Rightarrow> string \<Rightarrow> registry \<Rightarrow> http_result" where
  "fetch_share t1 t2 rest reg =
     (let codePart = takeWhile (\<lambda>c. c \<noteq> CHR ''/'') rest;
          after = dropWhile (\<lambda>c. c \<noteq> CHR ''/'') rest;
          candidates = (after \<noteq> [] \<and> takeWhile (\<lambda>c. c \<noteq> CHR ''/'') (tl after) = ''candidates'') in
      case decodeURIComponent codePart of
        None \<Rightarrow> (reg, Inl ''URI malformed'')
      | Some code \<Rightarrow>
          (case registry_get t1 t2 code reg of
             (reg', None) \<Rightarrow> (reg', Inr not_found)
           | (reg', Some r) \<Rightarrow>
               (reg', Inr (writeJson 200 (if candidates then candidates_body r else share_body r) no_store))))"

section \<open>The handler\<close>

definition strip_slashes :: "string \<Rightarrow> string" where
  "strip_slashes p =
     (let q = rev (dropWhile (\<lambda>c. c = CHR ''/'') (rev p)) in if q = '''' then ''/'' else q)"

abbreviation shares_path :: string where
  "shares_path \<equiv> ''/api/grid/v1/shares/''"

definition unsupported_route :: "http_config \<Rightarrow> http_reply" where
  "unsupported_route cfg =
     writeJson 501 (JObj [(''error'', JStr ''not_implemented''), (''service'', JStr (hc_serviceName cfg)),
       (''message'', JStr ''Unsupported coordinator route on the TypeScript signaling server.''),
       (''expectedExternalService'', JStr ''ponswarp-grid-coordinator'')]) []"

definition host_of :: "http_request \<Rightarrow> string" where
  "host_of rq = (case rq_host rq of Some h \<Rightarrow> h | None \<Rightarrow> ''localhost'')"

definition route_path ::
  "http_platform \<Rightarrow> http_config \<Rightarrow> int \<Rightarrow> int \<Rightarrow> http_request \<Rightarrow> string \<Rightarrow> registry \<Rightarrow> http_result" where
  "route_path hp cfg t1 t2 rq path reg =
     (if rq_method rq = ''POST'' \<and> path = ''/api/grid/v1/workspaces/browser/files'' then
        (reg, map_sum id publish_file (readJsonBody hp rq))
      else if rq_method rq = ''POST'' \<and> path = ''/api/grid/v1/workspaces/browser/shares'' then
        (case readJsonBody hp rq of
           Inl err \<Rightarrow> (reg, Inl err)
         | Inr body \<Rightarrow> publish_share hp cfg t1 t2 body reg)
      else if rq_method rq = ''GET'' \<and> js_startsWith path shares_path then
        fetch_share t1 t2 (drop (length shares_path) path) reg
      else if js_startsWith path ''/api/grid/v1/shares'' \<or> js_startsWith path ''/api/grid/v1/workspaces'' then
        (reg, Inr (unsupported_route cfg))
      else (reg, Inr not_found))"

definition fixed_route :: "http_platform \<Rightarrow> http_config \<Rightarrow> int \<Rightarrow> string \<Rightarrow> http_reply option" where
  "fixed_route hp cfg now url =
     (if url = ''/healthz'' then Some (writeJson 200 (health_body cfg) [])
      else if url = ''/readyz'' then Some (writeJson (if server_ready cfg then 200 else 503) (ready_body cfg) [])
      else if url = ''/version.json'' then Some (writeJson 200 (version_body cfg) no_cache)
      else if url = ''/api/grid/v1/ice'' then Some (writeJson 200 (createIceResponse hp now cfg) no_cache)
      else None)"

definition handleHttpRequest ::
  "http_platform \<Rightarrow> http_config \<Rightarrow> int \<Rightarrow> int \<Rightarrow> http_request \<Rightarrow> registry \<Rightarrow> http_result" where
  "handleHttpRequest hp cfg t1 t2 rq reg =
     (case fixed_route hp cfg t1 (rq_url rq) of
        Some reply \<Rightarrow> (reg, Inr reply)
      | None \<Rightarrow>
          (case hp_url hp (rq_url rq) (host_of rq) of
             None \<Rightarrow> (reg, Inl ''Invalid URL'')
           | Some url \<Rightarrow> route_path hp cfg t1 t2 rq (strip_slashes url) reg))"

section \<open>The reply to an upgrade\<close>

definition acceptWebSocket :: "(string \<Rightarrow> string) \<Rightarrow> string \<Rightarrow> string list" where
  "acceptWebSocket sha1_base64 key =
     [''HTTP/1.1 101 Switching Protocols'', ''Upgrade: websocket'', ''Connection: Upgrade'',
      ''Sec-WebSocket-Accept: '' @ sha1_base64 (key @ ''258EAFA5-E914-47DA-95CA-C5AB0DC85B11''), '''', '''']"

section \<open>Publishing and fetching\<close>

definition publishes :: "string \<Rightarrow> registry_op \<Rightarrow> bool" where
  "publishes code op = (case op of Reg_Put _ _ i \<Rightarrow> normalizeCode (si_code i) = code | _ \<Rightarrow> False)"

definition requests_path :: "http_platform \<Rightarrow> http_request \<Rightarrow> string \<Rightarrow> string \<Rightarrow> bool" where
  "requests_path hp rq m path \<longleftrightarrow>
     rq_method rq = m \<and> rq_url rq \<notin> {''/healthz'', ''/readyz'', ''/version.json'', ''/api/grid/v1/ice''} \<and>
     (case hp_url hp (rq_url rq) (host_of rq) of Some u \<Rightarrow> u = path | None \<Rightarrow> False)"

lemma requests_path_routes:
  "requests_path hp rq m path \<Longrightarrow>
   handleHttpRequest hp cfg t1 t2 rq reg = route_path hp cfg t1 t2 rq (strip_slashes path) reg"
  by (auto simp: requests_path_def handleHttpRequest_def fixed_route_def split: option.splits)

lemma strip_slashes_id: "c \<noteq> '''' \<Longrightarrow> CHR ''/'' \<notin> set c \<Longrightarrow> strip_slashes (p @ c) = p @ c"
  by (cases c rule: rev_cases) (auto simp: strip_slashes_def)

lemma registry_put_Inr:
  "registry_put t1 t2 i reg = (reg', Inr r) \<Longrightarrow>
   r = share_of t2 (normalizeCode (si_code i)) i \<and> jm_get reg' (normalizeCode (si_code i)) = Some r"
  by (auto simp: registry_put_def Let_def split: if_splits)

lemma registry_put_wf: "jm_wf reg \<Longrightarrow> jm_wf (fst (registry_put t1 t2 i reg))"
  by (simp add: registry_put_def registry_cleanup_def Let_def)

lemma publish_share_200:
  assumes "publish_share hp cfg t1 t2 body reg = (reg', Inr (Reply 200 h answer))" "jm_wf reg"
  obtains r where "answer = published_body cfg r" "jm_get reg' (sr_code r) = Some r" "jm_wf reg'"
proof -
  note simps = publish_share_def invalid_body_def share_failed_def writeJson_def
  obtain b where b: "body = Some b" using assms(1) by (cases body) (auto simp: simps)
  obtain n where n: "share_names_of hp b = Inr n"
    using assms(1) b by (cases "share_names_of hp b") (auto simp: simps)
  obtain i where i: "share_input_of hp cfg b n = Inr i"
    using assms(1) b n by (cases "share_input_of hp cfg b n") (auto simp: simps split: if_splits)
  obtain reg2 out where out: "registry_put t1 t2 i reg = (reg2, out)" by (cases "registry_put t1 t2 i reg")
  obtain r where r: "registry_put t1 t2 i reg = (reg', Inr r)" "answer = published_body cfg r"
    using assms(1) b n i out by (cases out) (auto simp: simps split: if_splits)
  moreover have "jm_get reg' (sr_code r) = Some r" using registry_put_Inr[OF r(1)] by (simp add: share_of_def)
  moreover have "jm_wf reg'" using registry_put_wf[OF assms(2), of t1 t2 i] r(1) by simp
  ultimately show thesis using that by blast
qed

lemma spec_keeps_code:
  "(\<forall>op\<in>set ops. \<not> publishes code op) \<Longrightarrow> run_state spec_step ops m code = m code"
proof (induction ops arbitrary: m)
  case (Cons op ops)
  then have "fst (spec_step op m) code = m code"
    by (cases op) (auto simp: publishes_def Let_def)
  with Cons show ?case by simp
qed simp

lemma share_survives:
  assumes "jm_wf reg" "jm_get reg (normalizeCode code) = Some r" "admissible op_enabled op_time t ops"
    "\<forall>op\<in>set ops. \<not> publishes (normalizeCode code) op"
    "foldl op_time t ops \<le> t1" "t1 \<le> t2" "\<not> share_expired t2 r"
  shows "snd (registry_get t1 t2 code (run_state registry_step ops reg)) = Some r"
proof -
  have "shares_related t reg (jm_get reg)" using assms(1) by (simp add: shares_related_def)
  then have "shares_related (foldl op_time t ops) (run_state registry_step ops reg) (run_state spec_step ops (jm_get reg))"
    using assms(3) by (rule shares.related_states)
  from get_related(1)[OF this, of t1 t2 code] show ?thesis
    using assms by (simp add: spec_keeps_code)
qed

text \<open>
  C39. What a client publishes, every client can fetch: after a POST answered 200, whatever the registry does next short of
  another publication of the code, a GET of any spelling of the code before its expiry answers 200 with the same
  code, file, session, join URL and expiry.
\<close>

theorem published_share_is_fetched:
  assumes "jm_wf reg"
    and "requests_path hp post ''POST'' ''/api/grid/v1/workspaces/browser/shares''"
    and "handleHttpRequest hp cfg t1 t2 post reg = (reg1, Inr (Reply 200 h answer))"
    and "jfield answer ''code'' = JStr code" and "jfield answer ''expiresAt'' = JNum expiry"
    and "admissible op_enabled op_time t2 ops" and "\<forall>op\<in>set ops. \<not> publishes code op"
    and "requests_path hp fetch ''GET'' (shares_path @ spelled)"
    and "spelled \<noteq> ''''" and "CHR ''/'' \<notin> set spelled"
    and "decodeURIComponent spelled = Some typed" and "normalizeCode typed = code"
    and "foldl op_time t2 ops \<le> t3" and "t3 \<le> t4" and "\<not> js_le expiry (instant t4)"
  shows "\<exists>h' found. snd (handleHttpRequest hp cfg t3 t4 fetch (run_state registry_step ops reg1)) = Inr (Reply 200 h' found) \<and>
    (\<forall>k \<in> {''code'', ''fileId'', ''signalingSessionId'', ''joinUrl'', ''expiresAt''}. jfield found k = jfield answer k)"
proof -
  have "strip_slashes ''/api/grid/v1/workspaces/browser/shares'' = ''/api/grid/v1/workspaces/browser/shares''"
    by (simp add: strip_slashes_def)
  then have "handleHttpRequest hp cfg t1 t2 post reg =
      (case readJsonBody hp post of Inl err \<Rightarrow> (reg, Inl err) | Inr body \<Rightarrow> publish_share hp cfg t1 t2 body reg)"
    using assms(2) by (simp add: requests_path_routes route_path_def) (simp add: requests_path_def)
  then obtain body where "publish_share hp cfg t1 t2 body reg = (reg1, Inr (Reply 200 h answer))"
    using assms(3) by (auto split: sum.splits)
  from this assms(1) obtain r where r: "answer = published_body cfg r" "jm_get reg1 (sr_code r) = Some r" "jm_wf reg1"
    by (rule publish_share_200)
  have fields: "sr_code r = code" "sr_expiresAt r = expiry" using assms(4,5) r(1) by (simp_all add: published_body_def)
  have got: "snd (registry_get t3 t4 typed (run_state registry_step ops reg1)) = Some r"
    using assms r fields by (intro share_survives[of _ _ _ t2]) (auto simp: share_expired_def)
  have whole: "takeWhile (\<lambda>c. c \<noteq> CHR ''/'') spelled = spelled" "dropWhile (\<lambda>c. c \<noteq> CHR ''/'') spelled = []"
    using assms(10) by (auto simp: takeWhile_eq_all_conv dropWhile_eq_Nil_conv)
  have "snd (fetch_share t3 t4 spelled (run_state registry_step ops reg1)) = Inr (writeJson 200 (share_body r) no_store)"
    using got by (cases "registry_get t3 t4 typed (run_state registry_step ops reg1)")
      (simp add: fetch_share_def whole assms(11))
  moreover have "handleHttpRequest hp cfg t3 t4 fetch (run_state registry_step ops reg1) =
      fetch_share t3 t4 spelled (run_state registry_step ops reg1)"
    using assms(8) strip_slashes_id[OF assms(9,10), of shares_path] requests_path_routes[OF assms(8)]
    by (simp add: route_path_def js_startsWith_def requests_path_def)
  ultimately show ?thesis by (simp add: writeJson_def r(1) share_body_def published_body_def)
qed

definition example_platform :: http_platform where
  "example_platform =
     \<lparr>hp_url = (\<lambda>url _. if js_startsWith url ''//'' then None else Some url),
      hp_json = (\<lambda>bs. if bs = [1] then Some (JObj [(''requestedCode'', JStr ''ab-c12 3''), (''fileId'', JStr ''f1''),
                                                (''signalingSessionId'', JStr ''s1'')])
                      else if bs = [2] then Some (JObj [(''fileId'', JObj [(''toString'', JNull)])])
                      else None),
      hp_show = (\<lambda>_. ''0''), hp_number = (\<lambda>_. NaN), hp_hmac = (\<lambda>_ _. ''''), hp_stunUrl = None\<rparr>"

definition example_http_config :: http_config where
  "example_http_config =
     \<lparr>sc_publicBaseUrl = ''https://x/'', sc_sessionTtlMs = 1, sc_maxPeersPerSession = 2, sc_stalePeerTimeoutMs = 3,
      hc_serviceName = ''s'', hc_version = ''v'', hc_commitSha = ''c'', hc_deploymentDomain = '''', hc_legacyDomain = '''',
      hc_readinessChecks = [], hc_turnStaticAuthSecret = None, hc_turnUrls = [],
      hc_turnTtlSeconds = Fin 600\<rparr>"

definition example_request :: "string \<Rightarrow> string \<Rightarrow> bytes list \<Rightarrow> bool \<Rightarrow> http_request" where
  "example_request m url chunks aborted =
     \<lparr>rq_method = m, rq_url = url, rq_host = None, rq_chunks = chunks, rq_aborted = aborted\<rparr>"

abbreviation publish_url :: string where
  "publish_url \<equiv> ''/api/grid/v1/workspaces/browser/shares''"

definition example_published :: share_record where
  "example_published =
     \<lparr>sr_code = ''ABC123'', sr_sessionId = ''s1'', sr_fileId = ''f1'', sr_fileName = ''f1'', sr_sizeBytes = Fin 0,
      sr_pieceSize = Fin 0, sr_pieceCount = Fin 0, sr_ownerPeerId = '''', sr_joinUrl = ''https://x/#/join/s1'',
      sr_expiresAt = Fin 86400000, sr_createdAt = 0\<rparr>"

lemma example_path: "hp_url example_platform url h = (if js_startsWith url ''//'' then None else Some url)"
  by (simp add: example_platform_def)

lemma example_requests_path:
  "\<not> js_startsWith path ''//'' \<Longrightarrow> path \<notin> {''/healthz'', ''/readyz'', ''/version.json'', ''/api/grid/v1/ice''} \<Longrightarrow>
   requests_path example_platform (example_request m path chunks aborted) m path"
  by (simp add: requests_path_def example_path example_request_def)

lemma example_route:
  "\<not> js_startsWith path ''//'' \<Longrightarrow> path \<notin> {''/healthz'', ''/readyz'', ''/version.json'', ''/api/grid/v1/ice''} \<Longrightarrow>
   handleHttpRequest example_platform cfg t1 t2 (example_request m path chunks aborted) reg =
   route_path example_platform cfg t1 t2 (example_request m path chunks aborted) (strip_slashes path) reg"
  by (rule requests_path_routes[OF example_requests_path])

lemma example_typed: "normalizeCode [97, 98, 45, 99, 49, 50, 32, 51] = ''ABC123''"
  using example_code by simp

lemma example_post:
  "handleHttpRequest example_platform example_http_config 0 0 (example_request ''POST'' publish_url [[1]] False) [] =
   ([(''ABC123'', example_published)], Inr (Reply 200 [(''content-type'', ''application/json'')]
      (published_body example_http_config example_published)))"
proof -
  have body: "readJsonBody example_platform (example_request ''POST'' publish_url [[1]] False) =
      Inr (Some (JObj [(''requestedCode'', JStr ''ab-c12 3''), (''fileId'', JStr ''f1''), (''signalingSessionId'', JStr ''s1'')]))"
    by (simp add: readJsonBody_def example_request_def example_platform_def)
  have "strip_slashes publish_url = publish_url" by (simp add: strip_slashes_def)
  then have "handleHttpRequest example_platform example_http_config 0 0 (example_request ''POST'' publish_url [[1]] False) [] =
      publish_share example_platform example_http_config 0 0
        (Some (JObj [(''requestedCode'', JStr ''ab-c12 3''), (''fileId'', JStr ''f1''), (''signalingSessionId'', JStr ''s1'')])) []"
    by (simp add: example_route js_startsWith_def route_path_def body) (simp add: example_request_def)
  then show ?thesis
    by (simp add: publish_share_def share_names_of_def share_caps_def
        either_field_def nullish_def share_input_of_def number_or_zero_def share_ttl_ms_def registry_put_def registry_cleanup_def
        example_typed Let_def share_of_def example_published_def writeJson_def example_http_config_def drop_slash_def)
qed

theorem published_share_is_fetched_witness:
  "\<exists>h' found.
     snd (handleHttpRequest example_platform example_http_config 70000 70001 (example_request ''GET'' (shares_path @ ''abc-123'') [] False)
       (run_state registry_step [Reg_Sweep 60000, Reg_Get 60000 60000 []] [(''ABC123'', example_published)])) = Inr (Reply 200 h' found) \<and>
     (\<forall>k \<in> {''code'', ''fileId'', ''signalingSessionId'', ''joinUrl'', ''expiresAt''}.
        jfield found k = jfield (published_body example_http_config example_published) k)"
proof (rule published_share_is_fetched[OF _ _ example_post])
  show "requests_path example_platform (example_request ''POST'' publish_url [[1]] False) ''POST'' publish_url"
    by (rule example_requests_path) (simp_all add: js_startsWith_def)
  show "requests_path example_platform (example_request ''GET'' (shares_path @ ''abc-123'') [] False) ''GET'' (shares_path @ ''abc-123'')"
    by (rule example_requests_path) (simp_all add: js_startsWith_def)
  show "\<not> js_le (Fin 86400000) (instant 70001)" by simp
  show "decodeURIComponent ''abc-123'' = Some (points ''abc-123'')" by simp
  show "normalizeCode (points ''abc-123'') = ''ABC123''"
    by (simp add: normalizeCode_def upper_code_def special_upper_def char_of_def bit_iff_odd)
qed (simp_all add: published_body_def example_published_def publishes_def js_le.simps)

section \<open>Requests that take the server down\<close>

lemma isl_bind_result: "isl (bind_result m f) \<longleftrightarrow> isl m \<or> (\<exists>x. m = Inr x \<and> isl (f x))"
  by (cases m) auto

lemma read_chunks_rejects:
  "isl (read_chunks got cs aborted) \<longleftrightarrow> aborted \<and> length got + length (concat cs) \<le> 1000000 \<or>
   aborted \<and> cs = []"
  by (induction got cs aborted rule: read_chunks.induct) auto

lemma readJsonBody_rejects:
  "isl (readJsonBody hp rq) \<longleftrightarrow> rq_aborted rq \<and> length (concat (rq_chunks rq)) \<le> 1000000"
  by (auto simp: readJsonBody_def isl_bind_result read_chunks_rejects)

lemma publish_share_rejects:
  "isl (snd (publish_share hp cfg t1 t2 body reg)) \<longleftrightarrow> (\<exists>b. body = Some b \<and> isl (share_names_of hp b))"
  by (cases body) (auto simp: publish_share_def split: sum.splits prod.splits)

lemma fetch_share_rejects:
  "isl (snd (fetch_share t1 t2 rest reg)) \<longleftrightarrow> decodeURIComponent (takeWhile (\<lambda>c. c \<noteq> CHR ''/'') rest) = None"
  by (auto simp: fetch_share_def Let_def split: option.splits prod.splits)


text \<open>
  A lookup of a code with a malformed escape is one of them: one GET by any client takes the signaling server, its
  sessions and its shares down.
\<close>

theorem malformed_escape_rejects:
  assumes "requests_path hp rq ''GET'' (shares_path @ ''%'')"
  shows "snd (handleHttpRequest hp cfg t1 t2 rq reg) = Inl ''URI malformed''"
  using assms strip_slashes_id[of "''%''" shares_path]
  by (simp add: requests_path_routes route_path_def js_startsWith_def fetch_share_def take_point_def)
    (simp add: requests_path_def)

theorem malformed_escape_rejects_witness:
  "snd (handleHttpRequest example_platform example_http_config 0 0 (example_request ''GET'' (shares_path @ ''%'') [] False) []) =
   Inl ''URI malformed''"
  by (rule malformed_escape_rejects, rule example_requests_path) (simp_all add: js_startsWith_def)

end
