(* ===== verification/Coordinator_Client.thy ===== *)
theory Coordinator_Client
  imports Cli_Arguments Cli_Descriptors Http_Routes
begin

text \<open>
  The commands of \<open>packages/cli/src/coordinator-runtime.ts\<close> that talk to the coordinator. A command is a function of the history of
  what the client did so far; the answer to a request, and how a direct transfer ends, may depend on all of it. Whether a
  result is printed as JSON or as lines, it is the same envelope; the envelope is the result of a command. URLs, files, digests and
  JSON are fields of \<open>client_platform\<close>.
\<close>

section \<open>The client and its world\<close>

record http_ask =
  ha_method :: string
  ha_url :: string
  ha_body :: "js_value option"

datatype client_action = Asked http_ask | Slept int | Joined join_command

datatype fetch_outcome = Replied nat string | Net_Failed | Timed_Out | Other_Failure string

record client_world =
  cw_answer :: "client_action list \<Rightarrow> fetch_outcome"
  cw_transfer :: "client_action list \<Rightarrow> cli_error + int"

record file_info =
  fi_isFile :: bool
  fi_size :: int
  fi_mtimeMs :: jsnum

text \<open>
  \<open>cl_url path base\<close>: the address and the path name of \<open>new URL(path, base)\<close>; \<open>cl_link\<close>: the address with its path name replaced. They are
  none where the constructor throws.
\<close>

record client_platform =
  cl_url :: "string \<Rightarrow> string \<Rightarrow> (string \<times> string) option"
  cl_link :: "string \<Rightarrow> string \<Rightarrow> string option"
  cl_json :: "string \<Rightarrow> js_value option"
  cl_codec :: json_codec
  cl_show :: "jsnum \<Rightarrow> string"
  cl_stat :: "string \<Rightarrow> cli_error + file_info"
  cl_resolve :: "string \<Rightarrow> string"
  cl_basename :: "string \<Rightarrow> string"
  cl_digest :: digest

type_synonym 'a client = "(client_action list, 'a) effect"

text \<open>Reading a property of \<open>undefined\<close> or \<open>null\<close> throws.\<close>

definition js_prop :: "js_value \<Rightarrow> string \<Rightarrow> cli_error + js_value" where
  "js_prop v k = (if v = JUndef \<or> v = JNull then Inl Type_Error else Inr (jfield v k))"

definition js_text :: "(jsnum \<Rightarrow> string) \<Rightarrow> js_value \<Rightarrow> cli_error + string" where
  "js_text sh v = (case js_string sh v of Inl _ \<Rightarrow> Inl Type_Error | Inr s \<Rightarrow> Inr s)"

definition utf8_bytes :: "string \<Rightarrow> bytes" where
  "utf8_bytes s = concat (map (\<lambda>c. map of_nat (utf8_of (of_char c))) s)"

section \<open>Requests\<close>

definition COORDINATOR_MAX_RETRIES :: nat where
  "COORDINATOR_MAX_RETRIES = 1"

definition normalizeCoordinator :: "string \<Rightarrow> string" where
  "normalizeCoordinator c = (if c \<noteq> [] \<and> last c = CHR ''/'' then c else c @ ''/'')"

definition safeJsonParse :: "client_platform \<Rightarrow> string \<Rightarrow> js_value" where
  "safeJsonParse pf s = (case cl_json pf s of Some v \<Rightarrow> v | None \<Rightarrow> JStr s)"

definition judge_reply :: "client_platform \<Rightarrow> string \<Rightarrow> string \<Rightarrow> fetch_outcome \<Rightarrow> cli_error + js_value" where
  "judge_reply pf method path reply =
     (case reply of
        Net_Failed \<Rightarrow> Inl Type_Error
      | Timed_Out \<Rightarrow> Inl Abort_Error
      | Other_Failure m \<Rightarrow> Inl (Plain_Error m)
      | Replied status body \<Rightarrow>
          let payload = (if body = [] then JNull else safeJsonParse pf body) in
          if 200 \<le> status \<and> status < 300 then Inr payload
          else bind_result (if has_own payload ''error'' then js_text (cl_show pf) (jfield payload ''error'') else Inr body) (\<lambda>detail.
            Inl (Plain_Error (''Coordinator '' @ method @ '' '' @ path @ '' failed with '' @ show_nat status @
              (if detail = [] then [] else '': '' @ detail)))))"

fun request_loop :: "client_platform \<Rightarrow> client_world \<Rightarrow> http_ask \<Rightarrow> string \<Rightarrow> nat \<Rightarrow> nat \<Rightarrow> js_value client" where
  "request_loop pf w ask path attempt left h =
     (let h1 = h @ [Asked ask] in
      case judge_reply pf (ha_method ask) path (cw_answer w h1) of
        Inr v \<Rightarrow> (h1, Inr v)
      | Inl e \<Rightarrow>
          (case left of
             0 \<Rightarrow> (h1, Inl e)
           | Suc l \<Rightarrow>
               if e = Type_Error \<or> e = Abort_Error
               then request_loop pf w ask path (attempt + 1) l (h1 @ [Slept (1000 * (int attempt + 1))])
               else (h1, Inl e)))"

declare request_loop.simps [simp del]

definition coordinatorRequest :: "client_platform \<Rightarrow> client_world \<Rightarrow> string \<Rightarrow> string \<Rightarrow> string \<Rightarrow> js_value option \<Rightarrow> js_value client" where
  "coordinatorRequest pf w coordinator path method body h =
     (case cl_url pf path (normalizeCoordinator coordinator) of
        None \<Rightarrow> (h, Inl Type_Error)
      | Some (href, pathname) \<Rightarrow>
          request_loop pf w \<lparr>ha_method = method, ha_url = href, ha_body = map_option json_value body\<rparr> pathname 0 COORDINATOR_MAX_RETRIES h)"

section \<open>Share codes\<close>

definition share_char :: "char \<Rightarrow> bool" where
  "share_char c \<longleftrightarrow> (let n = of_char c :: nat in 48 \<le> n \<and> n \<le> 57 \<or> 65 \<le> n \<and> n \<le> 90 \<or> 97 \<le> n \<and> n \<le> 122)"

definition upper_ascii :: "char \<Rightarrow> char" where
  "upper_ascii c = (let n = of_char c :: nat in if 97 \<le> n \<and> n \<le> 122 then char_of (n - 32) else c)"

definition code_shape :: "string \<Rightarrow> bool" where
  "code_shape s \<longleftrightarrow> length s = 9 \<and> s ! 4 = CHR ''-'' \<and> list_all share_char (take 4 s) \<and> list_all share_char (drop 5 s)"

text \<open>The expression is anchored at the end only, so its optional prefix never decides whether it matches.\<close>

definition parseShareCode :: "string \<Rightarrow> string" where
  "parseShareCode v =
     (let t = js_trim v;
          s = drop (length t - 9) t in
      if code_shape s then map upper_ascii s else [])"

definition dryRunShareCode :: "digest \<Rightarrow> string \<Rightarrow> string" where
  "dryRunShareCode D fileId =
     (let suffix = map upper_ascii (take 8 (integrity_hash D (utf8_bytes fileId))) in take 4 suffix @ ''-'' @ drop 4 suffix)"

definition shareLink :: "client_platform \<Rightarrow> string \<Rightarrow> string \<Rightarrow> cli_error + string" where
  "shareLink pf coordinator code =
     (case cl_link pf (normalizeCoordinator coordinator) (''/get/'' @ code) of None \<Rightarrow> Inl Type_Error | Some u \<Rightarrow> Inr u)"

definition defaultNodeId :: "digest \<Rightarrow> string \<Rightarrow> string" where
  "defaultNodeId D workspace = ''node_'' @ take 12 (integrity_hash D (utf8_bytes workspace))"

section \<open>Hints\<close>

record transfer_hint =
  th_join :: string
  th_peer :: "string option"

abbreviation join_scheme :: string where
  "join_scheme \<equiv> ''ponswarp://join/''"

abbreviation peer_scheme :: string where
  "peer_scheme \<equiv> ''ponswarp-peer://''"

fun string_of :: "js_value \<Rightarrow> string option" where
  "string_of (JStr s) = Some s"
| "string_of _ = None"

definition extractPeerHint :: "js_value \<Rightarrow> string option" where
  "extractPeerHint v =
     List.find (\<lambda>s. js_startsWith s peer_scheme) (List.map_filter string_of [jfield v ''peer'', jfield v ''peerDescriptor''])"

definition raw_hint :: "js_value \<Rightarrow> string option" where
  "raw_hint v =
     (case List.map_filter string_of (map (jfield v) [''value'', ''descriptor'', ''join'', ''directJoin'', ''ponswarpJoin'']) of
        [] \<Rightarrow> None | s # _ \<Rightarrow> Some s)"

definition or_else :: "'a option \<Rightarrow> 'a option \<Rightarrow> 'a option" where
  "or_else a b = (case a of Some x \<Rightarrow> Some x | None \<Rightarrow> b)"

lemma jfield_size: "v = JObj fs \<Longrightarrow> map_of fs k = Some w \<Longrightarrow> size w < size v"
  by (induction fs arbitrary: v) (auto split: if_splits)

text \<open>
  \<open>findHintInValue\<close> and its loop over an array. Of an array the first join and the first peer count; a join
  that is the empty text counts as well, since only an absent one is replaced.
\<close>

function findHintInValue :: "js_value \<Rightarrow> transfer_hint option"
  and hints_of :: "js_value list \<Rightarrow> string option \<Rightarrow> string option \<Rightarrow> string option \<times> string option" where
  "findHintInValue (JStr s) = (if js_startsWith s join_scheme then Some \<lparr>th_join = s, th_peer = None\<rparr> else None)"
| "findHintInValue (JArr vs) =
     (case hints_of vs None None of
        (Some join, peer) \<Rightarrow> if join \<noteq> '''' then Some \<lparr>th_join = join, th_peer = peer\<rparr> else None
      | (None, _) \<Rightarrow> None)"
| "findHintInValue (JObj fs) =
     (let v = JObj fs;
          kind = jfield v ''kind'';
          nested = or_else (case map_of fs ''directTransfer'' of Some w \<Rightarrow> findHintInValue w | None \<Rightarrow> None)
                     (case map_of fs ''endpointHints'' of Some w \<Rightarrow> findHintInValue w | None \<Rightarrow> None);
          deeper = (case nested of Some h \<Rightarrow> if th_join h \<noteq> '''' then Some h else None | None \<Rightarrow> None) in
      case raw_hint v of
        Some raw \<Rightarrow>
          if js_startsWith raw join_scheme then Some \<lparr>th_join = raw, th_peer = extractPeerHint v\<rparr>
          else if (kind = JStr ''ponswarp-peer'' \<or> kind = JStr ''peer'') \<and> js_startsWith raw peer_scheme
            then Some \<lparr>th_join = '''', th_peer = Some raw\<rparr>
          else deeper
      | None \<Rightarrow> deeper)"
| "findHintInValue JUndef = None"
| "findHintInValue JNull = None"
| "findHintInValue (JBool b) = None"
| "findHintInValue (JNum n) = None"
| "hints_of [] join peer = (join, peer)"
| "hints_of (v # vs) join peer =
     (let nested = findHintInValue v in
      hints_of vs (or_else join (map_option th_join nested)) (or_else peer (Option.bind nested th_peer)))"
  by pat_completeness auto

termination
  by (relation "measure (\<lambda>x. case x of Inl v \<Rightarrow> size v | Inr (vs, _, _) \<Rightarrow> size_list size vs)")
    (auto dest: jfield_size [OF refl])

definition findDirectTransferHint :: "js_value \<Rightarrow> cli_error + transfer_hint option" where
  "findDirectTransferHint candidates =
     (let providers = concat (List.map_filter elements [jfield candidates ''providers'', jfield candidates ''candidates'']) in
      foldr (\<lambda>provider rest.
          bind_result (js_prop provider ''online'') (\<lambda>online.
            if online = JBool False then rest
            else (case findHintInValue (jfield provider ''endpointHints'') of
                    Some h \<Rightarrow> if th_join h \<noteq> '''' then Inr (Some h) else rest
                  | None \<Rightarrow> rest)))
        providers (Inr None))"

text \<open>\<open>assertDirectTransferMatchesResolvedShare\<close>.\<close>

definition mismatch :: "(jsnum \<Rightarrow> string) \<Rightarrow> string \<Rightarrow> string \<Rightarrow> js_value \<Rightarrow> cli_error + unit" where
  "mismatch sh what expected got =
     bind_result (js_text sh (nullish got (JStr ''missing''))) (\<lambda>s.
       Inl (Plain_Error (''Coordinator candidate descriptor '' @ what @ '' mismatch: expected '' @ expected @ '', got '' @ s)))"

definition assertDirectTransferMatches :: "client_platform \<Rightarrow> js_value \<Rightarrow> transfer_hint \<Rightarrow> cli_error + unit" where
  "assertDirectTransferMatches pf resolved hint =
     bind_result (decodeJoinDescriptor (cl_codec pf) (th_join hint)) (\<lambda>descriptor.
       let manifest = (case elements (jfield descriptor ''manifests'') of Some (m # _) \<Rightarrow> m | _ \<Rightarrow> JUndef) in
       bind_result (js_prop resolved ''fileId'') (\<lambda>fileId.
       let sizeBytes = jfield resolved ''sizeBytes'' in
       bind_result
         (case fileId of
            JStr s \<Rightarrow> if s \<noteq> '''' \<and> jfield manifest ''fileId'' \<noteq> JStr s
                      then mismatch (cl_show pf) ''file'' s (jfield manifest ''fileId'') else Inr ()
          | _ \<Rightarrow> Inr ()) (\<lambda>_.
       (case sizeBytes of
          JNum n \<Rightarrow> if n = NaN \<or> jfield manifest ''size'' \<noteq> JNum n
                    then mismatch (cl_show pf) ''size'' (cl_show pf n) (jfield manifest ''size'') else Inr ()
        | _ \<Rightarrow> Inr ()))))"

section \<open>Commands\<close>

text \<open>The printed envelope.\<close>

definition envelope_value :: "string \<Rightarrow> 'a coordinator_options_scheme \<Rightarrow> bool \<Rightarrow> js_value \<Rightarrow> js_value" where
  "envelope_value name c dryRun data =
     JObj ([(''ok'', JBool True), (''command'', JStr name), (''coordinator'', JStr (co_coordinator c)), (''workspace'', JStr (co_workspace c))] @
       (if dryRun then [(''dryRun'', JBool True)] else []) @ [(''data'', data)])"

definition grid_path :: "string \<Rightarrow> string \<Rightarrow> string" where
  "grid_path workspace rest = ''/api/grid/v1/workspaces/'' @ encodeURIComponent workspace @ rest"

definition ensureWorkspace :: "client_platform \<Rightarrow> client_world \<Rightarrow> string \<Rightarrow> string \<Rightarrow> js_value client" where
  "ensureWorkspace pf w coordinator workspace =
     coordinatorRequest pf w coordinator ''/api/grid/v1/workspaces'' ''POST''
       (Some (JObj [(''workspaceId'', JStr workspace), (''name'', JStr workspace)]))"

definition CLI_CAPABILITIES :: "string list" where
  "CLI_CAPABILITIES = [''node-cli'', ''offset-storage'', ''direct-transfer'', ''coordinator-mediated-transfer'']"

definition nodeEndpointHints :: "node_command \<Rightarrow> js_value" where
  "nodeEndpointHints c =
     JArr (case nd_directJoin c of
             Some link \<Rightarrow> if link = '''' then [] else [JObj [(''kind'', JStr ''ponswarp-join''), (''value'', JStr link)]]
           | None \<Rightarrow> [])"

definition registration_value :: "node_command \<Rightarrow> js_value" where
  "registration_value c =
     JObj [(''nodeId'', JStr (nd_nodeId c)), (''displayName'', JStr (nd_displayName c)), (''publicKey'', JStr (nd_publicKey c)),
           (''capabilities'', JArr (map JStr CLI_CAPABILITIES))]"

definition heartbeat_value :: "node_command \<Rightarrow> js_value" where
  "heartbeat_value c = JObj [(''status'', JStr ''online''), (''endpointHints'', nodeEndpointHints c)]"

definition runNodeStart :: "client_platform \<Rightarrow> client_world \<Rightarrow> node_command \<Rightarrow> js_value client" where
  "runNodeStart pf w c =
     (if nd_dryRun c
      then effect_lift (Inr (envelope_value ''node-start'' c True
        (JObj [(''workspace'', JObj [(''workspaceId'', JStr (co_workspace c)), (''name'', JStr (co_workspace c))]),
               (''registration'', registration_value c), (''heartbeat'', heartbeat_value c)])))
      else
        effect_bind (ensureWorkspace pf w (co_coordinator c) (co_workspace c)) (\<lambda>workspace.
        effect_bind (coordinatorRequest pf w (co_coordinator c) (grid_path (co_workspace c) ''/nodes'') ''POST'' (Some (registration_value c))) (\<lambda>node.
        effect_bind (coordinatorRequest pf w (co_coordinator c)
            (grid_path (co_workspace c) (''/nodes/'' @ encodeURIComponent (nd_nodeId c) @ ''/heartbeat'')) ''POST'' (Some (heartbeat_value c))) (\<lambda>heartbeat.
          effect_lift (Inr (envelope_value ''node-start'' c False
            (JObj [(''workspace'', workspace), (''node'', node), (''heartbeat'', heartbeat)])))))))"

record mesh_manifest =
  mm_fileId :: string
  mm_name :: string
  mm_size :: int
  mm_pieceSize :: int
  mm_pieceCount :: int

definition createManifestSummary :: "client_platform \<Rightarrow> string \<Rightarrow> int \<Rightarrow> cli_error + mesh_manifest" where
  "createManifestSummary pf filePath pieceSize =
     bind_result (cl_stat pf (cl_resolve pf filePath)) (\<lambda>info.
       if \<not> fi_isFile info then Inl (Plain_Error (''publish requires a regular file: '' @ filePath))
       else let key = cl_resolve pf filePath @ '':'' @ show_int (fi_size info) @ '':'' @ cl_show pf (fi_mtimeMs info) @ '':'' @ show_int pieceSize in
            Inr \<lparr>mm_fileId = ''file_'' @ take 24 (integrity_hash (cl_digest pf) (utf8_bytes key)),
                 mm_name = cl_basename pf filePath, mm_size = fi_size info, mm_pieceSize = pieceSize,
                 mm_pieceCount = \<lceil>of_int (fi_size info) / of_int pieceSize :: real\<rceil>\<rparr>)"

definition mesh_fields :: "mesh_manifest \<Rightarrow> (string \<times> js_value) list" where
  "mesh_fields m =
     [(''fileId'', JStr (mm_fileId m)), (''name'', JStr (mm_name m)), (''size'', JNum (num_of_int (mm_size m))),
      (''pieceSize'', JNum (num_of_int (mm_pieceSize m))), (''pieceCount'', JNum (num_of_int (mm_pieceCount m)))]"

definition createPublishPayload :: "mesh_manifest \<Rightarrow> string \<Rightarrow> js_value" where
  "createPublishPayload m nodeId =
     JObj (mesh_fields m @
       [(''manifest'', JObj (mesh_fields m)),
        (''availability'', JObj [(''nodeId'', JStr nodeId), (''complete'', JBool True),
          (''verifiedRanges'', JArr (if 0 < mm_pieceCount m
             then [JArr [JNum (Fin 0), JNum (num_of_int (mm_pieceCount m - 1))]] else []))])])"

definition runPublish :: "client_platform \<Rightarrow> client_world \<Rightarrow> publish_command \<Rightarrow> js_value client" where
  "runPublish pf w c =
     effect_bind (effect_lift (createManifestSummary pf (pb_file c) (pb_pieceSize c))) (\<lambda>manifest.
       let payload = createPublishPayload manifest (pb_nodeId c) in
       if pb_dryRun c then effect_lift (Inr (envelope_value ''publish'' c True payload))
       else effect_bind (coordinatorRequest pf w (co_coordinator c) (grid_path (co_workspace c) ''/files'') ''POST'' (Some payload)) (\<lambda>published.
              effect_lift (Inr (envelope_value ''publish'' c False published))))"

definition runFiles :: "client_platform \<Rightarrow> client_world \<Rightarrow> coordinator_options \<Rightarrow> js_value client" where
  "runFiles pf w c =
     effect_bind (coordinatorRequest pf w (co_coordinator c) (grid_path (co_workspace c) ''/files'') ''GET'' None) (\<lambda>files.
       effect_lift (Inr (envelope_value ''files'' c False files)))"

definition share_plan :: "string \<Rightarrow> string \<Rightarrow> mesh_manifest \<Rightarrow> string \<Rightarrow> string \<Rightarrow> string \<Rightarrow> js_value" where
  "share_plan code link m nodeId status note =
     JObj ([(''code'', JStr code), (''link'', JStr link)] @ mesh_fields m @
       [(''nodeId'', JStr nodeId), (''status'', JStr status), (''note'', JStr note)])"

definition share_dry_note :: string where
  "share_dry_note = ''Dry run created local metadata only. Run without --dry-run to register the file metadata and share code with the coordinator.''"

definition share_ready_note :: string where
  "share_ready_note = ''Share code registered. Keep this node online and use direct send/join until coordinator-mediated provider transport is enabled.''"

definition share_request_body :: "share_command \<Rightarrow> mesh_manifest \<Rightarrow> string \<Rightarrow> js_value" where
  "share_request_body c m nodeId =
     JObj [(''fileId'', JStr (mm_fileId m)), (''createdByNodeId'', JStr nodeId),
           (''ttlSeconds'', case sh_ttlSeconds c of Some n \<Rightarrow> JNum (num_of_int n) | None \<Rightarrow> JUndef),
           (''capabilities'', JObj [(''cli'', JBool True), (''directTransfer'', JBool True), (''pieceSize'', JNum (num_of_int (mm_pieceSize m)))])]"

definition runShare :: "client_platform \<Rightarrow> client_world \<Rightarrow> share_command \<Rightarrow> js_value client" where
  "runShare pf w c =
     effect_bind (effect_lift (createManifestSummary pf (sh_file c) (sh_pieceSize c))) (\<lambda>m.
       let nodeId = (case sh_nodeId c of Some n \<Rightarrow> n | None \<Rightarrow> defaultNodeId (cl_digest pf) (co_workspace c));
           code = dryRunShareCode (cl_digest pf) (mm_fileId m) in
       if sh_dryRun c
       then effect_bind (effect_lift (shareLink pf (co_coordinator c) code)) (\<lambda>link.
              effect_lift (Inr (envelope_value ''share'' c True (share_plan code link m nodeId ''planned'' share_dry_note))))
       else
         effect_bind (ensureWorkspace pf w (co_coordinator c) (co_workspace c)) (\<lambda>_.
         effect_bind (coordinatorRequest pf w (co_coordinator c) (grid_path (co_workspace c) ''/files'') ''POST'' (Some (createPublishPayload m nodeId))) (\<lambda>_.
         effect_bind (coordinatorRequest pf w (co_coordinator c) (grid_path (co_workspace c) ''/shares'') ''POST'' (Some (share_request_body c m nodeId))) (\<lambda>share.
         effect_bind (effect_lift (bind_result (js_prop share ''code'') (\<lambda>v. js_text (cl_show pf) (nullish v (JStr code))))) (\<lambda>shareCode.
         effect_bind (effect_lift (shareLink pf (co_coordinator c) shareCode)) (\<lambda>link.
           effect_lift (Inr (envelope_value ''share'' c False (share_plan shareCode link m nodeId ''ready'' share_ready_note)))))))))"

section \<open>Download and get\<close>

definition createCoordinatorJoinCommand :: "string \<Rightarrow> transfer_hint \<Rightarrow> join_command" where
  "createCoordinatorJoinCommand outDir hint =
     \<lparr>jn_session = th_join hint, jn_signal = ''auto'', jn_listen = ''127.0.0.1:0'', jn_advertise = None, jn_peer = th_peer hint,
      jn_outDir = outDir, jn_seedAfterComplete = False, jn_maxPeers = 8, jn_transferWindow = 1, jn_pathKind = Path_Unknown\<rparr>"

text \<open>\<open>directTransferRunner\<close>, and the check of the exit code that follows it.\<close>

definition run_transfer :: "client_world \<Rightarrow> string \<Rightarrow> join_command \<Rightarrow> int client" where
  "run_transfer w label c h =
     (let h1 = h @ [Joined c] in
      (h1, bind_result (cw_transfer w h1) (\<lambda>code.
             if code \<noteq> 0 then Inl (Plain_Error (label @ '' failed with exit code '' @ show_int code)) else Inr code)))"

definition skipped_candidates :: js_value where
  "skipped_candidates =
     JObj [(''candidates'', JArr []), (''note'', JStr ''Dry-run skipped coordinator discovery and did not contact provider nodes.'')]"

definition plan_tail :: "js_value \<Rightarrow> string \<Rightarrow> string \<Rightarrow> string \<Rightarrow> (string \<times> js_value) list" where
  "plan_tail candidates status discovery execution =
     [(''candidates'', candidates), (''status'', JStr status), (''discovery'', JStr discovery), (''execution'', JStr execution)]"

definition download_dry_note :: string where
  "download_dry_note = ''Dry run skipped candidate discovery. Run without --dry-run to discover providers and transfer.''"

definition download_done_note :: string where
  "download_done_note = ''Coordinator discovered provider and direct join transfer completed.''"

definition download_idle_note :: string where
  "download_idle_note = ''Coordinator discovered candidates, but no direct provider join hint is online yet.''"

definition download_plan :: "download_command \<Rightarrow> js_value \<Rightarrow> int option \<Rightarrow> js_value" where
  "download_plan c candidates exitCode =
     JObj ([(''fileId'', JStr (dl_fileId c)), (''outDir'', JStr (dl_outDir c))] @
       plan_tail candidates (if exitCode \<noteq> None then ''complete'' else ''planned'') ''coordinator''
         (if exitCode \<noteq> None then ''direct-join'' else ''unavailable'') @
       [(''note'', JStr (if exitCode \<noteq> None then download_done_note else download_idle_note)),
        (''transferExitCode'', case exitCode of Some n \<Rightarrow> JNum (num_of_int n) | None \<Rightarrow> JUndef)])"

definition runDownload :: "client_platform \<Rightarrow> client_world \<Rightarrow> download_command \<Rightarrow> js_value client" where
  "runDownload pf w c =
     (if dl_dryRun c
      then effect_lift (Inr (envelope_value ''download'' c True
        (JObj ([(''fileId'', JStr (dl_fileId c)), (''outDir'', JStr (dl_outDir c))] @
          plan_tail skipped_candidates ''planned'' ''dry-run-skipped'' ''planned'' @ [(''note'', JStr download_dry_note)]))))
      else
        effect_bind (coordinatorRequest pf w (co_coordinator c)
            (grid_path (co_workspace c) (''/files/'' @ encodeURIComponent (dl_fileId c) @ ''/candidates'')) ''GET'' None) (\<lambda>candidates.
        effect_bind (effect_lift (findDirectTransferHint candidates)) (\<lambda>hint.
        effect_bind (case hint of
            None \<Rightarrow> effect_lift (Inr None)
          | Some h \<Rightarrow> effect_bind (run_transfer w ''Direct join transfer'' (createCoordinatorJoinCommand (dl_outDir c) h))
              (\<lambda>code. effect_lift (Inr (Some code)))) (\<lambda>exitCode.
          effect_lift (Inr (envelope_value ''download'' c False (download_plan c candidates exitCode)))))))"

definition get_dry_note :: string where
  "get_dry_note = ''Dry run parsed the share code only. Run without --dry-run to resolve metadata and candidates.''"

definition get_done_note :: string where
  "get_done_note = ''Share resolved and direct join transfer completed.''"

definition get_idle_note :: string where
  "get_idle_note = ''Share resolved and candidates discovered, but no direct provider join hint is online yet.''"

definition get_plan :: "get_command \<Rightarrow> string \<Rightarrow> js_value \<Rightarrow> js_value \<Rightarrow> int option \<Rightarrow> cli_error + js_value" where
  "get_plan c code resolved candidates exitCode =
     bind_result (js_prop resolved ''fileId'') (\<lambda>fileId.
       let name = jfield resolved ''name''; sizeBytes = jfield resolved ''sizeBytes'' in
       Inr (JObj ([(''code'', JStr code), (''fileId'', if is_string fileId then fileId else JUndef),
           (''name'', if is_string name then name else JUndef), (''sizeBytes'', if is_number sizeBytes then sizeBytes else JUndef),
           (''outDir'', JStr (gt_outDir c))] @
         plan_tail candidates (if exitCode \<noteq> None then ''complete'' else ''planned'') ''coordinator''
           (if exitCode \<noteq> None then ''direct-join'' else ''unavailable'') @
         [(''transferExitCode'', case exitCode of Some n \<Rightarrow> JNum (num_of_int n) | None \<Rightarrow> JUndef),
          (''note'', JStr (if exitCode \<noteq> None then get_done_note else get_idle_note))])))"

text \<open>What \<open>runGet\<close> does once a hint was looked for.\<close>

definition get_rest :: "client_platform \<Rightarrow> client_world \<Rightarrow> get_command \<Rightarrow> js_value \<Rightarrow> js_value \<Rightarrow> transfer_hint option \<Rightarrow> js_value client" where
  "get_rest pf w c resolved candidates hint =
     effect_bind (case hint of
         None \<Rightarrow> effect_lift (Inr None)
       | Some h \<Rightarrow>
           effect_bind (effect_lift (assertDirectTransferMatches pf resolved h)) (\<lambda>_.
           effect_bind (run_transfer w ''Coordinator direct join'' (createCoordinatorJoinCommand (gt_outDir c) h)) (\<lambda>exitCode.
             effect_lift (Inr (Some exitCode))))) (\<lambda>exitCode.
     effect_bind (effect_lift (get_plan c (parseShareCode (gt_code c)) resolved candidates exitCode)) (\<lambda>plan.
       effect_lift (Inr (envelope_value ''get'' c False plan))))"

definition runGet :: "client_platform \<Rightarrow> client_world \<Rightarrow> get_command \<Rightarrow> js_value client" where
  "runGet pf w c =
     (let code = parseShareCode (gt_code c) in
      if code = '''' then effect_lift (Inl (Usage_Error ''get requires a share code like ABCD-1234 or a /get/ABCD-1234 link''))
      else if gt_dryRun c
      then effect_lift (Inr (envelope_value ''get'' c True
        (JObj ([(''code'', JStr code), (''outDir'', JStr (gt_outDir c))] @
          plan_tail skipped_candidates ''planned'' ''dry-run-skipped'' ''planned'' @ [(''note'', JStr get_dry_note)]))))
      else
        effect_bind (coordinatorRequest pf w (co_coordinator c) (''/api/grid/v1/shares/'' @ encodeURIComponent code) ''GET'' None) (\<lambda>resolved.
        effect_bind (coordinatorRequest pf w (co_coordinator c) (''/api/grid/v1/shares/'' @ encodeURIComponent code @ ''/candidates'') ''GET'' None) (\<lambda>candidates.
        effect_bind (effect_lift (findDirectTransferHint candidates)) (\<lambda>hint.
          get_rest pf w c resolved candidates hint))))"

section \<open>Requests end after at most one retry\<close>

abbreviation transport_errors :: "(cli_error + js_value) set" where
  "transport_errors \<equiv> {Inl Type_Error, Inl Abort_Error}"

text \<open>
  Whatever the coordinator answers, a request ends: it is asked once, or twice with one second between when the first attempt failed in transport; its result is
  the verdict on the last answer. An address that cannot be built asks nothing.
\<close>

theorem coordinator_request_ends:
  assumes "coordinatorRequest pf w coordinator path method body h = (h', r)"
  shows "h' = h \<and> r = Inl Type_Error \<or>
    (\<exists>ask pathname. let verdict = (\<lambda>past. judge_reply pf method pathname (cw_answer w past)); once = h @ [Asked ask]; twice = once @ [Slept 1000, Asked ask] in
       h' = once \<and> r = verdict once \<and> r \<notin> transport_errors \<or>
       h' = twice \<and> r = verdict twice \<and> verdict once \<in> transport_errors)"
proof (cases "cl_url pf path (normalizeCoordinator coordinator)")
  case None
  with assms show ?thesis by (simp add: coordinatorRequest_def)
next
  case (Some u)
  obtain href pathname where u: "u = (href, pathname)" by (cases u)
  let ?ask = "\<lparr>ha_method = method, ha_url = href, ha_body = map_option json_value body\<rparr>"
  let ?verdict = "\<lambda>past. judge_reply pf method pathname (cw_answer w past)"
  have loop: "request_loop pf w ?ask pathname 0 (Suc 0) h = (h', r)"
    using assms Some by (simp add: coordinatorRequest_def u COORDINATOR_MAX_RETRIES_def)
  have last: "request_loop pf w ?ask pathname n 0 g = (g @ [Asked ?ask], ?verdict (g @ [Asked ?ask]))" for n g
    by (subst request_loop.simps) (simp add: Let_def split: sum.split)
  have "h' = h @ [Asked ?ask] \<and> r = ?verdict h' \<and> r \<notin> transport_errors \<or>
      h' = h @ [Asked ?ask, Slept 1000, Asked ?ask] \<and> r = ?verdict h' \<and> ?verdict (h @ [Asked ?ask]) \<in> transport_errors"
    using loop unfolding request_loop.simps [where left = "Suc 0"] by (auto simp: Let_def last split: sum.splits if_splits)
  then show ?thesis by (intro disjI2 exI [of _ ?ask] exI [of _ pathname]) (auto simp: Let_def)
qed

section \<open>Share codes\<close>

lemma of_char_upper_ascii: "of_char (upper_ascii c) = (if 97 \<le> (of_char c :: nat) \<and> (of_char c :: nat) \<le> 122 then of_char c - 32 else (of_char c :: nat))"
proof -
  have "(of_char c :: nat) < 256" by (rule nat_of_char_less_256)
  then show ?thesis by (auto simp: upper_ascii_def Let_def)
qed

lemma upper_ascii_idem [simp]: "upper_ascii (upper_ascii c) = upper_ascii c"
proof -
  have "\<not> (97 \<le> (of_char (upper_ascii c) :: nat) \<and> (of_char (upper_ascii c) :: nat) \<le> 122)"
    by (simp add: of_char_upper_ascii) presburger
  then show ?thesis by (subst upper_ascii_def) (simp only: Let_def if_False)
qed

lemma share_char_upper [simp]: "share_char (upper_ascii c) = share_char c"
  by (auto simp: share_char_def of_char_upper_ascii Let_def)

lemma share_char_not_space: "share_char c \<Longrightarrow> \<not> js_space c"
  by (auto simp: share_char_def js_space_def Let_def)

lemma upper_dash [simp]: "upper_ascii (CHR ''-'') = CHR ''-''" "\<not> share_char (CHR ''-'')" "\<not> js_space (CHR ''-'')"
  by (simp_all add: upper_ascii_def share_char_def js_space_def)

lemma upper_ascii_eq_dash [simp]: "upper_ascii c = CHR ''-'' \<longleftrightarrow> c = CHR ''-''"
proof
  assume eq: "upper_ascii c = CHR ''-''"
  have "(of_char c :: nat) < 256" by (rule nat_of_char_less_256)
  with of_char_upper_ascii [of c] eq have "(of_char c :: nat) = 45" by (auto split: if_splits)
  then have "of_char c = (of_char (CHR ''-'') :: nat)" by simp
  then show "c = CHR ''-''" by (simp only: of_char_eq_iff)
qed simp

lemma code_shape_upper [simp]: "code_shape (map upper_ascii s) = code_shape s"
  by (auto simp: code_shape_def list_all_iff take_map drop_map)

lemma code_shape_split: "code_shape s \<Longrightarrow> s = take 4 s @ CHR ''-'' # drop 5 s"
proof -
  assume shape: "code_shape s"
  then have "4 < length s" and "s ! 4 = CHR ''-''" by (simp_all add: code_shape_def)
  moreover have "Suc 4 = 5" by simp
  ultimately show ?thesis using id_take_nth_drop [of 4 s] by metis
qed

lemma code_shape_not_space: "code_shape s \<Longrightarrow> c \<in> set s \<Longrightarrow> \<not> js_space c"
proof -
  assume shape: "code_shape s" and c: "c \<in> set s"
  then have "c \<in> set (take 4 s) \<or> c = CHR ''-'' \<or> c \<in> set (drop 5 s)"
    using code_shape_split [OF shape] by (metis Un_iff set_append set_ConsD)
  then show ?thesis using shape share_char_not_space by (auto simp: code_shape_def list_all_iff)
qed

lemma js_trim_suffix:
  assumes "s \<noteq> []" and "\<forall>c \<in> set s. \<not> js_space c"
  shows "\<exists>q. js_trim (p @ s) = q @ s"
proof -
  have front: "\<exists>q. dropWhile js_space (p @ s) = q @ s"
    using assms(2) by (induction p) (auto simp: dropWhile_none)
  then obtain q where q: "dropWhile js_space (p @ s) = q @ s" by blast
  have "dropWhile js_space (rev (q @ s)) = rev (q @ s)"
    using assms by (cases s rule: rev_cases) auto
  then show ?thesis unfolding js_trim_def q by (metis rev_rev_ident)
qed

text \<open>
  A text is taken for a share code exactly by its last nine characters, in any case of letters: whatever precedes the code, a link to any host, is
  not looked at. What is returned is in upper case and stands for itself.
\<close>

theorem share_code_parsed:
  "parseShareCode v = [] \<or> code_shape (parseShareCode v) \<and> parseShareCode (prefix @ parseShareCode v) = parseShareCode v"
  "code_shape s \<Longrightarrow> parseShareCode (prefix @ s) = map upper_ascii s"
proof -
  have found: "parseShareCode (prefix @ s) = map upper_ascii s" if shape: "code_shape s" for s
  proof -
    have "s \<noteq> []" using shape by (auto simp: code_shape_def)
    from js_trim_suffix [OF this] code_shape_not_space [OF shape]
    obtain q where "js_trim (prefix @ s) = q @ s" by blast
    with shape show ?thesis by (simp add: parseShareCode_def code_shape_def)
  qed
  show "code_shape s \<Longrightarrow> parseShareCode (prefix @ s) = map upper_ascii s" by (rule found)
  have "parseShareCode v = [] \<or> (\<exists>s. code_shape s \<and> parseShareCode v = map upper_ascii s)"
    by (auto simp: parseShareCode_def Let_def)
  then show "parseShareCode v = [] \<or> code_shape (parseShareCode v) \<and> parseShareCode (prefix @ parseShareCode v) = parseShareCode v"
    using found [of "parseShareCode v"] by (auto simp: comp_def)
qed

text \<open>
  The codes that the browser creates and shows have eight characters and no dash; \<open>get\<close> takes none of them.
\<close>

theorem browser_codes_refused:
  assumes "list_all share_char s"
  shows "snd (runGet pf w (c\<lparr>gt_code := s\<rparr>) h) =
    Inl (Usage_Error ''get requires a share code like ABCD-1234 or a /get/ABCD-1234 link'')"
proof -
  have trim: "js_trim s = s" using assms share_char_not_space by (intro js_trim_id) (auto simp: list_all_iff)
  have "\<not> code_shape (drop (length s - 9) s)"
  proof
    assume shape: "code_shape (drop (length s - 9) s)"
    then have "CHR ''-'' \<in> set (drop (length s - 9) s)" by (metis code_shape_split in_set_conv_decomp)
    then have "CHR ''-'' \<in> set s" by (rule in_set_dropD)
    with assms show False by (auto simp: list_all_iff)
  qed
  then have "parseShareCode s = []" by (simp add: parseShareCode_def trim)
  then show ?thesis by (simp add: runGet_def effect_lift_def)
qed

section \<open>Hints\<close>

definition join_link :: "string \<Rightarrow> bool" where
  "join_link s \<longleftrightarrow> s = '''' \<or> js_startsWith s join_scheme"

lemma hints_are_links:
  "findHintInValue v = Some h \<Longrightarrow> join_link (th_join h)"
  "hints_of vs j p = (j', p') \<Longrightarrow> (\<forall>s. j = Some s \<longrightarrow> join_link s) \<Longrightarrow> j' = Some s \<Longrightarrow> join_link s"
proof (induction v and vs j p arbitrary: h and j' p' s rule: findHintInValue_hints_of.induct)
  case (3 fs)
  have d: "map_of fs ''directTransfer'' = Some w \<Longrightarrow> findHintInValue w = Some g \<Longrightarrow> join_link (th_join g)" for w g
    using "3.IH"(1) by blast
  have e: "map_of fs ''endpointHints'' = Some w \<Longrightarrow> findHintInValue w = Some g \<Longrightarrow> join_link (th_join g)" for w g
    using "3.IH"(2) by blast
  have link: "join_link ''''" "js_startsWith u join_scheme \<Longrightarrow> join_link u" for u by (simp_all add: join_link_def)
  show ?case using "3.prems" by (auto simp: Let_def or_else_def intro: link dest: d e split: option.splits if_splits)
next
  case (9 v vs j p)
  from "9.prems" "9.IH"(2) [OF refl] "9.IH"(1) show ?case
    by (auto simp: Let_def or_else_def split: option.splits)
qed (auto simp: join_link_def split: if_splits prod.splits option.splits)

lemma findDirectTransferHint_sound:
  assumes "findDirectTransferHint candidates = Inr (Some h)"
  shows "th_join h \<noteq> '''' \<and> js_startsWith (th_join h) join_scheme \<and>
    (\<exists>vs provider. (elements (jfield candidates ''providers'') = Some vs \<or> elements (jfield candidates ''candidates'') = Some vs) \<and>
       provider \<in> set vs \<and> jfield provider ''online'' \<noteq> JBool False \<and> findHintInValue (jfield provider ''endpointHints'') = Some h)"
proof -
  let ?step = "\<lambda>provider rest. bind_result (js_prop provider ''online'') (\<lambda>online.
            if online = JBool False then rest
            else (case findHintInValue (jfield provider ''endpointHints'') of
                    Some h \<Rightarrow> if th_join h \<noteq> '''' then Inr (Some h) else rest
                  | None \<Rightarrow> rest))"
  have scan: "\<exists>provider \<in> set ps. jfield provider ''online'' \<noteq> JBool False \<and> findHintInValue (jfield provider ''endpointHints'') = Some h \<and> th_join h \<noteq> ''''"
    if "foldr ?step ps (Inr None) = Inr (Some h)" for ps
    using that by (induction ps) (auto simp: bind_result_Inr_iff js_prop_def split: if_splits option.splits)
  from scan [OF assms [unfolded findDirectTransferHint_def Let_def]] obtain provider where
    p: "provider \<in> set (concat (List.map_filter elements [jfield candidates ''providers'', jfield candidates ''candidates'']))"
      "jfield provider ''online'' \<noteq> JBool False" "findHintInValue (jfield provider ''endpointHints'') = Some h" "th_join h \<noteq> ''''"
    by blast
  have "join_link (th_join h)" using p(3) by (rule hints_are_links)
  then show ?thesis using p by (auto simp: join_link_def List.map_filter_def split: option.splits if_splits)
qed

text \<open>
  A provider that lists its peer descriptor before its join link is not used: the empty join of the first hint counts as a join, and
  the link behind it is dropped.
\<close>

theorem peer_hint_hides_join:
  "findHintInValue (JArr [JObj [(''kind'', JStr ''peer''), (''value'', JStr (peer_scheme @ p))],
                          JObj [(''kind'', JStr ''ponswarp-join''), (''value'', JStr (join_scheme @ s))]]) = None"
  "findHintInValue (JArr [JObj [(''kind'', JStr ''ponswarp-join''), (''value'', JStr (join_scheme @ s))],
                          JObj [(''kind'', JStr ''peer''), (''value'', JStr (peer_scheme @ p))]]) =
     Some \<lparr>th_join = join_scheme @ s, th_peer = Some (peer_scheme @ p)\<rparr>"
  by (simp_all add: raw_hint_def List.map_filter_def js_startsWith_def or_else_def extractPeerHint_def)

section \<open>Transfers\<close>

definition joins_of :: "client_action list \<Rightarrow> join_command list" where
  "joins_of h = List.map_filter (\<lambda>a. case a of Joined c \<Rightarrow> Some c | _ \<Rightarrow> None) h"

lemma joins_of_simps [simp]:
  "joins_of [] = []" "joins_of (g @ h) = joins_of g @ joins_of h"
  "joins_of (Asked a # h) = joins_of h" "joins_of (Slept n # h) = joins_of h" "joins_of (Joined c # h) = c # joins_of h"
  by (simp_all add: joins_of_def List.map_filter_def)

lemma request_loop_joins: "joins_of (fst (request_loop pf w ask path attempt left h)) = joins_of h"
proof (induction left arbitrary: attempt h)
  case 0
  show ?case by (subst request_loop.simps) (simp add: Let_def split: sum.split)
next
  case (Suc left)
  then show ?case by (subst request_loop.simps) (simp add: Let_def split: sum.split)
qed

lemma coordinatorRequest_joins: "coordinatorRequest pf w co path method body h = (h', r) \<Longrightarrow> joins_of h' = joins_of h"
  using request_loop_joins by (auto simp: coordinatorRequest_def split: option.splits) (metis fst_conv)

definition first_manifest :: "js_value \<Rightarrow> js_value" where
  "first_manifest descriptor = (case elements (jfield descriptor ''manifests'') of Some (m # _) \<Rightarrow> m | _ \<Rightarrow> JUndef)"

text \<open>The file that a share resolves to, as far as the coordinator names it.\<close>

definition describes_share :: "js_value \<Rightarrow> js_value \<Rightarrow> bool" where
  "describes_share resolved m \<longleftrightarrow>
     (\<forall>s. jfield resolved ''fileId'' = JStr s \<and> s \<noteq> '''' \<longrightarrow> jfield m ''fileId'' = JStr s) \<and>
     (\<forall>n. jfield resolved ''sizeBytes'' = JNum n \<longrightarrow> jfield m ''size'' = JNum n)"

lemma mismatch_not_Inr: "mismatch sh what expected got \<noteq> Inr u"
  by (auto simp: mismatch_def bind_result_Inr_iff)

lemma assertDirectTransferMatches_Inr:
  "assertDirectTransferMatches pf resolved hint = Inr () \<Longrightarrow>
   \<exists>d. decodeJoinDescriptor (cl_codec pf) (th_join hint) = Inr d \<and> describes_share resolved (first_manifest d)"
  by (auto simp: assertDirectTransferMatches_def describes_share_def first_manifest_def bind_result_Inr_iff js_prop_def Let_def
      mismatch_not_Inr split: if_splits)

lemma run_transfer_eq:
  "run_transfer w label c h = (h', r) \<longleftrightarrow> h' = h @ [Joined c] \<and>
     r = bind_result (cw_transfer w h') (\<lambda>code. if code \<noteq> 0 then Inl (Plain_Error (label @ '' failed with exit code '' @ show_int code)) else Inr code)"
  by (auto simp: run_transfer_def Let_def)

text \<open>
  C31. \<open>get\<close> starts at most one transfer, and only of a provider's join link whose descriptor describes the file that the share resolved to; when it reports
  success after a transfer, that transfer ended with exit code 0.
\<close>

theorem get_transfers_only_the_resolved_file:
  assumes "runGet pf w c h = (h', r)" and "joins_of h' \<noteq> joins_of h"
  shows "\<exists>h1 resolved h2 j d.
    coordinatorRequest pf w (co_coordinator c) (''/api/grid/v1/shares/'' @ encodeURIComponent (parseShareCode (gt_code c))) ''GET'' None h = (h1, Inr resolved) \<and>
    h' = h2 @ [Joined j] \<and> joins_of h2 = joins_of h \<and> jn_outDir j = gt_outDir c \<and> js_startsWith (jn_session j) join_scheme \<and>
    decodeJoinDescriptor (cl_codec pf) (jn_session j) = Inr d \<and> describes_share resolved (first_manifest d) \<and>
    (\<not> isl r \<longrightarrow> cw_transfer w h' = Inr 0)"
proof -
  let ?path = "''/api/grid/v1/shares/'' @ encodeURIComponent (parseShareCode (gt_code c))"
  have live: "parseShareCode (gt_code c) \<noteq> ''''" "\<not> gt_dryRun c"
    using assms by (auto simp: runGet_def Let_def effect_lift_eq split: if_splits)
  have "effect_bind (coordinatorRequest pf w (co_coordinator c) ?path ''GET'' None) (\<lambda>resolved.
        effect_bind (coordinatorRequest pf w (co_coordinator c) (''/api/grid/v1/shares/'' @ encodeURIComponent (parseShareCode (gt_code c)) @ ''/candidates'') ''GET'' None) (\<lambda>candidates.
        effect_bind (effect_lift (findDirectTransferHint candidates)) (\<lambda>hint. get_rest pf w c resolved candidates hint))) h = (h', r)"
    using assms(1) live by (simp add: runGet_def Let_def)
  then obtain resolved h1 candidates h2 hint where
    h1: "coordinatorRequest pf w (co_coordinator c) ?path ''GET'' None h = (h1, Inr resolved)"
    and h2: "joins_of h2 = joins_of h1"
    and hint: "findDirectTransferHint candidates = Inr hint" "get_rest pf w c resolved candidates hint h2 = (h', r)"
    using assms(2) coordinatorRequest_joins by (elim effect_bind_elim) (auto simp: effect_lift_eq, metis)
  have same: "joins_of h2 = joins_of h" using h2 coordinatorRequest_joins [OF h1] by simp
  show ?thesis
  proof (cases hint)
    case None
    with hint(2) have "h' = h2" by (auto simp: get_rest_def effect_bind_def effect_lift_def split: sum.splits)
    with same assms(2) show ?thesis by simp
  next
    case (Some t)
    let ?j = "createCoordinatorJoinCommand (gt_outDir c) t"
    have checked: "assertDirectTransferMatches pf resolved t = Inr ()"
      using hint(2) same assms(2) Some
      by (cases "assertDirectTransferMatches pf resolved t") (auto simp: get_rest_def effect_bind_def effect_lift_def)
    have fin: "h' = h2 @ [Joined ?j] \<and> (\<not> isl r \<longrightarrow> cw_transfer w h' = Inr 0)"
      using hint(2) Some checked
      by (auto simp: get_rest_def effect_bind_def effect_lift_def run_transfer_def Let_def bind_result_def split: sum.splits if_splits)
    obtain d where "decodeJoinDescriptor (cl_codec pf) (th_join t) = Inr d" "describes_share resolved (first_manifest d)"
      using assertDirectTransferMatches_Inr [OF checked] by blast
    then show ?thesis
      using fin h1 same findDirectTransferHint_sound [of candidates t] hint(1) Some
      by - (rule exI [of _ h1], rule exI [of _ resolved], rule exI [of _ h2], rule exI [of _ ?j], rule exI [of _ d],
        auto simp: createCoordinatorJoinCommand_def)
  qed
qed

text \<open>A coordinator that resolves a share and knows one provider of it.\<close>

definition example_descriptor :: js_value where
  "example_descriptor =
     JObj [(''schemaVersion'', JNum (Fin 1)), (''sessionId'', JStr ''s''), (''ownerPeerId'', JStr ''p''),
           (''ownerEndpoint'', JObj [(''url'', JStr ''ws://a'')]), (''manifests'', JArr [JObj [(''fileId'', JStr ''f'')]])]"

definition example_client :: client_platform where
  "example_client =
     \<lparr>cl_url = (\<lambda>path base. Some (path, path)), cl_link = (\<lambda>base path. Some path),
      cl_json = (\<lambda>s. if s = ''R'' then Some (JObj [(''fileId'', JStr ''f'')])
        else Some (JObj [(''providers'', JArr [JObj [(''endpointHints'', JArr [JStr (join_scheme @ ''QQ'')])]])])),
      cl_codec = \<lparr>jc_print = (\<lambda>v. []), jc_parse = (\<lambda>b. Some example_descriptor)\<rparr>,
      cl_show = (\<lambda>n. ''0''), cl_stat = (\<lambda>p. Inl Type_Error), cl_resolve = id, cl_basename = id, cl_digest = id\<rparr>"

definition example_world :: client_world where
  "example_world = \<lparr>cw_answer = (\<lambda>h. Replied 200 (if length h = 1 then ''R'' else ''C'')), cw_transfer = (\<lambda>h. Inr 0)\<rparr>"

definition example_get :: get_command where
  "example_get = \<lparr>co_coordinator = ''https://c/'', co_workspace = ''default'', co_json = False, gt_code = ''ABCD-1234'', gt_outDir = ''.'', gt_dryRun = False\<rparr>"

lemma example_request:
  "coordinatorRequest example_client example_world co path method None h =
     (h @ [Asked \<lparr>ha_method = method, ha_url = path, ha_body = None\<rparr>],
      Inr (if h = [] then JObj [(''fileId'', JStr ''f'')]
           else JObj [(''providers'', JArr [JObj [(''endpointHints'', JArr [JStr (join_scheme @ ''QQ'')])]])]))"
  by (simp add: coordinatorRequest_def example_client_def COORDINATOR_MAX_RETRIES_def example_world_def judge_reply_def safeJsonParse_def
      request_loop.simps [where left = "Suc 0"])

lemma example_share_code: "parseShareCode (gt_code example_get) \<noteq> ''''"
  by (simp add: example_get_def parseShareCode_def js_trim_def js_space_def code_shape_def share_char_def Let_def)

lemma example_fields [simp]:
  "jc_parse (cl_codec example_client) b = Some example_descriptor" "cw_transfer example_world h = Inr 0"
  "\<not> gt_dryRun example_get"
  by (simp_all add: example_client_def example_world_def example_get_def)

lemma example_joins: "joins_of (fst (runGet example_client example_world example_get [])) \<noteq> []"
  using example_share_code
  by (simp add: runGet_def Let_def effect_bind_def effect_lift_def example_request findDirectTransferHint_def List.map_filter_def
      js_prop_def js_startsWith_def get_rest_def assertDirectTransferMatches_def decodeJoinDescriptor_def decode_descriptor_def
      run_transfer_def or_else_def example_descriptor_def join_descriptor_ok_def split: sum.split)

theorem get_transfers_only_the_resolved_file_witness:
  "\<exists>resolved h1 j d. coordinatorRequest example_client example_world (co_coordinator example_get)
       (''/api/grid/v1/shares/'' @ encodeURIComponent (parseShareCode (gt_code example_get))) ''GET'' None [] = (h1, Inr resolved) \<and>
     last (fst (runGet example_client example_world example_get [])) = Joined j \<and>
     decodeJoinDescriptor (cl_codec example_client) (jn_session j) = Inr d \<and> describes_share resolved (first_manifest d)"
proof -
  obtain h' r where run: "runGet example_client example_world example_get [] = (h', r)" by (cases "runGet example_client example_world example_get []")
  with example_joins have "joins_of h' \<noteq> joins_of []" by simp
  from get_transfers_only_the_resolved_file [OF run this] run show ?thesis by auto
qed

text \<open>The commands that talk to the coordinator, as \<open>main\<close> dispatches them.\<close>

definition run_coordinator_command :: "client_platform \<Rightarrow> client_world \<Rightarrow> parsed_command \<Rightarrow> js_value client option" where
  "run_coordinator_command pf w c =
     (case c of
        Cmd_NodeStart n \<Rightarrow> Some (runNodeStart pf w n)
      | Cmd_Publish p \<Rightarrow> Some (runPublish pf w p)
      | Cmd_Files f \<Rightarrow> Some (runFiles pf w f)
      | Cmd_Download d \<Rightarrow> Some (runDownload pf w d)
      | Cmd_Share s \<Rightarrow> Some (runShare pf w s)
      | Cmd_Get g \<Rightarrow> Some (runGet pf w g)
      | _ \<Rightarrow> None)"

fun dry_run :: "parsed_command \<Rightarrow> bool" where
  "dry_run (Cmd_NodeStart c) = nd_dryRun c"
| "dry_run (Cmd_Publish c) = pb_dryRun c"
| "dry_run (Cmd_Download c) = dl_dryRun c"
| "dry_run (Cmd_Share c) = sh_dryRun c"
| "dry_run (Cmd_Get c) = gt_dryRun c"
| "dry_run _ = False"

lemma dry_run_keeps_history: "dry_run c \<Longrightarrow> run_coordinator_command pf w c = Some run \<Longrightarrow> fst (run h) = h"
  by (cases c)
    (auto simp: run_coordinator_command_def runNodeStart_def runPublish_def runDownload_def runShare_def runGet_def effect_bind_def
      effect_lift_def Let_def split: sum.splits)

theorem coordinator_request_ends_witness:
  "coordinatorRequest example_client example_world ''https://c/'' ''/x'' ''GET'' None [] =
     ([Asked \<lparr>ha_method = ''GET'', ha_url = ''/x'', ha_body = None\<rparr>], Inr (JObj [(''fileId'', JStr ''f'')])) \<and>
   (\<exists>ask pathname. (let verdict = (\<lambda>past. judge_reply example_client ''GET'' pathname (cw_answer example_world past)) in
      [Asked ask] = [Asked \<lparr>ha_method = ''GET'', ha_url = ''/x'', ha_body = None\<rparr>] \<and>
      verdict [Asked ask] = Inr (JObj [(''fileId'', JStr ''f'')])))"
proof -
  have run: "coordinatorRequest example_client example_world ''https://c/'' ''/x'' ''GET'' None [] =
     ([Asked \<lparr>ha_method = ''GET'', ha_url = ''/x'', ha_body = None\<rparr>], Inr (JObj [(''fileId'', JStr ''f'')]))"
    by (simp add: example_request)
  from coordinator_request_ends [OF run] show ?thesis using run by (auto simp: Let_def)
qed

end
