(* ===== verification/Piece_Storage.thy ===== *)
theory Piece_Storage
  imports Session_State
begin

text \<open>
  Where verified pieces live: the \<open>StorageAdapter\<close> interface of \<open>packages/core/src/index.ts\<close>, the code
  that reads whole files back through it (\<open>assembleFile\<close>, the backpressure stream,
  \<open>saveAssembledFileFromStorage\<close>, \<open>probeStorageAdapter\<close>, \<open>createBrowserStorageAdapter\<close>), and the laws of a
  piece store as the locale \<open>piece_store\<close>. The memory adapter is modelled here in full; the browser adapters
  instantiate the same interface in \<open>Browser_Storage\<close>, the adapter of the CLI is in \<open>Node_Storage\<close>.
\<close>

section \<open>The interface\<close>

text \<open>
  An adapter over states \<open>'s\<close>: the piece operations and \<open>init\<close>. A call returns the new state and either its value
  or the error it throws.
\<close>

record 's storage_adapter =
  sa_init :: "'s \<Rightarrow> string \<Rightarrow> 's \<times> unit result"
  sa_write :: "'s \<Rightarrow> string \<Rightarrow> int \<Rightarrow> bytes \<Rightarrow> 's \<times> unit result"
  sa_read :: "'s \<Rightarrow> string \<Rightarrow> int \<Rightarrow> bytes option result"
  sa_has :: "'s \<Rightarrow> string \<Rightarrow> int \<Rightarrow> bool result"
  sa_delete :: "'s \<Rightarrow> string \<Rightarrow> int \<Rightarrow> 's \<times> unit result"

section \<open>Reading a file back\<close>

type_synonym piece_reader = "string \<Rightarrow> int \<Rightarrow> bytes option result"

definition missing_piece_error :: pons_error where
  "missing_piece_error = PonsWarpError ''storage:missing_piece'' None None"

definition assembly_too_large_error :: pons_error where
  "assembly_too_large_error = PonsWarpError ''storage:assembly_too_large'' (Some ''storage'') (Some True)"

definition DEFAULT_SAFE_ASSEMBLE_BYTES :: int where
  "DEFAULT_SAFE_ASSEMBLE_BYTES = 256 * 1024 * 1024"

definition assertSafeAssembleSize :: "file_manifest \<Rightarrow> unit result" where
  "assertSafeAssembleSize manifest =
     (if DEFAULT_SAFE_ASSEMBLE_BYTES < fm_size manifest then Inl assembly_too_large_error else Inr ())"

definition read_part :: "piece_reader \<Rightarrow> string \<Rightarrow> piece_descriptor \<Rightarrow> bytes result" where
  "read_part rd fileId piece =
     bind_result (rd fileId (pd_index piece)) (\<lambda>data.
       case data of None \<Rightarrow> Inl missing_piece_error | Some d \<Rightarrow> Inr d)"

definition new_blob :: "bytes list \<Rightarrow> string \<Rightarrow> blob" where
  "new_blob parts mimeType = \<lparr>blob_bytes = concat parts, blob_name = None, blob_type = Some mimeType\<rparr>"

definition assembleFile :: "piece_reader \<Rightarrow> string \<Rightarrow> file_manifest \<Rightarrow> blob result" where
  "assembleFile rd fileId manifest =
     bind_result (assertSafeAssembleSize manifest) (\<lambda>_.
     bind_result (map_result (read_part rd fileId) (fm_pieces manifest)) (\<lambda>parts.
       Inr (new_blob parts (fm_mimeType manifest))))"

text \<open>The \<open>pull\<close> callback of the stream: \<open>nextIndex\<close> moves before the read, so a failed read is not retried.\<close>

datatype pull_result = Pull_Close | Pull_Chunk bytes | Pull_Error pons_error

definition stream_pull :: "piece_reader \<Rightarrow> string \<Rightarrow> file_manifest \<Rightarrow> nat \<Rightarrow> nat \<times> pull_result" where
  "stream_pull rd fileId manifest nextIndex =
     (if length (fm_pieces manifest) \<le> nextIndex then (nextIndex, Pull_Close)
      else (Suc nextIndex,
            (case read_part rd fileId (fm_pieces manifest ! nextIndex) of
               Inl e \<Rightarrow> Pull_Error e
             | Inr data \<Rightarrow> Pull_Chunk data)))"

text \<open>
  \<open>pipeTo(sink)\<close>: chunks are written as they come; it fails on the first error of either side and leaves
  in the sink what was written before. \<open>snk\<close> is the sink's write.
\<close>

function pipeTo :: "('k \<Rightarrow> bytes \<Rightarrow> 'k result) \<Rightarrow> piece_reader \<Rightarrow> string \<Rightarrow> file_manifest \<Rightarrow> nat \<Rightarrow> 'k
    \<Rightarrow> 'k \<times> unit result" where
  "pipeTo snk rd fileId manifest nextIndex sink =
     (case stream_pull rd fileId manifest nextIndex of
        (n', Pull_Close) \<Rightarrow> (sink, Inr ())
      | (n', Pull_Error e) \<Rightarrow> (sink, Inl e)
      | (n', Pull_Chunk data) \<Rightarrow>
          (case snk sink data of
             Inl e \<Rightarrow> (sink, Inl e)
           | Inr sink' \<Rightarrow> pipeTo snk rd fileId manifest n' sink'))"
  by pat_completeness auto

termination
  by (relation "measure (\<lambda>(snk, rd, f, m, n, k). length (fm_pieces m) - n)")
    (auto simp: stream_pull_def split: if_splits)

declare pipeTo.simps [simp del]

definition assembleBlobFromPieceStream :: "piece_reader \<Rightarrow> string \<Rightarrow> file_manifest \<Rightarrow> blob result" where
  "assembleBlobFromPieceStream rd fileId manifest =
     (case pipeTo (\<lambda>parts data. Inr (parts @ [data])) rd fileId manifest 0 [] of
        (_, Inl e) \<Rightarrow> Inl e
      | (parts, Inr _) \<Rightarrow> Inr (new_blob parts
          (if fm_mimeType manifest = '''' then ''application/octet-stream'' else fm_mimeType manifest)))"

datatype save_result = SavedBlob blob int | SavedStream int

definition saveAssembledFileFromStorage ::
    "piece_reader \<Rightarrow> string \<Rightarrow> file_manifest \<Rightarrow> ('k \<Rightarrow> bytes \<Rightarrow> 'k result) \<Rightarrow> 'k option \<Rightarrow> 'k option \<times> save_result result" where
  "saveAssembledFileFromStorage rd fileId manifest snk sink =
     (case sink of
        Some k \<Rightarrow>
          (case pipeTo snk rd fileId manifest 0 k of
             (k', Inl e) \<Rightarrow> (Some k', Inl e)
           | (k', Inr _) \<Rightarrow> (Some k', Inr (SavedStream (fm_size manifest))))
      | None \<Rightarrow>
          (None, bind_result
             (if fm_size manifest \<le> DEFAULT_SAFE_ASSEMBLE_BYTES then assembleFile rd fileId manifest
              else assembleBlobFromPieceStream rd fileId manifest)
             (\<lambda>blob. Inr (SavedBlob blob (int (length (blob_bytes blob)))))))"

section \<open>Probing an adapter\<close>

definition probe_failed_error :: pons_error where
  "probe_failed_error = PonsWarpError ''storage:probe_failed'' None None"

definition probeStorageAdapter :: "'s storage_adapter \<Rightarrow> 's \<Rightarrow> int \<Rightarrow> 's \<times> unit result" where
  "probeStorageAdapter A s n =
     (let len = max 1 n; data = replicate (nat len) 0
      in case sa_write A s ''__probe__'' 0 data of
          (s1, Inl e) \<Rightarrow> (s1, Inl e)
        | (s1, Inr _) \<Rightarrow>
            (case sa_read A s1 ''__probe__'' 0 of
               Inl e \<Rightarrow> (s1, Inl e)
             | Inr None \<Rightarrow> (s1, Inl probe_failed_error)
             | Inr (Some d) \<Rightarrow>
                 if int (length d) \<noteq> len then (s1, Inl probe_failed_error)
                 else sa_delete A s1 ''__probe__'' 0))"

section \<open>The memory adapter\<close>

record memory_store =
  mem_sessionId :: "string option"
  mem_pieces :: "(string, bytes) js_map"
  mem_states :: "(string, persisted_session) js_map"

definition new_memory_store :: memory_store where
  "new_memory_store = \<lparr>mem_sessionId = None, mem_pieces = [], mem_states = []\<rparr>"

definition storage_not_initialized :: pons_error where
  "storage_not_initialized = PonsWarpError ''storage:not_initialized'' None None"

text \<open>The session check is a truthiness test, so the empty session id is refused too.\<close>

definition memory_requireSession :: "memory_store \<Rightarrow> string result" where
  "memory_requireSession s =
     (case mem_sessionId s of
        None \<Rightarrow> Inl storage_not_initialized
      | Some sid \<Rightarrow> if sid = '''' then Inl storage_not_initialized else Inr sid)"

definition piece_key :: "string \<Rightarrow> string \<Rightarrow> int \<Rightarrow> string" where
  "piece_key sessionId fileId index = sessionId @ '':'' @ fileId @ '':'' @ show_int index"

definition memory_init :: "memory_store \<Rightarrow> string \<Rightarrow> memory_store \<times> unit result" where
  "memory_init s sessionId = (s\<lparr>mem_sessionId := Some sessionId\<rparr>, Inr ())"

definition memory_writePiece :: "memory_store \<Rightarrow> string \<Rightarrow> int \<Rightarrow> bytes \<Rightarrow> memory_store \<times> unit result" where
  "memory_writePiece s fileId pieceIndex data =
     (case memory_requireSession s of
        Inl e \<Rightarrow> (s, Inl e)
      | Inr sid \<Rightarrow> (s\<lparr>mem_pieces := jm_set (piece_key sid fileId pieceIndex) data (mem_pieces s)\<rparr>, Inr ()))"

definition memory_readPiece :: "memory_store \<Rightarrow> string \<Rightarrow> int \<Rightarrow> bytes option result" where
  "memory_readPiece s fileId pieceIndex =
     bind_result (memory_requireSession s) (\<lambda>sid. Inr (jm_get (mem_pieces s) (piece_key sid fileId pieceIndex)))"

definition memory_hasPiece :: "memory_store \<Rightarrow> string \<Rightarrow> int \<Rightarrow> bool result" where
  "memory_hasPiece s fileId pieceIndex =
     bind_result (memory_requireSession s) (\<lambda>sid. Inr (piece_key sid fileId pieceIndex \<in> set (jm_keys (mem_pieces s))))"

definition memory_deletePiece :: "memory_store \<Rightarrow> string \<Rightarrow> int \<Rightarrow> memory_store \<times> unit result" where
  "memory_deletePiece s fileId pieceIndex =
     (case memory_requireSession s of
        Inl e \<Rightarrow> (s, Inl e)
      | Inr sid \<Rightarrow> (s\<lparr>mem_pieces := jm_delete (piece_key sid fileId pieceIndex) (mem_pieces s)\<rparr>, Inr ()))"

definition memory_saveState :: "memory_store \<Rightarrow> persisted_session \<Rightarrow> memory_store \<times> unit result" where
  "memory_saveState s state =
     (case validatePersistedSessionState (encode_session state) of
        Inl e \<Rightarrow> (s, Inl e)
      | Inr _ \<Rightarrow> (s\<lparr>mem_states := jm_set (ss_sessionId state) state (mem_states s)\<rparr>, Inr ()))"

definition memory_loadState :: "memory_store \<Rightarrow> string \<Rightarrow> persisted_session option" where
  "memory_loadState s sessionId = jm_get (mem_states s) sessionId"

text \<open>\<open>cleanup\<close> drops the state of one session but the pieces of all of them.\<close>

definition memory_cleanup :: "memory_store \<Rightarrow> string \<Rightarrow> memory_store" where
  "memory_cleanup s sessionId =
     (let s1 = s\<lparr>mem_states := jm_delete sessionId (mem_states s)\<rparr>;
          s2 = s1\<lparr>mem_pieces := fold jm_delete (jm_keys (mem_pieces s1)) (mem_pieces s1)\<rparr>
      in if mem_sessionId s2 = Some sessionId then s2\<lparr>mem_sessionId := None\<rparr> else s2)"

definition memory_adapter :: "memory_store storage_adapter" where
  "memory_adapter = \<lparr>sa_init = memory_init, sa_write = memory_writePiece, sa_read = memory_readPiece,
     sa_has = memory_hasPiece, sa_delete = memory_deletePiece\<rparr>"

section \<open>The stream delivers what assembly would\<close>

text \<open>The pieces that can be read before the first one that cannot.\<close>

fun read_prefix :: "piece_reader \<Rightarrow> string \<Rightarrow> piece_descriptor list \<Rightarrow> bytes list" where
  "read_prefix rd f [] = []"
| "read_prefix rd f (p # ps) = (case read_part rd f p of Inl _ \<Rightarrow> [] | Inr d \<Rightarrow> d # read_prefix rd f ps)"

lemma read_prefix_all: "map_result (read_part rd f) ps = Inr parts \<Longrightarrow> read_prefix rd f ps = parts"
  by (induction ps arbitrary: parts) (auto simp: bind_result_Inr_iff)

lemma pipeTo_collects:
  "pipeTo (\<lambda>k d. Inr (g k d)) rd f m n k =
     (foldl g k (read_prefix rd f (drop n (fm_pieces m))),
      bind_result (map_result (read_part rd f) (drop n (fm_pieces m))) (\<lambda>_. Inr ()))"
proof (induction "length (fm_pieces m) - n" arbitrary: n k)
  case 0
  then show ?case by (subst pipeTo.simps) (simp add: stream_pull_def)
next
  case (Suc x)
  then have n: "n < length (fm_pieces m)" by simp
  then have d: "drop n (fm_pieces m) = fm_pieces m ! n # drop (Suc n) (fm_pieces m)" by (rule Cons_nth_drop_Suc [symmetric])
  have IH: "pipeTo (\<lambda>k d. Inr (g k d)) rd f m (Suc n) k =
     (foldl g k (read_prefix rd f (drop (Suc n) (fm_pieces m))),
      bind_result (map_result (read_part rd f) (drop (Suc n) (fm_pieces m))) (\<lambda>_. Inr ()))" for k
    using Suc(1) [of "Suc n" k] Suc(2) by simp
  show ?case
  proof (cases "read_part rd f (fm_pieces m ! n)")
    case (Inl e)
    with n show ?thesis unfolding d by (subst pipeTo.simps) (simp add: stream_pull_def)
  next
    case (Inr b)
    then have "pipeTo (\<lambda>k d. Inr (g k d)) rd f m n k = pipeTo (\<lambda>k d. Inr (g k d)) rd f m (Suc n) (g k b)"
      using n by (subst pipeTo.simps) (simp add: stream_pull_def)
    then show ?thesis
      unfolding IH d using Inr
      by (cases "map_result (read_part rd f) (drop (Suc n) (fm_pieces m))") simp_all
  qed
qed

lemma foldl_collect: "foldl (\<lambda>parts d. parts @ [d]) acc xs = acc @ xs"
  by (induction xs arbitrary: acc) simp_all

text \<open>
  Saving a received file gives the same bytes on every path: in one blob below the safe size, as a
  collected stream above it, or piece by piece into a sink. If a piece cannot be read, every
  path fails with that read's error, and a sink keeps exactly the pieces before it.
\<close>

theorem saveAssembledFile_same_bytes:
  "case map_result (read_part rd f) (fm_pieces m) of
     Inr parts \<Rightarrow>
       (\<exists>b. saveAssembledFileFromStorage rd f m snk None = (None, Inr (SavedBlob b (int (length (concat parts))))) \<and>
            blob_bytes b = concat parts) \<and>
       saveAssembledFileFromStorage rd f m (\<lambda>k d. Inr (k @ [d])) (Some written) =
         (Some (written @ parts), Inr (SavedStream (fm_size m)))
   | Inl e \<Rightarrow>
       saveAssembledFileFromStorage rd f m snk None = (None, Inl e) \<and>
       saveAssembledFileFromStorage rd f m (\<lambda>k d. Inr (k @ [d])) (Some written) =
         (Some (written @ read_prefix rd f (fm_pieces m)), Inl e)"
proof (cases "map_result (read_part rd f) (fm_pieces m)")
  case (Inl e)
  then show ?thesis
    by (simp add: saveAssembledFileFromStorage_def assembleFile_def assertSafeAssembleSize_def
        assembleBlobFromPieceStream_def pipeTo_collects foldl_collect)
next
  case (Inr parts)
  with read_prefix_all [OF Inr] show ?thesis
    by (simp add: saveAssembledFileFromStorage_def assembleFile_def assertSafeAssembleSize_def
        assembleBlobFromPieceStream_def pipeTo_collects foldl_collect new_blob_def)
qed

lemma same_bytes_blob:
  "map_result (read_part rd f) (fm_pieces m) = Inr parts \<Longrightarrow>
   \<exists>b. saveAssembledFileFromStorage rd f m snk None = (None, Inr (SavedBlob b (int (length (concat parts))))) \<and>
       blob_bytes b = concat parts"
  by (simp add: saveAssembledFileFromStorage_def assembleFile_def assertSafeAssembleSize_def
      assembleBlobFromPieceStream_def pipeTo_collects foldl_collect new_blob_def read_prefix_all)

section \<open>The laws of a piece store\<close>

text \<open>Writing a list of pieces, one call after the other.\<close>

fun write_pieces :: "('s \<Rightarrow> string \<Rightarrow> int \<Rightarrow> bytes \<Rightarrow> 's \<times> unit result) \<Rightarrow> 's \<Rightarrow> string \<Rightarrow> (int \<times> bytes) list \<Rightarrow> 's" where
  "write_pieces wr s f [] = s"
| "write_pieces wr s f ((i, d) # ps) = write_pieces wr (fst (wr s f i d)) f ps"

definition file_slices :: "bytes \<Rightarrow> piece_descriptor list \<Rightarrow> (int \<times> bytes) list" where
  "file_slices bs ps = map (\<lambda>p. (pd_index p, piece_slice bs p)) ps"

locale piece_store =
  fixes ini :: "'s \<Rightarrow> string \<Rightarrow> 's \<times> unit result"
    and wr :: "'s \<Rightarrow> string \<Rightarrow> int \<Rightarrow> bytes \<Rightarrow> 's \<times> unit result"
    and rd :: "'s \<Rightarrow> string \<Rightarrow> int \<Rightarrow> bytes option result"
    and has :: "'s \<Rightarrow> string \<Rightarrow> int \<Rightarrow> bool result"
    and del :: "'s \<Rightarrow> string \<Rightarrow> int \<Rightarrow> 's \<times> unit result"
    and view :: "'s \<Rightarrow> string \<Rightarrow> int \<Rightarrow> bytes option"
    and ready :: "'s \<Rightarrow> bool"
  assumes read_view: "ready s \<Longrightarrow> rd s f i = Inr (view s f i)"
    and has_view: "ready s \<Longrightarrow> has s f i = Inr (view s f i \<noteq> None)"
    and write_ok: "ready s \<Longrightarrow> snd (wr s f i d) = Inr ()"
    and write_ready: "ready s \<Longrightarrow> ready (fst (wr s f i d))"
    and write_view: "ready s \<Longrightarrow> view (fst (wr s f i d)) f' i' = (if f' = f \<and> i' = i then Some d else view s f' i')"
    and delete_ok: "ready s \<Longrightarrow> snd (del s f i) = Inr ()"
    and delete_ready: "ready s \<Longrightarrow> ready (fst (del s f i))"
    and delete_view: "ready s \<Longrightarrow> view (fst (del s f i)) f' i' = (if f' = f \<and> i' = i then None else view s f' i')"
    and unready: "\<not> ready s \<Longrightarrow> (\<exists>e. rd s f i = Inl e) \<and> (\<exists>e. snd (wr s f i d) = Inl e) \<and> fst (wr s f i d) = s"
begin

lemma write_all_ready: "ready s \<Longrightarrow> ready (write_pieces wr s f ps)"
  by (induction ps arbitrary: s) (auto simp: write_ready)

lemma write_all_other: "ready s \<Longrightarrow> f' \<noteq> f \<or> i \<notin> fst ` set ps \<Longrightarrow> view (write_pieces wr s f ps) f' i = view s f' i"
  by (induction ps arbitrary: s) (auto simp: write_view write_ready)

lemma write_all_view:
  "ready s \<Longrightarrow> distinct (map fst ps) \<Longrightarrow> (i, d) \<in> set ps \<Longrightarrow> view (write_pieces wr s f ps) f i = Some d"
proof (induction ps arbitrary: s)
  case (Cons p ps)
  obtain j e where p: "p = (j, e)" by (cases p)
  show ?case
  proof (cases "j = i")
    case True
    then have "i \<notin> fst ` set ps" and "e = d" using Cons.prems(2,3) p by (auto simp: rev_image_eqI)
    with True p Cons.prems(1) show ?thesis by (simp add: write_all_other write_view write_ready)
  next
    case False
    with Cons p show ?thesis by (auto simp: write_ready)
  qed
qed simp

lemma read_parts:
  "ready s \<Longrightarrow> \<forall>p \<in> set ps. view s f (pd_index p) = Some (g p) \<Longrightarrow> map_result (read_part (rd s) f) ps = Inr (map g ps)"
  by (rule map_result_total) (simp add: read_part_def read_view)

text \<open>A file whose slices were all written reads back as the file.\<close>

lemma stored_file_reads_back:
  assumes "ready s" and "distinct (map pd_index ps)" and "concat (map (piece_slice bs) ps) = bs"
  shows "bind_result (map_result (read_part (rd (write_pieces wr s f (file_slices bs ps))) f) ps)
    (\<lambda>parts. Inr (concat parts)) = Inr bs"
proof -
  let ?s = "write_pieces wr s f (file_slices bs ps)"
  have "\<forall>p \<in> set ps. view ?s f (pd_index p) = Some (piece_slice bs p)"
    using assms(1,2) by (intro ballI write_all_view) (auto simp: file_slices_def comp_def)
  then have "map_result (read_part (rd ?s) f) ps = Inr (map (piece_slice bs) ps)"
    using assms(1) by (intro read_parts write_all_ready) auto
  with assms(3) show ?thesis by simp
qed

lemma probe_passes:
  assumes "ready s"
  shows "\<exists>s'. probeStorageAdapter \<lparr>sa_init = ini, sa_write = wr, sa_read = rd, sa_has = has, sa_delete = del\<rparr> s n = (s', Inr ()) \<and>
    ready s' \<and> (\<forall>f i. view s' f i = (if f = ''__probe__'' \<and> i = 0 then None else view s f i))"
proof -
  define d where "d = replicate (nat (max 1 n)) (0 :: byte)"
  obtain w where w: "wr s ''__probe__'' 0 d = (w, Inr ())" using write_ok [OF assms] by (metis prod.collapse)
  have r: "ready w" using write_ready [OF assms, of "''__probe__''" 0 d] w by simp
  have vw: "view w f i = (if f = ''__probe__'' \<and> i = 0 then Some d else view s f i)" for f i
    using write_view [OF assms, of "''__probe__''" 0 d] w by simp
  have v: "rd w ''__probe__'' 0 = Inr (Some d)" using read_view [OF r] vw by simp
  obtain e where e: "del w ''__probe__'' 0 = (e, Inr ())" using delete_ok [OF r] by (metis prod.collapse)
  have "probeStorageAdapter \<lparr>sa_init = ini, sa_write = wr, sa_read = rd, sa_has = has, sa_delete = del\<rparr> s n = (e, Inr ())"
    using w v e by (simp add: probeStorageAdapter_def Let_def flip: d_def) (simp add: d_def)
  moreover have "ready e" using delete_ready [OF r, of "''__probe__''" 0] e by simp
  moreover have "\<forall>f i. view e f i = (if f = ''__probe__'' \<and> i = 0 then None else view s f i)"
    using delete_view [OF r, of "''__probe__''" 0] e vw by simp
  ultimately show ?thesis by blast
qed

end

section \<open>The memory adapter is a piece store\<close>

lemma no_colon_tail:
  assumes "f @ CHR '':'' # show_int i = f' @ CHR '':'' # show_int i'"
  shows "f = f' \<and> i = i'"
proof -
  have c: "CHR '':'' \<notin> set (show_int j)" for j by (rule show_int_no_colon)
  have rev: "takeWhile (\<lambda>c. c \<noteq> CHR '':'') (rev (g @ CHR '':'' # show_int j)) = rev (show_int j)" for g j
  proof -
    have "\<forall>x \<in> set (rev (show_int j)). x \<noteq> CHR '':''" using c [of j] by auto
    then show ?thesis by (simp del: set_rev)
  qed
  have "rev (show_int i) = rev (show_int i')" using rev [of f i] rev [of f' i'] assms by simp
  then have "show_int i = show_int i'" by simp
  with assms show ?thesis using show_int_inj by auto
qed

lemma piece_key_inj: "piece_key s f i = piece_key s f' i' \<longleftrightarrow> f = f' \<and> i = i'"
  using no_colon_tail [of f i f' i'] by (auto simp: piece_key_def)

definition memory_ready :: "memory_store \<Rightarrow> bool" where
  "memory_ready s \<longleftrightarrow> (\<exists>sid. memory_requireSession s = Inr sid)"

definition memory_view :: "memory_store \<Rightarrow> string \<Rightarrow> int \<Rightarrow> bytes option" where
  "memory_view s f i = (case memory_requireSession s of
     Inl _ \<Rightarrow> None | Inr sid \<Rightarrow> jm_get (mem_pieces s) (piece_key sid f i))"

lemma memory_requireSession_pieces [simp]: "memory_requireSession (s\<lparr>mem_pieces := P\<rparr>) = memory_requireSession s"
  by (simp add: memory_requireSession_def)

lemma memory_has_view: "memory_ready s \<Longrightarrow> memory_hasPiece s f i = Inr (memory_view s f i \<noteq> None)"
proof -
  have "k \<in> set (jm_keys m) \<longleftrightarrow> jm_get m k \<noteq> None" for k and m :: "(string, bytes) js_map"
    using jm_get_None_iff by metis
  then show "memory_ready s \<Longrightarrow> memory_hasPiece s f i = Inr (memory_view s f i \<noteq> None)"
    by (auto simp only: memory_ready_def memory_hasPiece_def memory_view_def bind_result_simps sum.case)
qed

interpretation mem: piece_store memory_init memory_writePiece memory_readPiece memory_hasPiece memory_deletePiece
  memory_view memory_ready
  by unfold_locales
    (auto simp only: memory_has_view, auto simp: memory_ready_def memory_readPiece_def memory_view_def
      memory_writePiece_def memory_deletePiece_def piece_key_inj bind_result_def split: sum.splits)

lemma memory_init_ready: "sid \<noteq> '''' \<Longrightarrow> memory_ready (fst (memory_init s sid))"
  by (simp add: memory_ready_def memory_requireSession_def memory_init_def)

text \<open>
  A file cut into pieces, stored piece by piece in an initialised memory adapter and saved again comes back
  byte for byte, whatever was in the store before and whatever the file's size.
\<close>

theorem memory_storage_roundtrip:
  assumes "create_manifest D newId file opts = (evs, Inr m)" and "mem_sessionId s = Some sid" and "sid \<noteq> ''''"
  shows "\<exists>b. saveAssembledFileFromStorage
      (memory_readPiece (write_pieces memory_writePiece s f (file_slices (blob_bytes file) (fm_pieces m)))) f m snk None =
      (None, Inr (SavedBlob b (fm_size m))) \<and> blob_bytes b = blob_bytes file"
proof -
  let ?rd = "memory_readPiece (write_pieces memory_writePiece s f (file_slices (blob_bytes file) (fm_pieces m)))"
  have r: "memory_ready s" using assms(2,3) by (simp add: memory_ready_def memory_requireSession_def)
  note facts = manifest_slices [OF assms(1)]
  have "bind_result (map_result (read_part ?rd f) (fm_pieces m)) (\<lambda>parts. Inr (concat parts)) = Inr (blob_bytes file)"
    using r facts by (intro mem.stored_file_reads_back) auto
  then obtain parts where "map_result (read_part ?rd f) (fm_pieces m) = Inr parts" "concat parts = blob_bytes file"
    by (auto simp: bind_result_Inr_iff)
  with same_bytes_blob [of ?rd f m parts snk] facts show ?thesis by auto
qed

theorem memory_storage_roundtrip_witness:
  "\<exists>m b. saveAssembledFileFromStorage
      (memory_readPiece (write_pieces memory_writePiece (fst (memory_init new_memory_store ''s'')) ''f''
        (file_slices [1, 2, 3] (fm_pieces m)))) ''f'' m (\<lambda>k d. Inr (k @ [d])) None =
      (None, Inr (SavedBlob b (fm_size m))) \<and> blob_bytes b = [1, 2, 3]"
proof -
  obtain evs m where m: "create_manifest (take 1) ''id'' example_file example_options = (evs, Inr m)"
    using example_manifest_created by blast
  have s: "mem_sessionId (fst (memory_init new_memory_store ''s'')) = Some ''s''" by (simp add: memory_init_def)
  have e: "blob_bytes example_file = [1, 2, 3]" by (simp add: example_file_def)
  from memory_storage_roundtrip [OF m s, where f = "''f''" and snk = "\<lambda>k d. Inr (k @ [d])"] show ?thesis
    unfolding e by simp blast
qed

text \<open>
  Cleaning up a session removes its saved state and makes it unusable until the next \<open>init\<close>, keeps the saved
  states of the other sessions, and discards the pieces of all sessions, not only its own.
\<close>

theorem memory_cleanup_effect:
  "mem_pieces (memory_cleanup s sid) = [] \<and>
   memory_loadState (memory_cleanup s sid) sid' = (if sid' = sid then None else memory_loadState s sid') \<and>
   mem_sessionId (memory_cleanup s sid) = (if mem_sessionId s = Some sid then None else mem_sessionId s)"
proof -
  have "fold jm_delete ks m = filter (\<lambda>e. fst e \<notin> set ks) m" for ks and m :: "(string, bytes) js_map"
    by (induction ks arbitrary: m) (auto simp: AList.delete_eq intro: filter_cong)
  then have "fold jm_delete (jm_keys m) m = []" for m :: "(string, bytes) js_map" by (auto simp: filter_empty_conv)
  then show ?thesis by (simp add: memory_cleanup_def memory_loadState_def Let_def)
qed

end
