(* ===== verification/Node_Storage.thy ===== *)
theory Node_Storage
  imports Piece_Storage
begin

text \<open>
  \<open>NodeFileStorageAdapter\<close> of \<open>packages/cli/src/node-file-storage.ts\<close>. A path is the list of its segments; the files of
  a machine are three maps, by what is written to them: bytes, the JSON text of a saved session and the JSON text of an offset
  state, which is kept as the value it was written from. An operation gives the actions it performs on the files, one by
  one, so that a process that dies in the middle of one leaves the effect of a prefix; a file that is replaced is
  written under a temporary name first and renamed. Operations run one after the other; file system errors other than
  a missing file are not modelled.
\<close>

section \<open>Files\<close>

type_synonym fs_path = "string list"

record offset_state =
  os_schemaVersion :: int
  os_fileId :: string
  os_manifestSize :: int
  os_pieceSize :: int
  os_pieceCount :: int
  os_outputPath :: fs_path
  os_pieceLayoutHash :: string
  os_verifiedPieces :: "int list"
  os_updatedAt :: int

record node_files =
  nf_bytes :: "fs_path \<rightharpoonup> bytes"
  nf_states :: "fs_path \<rightharpoonup> persisted_session"
  nf_offsets :: "fs_path \<rightharpoonup> offset_state"

datatype fs_action =
    Fs_Temporary
  | Fs_Bytes fs_path bytes
  | Fs_State fs_path persisted_session
  | Fs_Offsets fs_path offset_state
  | Fs_At fs_path int bytes
  | Fs_Truncate fs_path int
  | Fs_Remove fs_path
  | Fs_RemoveTree fs_path

definition resize :: "nat \<Rightarrow> bytes \<Rightarrow> bytes" where
  "resize n bs = take n (bs @ replicate (n - length bs) 0)"

definition write_at :: "nat \<Rightarrow> bytes \<Rightarrow> bytes \<Rightarrow> bytes" where
  "write_at off data bs = resize off bs @ data @ drop (off + length data) bs"

definition under :: "fs_path \<Rightarrow> fs_path \<Rightarrow> bool" where
  "under dir p \<longleftrightarrow> take (length dir) p = dir"

fun fs_do :: "fs_action \<Rightarrow> node_files \<Rightarrow> node_files" where
  "fs_do Fs_Temporary fs = fs"
| "fs_do (Fs_Bytes p bs) fs = fs\<lparr>nf_bytes := (nf_bytes fs)(p \<mapsto> bs)\<rparr>"
| "fs_do (Fs_State p st) fs = fs\<lparr>nf_states := (nf_states fs)(p \<mapsto> st)\<rparr>"
| "fs_do (Fs_Offsets p st) fs = fs\<lparr>nf_offsets := (nf_offsets fs)(p \<mapsto> st)\<rparr>"
| "fs_do (Fs_At p off data) fs =
     (case nf_bytes fs p of
        None \<Rightarrow> fs
      | Some bs \<Rightarrow> fs\<lparr>nf_bytes := (nf_bytes fs)(p \<mapsto> write_at (nat off) data bs)\<rparr>)"
| "fs_do (Fs_Truncate p n) fs =
     fs\<lparr>nf_bytes := (nf_bytes fs)(p \<mapsto> resize (nat n) (case nf_bytes fs p of None \<Rightarrow> [] | Some bs \<Rightarrow> bs))\<rparr>"
| "fs_do (Fs_Remove p) fs = fs\<lparr>nf_bytes := (nf_bytes fs)(p := None)\<rparr>"
| "fs_do (Fs_RemoveTree d) fs =
     fs\<lparr>nf_bytes := (\<lambda>p. if under d p then None else nf_bytes fs p),
        nf_states := (\<lambda>p. if under d p then None else nf_states fs p),
        nf_offsets := (\<lambda>p. if under d p then None else nf_offsets fs p)\<rparr>"

section \<open>The adapter\<close>

record offset_output =
  oo_manifest :: file_manifest
  oo_outputPath :: fs_path
  oo_verifiedPieces :: "int js_set"

record node_adapter =
  na_sessionId :: "string option"
  na_rootDir :: fs_path
  na_safeAssembleBytes :: int
  na_offsetOutputs :: "(string, offset_output) js_map"

definition new_node_adapter :: "fs_path \<Rightarrow> int option \<Rightarrow> node_adapter" where
  "new_node_adapter rootDir safeAssembleBytes =
     \<lparr>na_sessionId = None, na_rootDir = rootDir,
      na_safeAssembleBytes = (case safeAssembleBytes of Some n \<Rightarrow> n | None \<Rightarrow> 256 * 1024 * 1024), na_offsetOutputs = []\<rparr>"

type_synonym 'a node_result = "node_adapter \<times> fs_action list \<times> (string + 'a)"

definition not_initialized :: string where
  "not_initialized = ''NodeFileStorageAdapter.init(sessionId) must be called first''"

definition sanitizePathSegment :: "string \<Rightarrow> string \<Rightarrow> string + string" where
  "sanitizePathSegment segment name =
     (if segment = '''' \<or> segment = ''.'' \<or> segment = ''..'' \<or> CHR ''/'' \<in> set segment \<or> CHR 0x5C \<in> set segment
      then Inl (name @ '' must be a single safe path segment'') else Inr segment)"

definition sessionDir :: "node_adapter \<Rightarrow> string + fs_path" where
  "sessionDir a =
     (case na_sessionId a of
        Some sid \<Rightarrow>
          if sid = '''' then Inl not_initialized
          else bind_result (sanitizePathSegment sid ''sessionId'') (\<lambda>s. Inr (na_rootDir a @ [''sessions'', s]))
      | None \<Rightarrow> Inl not_initialized)"

definition pad6 :: "int \<Rightarrow> string" where
  "pad6 i = (let s = show_int i in replicate (6 - length s) (CHR ''0'') @ s)"

definition piecePath :: "node_adapter \<Rightarrow> string \<Rightarrow> int \<Rightarrow> string + fs_path" where
  "piecePath a fileId pieceIndex =
     bind_result (sessionDir a) (\<lambda>d.
     bind_result (sanitizePathSegment fileId ''fileId'') (\<lambda>f. Inr (d @ [''pieces'', f, pad6 pieceIndex @ ''.part''])))"

definition offsetStatePath :: "node_adapter \<Rightarrow> string \<Rightarrow> string + fs_path" where
  "offsetStatePath a fileId =
     bind_result (sessionDir a) (\<lambda>d.
     bind_result (sanitizePathSegment fileId ''fileId'') (\<lambda>f. Inr (d @ [''output'', f @ ''.offset-state.json''])))"

definition outputPath :: "(string \<Rightarrow> string) \<Rightarrow> node_adapter \<Rightarrow> string \<Rightarrow> string + fs_path" where
  "outputPath basename a fileName = bind_result (sessionDir a) (\<lambda>d. Inr (d @ [''output'', basename fileName]))"

definition node_init :: "node_adapter \<Rightarrow> string \<Rightarrow> unit node_result" where
  "node_init a sessionId =
     (case sanitizePathSegment sessionId ''sessionId'' of
        Inl e \<Rightarrow> (a, [], Inl e)
      | Inr s \<Rightarrow> (a\<lparr>na_sessionId := Some s\<rparr>, [], Inr ()))"

text \<open>\<open>hashPieceLayout\<close>: the digest of the layout as a text.\<close>

definition layout_text :: "file_manifest \<Rightarrow> string" where
  "layout_text m =
     concat (map (\<lambda>p. show_int (pd_index p) @ '':'' @ show_int (pd_offset p) @ '':'' @ show_int (pd_size p) @ '';'') (fm_pieces m))"

definition hashPieceLayout :: "digest \<Rightarrow> file_manifest \<Rightarrow> string" where
  "hashPieceLayout D m = bytesToHex (D (map (of_nat \<circ> of_char) (layout_text m)))"

definition int_after :: "int \<Rightarrow> int \<Rightarrow> bool" where
  "int_after x y \<longleftrightarrow> x > y"

definition offset_state_of :: "digest \<Rightarrow> int \<Rightarrow> string \<Rightarrow> offset_output \<Rightarrow> offset_state" where
  "offset_state_of D now fileId oo =
     \<lparr>os_schemaVersion = 1, os_fileId = fileId, os_manifestSize = fm_size (oo_manifest oo),
      os_pieceSize = fm_pieceSize (oo_manifest oo), os_pieceCount = fm_pieceCount (oo_manifest oo),
      os_outputPath = oo_outputPath oo, os_pieceLayoutHash = hashPieceLayout D (oo_manifest oo),
      os_verifiedPieces = js_sort int_after (oo_verifiedPieces oo), os_updatedAt = now\<rparr>"

definition saveOffsetOutputState :: "digest \<Rightarrow> int \<Rightarrow> node_adapter \<Rightarrow> string \<Rightarrow> fs_action list \<times> (string + unit)" where
  "saveOffsetOutputState D now a fileId =
     (case jm_get (na_offsetOutputs a) fileId of
        None \<Rightarrow> ([], Inr ())
      | Some oo \<Rightarrow>
          (case offsetStatePath a fileId of
             Inl e \<Rightarrow> ([], Inl e)
           | Inr p \<Rightarrow> ([Fs_Temporary, Fs_Offsets p (offset_state_of D now fileId oo)], Inr ())))"

definition loadOffsetOutputState :: "node_adapter \<Rightarrow> node_files \<Rightarrow> string \<Rightarrow> string + offset_state option" where
  "loadOffsetOutputState a fs fileId =
     bind_result (offsetStatePath a fileId) (\<lambda>p.
       Inr (case nf_offsets fs p of
              Some st \<Rightarrow> if os_schemaVersion st = 1 then Some st else None
            | None \<Rightarrow> None))"

definition enoent :: string where
  "enoent = ''ENOENT: no such file or directory''"

definition layout_piece :: "file_manifest \<Rightarrow> int \<Rightarrow> piece_descriptor option" where
  "layout_piece m pieceIndex = find (\<lambda>p. pd_index p = pieceIndex) (fm_pieces m)"

definition unknown_piece :: "int \<Rightarrow> file_manifest \<Rightarrow> string" where
  "unknown_piece i m = ''Unknown piece '' @ show_int i @ '' for '' @ fm_name m"

definition size_mismatch :: "int \<Rightarrow> int \<Rightarrow> int \<Rightarrow> string" where
  "size_mismatch i expected got =
     ''Piece '' @ show_int i @ '' size mismatch: expected '' @ show_int expected @ '', got '' @ show_int got"

definition set_output :: "string \<Rightarrow> offset_output \<Rightarrow> node_adapter \<Rightarrow> node_adapter" where
  "set_output fileId oo a = a\<lparr>na_offsetOutputs := jm_set fileId oo (na_offsetOutputs a)\<rparr>"

definition node_writePiece :: "digest \<Rightarrow> int \<Rightarrow> node_files \<Rightarrow> node_adapter \<Rightarrow> string \<Rightarrow> int \<Rightarrow> bytes \<Rightarrow> unit node_result" where
  "node_writePiece D now fs a fileId pieceIndex data =
     (case jm_get (na_offsetOutputs a) fileId of
        Some oo \<Rightarrow>
          (case layout_piece (oo_manifest oo) pieceIndex of
             None \<Rightarrow> (a, [], Inl (unknown_piece pieceIndex (oo_manifest oo)))
           | Some piece \<Rightarrow>
               if int (length data) \<noteq> pd_size piece then (a, [], Inl (size_mismatch pieceIndex (pd_size piece) (int (length data))))
               else if nf_bytes fs (oo_outputPath oo) = None then (a, [], Inl enoent)
               else
                 (let a' = set_output fileId (oo\<lparr>oo_verifiedPieces := js_add pieceIndex (oo_verifiedPieces oo)\<rparr>) a;
                      (acts, res) = saveOffsetOutputState D now a' fileId
                  in (a', Fs_At (oo_outputPath oo) (pd_offset piece) data # acts, res)))
      | None \<Rightarrow>
          (case piecePath a fileId pieceIndex of
             Inl e \<Rightarrow> (a, [], Inl e)
           | Inr p \<Rightarrow> (a, [Fs_Temporary, Fs_Bytes p data], Inr ())))"

definition read_region :: "bytes \<Rightarrow> piece_descriptor \<Rightarrow> bytes" where
  "read_region bs piece = take (nat (pd_size piece)) (drop (nat (pd_offset piece)) bs)"

text \<open>The output file is opened before the \<open>try\<close>: when it is missing, the read throws.\<close>

definition node_readPiece :: "node_files \<Rightarrow> node_adapter \<Rightarrow> string \<Rightarrow> int \<Rightarrow> string + bytes option" where
  "node_readPiece fs a fileId pieceIndex =
     (case jm_get (na_offsetOutputs a) fileId of
        Some oo \<Rightarrow>
          if pieceIndex \<notin> set (oo_verifiedPieces oo) then Inr None
          else (case layout_piece (oo_manifest oo) pieceIndex of
                  None \<Rightarrow> Inr None
                | Some piece \<Rightarrow>
                    (case nf_bytes fs (oo_outputPath oo) of
                       None \<Rightarrow> Inl enoent
                     | Some bs \<Rightarrow> Inr (Some (read_region bs piece))))
      | None \<Rightarrow> bind_result (piecePath a fileId pieceIndex) (\<lambda>p. Inr (nf_bytes fs p)))"

definition node_hasPiece :: "node_files \<Rightarrow> node_adapter \<Rightarrow> string \<Rightarrow> int \<Rightarrow> string + bool" where
  "node_hasPiece fs a fileId pieceIndex =
     (case jm_get (na_offsetOutputs a) fileId of
        Some oo \<Rightarrow> Inr (pieceIndex \<in> set (oo_verifiedPieces oo))
      | None \<Rightarrow> bind_result (piecePath a fileId pieceIndex) (\<lambda>p. Inr (nf_bytes fs p \<noteq> None)))"

definition node_deletePiece :: "digest \<Rightarrow> int \<Rightarrow> node_adapter \<Rightarrow> string \<Rightarrow> int \<Rightarrow> unit node_result" where
  "node_deletePiece D now a fileId pieceIndex =
     (case jm_get (na_offsetOutputs a) fileId of
        Some oo \<Rightarrow>
          (let a' = set_output fileId (oo\<lparr>oo_verifiedPieces := filter (\<lambda>i. i \<noteq> pieceIndex) (oo_verifiedPieces oo)\<rparr>) a;
               (acts, res) = saveOffsetOutputState D now a' fileId
           in (a', acts, res))
      | None \<Rightarrow>
          (case piecePath a fileId pieceIndex of
             Inl e \<Rightarrow> (a, [], Inl e)
           | Inr p \<Rightarrow> (a, [Fs_Remove p], Inr ())))"

definition node_saveState :: "node_adapter \<Rightarrow> persisted_session \<Rightarrow> unit node_result" where
  "node_saveState a st =
     (case sessionDir a of
        Inl e \<Rightarrow> (a, [], Inl e)
      | Inr d \<Rightarrow> (a, [Fs_Temporary, Fs_State (d @ [''state.json'']) st], Inr ()))"

definition node_loadState :: "node_files \<Rightarrow> node_adapter \<Rightarrow> string \<Rightarrow> node_adapter \<times> (string + persisted_session option)" where
  "node_loadState fs a sessionId =
     (case sanitizePathSegment sessionId ''sessionId'' of
        Inl e \<Rightarrow> (a, Inl e)
      | Inr s \<Rightarrow>
          (a\<lparr>na_sessionId := Some (case na_sessionId a of Some prev \<Rightarrow> prev | None \<Rightarrow> sessionId)\<rparr>,
           bind_result (sessionDir (a\<lparr>na_sessionId := Some s\<rparr>)) (\<lambda>d. Inr (nf_states fs (d @ [''state.json''])))))"

definition same_output :: "digest \<Rightarrow> file_manifest \<Rightarrow> fs_path \<Rightarrow> offset_state \<Rightarrow> bool" where
  "same_output D m path st \<longleftrightarrow>
     os_outputPath st = path \<and> os_manifestSize st = fm_size m \<and> os_pieceSize st = fm_pieceSize m \<and>
     os_pieceCount st = fm_pieceCount m \<and> os_pieceLayoutHash st = hashPieceLayout D m"

definition prepareOutputFile :: "digest \<Rightarrow> int \<Rightarrow> node_files \<Rightarrow> node_adapter \<Rightarrow> file_manifest \<Rightarrow> fs_path \<Rightarrow> unit node_result" where
  "prepareOutputFile D now fs a m path =
     (case loadOffsetOutputState a fs (fm_fileId m) of
        Inl e \<Rightarrow> (a, [Fs_Truncate path (fm_size m)], Inl e)
      | Inr saved \<Rightarrow>
          (let verified = (case saved of
                 Some st \<Rightarrow> if same_output D m path st then js_set_of (os_verifiedPieces st) else []
               | None \<Rightarrow> []);
               a' = set_output (fm_fileId m) \<lparr>oo_manifest = m, oo_outputPath = path, oo_verifiedPieces = verified\<rparr> a;
               (acts, res) = saveOffsetOutputState D now a' (fm_fileId m)
           in (a', Fs_Truncate path (fm_size m) # acts, res)))"

definition node_cleanup :: "node_adapter \<Rightarrow> string \<Rightarrow> unit node_result" where
  "node_cleanup a sessionId =
     (case sanitizePathSegment sessionId ''sessionId'' of
        Inl e \<Rightarrow> (a, [], Inl e)
      | Inr s \<Rightarrow>
          (case sessionDir (a\<lparr>na_sessionId := Some s\<rparr>) of
             Inl e \<Rightarrow> (a, [], Inl e)
           | Inr d \<Rightarrow> (a, [Fs_RemoveTree d], Inr ())))"

section \<open>Reading whole files\<close>

definition node_missing_piece :: "int \<Rightarrow> file_manifest \<Rightarrow> string" where
  "node_missing_piece i m = ''Missing piece '' @ show_int i @ '' for '' @ fm_name m"

definition node_read_part :: "node_files \<Rightarrow> node_adapter \<Rightarrow> string \<Rightarrow> file_manifest \<Rightarrow> piece_descriptor \<Rightarrow> string + bytes" where
  "node_read_part fs a fileId m piece =
     bind_result (node_readPiece fs a fileId (pd_index piece)) (\<lambda>data.
       case data of None \<Rightarrow> Inl (node_missing_piece (pd_index piece) m) | Some d \<Rightarrow> Inr d)"

definition node_assembleFile :: "node_files \<Rightarrow> node_adapter \<Rightarrow> string \<Rightarrow> file_manifest \<Rightarrow> string + blob" where
  "node_assembleFile fs a fileId m =
     (if na_safeAssembleBytes a < fm_size m
      then Inl ''File exceeds safe Blob assembly threshold; pass a WritableStream sink to saveAssembledFile''
      else bind_result (map_result (node_read_part fs a fileId m) (fm_pieces m)) (\<lambda>parts. Inr (new_blob parts (fm_mimeType m))))"

text \<open>The \<open>pull\<close> callback of \<open>createReadablePieceStream\<close>.\<close>

definition node_stream_pull :: "node_files \<Rightarrow> node_adapter \<Rightarrow> string \<Rightarrow> file_manifest \<Rightarrow> nat \<Rightarrow> nat \<times> (string + bytes) option" where
  "node_stream_pull fs a fileId m nextPiece =
     (if length (fm_pieces m) \<le> nextPiece then (nextPiece, None)
      else (Suc nextPiece, Some (node_read_part fs a fileId m (fm_pieces m ! nextPiece))))"

text \<open>
  The loop of \<open>saveAssembledFile\<close> over a sink: what was written, the adapter and the files it leaves. \<open>snk\<close> is the sink's write;
  \<open>deleting\<close> is the option \<open>deletePiecesAfterWrite\<close>.
\<close>

fun save_to_sink :: "digest \<Rightarrow> int \<Rightarrow> ('k \<Rightarrow> bytes \<Rightarrow> string + 'k) \<Rightarrow> bool \<Rightarrow> string \<Rightarrow> file_manifest \<Rightarrow> piece_descriptor list \<Rightarrow>
    node_files \<times> node_adapter \<times> 'k \<Rightarrow> (node_files \<times> node_adapter \<times> 'k) \<times> (string + unit)" where
  "save_to_sink D now snk deleting fileId m [] s = (s, Inr ())"
| "save_to_sink D now snk deleting fileId m (piece # pieces) (fs, a, k) =
     (case bind_result (node_read_part fs a fileId m piece) (snk k) of
        Inl e \<Rightarrow> ((fs, a, k), Inl e)
      | Inr k' \<Rightarrow>
          if deleting then
            (case node_deletePiece D now a fileId (pd_index piece) of
               (a', acts, Inl e) \<Rightarrow> ((fold fs_do acts fs, a', k'), Inl e)
             | (a', acts, Inr _) \<Rightarrow> save_to_sink D now snk deleting fileId m pieces (fold fs_do acts fs, a', k'))
          else save_to_sink D now snk deleting fileId m pieces (fs, a, k'))"

datatype node_save = Node_Stream int | Node_Unsupported string | Node_Blob blob int

definition node_saveAssembledFile :: "digest \<Rightarrow> int \<Rightarrow> ('k \<Rightarrow> bytes \<Rightarrow> string + 'k) \<Rightarrow> bool \<Rightarrow> string \<Rightarrow> file_manifest \<Rightarrow> 'k option \<Rightarrow>
    node_files \<Rightarrow> node_adapter \<Rightarrow> (node_files \<times> node_adapter \<times> 'k option) \<times> (string + node_save)" where
  "node_saveAssembledFile D now snk deleting fileId m sink fs a =
     (case sink of
        Some k \<Rightarrow>
          (case save_to_sink D now snk deleting fileId m (fm_pieces m) (fs, a, k) of
             ((fs', a', k'), Inl e) \<Rightarrow> ((fs', a', Some k'), Inl e)
           | ((fs', a', k'), Inr _) \<Rightarrow> ((fs', a', Some k'), Inr (Node_Stream (fm_size m))))
      | None \<Rightarrow>
          ((fs, a, None),
           if na_safeAssembleBytes a < fm_size m then Inr (Node_Unsupported ''file exceeds safe Blob assembly threshold'')
           else bind_result (node_assembleFile fs a fileId m) (\<lambda>b. Inr (Node_Blob b (int (length (blob_bytes b)))))))"

record storage_usage =
  su_offset :: bool
  su_outputBytes :: int
  su_verifiedPieces :: int
  su_totalPieces :: int

definition getOutputStorageUsage :: "node_files \<Rightarrow> node_adapter \<Rightarrow> string \<Rightarrow> string + storage_usage" where
  "getOutputStorageUsage fs a fileId =
     (case jm_get (na_offsetOutputs a) fileId of
        Some oo \<Rightarrow>
          (case nf_bytes fs (oo_outputPath oo) of
             None \<Rightarrow> Inl enoent
           | Some bs \<Rightarrow> Inr \<lparr>su_offset = True, su_outputBytes = int (length bs),
               su_verifiedPieces = int (length (oo_verifiedPieces oo)), su_totalPieces = fm_pieceCount (oo_manifest oo)\<rparr>)
      | None \<Rightarrow> Inr \<lparr>su_offset = False, su_outputBytes = 0, su_verifiedPieces = 0, su_totalPieces = 0\<rparr>)"

text \<open>\<open>readPiece\<close> of a source that is opened to be shared; \<open>info\<close> is the size when it was opened.\<close>

definition source_readPiece :: "bytes \<Rightarrow> int \<Rightarrow> jsnum \<Rightarrow> jsnum \<Rightarrow> string + bytes" where
  "source_readPiece content info offset amount =
     (if \<not> js_isSafeInteger offset \<or> js_less offset (Fin 0) then Inl ''offset must be a non-negative safe integer''
      else if \<not> js_isSafeInteger amount \<or> js_less amount (Fin 0) then Inl ''size must be a non-negative safe integer''
      else (case (offset, amount) of
              (Fin x, Fin y) \<Rightarrow>
                let off = nat \<lfloor>x\<rfloor>; remaining = max 0 (info - \<lfloor>x\<rfloor>); bounded = min \<lfloor>y\<rfloor> remaining
                in Inr (take (nat bounded) (drop off content))
            | _ \<Rightarrow> Inr []))"

section \<open>A machine that may stop at any time\<close>

datatype node_op =
    Node_Init string
  | Node_Write string int bytes
  | Node_Delete string int
  | Node_Save persisted_session
  | Node_Load string
  | Node_Prepare file_manifest fs_path

record node_machine =
  nm_adapter :: node_adapter
  nm_files :: node_files
  nm_log :: "fs_action list"

fun node_perform :: "digest \<Rightarrow> int \<Rightarrow> node_op \<Rightarrow> node_files \<Rightarrow> node_adapter \<Rightarrow> node_adapter \<times> fs_action list" where
  "node_perform D now (Node_Init sid) fs a = (fst (node_init a sid), [])"
| "node_perform D now (Node_Write f i d) fs a = map_prod id fst (node_writePiece D now fs a f i d)"
| "node_perform D now (Node_Delete f i) fs a = map_prod id fst (node_deletePiece D now a f i)"
| "node_perform D now (Node_Save st) fs a = map_prod id fst (node_saveState a st)"
| "node_perform D now (Node_Load sid) fs a = (fst (node_loadState fs a sid), [])"
| "node_perform D now (Node_Prepare m p) fs a = map_prod id fst (prepareOutputFile D now fs a m p)"

text \<open>No other file uses the output, and the file is always prepared with the same manifest and output.\<close>

definition op_fits :: "file_manifest \<Rightarrow> fs_path \<Rightarrow> node_op \<Rightarrow> bool" where
  "op_fits m path op =
     (case op of Node_Prepare m' p' \<Rightarrow> if fm_fileId m' = fm_fileId m then m' = m \<and> p' = path else p' \<noteq> path | _ \<Rightarrow> True)"

inductive node_run :: "digest \<Rightarrow> file_manifest \<Rightarrow> fs_path \<Rightarrow> node_machine \<Rightarrow> bool" for D m path where
  boot: "node_run D m path \<lparr>nm_adapter = new_node_adapter rootDir safe, nm_files = \<lparr>nf_bytes = b, nf_states = s, nf_offsets = Map.empty\<rparr>, nm_log = []\<rparr>"
| op: "node_run D m path x \<Longrightarrow> op_fits m path op \<Longrightarrow> node_perform D now op (nm_files x) (nm_adapter x) = (a, acts) \<Longrightarrow>
    node_run D m path \<lparr>nm_adapter = a, nm_files = fold fs_do acts (nm_files x), nm_log = nm_log x @ acts\<rparr>"
| crash: "node_run D m path x \<Longrightarrow> op_fits m path op \<Longrightarrow> node_perform D now op (nm_files x) (nm_adapter x) = (a, acts) \<Longrightarrow>
    node_run D m path \<lparr>nm_adapter = new_node_adapter rootDir safe, nm_files = fold fs_do (take k acts) (nm_files x),
      nm_log = nm_log x @ take k acts\<rparr>"

section \<open>Regions of the output\<close>

definition is_write :: "fs_path \<Rightarrow> int \<Rightarrow> fs_action \<Rightarrow> bool" where
  "is_write path off act = (case act of Fs_At p o' _ \<Rightarrow> p = path \<and> o' = off | _ \<Rightarrow> False)"

definition write_data :: "fs_action \<Rightarrow> bytes" where
  "write_data act = (case act of Fs_At _ _ d \<Rightarrow> d | _ \<Rightarrow> [])"

text \<open>What was last written at an offset of a file.\<close>

definition last_write :: "fs_path \<Rightarrow> int \<Rightarrow> fs_action list \<Rightarrow> bytes option" where
  "last_write path off acts0 = map_option write_data (find (is_write path off) (rev acts0))"

lemma last_write_snoc:
  "last_write path off (acts0 @ [act]) = (if is_write path off act then Some (write_data act) else last_write path off acts0)"
  by (simp add: last_write_def)

definition piece_end :: "piece_descriptor \<Rightarrow> int" where
  "piece_end p = pd_offset p + pd_size p"

definition layout_ok :: "file_manifest \<Rightarrow> bool" where
  "layout_ok m \<longleftrightarrow>
     (\<forall>p \<in> set (fm_pieces m). 0 \<le> pd_offset p \<and> 0 < pd_size p \<and> piece_end p \<le> fm_size m) \<and>
     (\<forall>p \<in> set (fm_pieces m). \<forall>q \<in> set (fm_pieces m). p \<noteq> q \<longrightarrow> piece_end p \<le> pd_offset q \<or> piece_end q \<le> pd_offset p)"

definition region_ok :: "file_manifest \<Rightarrow> fs_path \<Rightarrow> node_files \<Rightarrow> fs_action list \<Rightarrow> int \<Rightarrow> bool" where
  "region_ok m path fs acts0 i \<longleftrightarrow>
     (\<exists>p data bs. layout_piece m i = Some p \<and> last_write path (pd_offset p) acts0 = Some data \<and> int (length data) = pd_size p \<and>
       nf_bytes fs path = Some bs \<and> read_region bs p = data)"

lemma layout_piece_in: "layout_piece m i = Some p \<Longrightarrow> p \<in> set (fm_pieces m) \<and> pd_index p = i"
  by (auto simp: layout_piece_def find_Some_iff)

lemma region_length:
  assumes "int (length (read_region bs p)) = pd_size p" "0 < pd_size p" "0 \<le> pd_offset p"
  shows "nat (piece_end p) \<le> length bs"
proof -
  have "int (min (length bs - nat (pd_offset p)) (nat (pd_size p))) = pd_size p"
    using assms(1) by (simp add: read_region_def)
  then have "nat (pd_size p) \<le> length bs - nat (pd_offset p)" using assms(2) by linarith
  then show ?thesis using assms(2,3) by (simp add: piece_end_def nat_add_distrib)
qed

lemma read_resize:
  assumes "nat (piece_end p) \<le> length bs" "piece_end p \<le> n" "0 \<le> pd_offset p" "0 < pd_size p"
  shows "read_region (resize (nat n) bs) p = read_region bs p"
proof -
  have "nat (pd_offset p) + nat (pd_size p) \<le> nat n" "nat (pd_offset p) + nat (pd_size p) \<le> length bs"
    using assms by (simp_all add: piece_end_def nat_add_distrib)
  then show ?thesis by (simp add: read_region_def resize_def take_drop min_def)
qed

lemma read_write_same:
  assumes "0 \<le> pd_offset p" "int (length data) = pd_size p"
  shows "read_region (write_at (nat (pd_offset p)) data bs) p = data"
proof -
  have "length (resize (nat (pd_offset p)) bs) = nat (pd_offset p)" by (simp add: resize_def)
  then show ?thesis using assms(2) by (simp add: read_region_def write_at_def)
qed

lemma read_write_other:
  assumes "piece_end q \<le> pd_offset p \<or> piece_end p \<le> pd_offset q" "0 \<le> pd_offset p" "0 \<le> pd_offset q" "0 < pd_size q"
    "int (length data) = pd_size p" "nat (piece_end q) \<le> length bs"
  shows "read_region (write_at (nat (pd_offset p)) data bs) q = read_region bs q"
  using assms(1)
proof
  let ?n = "nat (pd_offset p)" and ?o = "nat (pd_offset q)" and ?s = "nat (pd_size q)"
  have fits: "?o + ?s \<le> length bs" using assms(3,4,6) by (simp add: piece_end_def nat_add_distrib)
  assume "piece_end q \<le> pd_offset p"
  then have before: "?o + ?s \<le> ?n" using assms(2-4) by (simp add: piece_end_def nat_add_distrib)
  have "take (?o + ?s) (write_at ?n data bs) = take (?o + ?s) bs"
    using before fits by (simp add: write_at_def resize_def min_def)
  then show ?thesis unfolding read_region_def by (metis add.commute take_drop)
next
  let ?n = "nat (pd_offset p)" and ?o = "nat (pd_offset q)"
  assume "piece_end p \<le> pd_offset q"
  then have "?n + length data \<le> ?o" using assms(2,5) by (simp add: piece_end_def)
  moreover have "length (resize ?n bs) = ?n" by (simp add: resize_def)
  ultimately have "drop ?o (write_at ?n data bs) = drop ?o bs" by (simp add: write_at_def)
  then show ?thesis by (simp add: read_region_def)
qed

lemma region_ok_step:
  assumes "layout_ok m" "region_ok m path fs acts0 i"
    and "\<And>off data. act = Fs_At path off data \<Longrightarrow> \<exists>p \<in> set (fm_pieces m). off = pd_offset p \<and> int (length data) = pd_size p"
    and "\<And>n. act = Fs_Truncate path n \<Longrightarrow> n = fm_size m"
    and "act \<noteq> Fs_Remove path" "\<And>d. act \<noteq> Fs_Bytes path d" "\<And>d. act \<noteq> Fs_RemoveTree d"
  shows "region_ok m path (fs_do act fs) (acts0 @ [act]) i"
proof -
  obtain q data bs where q: "layout_piece m i = Some q" "last_write path (pd_offset q) acts0 = Some data"
    "int (length data) = pd_size q" "nf_bytes fs path = Some bs" "read_region bs q = data"
    using assms(2) by (auto simp: region_ok_def)
  have lay: "0 \<le> pd_offset q" "0 < pd_size q" "piece_end q \<le> fm_size m"
    using assms(1) layout_piece_in[OF q(1)] by (auto simp: layout_ok_def)
  have fits: "nat (piece_end q) \<le> length bs" using region_length[of bs q] q lay by simp
  have not_bytes: "\<forall>d. act \<noteq> Fs_Bytes path d" and not_tree: "\<forall>d. act \<noteq> Fs_RemoveTree d" using assms(6,7) by blast+
  have keep: "nf_bytes (fs_do act fs) path = nf_bytes fs path \<and> \<not> is_write path (pd_offset q) act"
    if "\<forall>off d. act \<noteq> Fs_At path off d" "\<forall>n. act \<noteq> Fs_Truncate path n"
    using that assms(5) not_bytes not_tree by (cases act) (auto simp: is_write_def split: option.splits)
  consider (at) off d where "act = Fs_At path off d" | (trunc) n where "act = Fs_Truncate path n"
    | (else) "\<not> is_write path (pd_offset q) act" "nf_bytes (fs_do act fs) path = nf_bytes fs path"
    using keep by blast
  then show ?thesis
  proof cases
    case at
    then obtain p where p: "p \<in> set (fm_pieces m)" "off = pd_offset p" "int (length d) = pd_size p" using assms(3) by blast
    have lp: "0 \<le> pd_offset p" "0 < pd_size p" using assms(1) p(1) by (auto simp: layout_ok_def)
    show ?thesis
    proof (cases "p = q")
      case True
      then show ?thesis
        using q(1,4) at p lp read_write_same[of p d bs] by (simp add: region_ok_def last_write_snoc is_write_def write_data_def)
    next
      case False
      then have apart: "piece_end q \<le> pd_offset p \<or> piece_end p \<le> pd_offset q"
        using assms(1) p(1) layout_piece_in[OF q(1)] by (auto simp: layout_ok_def)
      then have "pd_offset p \<noteq> pd_offset q" using lp(2) lay(2) by (auto simp: piece_end_def)
      then show ?thesis
        using q at p read_write_other[OF apart lp(1) lay(1,2) p(3) fits]
        by (simp add: region_ok_def last_write_snoc is_write_def)
    qed
  next
    case trunc
    then have "n = fm_size m" using assms(4) by simp
    then show ?thesis
      using q trunc read_resize[OF fits lay(3,1,2)] by (simp add: region_ok_def last_write_snoc is_write_def)
  next
    case else
    then show ?thesis using q by (simp add: region_ok_def last_write_snoc)
  qed
qed

lemma region_ok_written:
  assumes "layout_ok m" "layout_piece m i = Some p" "int (length data) = pd_size p" "nf_bytes fs path \<noteq> None"
  shows "region_ok m path (fs_do (Fs_At path (pd_offset p) data) fs) (acts0 @ [Fs_At path (pd_offset p) data]) i"
proof -
  have "0 \<le> pd_offset p" using assms(1) layout_piece_in[OF assms(2)] by (auto simp: layout_ok_def)
  then show ?thesis
    using assms(2-4) read_write_same[of p data]
    by (auto simp: region_ok_def last_write_snoc is_write_def write_data_def)
qed

section \<open>The invariant\<close>

definition offset_file :: "fs_path \<Rightarrow> string \<Rightarrow> fs_path" where
  "offset_file dir f = dir @ [''output'', f @ ''.offset-state.json'']"

definition states_ok :: "digest \<Rightarrow> file_manifest \<Rightarrow> fs_path \<Rightarrow> node_files \<Rightarrow> fs_action list \<Rightarrow> bool" where
  "states_ok D m path fs acts0 \<longleftrightarrow>
     (\<forall>dir st i. nf_offsets fs (offset_file dir (fm_fileId m)) = Some st \<and> same_output D m path st \<and>
       i \<in> set (os_verifiedPieces st) \<longrightarrow> region_ok m path fs acts0 i)"

definition adapter_ok :: "file_manifest \<Rightarrow> fs_path \<Rightarrow> node_files \<Rightarrow> fs_action list \<Rightarrow> node_adapter \<Rightarrow> bool" where
  "adapter_ok m path fs acts0 a \<longleftrightarrow>
     (\<forall>g oo. jm_get (na_offsetOutputs a) g = Some oo \<longrightarrow>
       (if g = fm_fileId m
        then oo_manifest oo = m \<and> oo_outputPath oo = path \<and> (\<forall>i \<in> set (oo_verifiedPieces oo). region_ok m path fs acts0 i)
        else oo_outputPath oo \<noteq> path))"

definition good_act :: "digest \<Rightarrow> file_manifest \<Rightarrow> fs_path \<Rightarrow> node_files \<Rightarrow> fs_action list \<Rightarrow> fs_action \<Rightarrow> bool" where
  "good_act D m path fs acts0 act \<longleftrightarrow>
     (case act of
        Fs_At p off data \<Rightarrow> p = path \<longrightarrow> (\<exists>q \<in> set (fm_pieces m). off = pd_offset q \<and> int (length data) = pd_size q)
      | Fs_Truncate p n \<Rightarrow> p = path \<longrightarrow> n = fm_size m
      | Fs_Remove p \<Rightarrow> p \<noteq> path
      | Fs_Bytes p _ \<Rightarrow> p \<noteq> path
      | Fs_RemoveTree _ \<Rightarrow> False
      | Fs_Offsets p st \<Rightarrow>
          (\<exists>dir. p = offset_file dir (fm_fileId m)) \<longrightarrow> (\<forall>i \<in> set (os_verifiedPieces st). region_ok m path fs acts0 i)
      | _ \<Rightarrow> True)"

fun good_acts :: "digest \<Rightarrow> file_manifest \<Rightarrow> fs_path \<Rightarrow> node_files \<Rightarrow> fs_action list \<Rightarrow> fs_action list \<Rightarrow> bool" where
  "good_acts D m path fs acts0 [] = True"
| "good_acts D m path fs acts0 (act # acts) =
     (good_act D m path fs acts0 act \<and> good_acts D m path (fs_do act fs) (acts0 @ [act]) acts)"

lemma region_good_act:
  "layout_ok m \<Longrightarrow> good_act D m path fs acts0 act \<Longrightarrow> region_ok m path fs acts0 i \<Longrightarrow>
   region_ok m path (fs_do act fs) (acts0 @ [act]) i"
  by (rule region_ok_step) (auto simp: good_act_def)

lemma states_good_act:
  assumes "layout_ok m" "good_act D m path fs acts0 act" "states_ok D m path fs acts0"
  shows "states_ok D m path (fs_do act fs) (acts0 @ [act])"
  unfolding states_ok_def
proof (intro allI impI)
  fix dir st i
  assume st: "nf_offsets (fs_do act fs) (offset_file dir (fm_fileId m)) = Some st \<and> same_output D m path st \<and> i \<in> set (os_verifiedPieces st)"
  have "region_ok m path fs acts0 i"
  proof (cases "nf_offsets fs (offset_file dir (fm_fileId m)) = Some st")
    case True
    then show ?thesis using st assms(3) by (auto simp: states_ok_def)
  next
    case False
    then have "act = Fs_Offsets (offset_file dir (fm_fileId m)) st"
      using st assms(2) by (cases act) (auto simp: good_act_def split: if_splits option.splits)
    then show ?thesis using st assms(2) by (auto simp: good_act_def)
  qed
  then show "region_ok m path (fs_do act fs) (acts0 @ [act]) i" by (rule region_good_act[OF assms(1,2)])
qed

lemma good_prefix:
  "layout_ok m \<Longrightarrow> good_acts D m path fs acts0 acts \<Longrightarrow> states_ok D m path fs acts0 \<Longrightarrow>
   states_ok D m path (fold fs_do (take k acts) fs) (acts0 @ take k acts)"
proof (induction acts arbitrary: fs acts0 k)
  case (Cons act acts)
  show ?case
  proof (cases k)
    case (Suc n)
    have "states_ok D m path (fs_do act fs) (acts0 @ [act])" using Cons.prems states_good_act by auto
    from Cons.IH[OF Cons.prems(1) _ this, of n] Cons.prems Suc show ?thesis by simp
  qed (use Cons in simp)
qed simp

lemma good_regions:
  "layout_ok m \<Longrightarrow> good_acts D m path fs acts0 acts \<Longrightarrow> region_ok m path fs acts0 i \<Longrightarrow>
   region_ok m path (fold fs_do acts fs) (acts0 @ acts) i"
proof (induction acts arbitrary: fs acts0)
  case (Cons act acts)
  have "region_ok m path (fs_do act fs) (acts0 @ [act]) i" using Cons.prems region_good_act by auto
  from Cons.IH[OF Cons.prems(1) _ this] Cons.prems show ?case by simp
qed simp

lemma good_adapter:
  "layout_ok m \<Longrightarrow> good_acts D m path fs acts0 acts \<Longrightarrow> adapter_ok m path fs acts0 a \<Longrightarrow>
   adapter_ok m path (fold fs_do acts fs) (acts0 @ acts) a"
  unfolding adapter_ok_def by (metis good_regions)

lemma offset_file_inj: "offset_file dir f = offset_file dir' g \<Longrightarrow> f = g"
  unfolding offset_file_def by (drule arg_cong[where f = last]) simp

lemma offsetStatePath_file: "offsetStatePath a g = Inr p \<Longrightarrow> \<exists>dir. p = offset_file dir g"
  by (auto simp: offsetStatePath_def bind_result_Inr_iff offset_file_def sanitizePathSegment_def split: if_splits)

lemma save_good:
  assumes "layout_ok m" "adapter_ok m path fs acts0 a" "saveOffsetOutputState D now a g = (acts, res)"
  shows "good_acts D m path fs acts0 acts"
proof (cases "jm_get (na_offsetOutputs a) g")
  case (Some oo)
  show ?thesis
  proof (cases "offsetStatePath a g")
    case (Inr p)
    then obtain dir where p: "p = offset_file dir g" using offsetStatePath_file by blast
    have "region_ok m path fs (acts0 @ [Fs_Temporary]) i"
      if "p = offset_file d (fm_fileId m)" "i \<in> set (oo_verifiedPieces oo)" for d i
    proof -
      have "g = fm_fileId m" using p that(1) by (auto dest: offset_file_inj)
      then have "region_ok m path fs acts0 i" using assms(2) Some that(2) by (auto simp: adapter_ok_def)
      then show ?thesis using region_good_act[OF assms(1), of D path fs acts0 Fs_Temporary i] by (simp add: good_act_def)
    qed
    then show ?thesis
      using assms(3) Some Inr by (auto simp: saveOffsetOutputState_def good_act_def offset_state_of_def)
  qed (use assms(3) Some in \<open>auto simp: saveOffsetOutputState_def\<close>)
qed (use assms(3) in \<open>auto simp: saveOffsetOutputState_def\<close>)

definition plain_output :: "fs_path \<Rightarrow> bool" where
  "plain_output path \<longleftrightarrow> \<not> (3 \<le> length path \<and> path ! (length path - 3) = ''pieces'')"

lemma piecePath_plain: "plain_output path \<Longrightarrow> piecePath a g i = Inr p \<Longrightarrow> p \<noteq> path"
  by (auto simp: piecePath_def bind_result_Inr_iff plain_output_def nth_append)

lemma set_output_ok:
  assumes "adapter_ok m path fs acts0 a"
    and "if g = fm_fileId m then oo_manifest oo = m \<and> oo_outputPath oo = path \<and> (\<forall>i \<in> set (oo_verifiedPieces oo). region_ok m path fs acts0 i)
      else oo_outputPath oo \<noteq> path"
  shows "adapter_ok m path fs acts0 (set_output g oo a)"
  using assms by (auto simp: adapter_ok_def set_output_def)

lemma adapter_ok_outputs: "na_offsetOutputs a' = na_offsetOutputs a \<Longrightarrow> adapter_ok m path fs acts0 a' = adapter_ok m path fs acts0 a"
  by (simp add: adapter_ok_def)

lemma act_then_save:
  assumes "layout_ok m" "good_act D m path fs acts0 act" "adapter_ok m path (fs_do act fs) (acts0 @ [act]) a'"
    "saveOffsetOutputState D now a' g = (acts, res)"
  shows "good_acts D m path fs acts0 (act # acts) \<and> adapter_ok m path (fold fs_do (act # acts) fs) (acts0 @ act # acts) a'"
proof -
  have good: "good_acts D m path (fs_do act fs) (acts0 @ [act]) acts" by (rule save_good[OF assms(1,3,4)])
  with good_adapter[OF assms(1) good assms(3)] assms(2) show ?thesis by simp
qed

lemma write_good:
  assumes "layout_ok m" "plain_output path" "adapter_ok m path fs acts0 a"
    "node_writePiece D now fs a g i data = (a', acts, res)"
  shows "good_acts D m path fs acts0 acts \<and> adapter_ok m path (fold fs_do acts fs) (acts0 @ acts) a'"
proof (cases "jm_get (na_offsetOutputs a) g")
  case None
  show ?thesis
  proof (cases "piecePath a g i")
    case (Inl e)
    with None assms show ?thesis by (auto simp: node_writePiece_def)
  next
    case (Inr p)
    have good: "good_acts D m path fs acts0 [Fs_Temporary, Fs_Bytes p data]"
      using piecePath_plain[OF assms(2) Inr] by (simp add: good_act_def)
    have "a' = a" "acts = [Fs_Temporary, Fs_Bytes p data]" using None Inr assms(4) by (auto simp: node_writePiece_def)
    with good good_adapter[OF assms(1) good assms(3)] show ?thesis by simp
  qed
next
  case (Some oo)
  let ?path = "oo_outputPath oo"
  consider (refused) "a' = a" "acts = []"
    | (written) p sacts where "layout_piece (oo_manifest oo) i = Some p" "int (length data) = pd_size p" "nf_bytes fs ?path \<noteq> None"
        "a' = set_output g (oo\<lparr>oo_verifiedPieces := js_add i (oo_verifiedPieces oo)\<rparr>) a"
        "saveOffsetOutputState D now a' g = (sacts, res)" "acts = Fs_At ?path (pd_offset p) data # sacts"
  proof (cases "layout_piece (oo_manifest oo) i")
    case None
    with Some assms(4) that(1) show ?thesis by (simp add: node_writePiece_def)
  next
    case (Some p)
    with \<open>jm_get (na_offsetOutputs a) g = Some oo\<close> assms(4) that show ?thesis
      by (auto simp: node_writePiece_def Let_def split: if_splits prod.splits)
  qed
  then show ?thesis
  proof cases
    case refused
    with assms(3) show ?thesis by simp
  next
    case written
    let ?act = "Fs_At ?path (pd_offset p) data"
    note out = assms(3)[unfolded adapter_ok_def, rule_format, OF Some]
    have good: "good_act D m path fs acts0 ?act"
    proof (cases "g = fm_fileId m")
      case True
      then show ?thesis using out written(1,2) layout_piece_in[of m i p] by (auto simp: good_act_def)
    next
      case False
      then show ?thesis using out by (simp add: good_act_def)
    qed
    have "adapter_ok m path (fs_do ?act fs) (acts0 @ [?act]) a"
      using good_adapter[OF assms(1) _ assms(3), of D "[?act]"] good by simp
    moreover have "region_ok m path (fs_do ?act fs) (acts0 @ [?act]) j"
      if "g = fm_fileId m" "j \<in> set (js_add i (oo_verifiedPieces oo))" for j
    proof (cases "j = i")
      case True
      then show ?thesis using region_ok_written[OF assms(1), of i p data fs path acts0] out written(1-3) that(1) by simp
    next
      case False
      then have "region_ok m path fs acts0 j" using out that by (auto simp: set_js_add)
      then show ?thesis by (rule region_good_act[OF assms(1) good])
    qed
    ultimately have "adapter_ok m path (fs_do ?act fs) (acts0 @ [?act]) a'"
      unfolding written(4) using out by (intro set_output_ok) auto
    from act_then_save[OF assms(1) good this written(5)] show ?thesis by (simp add: written(6))
  qed
qed

lemma delete_good:
  assumes "layout_ok m" "plain_output path" "adapter_ok m path fs acts0 a"
    "node_deletePiece D now a g i = (a', acts, res)"
  shows "good_acts D m path fs acts0 acts \<and> adapter_ok m path (fold fs_do acts fs) (acts0 @ acts) a'"
proof (cases "jm_get (na_offsetOutputs a) g")
  case None
  show ?thesis
  proof (cases "piecePath a g i")
    case (Inl e)
    with None assms show ?thesis by (auto simp: node_deletePiece_def)
  next
    case (Inr p)
    have good: "good_acts D m path fs acts0 [Fs_Remove p]"
      using piecePath_plain[OF assms(2) Inr] by (simp add: good_act_def)
    have "a' = a" "acts = [Fs_Remove p]" using None Inr assms(4) by (auto simp: node_deletePiece_def)
    with good good_adapter[OF assms(1) good assms(3)] show ?thesis by simp
  qed
next
  case (Some oo)
  note out = assms(3)[unfolded adapter_ok_def, rule_format, OF Some]
  have a': "a' = set_output g (oo\<lparr>oo_verifiedPieces := filter (\<lambda>j. j \<noteq> i) (oo_verifiedPieces oo)\<rparr>) a"
    and save: "saveOffsetOutputState D now a' g = (acts, res)"
    using assms(4) Some by (auto simp: node_deletePiece_def Let_def split: prod.splits)
  have ok: "adapter_ok m path fs acts0 a'"
    unfolding a' using out by (intro set_output_ok assms(3)) auto
  have good: "good_acts D m path fs acts0 acts" by (rule save_good[OF assms(1) ok save])
  with good_adapter[OF assms(1) good ok] show ?thesis by simp
qed

lemma prepare_good:
  assumes "layout_ok m" "states_ok D m path fs acts0" "adapter_ok m path fs acts0 a" "op_fits m path (Node_Prepare m' path')"
    "prepareOutputFile D now fs a m' path' = (a', acts, res)"
  shows "good_acts D m path fs acts0 acts \<and> adapter_ok m path (fold fs_do acts fs) (acts0 @ acts) a'"
proof -
  let ?act = "Fs_Truncate path' (fm_size m')"
  have good: "good_act D m path fs acts0 ?act" using assms(4) by (auto simp: good_act_def op_fits_def split: if_splits)
  have ok: "adapter_ok m path (fs_do ?act fs) (acts0 @ [?act]) a"
    using good_adapter[OF assms(1) _ assms(3), of D "[?act]"] good by simp
  show ?thesis
  proof (cases "loadOffsetOutputState a fs (fm_fileId m')")
    case (Inl e)
    with good ok assms(5) show ?thesis by (auto simp: prepareOutputFile_def)
  next
    case (Inr saved)
    define verified where "verified = (case saved of
        Some st \<Rightarrow> if same_output D m' path' st then js_set_of (os_verifiedPieces st) else [] | None \<Rightarrow> [])"
    define b where "b = set_output (fm_fileId m') \<lparr>oo_manifest = m', oo_outputPath = path', oo_verifiedPieces = verified\<rparr> a"
    obtain sacts where a': "a' = b" "saveOffsetOutputState D now b (fm_fileId m') = (sacts, res)" "acts = ?act # sacts"
      using assms(5) Inr by (auto simp: prepareOutputFile_def Let_def b_def verified_def split: prod.splits)
    have "region_ok m path fs acts0 j" if "fm_fileId m' = fm_fileId m" "j \<in> set verified" for j
    proof -
      note jm = that
      obtain p where p: "offsetStatePath a (fm_fileId m') = Inr p"
        "saved = (case nf_offsets fs p of Some st \<Rightarrow> if os_schemaVersion st = 1 then Some st else None | None \<Rightarrow> None)"
        using Inr by (auto simp: loadOffsetOutputState_def bind_result_Inr_iff)
      obtain st where st: "saved = Some st" "same_output D m' path' st" "j \<in> set (os_verifiedPieces st)"
        using jm(2) unfolding verified_def by (cases saved) (auto simp: set_js_set_of split: if_splits)
      obtain dir where "p = offset_file dir (fm_fileId m)" using offsetStatePath_file[OF p(1)] jm(1) by auto
      moreover have "nf_offsets fs p = Some st" using p(2) st(1) by (cases "nf_offsets fs p") (auto split: if_splits)
      moreover have "m' = m" "path' = path" using assms(4) jm(1) by (simp_all add: op_fits_def)
      ultimately have "nf_offsets fs (offset_file dir (fm_fileId m)) = Some st \<and> same_output D m path st \<and> j \<in> set (os_verifiedPieces st)"
        using st by simp
      then show ?thesis using assms(2) unfolding states_ok_def by blast
    qed
    then have "adapter_ok m path (fs_do ?act fs) (acts0 @ [?act]) b"
      unfolding b_def using assms(4) ok region_good_act[OF assms(1) good]
      by (intro set_output_ok) (auto simp: op_fits_def split: if_splits)
    from act_then_save[OF assms(1) good this a'(2)] show ?thesis by (simp add: a')
  qed
qed

lemma perform_good:
  assumes "layout_ok m" "plain_output path" "states_ok D m path fs acts0" "adapter_ok m path fs acts0 a" "op_fits m path op"
    "node_perform D now op fs a = (a', acts)"
  shows "good_acts D m path fs acts0 acts \<and> adapter_ok m path (fold fs_do acts fs) (acts0 @ acts) a'"
proof (cases op)
  case (Node_Init sid)
  have "na_offsetOutputs (fst (node_init a sid)) = na_offsetOutputs a" by (simp add: node_init_def split: sum.splits)
  with Node_Init assms(4,6) adapter_ok_outputs[of "fst (node_init a sid)" a] show ?thesis by auto
next
  case (Node_Load sid)
  have "na_offsetOutputs (fst (node_loadState fs a sid)) = na_offsetOutputs a" by (simp add: node_loadState_def split: sum.splits)
  with Node_Load assms(4,6) adapter_ok_outputs[of "fst (node_loadState fs a sid)" a] show ?thesis by auto
next
  case (Node_Write g i d)
  then obtain res where "node_writePiece D now fs a g i d = (a', acts, res)"
    using assms(6) by (cases "node_writePiece D now fs a g i d") auto
  then show ?thesis by (rule write_good[OF assms(1,2,4)])
next
  case (Node_Delete g i)
  then obtain res where "node_deletePiece D now a g i = (a', acts, res)"
    using assms(6) by (cases "node_deletePiece D now a g i") auto
  then show ?thesis by (rule delete_good[OF assms(1,2,4)])
next
  case (Node_Prepare m' p')
  then obtain res where "prepareOutputFile D now fs a m' p' = (a', acts, res)"
    using assms(6) by (cases "prepareOutputFile D now fs a m' p'") auto
  with assms(5) Node_Prepare show ?thesis by (intro prepare_good[OF assms(1,3,4)]) auto
next
  case (Node_Save st)
  have "a' = a \<and> good_acts D m path fs acts0 acts"
    using Node_Save assms(6) by (auto simp: node_saveState_def good_act_def split: sum.splits)
  with good_adapter[OF assms(1) _ assms(4)] show ?thesis by blast
qed

definition machine_ok :: "digest \<Rightarrow> file_manifest \<Rightarrow> fs_path \<Rightarrow> node_machine \<Rightarrow> bool" where
  "machine_ok D m path x \<longleftrightarrow> states_ok D m path (nm_files x) (nm_log x) \<and> adapter_ok m path (nm_files x) (nm_log x) (nm_adapter x)"

lemma node_run_ok: "node_run D m path x \<Longrightarrow> layout_ok m \<Longrightarrow> plain_output path \<Longrightarrow> machine_ok D m path x"
proof (induction rule: node_run.induct)
  case (boot root safe b s)
  show ?case by (simp add: machine_ok_def states_ok_def adapter_ok_def new_node_adapter_def)
next
  case (op x opn now a acts)
  then have ok: "states_ok D m path (nm_files x) (nm_log x)" "adapter_ok m path (nm_files x) (nm_log x) (nm_adapter x)"
    by (simp_all add: machine_ok_def)
  from perform_good[OF op(5,6) ok op(2,3)] good_prefix[OF op(5) _ ok(1), of acts "length acts"]
  show ?case by (simp add: machine_ok_def)
next
  case (crash x opn now a acts root safe k)
  then have ok: "states_ok D m path (nm_files x) (nm_log x)" "adapter_ok m path (nm_files x) (nm_log x) (nm_adapter x)"
    by (simp_all add: machine_ok_def)
  from perform_good[OF crash(5,6) ok crash(2,3)] good_prefix[OF crash(5) _ ok(1), of acts k]
  show ?case by (simp add: machine_ok_def adapter_ok_def new_node_adapter_def)
qed

section \<open>What survives\<close>



text \<open>An example: one file of two pieces, the first one written, a crash in the middle of writing the second.\<close>

definition example_output :: file_manifest where
  "example_output =
     \<lparr>fm_version = ''1'', fm_fileId = ''f'', fm_name = ''n'', fm_size = 3, fm_mimeType = ''t'', fm_pieceSize = 2, fm_pieceCount = 2,
      fm_fileHash = None, fm_fileHashUnavailableReason = None,
      fm_pieces = [\<lparr>pd_index = 0, pd_offset = 0, pd_size = 2, pd_hash = None\<rparr>, \<lparr>pd_index = 1, pd_offset = 2, pd_size = 1, pd_hash = None\<rparr>]\<rparr>"

lemma example_layout_ok: "layout_ok example_output"
  by (simp add: layout_ok_def example_output_def piece_end_def)


abbreviation no_digest :: digest where
  "no_digest \<equiv> (\<lambda>_. [])"

definition perform_step :: "node_op \<Rightarrow> node_machine \<Rightarrow> node_machine" where
  "perform_step opn x =
     (let (a, acts) = node_perform no_digest 0 opn (nm_files x) (nm_adapter x) in
      \<lparr>nm_adapter = a, nm_files = fold fs_do acts (nm_files x), nm_log = nm_log x @ acts\<rparr>)"

definition crash_step :: "nat \<Rightarrow> node_op \<Rightarrow> node_machine \<Rightarrow> node_machine" where
  "crash_step k opn x =
     (let (a, acts) = node_perform no_digest 0 opn (nm_files x) (nm_adapter x) in
      \<lparr>nm_adapter = new_node_adapter [''r''] None, nm_files = fold fs_do (take k acts) (nm_files x), nm_log = nm_log x @ take k acts\<rparr>)"

lemma perform_step_run: "node_run no_digest m path x \<Longrightarrow> op_fits m path opn \<Longrightarrow> node_run no_digest m path (perform_step opn x)"
  by (auto simp: perform_step_def Let_def split: prod.splits intro: node_run.op)

lemma crash_step_run: "node_run no_digest m path x \<Longrightarrow> op_fits m path opn \<Longrightarrow> node_run no_digest m path (crash_step k opn x)"
  by (auto simp: crash_step_def Let_def split: prod.splits intro: node_run.crash)

definition booted :: node_machine where
  "booted = \<lparr>nm_adapter = new_node_adapter [''r''] None, nm_files = \<lparr>nf_bytes = Map.empty, nf_states = Map.empty, nf_offsets = Map.empty\<rparr>, nm_log = []\<rparr>"

definition example_machine :: node_machine where
  "example_machine =
     perform_step (Node_Init ''s'') (crash_step 1 (Node_Write ''f'' 1 [9]) (perform_step (Node_Write ''f'' 0 [7, 8])
       (perform_step (Node_Prepare example_output [''o'']) (perform_step (Node_Init ''s'') booted))))"

lemma example_machine_run: "node_run no_digest example_output [''o''] example_machine"
  unfolding example_machine_def booted_def
  by (intro perform_step_run crash_step_run node_run.boot) (simp_all add: op_fits_def)

lemmas node_eval = perform_step_def crash_step_def booted_def node_init_def node_writePiece_def prepareOutputFile_def
  loadOffsetOutputState_def saveOffsetOutputState_def offsetStatePath_def sessionDir_def sanitizePathSegment_def set_output_def
  offset_state_of_def same_output_def layout_piece_def new_node_adapter_def example_output_def node_hasPiece_def hashPieceLayout_def
  bytesToHex_def js_add_def js_set_of_def int_after_def

lemma example_machine_eval:
  "nm_adapter example_machine = (new_node_adapter [''r''] None)\<lparr>na_sessionId := Some ''s''\<rparr>"
  "nf_bytes (nm_files example_machine) = [[''o''] \<mapsto> [7, 8, 9]]"
  "nf_offsets (nm_files example_machine) (offset_file [''r'', ''sessions'', ''s''] ''f'') =
     Some (offset_state_of no_digest 0 ''f'' \<lparr>oo_manifest = example_output, oo_outputPath = [''o''], oo_verifiedPieces = [0]\<rparr>)"
  by (simp_all add: example_machine_def node_eval offset_file_def resize_def write_at_def Let_def)

definition example_prepared :: "unit node_result" where
  "example_prepared = prepareOutputFile no_digest 0 (nm_files example_machine) (nm_adapter example_machine) example_output [''o'']"

lemma example_prepared_eval:
  "example_prepared =
     (set_output ''f'' \<lparr>oo_manifest = example_output, oo_outputPath = [''o''], oo_verifiedPieces = [0]\<rparr>
        ((new_node_adapter [''r''] None)\<lparr>na_sessionId := Some ''s''\<rparr>),
      [Fs_Truncate [''o''] 3, Fs_Temporary, Fs_Offsets (offset_file [''r'', ''sessions'', ''s''] ''f'')
        (offset_state_of no_digest 0 ''f'' \<lparr>oo_manifest = example_output, oo_outputPath = [''o''], oo_verifiedPieces = [0]\<rparr>)],
      Inr ())"
  unfolding example_prepared_def example_machine_eval(1)
  using example_machine_eval(3)
  by (simp add: prepareOutputFile_def loadOffsetOutputState_def saveOffsetOutputState_def offsetStatePath_def sessionDir_def
      sanitizePathSegment_def set_output_def offset_state_of_def same_output_def new_node_adapter_def hashPieceLayout_def
      bytesToHex_def js_set_of_def js_add_def offset_file_def example_output_def Let_def)


definition example_adapter :: node_adapter where
  "example_adapter = fst example_prepared"

definition example_node_files :: node_files where
  "example_node_files = \<lparr>nf_bytes = [[''o''] \<mapsto> [7, 8, 0]], nf_states = Map.empty, nf_offsets = Map.empty\<rparr>"


text \<open>
  \<open>readPiece\<close> opens the output outside its \<open>try\<close>: a verified piece whose output file is gone makes it throw, where a missing
  piece file reads as \<open>undefined\<close>.
\<close>

lemma missing_output_throws:
  assumes "jm_get (na_offsetOutputs a) f = Some oo" "i \<in> set (oo_verifiedPieces oo)" "layout_piece (oo_manifest oo) i = Some p"
    "nf_bytes fs (oo_outputPath oo) = None"
  shows "node_readPiece fs a f i = Inl enoent"
  using assms by (simp add: node_readPiece_def)

text \<open>An output that is named after another file's offset state is that state.\<close>

lemma output_collides_with_state:
  assumes "sessionDir a = Inr dir" "sanitizePathSegment f ''fileId'' = Inr f" "basename nm = f @ ''.offset-state.json''"
  shows "outputPath basename a nm = offsetStatePath a f"
  using assms by (simp add: outputPath_def offsetStatePath_def)

end
