(* ===== verification/Browser_Storage.thy ===== *)
theory Browser_Storage
  imports Piece_Storage
begin

text \<open>
  The two persistent browser adapters of \<open>packages/core/src/index.ts\<close> over their platform stores, and the
  factory that picks an adapter. An IndexedDB object store is the map from its key path to the row, the origin private
  file system a directory of session directories; platform requests that are issued succeed, and whether
  the platform offers them at all is an argument. Both adapters satisfy the laws of \<open>piece_store\<close>.
\<close>

section \<open>IndexedDB\<close>

record idb_store =
  idb_db :: bool
  idb_sessionId :: "string option"
  idb_pieces :: "(string \<times> string \<times> int, bytes) js_map"
  idb_sessions :: "(string, persisted_session) js_map"
  idb_manifests :: "(string \<times> string, file_manifest) js_map"

definition indexeddb_unavailable :: pons_error where
  "indexeddb_unavailable = PonsWarpError ''storage:indexeddb_unavailable'' None None"

definition idb_init :: "bool \<Rightarrow> idb_store \<Rightarrow> string \<Rightarrow> idb_store \<times> unit result" where
  "idb_init available s sessionId =
     (if \<not> available then (s, Inl indexeddb_unavailable)
      else (s\<lparr>idb_db := True, idb_sessionId := Some sessionId\<rparr>, Inr ()))"

definition idb_requireSession :: "idb_store \<Rightarrow> string result" where
  "idb_requireSession s =
     (case idb_sessionId s of
        None \<Rightarrow> Inl storage_not_initialized
      | Some sid \<Rightarrow> if sid = '''' then Inl storage_not_initialized else Inr sid)"

definition idb_requireDb :: "idb_store \<Rightarrow> unit result" where
  "idb_requireDb s = (if idb_db s then Inr () else Inl storage_not_initialized)"

text \<open>The key is built before the store is opened, so the session check comes first.\<close>

definition idb_key :: "idb_store \<Rightarrow> string \<Rightarrow> int \<Rightarrow> (string \<times> string \<times> int) result" where
  "idb_key s fileId pieceIndex =
     bind_result (idb_requireSession s) (\<lambda>sid. bind_result (idb_requireDb s) (\<lambda>_. Inr (sid, fileId, pieceIndex)))"

definition idb_writePiece :: "idb_store \<Rightarrow> string \<Rightarrow> int \<Rightarrow> bytes \<Rightarrow> idb_store \<times> unit result" where
  "idb_writePiece s fileId pieceIndex data =
     (case idb_key s fileId pieceIndex of
        Inl e \<Rightarrow> (s, Inl e)
      | Inr k \<Rightarrow> (s\<lparr>idb_pieces := jm_set k data (idb_pieces s)\<rparr>, Inr ()))"

definition idb_readPiece :: "idb_store \<Rightarrow> string \<Rightarrow> int \<Rightarrow> bytes option result" where
  "idb_readPiece s fileId pieceIndex =
     bind_result (idb_key s fileId pieceIndex) (\<lambda>k. Inr (jm_get (idb_pieces s) k))"

definition idb_hasPiece :: "idb_store \<Rightarrow> string \<Rightarrow> int \<Rightarrow> bool result" where
  "idb_hasPiece s fileId pieceIndex =
     bind_result (idb_readPiece s fileId pieceIndex) (\<lambda>r. Inr (r \<noteq> None))"

definition idb_deletePiece :: "idb_store \<Rightarrow> string \<Rightarrow> int \<Rightarrow> idb_store \<times> unit result" where
  "idb_deletePiece s fileId pieceIndex =
     (case idb_key s fileId pieceIndex of
        Inl e \<Rightarrow> (s, Inl e)
      | Inr k \<Rightarrow> (s\<lparr>idb_pieces := jm_delete k (idb_pieces s)\<rparr>, Inr ()))"

definition idb_saveState :: "idb_store \<Rightarrow> persisted_session \<Rightarrow> idb_store \<times> unit result" where
  "idb_saveState s state =
     (case bind_result (validatePersistedSessionState (encode_session state)) (\<lambda>_. idb_requireDb s) of
        Inl e \<Rightarrow> (s, Inl e)
      | Inr _ \<Rightarrow>
          (s\<lparr>idb_sessions := jm_set (ss_sessionId state) state (idb_sessions s),
             idb_manifests := foldl (\<lambda>acc m. jm_set (ss_sessionId state, fm_fileId m) m acc) (idb_manifests s)
               (ss_manifests state)\<rparr>, Inr ()))"

definition idb_loadState :: "bool \<Rightarrow> idb_store \<Rightarrow> string \<Rightarrow> idb_store \<times> persisted_session option result" where
  "idb_loadState available s sessionId =
     (case (if idb_sessionId s \<noteq> Some sessionId then idb_init available s sessionId else (s, Inr ())) of
        (s1, Inl e) \<Rightarrow> (s1, Inl e)
      | (s1, Inr _) \<Rightarrow>
          (s1, bind_result (idb_requireDb s1) (\<lambda>_. Inr (jm_get (idb_sessions s1) sessionId))))"

definition idb_cleanup :: "idb_store \<Rightarrow> string \<Rightarrow> idb_store \<times> unit result" where
  "idb_cleanup s sessionId =
     (case idb_requireDb s of
        Inl e \<Rightarrow> (s, Inl e)
      | Inr _ \<Rightarrow>
          (let s1 = s\<lparr>idb_sessions := jm_delete sessionId (idb_sessions s)\<rparr>;
               pieceKeys = filter (\<lambda>k. fst k = sessionId) (jm_keys (idb_pieces s1));
               manifestKeys = filter (\<lambda>k. fst k = sessionId) (jm_keys (idb_manifests s1));
               s2 = s1\<lparr>idb_pieces := fold jm_delete pieceKeys (idb_pieces s1),
                       idb_manifests := fold jm_delete manifestKeys (idb_manifests s1)\<rparr>
           in (if idb_sessionId s2 = Some sessionId then s2\<lparr>idb_sessionId := None\<rparr> else s2, Inr ())))"

definition idb_ready :: "idb_store \<Rightarrow> bool" where
  "idb_ready s \<longleftrightarrow> (\<exists>sid. idb_requireSession s = Inr sid) \<and> idb_db s"

definition idb_view :: "idb_store \<Rightarrow> string \<Rightarrow> int \<Rightarrow> bytes option" where
  "idb_view s f i = (case idb_requireSession s of Inl _ \<Rightarrow> None | Inr sid \<Rightarrow> jm_get (idb_pieces s) (sid, f, i))"

lemma idb_key_pieces [simp]: "idb_requireSession (s\<lparr>idb_pieces := P\<rparr>) = idb_requireSession s"
  by (simp add: idb_requireSession_def)

interpretation idb: piece_store "idb_init True" idb_writePiece idb_readPiece idb_hasPiece idb_deletePiece idb_view idb_ready
  by unfold_locales
    (auto simp: idb_ready_def idb_view_def idb_writePiece_def idb_readPiece_def idb_hasPiece_def idb_deletePiece_def
      idb_key_def idb_requireDb_def bind_result_def split: sum.splits)

lemma fold_jm_delete: "fold jm_delete ks m = filter (\<lambda>e. fst e \<notin> set ks) m"
  by (induction ks arbitrary: m) (auto simp: AList.delete_eq intro: filter_cong)

lemma jm_get_fold_delete: "jm_get (fold jm_delete ks m) k = (if k \<in> set ks then None else jm_get m k)"
  by (induction ks arbitrary: m) auto

text \<open>
  Cleaning up one session of the IndexedDB adapter removes exactly that session's state, pieces and
  manifests; every other session keeps its rows.
\<close>

theorem idb_cleanup_only_own_session:
  assumes "idb_db s"
  shows "snd (idb_cleanup s sid) = Inr () \<and>
    jm_get (idb_sessions (fst (idb_cleanup s sid))) sid' = (if sid' = sid then None else jm_get (idb_sessions s) sid') \<and>
    jm_get (idb_pieces (fst (idb_cleanup s sid))) (sid', f, i) = (if sid' = sid then None else jm_get (idb_pieces s) (sid', f, i)) \<and>
    jm_get (idb_manifests (fst (idb_cleanup s sid))) (sid', f) = (if sid' = sid then None else jm_get (idb_manifests s) (sid', f))"
proof -
  have own: "jm_get (fold jm_delete (filter (\<lambda>k. fst k = sid) (jm_keys m)) m) (x, k) =
      (if x = sid then None else jm_get m (x, k))" for x k and m :: "(string \<times> 'k, 'v) js_map"
  proof (cases "(x, k) \<in> set (jm_keys m)")
    case True
    then show ?thesis by (auto simp: jm_get_fold_delete)
  next
    case False
    then have "jm_get m (x, k) = None" by (simp only: jm_get_None_iff not_False_eq_True)
    then show ?thesis by (auto simp: jm_get_fold_delete)
  qed
  show ?thesis
    using assms by (auto simp: idb_cleanup_def idb_requireDb_def Let_def own)
qed

theorem idb_cleanup_only_own_session_witness:
  "jm_get (idb_pieces (fst (idb_cleanup \<lparr>idb_db = True, idb_sessionId = Some ''a'',
     idb_pieces = [((''a'', ''f'', 0), [1]), ((''b'', ''f'', 0), [2])], idb_sessions = [], idb_manifests = []\<rparr> ''a'')))
     (''b'', ''f'', 0) = Some [2]"
proof -
  let ?s = "\<lparr>idb_db = True, idb_sessionId = Some ''a'', idb_pieces = [((''a'', ''f'', 0), [1]), ((''b'', ''f'', 0), [2])],
     idb_sessions = [], idb_manifests = []\<rparr>"
  have "idb_db ?s" by simp
  from idb_cleanup_only_own_session [OF this, of "''a''" "''b''" "''f''" 0] show ?thesis by simp
qed

section \<open>The origin private file system\<close>

text \<open>
  One session directory: its state file, and one directory per file with one entry per piece. \<open>None\<close> is a
  directory or an entry that does not exist (\<open>NotFoundError\<close>), which the adapter reads as a missing piece.
\<close>

record opfs_dir =
  dir_state :: "persisted_session option"
  dir_files :: "(string, (string, bytes) js_map) js_map"
  dir_assembled :: "(string, bytes) js_map"

record opfs_store =
  opfs_sessions :: "(string, opfs_dir) js_map"
  opfs_root :: "string option"
  opfs_sessionId :: "string option"

definition empty_dir :: opfs_dir where
  "empty_dir = \<lparr>dir_state = None, dir_files = [], dir_assembled = []\<rparr>"

definition opfs_unavailable :: pons_error where
  "opfs_unavailable = PonsWarpError ''storage:opfs_unavailable'' None None"

definition open_dir :: "(string, opfs_dir) js_map \<Rightarrow> string \<Rightarrow> (string, opfs_dir) js_map" where
  "open_dir ds k = (case jm_get ds k of None \<Rightarrow> jm_set k empty_dir ds | Some _ \<Rightarrow> ds)"

text \<open>The probe writes, reads and removes a file of its own, which leaves the directory as it was.\<close>

definition opfs_init :: "bool \<Rightarrow> opfs_store \<Rightarrow> string \<Rightarrow> opfs_store \<times> unit result" where
  "opfs_init available s sessionId =
     (if \<not> available then (s, Inl opfs_unavailable)
      else (s\<lparr>opfs_sessions := open_dir (opfs_sessions s) sessionId, opfs_root := Some sessionId,
              opfs_sessionId := Some sessionId\<rparr>, Inr ()))"

definition opfs_requireRoot :: "opfs_store \<Rightarrow> (string \<times> opfs_dir) result" where
  "opfs_requireRoot s =
     (case (opfs_root s, opfs_sessionId s) of
        (Some r, Some sid) \<Rightarrow>
          if sid = '''' then Inl storage_not_initialized
          else (case jm_get (opfs_sessions s) r of
                  None \<Rightarrow> Inl storage_not_initialized
                | Some d \<Rightarrow> Inr (r, d))
      | _ \<Rightarrow> Inl storage_not_initialized)"

definition piece_file_name :: "int \<Rightarrow> string" where
  "piece_file_name pieceIndex = show_int pieceIndex @ ''.piece''"

definition set_dir :: "opfs_store \<Rightarrow> string \<Rightarrow> opfs_dir \<Rightarrow> opfs_store" where
  "set_dir s r d = s\<lparr>opfs_sessions := jm_set r d (opfs_sessions s)\<rparr>"

definition opfs_writePiece :: "opfs_store \<Rightarrow> string \<Rightarrow> int \<Rightarrow> bytes \<Rightarrow> opfs_store \<times> unit result" where
  "opfs_writePiece s fileId pieceIndex data =
     (case opfs_requireRoot s of
        Inl e \<Rightarrow> (s, Inl e)
      | Inr (r, d) \<Rightarrow>
          (let entries = (case jm_get (dir_files d) fileId of None \<Rightarrow> [] | Some es \<Rightarrow> es)
           in (set_dir s r (d\<lparr>dir_files := jm_set fileId (jm_set (piece_file_name pieceIndex) data entries) (dir_files d)\<rparr>),
               Inr ())))"

definition opfs_readPiece :: "opfs_store \<Rightarrow> string \<Rightarrow> int \<Rightarrow> bytes option result" where
  "opfs_readPiece s fileId pieceIndex =
     bind_result (opfs_requireRoot s) (\<lambda>(r, d). Inr
       (case jm_get (dir_files d) fileId of None \<Rightarrow> None | Some es \<Rightarrow> jm_get es (piece_file_name pieceIndex)))"

definition opfs_hasPiece :: "opfs_store \<Rightarrow> string \<Rightarrow> int \<Rightarrow> bool result" where
  "opfs_hasPiece s fileId pieceIndex =
     bind_result (opfs_readPiece s fileId pieceIndex) (\<lambda>r. Inr (r \<noteq> None))"

definition opfs_deletePiece :: "opfs_store \<Rightarrow> string \<Rightarrow> int \<Rightarrow> opfs_store \<times> unit result" where
  "opfs_deletePiece s fileId pieceIndex =
     (case opfs_requireRoot s of
        Inl e \<Rightarrow> (s, Inl e)
      | Inr (r, d) \<Rightarrow>
          (case jm_get (dir_files d) fileId of
             None \<Rightarrow> (s, Inr ())
           | Some es \<Rightarrow>
               (set_dir s r (d\<lparr>dir_files := jm_set fileId (jm_delete (piece_file_name pieceIndex) es) (dir_files d)\<rparr>),
                Inr ())))"

text \<open>Saving does not validate, loading does.\<close>

definition opfs_saveState :: "opfs_store \<Rightarrow> persisted_session \<Rightarrow> opfs_store \<times> unit result" where
  "opfs_saveState s state =
     (case opfs_requireRoot s of
        Inl e \<Rightarrow> (s, Inl e)
      | Inr (r, d) \<Rightarrow> (set_dir s r (d\<lparr>dir_state := Some state\<rparr>), Inr ()))"

definition opfs_loadState :: "bool \<Rightarrow> opfs_store \<Rightarrow> string \<Rightarrow> opfs_store \<times> persisted_session option result" where
  "opfs_loadState available s sessionId =
     (case (if opfs_sessionId s \<noteq> Some sessionId then opfs_init available s sessionId else (s, Inr ())) of
        (s1, Inl e) \<Rightarrow> (s1, Inl e)
      | (s1, Inr _) \<Rightarrow>
          (s1, bind_result (opfs_requireRoot s1) (\<lambda>(r, d).
             case dir_state d of
               None \<Rightarrow> Inr None
             | Some state \<Rightarrow>
                 bind_result (validatePersistedSessionState (encode_session state)) (\<lambda>_. Inr (Some state)))))"

text \<open>The name of the assembled file: every run of other characters becomes one underscore.\<close>

definition safe_char :: "char \<Rightarrow> bool" where
  "safe_char c \<longleftrightarrow> (let n = of_char c :: nat in
     (65 \<le> n \<and> n \<le> 90) \<or> (97 \<le> n \<and> n \<le> 122) \<or> (48 \<le> n \<and> n \<le> 57)) \<or> c \<in> set ''._-''"

fun replace_runs :: "bool \<Rightarrow> string \<Rightarrow> string" where
  "replace_runs inRun [] = []"
| "replace_runs inRun (c # cs) =
     (if safe_char c then c # replace_runs False cs
      else if inRun then replace_runs True cs
      else CHR ''_'' # replace_runs True cs)"

definition safe_id :: "string \<Rightarrow> string" where
  "safe_id fileId = replace_runs False fileId"

definition opfs_saveAssembledFile :: "opfs_store \<Rightarrow> string \<Rightarrow> file_manifest \<Rightarrow> ('k \<Rightarrow> bytes \<Rightarrow> 'k result) \<Rightarrow> 'k option
    \<Rightarrow> opfs_store \<times> 'k option \<times> save_result result" where
  "opfs_saveAssembledFile s fileId manifest snk sink =
     (case sink of
        Some k \<Rightarrow>
          (case pipeTo snk (opfs_readPiece s) fileId manifest 0 k of
             (k', Inl e) \<Rightarrow> (s, Some k', Inl e)
           | (k', Inr _) \<Rightarrow> (s, Some k', Inr (SavedStream (fm_size manifest))))
      | None \<Rightarrow>
          (case opfs_requireRoot s of
             Inl e \<Rightarrow> (s, None, Inl e)
           | Inr (r, d) \<Rightarrow>
               (case pipeTo (\<lambda>acc data. Inr (acc @ data)) (opfs_readPiece s) fileId manifest 0 [] of
                  (_, Inl e) \<Rightarrow> (s, None, Inl e)
                | (written, Inr _) \<Rightarrow>
                    (set_dir s r (d\<lparr>dir_assembled := jm_set (safe_id fileId @ ''.bin'') written (dir_assembled d)\<rparr>), None,
                     Inr (SavedBlob \<lparr>blob_bytes = written, blob_name = None, blob_type = Some ''''\<rparr> (int (length written)))))))"

definition opfs_cleanup :: "bool \<Rightarrow> opfs_store \<Rightarrow> string \<Rightarrow> opfs_store" where
  "opfs_cleanup available s sessionId =
     (if \<not> available then s
      else let s1 = s\<lparr>opfs_sessions := jm_delete sessionId (opfs_sessions s)\<rparr>
           in if opfs_sessionId s1 = Some sessionId then s1\<lparr>opfs_sessionId := None, opfs_root := None\<rparr> else s1)"

definition opfs_ready :: "opfs_store \<Rightarrow> bool" where
  "opfs_ready s \<longleftrightarrow> (\<exists>x. opfs_requireRoot s = Inr x)"

definition opfs_view :: "opfs_store \<Rightarrow> string \<Rightarrow> int \<Rightarrow> bytes option" where
  "opfs_view s f i = (case opfs_requireRoot s of
     Inl _ \<Rightarrow> None
   | Inr (r, d) \<Rightarrow> (case jm_get (dir_files d) f of None \<Rightarrow> None | Some es \<Rightarrow> jm_get es (piece_file_name i)))"

lemma piece_file_name_inj [simp]: "piece_file_name i = piece_file_name j \<longleftrightarrow> i = j"
  using show_int_inj by (auto simp: piece_file_name_def)

lemma opfs_requireRoot_Inr:
  "opfs_requireRoot s = Inr (r, d) \<longleftrightarrow>
     opfs_root s = Some r \<and> (\<exists>sid. opfs_sessionId s = Some sid \<and> sid \<noteq> '''') \<and> jm_get (opfs_sessions s) r = Some d"
  by (auto simp: opfs_requireRoot_def split: option.splits if_splits)

lemma opfs_requireRoot_set_dir:
  "opfs_requireRoot s = Inr (r, d) \<Longrightarrow> opfs_requireRoot (set_dir s r d') = Inr (r, d')"
  by (auto simp: opfs_requireRoot_Inr set_dir_def)

interpretation opfs: piece_store "opfs_init True" opfs_writePiece opfs_readPiece opfs_hasPiece opfs_deletePiece
  opfs_view opfs_ready
  by unfold_locales
    (auto simp: opfs_ready_def opfs_view_def opfs_writePiece_def opfs_readPiece_def opfs_hasPiece_def opfs_deletePiece_def
      bind_result_def opfs_requireRoot_set_dir Let_def split: sum.splits option.splits if_splits)

text \<open>
  A file stored piece by piece in the origin private file system and saved without a sink is assembled on disk
  byte for byte; the pieces stay readable and no other session's directory changes.
\<close>

theorem opfs_storage_roundtrip:
  assumes "create_manifest D newId file opts = (evs, Inr m)" and "opfs_ready s"
    and "s' = write_pieces opfs_writePiece s f (file_slices (blob_bytes file) (fm_pieces m))"
  shows "\<exists>s'' b. opfs_saveAssembledFile s' f m snk None = (s'', None, Inr (SavedBlob b (fm_size m))) \<and>
    blob_bytes b = blob_bytes file \<and> (\<forall>f i. opfs_view s'' f i = opfs_view s' f i) \<and>
    (\<forall>k. opfs_root s \<noteq> Some k \<longrightarrow> jm_get (opfs_sessions s'') k = jm_get (opfs_sessions s) k)"
proof -
  note facts = manifest_slices [OF assms(1)]
  have r: "opfs_ready s'" unfolding assms(3) using assms(2) by (rule opfs.write_all_ready)
  then obtain q d where rd: "opfs_requireRoot s' = Inr (q, d)" by (auto simp: opfs_ready_def)
  have "bind_result (map_result (read_part (opfs_readPiece s') f) (fm_pieces m)) (\<lambda>parts. Inr (concat parts)) = Inr (blob_bytes file)"
    unfolding assms(3) using assms(2) facts by (intro opfs.stored_file_reads_back) auto
  then obtain parts where parts: "map_result (read_part (opfs_readPiece s') f) (fm_pieces m) = Inr parts" "concat parts = blob_bytes file"
    by (auto simp: bind_result_Inr_iff)
  have "foldl (@) acc ps = acc @ concat ps" for acc and ps :: "bytes list" by (induction ps arbitrary: acc) simp_all
  then have "pipeTo (\<lambda>acc data. Inr (acc @ data)) (opfs_readPiece s') f m 0 [] = (blob_bytes file, Inr ())"
    using parts by (simp add: pipeTo_collects read_prefix_all)
  then have save: "opfs_saveAssembledFile s' f m snk None =
     (set_dir s' q (d\<lparr>dir_assembled := jm_set (safe_id f @ ''.bin'') (blob_bytes file) (dir_assembled d)\<rparr>), None,
      Inr (SavedBlob \<lparr>blob_bytes = blob_bytes file, blob_name = None, blob_type = Some ''''\<rparr> (fm_size m)))"
    using rd facts(3) by (simp add: opfs_saveAssembledFile_def)
  have step: "opfs_root (fst (opfs_writePiece t f i x)) = opfs_root t \<and>
      (\<forall>k. opfs_root t \<noteq> Some k \<longrightarrow> jm_get (opfs_sessions (fst (opfs_writePiece t f i x))) k = jm_get (opfs_sessions t) k)" for t i x
    by (auto simp: opfs_writePiece_def set_dir_def opfs_requireRoot_Inr Let_def split: sum.splits)
  have "opfs_root (write_pieces opfs_writePiece t f ps) = opfs_root t \<and>
      (\<forall>k. opfs_root t \<noteq> Some k \<longrightarrow> jm_get (opfs_sessions (write_pieces opfs_writePiece t f ps)) k = jm_get (opfs_sessions t) k)" for t ps
    by (induction ps arbitrary: t) (use step in auto)
  then have "opfs_root s' = opfs_root s"
    "\<forall>k. opfs_root s \<noteq> Some k \<longrightarrow> jm_get (opfs_sessions s') k = jm_get (opfs_sessions s) k" by (simp_all add: assms(3))
  moreover have "opfs_root s' = Some q" using rd by (simp add: opfs_requireRoot_Inr)
  ultimately have "\<forall>k. opfs_root s \<noteq> Some k \<longrightarrow> jm_get (opfs_sessions (set_dir s' q e)) k = jm_get (opfs_sessions s) k" for e
    by (auto simp: set_dir_def)
  moreover have "\<forall>f i. opfs_view (set_dir s' q (d\<lparr>dir_assembled := x\<rparr>)) f i = opfs_view s' f i" for x
    using rd opfs_requireRoot_set_dir [OF rd] by (simp add: opfs_view_def)
  ultimately show ?thesis using save by auto
qed

theorem opfs_storage_roundtrip_witness:
  "\<exists>m s' s'' b. s' = write_pieces opfs_writePiece (fst (opfs_init True \<lparr>opfs_sessions = [], opfs_root = None, opfs_sessionId = None\<rparr> ''s''))
       ''f'' (file_slices [1, 2, 3] (fm_pieces m)) \<and>
     opfs_saveAssembledFile s' ''f'' m (\<lambda>k d. Inr (k @ [d])) None = (s'', None, Inr (SavedBlob b (fm_size m))) \<and>
     blob_bytes b = [1, 2, 3]"
proof -
  obtain evs m where m: "create_manifest (take 1) ''id'' example_file example_options = (evs, Inr m)"
    using example_manifest_created by blast
  let ?s = "fst (opfs_init True \<lparr>opfs_sessions = [], opfs_root = None, opfs_sessionId = None\<rparr> ''s'')"
  have r: "opfs_ready ?s" by (simp add: opfs_ready_def opfs_init_def opfs_requireRoot_def open_dir_def)
  have e: "blob_bytes example_file = [1, 2, 3]" by (simp add: example_file_def)
  from opfs_storage_roundtrip [OF m r refl, where f = "''f''" and snk = "\<lambda>k d. Inr (k @ [d])"] show ?thesis
    unfolding e by blast
qed

section \<open>Choosing an adapter\<close>

datatype storage_kind = Opfs | IndexedDb | Memory

datatype storage_persistence = Persistent | BestEffort | MemoryOnly

datatype platform_error = Pons pons_error | Foreign

definition warning_code :: "platform_error \<Rightarrow> string" where
  "warning_code e = (case e of Pons p \<Rightarrow> err_code p | Foreign \<Rightarrow> ''storage:init_failed'')"

text \<open>
  \<open>attempt\<close> is what \<open>init\<close> and the probe of a persistent adapter come to on this platform; the
  memory adapter's are computed.
\<close>

definition memory_attempt :: "string \<Rightarrow> int \<Rightarrow> platform_error + memory_store" where
  "memory_attempt sessionId n =
     (case probeStorageAdapter memory_adapter (fst (memory_init new_memory_store sessionId)) n of
        (_, Inl e) \<Rightarrow> Inl (Pons e)
      | (s, Inr _) \<Rightarrow> Inr s)"

fun adapter_attempt :: "(storage_kind \<Rightarrow> platform_error option) \<Rightarrow> string \<Rightarrow> int \<Rightarrow> storage_kind \<Rightarrow> platform_error option" where
  "adapter_attempt attempt sessionId n Memory =
     (case memory_attempt sessionId n of Inl e \<Rightarrow> Some e | Inr _ \<Rightarrow> None)"
| "adapter_attempt attempt sessionId n kind = attempt kind"

fun persistence_of :: "storage_kind \<Rightarrow> storage_persistence" where
  "persistence_of Opfs = Persistent"
| "persistence_of IndexedDb = BestEffort"
| "persistence_of Memory = MemoryOnly"

record storage_choice =
  sc_kind :: storage_kind
  sc_persistence :: storage_persistence
  sc_warnings :: "(storage_kind \<times> string) list"

fun try_kinds :: "(storage_kind \<Rightarrow> platform_error option) \<Rightarrow> (storage_kind \<times> string) list \<Rightarrow> storage_kind list \<Rightarrow> storage_choice" where
  "try_kinds attempt warnings [] = \<lparr>sc_kind = Memory, sc_persistence = MemoryOnly, sc_warnings = warnings\<rparr>"
| "try_kinds attempt warnings (kind # rest) =
     (case attempt kind of
        None \<Rightarrow> \<lparr>sc_kind = kind, sc_persistence = persistence_of kind, sc_warnings = warnings\<rparr>
      | Some e \<Rightarrow> try_kinds attempt (warnings @ [(kind, warning_code e)]) rest)"

definition createBrowserStorageAdapter :: "(storage_kind \<Rightarrow> platform_error option) \<Rightarrow> storage_kind list option \<Rightarrow> string \<Rightarrow> int option
    \<Rightarrow> storage_choice" where
  "createBrowserStorageAdapter attempt preferred sessionId quotaProbeBytes =
     try_kinds (adapter_attempt attempt sessionId (case quotaProbeBytes of Some n \<Rightarrow> n | None \<Rightarrow> 1)) []
       (case preferred of Some ks \<Rightarrow> ks | None \<Rightarrow> [Opfs, IndexedDb, Memory])"

lemma memory_attempt_ok: "sid \<noteq> '''' \<Longrightarrow> \<exists>s. memory_attempt sid n = Inr s"
  using mem.probe_passes [OF memory_init_ready [of sid new_memory_store], of n]
  by (auto simp: memory_attempt_def memory_adapter_def)

definition first_working :: "(storage_kind \<Rightarrow> platform_error option) \<Rightarrow> storage_kind list \<Rightarrow> storage_kind" where
  "first_working att ks = (case find (\<lambda>k. att k = None) ks of Some k \<Rightarrow> k | None \<Rightarrow> Memory)"

lemma try_kinds_spec:
  "sc_kind (try_kinds att w ks) = first_working att ks"
  "sc_persistence (try_kinds att w ks) = persistence_of (first_working att ks)"
  "sc_warnings (try_kinds att w ks) = w @ map (\<lambda>k. (k, warning_code (the (att k)))) (takeWhile (\<lambda>k. att k \<noteq> None) ks)"
  by (induction ks arbitrary: w) (auto simp: first_working_def split: option.splits)

text \<open>
  The storage factory always returns an adapter: the first preferred kind whose initialisation and probe pass, the
  memory adapter when none does, with one warning for each kind tried before it. With the default
  preferences and a session id, memory is reached only past the two persistent kinds, and never warned about.
\<close>

theorem createBrowserStorageAdapter_first:
  assumes "sid \<noteq> ''''"
  shows "createBrowserStorageAdapter attempt None sid n =
    (case attempt Opfs of
       None \<Rightarrow> \<lparr>sc_kind = Opfs, sc_persistence = Persistent, sc_warnings = []\<rparr>
     | Some e \<Rightarrow>
         (case attempt IndexedDb of
            None \<Rightarrow> \<lparr>sc_kind = IndexedDb, sc_persistence = BestEffort, sc_warnings = [(Opfs, warning_code e)]\<rparr>
          | Some e' \<Rightarrow> \<lparr>sc_kind = Memory, sc_persistence = MemoryOnly,
              sc_warnings = [(Opfs, warning_code e), (IndexedDb, warning_code e')]\<rparr>)) \<and>
    (let att = adapter_attempt attempt sid (case n of Some k \<Rightarrow> k | None \<Rightarrow> 1);
         c = createBrowserStorageAdapter attempt (Some ks) sid n
     in map fst (sc_warnings c) = takeWhile (\<lambda>k. att k \<noteq> None) ks \<and>
        sc_kind c = first_working att ks \<and>
        sc_persistence c = persistence_of (sc_kind c))"
proof -
  obtain s where "memory_attempt sid (case n of Some k \<Rightarrow> k | None \<Rightarrow> 1) = Inr s" using memory_attempt_ok [OF assms] by blast
  then show ?thesis
    by (simp add: createBrowserStorageAdapter_def try_kinds_spec Let_def comp_def split: option.split)
qed

theorem createBrowserStorageAdapter_first_witness:
  "createBrowserStorageAdapter (\<lambda>k. if k = Opfs then Some Foreign else None) None ''s'' None =
     \<lparr>sc_kind = IndexedDb, sc_persistence = BestEffort, sc_warnings = [(Opfs, ''storage:init_failed'')]\<rparr>"
proof -
  have "''s'' \<noteq> ''''" by simp
  from createBrowserStorageAdapter_first [OF this, where attempt = "\<lambda>k. if k = Opfs then Some Foreign else None" and n = None]
  show ?thesis by (simp add: warning_code_def)
qed

end
