(* ===== verification/Resume.thy ===== *)
theory Resume
  imports Browser_Storage
begin

text \<open>
  Resuming a download: \<open>restoreResumeState\<close> of \<open>packages/core/src/index.ts\<close> trusts a saved piece map only as far as
  the stored bytes confirm it. The results are proved once for every piece store and then read off for the adapters.
\<close>

section \<open>The operation\<close>

definition js_type_error :: pons_error where
  "js_type_error = PonsWarpError ''TypeError'' None None"

record resume_result =
  rr_manager :: piece_manager
  rr_verifiedPieces :: "int list"
  rr_missingPieces :: "int list"
  rr_discardedPieces :: "int list"

text \<open>The check of one piece; the descriptor is read only when there is data.\<close>

definition stored_piece_ok :: "digest \<Rightarrow> file_manifest \<Rightarrow> int \<Rightarrow> bytes option \<Rightarrow> bool result" where
  "stored_piece_ok D manifest index data =
     (case data of
        None \<Rightarrow> Inr False
      | Some d \<Rightarrow>
          (case arr_at (fm_pieces manifest) index of
             None \<Rightarrow> Inl js_type_error
           | Some descriptor \<Rightarrow> Inr (verifyPiece D d descriptor)))"

fun restore_loop :: "'s storage_adapter \<Rightarrow> digest \<Rightarrow> file_manifest \<Rightarrow> int \<Rightarrow> 's \<Rightarrow> piece_manager \<Rightarrow> int list \<Rightarrow> int list
    \<Rightarrow> 's \<times> (piece_manager \<times> int list) result" where
  "restore_loop A D manifest now s manager discarded [] = (s, Inr (manager, discarded))"
| "restore_loop A D manifest now s manager discarded (index # rest) =
     (case sa_read A s (fm_fileId manifest) index of
        Inl e \<Rightarrow> (s, Inl e)
      | Inr data \<Rightarrow>
          (case stored_piece_ok D manifest index data of
             Inl e \<Rightarrow> (s, Inl e)
           | Inr True \<Rightarrow> restore_loop A D manifest now s manager discarded rest
           | Inr False \<Rightarrow>
               (case sa_delete A s (fm_fileId manifest) index of
                  (s', Inl e) \<Rightarrow> (s', Inl e)
                | (s', Inr _) \<Rightarrow>
                    (case bind_result (markFailed manager now index
                           (if data = None then ''piece missing during resume'' else ''piece hash mismatch during resume''))
                         (\<lambda>m. resetFailedToMissing m now index) of
                       Inl e \<Rightarrow> (s', Inl e)
                     | Inr manager' \<Rightarrow> restore_loop A D manifest now s' manager' (discarded @ [index]) rest))))"

definition restoreResumeState :: "'s storage_adapter \<Rightarrow> digest \<Rightarrow> int \<Rightarrow> 's \<Rightarrow> file_manifest \<Rightarrow> piece_map
    \<Rightarrow> 's \<times> resume_result result" where
  "restoreResumeState A D now s manifest pieceMap =
     (case validatePieceMapForManifest manifest pieceMap of
        Inl e \<Rightarrow> (s, Inl e)
      | Inr _ \<Rightarrow>
          (case importPieceMap (new_piece_manager (fm_fileId manifest) (fm_pieces manifest) now) now pieceMap of
             (_, Some e) \<Rightarrow> (s, Inl e)
           | (manager, None) \<Rightarrow>
               (case restore_loop A D manifest now s manager [] (getVerifiedPieces manager) of
                  (s', Inl e) \<Rightarrow> (s', Inl e)
                | (s', Inr (m, discarded)) \<Rightarrow>
                    (s', Inr \<lparr>rr_manager = m, rr_verifiedPieces = getVerifiedPieces m,
                              rr_missingPieces = getMissingPieces m, rr_discardedPieces = discarded\<rparr>))))"

section \<open>Discarding pieces\<close>

text \<open>What failing a piece and resetting it at once leaves.\<close>

definition discard :: "int \<Rightarrow> piece_state \<Rightarrow> piece_state" where
  "discard now p = p\<lparr>ps_receivedBytes := 0, ps_retryCount := ps_retryCount p + 1, ps_requestedFrom := None,
     ps_status := Missing, ps_failureReason := None, ps_updatedAt := now\<rparr>"

definition discard_set :: "int \<Rightarrow> int set \<Rightarrow> piece_manager \<Rightarrow> piece_manager" where
  "discard_set now B m = m\<lparr>pm_states := map (\<lambda>p. if ps_index p \<in> B then discard now p else p) (pm_states m)\<rparr>"

definition indexed :: "piece_manager \<Rightarrow> bool" where
  "indexed m \<longleftrightarrow> (\<forall>j < length (pm_states m). ps_index (pm_states m ! j) = int j)"

lemma discard_index [simp]: "ps_index (discard now p) = ps_index p"
  by (simp add: discard_def)

lemma indexed_discard_set [simp]: "indexed (discard_set now B m) = indexed m"
  by (auto simp: indexed_def discard_set_def)

lemma wf_indexed: "pm_wf sizes m \<Longrightarrow> indexed m"
  by (simp add: pm_wf_def indexed_def)

lemma discard_set_empty [simp]: "discard_set now {} m = m"
  by (simp add: discard_set_def)

lemma discard_set_insert:
  "i \<notin> B \<Longrightarrow> discard_set now B (discard_set now {i} m) = discard_set now (insert i B) m"
  by (auto simp: discard_set_def comp_def intro!: arg_cong [where f = "\<lambda>x. m\<lparr>pm_states := x\<rparr>"] map_cong)

lemma fail_reset_discards:
  assumes "indexed m" and "0 \<le> i" and "i < int (length (pm_states m))"
  shows "bind_result (markFailed m now i r) (\<lambda>m. resetFailedToMissing m now i) = Inr (discard_set now {i} m)"
proof -
  have i: "nat i < length (pm_states m)" using assms by simp
  have idx: "ps_index (pm_states m ! nat i) = i" using assms by (simp add: indexed_def)
  have req: "requirePiece m i = Inr (pm_states m ! nat i)"
    using assms i idx by (simp add: requirePiece_Inr arr_at_Some_iff)
  have "(pm_states m)[nat i := discard now (pm_states m ! nat i)] =
      map (\<lambda>p. if ps_index p \<in> {i} then discard now p else p) (pm_states m)"
    by (rule nth_equalityI) (use assms(1) idx in \<open>auto simp: nth_list_update indexed_def\<close>)
  note upd = this
  let ?q = "(pm_states m ! nat i)\<lparr>ps_status := Failed, ps_receivedBytes := 0,
    ps_retryCount := ps_retryCount (pm_states m ! nat i) + 1, ps_requestedFrom := None, ps_failureReason := Some r,
    ps_updatedAt := now\<rparr>"
  let ?m1 = "m\<lparr>pm_states := (pm_states m)[nat i := ?q]\<rparr>"
  have 1: "markFailed m now i r = Inr ?m1" using req by (simp add: markFailed_def update_piece_def)
  have 2: "requirePiece ?m1 i = Inr ?q" using i idx assms(2) by (simp add: requirePiece_Inr arr_at_Some_iff)
  have "discard now (pm_states m ! nat i) = ?q\<lparr>ps_status := Missing, ps_failureReason := None, ps_updatedAt := now\<rparr>"
    by (simp add: discard_def)
  then have "resetFailedToMissing ?m1 now i = Inr (discard_set now {i} m)"
    using 2 upd by (simp add: resetFailedToMissing_def update_piece_def discard_set_def)
  with 1 show ?thesis by simp
qed

section \<open>Every piece store restores what it can prove\<close>

text \<open>A piece recorded as verified is bad when its bytes are gone or do not pass the check.\<close>

definition piece_bad :: "digest \<Rightarrow> file_manifest \<Rightarrow> (int \<Rightarrow> bytes option) \<Rightarrow> int \<Rightarrow> bool" where
  "piece_bad D manifest stored i =
     (case stored i of None \<Rightarrow> True | Some d \<Rightarrow> \<not> verifyPiece D d (fm_pieces manifest ! nat i))"

context piece_store
begin

lemma restore_loop_spec:
  assumes "ready s" and "indexed m" and "length (pm_states m) = length (fm_pieces mf)"
    and "distinct ids" and "\<forall>i \<in> set ids. 0 \<le> i \<and> i < int (length (fm_pieces mf))"
  shows "\<exists>s'. restore_loop \<lparr>sa_init = ini, sa_write = wr, sa_read = rd, sa_has = has, sa_delete = del\<rparr> D mf now s m disc ids =
      (s', Inr (discard_set now {i \<in> set ids. piece_bad D mf (view s (fm_fileId mf)) i} m,
        disc @ filter (piece_bad D mf (view s (fm_fileId mf))) ids)) \<and>
    ready s' \<and>
    (\<forall>f i. view s' f i = (if f = fm_fileId mf \<and> i \<in> set ids \<and> piece_bad D mf (view s (fm_fileId mf)) i then None else view s f i))"
  using assms
proof (induction ids arbitrary: s m disc)
  case Nil
  then show ?case by simp
next
  case (Cons i ids)
  let ?A = "\<lparr>sa_init = ini, sa_write = wr, sa_read = rd, sa_has = has, sa_delete = del\<rparr>"
  let ?f = "fm_fileId mf"
  let ?bad = "piece_bad D mf (view s ?f)"
  have i: "0 \<le> i" "i < int (length (fm_pieces mf))" using Cons.prems(5) by simp_all
  have at: "arr_at (fm_pieces mf) i = Some (fm_pieces mf ! nat i)" using i by (simp add: arr_at_def)
  have ok: "stored_piece_ok D mf i (view s ?f i) = Inr (\<not> ?bad i)"
    using at by (auto simp: stored_piece_ok_def piece_bad_def split: option.splits)
  show ?case
  proof (cases "?bad i")
    case False
    then have step: "restore_loop ?A D mf now s m disc (i # ids) = restore_loop ?A D mf now s m disc ids"
      using ok read_view [OF Cons.prems(1)] by simp
    have "{x \<in> set (i # ids). ?bad x} = {x \<in> set ids. ?bad x}" using False by auto
    with Cons.IH [OF Cons.prems(1-3), of disc] Cons.prems(4,5) False step show ?thesis by auto
  next
    case True
    obtain t where t: "del s ?f i = (t, Inr ())" using delete_ok [OF Cons.prems(1)] by (metis prod.collapse)
    have rt: "ready t" using delete_ready [OF Cons.prems(1), of ?f i] t by simp
    have vt: "view t f j = (if f = ?f \<and> j = i then None else view s f j)" for f j
      using delete_view [OF Cons.prems(1), of ?f i] t by simp
    let ?m = "discard_set now {i} m"
    have step: "restore_loop ?A D mf now s m disc (i # ids) = restore_loop ?A D mf now t ?m (disc @ [i]) ids"
      using ok read_view [OF Cons.prems(1)] True t fail_reset_discards [OF Cons.prems(2) i(1)] Cons.prems(3) i(2)
      by simp
    have same: "piece_bad D mf (view t ?f) j = ?bad j" if "j \<in> set ids" for j
      using that Cons.prems(4) vt by (auto simp: piece_bad_def)
    have ps: "indexed ?m" "length (pm_states ?m) = length (fm_pieces mf)"
      using Cons.prems(2,3) by (simp, simp add: discard_set_def)
    from Cons.IH [OF rt ps, of "disc @ [i]"] Cons.prems(4,5)
    obtain s' where s': "restore_loop ?A D mf now t ?m (disc @ [i]) ids =
        (s', Inr (discard_set now {j \<in> set ids. piece_bad D mf (view t ?f) j} ?m,
          (disc @ [i]) @ filter (piece_bad D mf (view t ?f)) ids))" and "ready s'"
      and v: "\<forall>f j. view s' f j = (if f = ?f \<and> j \<in> set ids \<and> piece_bad D mf (view t ?f) j then None else view t f j)"
      by auto
    have set1: "{j \<in> set ids. piece_bad D mf (view t ?f) j} = {j \<in> set ids. ?bad j}"
      and fil: "filter (piece_bad D mf (view t ?f)) ids = filter ?bad ids"
      using same by (auto intro: filter_cong)
    have set2: "{j \<in> set (i # ids). ?bad j} = insert i {j \<in> set ids. ?bad j}" using True by auto
    have "i \<notin> {j \<in> set ids. ?bad j}" using Cons.prems(4) by simp
    from discard_set_insert [OF this, of now m] set2
    have ds: "discard_set now {j \<in> set ids. ?bad j} ?m = discard_set now {j \<in> set (i # ids). ?bad j} m" by simp
    have "restore_loop ?A D mf now s m disc (i # ids) =
        (s', Inr (discard_set now {j \<in> set (i # ids). ?bad j} m, disc @ filter ?bad (i # ids)))"
      unfolding step s' set1 fil ds using True by simp
    moreover have "\<forall>f j. view s' f j = (if f = ?f \<and> j \<in> set (i # ids) \<and> ?bad j then None else view s f j)"
      using v vt same True by auto
    ultimately show ?thesis using \<open>ready s'\<close> by blast
  qed
qed

end

section \<open>The whole restore\<close>

text \<open>A saved map that fits the manifest, as a manager of that file exports it.\<close>

definition resume_fits :: "file_manifest \<Rightarrow> piece_map \<Rightarrow> bool" where
  "resume_fits mf px \<longleftrightarrow> fm_pieceCount mf = int (length (fm_pieces mf)) \<and> px_fileId px = fm_fileId mf \<and>
     length (px_pieces px) = length (fm_pieces mf) \<and>
     (\<forall>i < length (fm_pieces mf). pd_index (fm_pieces mf ! i) = int i \<and> 0 \<le> pd_size (fm_pieces mf ! i) \<and>
        ps_index (px_pieces px ! i) = int i \<and> ps_size (px_pieces px ! i) = pd_size (fm_pieces mf ! i) \<and>
        piece_ok (px_pieces px ! i))"

definition recorded_verified :: "piece_map \<Rightarrow> int list" where
  "recorded_verified px = map ps_index (filter (\<lambda>p. ps_status p = Verified) (px_pieces px))"

lemma resume_import:
  assumes "resume_fits mf px"
  shows "importPieceMap (new_piece_manager (fm_fileId mf) (fm_pieces mf) t) now px =
    (\<lparr>pm_fileId = fm_fileId mf, pm_states = map (restored now) (px_pieces px)\<rparr>, None)"
proof -
  let ?m = "new_piece_manager (fm_fileId mf) (fm_pieces mf) t"
  have "import_pieces ?m now (px_pieces px) = (?m\<lparr>pm_states := [] @ map (restored now) (px_pieces px)\<rparr>, None)"
    by (rule import_pieces_all [where B = "pm_states ?m"])
      (use assms in \<open>auto simp: new_piece_manager_def resume_fits_def\<close>)
  then show ?thesis
    using assms by (simp add: importPieceMap_def resume_fits_def) (simp add: new_piece_manager_def)
qed

lemma restored_fields [simp]:
  "ps_index (restored now p) = ps_index p" "ps_size (restored now p) = ps_size p"
  "ps_status (restored now p) = Verified \<longleftrightarrow> ps_status p = Verified"
  by (simp_all add: restored_def)

lemma restored_ok: "piece_ok p \<Longrightarrow> piece_ok (restored now p)"
  by (auto simp: restored_def piece_ok_def split: piece_status.splits)

lemma discard_ok: "piece_ok p \<Longrightarrow> piece_ok (discard now p)"
  by (auto simp: discard_def piece_ok_def split: piece_status.splits)

lemma discard_size [simp]: "ps_size (discard now p) = ps_size p"
  by (simp add: discard_def)

lemma discard_set_wf: "pm_wf sizes m \<Longrightarrow> pm_wf sizes (discard_set now B m)"
  by (auto simp: pm_wf_def discard_set_def discard_ok comp_def)

lemma discarded_missing:
  assumes "i \<in> set (getVerifiedPieces m)" and "i \<in> B"
  shows "i \<in> set (getMissingPieces (discard_set now B m))"
proof -
  obtain p where p: "p \<in> set (pm_states m)" "ps_index p = i" using assms(1) by (auto simp: getVerifiedPieces_def)
  then have "discard now p \<in> set (pm_states (discard_set now B m))"
    using assms(2) by (auto simp: discard_set_def intro: rev_image_eqI)
  moreover have "ps_status (discard now p) = Missing" by (simp add: discard_def)
  ultimately show ?thesis using p(2) by (auto simp: getMissingPieces_def intro: rev_image_eqI)
qed

lemma restored_manager_wf:
  assumes "resume_fits mf px"
  shows "pm_wf (map pd_size (fm_pieces mf)) \<lparr>pm_fileId = f, pm_states = map (restored now) (px_pieces px)\<rparr>"
  using assms by (auto simp: resume_fits_def pm_wf_def restored_ok intro: nth_equalityI)

lemma verified_after_discard:
  "getVerifiedPieces (discard_set now B m) = filter (\<lambda>i. i \<notin> B) (getVerifiedPieces m)"
proof -
  have "map ps_index (filter (\<lambda>p. ps_status p = Verified) (map (\<lambda>p. if ps_index p \<in> B then discard now p else p) ps)) =
      filter (\<lambda>i. i \<notin> B) (map ps_index (filter (\<lambda>p. ps_status p = Verified) ps))" for ps
    by (induction ps) (auto simp: discard_def)
  then show ?thesis by (simp add: getVerifiedPieces_def discard_set_def)
qed

lemma restored_verified:
  "getVerifiedPieces \<lparr>pm_fileId = f, pm_states = map (restored now) (px_pieces px)\<rparr> = recorded_verified px"
  by (simp add: getVerifiedPieces_def recorded_verified_def filter_map comp_def)

text \<open>What a successful resume returns and leaves in the store, for the state \<open>s\<close> before and \<open>s'\<close> after it.\<close>

definition resume_outcome :: "('s \<Rightarrow> string \<Rightarrow> int \<Rightarrow> bytes option) \<Rightarrow> digest \<Rightarrow> file_manifest \<Rightarrow> piece_map \<Rightarrow> 's \<Rightarrow> 's \<Rightarrow> resume_result \<Rightarrow> bool" where
  "resume_outcome view D mf px s s' r \<longleftrightarrow>
     (let bad = piece_bad D mf (view s (fm_fileId mf))
      in rr_verifiedPieces r = filter (\<lambda>i. \<not> bad i) (recorded_verified px) \<and>
         rr_discardedPieces r = filter bad (recorded_verified px) \<and>
         rr_missingPieces r = getMissingPieces (rr_manager r) \<and>
         set (rr_discardedPieces r) \<subseteq> set (rr_missingPieces r) \<and>
         getVerifiedPieces (rr_manager r) = rr_verifiedPieces r \<and>
         pm_wf (map pd_size (fm_pieces mf)) (rr_manager r) \<and>
         (\<forall>f i. view s' f i = (if f = fm_fileId mf \<and> i \<in> set (rr_discardedPieces r) then None else view s f i)))"

context piece_store
begin

lemma restore_outcome:
  assumes "ready s" and "resume_fits mf px"
  shows "\<exists>s' r. restoreResumeState \<lparr>sa_init = ini, sa_write = wr, sa_read = rd, sa_has = has, sa_delete = del\<rparr> D now s mf px =
      (s', Inr r) \<and> ready s' \<and> resume_outcome view D mf px s s' r"
proof -
  let ?A = "\<lparr>sa_init = ini, sa_write = wr, sa_read = rd, sa_has = has, sa_delete = del\<rparr>"
  let ?bad = "piece_bad D mf (view s (fm_fileId mf))"
  define m where "m = \<lparr>pm_fileId = fm_fileId mf, pm_states = map (restored now) (px_pieces px)\<rparr>"
  have wf: "pm_wf (map pd_size (fm_pieces mf)) m" unfolding m_def by (rule restored_manager_wf [OF assms(2)])
  have len: "length (pm_states m) = length (fm_pieces mf)" using assms(2) by (simp add: m_def resume_fits_def)
  have imp: "importPieceMap (new_piece_manager (fm_fileId mf) (fm_pieces mf) now) now px = (m, None)"
    unfolding m_def by (rule resume_import [OF assms(2)])
  have val: "validatePieceMapForManifest mf px = Inr ()"
    using assms(2) by (simp add: validatePieceMapForManifest_def piece_map_matches_def resume_fits_def)
  have ver: "getVerifiedPieces m = recorded_verified px" unfolding m_def by (rule restored_verified)
  have idx: "map ps_index (pm_states m) = map int [0..<length (pm_states m)]"
    using wf by (intro nth_equalityI) (auto simp: pm_wf_def)
  have dist: "distinct (getVerifiedPieces m)"
    unfolding getVerifiedPieces_def by (rule distinct_map_filter) (simp add: idx distinct_map)
  have rng: "\<forall>i \<in> set (getVerifiedPieces m). 0 \<le> i \<and> i < int (length (fm_pieces mf))"
    using wf len by (auto simp: getVerifiedPieces_def pm_wf_def in_set_conv_nth)
  let ?B = "{i \<in> set (getVerifiedPieces m). ?bad i}"
  obtain s' where loop: "restore_loop ?A D mf now s m [] (getVerifiedPieces m) =
      (s', Inr (discard_set now ?B m, [] @ filter ?bad (getVerifiedPieces m)))" and "ready s'"
    and v: "\<forall>f i. view s' f i = (if f = fm_fileId mf \<and> i \<in> set (getVerifiedPieces m) \<and> ?bad i then None else view s f i)"
    using restore_loop_spec [OF assms(1) wf_indexed [OF wf] len dist rng, of D now "[]"] by blast
  define r where "r = \<lparr>rr_manager = discard_set now ?B m, rr_verifiedPieces = getVerifiedPieces (discard_set now ?B m),
    rr_missingPieces = getMissingPieces (discard_set now ?B m), rr_discardedPieces = filter ?bad (getVerifiedPieces m)\<rparr>"
  have "restoreResumeState ?A D now s mf px = (s', Inr r)"
    unfolding restoreResumeState_def using val imp loop by (simp add: r_def)
  moreover have "filter (\<lambda>i. i \<notin> ?B) (getVerifiedPieces m) = filter (\<lambda>i. \<not> ?bad i) (getVerifiedPieces m)"
    by (rule filter_cong) auto
  moreover have "set (filter ?bad (getVerifiedPieces m)) \<subseteq> set (getMissingPieces (discard_set now ?B m))"
    by (auto intro: discarded_missing)
  moreover have "pm_wf (map pd_size (fm_pieces mf)) (discard_set now ?B m)" by (rule discard_set_wf [OF wf])
  ultimately have "resume_outcome view D mf px s s' r"
    using v unfolding resume_outcome_def Let_def by (simp add: r_def verified_after_discard flip: ver)
  with \<open>restoreResumeState ?A D now s mf px = (s', Inr r)\<close> \<open>ready s'\<close> show ?thesis by blast
qed

end

lemma memory_adapter_restore:
  "memory_ready s \<Longrightarrow> resume_fits mf px \<Longrightarrow> \<exists>s' r. restoreResumeState memory_adapter D now s mf px = (s', Inr r) \<and>
     memory_ready s' \<and> resume_outcome memory_view D mf px s s' r"
  unfolding memory_adapter_def by (rule mem.restore_outcome)

definition opfs_adapter :: "bool \<Rightarrow> opfs_store storage_adapter" where
  "opfs_adapter available = \<lparr>sa_init = opfs_init available, sa_write = opfs_writePiece, sa_read = opfs_readPiece,
     sa_has = opfs_hasPiece, sa_delete = opfs_deletePiece\<rparr>"

definition idb_adapter :: "bool \<Rightarrow> idb_store storage_adapter" where
  "idb_adapter available = \<lparr>sa_init = idb_init available, sa_write = idb_writePiece, sa_read = idb_readPiece,
     sa_has = idb_hasPiece, sa_delete = idb_deletePiece\<rparr>"


definition example_map :: piece_map where
  "example_map = \<lparr>px_fileId = ''f'', px_pieces =
     [\<lparr>ps_index = 0, ps_status = Verified, ps_size = 2, ps_receivedBytes = 2, ps_retryCount = 0, ps_requestedFrom = None,
        ps_updatedAt = 0, ps_failureReason = None\<rparr>,
      \<lparr>ps_index = 1, ps_status = Verified, ps_size = 1, ps_receivedBytes = 1, ps_retryCount = 0, ps_requestedFrom = None,
        ps_updatedAt = 0, ps_failureReason = None\<rparr>], px_exportedAt = 0\<rparr>"

lemma example_map_fits: "resume_fits example_manifest example_map"
  by (auto simp: resume_fits_def example_manifest_def example_map_def piece_ok_def less_Suc_eq numeral_2_eq_2)

definition example_store :: memory_store where
  "example_store = fst (memory_writePiece (fst (memory_init new_memory_store ''s'')) ''f'' 0 [7, 8])"


end
