(* ===== verification/Availability.thy ===== *)
theory Availability
  imports Piece_Manager
begin

text \<open>
  \<open>PieceAvailabilityTable\<close> of \<open>packages/core/src/index.ts\<close>: which peer advertises which piece of a file, the
  generation of each peer's last map, and the lease of a piece that is being requested. Numbers of a
  received map that are not yet validated are \<open>jsnum\<close>; its generation and time stamp have passed the finiteness
  check of the message parser and are reals.
\<close>

section \<open>State\<close>

datatype provider_role = Owner | Receiver | Relay

record provider_state =
  pv_peerId :: string
  pv_role :: provider_role
  pv_advertisedAt :: real
  pv_expiresAt :: real
  pv_healthScore :: real

record request_lease =
  rl_peerId :: string
  rl_requestId :: string
  rl_leasedAt :: int
  rl_expiresAt :: int

record av_piece =
  ap_providers :: "(string, provider_state) js_map"
  ap_requestedBy :: "request_lease option"

record av_file =
  af_pieceCount :: int
  af_generations :: "(string, real) js_map"
  af_pieces :: "(int, av_piece) js_map"

type_synonym availability = "(string, av_file) js_map"

record piece_map_broadcast =
  pb_type :: string
  pb_fileId :: string
  pb_verifiedPieces :: "jsnum list"
  pb_totalPieces :: jsnum
  pb_generation :: real
  pb_updatedAt :: real

record availability_update =
  au_peerId :: string
  au_role :: provider_role
  au_map :: piece_map_broadcast
  au_healthScore :: "real option"
  au_expiresAt :: "real option"

section \<open>Validation of a received map\<close>

definition scheduler_error :: "string \<Rightarrow> pons_error" where
  "scheduler_error code = PonsWarpError code (Some ''scheduler'') (Some True)"

text \<open>\<open>Number.isSafeInteger\<close> and the value as an integer, in one.\<close>

fun safe_int :: "jsnum \<Rightarrow> int option" where
  "safe_int (Fin x) = (if js_isSafeInteger (Fin x) then Some \<lfloor>x\<rfloor> else None)"
| "safe_int _ = None"

fun check_indices :: "int \<Rightarrow> int \<Rightarrow> jsnum list \<Rightarrow> int list result" where
  "check_indices pieces previous [] = Inr []"
| "check_indices pieces previous (n # ns) =
     (case safe_int n of
        None \<Rightarrow> Inl (scheduler_error ''availability:invalid_piece_index'')
      | Some index \<Rightarrow>
          if index < 0 \<or> pieces \<le> index \<or> index \<le> previous
          then Inl (scheduler_error ''availability:invalid_piece_index'')
          else bind_result (check_indices pieces index ns) (\<lambda>ids. Inr (index # ids)))"

definition validateBroadcast :: "piece_map_broadcast \<Rightarrow> (int \<times> int list) result" where
  "validateBroadcast m =
     (if pb_type m \<noteq> ''PIECE_MAP'' then Inl (scheduler_error ''availability:invalid_message'')
      else case safe_int (pb_totalPieces m) of
          None \<Rightarrow> Inl (scheduler_error ''availability:invalid_total'')
        | Some pieces \<Rightarrow>
            if pieces < 0 then Inl (scheduler_error ''availability:invalid_total'')
            else bind_result (check_indices pieces (- 1) (pb_verifiedPieces m)) (\<lambda>ids. Inr (pieces, ids)))"

section \<open>Operations\<close>

definition new_av_file :: "int \<Rightarrow> av_file" where
  "new_av_file pieceCount =
     \<lparr>af_pieceCount = pieceCount, af_generations = [],
      af_pieces = map (\<lambda>index. (index, \<lparr>ap_providers = [], ap_requestedBy = None\<rparr>)) [0..pieceCount - 1]\<rparr>"

definition ensureFile :: "availability \<Rightarrow> string \<Rightarrow> int \<Rightarrow> (availability \<times> av_file) result" where
  "ensureFile t fileId pieceCount =
     (case jm_get t fileId of
        Some existing \<Rightarrow>
          if af_pieceCount existing \<noteq> pieceCount then Inl (scheduler_error ''availability:piece_count_mismatch'')
          else Inr (t, existing)
      | None \<Rightarrow> Inr (jm_set fileId (new_av_file pieceCount) t, new_av_file pieceCount))"

definition modify_piece :: "int \<Rightarrow> (av_piece \<Rightarrow> av_piece) \<Rightarrow> (int, av_piece) js_map \<Rightarrow> (int, av_piece) js_map" where
  "modify_piece index g ps = (case jm_get ps index of None \<Rightarrow> ps | Some p \<Rightarrow> jm_set index (g p) ps)"

definition drop_provider :: "string \<Rightarrow> av_piece \<Rightarrow> av_piece" where
  "drop_provider peerId p = p\<lparr>ap_providers := jm_delete peerId (ap_providers p)\<rparr>"

definition add_provider :: "provider_state \<Rightarrow> av_piece \<Rightarrow> av_piece" where
  "add_provider v p = p\<lparr>ap_providers := jm_set (pv_peerId v) v (ap_providers p)\<rparr>"

definition updatePeerPieceMap :: "availability \<Rightarrow> availability_update \<Rightarrow> (availability \<times> bool) result" where
  "updatePeerPieceMap t input =
     bind_result (validateBroadcast (au_map input)) (\<lambda>(pieces, verifiedPieces).
     bind_result (ensureFile t (pb_fileId (au_map input)) pieces) (\<lambda>(t1, file).
       if (case jm_get (af_generations file) (au_peerId input) of
             None \<Rightarrow> False
           | Some previousGeneration \<Rightarrow> pb_generation (au_map input) \<le> previousGeneration)
       then Inr (t1, False)
       else
         let cleared = map (\<lambda>(i, p). (i, drop_provider (au_peerId input) p)) (af_pieces file);
             provider = \<lparr>pv_peerId = au_peerId input, pv_role = au_role input,
               pv_advertisedAt = pb_updatedAt (au_map input),
               pv_expiresAt = (case au_expiresAt input of Some e \<Rightarrow> e | None \<Rightarrow> pb_updatedAt (au_map input) + 30000),
               pv_healthScore = (case au_healthScore input of Some h \<Rightarrow> h | None \<Rightarrow> 50)\<rparr>;
             advertised = fold (\<lambda>index ps. modify_piece index (add_provider provider) ps) verifiedPieces cleared;
             file' = file\<lparr>af_pieces := advertised,
               af_generations := jm_set (au_peerId input) (pb_generation (au_map input)) (af_generations file)\<rparr>
         in Inr (jm_set (pb_fileId (au_map input)) file' t1, True)))"

definition find_piece :: "availability \<Rightarrow> string \<Rightarrow> int \<Rightarrow> av_piece option" where
  "find_piece t fileId pieceIndex =
     (case jm_get t fileId of None \<Rightarrow> None | Some file \<Rightarrow> jm_get (af_pieces file) pieceIndex)"

definition set_piece :: "availability \<Rightarrow> string \<Rightarrow> int \<Rightarrow> av_piece \<Rightarrow> availability" where
  "set_piece t fileId pieceIndex p =
     (case jm_get t fileId of
        None \<Rightarrow> t
      | Some file \<Rightarrow> jm_set fileId (file\<lparr>af_pieces := jm_set pieceIndex p (af_pieces file)\<rparr>) t)"

record availability_snapshot =
  as_fileId :: string
  as_pieceCount :: int
  as_pieces :: "(int \<times> provider_state list \<times> request_lease option) list"

definition getSnapshot :: "availability \<Rightarrow> string \<Rightarrow> availability_snapshot option" where
  "getSnapshot t fileId =
     (case jm_get t fileId of
        None \<Rightarrow> None
      | Some file \<Rightarrow> Some \<lparr>as_fileId = fileId, as_pieceCount = af_pieceCount file,
          as_pieces = map (\<lambda>(i, p). (i, map snd (ap_providers p), ap_requestedBy p)) (af_pieces file)\<rparr>)"

definition getProviders :: "availability \<Rightarrow> string \<Rightarrow> int \<Rightarrow> int \<Rightarrow> provider_state list" where
  "getProviders t fileId pieceIndex now =
     (case find_piece t fileId pieceIndex of
        None \<Rightarrow> []
      | Some piece \<Rightarrow> filter (\<lambda>provider. of_int now < pv_expiresAt provider) (map snd (ap_providers piece)))"

definition lease :: "availability \<Rightarrow> string \<Rightarrow> int \<Rightarrow> request_lease \<Rightarrow> availability result" where
  "lease t fileId pieceIndex l =
     (case find_piece t fileId pieceIndex of
        None \<Rightarrow> Inl (scheduler_error ''availability:piece_not_found'')
      | Some piece \<Rightarrow> Inr (set_piece t fileId pieceIndex (piece\<lparr>ap_requestedBy := Some l\<rparr>)))"

definition release :: "availability \<Rightarrow> string \<Rightarrow> int \<Rightarrow> string option \<Rightarrow> availability" where
  "release t fileId pieceIndex requestId =
     (case find_piece t fileId pieceIndex of
        None \<Rightarrow> t
      | Some piece \<Rightarrow>
          (case ap_requestedBy piece of
             None \<Rightarrow> t
           | Some l \<Rightarrow>
               if \<not> truthy requestId \<or> Some (rl_requestId l) = requestId
               then set_piece t fileId pieceIndex (piece\<lparr>ap_requestedBy := None\<rparr>)
               else t))"

definition getLease :: "availability \<Rightarrow> string \<Rightarrow> int \<Rightarrow> request_lease option" where
  "getLease t fileId pieceIndex =
     (case find_piece t fileId pieceIndex of None \<Rightarrow> None | Some piece \<Rightarrow> ap_requestedBy piece)"

definition lease_expired :: "int \<Rightarrow> av_piece \<Rightarrow> bool" where
  "lease_expired now p = (case ap_requestedBy p of None \<Rightarrow> False | Some l \<Rightarrow> rl_expiresAt l \<le> now)"

definition expire_piece :: "int \<Rightarrow> av_piece \<Rightarrow> av_piece" where
  "expire_piece now p = (if lease_expired now p then p\<lparr>ap_requestedBy := None\<rparr> else p)"

definition expired_lease :: "int \<Rightarrow> av_piece \<Rightarrow> request_lease list" where
  "expired_lease now p = (case ap_requestedBy p of None \<Rightarrow> [] | Some l \<Rightarrow> if rl_expiresAt l \<le> now then [l] else [])"

definition expireLeases :: "availability \<Rightarrow> int \<Rightarrow> availability \<times> request_lease list" where
  "expireLeases t now =
     (map (\<lambda>(f, file). (f, file\<lparr>af_pieces := map (\<lambda>(i, p). (i, expire_piece now p)) (af_pieces file)\<rparr>)) t,
      concat (map (\<lambda>(f, file). concat (map (\<lambda>(i, p). expired_lease now p) (af_pieces file))) t))"

section \<open>Reading back\<close>

text \<open>The peers that advertise a piece, and the last generation of a peer, as functions of the table.\<close>

definition provides :: "availability \<Rightarrow> string \<Rightarrow> string \<Rightarrow> int \<Rightarrow> provider_state option" where
  "provides t peerId fileId i = (case find_piece t fileId i of None \<Rightarrow> None | Some p \<Rightarrow> jm_get (ap_providers p) peerId)"

definition generation_of :: "availability \<Rightarrow> string \<Rightarrow> string \<Rightarrow> real option" where
  "generation_of t peerId fileId =
     (case jm_get t fileId of None \<Rightarrow> None | Some file \<Rightarrow> jm_get (af_generations file) peerId)"

definition file_wf :: "av_file \<Rightarrow> bool" where
  "file_wf file \<longleftrightarrow> jm_keys (af_pieces file) = [0..af_pieceCount file - 1] \<and>
     (\<forall>(i, p) \<in> set (af_pieces file). jm_wf (ap_providers p) \<and> (\<forall>(k, v) \<in> set (ap_providers p). pv_peerId v = k))"

definition av_wf :: "availability \<Rightarrow> bool" where
  "av_wf t \<longleftrightarrow> jm_wf t \<and> (\<forall>(f, file) \<in> set t. file_wf file)"

lemma safe_int_Some: "safe_int n = Some i \<longleftrightarrow> n = num_of_int i \<and> \<bar>i\<bar> \<le> MAX_SAFE_INTEGER"
  by (cases n) (auto simp: num_of_int_def is_integral_def)

lemma safe_int_num_of_int [simp]: "safe_int (num_of_int i) = (if \<bar>i\<bar> \<le> MAX_SAFE_INTEGER then Some i else None)"
  using safe_int_Some [of "num_of_int i" i] by (auto simp: num_of_int_def)

lemma check_indices_Inr:
  "check_indices pieces prev ns = Inr ids \<longleftrightarrow>
     ns = map num_of_int ids \<and> sorted_wrt (<) ids \<and> (\<forall>i \<in> set ids. 0 \<le> i \<and> i < pieces \<and> prev < i \<and> i \<le> MAX_SAFE_INTEGER)"
proof (induction ns arbitrary: prev ids)
  case (Cons n ns)
  show ?case
  proof (cases "safe_int n")
    case None
    then have "\<not> (\<exists>i js. ids = i # js \<and> n = num_of_int i \<and> 0 \<le> i \<and> i \<le> MAX_SAFE_INTEGER)"
      by (auto split: if_splits)
    with None show ?thesis by (auto simp: Cons_eq_map_conv)
  next
    case (Some i)
    then have n: "n = num_of_int i" "i \<le> MAX_SAFE_INTEGER" by (auto simp: safe_int_Some)
    with Some Cons.IH show ?thesis by (force simp: bind_result_Inr_iff)
  qed
qed auto

lemma validateBroadcast_Inr:
  "validateBroadcast m = Inr (pieces, ids) \<longleftrightarrow> pb_type m = ''PIECE_MAP'' \<and> pb_totalPieces m = num_of_int pieces \<and>
     0 \<le> pieces \<and> pieces \<le> MAX_SAFE_INTEGER \<and> pb_verifiedPieces m = map num_of_int ids \<and> sorted_wrt (<) ids \<and>
     (\<forall>i \<in> set ids. 0 \<le> i \<and> i < pieces)"
proof (cases "safe_int (pb_totalPieces m)")
  case None
  then have "pb_totalPieces m \<noteq> num_of_int pieces \<or> pieces < 0 \<or> MAX_SAFE_INTEGER < pieces"
    using safe_int_Some [of "pb_totalPieces m" pieces] by auto
  with None show ?thesis by (auto simp: validateBroadcast_def)
next
  case (Some n)
  then have "pb_totalPieces m = num_of_int n" "\<bar>n\<bar> \<le> MAX_SAFE_INTEGER" by (auto simp: safe_int_Some)
  with Some show ?thesis
    by (auto simp: validateBroadcast_def bind_result_Inr_iff check_indices_Inr)
qed

section \<open>The table answers for the latest map of each peer\<close>

lemma keys_modify_piece [simp]: "jm_keys (modify_piece i g ps) = jm_keys ps"
proof (cases "jm_get ps i")
  case (Some p)
  then have "i \<in> set (jm_keys ps)" by (metis jm_get_None_iff option.distinct(1))
  with Some show ?thesis by (simp add: modify_piece_def jm_keys_set)
qed (simp add: modify_piece_def)

lemma get_modify_piece: "jm_get (modify_piece i g ps) k = (if k = i then map_option g (jm_get ps k) else jm_get ps k)"
  by (simp add: modify_piece_def split: option.split)

lemma keys_fold_modify [simp]: "jm_keys (fold (\<lambda>i ps. modify_piece i g ps) ids ps) = jm_keys ps"
  by (induction ids arbitrary: ps) simp_all

lemma get_fold_modify:
  "distinct ids \<Longrightarrow> jm_get (fold (\<lambda>i ps. modify_piece i g ps) ids ps) k =
     (if k \<in> set ids then map_option g (jm_get ps k) else jm_get ps k)"
  by (induction ids arbitrary: ps) (auto simp: get_modify_piece)

lemma entries_modify_piece:
  assumes "jm_wf ps" and "\<forall>(i, p) \<in> set ps. P p" and "\<And>p. P p \<Longrightarrow> P (g p)"
  shows "\<forall>(j, p) \<in> set (modify_piece i g ps). P p"
proof (cases "jm_get ps i")
  case (Some p)
  then have "P p" using assms(2) map_of_SomeD by fastforce
  with Some assms show ?thesis by (auto simp: modify_piece_def jm_set_entries)
qed (use assms in \<open>simp add: modify_piece_def\<close>)

lemma entries_fold_modify:
  assumes "\<And>p. P p \<Longrightarrow> P (g p)"
  shows "jm_wf ps \<Longrightarrow> \<forall>(i, p) \<in> set ps. P p \<Longrightarrow> \<forall>(j, p) \<in> set (fold (\<lambda>i ps. modify_piece i g ps) ids ps). P p"
proof (induction ids arbitrary: ps)
  case (Cons i ids)
  have "jm_wf (modify_piece i g ps)" using Cons.prems(1) by (simp add: jm_wf_def)
  with Cons.IH entries_modify_piece [OF Cons.prems assms] show ?case by simp
qed simp

definition providers_wf :: "av_piece \<Rightarrow> bool" where
  "providers_wf p \<longleftrightarrow> jm_wf (ap_providers p) \<and> (\<forall>(k, v) \<in> set (ap_providers p). pv_peerId v = k)"

lemma file_wf_iff:
  "file_wf fl \<longleftrightarrow> jm_keys (af_pieces fl) = [0..af_pieceCount fl - 1] \<and> (\<forall>(i, p) \<in> set (af_pieces fl). providers_wf p)"
  by (simp add: file_wf_def providers_wf_def)

lemma file_wf_pieces: "file_wf fl \<Longrightarrow> jm_wf (af_pieces fl)"
  by (simp add: file_wf_def jm_wf_def)

lemma providers_wf_drop: "providers_wf p \<Longrightarrow> providers_wf (drop_provider q p)"
  by (auto simp: providers_wf_def drop_provider_def jm_delete_entries)

lemma providers_wf_add: "providers_wf p \<Longrightarrow> providers_wf (add_provider v p)"
  by (auto simp: providers_wf_def add_provider_def jm_set_entries)

lemma new_av_file_wf [simp]: "file_wf (new_av_file n)"
  by (simp add: file_wf_def new_av_file_def comp_def)

lemma ensureFile_Inr:
  "ensureFile t f n = Inr (t1, fl) \<longleftrightarrow> af_pieceCount fl = n \<and>
     (jm_get t f = Some fl \<and> t1 = t \<or> jm_get t f = None \<and> fl = new_av_file n \<and> t1 = jm_set f fl t)"
  by (auto simp: ensureFile_def new_av_file_def split: option.splits)

lemma av_wf_get: "av_wf t \<Longrightarrow> jm_get t f = Some fl \<Longrightarrow> file_wf fl"
  by (auto simp: av_wf_def dest: map_of_SomeD)

lemma av_wf_set: "av_wf t \<Longrightarrow> file_wf fl \<Longrightarrow> av_wf (jm_set f fl t)"
  by (auto simp: av_wf_def jm_set_entries)

text \<open>The file entry that an accepted map leaves.\<close>

definition advertise :: "av_file \<Rightarrow> int list \<Rightarrow> provider_state \<Rightarrow> real \<Rightarrow> av_file" where
  "advertise fl ids v g =
     fl\<lparr>af_pieces := fold (\<lambda>index ps. modify_piece index (add_provider v) ps) ids
            (map (\<lambda>(i, p). (i, drop_provider (pv_peerId v) p)) (af_pieces fl)),
          af_generations := jm_set (pv_peerId v) g (af_generations fl)\<rparr>"

lemma advertise_wf: "file_wf fl \<Longrightarrow> file_wf (advertise fl ids v g)"
proof -
  assume wf: "file_wf fl"
  let ?ps = "map (\<lambda>(i, p). (i, drop_provider (pv_peerId v) p)) (af_pieces fl)"
  have keys: "jm_keys ?ps = jm_keys (af_pieces fl)" by (simp add: case_prod_unfold comp_def)
  have "jm_wf ?ps" using file_wf_pieces [OF wf] by (simp only: jm_wf_map_val)
  moreover have "\<forall>(i, p) \<in> set ?ps. providers_wf p" using wf by (auto simp: file_wf_iff providers_wf_drop)
  ultimately have "\<forall>(i, p) \<in> set (af_pieces (advertise fl ids v g)). providers_wf p"
    unfolding advertise_def by (simp, intro entries_fold_modify) (auto intro: providers_wf_add)
  with wf keys show ?thesis by (simp add: file_wf_iff advertise_def)
qed

lemma advertise_provider:
  assumes "distinct ids"
  shows "(case jm_get (af_pieces (advertise fl ids v g)) i of None \<Rightarrow> None | Some p \<Rightarrow> jm_get (ap_providers p) q) =
    (case jm_get (af_pieces fl) i of
       None \<Rightarrow> None
     | Some p \<Rightarrow> if q = pv_peerId v then (if i \<in> set ids then Some v else None) else jm_get (ap_providers p) q)"
  using assms
  by (simp add: advertise_def get_fold_modify jm_get_map_val drop_provider_def add_provider_def split: option.split)

lemma advertise_lease:
  assumes "distinct ids"
  shows "(case jm_get (af_pieces (advertise fl ids v g)) i of None \<Rightarrow> None | Some p \<Rightarrow> ap_requestedBy p) =
    (case jm_get (af_pieces fl) i of None \<Rightarrow> None | Some p \<Rightarrow> ap_requestedBy p)"
  using assms
  by (simp add: advertise_def get_fold_modify jm_get_map_val drop_provider_def add_provider_def split: option.split)

lemma file_piece_exists: "file_wf fl \<Longrightarrow> 0 \<le> i \<Longrightarrow> i < af_pieceCount fl \<Longrightarrow> jm_get (af_pieces fl) i \<noteq> None"
proof -
  assume "file_wf fl" "0 \<le> i" "i < af_pieceCount fl"
  then have "i \<in> set (jm_keys (af_pieces fl))" by (simp add: file_wf_def)
  then show ?thesis by (metis jm_get_None_iff)
qed

lemma updatePeerPieceMap_Inr:
  assumes "updatePeerPieceMap t inp = Inr (t', ch)"
  obtains ids t1 fl v where
    "pb_verifiedPieces (au_map inp) = map num_of_int ids" "distinct ids"
    "\<forall>i \<in> set ids. 0 \<le> i \<and> i < af_pieceCount fl" "pv_peerId v = au_peerId inp"
    "ensureFile t (pb_fileId (au_map inp)) (af_pieceCount fl) = Inr (t1, fl)"
    "ch \<longleftrightarrow> \<not> (\<exists>g. jm_get (af_generations fl) (au_peerId inp) = Some g \<and> pb_generation (au_map inp) \<le> g)"
    "t' = (if ch then jm_set (pb_fileId (au_map inp)) (advertise fl ids v (pb_generation (au_map inp))) t1 else t1)"
proof -
  from assms obtain n ids t1 fl where v: "validateBroadcast (au_map inp) = Inr (n, ids)"
    and e: "ensureFile t (pb_fileId (au_map inp)) n = Inr (t1, fl)"
    by (auto simp: updatePeerPieceMap_def bind_result_Inr_iff)
  have n: "n = af_pieceCount fl" using e by (simp add: ensureFile_Inr)
  define v where "v = \<lparr>pv_peerId = au_peerId inp, pv_role = au_role inp, pv_advertisedAt = pb_updatedAt (au_map inp),
     pv_expiresAt = (case au_expiresAt inp of Some e \<Rightarrow> e | None \<Rightarrow> pb_updatedAt (au_map inp) + 30000),
     pv_healthScore = (case au_healthScore inp of Some h \<Rightarrow> h | None \<Rightarrow> 50)\<rparr>"
  have d: "distinct ids" using v by (auto simp: validateBroadcast_Inr strict_sorted_iff)
  show thesis
  proof (rule that [of ids fl v t1])
    show "ch \<longleftrightarrow> \<not> (\<exists>g. jm_get (af_generations fl) (au_peerId inp) = Some g \<and> pb_generation (au_map inp) \<le> g)"
      using assms v e by (auto simp: updatePeerPieceMap_def Let_def split: if_splits option.splits)
    show "t' = (if ch then jm_set (pb_fileId (au_map inp)) (advertise fl ids v (pb_generation (au_map inp))) t1 else t1)"
      using assms v e by (auto simp: updatePeerPieceMap_def Let_def advertise_def v_def split: if_splits option.splits)
  qed (use v e d n in \<open>auto simp: validateBroadcast_Inr v_def\<close>)
qed

text \<open>
  A piece map that the table accepts replaces everything its peer advertised for that file: afterwards the peer
  provides exactly the pieces of the map, and the peer's generation has strictly grown. A stale map (a generation not above
  the last one) changes nothing. Either way the other peers' providers, the other files and all leases stay,
  and the table stays well formed.
\<close>

theorem updatePeerPieceMap_latest:
  assumes "av_wf t" and "updatePeerPieceMap t inp = Inr (t', changed)"
    and "p = au_peerId inp" and "f = pb_fileId (au_map inp)" and "g = pb_generation (au_map inp)"
  shows "av_wf t' \<and>
    (if changed then
       (case generation_of t p f of None \<Rightarrow> True | Some g' \<Rightarrow> g' < g) \<and> generation_of t' p f = Some g \<and>
       {i. provides t' p f i \<noteq> None} = {i. num_of_int i \<in> set (pb_verifiedPieces (au_map inp))}
     else t' = t \<and> (case generation_of t p f of None \<Rightarrow> False | Some g' \<Rightarrow> g \<le> g')) \<and>
    (\<forall>q f' i. (q, f') \<noteq> (p, f) \<longrightarrow> provides t' q f' i = provides t q f' i) \<and>
    (\<forall>f' i. getLease t' f' i = getLease t f' i)"
proof -
  obtain ids t1 fl v where ids: "pb_verifiedPieces (au_map inp) = map num_of_int ids" "distinct ids"
    "\<forall>i \<in> set ids. 0 \<le> i \<and> i < af_pieceCount fl" and v: "pv_peerId v = p"
    and e: "ensureFile t f (af_pieceCount fl) = Inr (t1, fl)"
    and ch: "changed \<longleftrightarrow> \<not> (\<exists>g'. jm_get (af_generations fl) p = Some g' \<and> g \<le> g')"
    and t': "t' = (if changed then jm_set f (advertise fl ids v g) t1 else t1)"
    using updatePeerPieceMap_Inr [OF assms(2)] unfolding assms(3-5) by metis
  have old: "jm_get t f = Some fl \<or> jm_get t f = None \<and> fl = new_av_file (af_pieceCount fl)"
    using e by (auto simp: ensureFile_Inr)
  then have fw: "file_wf fl" using assms(1) by (metis av_wf_get new_av_file_wf)
  have "t1 = t \<and> jm_get t f = Some fl \<or> t1 = jm_set f fl t" using e by (auto simp: ensureFile_Inr)
  then have file_ok: "file_wf fl \<and> av_wf t1 \<and> jm_get t1 f = Some fl"
    using fw av_wf_set [OF assms(1) fw] assms(1) by auto
  have other: "jm_get t1 f' = jm_get t f'" if "f' \<noteq> f" for f' using e that by (auto simp: ensureFile_Inr)
  have new_empty: "jm_get (af_pieces (new_av_file n)) i = Some x \<Longrightarrow> ap_providers x = [] \<and> ap_requestedBy x = None" for n i x
    by (auto simp: new_av_file_def dest!: map_of_SomeD)
  have gen: "jm_get (af_generations fl) p = generation_of t p f"
    using old by (auto simp: generation_of_def new_av_file_def split: option.splits)
      (metis av_file.select_convs(2) map_of.simps(1))
  have prov: "(case jm_get (af_pieces fl) i of None \<Rightarrow> None | Some x \<Rightarrow> jm_get (ap_providers x) q) = provides t q f i" for q i
    using old new_empty by (auto simp: provides_def find_piece_def split: option.splits)
      (metis map_of.simps(1) new_empty option.distinct(1))+
  have lease: "(case jm_get (af_pieces fl) i of None \<Rightarrow> None | Some x \<Rightarrow> ap_requestedBy x) = getLease t f i" for i
    using old new_empty by (auto simp: getLease_def find_piece_def split: option.splits) (metis new_empty)+
  show ?thesis
  proof (cases changed)
    case False
    then have "t' = t" using t' e ch by (auto simp: ensureFile_Inr new_av_file_def) (metis av_file.select_convs(2) map_of.simps(1) option.distinct(1))
    with False assms(1) ch gen show ?thesis by auto
  next
    case True
    then have t2: "jm_get t' f' = (if f' = f then Some (advertise fl ids v g) else jm_get t f')" for f'
      using t' other by simp
    have "av_wf t'" using True t' file_ok by (simp add: av_wf_set advertise_wf)
    moreover have "generation_of t' p f = Some g" using t2 v by (simp add: generation_of_def advertise_def)
    moreover have "provides t' p f i \<noteq> None \<longleftrightarrow> i \<in> set ids" for i
      using t2 advertise_provider [OF ids(2), where fl = fl and v = v and g = g and i = i and q = p] v ids(3) file_ok file_piece_exists [of fl i]
      by (auto simp: provides_def find_piece_def split: option.splits)
    moreover have "provides t' q f' i = provides t q f' i" if "(q, f') \<noteq> (p, f)" for q f' i
      using that t2 advertise_provider [OF ids(2), where fl = fl and v = v and g = g and i = i and q = q] v prov [where i = i and q = q]
      by (auto simp: provides_def find_piece_def split: option.splits)
    moreover have "getLease t' f' i = getLease t f' i" for f' i
      using t2 advertise_lease [OF ids(2), where fl = fl and v = v and g = g and i = i] lease [of i]
      by (auto simp: getLease_def find_piece_def split: option.splits)
    ultimately show ?thesis using True ch gen ids(1) by (auto split: option.splits)
  qed
qed

definition example_broadcast :: "int list \<Rightarrow> real \<Rightarrow> piece_map_broadcast" where
  "example_broadcast ids g = \<lparr>pb_type = ''PIECE_MAP'', pb_fileId = ''f'', pb_verifiedPieces = map num_of_int ids,
     pb_totalPieces = num_of_int 2, pb_generation = g, pb_updatedAt = 0\<rparr>"

definition example_update :: "string \<Rightarrow> int list \<Rightarrow> real \<Rightarrow> availability_update" where
  "example_update p ids g = \<lparr>au_peerId = p, au_role = Receiver, au_map = example_broadcast ids g,
     au_healthScore = None, au_expiresAt = None\<rparr>"

lemma av_wf_empty [simp]: "av_wf []"
  by (simp add: av_wf_def)

theorem updatePeerPieceMap_latest_witness:
  "\<exists>t. updatePeerPieceMap [] (example_update ''p'' [1] 3) = Inr (t, True) \<and> generation_of t ''p'' ''f'' = Some 3 \<and>
     {i. provides t ''p'' ''f'' i \<noteq> None} = {1}"
proof -
  have "validateBroadcast (example_broadcast [1] 3) = Inr (2, [1])"
    by (simp add: validateBroadcast_Inr example_broadcast_def MAX_SAFE_INTEGER_def)
  then obtain t where t: "updatePeerPieceMap [] (example_update ''p'' [1] 3) = Inr (t, True)"
    by (simp add: updatePeerPieceMap_def example_update_def ensureFile_def new_av_file_def Let_def)
  note updatePeerPieceMap_latest [OF av_wf_empty t refl refl refl]
  moreover have "pb_verifiedPieces (au_map (example_update ''p'' [1] 3)) = [num_of_int 1]"
    "pb_fileId (au_map (example_update ''p'' [1] 3)) = ''f''" "au_peerId (example_update ''p'' [1] 3) = ''p''"
    "pb_generation (au_map (example_update ''p'' [1] 3)) = 3"
    by (simp_all add: example_update_def example_broadcast_def)
  ultimately show ?thesis using t by auto
qed

section \<open>Leases\<close>

lemma find_piece_set_piece:
  "find_piece t f i \<noteq> None \<Longrightarrow>
   find_piece (set_piece t f i p) f' i' = (if f' = f \<and> i' = i then Some p else find_piece t f' i')"
  by (auto simp: find_piece_def set_piece_def split: option.splits)

lemma set_piece_wf:
  assumes "av_wf t" and "find_piece t f i \<noteq> None" and "providers_wf p"
  shows "av_wf (set_piece t f i p)"
proof -
  obtain fl q where fl: "jm_get t f = Some fl" "jm_get (af_pieces fl) i = Some q"
    using assms(2) by (auto simp: find_piece_def split: option.splits)
  have wf: "file_wf fl" using av_wf_get [OF assms(1) fl(1)] .
  have "i \<in> set (jm_keys (af_pieces fl))" using fl(2) by (metis jm_get_None_iff option.distinct(1))
  then have "jm_keys (jm_set i p (af_pieces fl)) = jm_keys (af_pieces fl)" by (rule jm_keys_set)
  moreover have "\<forall>(j, q) \<in> set (jm_set i p (af_pieces fl)). providers_wf q"
    using wf assms(3) file_wf_pieces [OF wf] by (auto simp: file_wf_iff jm_set_entries)
  ultimately have "file_wf (fl\<lparr>af_pieces := jm_set i p (af_pieces fl)\<rparr>)"
    unfolding file_wf_iff using wf [unfolded file_wf_iff] by (metis av_file.select_convs(1,3) av_file.surjective av_file.update_convs(3))
  with fl(1) assms(1) show ?thesis by (simp add: set_piece_def av_wf_set)
qed

lemma find_piece_wf: "av_wf t \<Longrightarrow> find_piece t f i = Some p \<Longrightarrow> providers_wf p"
  using av_wf_get [of t f]
  by (auto simp: find_piece_def file_wf_iff split: option.splits dest!: map_of_SomeD [of _ i])

lemma lease_wf: "av_wf t \<Longrightarrow> lease t f i l = Inr t' \<Longrightarrow> av_wf t'"
  using find_piece_wf by (auto simp: lease_def providers_wf_def split: option.splits intro!: set_piece_wf)

lemma release_wf: "av_wf t \<Longrightarrow> av_wf (release t f i r)"
  using find_piece_wf by (auto simp: release_def providers_wf_def split: option.splits intro!: set_piece_wf)

lemma getLease_lease: "lease t f i l = Inr t' \<Longrightarrow> getLease t' f' i' = (if f' = f \<and> i' = i then Some l else getLease t f' i')"
  by (auto simp: lease_def getLease_def find_piece_set_piece split: option.splits if_splits)

lemma getLease_release:
  "getLease (release t f i (Some r)) f' i' =
     (if f' = f \<and> i' = i \<and> (r = '''' \<or> map_option rl_requestId (getLease t f i) = Some r) then None else getLease t f' i')"
  by (auto simp: release_def getLease_def find_piece_set_piece split: option.splits)

lemma find_piece_expired:
  "find_piece (fst (expireLeases t now)) f i = map_option (expire_piece now) (find_piece t f i)"
  by (simp add: find_piece_def expireLeases_def jm_get_map_val [where f = "\<lambda>_ fl. fl\<lparr>af_pieces := map (\<lambda>(i, p). (i, expire_piece now p)) (af_pieces fl)\<rparr>"]
      jm_get_map_val split: option.split)

lemma providers_wf_expire: "providers_wf p \<Longrightarrow> providers_wf (expire_piece now p)"
  by (simp add: providers_wf_def expire_piece_def)

lemma expireLeases_wf: "av_wf t \<Longrightarrow> av_wf (fst (expireLeases t now))"
proof -
  assume wf: "av_wf t"
  have "file_wf (fl\<lparr>af_pieces := map (\<lambda>(i, p). (i, expire_piece now p)) (af_pieces fl)\<rparr>)" if "file_wf fl" for fl
    using that by (auto simp: file_wf_iff providers_wf_expire case_prod_unfold comp_def)
  then have "\<forall>(f, fl) \<in> set (fst (expireLeases t now)). file_wf fl"
    using wf by (auto simp: av_wf_def expireLeases_def)
  moreover have "jm_keys (fst (expireLeases t now)) = jm_keys t"
    by (simp add: expireLeases_def case_prod_unfold comp_def)
  ultimately show ?thesis using wf by (simp only: av_wf_def jm_wf_def)
qed

lemma find_piece_in: "av_wf t \<Longrightarrow> (f, fl) \<in> set t \<Longrightarrow> (i, p) \<in> set (af_pieces fl) \<Longrightarrow> find_piece t f i = Some p"
  by (auto simp: av_wf_def find_piece_def file_wf_def jm_wf_def)

lemma in_expired_lease: "l \<in> set (expired_lease now p) \<longleftrightarrow> ap_requestedBy p = Some l \<and> rl_expiresAt l \<le> now"
  by (auto simp: expired_lease_def split: option.split)

lemma expireLeases_list:
  assumes "av_wf t"
  shows "set (snd (expireLeases t now)) = {l. \<exists>f i. getLease t f i = Some l \<and> rl_expiresAt l \<le> now}"
proof (intro equalityI subsetI)
  fix l
  assume "l \<in> set (snd (expireLeases t now))"
  then obtain f fl i p where "(f, fl) \<in> set t" "(i, p) \<in> set (af_pieces fl)" "ap_requestedBy p = Some l" "rl_expiresAt l \<le> now"
    by (auto simp: expireLeases_def in_expired_lease)
  then have "getLease t f i = Some l \<and> rl_expiresAt l \<le> now"
    using find_piece_in [OF assms, of f fl i p] by (simp add: getLease_def)
  then show "l \<in> {l. \<exists>f i. getLease t f i = Some l \<and> rl_expiresAt l \<le> now}" by blast
next
  fix l
  assume "l \<in> {l. \<exists>f i. getLease t f i = Some l \<and> rl_expiresAt l \<le> now}"
  then obtain f i fl p where "jm_get t f = Some fl" "jm_get (af_pieces fl) i = Some p" "ap_requestedBy p = Some l"
    "rl_expiresAt l \<le> now" by (auto simp: getLease_def find_piece_def split: option.splits)
  then show "l \<in> set (snd (expireLeases t now))"
    by (force simp: expireLeases_def in_expired_lease dest!: map_of_SomeD)
qed

text \<open>
  Expiring leases at a time \<open>now\<close> removes exactly the leases whose end is not after \<open>now\<close>, reports each of
  them, keeps every other lease and everything the peers advertise, and leaves nothing more to
  expire at that time.
\<close>

theorem expireLeases_exact:
  assumes "av_wf t"
  shows "let (t', expired) = expireLeases t now in
    av_wf t' \<and>
    (\<forall>f i. getLease t' f i = (case getLease t f i of None \<Rightarrow> None | Some l \<Rightarrow> if rl_expiresAt l \<le> now then None else Some l)) \<and>
    (\<forall>q f i. provides t' q f i = provides t q f i) \<and>
    set expired = {l. \<exists>f i. getLease t f i = Some l \<and> rl_expiresAt l \<le> now} \<and>
    snd (expireLeases t' now) = []"
proof -
  obtain t' expired where e: "expireLeases t now = (t', expired)" by (cases "expireLeases t now") auto
  have wf: "av_wf t'" using expireLeases_wf [OF assms, of now] e by simp
  have fp: "find_piece t' f i = map_option (expire_piece now) (find_piece t f i)" for f i
    using find_piece_expired [of t now f i] e by simp
  have gl: "getLease t' f i = (case getLease t f i of None \<Rightarrow> None | Some l \<Rightarrow> if rl_expiresAt l \<le> now then None else Some l)" for f i
    by (auto simp: getLease_def fp expire_piece_def lease_expired_def split: option.split)
  have "provides t' q f i = provides t q f i" for q f i
    by (auto simp: provides_def fp expire_piece_def split: option.split)
  moreover have "set (snd (expireLeases t' now)) = {}"
    unfolding expireLeases_list [OF wf] using gl by (auto split: option.splits if_splits)
  ultimately show ?thesis using e wf gl expireLeases_list [OF assms, of now] by simp
qed

definition example_table :: availability where
  "example_table = [(''f'', \<lparr>af_pieceCount = 2, af_generations = [], af_pieces =
     [(0, \<lparr>ap_providers = [], ap_requestedBy = Some \<lparr>rl_peerId = ''p'', rl_requestId = ''r'', rl_leasedAt = 0, rl_expiresAt = 5\<rparr>\<rparr>),
      (1, \<lparr>ap_providers = [], ap_requestedBy = Some \<lparr>rl_peerId = ''q'', rl_requestId = ''s'', rl_leasedAt = 0, rl_expiresAt = 9\<rparr>\<rparr>)]\<rparr>)]"

theorem expireLeases_exact_witness:
  "getLease (fst (expireLeases example_table 5)) ''f'' 0 = None \<and>
   map_option rl_requestId (getLease (fst (expireLeases example_table 5)) ''f'' 1) = Some ''s''"
proof -
  have "av_wf example_table"
    by (simp add: av_wf_def example_table_def file_wf_def jm_wf_def upto.simps)
  from expireLeases_exact [OF this, of 5]
  have "\<forall>f i. getLease (fst (expireLeases example_table 5)) f i =
      (case getLease example_table f i of None \<Rightarrow> None | Some l \<Rightarrow> if rl_expiresAt l \<le> 5 then None else Some l)"
    by (simp add: case_prod_unfold Let_def)
  then show ?thesis by (simp add: getLease_def find_piece_def example_table_def)
qed

end
