(* ===== verification/Peer_Health.thy ===== *)
theory Peer_Health
  imports Availability
begin

text \<open>
  \<open>PeerHealthTable\<close> of \<open>packages/core/src/index.ts\<close> and the ranking of a piece's providers that reads it
  (\<open>PonsWarpEngine.rankProviders\<close>). Scores and rates are finite reals; \<open>Math.log2\<close> is the real
  logarithm. \<open>get\<close> creates a default entry for an unknown peer, so reading returns the table too.
\<close>

section \<open>State\<close>

datatype connection_state = Connected | Connecting | Disconnected | ConnFailed

record peer_health =
  ph_peerId :: string
  ph_connectionState :: connection_state
  ph_rttMs :: "real option"
  ph_averageThroughputBps :: "real option"
  ph_recentFailures :: int
  ph_recentRejects :: int
  ph_timeoutCount :: int
  ph_successfulPieces :: int
  ph_lastSuccessAt :: "int option"
  ph_score :: real

type_synonym health_table = "(string, peer_health) js_map"

section \<open>Score\<close>

text \<open>A number that is present and not zero.\<close>

fun truthy_number :: "real option \<Rightarrow> bool" where
  "truthy_number None = False"
| "truthy_number (Some x) = (x \<noteq> 0)"

definition throughput_bonus :: "real option \<Rightarrow> real" where
  "throughput_bonus bps =
     (if truthy_number bps then max 0 (min 20 (log 2 (max 1 (the bps) / 65536))) else 0)"

definition rtt_penalty :: "real option \<Rightarrow> real" where
  "rtt_penalty rtt = (if truthy_number rtt then max 0 (min 10 (the rtt / 100)) else 0)"

definition state_penalty :: "connection_state \<Rightarrow> real" where
  "state_penalty s = (if s = Connected then 0 else if s = Connecting then 15 else 40)"

definition computeScore :: "peer_health \<Rightarrow> real" where
  "computeScore h =
     (let throughputBonus = throughput_bonus (ph_averageThroughputBps h);
          rttPenalty = rtt_penalty (ph_rttMs h);
          failurePenalty = of_int (ph_recentFailures h * 10 + ph_timeoutCount h * 15 + ph_recentRejects h * 5);
          statePenalty = state_penalty (ph_connectionState h)
      in max 0 (min 100 (50 + throughputBonus - rttPenalty - failurePenalty - statePenalty)))"

section \<open>Operations\<close>

definition default_health :: "string \<Rightarrow> peer_health" where
  "default_health peerId = \<lparr>ph_peerId = peerId, ph_connectionState = Connected, ph_rttMs = None,
     ph_averageThroughputBps = None, ph_recentFailures = 0, ph_recentRejects = 0, ph_timeoutCount = 0,
     ph_successfulPieces = 0, ph_lastSuccessAt = None, ph_score = 50\<rparr>"

text \<open>A patch is the update it makes; the peer id and the score are always set by \<open>set\<close> itself.\<close>

definition health_set :: "health_table \<Rightarrow> string \<Rightarrow> (peer_health \<Rightarrow> peer_health) \<Rightarrow> health_table \<times> peer_health" where
  "health_set t peerId patch =
     (let current = (case jm_get t peerId of Some h \<Rightarrow> h | None \<Rightarrow> default_health peerId);
          nxt = (patch current)\<lparr>ph_peerId := peerId\<rparr>;
          scored = nxt\<lparr>ph_score := computeScore nxt\<rparr>
      in (jm_set peerId scored t, scored))"

definition health_get :: "health_table \<Rightarrow> string \<Rightarrow> health_table \<times> peer_health" where
  "health_get t peerId =
     (case jm_get t peerId of Some h \<Rightarrow> (t, h) | None \<Rightarrow> health_set t peerId (\<lambda>h. h))"

definition average_throughput :: "real option \<Rightarrow> real option \<Rightarrow> real option" where
  "average_throughput previous sample =
     (case sample of
        None \<Rightarrow> previous
      | Some x \<Rightarrow>
          (case previous of
             Some p \<Rightarrow> if p \<noteq> 0 \<and> 0 < p then Some (p * 7 / 10 + x * 3 / 10) else Some x
           | None \<Rightarrow> Some x))"

definition markSuccess :: "health_table \<Rightarrow> string \<Rightarrow> real \<Rightarrow> real \<Rightarrow> int \<Rightarrow> health_table" where
  "markSuccess t peerId nbytes elapsedMs now =
     (let (t1, current) = health_get t peerId;
          sample = (if 0 < elapsedMs \<and> 0 < nbytes then Some (nbytes / elapsedMs * 1000) else None)
      in fst (health_set t1 peerId (\<lambda>h. h\<lparr>ph_successfulPieces := ph_successfulPieces current + 1,
           ph_recentFailures := max 0 (ph_recentFailures current - 1),
           ph_averageThroughputBps := average_throughput (ph_averageThroughputBps current) sample,
           ph_lastSuccessAt := Some now, ph_connectionState := Connected\<rparr>)))"

definition markReject :: "health_table \<Rightarrow> string \<Rightarrow> health_table" where
  "markReject t peerId =
     (let (t1, current) = health_get t peerId
      in fst (health_set t1 peerId (\<lambda>h. h\<lparr>ph_recentRejects := ph_recentRejects current + 1\<rparr>)))"

definition markTimeout :: "health_table \<Rightarrow> string \<Rightarrow> health_table" where
  "markTimeout t peerId =
     (let (t1, current) = health_get t peerId
      in fst (health_set t1 peerId (\<lambda>h. h\<lparr>ph_timeoutCount := ph_timeoutCount current + 1,
           ph_recentFailures := ph_recentFailures current + 1\<rparr>)))"

section \<open>Ranking providers\<close>

definition active_count :: "(string, int) js_map \<Rightarrow> string \<Rightarrow> int" where
  "active_count activePerPeer peerId = (case jm_get activePerPeer peerId of Some n \<Rightarrow> n | None \<Rightarrow> 0)"

definition effective_score :: "health_table \<Rightarrow> provider_state \<Rightarrow> real" where
  "effective_score t v = ph_score (snd (health_get t (pv_peerId v))) + (if pv_role v = Owner then - 5 else 0)"

text \<open>The comparison function returns a positive number: \<open>b\<close> goes before \<open>a\<close>.\<close>

definition provider_after :: "health_table \<Rightarrow> (string, int) js_map \<Rightarrow> provider_state \<Rightarrow> provider_state \<Rightarrow> bool" where
  "provider_after t activePerPeer a b =
     (let aScore = effective_score t a; bScore = effective_score t b
      in if bScore \<noteq> aScore then 0 < bScore - aScore
         else 0 < active_count activePerPeer (pv_peerId a) - active_count activePerPeer (pv_peerId b))"

text \<open>The filter asks for a candidate's health, which may create its entry.\<close>

fun eligible_providers :: "health_table \<Rightarrow> string js_set \<Rightarrow> (string, int) js_map \<Rightarrow> int \<Rightarrow> provider_state list
    \<Rightarrow> health_table \<times> provider_state list" where
  "eligible_providers t candidates activePerPeer maxRequestsPerPeer [] = (t, [])"
| "eligible_providers t candidates activePerPeer maxRequestsPerPeer (v # vs) =
     (if pv_peerId v \<in> set candidates then
        let (t1, h) = health_get t (pv_peerId v);
            (t2, rest) = eligible_providers t1 candidates activePerPeer maxRequestsPerPeer vs
        in if ph_connectionState h = Connected \<and> active_count activePerPeer (pv_peerId v) < maxRequestsPerPeer
           then (t2, v # rest) else (t2, rest)
      else eligible_providers t candidates activePerPeer maxRequestsPerPeer vs)"

text \<open>The result also carries the health table and the known peers as the call leaves them.\<close>

definition rankProviders :: "availability \<Rightarrow> health_table \<Rightarrow> string js_set \<Rightarrow> string \<Rightarrow> int \<Rightarrow> string js_set \<Rightarrow> string \<Rightarrow> int
    \<Rightarrow> (string, int) js_map \<Rightarrow> int \<Rightarrow> health_table \<times> string js_set \<times> provider_state list" where
  "rankProviders av t known fileId pieceIndex candidates ownerPeerId maxRequestsPerPeer activePerPeer now =
     (let (t1, advertised) = eligible_providers t candidates activePerPeer maxRequestsPerPeer
            (getProviders av fileId pieceIndex now);
          known1 = fold (\<lambda>v k. js_add (pv_peerId v) k) advertised known;
          hasOwner = list_ex (\<lambda>v. pv_peerId v = ownerPeerId) advertised;
          known2 = js_add ownerPeerId known1;
          (t2, withOwner) =
            (if \<not> hasOwner \<and> ownerPeerId \<in> set candidates \<and> active_count activePerPeer ownerPeerId < maxRequestsPerPeer
             then let (t2, h) = health_get t1 ownerPeerId
                  in (t2, advertised @ [\<lparr>pv_peerId = ownerPeerId, pv_role = Owner, pv_advertisedAt = of_int now,
                        pv_expiresAt = of_int now + 30000, pv_healthScore = ph_score h\<rparr>])
             else (t1, advertised))
      in (t2, known2, js_sort (provider_after t2 activePerPeer) withOwner))"

section \<open>Scores stay in range and consistent\<close>

definition health_ok :: "string \<Rightarrow> peer_health \<Rightarrow> bool" where
  "health_ok peerId h \<longleftrightarrow> ph_peerId h = peerId \<and> ph_score h = computeScore h \<and> 0 \<le> ph_recentFailures h \<and>
     0 \<le> ph_recentRejects h \<and> 0 \<le> ph_timeoutCount h \<and> 0 \<le> ph_successfulPieces h \<and>
     (case ph_averageThroughputBps h of None \<Rightarrow> True | Some x \<Rightarrow> 0 < x)"

definition health_wf :: "health_table \<Rightarrow> bool" where
  "health_wf t \<longleftrightarrow> jm_wf t \<and> (\<forall>p h. jm_get t p = Some h \<longrightarrow> health_ok p h)"

lemma computeScore_range: "0 \<le> computeScore h" "computeScore h \<le> 100"
  by (simp_all add: computeScore_def Let_def)

lemma computeScore_ignores [simp]:
  "computeScore (h\<lparr>ph_score := x\<rparr>) = computeScore h" "computeScore (h\<lparr>ph_peerId := p\<rparr>) = computeScore h"
  "computeScore (h\<lparr>ph_successfulPieces := n\<rparr>) = computeScore h" "computeScore (h\<lparr>ph_lastSuccessAt := l\<rparr>) = computeScore h"
  by (simp_all add: computeScore_def)

lemma computeScore_default: "computeScore (default_health p) = 50"
  by (simp add: computeScore_def default_health_def throughput_bonus_def rtt_penalty_def state_penalty_def)

lemma health_set_wf:
  assumes "health_wf t"
    and "\<And>h. health_ok p h \<Longrightarrow> 0 \<le> ph_recentFailures (f h) \<and> 0 \<le> ph_recentRejects (f h) \<and> 0 \<le> ph_timeoutCount (f h) \<and>
      0 \<le> ph_successfulPieces (f h) \<and> (case ph_averageThroughputBps (f h) of None \<Rightarrow> True | Some x \<Rightarrow> 0 < x)"
  shows "health_wf (fst (health_set t p f)) \<and> health_ok p (snd (health_set t p f)) \<and>
    jm_get (fst (health_set t p f)) p = Some (snd (health_set t p f))"
proof -
  let ?c = "case jm_get t p of Some h \<Rightarrow> h | None \<Rightarrow> default_health p"
  have d: "health_ok p (default_health p)" by (simp add: health_ok_def computeScore_default) (simp add: default_health_def)
  have "health_ok p ?c" using assms(1) d by (auto simp: health_wf_def split: option.split)
  from assms(2) [OF this] have "health_ok p (snd (health_set t p f))"
    by (simp add: health_set_def Let_def health_ok_def)
  then show ?thesis using assms(1) by (auto simp: health_wf_def health_set_def Let_def)
qed

lemma health_get_wf:
  "health_wf t \<Longrightarrow> health_wf (fst (health_get t p)) \<and> health_ok p (snd (health_get t p)) \<and>
     jm_get (fst (health_get t p)) p = Some (snd (health_get t p))"
  using health_set_wf [of t p "\<lambda>h. h"]
  by (auto simp: health_get_def health_ok_def health_wf_def split: option.split)

lemma average_positive:
  "(case prev of None \<Rightarrow> True | Some x \<Rightarrow> 0 < x) \<Longrightarrow> (case s of None \<Rightarrow> True | Some x \<Rightarrow> 0 < x) \<Longrightarrow>
   (case average_throughput prev s of None \<Rightarrow> True | Some x \<Rightarrow> 0 < x)"
  by (auto simp: average_throughput_def split: option.splits)

lemma markSuccess_wf: "health_wf t \<Longrightarrow> health_wf (markSuccess t p b e now)"
proof -
  assume wf: "health_wf t"
  let ?g = "health_get t p"
  have h: "health_ok p (snd ?g)" "health_wf (fst ?g)" using health_get_wf [OF wf] by auto
  show ?thesis
    unfolding markSuccess_def Let_def case_prod_unfold
    by (rule conjunct1 [OF health_set_wf [OF h(2)]])
      (use h(1) in \<open>auto simp: health_ok_def intro!: average_positive\<close>)
qed

lemma markReject_wf: "health_wf t \<Longrightarrow> health_wf (markReject t p)"
  using health_get_wf [of t p] unfolding markReject_def Let_def case_prod_unfold
  by (intro conjunct1 [OF health_set_wf]) (auto simp: health_ok_def)

lemma markTimeout_wf: "health_wf t \<Longrightarrow> health_wf (markTimeout t p)"
  using health_get_wf [of t p] unfolding markTimeout_def Let_def case_prod_unfold
  by (intro conjunct1 [OF health_set_wf]) (auto simp: health_ok_def)

datatype health_op =
    Health_Success string real real int
  | Health_Reject string
  | Health_Timeout string
  | Health_Get string

fun health_step :: "health_table \<Rightarrow> health_op \<Rightarrow> health_table" where
  "health_step t (Health_Success p b e now) = markSuccess t p b e now"
| "health_step t (Health_Reject p) = markReject t p"
| "health_step t (Health_Timeout p) = markTimeout t p"
| "health_step t (Health_Get p) = fst (health_get t p)"

lemma health_step_wf: "health_wf t \<Longrightarrow> health_wf (health_step t op)"
  by (cases op) (simp_all add: markSuccess_wf markReject_wf markTimeout_wf health_get_wf)

text \<open>
  Whatever a table of peers goes through (successes, rejects, timeouts, reads), every peer's score is the
  one its own record gives, lies between 0 and 100, and its counters never go below zero.
\<close>

theorem health_scores_consistent:
  "health_wf (foldl health_step [] ops) \<and>
   (case jm_get (foldl health_step [] ops) p of
      None \<Rightarrow> True
    | Some h \<Rightarrow> ph_score h = computeScore h \<and> 0 \<le> ph_score h \<and> ph_score h \<le> 100 \<and> 0 \<le> ph_recentFailures h)"
proof -
  have wf: "health_wf (foldl health_step [] ops)"
    by (induction ops rule: rev_induct) (simp_all add: health_step_wf, simp add: health_wf_def)
  then show ?thesis
    using computeScore_range by (auto simp: health_wf_def health_ok_def split: option.split)
qed

definition health_of :: "health_table \<Rightarrow> string \<Rightarrow> peer_health" where
  "health_of t p = snd (health_get t p)"

lemma health_of_get [simp]: "health_of (fst (health_get t q)) p = health_of t p"
  by (auto simp: health_of_def health_get_def health_set_def Let_def split: option.splits)

lemma health_of_set: "health_of (fst (health_set t p f)) q =
    (if q = p then snd (health_set t p f) else health_of t q)"
  by (auto simp: health_of_def health_get_def health_set_def Let_def split: option.splits)

lemma health_of_current: "(case jm_get t p of Some h \<Rightarrow> h | None \<Rightarrow> default_health p) =
    (case jm_get t p of Some h \<Rightarrow> h | None \<Rightarrow> (health_of t p)\<lparr>ph_score := 50\<rparr>)"
  by (auto simp: health_of_def health_get_def health_set_def Let_def computeScore_default split: option.split)
    (simp add: default_health_def)

lemma health_get_present: "jm_get (fst (health_get t p)) p = Some (health_of t p)"
  by (auto simp: health_of_def health_get_def health_set_def Let_def split: option.split)

lemma average_between:
  assumes "0 < (p :: real)" and "0 < x"
  shows "min p x \<le> p * 7 / 10 + x * 3 / 10 \<and> p * 7 / 10 + x * 3 / 10 \<le> max p x"
  by (simp add: min_def max_def)

text \<open>
  A success with bytes moves the peer's average rate to a value between the old average and the new sample (to
  the sample itself when there was none); a success without bytes, as an acknowledgement is, leaves the
  average alone. Either way one recent failure is forgiven and the peer counts as connected.
\<close>

theorem markSuccess_average:
  assumes "health_wf t"
  shows "let old = health_of t p; new = health_of (markSuccess t p b e now) p; sample = b / e * 1000 in
    ph_recentFailures new = max 0 (ph_recentFailures old - 1) \<and> ph_connectionState new = Connected \<and>
    ph_successfulPieces new = ph_successfulPieces old + 1 \<and>
    (if 0 < e \<and> 0 < b then
       (case (ph_averageThroughputBps old, ph_averageThroughputBps new) of
          (None, Some y) \<Rightarrow> y = sample
        | (Some x, Some y) \<Rightarrow> min x sample \<le> y \<and> y \<le> max x sample
        | _ \<Rightarrow> False)
     else ph_averageThroughputBps new = ph_averageThroughputBps old)"
proof -
  let ?g = "health_get t p"
  have ok: "health_ok p (snd ?g)" using health_get_wf [OF assms] by simp
  have avg: "case ph_averageThroughputBps (health_of t p) of None \<Rightarrow> True | Some x \<Rightarrow> 0 < x"
    using ok by (simp add: health_ok_def health_of_def)
  have pos: "0 < e \<Longrightarrow> 0 < b \<Longrightarrow> 0 < b / e * 1000" by simp
  have new: "health_of (markSuccess t p b e now) p = (let h = health_of t p; n = h\<lparr>ph_successfulPieces := ph_successfulPieces h + 1,
      ph_recentFailures := max 0 (ph_recentFailures h - 1),
      ph_averageThroughputBps := average_throughput (ph_averageThroughputBps h) (if 0 < e \<and> 0 < b then Some (b / e * 1000) else None),
      ph_lastSuccessAt := Some now, ph_connectionState := Connected, ph_peerId := p\<rparr> in n\<lparr>ph_score := computeScore n\<rparr>)"
    unfolding markSuccess_def Let_def case_prod_unfold health_of_set
    by (simp add: health_set_def Let_def health_get_present health_of_def [symmetric])
  show ?thesis
    using avg pos average_between by (auto simp: new Let_def average_throughput_def split: option.splits)
qed

theorem markSuccess_average_witness:
  "ph_averageThroughputBps (health_of (markSuccess [] ''p'' 10 2 0) ''p'') = Some 5000 \<and>
   ph_averageThroughputBps (health_of (markSuccess [] ''p'' 0 2 0) ''p'') = None"
proof -
  have wf: "health_wf []" by (simp add: health_wf_def)
  have d: "ph_averageThroughputBps (health_of [] ''p'') = None"
    by (simp add: health_of_def health_get_def health_set_def Let_def default_health_def)
  show ?thesis
    using markSuccess_average [OF wf, of "''p''" 10 2 0] markSuccess_average [OF wf, of "''p''" 0 2 0] d
    by (auto simp: Let_def split: option.splits)
qed

section \<open>The ranking\<close>

lemma eligible_filter:
  "snd (eligible_providers t cs act k vs) =
     filter (\<lambda>v. pv_peerId v \<in> set cs \<and> ph_connectionState (health_of t (pv_peerId v)) = Connected \<and>
       active_count act (pv_peerId v) < k) vs \<and>
   health_of (fst (eligible_providers t cs act k vs)) p = health_of t p"
proof (induction t cs act k vs rule: eligible_providers.induct)
  case (2 t cs act k v vs)
  obtain t1 h where g: "health_get t (pv_peerId v) = (t1, h)" by (cases "health_get t (pv_peerId v)") auto
  then have t1: "health_of t1 q = health_of t q" for q using health_of_get [of t "pv_peerId v" q] by simp
  have h: "h = health_of t (pv_peerId v)" using g by (simp add: health_of_def)
  show ?case
  proof (cases "pv_peerId v \<in> set cs")
    case True
    with "2.IH"(1) [OF True g [symmetric] refl] show ?thesis
      by (simp add: g Let_def case_prod_unfold t1 h)
  next
    case False
    with "2.IH"(2) show ?thesis by simp
  qed
qed simp

lemma effective_score_of: "effective_score t v = ph_score (health_of t (pv_peerId v)) + (if pv_role v = Owner then - 5 else 0)"
  by (simp add: effective_score_def health_of_def)

lemma provider_weak_order: "weak_order_on A (provider_after t act)"
  unfolding weak_order_on_def provider_after_def Let_def by auto

definition owner_entry :: "health_table \<Rightarrow> string \<Rightarrow> int \<Rightarrow> provider_state" where
  "owner_entry t owner now = \<lparr>pv_peerId = owner, pv_role = Owner, pv_advertisedAt = of_int now,
     pv_expiresAt = of_int now + 30000, pv_healthScore = ph_score (health_of t owner)\<rparr>"

lemma rankProviders_parts:
  "\<exists>t' known' vs. rankProviders av t known f i cs owner k act now = (t', known', vs) \<and>
    (\<forall>p. health_of t' p = health_of t p) \<and>
    (let adv = filter (\<lambda>v. pv_peerId v \<in> set cs \<and> ph_connectionState (health_of t (pv_peerId v)) = Connected \<and>
           active_count act (pv_peerId v) < k) (getProviders av f i now);
         all = adv @ (if (\<exists>v \<in> set adv. pv_peerId v = owner) \<or> owner \<notin> set cs \<or> k \<le> active_count act owner then []
                      else [owner_entry t owner now])
     in vs = js_sort (provider_after t' act) all \<and> set known' = insert owner (set known \<union> pv_peerId ` set adv))"
proof -
  let ?e = "eligible_providers t cs act k (getProviders av f i now)"
  have e: "snd ?e = filter (\<lambda>v. pv_peerId v \<in> set cs \<and> ph_connectionState (health_of t (pv_peerId v)) = Connected \<and>
           active_count act (pv_peerId v) < k) (getProviders av f i now)" "health_of (fst ?e) p = health_of t p" for p
    using eligible_filter [of t cs act k "getProviders av f i now" p] by auto
  have known: "set (fold (\<lambda>v kn. js_add (pv_peerId v) kn) vs kn) = set kn \<union> pv_peerId ` set vs" for vs kn
    by (induction vs arbitrary: kn) auto
  have ex: "list_ex P xs \<longleftrightarrow> (\<exists>x \<in> set xs. P x)" for P and xs :: "provider_state list" by (simp add: list_ex_iff)
  show ?thesis
    unfolding rankProviders_def Let_def case_prod_unfold
    by (auto simp: e(1) e(2) known ex owner_entry_def health_of_def [symmetric] not_less)
qed

lemma getProviders_distinct: "av_wf av \<Longrightarrow> distinct (map pv_peerId (getProviders av f i now))"
proof (cases "find_piece av f i")
  case (Some p)
  assume "av_wf av"
  then have wf: "providers_wf p" using Some by (rule find_piece_wf)
  then have "map pv_peerId (map snd (ap_providers p)) = jm_keys (ap_providers p)"
    by (auto simp: providers_wf_def)
  then have "distinct (map pv_peerId (map snd (ap_providers p)))"
    using wf by (simp only: providers_wf_def jm_wf_def)
  then show ?thesis using Some by (simp add: getProviders_def distinct_map_filter del: map_map)
qed (simp add: getProviders_def)

text \<open>
  C24. The ranking of a piece's providers lists each peer once: all live advertisers among the candidates that are
  connected and below their request limit, and the owner as a fallback whenever it is a candidate below its limit
  (whatever its connection state). The first provider has the highest score after the
  owner's handicap of 5 and, among equals, the fewest active requests; ranking changes no peer's health.
\<close>

theorem rankProviders_best_first:
  assumes "av_wf av" and "rankProviders av t known f i cs owner k act now = (t', known', vs)"
  shows "distinct (map pv_peerId vs) \<and>
    (\<forall>v \<in> set vs. pv_peerId v \<in> set cs \<and> active_count act (pv_peerId v) < k \<and>
       (ph_connectionState (health_of t (pv_peerId v)) = Connected \<or> pv_peerId v = owner)) \<and>
    (\<forall>v \<in> set (getProviders av f i now). pv_peerId v \<in> set cs \<and> active_count act (pv_peerId v) < k \<and>
       ph_connectionState (health_of t (pv_peerId v)) = Connected \<longrightarrow> v \<in> set vs) \<and>
    (owner \<in> set cs \<and> active_count act owner < k \<longrightarrow> owner \<in> pv_peerId ` set vs) \<and>
    (case vs of [] \<Rightarrow> True | v # rest \<Rightarrow> \<forall>w \<in> set rest.
       effective_score t w < effective_score t v \<or>
       effective_score t w = effective_score t v \<and> active_count act (pv_peerId v) \<le> active_count act (pv_peerId w)) \<and>
    (\<forall>p. health_of t' p = health_of t p)"
proof -
  define adv where "adv = filter (\<lambda>v. pv_peerId v \<in> set cs \<and> ph_connectionState (health_of t (pv_peerId v)) = Connected \<and>
           active_count act (pv_peerId v) < k) (getProviders av f i now)"
  define ow where "ow = (if (\<exists>v \<in> set adv. pv_peerId v = owner) \<or> owner \<notin> set cs \<or> k \<le> active_count act owner then []
                      else [owner_entry t owner now])"
  have h: "health_of t' p = health_of t p" for p
    using rankProviders_parts [of av t known f i cs owner k act now] assms(2) by auto
  have vs: "vs = js_sort (provider_after t' act) (adv @ ow)"
    using rankProviders_parts [of av t known f i cs owner k act now] assms(2)
    by (auto simp: Let_def adv_def ow_def)
  have set_vs: "set vs = set adv \<union> set ow" by (simp add: vs)
  have "distinct (map pv_peerId adv)"
    unfolding adv_def by (rule distinct_map_filter) (rule getProviders_distinct [OF assms(1)])
  then have "distinct (map pv_peerId (adv @ ow))" by (auto simp: ow_def owner_entry_def)
  moreover have "mset (map pv_peerId vs) = mset (map pv_peerId (adv @ ow))" by (simp add: vs)
  ultimately have dist: "distinct (map pv_peerId vs)" by (metis mset_eq_imp_distinct_iff)
  have sound: "\<forall>v \<in> set vs. pv_peerId v \<in> set cs \<and> active_count act (pv_peerId v) < k \<and>
       (ph_connectionState (health_of t (pv_peerId v)) = Connected \<or> pv_peerId v = owner)"
    unfolding set_vs by (auto simp: adv_def ow_def owner_entry_def split: if_splits)
  have complete: "\<forall>v \<in> set (getProviders av f i now). pv_peerId v \<in> set cs \<and> active_count act (pv_peerId v) < k \<and>
       ph_connectionState (health_of t (pv_peerId v)) = Connected \<longrightarrow> v \<in> set vs"
    unfolding set_vs by (auto simp: adv_def)
  have own: "owner \<in> set cs \<and> active_count act owner < k \<longrightarrow> owner \<in> pv_peerId ` set vs"
    unfolding set_vs by (auto simp: ow_def owner_entry_def)
  have sorted: "sorted_wrt (\<lambda>a b. \<not> provider_after t' act a b) vs"
    unfolding vs by (rule sorted_js_sort) (rule provider_weak_order)
  have cmp: "\<not> provider_after t' act v w \<Longrightarrow> effective_score t w < effective_score t v \<or>
      effective_score t w = effective_score t v \<and> active_count act (pv_peerId v) \<le> active_count act (pv_peerId w)" for v w
    by (auto simp: provider_after_def Let_def effective_score_of h split: if_splits)
  have "case vs of [] \<Rightarrow> True | v # rest \<Rightarrow> \<forall>w \<in> set rest.
       effective_score t w < effective_score t v \<or>
       effective_score t w = effective_score t v \<and> active_count act (pv_peerId v) \<le> active_count act (pv_peerId w)"
    using sorted cmp by (cases vs) auto
  with dist sound complete own h show ?thesis by blast
qed

theorem rankProviders_best_first_witness:
  "\<exists>t' known' v. rankProviders [] [] [] ''f'' 0 [''o''] ''o'' 1 [] 7 = (t', known', [v]) \<and> pv_peerId v = ''o''"
proof -
  obtain t' known' vs where r: "rankProviders [] [] [] ''f'' 0 [''o''] ''o'' 1 [] 7 = (t', known', vs)"
    by (cases "rankProviders [] [] [] ''f'' 0 [''o''] ''o'' 1 [] 7") auto
  note c = rankProviders_best_first [OF av_wf_empty r]
  have d: "distinct (map pv_peerId vs)" using c by (rule conjunct1)
  have p: "\<forall>v \<in> set vs. pv_peerId v = ''o''" using conjunct1 [OF conjunct2 [OF c]] by simp
  have "''o'' \<in> pv_peerId ` set vs"
    using conjunct1 [OF conjunct2 [OF conjunct2 [OF conjunct2 [OF c]]]] by (simp add: active_count_def)
  then obtain v ws where vs: "vs = v # ws" by (cases vs) simp_all
  have "ws = []"
  proof (cases ws)
    case (Cons w ws')
    then have "pv_peerId w = ''o''" "pv_peerId v = ''o''" using p vs by simp_all
    with d vs Cons show ?thesis by simp
  qed
  moreover have "pv_peerId v = ''o''" using p vs by simp
  ultimately show ?thesis using r vs by blast
qed

end
