(* ===== verification/Engine_State.thy ===== *)
theory Engine_State
  imports Resume Peer_Health
begin

text \<open>
  The state of \<open>PonsWarpEngine\<close> (\<open>packages/core/src/index.ts\<close>), its messages and events, and the methods
  that run to completion without an \<open>await\<close>: lookups, request counters, tombstones, window bookkeeping, timers,
  and the end of a direct request.

  The engine is an object with asynchronous methods on one thread. A \<open>turn\<close> is the code that runs between two
  suspensions; it is a function from the engine to the engine, and clocks and random numbers
  read in a turn are the fields of the argument \<open>tn\<close>. Events and messages are logged in the order they are emitted.
  Window objects are kept in a store and named by their position, because suspended code holds on
  to a window object that the map may have dropped in the meantime.
\<close>

section \<open>Messages\<close>

record piece_request =
  rq_fileId :: string
  rq_pieceIndex :: real
  rq_requestId :: string
  rq_fromOffset :: real

record chunk_header =
  ch_fileId :: string
  ch_pieceIndex :: real
  ch_chunkIndex :: real
  ch_totalChunks :: real
  ch_requestId :: string
  ch_payloadSize :: real

datatype wire_message =
    PieceRequest piece_request
  | PieceChunkHeader chunk_header
  | PieceAck string real string "string option"
  | PieceReject string real string string "string option"
  | PieceMapMsg piece_map_broadcast
  | PieceCancel string int string
  | BinaryFrame bytes

section \<open>Requests, windows and events\<close>

record grid_options =
  go_ownerPeerId :: string
  go_candidatePeers :: "string list"
  go_maxRequestsPerPeer :: "int option"
  go_requestLeaseMs :: "int option"
  go_now :: "int option"
  go_endgameMaxPieces :: "int option"
  go_endgameMaxProviders :: "int option"
  go_endgame :: "bool option"

record direct_options =
  do_timeoutMs :: "jsnum option"
  do_controllerId :: "string option"
  do_windowKey :: "string option"
  do_retryCount :: "int option"

record direct_info =
  di_timeoutMs :: int
  di_controllerId :: "string option"
  di_windowKey :: string
  di_expiresAt :: int
  di_generation :: int
  di_retryCount :: int

record outstanding_request =
  or_fileId :: string
  or_pieceIndex :: int
  or_peerId :: string
  or_requestedAt :: int
  or_gridOptions :: "grid_options option"
  or_direct :: "direct_info option"

datatype terminal_reason =
    R_Verified | R_Acknowledged | R_SendFailed | R_RequestTimeout | R_Cancelled | R_ProviderReject | R_HashMismatch
  | R_InvalidChunk

text \<open>The code that waits in a window's queue.\<close>

datatype window_task =
    Task_Fill string string direct_options
  | Task_Expire string
  | Task_Retry string string string int string int direct_options

record direct_window =
  dw_fileId :: string
  dw_peerId :: string
  dw_controllerId :: "string option"
  dw_cap :: int
  dw_generation :: int
  dw_queue :: "(window_task \<times> bool) list"
  dw_running :: bool
  dw_error :: "platform_error option"
  dw_disabled :: bool
  dw_exhausted :: bool

record terminal_event =
  te_fileId :: string
  te_pieceIndex :: int
  te_peerId :: string
  te_requestId :: string
  te_reason :: terminal_reason
  te_retryCount :: int
  te_willRetry :: bool
  te_at :: int
  te_generation :: int
  te_controllerId :: "string option"
  te_windowKey :: string

record exhausted_event =
  xe_fileId :: string
  xe_peerId :: string
  xe_controllerId :: "string option"
  xe_windowKey :: string
  xe_generation :: int
  xe_pieceIndex :: int
  xe_requestId :: string
  xe_reason :: terminal_reason
  xe_retryCount :: int
  xe_at :: int

record lifecycle_error_event =
  le_phase :: string
  le_code :: string
  le_fileId :: string
  le_pieceIndex :: int
  le_peerId :: string
  le_requestId :: "string option"
  le_controllerId :: "string option"
  le_windowKey :: string
  le_generation :: int
  le_at :: int

datatype performance_event =
    Perf_Retry string int string string string int int
  | Perf_StorageWrite string int int int
  | Perf_Speed string int string int real int
  | Perf_Resume string int int int

datatype engine_event =
    Ev_Progress transfer_progress
  | Ev_PieceVerified string int
  | Ev_PieceRejected string real string
  | Ev_AvailabilityChanged string string "jsnum list" real
  | Ev_RequestTimedOut string int string string
  | Ev_Performance performance_event
  | Ev_Terminal terminal_event
  | Ev_Exhausted exhausted_event
  | Ev_LifecycleError lifecycle_error_event

record chunk_assembly =
  ca_peerId :: string
  ca_header :: chunk_header
  ca_chunks :: "bytes option list"
  ca_receivedBytes :: int
  ca_receivedChunks :: int

section \<open>The engine\<close>

record engine =
  en_sessionId :: "string option"
  en_manifests :: "(string, file_manifest) js_map"
  en_managers :: "(string, piece_manager) js_map"
  en_ownerSources :: "(string, bytes) js_map"
  en_pendingChunks :: "(string, chunk_header) js_map"
  en_incomingChunks :: "(string, chunk_assembly) js_map"
  en_sendQueues :: "(string, piece_request list) js_map"
  en_outstanding :: "(string, outstanding_request) js_map"
  en_availability :: availability
  en_health :: health_table
  en_localGenerations :: "(string, int) js_map"
  en_knownPeers :: "string js_set"
  en_hasTransport :: bool
  en_directTimers :: "string js_set"
  en_tombstones :: "string js_set"
  en_windowMap :: "(string, nat) js_map"
  en_windows :: "direct_window list"
  en_nextGeneration :: int
  en_disposed :: bool
  en_defaultTimeout :: int
  en_windowCap :: "int option"
  en_chunkBytes :: jsnum
  en_maxRetries :: int
  en_store :: "string \<times> int \<Rightarrow> bytes option"
  en_events :: "engine_event list"
  en_outbox :: "(string \<times> wire_message) list"
  en_writes :: "(string \<times> int \<times> bytes) list"
  en_saves :: "persisted_session list"

record turn =
  tn_now :: int
  tn_clock :: int
  tn_random :: string

definition maxDirectMetadataEntries :: nat where
  "maxDirectMetadataEntries = 4096"

record lifecycle_options =
  lo_directTimeoutMs :: "jsnum option"
  lo_directWindowCap :: "jsnum option"
  lo_transferChunkBytes :: "jsnum option"

definition default_chunk_bytes :: jsnum where
  "default_chunk_bytes = num_of_int DEFAULT_TRANSFER_CHUNK_BYTES"

definition max_chunk_bytes :: jsnum where
  "max_chunk_bytes = num_of_int MAX_TRANSFER_CHUNK_BYTES"

definition new_engine :: "bool \<Rightarrow> int \<Rightarrow> lifecycle_options \<Rightarrow> engine result" where
  "new_engine transport maxRetries opts =
     bind_result (assertPositiveSafeInteger (case lo_directTimeoutMs opts of Some t \<Rightarrow> t | None \<Rightarrow> num_of_int 300000)) (\<lambda>timeout.
     bind_result (case lo_directWindowCap opts of None \<Rightarrow> Inr None
                  | Some c \<Rightarrow> bind_result (assertPositiveSafeInteger c) (\<lambda>c. Inr (Some c))) (\<lambda>cap. Inr
       \<lparr>en_sessionId = None, en_manifests = [], en_managers = [], en_ownerSources = [], en_pendingChunks = [],
        en_incomingChunks = [], en_sendQueues = [], en_outstanding = [], en_availability = [], en_health = [], en_localGenerations = [],
        en_knownPeers = [], en_hasTransport = transport, en_directTimers = [], en_tombstones = [], en_windowMap = [],
        en_windows = [], en_nextGeneration = 0, en_disposed = False, en_defaultTimeout = timeout, en_windowCap = cap,
        en_chunkBytes = (case lo_transferChunkBytes opts of None \<Rightarrow> default_chunk_bytes
                         | Some b \<Rightarrow> clampTransferChunkBytes b max_chunk_bytes),
        en_maxRetries = maxRetries, en_store = (\<lambda>_. None), en_events = [], en_outbox = [], en_writes = [], en_saves = []\<rparr>))"

definition setTransferChunkBytes :: "engine \<Rightarrow> jsnum \<Rightarrow> engine" where
  "setTransferChunkBytes e b = e\<lparr>en_chunkBytes := clampTransferChunkBytes b max_chunk_bytes\<rparr>"

definition applyTransferTuning :: "engine \<Rightarrow> jsnum \<Rightarrow> jsnum option \<Rightarrow> engine \<times> jsnum" where
  "applyTransferTuning e chunkSizeBytes maxBytes =
     (let b = clampTransferChunkBytes chunkSizeBytes (case maxBytes of Some m \<Rightarrow> m | None \<Rightarrow> max_chunk_bytes)
      in (e\<lparr>en_chunkBytes := b\<rparr>, b))"

definition emit :: "engine_event \<Rightarrow> engine \<Rightarrow> engine" where
  "emit ev e = e\<lparr>en_events := en_events e @ [ev]\<rparr>"

definition send_message :: "string \<Rightarrow> wire_message \<Rightarrow> engine \<Rightarrow> engine" where
  "send_message peerId msg e = e\<lparr>en_outbox := en_outbox e @ [(peerId, msg)]\<rparr>"

definition transport_missing :: pons_error where
  "transport_missing = PonsWarpError ''transport:not_configured'' (Some ''transport'') (Some True)"

definition requireTransport :: "engine \<Rightarrow> unit result" where
  "requireTransport e = (if en_hasTransport e then Inr () else Inl transport_missing)"

definition requireManifest :: "engine \<Rightarrow> string \<Rightarrow> file_manifest result" where
  "requireManifest e fileId =
     (case jm_get (en_manifests e) fileId of
        None \<Rightarrow> Inl (PonsWarpError ''manifest:not_found'' (Some ''manifest'') (Some True))
      | Some m \<Rightarrow> Inr m)"

definition requireManager :: "engine \<Rightarrow> string \<Rightarrow> piece_manager result" where
  "requireManager e fileId =
     (case jm_get (en_managers e) fileId of
        None \<Rightarrow> Inl (PonsWarpError ''piece_map:not_found'' (Some ''resume'') (Some True))
      | Some m \<Rightarrow> Inr m)"

definition registerManifest :: "int \<Rightarrow> engine \<Rightarrow> file_manifest \<Rightarrow> engine" where
  "registerManifest now e manifest =
     (let e1 = e\<lparr>en_manifests := jm_set (fm_fileId manifest) manifest (en_manifests e)\<rparr>
      in if jm_get (en_managers e1) (fm_fileId manifest) = None
         then e1\<lparr>en_managers := jm_set (fm_fileId manifest)
                (new_piece_manager (fm_fileId manifest) (fm_pieces manifest) now) (en_managers e1)\<rparr>
         else e1)"

text \<open>What \<open>persistState\<close> hands to the storage, when there is something to save.\<close>

definition persisted_state :: "int \<Rightarrow> engine \<Rightarrow> persisted_session option" where
  "persisted_state now e =
     (if \<not> truthy (en_sessionId e) \<or> en_manifests e = [] then None
      else Some \<lparr>ss_schemaVersion = 1, ss_protocolVersion = CORE_PROTOCOL_VERSION,
        ss_sessionId = (case en_sessionId e of Some s \<Rightarrow> s | None \<Rightarrow> ''''), ss_ownerPeerId = None, ss_mode = DirectMode,
        ss_manifests = map snd (en_manifests e), ss_pieceMaps = map (\<lambda>(f, m). exportPieceMap m now) (en_managers e),
        ss_peers = [], ss_updatedAt = now\<rparr>)"

text \<open>A call on the manager of a file; the object is updated in place. A throw leaves it as it was.\<close>

definition with_manager :: "engine \<Rightarrow> string \<Rightarrow> (piece_manager \<Rightarrow> piece_manager result) \<Rightarrow> engine result" where
  "with_manager e fileId op =
     bind_result (requireManager e fileId) (\<lambda>m. bind_result (op m) (\<lambda>m'.
       Inr (e\<lparr>en_managers := jm_set fileId m' (en_managers e)\<rparr>)))"

end
