(* ===== verification/Direct_Lifecycle.thy ===== *)
theory Direct_Lifecycle
  imports Engine_State
begin

text \<open>
  The life of a direct request in \<open>PonsWarpEngine\<close> (\<open>packages/core/src/index.ts\<close>): request ids, counters, tombstones,
  windows with their serial queues, timers, expiry, cancellation, and \<open>finalizeDirectRequest\<close>, which ends a
  request once and decides whether it is retried. All of this code runs inside one turn.
\<close>

section \<open>Turns that may throw\<close>

type_synonym 'a turn_result = "engine \<times> 'a result"

definition turn_bind :: "'a turn_result \<Rightarrow> (engine \<Rightarrow> 'a \<Rightarrow> 'b turn_result) \<Rightarrow> 'b turn_result" where
  "turn_bind r f = (case r of (e, Inl err) \<Rightarrow> (e, Inl err) | (e, Inr a) \<Rightarrow> f e a)"

lemma turn_bind_simps [simp]:
  "turn_bind (e, Inl err) f = (e, Inl err)"
  "turn_bind (e, Inr a) f = f e a"
  by (simp_all add: turn_bind_def)

definition call_manager :: "engine \<Rightarrow> string \<Rightarrow> (piece_manager \<Rightarrow> piece_manager result) \<Rightarrow> unit turn_result" where
  "call_manager e fileId op = (case with_manager e fileId op of Inl err \<Rightarrow> (e, Inl err) | Inr e' \<Rightarrow> (e', Inr ()))"

text \<open>\<open>this.managers.get(fileId)?.op()\<close>: no call when there is no manager.\<close>

definition call_manager_if :: "engine \<Rightarrow> string \<Rightarrow> (piece_manager \<Rightarrow> piece_manager result) \<Rightarrow> unit turn_result" where
  "call_manager_if e fileId op =
     (case jm_get (en_managers e) fileId of None \<Rightarrow> (e, Inr ()) | Some _ \<Rightarrow> call_manager e fileId op)"

section \<open>Request ids and counters\<close>

definition createRequestId :: "turn \<Rightarrow> string \<Rightarrow> int \<Rightarrow> string" where
  "createRequestId tn fileId pieceIndex =
     ''req_'' @ fileId @ ''_'' @ show_int pieceIndex @ ''_'' @ show_int (tn_now tn) @ ''_'' @ tn_random tn"

definition is_digit :: "char \<Rightarrow> bool" where
  "is_digit c \<longleftrightarrow> 48 \<le> (of_char c :: nat) \<and> (of_char c :: nat) \<le> 57"

definition is_lower :: "char \<Rightarrow> bool" where
  "is_lower c \<longleftrightarrow> 97 \<le> (of_char c :: nat) \<and> (of_char c :: nat) \<le> 122"

text \<open>The last two underscores are the only ones that can end the free part of the pattern.\<close>

definition isEngineGeneratedRequestId :: "string \<Rightarrow> bool" where
  "isEngineGeneratedRequestId requestId =
     (let r = rev requestId;
          random = takeWhile (\<lambda>c. c \<noteq> CHR ''_'') r;
          r1 = drop (Suc (length random)) r;
          stamp = takeWhile (\<lambda>c. c \<noteq> CHR ''_'') r1;
          r2 = drop (Suc (length stamp)) r1;
          front = rev r2
      in random \<noteq> [] \<and> list_all (\<lambda>c. is_lower c \<or> is_digit c) random \<and> length random < length r \<and>
         stamp \<noteq> [] \<and> list_all is_digit stamp \<and> length stamp < length r1 \<and>
         take 4 front = ''req_'' \<and> drop 4 front \<noteq> [] \<and>
         list_all (\<lambda>c. of_char c \<notin> {10, 13 :: nat}) (drop 4 front))"

definition countOutstandingRequests :: "engine \<Rightarrow> string \<Rightarrow> string option \<Rightarrow> int" where
  "countOutstandingRequests e fileId peerId =
     int (length (filter (\<lambda>r. or_fileId r = fileId \<and> (\<not> truthy peerId \<or> Some (or_peerId r) = peerId))
       (map snd (en_outstanding e))))"

definition in_window :: "string \<Rightarrow> outstanding_request \<Rightarrow> bool" where
  "in_window windowKey r = (case or_direct r of None \<Rightarrow> False | Some d \<Rightarrow> di_windowKey d = windowKey)"

definition countOutstandingRequestsForWindow :: "engine \<Rightarrow> string \<Rightarrow> int" where
  "countOutstandingRequestsForWindow e windowKey =
     int (length (filter (in_window windowKey) (map snd (en_outstanding e))))"

definition countOutstandingRequestsForFile :: "engine \<Rightarrow> string \<Rightarrow> int" where
  "countOutstandingRequestsForFile e fileId =
     int (length (filter (\<lambda>r. or_fileId r = fileId) (map snd (en_outstanding e))))"

definition isExactActiveRequest :: "engine \<Rightarrow> string \<Rightarrow> string \<Rightarrow> int \<Rightarrow> string \<Rightarrow> bool" where
  "isExactActiveRequest e peerId fileId pieceIndex requestId =
     (case jm_get (en_outstanding e) requestId of
        None \<Rightarrow> False
      | Some r \<Rightarrow> or_peerId r = peerId \<and> or_fileId r = fileId \<and> or_pieceIndex r = pieceIndex \<and>
          requestId \<notin> set (en_tombstones e))"

definition getDirectLifecycleSnapshot :: "engine \<Rightarrow> int \<times> int" where
  "getDirectLifecycleSnapshot e =
     (int (length (filter (\<lambda>r. or_direct r \<noteq> None) (map snd (en_outstanding e)))), int (length (en_directTimers e)))"

section \<open>Tombstones, generations and windows\<close>

definition addDirectTombstone :: "string \<Rightarrow> engine \<Rightarrow> engine" where
  "addDirectTombstone requestId e =
     (let t = js_add requestId (en_tombstones e)
      in e\<lparr>en_tombstones := drop (length t - maxDirectMetadataEntries) t\<rparr>)"

definition generation_exhausted :: pons_error where
  "generation_exhausted = PonsWarpError ''direct:generation_exhausted'' (Some ''lifecycle'') (Some False)"

definition allocateDirectGeneration :: "engine \<Rightarrow> int turn_result" where
  "allocateDirectGeneration e =
     (if MAX_SAFE_INTEGER < \<bar>en_nextGeneration e\<bar> then (e, Inl generation_exhausted)
      else (e\<lparr>en_nextGeneration := en_nextGeneration e + 1\<rparr>, Inr (en_nextGeneration e)))"

definition window_at :: "engine \<Rightarrow> string \<Rightarrow> direct_window option" where
  "window_at e key = (case jm_get (en_windowMap e) key of None \<Rightarrow> None | Some a \<Rightarrow> Some (en_windows e ! a))"

definition set_window :: "nat \<Rightarrow> direct_window \<Rightarrow> engine \<Rightarrow> engine" where
  "set_window a w e = e\<lparr>en_windows := (en_windows e)[a := w]\<rparr>"

definition new_window :: "string \<Rightarrow> direct_window \<Rightarrow> engine \<Rightarrow> engine" where
  "new_window key w e = e\<lparr>en_windowMap := jm_set key (length (en_windows e)) (en_windowMap e), en_windows := en_windows e @ [w]\<rparr>"

fun prune_loop :: "engine \<Rightarrow> string option \<Rightarrow> string list \<Rightarrow> engine" where
  "prune_loop e preserve [] = e"
| "prune_loop e preserve (key # rest) =
     (if length (en_windowMap e) \<le> maxDirectMetadataEntries then e
      else if Some key = preserve \<or> 0 < countOutstandingRequestsForWindow e key then prune_loop e preserve rest
      else prune_loop (e\<lparr>en_windowMap := jm_delete key (en_windowMap e)\<rparr>) preserve rest)"

definition pruneDirectLifecycleMetadata :: "string option \<Rightarrow> engine \<Rightarrow> engine" where
  "pruneDirectLifecycleMetadata preserve e =
     (if length (en_windowMap e) \<le> maxDirectMetadataEntries then e
      else prune_loop e preserve (jm_keys (en_windowMap e)))"

text \<open>\<open>enqueueWindow\<close>: the task waits behind the tasks of its window; without a live window it is dropped.\<close>

definition enqueueWindow :: "string \<Rightarrow> window_task \<Rightarrow> bool \<Rightarrow> engine \<Rightarrow> engine" where
  "enqueueWindow key task trackFailure e =
     (case jm_get (en_windowMap e) key of
        None \<Rightarrow> e
      | Some a \<Rightarrow>
          let w = en_windows e ! a
          in if dw_disabled w \<or> en_disposed e then e
             else set_window a (w\<lparr>dw_queue := dw_queue w @ [(task, trackFailure)]\<rparr>) e)"

section \<open>Ending a direct request\<close>

definition retryable_reason :: "terminal_reason \<Rightarrow> bool" where
  "retryable_reason status \<longleftrightarrow> status \<in> {R_ProviderReject, R_SendFailed, R_RequestTimeout, R_HashMismatch, R_InvalidChunk}"

definition emitWindowExhausted :: "turn \<Rightarrow> direct_window \<Rightarrow> string \<Rightarrow> terminal_reason \<Rightarrow> int \<Rightarrow> string \<Rightarrow> int \<Rightarrow> engine \<Rightarrow> engine" where
  "emitWindowExhausted tn w windowKey reason pieceIndex requestId retryCount e =
     emit (Ev_Exhausted \<lparr>xe_fileId = dw_fileId w, xe_peerId = dw_peerId w, xe_controllerId = dw_controllerId w,
       xe_windowKey = windowKey, xe_generation = dw_generation w, xe_pieceIndex = pieceIndex, xe_requestId = requestId,
       xe_reason = reason, xe_retryCount = retryCount, xe_at = tn_clock tn\<rparr>) e"

definition forget_request :: "string \<Rightarrow> engine \<Rightarrow> engine" where
  "forget_request requestId e =
     e\<lparr>en_outstanding := jm_delete requestId (en_outstanding e),
       en_directTimers := filter (\<lambda>r. r \<noteq> requestId) (en_directTimers e),
       en_incomingChunks := jm_delete requestId (en_incomingChunks e),
       en_pendingChunks := filter (\<lambda>(p, h). ch_requestId h \<noteq> requestId) (en_pendingChunks e)\<rparr>"

definition finalizeDirectRequest :: "turn \<Rightarrow> string \<Rightarrow> terminal_reason \<Rightarrow> engine \<Rightarrow> engine \<times> bool" where
  "finalizeDirectRequest tn requestId status e =
     (case jm_get (en_outstanding e) requestId of
        None \<Rightarrow> (e, False)
      | Some request \<Rightarrow>
          (case or_direct request of
             None \<Rightarrow> (e, False)
           | Some direct \<Rightarrow>
               let e1 = forget_request requestId e;
                   retryable = retryable_reason status;
                   willRetry = (retryable \<and> di_retryCount direct < en_maxRetries e1);
                   e2 = emit (Ev_Terminal \<lparr>te_fileId = or_fileId request, te_pieceIndex = or_pieceIndex request,
                     te_peerId = or_peerId request, te_requestId = requestId, te_reason = status,
                     te_retryCount = di_retryCount direct, te_willRetry = willRetry, te_at = tn_clock tn,
                     te_generation = di_generation direct, te_controllerId = di_controllerId direct,
                     te_windowKey = di_windowKey direct\<rparr>) e1;
                   key = di_windowKey direct
               in if willRetry then
                    (if key = '''' then (e2, True)
                     else (enqueueWindow key (Task_Retry requestId key (or_fileId request) (or_pieceIndex request)
                             (or_peerId request) (di_generation direct)
                             \<lparr>do_timeoutMs = Some (num_of_int (di_timeoutMs direct)), do_controllerId = di_controllerId direct,
                              do_windowKey = Some key, do_retryCount = Some (di_retryCount direct + 1)\<rparr>) True e2, True))
                  else if retryable \<and> key \<noteq> '''' then
                    (case jm_get (en_windowMap e2) key of
                       None \<Rightarrow> (e2, True)
                     | Some a \<Rightarrow>
                         let w = en_windows e2 ! a
                         in if dw_exhausted w then (e2, True)
                            else let w' = w\<lparr>dw_exhausted := True\<rparr>
                                 in (emitWindowExhausted tn w' key status (or_pieceIndex request) requestId
                                       (di_retryCount direct) (set_window a w' e2), True))
                  else (e2, True)))"

definition error_code_of :: "platform_error \<Rightarrow> string" where
  "error_code_of err = (case err of Pons p \<Rightarrow> err_code p | Foreign \<Rightarrow> ''direct:lifecycle_failed'')"

definition emitDirectLifecycleError :: "turn \<Rightarrow> string \<Rightarrow> outstanding_request option \<Rightarrow> string option \<Rightarrow> platform_error \<Rightarrow> engine \<Rightarrow> engine" where
  "emitDirectLifecycleError tn phase request requestId err e =
     (case request of
        None \<Rightarrow> e
      | Some r \<Rightarrow>
          (case or_direct r of
             None \<Rightarrow> e
           | Some d \<Rightarrow>
               if di_windowKey d = '''' then e
               else
                 let e1 = (case jm_get (en_windowMap e) (di_windowKey d) of
                       None \<Rightarrow> e
                     | Some a \<Rightarrow> set_window a ((en_windows e ! a)\<lparr>dw_disabled := True, dw_error := Some err\<rparr>) e)
                 in emit (Ev_LifecycleError \<lparr>le_phase = phase, le_code = error_code_of err, le_fileId = or_fileId r,
                      le_pieceIndex = or_pieceIndex r, le_peerId = or_peerId r, le_requestId = requestId,
                      le_controllerId = di_controllerId d, le_windowKey = di_windowKey d,
                      le_generation = (case window_at e1 (di_windowKey d) of Some w \<Rightarrow> dw_generation w | None \<Rightarrow> 0),
                      le_at = tn_clock tn\<rparr>) e1))"

section \<open>Timers, expiry and cancellation\<close>

definition armDirectTimer :: "string \<Rightarrow> engine \<Rightarrow> engine" where
  "armDirectTimer requestId e =
     (case jm_get (en_outstanding e) requestId of
        None \<Rightarrow> e
      | Some r \<Rightarrow> if or_direct r = None then e else e\<lparr>en_directTimers := js_add requestId (en_directTimers e)\<rparr>)"

definition expireDirectRequest :: "turn \<Rightarrow> string \<Rightarrow> engine \<Rightarrow> unit turn_result" where
  "expireDirectRequest tn requestId e =
     (case jm_get (en_outstanding e) requestId of
        None \<Rightarrow> (e, Inr ())
      | Some r \<Rightarrow>
          if or_direct r = None then (e, Inr ())
          else turn_bind (call_manager_if e (or_fileId r) (\<lambda>m. markFailed m (tn_now tn) (or_pieceIndex r) ''request_timeout'')) (\<lambda>e1 _.
            let e2 = e1\<lparr>en_health := markTimeout (en_health e1) (or_peerId r)\<rparr>;
                e3 = emit (Ev_RequestTimedOut (or_fileId r) (or_pieceIndex r) (or_peerId r) requestId) e2
            in (fst (finalizeDirectRequest tn requestId R_RequestTimeout e3), Inr ())))"

text \<open>The callback of an armed timer; \<open>request\<close> is the object the closure holds.\<close>

definition timer_fired :: "turn \<Rightarrow> string \<Rightarrow> outstanding_request \<Rightarrow> engine \<Rightarrow> unit turn_result" where
  "timer_fired tn requestId request e =
     (case or_direct request of
        None \<Rightarrow> expireDirectRequest tn requestId e
      | Some d \<Rightarrow>
          if di_windowKey d = '''' then expireDirectRequest tn requestId e
          else (enqueueWindow (di_windowKey d) (Task_Expire requestId) True e, Inr ()))"

fun expire_loop :: "turn \<Rightarrow> int \<Rightarrow> (string \<times> outstanding_request) list \<Rightarrow> engine \<Rightarrow> unit turn_result" where
  "expire_loop tn now [] e = (e, Inr ())"
| "expire_loop tn now ((requestId, r) # rest) e =
     (if (case or_direct r of None \<Rightarrow> False | Some d \<Rightarrow> di_expiresAt d \<le> now)
      then turn_bind (expireDirectRequest tn requestId e) (\<lambda>e1 _. expire_loop tn now rest e1)
      else expire_loop tn now rest e)"

definition expireDirectRequests :: "turn \<Rightarrow> int \<Rightarrow> engine \<Rightarrow> unit turn_result" where
  "expireDirectRequests tn now e = expire_loop tn now (en_outstanding e) e"

record cancel_selector =
  cs_fileId :: "string option"
  cs_peerId :: "string option"
  cs_controllerId :: "string option"
  cs_windowKey :: "string option"
  cs_generation :: "int option"

definition selects :: "'a option \<Rightarrow> 'a option \<Rightarrow> bool" where
  "selects want actual \<longleftrightarrow> want = None \<or> want = actual"

definition window_selected :: "cancel_selector \<Rightarrow> string \<Rightarrow> direct_window \<Rightarrow> bool" where
  "window_selected s key w \<longleftrightarrow> selects (cs_windowKey s) (Some key) \<and> selects (cs_fileId s) (Some (dw_fileId w)) \<and>
     selects (cs_peerId s) (Some (dw_peerId w)) \<and> selects (cs_controllerId s) (dw_controllerId w) \<and>
     selects (cs_generation s) (Some (dw_generation w))"

definition request_selected :: "cancel_selector \<Rightarrow> outstanding_request \<Rightarrow> direct_info \<Rightarrow> bool" where
  "request_selected s r d \<longleftrightarrow> selects (cs_fileId s) (Some (or_fileId r)) \<and> selects (cs_peerId s) (Some (or_peerId r)) \<and>
     selects (cs_controllerId s) (di_controllerId d) \<and> selects (cs_windowKey s) (Some (di_windowKey d)) \<and>
     selects (cs_generation s) (Some (di_generation d))"

fun cancel_windows :: "cancel_selector \<Rightarrow> (string \<times> nat) list \<Rightarrow> engine \<Rightarrow> unit turn_result" where
  "cancel_windows s [] e = (e, Inr ())"
| "cancel_windows s ((key, a) # rest) e =
     (if window_selected s key (en_windows e ! a) then
        let e1 = set_window a ((en_windows e ! a)\<lparr>dw_disabled := True\<rparr>) e
        in turn_bind (allocateDirectGeneration e1) (\<lambda>e2 g.
             cancel_windows s rest (set_window a ((en_windows e2 ! a)\<lparr>dw_generation := g\<rparr>) e2))
      else cancel_windows s rest e)"

fun cancel_requests :: "turn \<Rightarrow> cancel_selector \<Rightarrow> (string \<times> outstanding_request) list \<Rightarrow> int \<Rightarrow> engine \<Rightarrow> engine \<times> int" where
  "cancel_requests tn s [] n e = (e, n)"
| "cancel_requests tn s ((requestId, r) # rest) n e =
     (case or_direct r of
        None \<Rightarrow> cancel_requests tn s rest n e
      | Some d \<Rightarrow>
          if request_selected s r d then
            let e1 = addDirectTombstone requestId e;
                (e2, finalized) = finalizeDirectRequest tn requestId R_Cancelled e1
            in cancel_requests tn s rest (if finalized then n + 1 else n) e2
          else cancel_requests tn s rest n e)"

definition cancelDirectRequests :: "turn \<Rightarrow> cancel_selector \<Rightarrow> engine \<Rightarrow> int turn_result" where
  "cancelDirectRequests tn s e =
     turn_bind (cancel_windows s (en_windowMap e) e) (\<lambda>e1 _.
       let (e2, n) = cancel_requests tn s (en_outstanding e1) 0 e1
       in (pruneDirectLifecycleMetadata None e2, Inr n))"

definition any_selector :: cancel_selector where
  "any_selector = \<lparr>cs_fileId = None, cs_peerId = None, cs_controllerId = None, cs_windowKey = None, cs_generation = None\<rparr>"

text \<open>
  \<open>flushDirectLifecycle\<close> waits for the queues it finds between its two halves. The second half reports the
  first window error, which the caller sees as a rejection.
\<close>

definition flush_begin :: "turn \<Rightarrow> engine \<Rightarrow> nat list turn_result" where
  "flush_begin tn e =
     turn_bind (expireDirectRequests tn (tn_clock tn) e) (\<lambda>e1 _. (e1, Inr (map snd (en_windowMap e1))))"

definition flush_end :: "nat list \<Rightarrow> engine \<Rightarrow> engine \<times> platform_error option" where
  "flush_end windows e =
     (case find (\<lambda>a. dw_error (en_windows e ! a) \<noteq> None) windows of
        None \<Rightarrow> (pruneDirectLifecycleMetadata None e, None)
      | Some a \<Rightarrow>
          (pruneDirectLifecycleMetadata None (set_window a ((en_windows e ! a)\<lparr>dw_error := None\<rparr>) e),
           dw_error (en_windows e ! a)))"

text \<open>The end of \<open>dispose\<close>, after it has cancelled everything and flushed.\<close>

definition dispose_end :: "engine \<Rightarrow> engine" where
  "dispose_end e = e\<lparr>en_disposed := True, en_directTimers := [], en_outstanding := [], en_windowMap := []\<rparr>"

end
