(* ===== verification/Engine_Requests.thy ===== *)
theory Engine_Requests
  imports Direct_Lifecycle
begin

text \<open>
  How \<open>PonsWarpEngine\<close> (\<open>packages/core/src/index.ts\<close>) asks for pieces: \<open>requestNextPiece\<close> and the direct window,
  \<open>requestNextGridPiece\<close>, the grid window, the endgame, lease expiry and the cancellation of competing requests.

  An asynchronous call is a stack of frames, the code that is left to run when the awaited operation or call
  ends; the top frame is resumed first. A method's \<open>_start\<close> definition runs its first turn and
  returns the frames it leaves together with the outcome that is already there, if any.
\<close>

section \<open>Suspended code\<close>

datatype grid_reason = RarestFirst | FastestPeer | OwnerFallback | ResumeMissing | RetryAfterReject

datatype idle_reason = Idle_Complete | Idle_NoMissingPiece | Idle_NoAvailablePeer | Idle_ParallelLimit

datatype grid_result =
    Scheduled int string string grid_reason
  | Idle idle_reason
  | Exhausted int

record receive_input =
  ri_fileId :: string
  ri_pieceIndex :: int
  ri_requestId :: string
  ri_data :: bytes

datatype receive_result =
    RecvAck string int string "string option"
  | RecvReject string int string string "string option"

datatype call_value =
    V_Unit
  | V_Assembled "bytes option"
  | V_Scheduled "scheduled_piece option"
  | V_ScheduledList "scheduled_piece list"
  | V_Grid grid_result
  | V_GridList "grid_result list"
  | V_Receive receive_result

datatype outcome = Ok call_value | Err platform_error

datatype frame =
    F_RequestSent string string string int scheduled_piece
  | F_RequestSaved string string string int scheduled_piece
  | F_Fill nat string int string string direct_options "scheduled_piece list"
  | F_TaskDone nat bool
  | F_GridSent grid_result
  | F_GridSaved grid_result
  | F_EndgameSent grid_result
  | F_GridEndgame string grid_options int "grid_result list"
  | F_GridFill string grid_options int "grid_result list"
  | F_Hashed receive_input "string option" piece_descriptor
  | F_RejectDeleted receive_input "outstanding_request option" piece_descriptor
  | F_RejectSaved receive_input "outstanding_request option" piece_descriptor
  | F_Written receive_input "outstanding_request option" piece_descriptor int
  | F_VerifiedSaved receive_input "outstanding_request option" piece_descriptor
  | F_Broadcast receive_input piece_descriptor
  | F_Respond string chunk_header outstanding_request
  | F_Responded receive_result outstanding_request
  | F_ChunkRejectSent string chunk_header "outstanding_request option" bool bool
  | F_ChunkRejected
  | F_Assembled string chunk_header
  | F_PersistTail
  | F_Discard
  | F_Handler

type_synonym activation = "outcome option \<times> frame list"

abbreviation throws :: "pons_error \<Rightarrow> activation" where
  "throws err \<equiv> (Some (Err (Pons err)), [])"

abbreviation returns :: "call_value \<Rightarrow> activation" where
  "returns v \<equiv> (Some (Ok v), [])"

text \<open>The rest of a turn after a call that may throw: the throw ends the method.\<close>

definition continue_with :: "'a turn_result \<Rightarrow> (engine \<Rightarrow> 'a \<Rightarrow> engine \<times> activation) \<Rightarrow> engine \<times> activation" where
  "continue_with r k = (case r of (e, Inl err) \<Rightarrow> (e, throws err) | (e, Inr a) \<Rightarrow> k e a)"

text \<open>\<open>await\<close> of a transport send: without a transport the call throws at once.\<close>

definition await_send :: "string \<Rightarrow> wire_message \<Rightarrow> frame list \<Rightarrow> engine \<Rightarrow> engine \<times> activation" where
  "await_send peerId msg frames e =
     (case requireTransport e of
        Inl err \<Rightarrow> (e, Some (Err (Pons err)), frames)
      | Inr _ \<Rightarrow> (send_message peerId msg e, None, frames))"

text \<open>\<open>await\<close> of a call: the caller's frame goes under the callee's.\<close>

definition await_call :: "frame \<Rightarrow> engine \<times> activation \<Rightarrow> engine \<times> activation" where
  "await_call frame r = (case r of (e, out, frames) \<Rightarrow> (e, out, frames @ [frame]))"

definition await_platform :: "frame list \<Rightarrow> engine \<Rightarrow> engine \<times> activation" where
  "await_platform frames e = (e, None, frames)"

text \<open>\<open>await this.persistState()\<close>: with nothing to save it has ended already.\<close>

definition persistState :: "turn \<Rightarrow> frame list \<Rightarrow> engine \<Rightarrow> engine \<times> activation" where
  "persistState tn frames e =
     (case persisted_state (tn_now tn) e of
        None \<Rightarrow> (e, Some (Ok V_Unit), frames)
      | Some s \<Rightarrow> (e\<lparr>en_saves := en_saves e @ [s]\<rparr>, None, frames))"

section \<open>Direct requests\<close>

definition piece_request_message :: "string \<Rightarrow> int \<Rightarrow> string \<Rightarrow> wire_message" where
  "piece_request_message fileId pieceIndex requestId =
     PieceRequest \<lparr>rq_fileId = fileId, rq_pieceIndex = of_int pieceIndex, rq_requestId = requestId, rq_fromOffset = 0\<rparr>"

definition sendPieceRequest :: "string \<Rightarrow> string \<Rightarrow> int \<Rightarrow> string \<Rightarrow> frame list \<Rightarrow> engine \<Rightarrow> engine \<times> activation" where
  "sendPieceRequest peerId fileId pieceIndex requestId frames e =
     await_send peerId (piece_request_message fileId pieceIndex requestId) frames e"

definition window_key :: "string \<Rightarrow> string \<Rightarrow> string option \<Rightarrow> string" where
  "window_key fileId peerId controllerId =
     fileId @ '':'' @ peerId @ '':'' @ (case controllerId of Some c \<Rightarrow> c | None \<Rightarrow> ''default'')"

definition fresh_window :: "string \<Rightarrow> string \<Rightarrow> string option \<Rightarrow> int \<Rightarrow> int \<Rightarrow> direct_window" where
  "fresh_window fileId peerId controllerId cap generation =
     \<lparr>dw_fileId = fileId, dw_peerId = peerId, dw_controllerId = controllerId, dw_cap = cap, dw_generation = generation,
      dw_queue = [], dw_running = False, dw_error = None, dw_disabled = False, dw_exhausted = False\<rparr>"

definition check_timeout :: "direct_options option \<Rightarrow> unit result" where
  "check_timeout opts =
     (case opts of
        None \<Rightarrow> Inr ()
      | Some d \<Rightarrow> (case do_timeoutMs d of
            None \<Rightarrow> Inr ()
          | Some t \<Rightarrow> bind_result (assertPositiveSafeInteger t) (\<lambda>_. Inr ())))"

definition timeout_of :: "engine \<Rightarrow> direct_options \<Rightarrow> int" where
  "timeout_of e d = (case do_timeoutMs d of Some (Fin t) \<Rightarrow> \<lfloor>t\<rfloor> | _ \<Rightarrow> en_defaultTimeout e)"

text \<open>The entry of a direct request, after its window has been made if it is new.\<close>

definition direct_entry :: "turn \<Rightarrow> string \<Rightarrow> string \<Rightarrow> direct_options \<Rightarrow> engine \<Rightarrow> engine \<times> direct_info" where
  "direct_entry tn peerId fileId d e =
     (let key = (case do_windowKey d of Some k \<Rightarrow> k | None \<Rightarrow> window_key fileId peerId (do_controllerId d));
          e1 = (if key \<noteq> '''' \<and> jm_get (en_windowMap e) key = None
                then new_window key (fresh_window fileId peerId (do_controllerId d) 1 0) e else e);
          generation = (if key = '''' then 0 else case window_at e1 key of Some w \<Rightarrow> dw_generation w | None \<Rightarrow> 0)
      in (e1, \<lparr>di_timeoutMs = timeout_of e1 d, di_controllerId = do_controllerId d, di_windowKey = key,
               di_expiresAt = tn_clock tn + timeout_of e1 d, di_generation = generation,
               di_retryCount = (case do_retryCount d of Some r \<Rightarrow> r | None \<Rightarrow> 0)\<rparr>))"

definition requestNextPiece_start :: "turn \<Rightarrow> string \<Rightarrow> string \<Rightarrow> direct_options option \<Rightarrow> engine \<Rightarrow> engine \<times> activation" where
  "requestNextPiece_start tn peerId fileId opts e =
     (case requireManager e fileId of
        Inl err \<Rightarrow> (e, throws err)
      | Inr manager \<Rightarrow>
          (case owner_first_next peerId (en_maxRetries e) manager of
             Inl err \<Rightarrow> (e, throws err)
           | Inr None \<Rightarrow> (e, returns (V_Scheduled None))
           | Inr (Some scheduled) \<Rightarrow>
               (case check_timeout opts of
                  Inl err \<Rightarrow> (e, throws err)
                | Inr _ \<Rightarrow>
                    let index = ps_index (sp_piece scheduled);
                        requestId = createRequestId tn fileId index
                    in continue_with (call_manager e fileId (\<lambda>m. markRequested m (tn_now tn) index peerId)) (\<lambda>e1 _.
                         let (e2, direct) =
                               (case opts of
                                  None \<Rightarrow> (e1, None)
                                | Some d \<Rightarrow> (let (e2, i) = direct_entry tn peerId fileId d e1 in (e2, Some i)));
                             e3 = e2\<lparr>en_outstanding := jm_set requestId
                               \<lparr>or_fileId = fileId, or_pieceIndex = index, or_peerId = peerId,
                                or_requestedAt = tn_clock tn, or_gridOptions = None, or_direct = direct\<rparr> (en_outstanding e2)\<rparr>;
                             e4 = (if opts = None then e3 else armDirectTimer requestId e3)
                         in sendPieceRequest peerId fileId index requestId
                              [F_RequestSent requestId peerId fileId index scheduled] e4))))"

text \<open>After the send: a failure fails the piece and ends the request, and the call returns \<open>null\<close>.\<close>

definition requestNextPiece_sent :: "turn \<Rightarrow> string \<Rightarrow> string \<Rightarrow> string \<Rightarrow> int \<Rightarrow> scheduled_piece \<Rightarrow> outcome \<Rightarrow> engine \<Rightarrow> engine \<times> activation" where
  "requestNextPiece_sent tn requestId peerId fileId index scheduled out e =
     (case out of
        Err _ \<Rightarrow>
          continue_with (call_manager e fileId (\<lambda>m. markFailed m (tn_now tn) index ''send_failed'')) (\<lambda>e1 _.
            (fst (finalizeDirectRequest tn requestId R_SendFailed e1), returns (V_Scheduled None)))
      | Ok _ \<Rightarrow> persistState tn [F_RequestSaved requestId peerId fileId index scheduled] e)"

definition requestNextPiece_saved :: "turn \<Rightarrow> string \<Rightarrow> string \<Rightarrow> string \<Rightarrow> int \<Rightarrow> scheduled_piece \<Rightarrow> outcome \<Rightarrow> engine \<Rightarrow> engine \<times> activation" where
  "requestNextPiece_saved tn requestId peerId fileId index scheduled out e =
     (case out of
        Err err \<Rightarrow>
          (let e1 = emitDirectLifecycleError tn ''persist'' (jm_get (en_outstanding e) requestId) (Some requestId) err e
           in continue_with (call_manager e1 fileId (\<lambda>m. markFailed m (tn_now tn) index ''persist_failed'')) (\<lambda>e2 _.
                (fst (finalizeDirectRequest tn requestId R_Cancelled e2), returns (V_Scheduled None))))
      | Ok _ \<Rightarrow> (e, returns (V_Scheduled (Some scheduled))))"

section \<open>The direct window\<close>

definition lifecycle_error :: "string \<Rightarrow> pons_error" where
  "lifecycle_error code = PonsWarpError code (Some ''lifecycle'') (Some True)"

text \<open>The body of the \<open>while\<close> loop; \<open>cap\<close> is read from the window object the call holds.\<close>

definition fill_step :: "turn \<Rightarrow> nat \<Rightarrow> string \<Rightarrow> int \<Rightarrow> string \<Rightarrow> string \<Rightarrow> direct_options \<Rightarrow> scheduled_piece list
    \<Rightarrow> engine \<Rightarrow> engine \<times> activation" where
  "fill_step tn a key cap peerId fileId opts scheduled e =
     (if countOutstandingRequestsForWindow e key < cap
      then await_call (F_Fill a key cap peerId fileId opts scheduled)
             (requestNextPiece_start tn peerId fileId (Some (opts\<lparr>do_windowKey := Some key\<rparr>)) e)
      else (e, returns (V_ScheduledList scheduled)))"

definition fill_resume :: "turn \<Rightarrow> nat \<Rightarrow> string \<Rightarrow> int \<Rightarrow> string \<Rightarrow> string \<Rightarrow> direct_options \<Rightarrow> scheduled_piece list
    \<Rightarrow> outcome \<Rightarrow> engine \<Rightarrow> engine \<times> activation" where
  "fill_resume tn a key cap peerId fileId opts scheduled out e =
     (case out of
        Err err \<Rightarrow> (e, Some (Err err), [])
      | Ok (V_Scheduled (Some nxt)) \<Rightarrow> fill_step tn a key cap peerId fileId opts (scheduled @ [nxt]) e
      | Ok _ \<Rightarrow> (e, returns (V_ScheduledList scheduled)))"

text \<open>\<open>requestPieceWindow\<close> up to queueing its loop. \<open>maxInFlight\<close> is the option or the configured cap.\<close>

definition requestPieceWindow :: "turn \<Rightarrow> string \<Rightarrow> string \<Rightarrow> direct_options \<Rightarrow> jsnum option \<Rightarrow> engine \<Rightarrow> unit turn_result" where
  "requestPieceWindow tn peerId fileId opts maxInFlightOpt e =
     (case assertPositiveSafeInteger (case maxInFlightOpt of Some n \<Rightarrow> n
             | None \<Rightarrow> (case en_windowCap e of Some c \<Rightarrow> num_of_int c | None \<Rightarrow> num_of_int 1)) of
        Inl err \<Rightarrow> (e, Inl err)
      | Inr maxInFlight \<Rightarrow>
          let key = (case do_windowKey opts of Some k \<Rightarrow> k | None \<Rightarrow> window_key fileId peerId (do_controllerId opts))
          in turn_bind
               (case jm_get (en_windowMap e) key of
                  None \<Rightarrow>
                    turn_bind (allocateDirectGeneration e) (\<lambda>e1 g.
                      (pruneDirectLifecycleMetadata (Some key)
                         (new_window key (fresh_window fileId peerId (do_controllerId opts) maxInFlight g) e1), Inr ()))
                | Some a \<Rightarrow>
                    let w = en_windows e ! a
                    in if dw_cap w \<noteq> maxInFlight then (e, Inl (lifecycle_error ''direct:window_cap_mismatch''))
                       else if dw_fileId w \<noteq> fileId \<or> dw_peerId w \<noteq> peerId \<or> dw_controllerId w \<noteq> do_controllerId opts
                         then (e, Inl (lifecycle_error ''direct:window_identity_mismatch''))
                       else if dw_disabled w then (e, Inl (lifecycle_error ''direct:window_cancelled''))
                       else (e, Inr ()))
               (\<lambda>e1 _. (enqueueWindow key (Task_Fill peerId fileId (opts\<lparr>do_windowKey := Some key\<rparr>)) False e1, Inr ())))"

text \<open>A queued task when its turn comes. A retry is given up when its window is gone, changed or full.\<close>

definition retry_start :: "turn \<Rightarrow> string \<Rightarrow> string \<Rightarrow> string \<Rightarrow> int \<Rightarrow> string \<Rightarrow> int \<Rightarrow> direct_options \<Rightarrow> engine \<Rightarrow> engine \<times> activation" where
  "retry_start tn requestId key fileId pieceIndex peerId generation opts e =
     (if en_disposed e \<or> requestId \<in> set (en_tombstones e) then (e, returns V_Unit)
      else case window_at e key of
          None \<Rightarrow> (e, returns V_Unit)
        | Some w \<Rightarrow>
            if dw_disabled w \<or> dw_generation w \<noteq> generation then (e, returns V_Unit)
            else if dw_cap w \<le> countOutstandingRequestsForWindow e key then (e, returns V_Unit)
            else continue_with (call_manager_if e fileId (\<lambda>m. resetFailedToMissing m (tn_now tn) pieceIndex)) (\<lambda>e1 _.
                   await_call F_Discard (requestNextPiece_start tn peerId fileId (Some opts) e1)))"

definition task_start :: "turn \<Rightarrow> nat \<Rightarrow> window_task \<Rightarrow> engine \<Rightarrow> engine \<times> activation" where
  "task_start tn a task e =
     (case task of
        Task_Fill peerId fileId opts \<Rightarrow>
          fill_step tn a (case do_windowKey opts of Some k \<Rightarrow> k | None \<Rightarrow> '''') (dw_cap (en_windows e ! a)) peerId fileId opts [] e
      | Task_Expire requestId \<Rightarrow> continue_with (expireDirectRequest tn requestId e) (\<lambda>e1 _. (e1, returns V_Unit))
      | Task_Retry requestId key fileId pieceIndex peerId generation opts \<Rightarrow>
          retry_start tn requestId key fileId pieceIndex peerId generation opts e)"

text \<open>The head of a queue starts when no other task of the window runs; it is dropped if the window is off.\<close>

definition window_turn :: "turn \<Rightarrow> nat \<Rightarrow> engine \<Rightarrow> (engine \<times> activation) option" where
  "window_turn tn a e =
     (if length (en_windows e) \<le> a then None
      else let w = en_windows e ! a in
        if dw_running w then None
        else case dw_queue w of
            [] \<Rightarrow> None
          | (task, trackFailure) # rest \<Rightarrow>
              if dw_disabled w \<or> en_disposed e then Some (set_window a (w\<lparr>dw_queue := rest\<rparr>) e, Some (Ok V_Unit), [])
              else Some (await_call (F_TaskDone a trackFailure) (task_start tn a task (set_window a (w\<lparr>dw_running := True\<rparr>) e))))"

definition task_done :: "nat \<Rightarrow> bool \<Rightarrow> outcome \<Rightarrow> engine \<Rightarrow> engine \<times> activation" where
  "task_done a trackFailure out e =
     (let w = (en_windows e ! a)\<lparr>dw_queue := tl (dw_queue (en_windows e ! a)), dw_running := False\<rparr>
      in (case out of
            Err err \<Rightarrow> (set_window a (if trackFailure then w\<lparr>dw_error := Some err\<rparr> else w) e, returns V_Unit)
          | Ok _ \<Rightarrow> (set_window a w e, returns V_Unit)))"

end
