(* ===== verification/Cli_Join.thy ===== *)
theory Cli_Join
  imports Coordinator_Client Node_Storage Engine_Requests
begin

text \<open>
  The two sides of a transfer of the CLI, \<open>runJoin\<close> and \<open>runSend\<close> of \<open>packages/cli/src/cli-runtime.ts\<close>, with their clean-up (\<open>createCliCleanup\<close>). The command is a
  function of what was done so far; whether a call succeeds, what the engine, the storage and the transport answer, and
  which progress events are heard may depend on all of it. What is printed while it runs is left out; what is printed at its end is its result.
  The engine's total of a file is the number of its pieces and does not change.
\<close>

section \<open>The world of the command\<close>

datatype join_action =
    Do_Listen string int
  | Do_TuneEngine int
  | Do_JoinSession js_value js_value
  | Do_MakeDir string
  | Do_PrepareOutput js_value string
  | Do_ResumeFile js_value
  | Do_SignalRoom string
  | Do_RegisterEndpoint js_value
  | Do_UpdatePeerMap js_value
  | Do_Connect js_value
  | Do_GridWindow js_value "js_value list" int
  | Do_DirectWindow js_value int
  | Do_WaitProgress nat
  | Do_ReadUsage
  | Do_HashFile string
  | Do_Rename string string
  | Do_OpenSource string
  | Do_CreateSession "string option" int bool
  | Do_AwaitShutdown
  | Do_DisposeEngine
  | Do_CloseSource
  | Do_CloseTransport

record join_world =
  jw_fails :: "join_action list \<Rightarrow> cli_error option"
  jw_verified :: "join_action list \<Rightarrow> nat"
  jw_total :: nat
  jw_events :: "join_action list \<Rightarrow> nat list"
  jw_grid :: "join_action list \<Rightarrow> grid_result list"
  jw_direct :: "join_action list \<Rightarrow> nat"
  jw_outstanding :: "join_action list \<Rightarrow> nat"
  jw_usage :: "join_action list \<Rightarrow> storage_usage"
  jw_hash :: "join_action list \<Rightarrow> string"
  jw_sourceSize :: "join_action list \<Rightarrow> int"
  jw_session :: "join_action list \<Rightarrow> string \<times> file_manifest list"

record join_platform =
  jp_codec :: json_codec
  jp_join :: "string \<Rightarrow> string \<Rightarrow> string"
  jp_basename :: "string \<Rightarrow> string"
  jp_show :: "jsnum \<Rightarrow> string"

type_synonym 'a joining = "(join_action list, 'a) effect"

definition perform :: "join_world \<Rightarrow> join_action \<Rightarrow> unit joining" where
  "perform w a h = (let h1 = h @ [a] in (h1, case jw_fails w h1 of None \<Rightarrow> Inr () | Some e \<Rightarrow> Inl e))"

definition ask :: "(join_action list \<Rightarrow> 'a) \<Rightarrow> 'a joining" where
  "ask f h = (h, Inr (f h))"

section \<open>Arguments\<close>

definition parseListenHost :: "string \<Rightarrow> string" where
  "parseListenHost listen = (let host = takeWhile (\<lambda>c. c \<noteq> CHR '':'') listen in if host = '''' then ''127.0.0.1'' else host)"

definition parseListenPort :: "string \<Rightarrow> cli_error + int" where
  "parseListenPort listen =
     (let raw = (if CHR '':'' \<in> set listen
            then takeWhile (\<lambda>c. c \<noteq> CHR '':'') (tl (dropWhile (\<lambda>c. c \<noteq> CHR '':'') listen)) else ''0'') in
      case js_Number raw of
        Fin x \<Rightarrow> if \<not> js_isSafeInteger (Fin x) \<or> x < 0 \<or> 65535 < x then Inl (Plain_Error (''Invalid listen port: '' @ listen)) else Inr \<lfloor>x\<rfloor>
      | _ \<Rightarrow> Inl (Plain_Error (''Invalid listen port: '' @ listen)))"

text \<open>\<open>applyEnginePathKind\<close>: the chunk size that the engine gets for the kind of path.\<close>

definition chunkBytesForPathKind :: "path_choice \<Rightarrow> int" where
  "chunkBytesForPathKind kind = (if kind = Path_Relay then 32 * 1024 else 64 * 1024)"

definition applyEnginePathKind :: "path_choice \<Rightarrow> unit joining" where
  "applyEnginePathKind kind h = (h @ [Do_TuneEngine (chunkBytesForPathKind kind)], Inr ())"

section \<open>Clean-up\<close>

text \<open>Every resource is released, also when another one fails; the first failure is the result.\<close>

fun attempt_all :: "join_world \<Rightarrow> join_action list \<Rightarrow> cli_error option \<Rightarrow> unit joining" where
  "attempt_all w [] first h = (h, case first of None \<Rightarrow> Inr () | Some e \<Rightarrow> Inl e)"
| "attempt_all w (a # as) first h =
     (case perform w a h of
        (h1, Inl e) \<Rightarrow> attempt_all w as (case first of None \<Rightarrow> Some e | Some e0 \<Rightarrow> Some e0) h1
      | (h1, Inr _) \<Rightarrow> attempt_all w as first h1)"

definition cleanup_actions :: "bool \<Rightarrow> bool \<Rightarrow> join_action list" where
  "cleanup_actions has_engine has_source =
     (if has_engine then [Do_DisposeEngine] else []) @ (if has_source then [Do_CloseSource] else []) @ [Do_CloseTransport]"

text \<open>
  \<open>createCliCleanup\<close> runs once: a second call is handed the promise of the first, so it does nothing and ends the same way. \<open>done\<close> is how
  the first call ended.
\<close>

definition cli_cleanup :: "join_world \<Rightarrow> bool \<Rightarrow> bool \<Rightarrow> (cli_error + unit) option \<Rightarrow> unit joining" where
  "cli_cleanup w has_engine has_source ended h =
     (case ended of Some r \<Rightarrow> (h, r) | None \<Rightarrow> attempt_all w (cleanup_actions has_engine has_source) None h)"

definition rethrowWithCleanup :: "join_world \<Rightarrow> bool \<Rightarrow> bool \<Rightarrow> (cli_error + unit) option \<Rightarrow> cli_error \<Rightarrow> 'a joining" where
  "rethrowWithCleanup w has_engine has_source ended primary h = (fst (cli_cleanup w has_engine has_source ended h), Inl primary)"

section \<open>The loop\<close>

text \<open>\<open>waitForProgress\<close>: the current count or that of the first event beyond \<open>before\<close>; none when the timer fires first.\<close>

definition waitForProgress :: "join_world \<Rightarrow> nat \<Rightarrow> nat joining" where
  "waitForProgress w before h =
     (let h1 = h @ [Do_WaitProgress before] in
      (h1, case List.find (\<lambda>n. before < n) (jw_verified w h1 # jw_events w h1) of
             Some n \<Rightarrow> Inr n
           | None \<Rightarrow> Inl (Plain_Error ''Timed out waiting for piece progress'')))"

fun idle_text :: "idle_reason \<Rightarrow> string" where
  "idle_text Idle_Complete = ''complete''"
| "idle_text Idle_NoMissingPiece = ''no_missing_piece''"
| "idle_text Idle_NoAvailablePeer = ''no_available_peer''"
| "idle_text Idle_ParallelLimit = ''parallel_limit''"

definition idle_why :: "grid_result list \<Rightarrow> string" where
  "idle_why results =
     (case results of [] \<Rightarrow> ''no_available_peer'' | Idle r # _ \<Rightarrow> idle_text r | _ \<Rightarrow> ''retry_limit'')"

definition scheduled_peers :: "grid_result list \<Rightarrow> string list" where
  "scheduled_peers results = List.map_filter (\<lambda>r. case r of Scheduled i p q why \<Rightarrow> Some p | _ \<Rightarrow> None) results"

type_synonym provider_counts = "(js_value, nat) js_map"

definition count_provider :: "js_value \<Rightarrow> nat \<Rightarrow> provider_counts \<Rightarrow> provider_counts" where
  "count_provider p n ps = jm_set p ((case jm_get ps p of Some k \<Rightarrow> k | None \<Rightarrow> 0) + n) ps"

text \<open>The requests of one round, to the owner alone or to the owner and the peer that was given.\<close>

definition grid_round :: "join_world \<Rightarrow> js_value \<Rightarrow> js_value \<Rightarrow> int \<Rightarrow> provider_counts \<Rightarrow> provider_counts joining" where
  "grid_round w owner peer window providers =
     effect_bind (perform w (Do_GridWindow owner [peer, owner] (max 1 window))) (\<lambda>_.
     effect_bind (ask (jw_grid w)) (\<lambda>results.
     effect_bind (ask (jw_outstanding w)) (\<lambda>outstanding.
       if scheduled_peers results = []
       then (if outstanding = 0
             then effect_lift (Inl (Plain_Error (''No piece scheduled for CLI grid transfer: '' @ idle_why results)))
             else effect_lift (Inr providers))
       else effect_lift (Inr (fold (\<lambda>p. count_provider (JStr p) 1) (scheduled_peers results) providers)))))"

definition direct_round :: "join_world \<Rightarrow> js_value \<Rightarrow> int \<Rightarrow> provider_counts \<Rightarrow> provider_counts joining" where
  "direct_round w owner window providers =
     effect_bind (perform w (Do_DirectWindow owner window)) (\<lambda>_.
     effect_bind (ask (jw_direct w)) (\<lambda>scheduled.
     effect_bind (ask (jw_outstanding w)) (\<lambda>outstanding.
       if scheduled = 0 \<and> outstanding = 0 then effect_lift (Inl (Plain_Error ''No piece scheduled for CLI direct transfer''))
       else effect_lift (Inr (if 0 < scheduled then count_provider owner scheduled providers else providers)))))"

lemma waitForProgress_grows: "waitForProgress w before h = (h', Inr n) \<Longrightarrow> before < n"
  by (auto simp: waitForProgress_def Let_def find_Some_iff split: option.splits if_splits)

lemma waitForProgress_grows': "(h', Inr n) = waitForProgress w before h \<Longrightarrow> before < n"
  using waitForProgress_grows by metis

text \<open>Every round ends with more verified pieces than it began with, so the loop ends.\<close>

function join_loop :: "join_world \<Rightarrow> (provider_counts \<Rightarrow> provider_counts joining) \<Rightarrow> nat \<Rightarrow> provider_counts \<Rightarrow> (nat \<times> provider_counts) joining" where
  "join_loop w turn verified providers h =
     (if verified < jw_total w
      then (case turn providers h of
              (h1, Inl e) \<Rightarrow> (h1, Inl e)
            | (h1, Inr ps) \<Rightarrow>
                (case waitForProgress w verified h1 of
                   (h2, Inl e) \<Rightarrow> (h2, Inl e)
                 | (h2, Inr n) \<Rightarrow> join_loop w turn n ps h2))
      else (h, Inr (verified, providers)))"
  by pat_completeness auto

termination
  by (relation "measure (\<lambda>(w, turn, verified, _). jw_total w - verified)") (auto dest: waitForProgress_grows')

declare join_loop.simps [simp del]

section \<open>Joining\<close>

record join_report =
  jr_output :: string
  jr_verified :: nat
  jr_hash :: string
  jr_providers :: provider_counts
  jr_nonOwner :: nat

text \<open>A command that seeds after it is complete prints its peer link and then waits until a signal ends the process.\<close>

datatype join_result = Finished join_report | Seeding join_report string

definition join_given_peer :: "join_platform \<Rightarrow> join_world \<Rightarrow> string option \<Rightarrow> js_value option joining" where
  "join_given_peer pf w peer =
     (case peer of
        None \<Rightarrow> effect_lift (Inr None)
      | Some s \<Rightarrow>
          if s = '''' then effect_lift (Inr None)
          else
            effect_bind (effect_lift (decodePeerDescriptor (jp_codec pf) s)) (\<lambda>p.
            effect_bind (perform w (Do_RegisterEndpoint (jfield p ''endpoint''))) (\<lambda>_.
            effect_bind (perform w (Do_UpdatePeerMap p)) (\<lambda>_.
            effect_bind (perform w (Do_Connect (jfield p ''peerId''))) (\<lambda>_.
              effect_lift (Inr (Some (jfield p ''peerId''))))))))"

text \<open>Signaling is best effort: what goes wrong there is swallowed.\<close>

definition bestEffortJoinSignalingRoom :: "string \<Rightarrow> unit joining" where
  "bestEffortJoinSignalingRoom signal h = (if signal = ''auto'' then h else h @ [Do_SignalRoom signal], Inr ())"

definition temp_name :: "string \<Rightarrow> string" where
  "temp_name name = ''.'' @ name @ ''.ponswarp-partial''"

definition check_output :: "js_value \<Rightarrow> string \<Rightarrow> storage_usage \<Rightarrow> cli_error + unit" where
  "check_output manifest name usage =
     (if \<not> su_offset usage \<or> JNum (num_of_int (su_outputBytes usage)) \<noteq> jfield manifest ''size''
      then Inl (Plain_Error (''Offset output storage was not prepared for '' @ name)) else Inr ())"

definition check_file_hash :: "join_platform \<Rightarrow> join_world \<Rightarrow> js_value \<Rightarrow> string \<Rightarrow> unit joining" where
  "check_file_hash pf w manifest path =
     (if truthy_value (jfield manifest ''fileHash'')
      then
        effect_bind (perform w (Do_HashFile path)) (\<lambda>_.
        effect_bind (ask (jw_hash w)) (\<lambda>hash.
          if JStr hash = jfield manifest ''fileHash'' then effect_lift (Inr ())
          else effect_bind (effect_lift (js_text (jp_show pf) (jfield manifest ''fileHash''))) (\<lambda>expected.
            effect_lift (Inl (Plain_Error (''Final hash mismatch: expected '' @ expected @ '', got '' @ hash))))))
      else effect_lift (Inr ()))"

definition join_report_of :: "js_value \<Rightarrow> js_value \<Rightarrow> string \<Rightarrow> nat \<Rightarrow> provider_counts \<Rightarrow> join_report" where
  "join_report_of owner manifest path verified providers =
     \<lparr>jr_output = path, jr_verified = verified,
      jr_hash = (if truthy_value (jfield manifest ''fileHash'') then ''verified'' else ''piece-only''),
      jr_providers = providers, jr_nonOwner = sum_list (map snd (filter (\<lambda>(p, n). p \<noteq> owner) providers))\<rparr>"

text \<open>The transfer once the engine is set up: all pieces, the checks of the whole file and the move to its final name.\<close>

definition join_transfer :: "join_platform \<Rightarrow> join_world \<Rightarrow> join_command \<Rightarrow> js_value \<Rightarrow> js_value \<Rightarrow> string \<Rightarrow> js_value option \<Rightarrow> join_report joining" where
  "join_transfer pf w c owner manifest name peer =
     (let outputPath = jp_join pf (jn_outDir c) name;
          tempPath = jp_join pf (jn_outDir c) (temp_name name);
          activePath = (if jn_seedAfterComplete c then outputPath else tempPath);
          round = (case peer of Some p \<Rightarrow> grid_round w owner p (jn_transferWindow c) | None \<Rightarrow> direct_round w owner (jn_transferWindow c)) in
      effect_bind (ask (jw_verified w)) (\<lambda>verified0.
      effect_bind (join_loop w round verified0 []) (\<lambda>(verified, providers).
      effect_bind (perform w Do_ReadUsage) (\<lambda>_.
      effect_bind (ask (jw_usage w)) (\<lambda>usage.
      effect_bind (effect_lift (check_output manifest name usage)) (\<lambda>_.
      effect_bind (check_file_hash pf w manifest activePath) (\<lambda>_.
      effect_bind (if jn_seedAfterComplete c then effect_lift (Inr ()) else perform w (Do_Rename tempPath outputPath)) (\<lambda>_.
        effect_lift (Inr (join_report_of owner manifest outputPath verified providers))))))))))"

definition seed_value :: "js_value \<Rightarrow> string \<Rightarrow> string \<Rightarrow> js_value" where
  "seed_value manifest receiver url =
     JObj [(''schemaVersion'', JNum (Fin 1)), (''peerId'', JStr receiver),
           (''endpoint'', JObj [(''peerId'', JStr receiver), (''url'', JStr url)]), (''fileId'', jfield manifest ''fileId''),
           (''verifiedPieces'', JArr (map (\<lambda>p. jfield p ''index'') (case elements (jfield manifest ''pieces'') of Some ps \<Rightarrow> ps | None \<Rightarrow> []))),
           (''totalPieces'', jfield manifest ''pieceCount'')]"

definition join_setup :: "join_platform \<Rightarrow> join_world \<Rightarrow> join_command \<Rightarrow> js_value \<Rightarrow> (string \<times> js_value option) joining" where
  "join_setup pf w c d =
     (let manifest = first_manifest d in
      effect_bind (applyEnginePathKind (jn_pathKind c)) (\<lambda>_.
      effect_bind (perform w (Do_JoinSession (jfield d ''sessionId'') (jfield d ''manifests''))) (\<lambda>_.
      if \<not> truthy_value manifest then effect_lift (Inl (Plain_Error ''Join descriptor does not contain a file manifest''))
      else
        effect_bind (perform w (Do_MakeDir (jn_outDir c))) (\<lambda>_.
        effect_bind (effect_lift (case jfield manifest ''name'' of JStr rawName \<Rightarrow> Inr (jp_basename pf rawName) | _ \<Rightarrow> Inl Type_Error)) (\<lambda>name.
        effect_bind (perform w (Do_PrepareOutput manifest
          (jp_join pf (jn_outDir c) (if jn_seedAfterComplete c then name else temp_name name)))) (\<lambda>_.
        effect_bind (perform w (Do_ResumeFile (jfield manifest ''fileId''))) (\<lambda>_.
        effect_bind (bestEffortJoinSignalingRoom (jn_signal c)) (\<lambda>_.
        effect_bind (join_given_peer pf w (jn_peer c)) (\<lambda>peer.
        effect_bind (perform w (Do_Connect (jfield d ''ownerPeerId''))) (\<lambda>_.
          effect_lift (Inr (name, peer))))))))))))"

definition join_body :: "join_platform \<Rightarrow> join_world \<Rightarrow> string \<Rightarrow> string \<Rightarrow> join_command \<Rightarrow> js_value \<Rightarrow> join_result joining" where
  "join_body pf w receiver receiverUrl c d =
     effect_bind (join_setup pf w c d) (\<lambda>(name, peer).
     effect_bind (join_transfer pf w c (jfield d ''ownerPeerId'') (first_manifest d) name peer) (\<lambda>report.
       if jn_seedAfterComplete c
       then (\<lambda>h. (h @ [Do_AwaitShutdown],
         Inr (Seeding report (''ponswarp-peer://'' @ b64_encode (jc_print (jp_codec pf)
           (seed_value (first_manifest d) receiver
             (case jn_advertise c of Some u \<Rightarrow> if u = '''' then receiverUrl else u | None \<Rightarrow> receiverUrl)))))))
       else effect_lift (Inr (Finished report))))"

definition runJoin :: "join_platform \<Rightarrow> join_world \<Rightarrow> string \<Rightarrow> string \<Rightarrow> join_command \<Rightarrow> join_result joining" where
  "runJoin pf w receiver receiverUrl c h =
     (case decodeJoinDescriptor (jp_codec pf) (jn_session c) of
        Inl e \<Rightarrow> (h, Inl e)
      | Inr d \<Rightarrow>
          let h0 = h @ [Do_RegisterEndpoint (jfield d ''ownerEndpoint'')] in
          (case parseListenPort (jn_listen c) of
             Inl e \<Rightarrow> (h0, Inl e)
           | Inr port \<Rightarrow>
               (case perform w (Do_Listen (parseListenHost (jn_listen c)) port) h0 of
                  (h1, Inl e) \<Rightarrow> rethrowWithCleanup w False False None e h1
                | (h1, Inr _) \<Rightarrow>
                    (case join_body pf w receiver receiverUrl c d h1 of
                       (h2, Inl e) \<Rightarrow> rethrowWithCleanup w True False None e h2
                     | (h2, Inr (Seeding report link)) \<Rightarrow> (h2, Inr (Seeding report link))
                     | (h2, Inr (Finished report)) \<Rightarrow>
                         (case cli_cleanup w True False None h2 of
                            (h3, Inl e) \<Rightarrow> rethrowWithCleanup w True False (Some (Inl e)) e h3
                          | (h3, Inr _) \<Rightarrow> (h3, Inr (Finished report)))))))"

section \<open>Sending\<close>

definition MAX_HASHED_SOURCE :: int where
  "MAX_HASHED_SOURCE = 256 * 1024 * 1024"

text \<open>
  \<open>runSend\<close> up to its last line, where it waits for a signal: its value is the link it prints. What had been set up when something fails
  decides what the clean-up releases.
\<close>

definition sent_descriptor :: "string \<Rightarrow> string \<Rightarrow> send_command \<Rightarrow> string \<times> file_manifest list \<Rightarrow> session_descriptor" where
  "sent_descriptor ownerPeerId ownerUrl c session =
     \<lparr>sd_sessionId = fst session, sd_ownerPeerId = ownerPeerId,
      sd_ownerEndpoint = \<lparr>pe_peerId = ownerPeerId,
        pe_url = (case sn_advertise c of Some u \<Rightarrow> if u = '''' then ownerUrl else u | None \<Rightarrow> ownerUrl)\<rparr>,
      sd_manifests = snd session\<rparr>"

definition send_link :: "join_platform \<Rightarrow> string \<Rightarrow> string \<Rightarrow> send_command \<Rightarrow> string \<times> file_manifest list \<Rightarrow> string" where
  "send_link pf ownerPeerId ownerUrl c session =
     encodeJoinDescriptor (jp_codec pf) (sent_descriptor ownerPeerId ownerUrl c session)"

definition runSend :: "join_platform \<Rightarrow> join_world \<Rightarrow> string \<Rightarrow> string \<Rightarrow> send_command \<Rightarrow> string joining" where
  "runSend pf w ownerPeerId ownerUrl c h =
     (case parseListenPort (sn_listen c) of
        Inl e \<Rightarrow> (h, Inl e)
      | Inr port \<Rightarrow>
          (case perform w (Do_Listen (parseListenHost (sn_listen c)) port) h of
             (h1, Inl e) \<Rightarrow> rethrowWithCleanup w False False None e h1
           | (h1, Inr _) \<Rightarrow>
               (case perform w (Do_OpenSource (sn_file c)) (fst (applyEnginePathKind (sn_pathKind c) h1)) of
                  (h2, Inl e) \<Rightarrow> rethrowWithCleanup w True False None e h2
                | (h2, Inr _) \<Rightarrow>
                    (case perform w (Do_CreateSession (sn_session c) (sn_pieceSize c) (jw_sourceSize w h2 \<le> MAX_HASHED_SOURCE)) h2 of
                       (h3, Inl e) \<Rightarrow> rethrowWithCleanup w True True None e h3
                     | (h3, Inr _) \<Rightarrow>
                         let session = jw_session w h3;
                             h4 = (if sn_signal c = ''auto'' then h3 else h3 @ [Do_SignalRoom (sn_signal c)]) in
                         (h4 @ [Do_AwaitShutdown], Inr (send_link pf ownerPeerId ownerUrl c session))))))"

section \<open>What a step may do\<close>

text \<open>A command that only adds actions of a kind to the history.\<close>

definition emits :: "(join_action \<Rightarrow> bool) \<Rightarrow> 'a joining \<Rightarrow> bool" where
  "emits P m \<longleftrightarrow> (\<forall>h. \<exists>as. fst (m h) = h @ as \<and> list_all P as)"

named_theorems emits_rules

lemma emitsD: "emits P m \<Longrightarrow> m h = (h', r) \<Longrightarrow> \<exists>as. h' = h @ as \<and> list_all P as"
  unfolding emits_def by (metis fst_conv)

lemma emits_perform [emits_rules]: "P a \<Longrightarrow> emits P (perform w a)"
  by (simp add: emits_def perform_def Let_def)

lemma emits_ask [emits_rules]: "emits P (ask f)"
  by (simp add: emits_def ask_def)

lemma emits_lift [emits_rules]: "emits P (effect_lift r)"
  by (simp add: emits_def effect_lift_def)

lemma emits_bind [emits_rules]:
  assumes "emits P m" and "\<And>a. emits P (f a)"
  shows "emits P (effect_bind m f)"
  unfolding emits_def
proof
  fix h
  obtain h1 r where m: "m h = (h1, r)" by (cases "m h")
  obtain as where as: "h1 = h @ as" "list_all P as" using emitsD [OF assms(1) m] by blast
  show "\<exists>as. fst (effect_bind m f h) = h @ as \<and> list_all P as"
  proof (cases r)
    case (Inl e)
    with as m show ?thesis by (auto simp: effect_bind_def)
  next
    case (Inr a)
    obtain bs where "fst (f a h1) = h1 @ bs" "list_all P bs" using assms(2) [of a] by (auto simp: emits_def)
    with Inr as m show ?thesis by (intro exI [of _ "as @ bs"]) (simp add: effect_bind_def)
  qed
qed

lemma emits_if [emits_rules]: "(b \<Longrightarrow> emits P m) \<Longrightarrow> (\<not> b \<Longrightarrow> emits P n) \<Longrightarrow> emits P (if b then m else n)"
  by simp

lemma emits_split [emits_rules]: "(\<And>a b. emits P (f a b)) \<Longrightarrow> emits P (case p of (a, b) \<Rightarrow> f a b)"
  by (cases p) simp

lemma emits_option [emits_rules]: "emits P m \<Longrightarrow> (\<And>x. emits P (f x)) \<Longrightarrow> emits P (case o' of None \<Rightarrow> m | Some x \<Rightarrow> f x)"
  by (cases o') simp_all

lemma emits_wait: "P (Do_WaitProgress n) \<Longrightarrow> emits P (waitForProgress w n)"
  by (simp add: emits_def waitForProgress_def Let_def)

lemma emits_loop [emits_rules]:
  assumes "\<And>ps. emits P (turn ps)" and "\<And>n. P (Do_WaitProgress n)"
  shows "emits P (join_loop w turn v ps)"
proof -
  have "\<exists>as. fst (join_loop w turn v ps h) = h @ as \<and> list_all P as" for h
    using assms
  proof (induction w turn v ps h rule: join_loop.induct)
    case (1 w turn v ps h)
    obtain h1 r where r: "turn ps h = (h1, r)" by (cases "turn ps h")
    obtain as where as: "h1 = h @ as" "list_all P as" using emitsD [OF "1.prems"(1) r] by blast
    obtain h2 s where s: "waitForProgress w v h1 = (h2, s)" by (cases "waitForProgress w v h1")
    obtain bs where bs: "h2 = h1 @ bs" "list_all P bs" using emitsD [OF emits_wait [where P = P] s] "1.prems"(2) by blast
    show ?case
    proof (cases "v < jw_total w \<and> \<not> isl r \<and> \<not> isl s")
      case True
      then obtain ps' n where rs: "r = Inr ps'" "s = Inr n" by (cases r; cases s) auto
      have "\<exists>cs. fst (join_loop w turn n ps' h2) = h2 @ cs \<and> list_all P cs"
        using "1.IH" [OF _ r [unfolded rs, symmetric] refl s [unfolded rs, symmetric] refl] True "1.prems" by blast
      then show ?thesis using True rs r s as bs by (subst join_loop.simps) (auto intro: exI [of _ "as @ bs @ cs" for cs])
    next
      case False
      then show ?thesis using r s as bs by (subst join_loop.simps) (auto split: sum.split)
    qed
  qed
  then show ?thesis by (simp add: emits_def)
qed

fun releases :: "join_action \<Rightarrow> bool" where
  "releases Do_DisposeEngine = True"
| "releases Do_CloseSource = True"
| "releases Do_CloseTransport = True"
| "releases _ = False"

fun renames :: "join_action \<Rightarrow> bool" where
  "renames (Do_Rename a b) = True"
| "renames _ = False"

text \<open>Everything but the move to the final name is neither a release nor a move.\<close>

abbreviation works :: "join_action \<Rightarrow> bool" where
  "works a \<equiv> \<not> releases a \<and> \<not> renames a"

lemma emits_weaken: "emits P m \<Longrightarrow> (\<And>a. P a \<Longrightarrow> Q a) \<Longrightarrow> emits Q m"
  unfolding emits_def list_all_iff by meson

lemma emits_pure [emits_rules]: "emits P (\<lambda>h. (h, r))"
  by (simp add: emits_def)

lemma emits_shutdown [emits_rules]: "P Do_AwaitShutdown \<Longrightarrow> emits P (\<lambda>h. (h @ [Do_AwaitShutdown], r))"
  by (simp add: emits_def)

lemma emits_room [emits_rules]: "P (Do_SignalRoom s) \<Longrightarrow> emits P (bestEffortJoinSignalingRoom s)"
  by (simp add: emits_def bestEffortJoinSignalingRoom_def)

lemma emits_tune [emits_rules]: "(\<And>n. P (Do_TuneEngine n)) \<Longrightarrow> emits P (applyEnginePathKind kind)"
  by (simp add: emits_def applyEnginePathKind_def)

lemma emits_rounds [emits_rules]:
  "emits works (grid_round w owner peer window ps)" "emits works (direct_round w owner window ps)"
  unfolding grid_round_def direct_round_def by (intro emits_rules; simp)+

lemma emits_peer [emits_rules]: "emits works (join_given_peer pf w peer)"
  unfolding join_given_peer_def by (intro emits_rules; simp)

lemma emits_hash [emits_rules]: "emits works (check_file_hash pf w manifest path)"
  unfolding check_file_hash_def by (intro emits_rules; simp)

lemma emits_transfer: "emits (\<lambda>a. \<not> releases a) (join_transfer pf w c owner manifest name peer)"
  unfolding join_transfer_def Let_def
  by (cases peer) (intro emits_rules emits_weaken [OF emits_rounds(1)] emits_weaken [OF emits_rounds(2)] emits_weaken [OF emits_hash]; simp)+

section \<open>The file gets its name when it is complete\<close>

definition heard :: "join_world \<Rightarrow> join_action list \<Rightarrow> nat \<Rightarrow> bool" where
  "heard w h n \<longleftrightarrow> n = jw_verified w h \<or> n \<in> set (jw_events w h)"

lemma waitForProgress_heard: "waitForProgress w v h = (h', Inr n) \<Longrightarrow> heard w h' n"
  by (auto simp: waitForProgress_def heard_def Let_def find_Some_iff split: option.splits if_splits)

lemma join_loop_complete:
  assumes "\<And>ps. emits P (turn ps)" and "\<And>n. P (Do_WaitProgress n)"
  shows "join_loop w turn v ps h = (h', Inr (v', ps')) \<Longrightarrow> jw_total w \<le> v' \<and> (v' = v \<or> (\<exists>g as. h' = g @ as \<and> heard w g v'))"
  using assms
proof (induction w turn v ps h rule: join_loop.induct)
  case (1 w turn v ps h)
  show ?case
  proof (cases "v < jw_total w")
    case False
    with "1.prems"(1) show ?thesis by (subst (asm) join_loop.simps) simp
  next
    case True
    with "1.prems"(1) obtain h1 ps1 h2 n where step: "turn ps h = (h1, Inr ps1)" "waitForProgress w v h1 = (h2, Inr n)"
      and rest: "join_loop w turn n ps1 h2 = (h', Inr (v', ps'))"
      by (subst (asm) join_loop.simps) (auto split: prod.splits sum.splits)
    have IH: "jw_total w \<le> v' \<and> (v' = n \<or> (\<exists>g as. h' = g @ as \<and> heard w g v'))"
      using "1.IH" [OF True step(1) [symmetric] refl step(2) [symmetric] refl rest] "1.prems"(2,3) by blast
    moreover have "heard w h2 n" using step(2) by (rule waitForProgress_heard)
    moreover have "\<exists>as. h' = h2 @ as" using emitsD [OF emits_loop [OF "1.prems"(2,3)] rest] by blast
    ultimately show ?thesis by blast
  qed
qed

definition file_complete :: "join_world \<Rightarrow> js_value \<Rightarrow> string \<Rightarrow> join_action list \<Rightarrow> bool" where
  "file_complete w manifest path g \<longleftrightarrow>
     (\<exists>g1 as n. g = g1 @ as \<and> heard w g1 n \<and> jw_total w \<le> n) \<and>
     (\<exists>g1 as. g = g1 @ as \<and> su_offset (jw_usage w g1) \<and> JNum (num_of_int (su_outputBytes (jw_usage w g1))) = jfield manifest ''size'') \<and>
     (truthy_value (jfield manifest ''fileHash'') \<longrightarrow>
        (\<exists>g1. g = g1 @ [Do_HashFile path] \<and> JStr (jw_hash w g) = jfield manifest ''fileHash''))"

lemma ask_eq: "ask f h = (h', r) \<longleftrightarrow> h' = h \<and> r = Inr (f h)"
  by (auto simp: ask_def)

lemma perform_eq: "perform w a h = (h', r) \<longleftrightarrow> h' = h @ [a] \<and> r = (case jw_fails w h' of None \<Rightarrow> Inr () | Some e \<Rightarrow> Inl e)"
  by (auto simp: perform_def Let_def)

lemma check_file_hash_Inr:
  assumes "check_file_hash pf w manifest path h = (h', Inr ())"
  shows "if truthy_value (jfield manifest ''fileHash'') then h' = h @ [Do_HashFile path] \<and> JStr (jw_hash w h') = jfield manifest ''fileHash'' else h' = h"
proof (cases "truthy_value (jfield manifest ''fileHash'')")
  case True
  then show ?thesis using assms
    by (auto simp: check_file_hash_def effect_bind_def effect_lift_def ask_def perform_def Let_def split: option.splits sum.splits if_splits)
next
  case False
  then show ?thesis using assms by (simp add: check_file_hash_def effect_lift_def)
qed

lemma effect_bind_eq: "m h = (h1, Inr a) \<Longrightarrow> effect_bind m f h = f a h1"
  by (simp add: effect_bind_def)

lemma emits_all_works [emits_rules]: "emits works (join_loop w (case peer of Some p \<Rightarrow> grid_round w owner p window | None \<Rightarrow> direct_round w owner window) v ps)"
  by (cases peer) (intro emits_rules; simp)+

text \<open>Before the move a transfer only works; the move comes last, after every check.\<close>

lemma join_transfer_moves:
  assumes "join_transfer pf w c owner manifest name peer h = (h', r)"
  shows "(\<exists>as. h' = h @ as \<and> list_all works as) \<or>
    (\<exists>as. h' = h @ as @ [Do_Rename (jp_join pf (jn_outDir c) (temp_name name)) (jp_join pf (jn_outDir c) name)] \<and> list_all works as \<and>
       \<not> jn_seedAfterComplete c \<and> file_complete w manifest (jp_join pf (jn_outDir c) (temp_name name)) (h @ as))"
    (is "?before \<or> ?moved")
proof -
  let ?round = "case peer of Some p \<Rightarrow> grid_round w owner p (jn_transferWindow c) | None \<Rightarrow> direct_round w owner (jn_transferWindow c)"
  let ?path = "if jn_seedAfterComplete c then jp_join pf (jn_outDir c) name else jp_join pf (jn_outDir c) (temp_name name)"
  obtain h1 l where l: "join_loop w ?round (jw_verified w h) [] h = (h1, l)"
    by (cases "join_loop w ?round (jw_verified w h) [] h")
  obtain as where as: "h1 = h @ as" "list_all works as" using emitsD [OF emits_all_works l] by blast
  note run = assms [unfolded join_transfer_def Let_def effect_bind_eq [OF ask_eq [THEN iffD2, OF conjI [OF refl refl]]]]
  show ?thesis
  proof (cases l)
    case (Inl e)
    with run l as show ?thesis by (auto simp: effect_bind_def)
  next
    case (Inr vp)
    obtain v ps where vp: "vp = (v, ps)" by (cases vp)
    have "jw_total w \<le> v \<and> (v = jw_verified w h \<or> (\<exists>g as. h1 = g @ as \<and> heard w g v))"
      using l Inr vp by (intro join_loop_complete [where P = works and turn = ?round]) (cases peer; auto intro: emits_rules)+
    then obtain g bs where all: "h1 = g @ bs" "heard w g v" "jw_total w \<le> v" using as(1) by (auto simp: heard_def)
    let ?h2 = "h1 @ [Do_ReadUsage]"
    obtain h3 k where k: "check_file_hash pf w manifest ?path ?h2 = (h3, k)" by (cases "check_file_hash pf w manifest ?path ?h2")
    obtain cs where cs: "h3 = ?h2 @ cs" "list_all works cs" using emitsD [OF emits_hash k] by blast
    have rest: "jw_fails w ?h2 = None \<and> check_output manifest name (jw_usage w ?h2) = Inr () \<and> k = Inr () \<and> \<not> jn_seedAfterComplete c \<and>
        h' = h3 @ [Do_Rename (jp_join pf (jn_outDir c) (temp_name name)) (jp_join pf (jn_outDir c) name)]
      \<or> h' = ?h2 \<or> h' = h3"
      using run l Inr vp k
      by (auto simp: effect_bind_def effect_lift_def ask_def perform_def Let_def split: option.splits sum.splits if_splits prod.splits)
    show ?thesis
    proof (cases "h' = ?h2 \<or> h' = h3")
      case True
      then show ?thesis using as cs by auto
    next
      case False
      with rest have ok: "check_output manifest name (jw_usage w ?h2) = Inr ()" "k = Inr ()" "\<not> jn_seedAfterComplete c"
        and h': "h' = h3 @ [Do_Rename (jp_join pf (jn_outDir c) (temp_name name)) (jp_join pf (jn_outDir c) name)]" by blast+
      have "file_complete w manifest ?path h3"
        unfolding file_complete_def
      proof (intro conjI)
        show "\<exists>g1 as n. h3 = g1 @ as \<and> heard w g1 n \<and> jw_total w \<le> n" using all cs(1) by auto
        show "\<exists>g1 as. h3 = g1 @ as \<and> su_offset (jw_usage w g1) \<and> JNum (num_of_int (su_outputBytes (jw_usage w g1))) = jfield manifest ''size''"
          using ok(1) cs(1) by (intro exI [of _ "?h2"] exI [of _ cs]) (auto simp: check_output_def split: if_splits)
        show "truthy_value (jfield manifest ''fileHash'') \<longrightarrow> (\<exists>g1. h3 = g1 @ [Do_HashFile ?path] \<and> JStr (jw_hash w h3) = jfield manifest ''fileHash'')"
          using check_file_hash_Inr [OF k [unfolded ok(2)]] by auto
      qed
      then show ?thesis using ok(3) h' as cs by (intro disjI2 exI [of _ "as @ [Do_ReadUsage] @ cs"]) simp
    qed
  qed
qed

lemma emits_setup: "emits works (join_setup pf w c d)"
  unfolding join_setup_def Let_def by (intro emits_rules; simp)

lemma join_body_moves:
  assumes "join_body pf w receiver url c d h = (h', r)"
  shows "(\<exists>as. h' = h @ as \<and> list_all works as) \<or>
    (\<exists>as t out. h' = h @ as @ [Do_Rename t out] \<and> list_all works as \<and>
       \<not> jn_seedAfterComplete c \<and> file_complete w (first_manifest d) t (h @ as))"
proof -
  obtain h1 k where k: "join_setup pf w c d h = (h1, k)" by (cases "join_setup pf w c d h")
  obtain as where as: "h1 = h @ as" "list_all works as" using emitsD [OF emits_setup k] by blast
  show ?thesis
  proof (cases k)
    case (Inl e)
    with k as assms show ?thesis by (auto simp: join_body_def effect_bind_def)
  next
    case (Inr np)
    obtain name peer where np: "np = (name, peer)" by (cases np)
    let ?transfer = "join_transfer pf w c (jfield d ''ownerPeerId'') (first_manifest d) name peer"
    obtain h2 t where t: "?transfer h1 = (h2, t)" by (cases "?transfer h1")
    have h': "h' = h2 \<or> jn_seedAfterComplete c \<and> h' = h2 @ [Do_AwaitShutdown]"
      using assms k Inr np t by (auto simp: join_body_def effect_bind_def effect_lift_def split: sum.splits if_splits)
    from join_transfer_moves [OF t] show ?thesis
    proof
      assume "\<exists>bs. h2 = h1 @ bs \<and> list_all works bs"
      then show ?thesis using h' as by auto
    next
      assume "\<exists>bs. h2 = h1 @ bs @ [Do_Rename (jp_join pf (jn_outDir c) (temp_name name)) (jp_join pf (jn_outDir c) name)] \<and> list_all works bs \<and>
        \<not> jn_seedAfterComplete c \<and> file_complete w (first_manifest d) (jp_join pf (jn_outDir c) (temp_name name)) (h1 @ bs)"
      then obtain bs where bs: "h2 = h1 @ bs @ [Do_Rename (jp_join pf (jn_outDir c) (temp_name name)) (jp_join pf (jn_outDir c) name)]"
        "list_all works bs" "\<not> jn_seedAfterComplete c"
        "file_complete w (first_manifest d) (jp_join pf (jn_outDir c) (temp_name name)) (h1 @ bs)" by blast
      then show ?thesis using h' as by (intro disjI2 exI [of _ "as @ bs"]) auto
    qed
  qed
qed

lemma attempt_all_actions: "fst (attempt_all w as first h) = h @ as"
  by (induction as arbitrary: first h) (simp_all add: perform_def Let_def split: option.split)

lemma cleanup_history: "fst (cli_cleanup w e s None h) = h @ cleanup_actions e s"
  by (simp add: cli_cleanup_def attempt_all_actions)

text \<open>The shape of a run once the transport was asked to listen.\<close>

definition started_as :: "join_command \<Rightarrow> js_value \<Rightarrow> int \<Rightarrow> join_action list" where
  "started_as c d port = [Do_RegisterEndpoint (jfield d ''ownerEndpoint''), Do_Listen (parseListenHost (jn_listen c)) port]"

lemma runJoin_shape:
  assumes "runJoin pf w receiver url c [] = (h', r)"
  shows "list_all works h' \<and> (\<forall>x y. Do_Listen x y \<notin> set h') \<or>
    (\<exists>d port. decodeJoinDescriptor (jp_codec pf) (jn_session c) = Inr d \<and>
      (h' = started_as c d port @ [Do_CloseTransport] \<or>
       (\<exists>h2 s. join_body pf w receiver url c d (started_as c d port) = (h2, s) \<and>
          (if \<exists>report link. s = Inr (Seeding report link) then h' = h2 \<and> r = s
           else h' = h2 @ [Do_DisposeEngine, Do_CloseTransport] \<and> (\<forall>report link. r \<noteq> Inr (Seeding report link))))))"
proof (cases "decodeJoinDescriptor (jp_codec pf) (jn_session c)")
  case (Inl e)
  with assms show ?thesis by (simp add: runJoin_def)
next
  case (Inr d)
  show ?thesis
  proof (cases "parseListenPort (jn_listen c)")
    case (Inl e)
    with Inr assms show ?thesis by (auto simp: runJoin_def)
  next
    case port: (Inr port)
    let ?s = "started_as c d port"
    have perf: "perform w (Do_Listen (parseListenHost (jn_listen c)) port) [Do_RegisterEndpoint (jfield d ''ownerEndpoint'')] =
        (?s, case jw_fails w ?s of None \<Rightarrow> Inr () | Some e \<Rightarrow> Inl e)"
      by (simp add: perform_def started_as_def Let_def)
    obtain h2 s where b: "join_body pf w receiver url c d ?s = (h2, s)" by (cases "join_body pf w receiver url c d ?s")
    have clean: "cli_cleanup w True False None h2 = (h2 @ [Do_DisposeEngine, Do_CloseTransport], snd (cli_cleanup w True False None h2))"
      using cleanup_history [of w True False h2] by (metis cleanup_actions_def append.simps(1,2) prod.collapse)
    show ?thesis
    proof (cases "jw_fails w ?s")
      case (Some e)
      then have "h' = ?s @ [Do_CloseTransport]"
        using assms Inr port perf cleanup_history [of w False False ?s]
        by (simp add: runJoin_def Let_def rethrowWithCleanup_def cleanup_actions_def)
      then show ?thesis using Inr by blast
    next
      case None
      have "if \<exists>report link. s = Inr (Seeding report link) then h' = h2 \<and> r = s
           else h' = h2 @ [Do_DisposeEngine, Do_CloseTransport] \<and> (\<forall>report link. r \<noteq> Inr (Seeding report link))"
        using assms Inr port perf None b clean cleanup_history [of w True False h2]
        by (cases "snd (cli_cleanup w True False None h2)"; cases s)
          (auto simp: runJoin_def Let_def rethrowWithCleanup_def cleanup_actions_def cli_cleanup_def split: join_result.splits)
      with b Inr show ?thesis by blast
    qed
  qed
qed

lemma body_no_release: "join_body pf w receiver url c d h = (h2, s) \<Longrightarrow> \<exists>as. h2 = h @ as \<and> list_all (\<lambda>a. \<not> releases a) as"
  by (drule join_body_moves) (auto simp: list_all_iff)

lemma no_renames: "list_all works as \<Longrightarrow> Do_Rename t out \<notin> set as"
  by (auto simp: list_all_iff)

lemma performs_first:
  assumes "\<And>u. emits P (f u)"
  shows "\<exists>as. fst (effect_bind (perform w a) f h) = h @ a # as"
proof (cases "jw_fails w (h @ [a])")
  case None
  obtain as where "fst (f () (h @ [a])) = (h @ [a]) @ as" using assms [of "()"] unfolding emits_def by blast
  with None show ?thesis by (simp add: effect_bind_def perform_def Let_def)
qed (simp add: effect_bind_def perform_def Let_def)

lemma tune_first: "effect_bind (applyEnginePathKind kind) f h = f () (h @ [Do_TuneEngine (chunkBytesForPathKind kind)])"
  by (simp add: effect_bind_def applyEnginePathKind_def)

lemma setup_joins_first:
  "\<exists>as. fst (join_setup pf w c d h) =
     (h @ [Do_TuneEngine (chunkBytesForPathKind (jn_pathKind c))]) @ Do_JoinSession (jfield d ''sessionId'') (jfield d ''manifests'') # as"
  unfolding join_setup_def Let_def tune_first by (rule performs_first [where P = works]) (intro emits_rules; simp)

lemma body_joins_first:
  assumes "join_body pf w receiver url c d h = (h2, s)"
  shows "Do_JoinSession (jfield d ''sessionId'') (jfield d ''manifests'') \<in> set h2"
proof -
  obtain h1 k where k: "join_setup pf w c d h = (h1, k)" by (cases "join_setup pf w c d h")
  have "emits (\<lambda>_. True) (case np of (name, peer) \<Rightarrow>
     effect_bind (join_transfer pf w c (jfield d ''ownerPeerId'') (first_manifest d) name peer) (\<lambda>report.
       if jn_seedAfterComplete c
       then (\<lambda>h. (h @ [Do_AwaitShutdown],
         Inr (Seeding report (''ponswarp-peer://'' @ b64_encode (jc_print (jp_codec pf)
           (seed_value (first_manifest d) receiver
             (case jn_advertise c of Some u \<Rightarrow> if u = '''' then url else u | None \<Rightarrow> url)))))))
       else effect_lift (Inr (Finished report))))" for np
    by (intro emits_rules emits_weaken [OF emits_transfer]; simp)
  then have "\<exists>as. h2 = h1 @ as"
    using assms k emitsD by (auto simp: join_body_def effect_bind_def [of "join_setup pf w c d"] split: sum.splits) blast
  moreover have "Do_JoinSession (jfield d ''sessionId'') (jfield d ''manifests'') \<in> set h1"
    using setup_joins_first [of pf w c d h] k by auto
  ultimately show ?thesis by auto
qed


text \<open>
  C33. Once the transport was asked to listen, every end of the command but seeding, which only a signal ends, releases what was set up: the engine, if it
  was made, and then the transport, each once, whatever else failed, and releases nothing before.
\<close>

theorem join_releases_everything:
  assumes "runJoin pf w receiver url c [] = (h', r)" and "Do_Listen host p \<in> set h'"
    and "\<forall>report link. r \<noteq> Inr (Seeding report link)"
  shows "\<exists>as. h' = as @ (if \<exists>s m. Do_JoinSession s m \<in> set h' then [Do_DisposeEngine, Do_CloseTransport] else [Do_CloseTransport]) \<and>
    list_all (\<lambda>a. \<not> releases a) as"
proof -
  have "\<exists>d port. h' = started_as c d port @ [Do_CloseTransport] \<or>
       (\<exists>h2 s. join_body pf w receiver url c d (started_as c d port) = (h2, s) \<and> h' = h2 @ [Do_DisposeEngine, Do_CloseTransport])"
    using runJoin_shape [OF assms(1)]
  proof (elim disjE exE conjE)
    assume "\<forall>x y. Do_Listen x y \<notin> set h'"
    with assms(2) show ?thesis by blast
  next
    fix d port h2 s
    assume "join_body pf w receiver url c d (started_as c d port) = (h2, s)"
      and "if \<exists>report link. s = Inr (Seeding report link) then h' = h2 \<and> r = s
           else h' = h2 @ [Do_DisposeEngine, Do_CloseTransport] \<and> (\<forall>report link. r \<noteq> Inr (Seeding report link))"
    with assms(3) show ?thesis by (auto split: if_splits)
  qed blast
  then obtain d port where "h' = started_as c d port @ [Do_CloseTransport] \<or>
       (\<exists>h2 s. join_body pf w receiver url c d (started_as c d port) = (h2, s) \<and> h' = h2 @ [Do_DisposeEngine, Do_CloseTransport])" by blast
  then show ?thesis
  proof
    assume "h' = started_as c d port @ [Do_CloseTransport]"
    then show ?thesis by (simp add: started_as_def)
  next
    assume "\<exists>h2 s. join_body pf w receiver url c d (started_as c d port) = (h2, s) \<and> h' = h2 @ [Do_DisposeEngine, Do_CloseTransport]"
    then obtain h2 s where b: "join_body pf w receiver url c d (started_as c d port) = (h2, s)"
      and h': "h' = h2 @ [Do_DisposeEngine, Do_CloseTransport]" by blast
    obtain bs where "h2 = started_as c d port @ bs" "list_all (\<lambda>a. \<not> releases a) bs" using body_no_release [OF b] by blast
    then have "list_all (\<lambda>a. \<not> releases a) h2" by (simp add: started_as_def)
    moreover have "\<exists>s m. Do_JoinSession s m \<in> set h'" using body_joins_first [OF b] h' by auto
    ultimately show ?thesis using h' by auto
  qed
qed

section \<open>The loop ends\<close>

fun waits :: "join_action \<Rightarrow> bool" where
  "waits (Do_WaitProgress n) = True"
| "waits _ = False"

lemma emits_no_wait: "emits (\<lambda>a. \<not> waits a) (case peer of Some p \<Rightarrow> grid_round w owner p window ps | None \<Rightarrow> direct_round w owner window ps)"
  unfolding grid_round_def direct_round_def by (cases peer) (simp_all, (intro emits_rules; simp)+)

lemma join_loop_waits:
  assumes "\<And>ps. emits (\<lambda>a. \<not> waits a) (turn ps)"
  shows "\<exists>as. fst (join_loop w turn v ps h) = h @ as \<and> length (filter waits as) \<le> jw_total w - v"
  using assms
proof (induction w turn v ps h rule: join_loop.induct)
  case (1 w turn v ps h)
  obtain h1 r where r: "turn ps h = (h1, r)" by (cases "turn ps h")
  obtain as where as: "h1 = h @ as" "list_all (\<lambda>a. \<not> waits a) as" using emitsD [OF "1.prems" r] by blast
  have quiet: "filter waits as = []" using as(2) by (simp add: filter_empty_conv list_all_iff)
  obtain h2 s where s: "waitForProgress w v h1 = (h2, s)" by (cases "waitForProgress w v h1")
  have h2: "h2 = h1 @ [Do_WaitProgress v]" using s by (auto simp: waitForProgress_def Let_def)
  show ?case
  proof (cases "v < jw_total w")
    case False
    then show ?thesis by (subst join_loop.simps) simp
  next
    case True
    show ?thesis
    proof (cases "\<exists>ps' n. r = Inr ps' \<and> s = Inr n")
      case False
      then show ?thesis using True r s as(1) h2 quiet by (subst join_loop.simps) (cases r; cases s; auto)
    next
      case rs: True
      then obtain ps' n where rs: "r = Inr ps'" "s = Inr n" by blast
      obtain bs where bs: "fst (join_loop w turn n ps' h2) = h2 @ bs" "length (filter waits bs) \<le> jw_total w - n"
        using "1.IH" [OF True r [unfolded rs, symmetric] refl s [unfolded rs, symmetric] refl] "1.prems" by blast
      have "v < n" using s rs by (simp add: waitForProgress_grows)
      have "fst (join_loop w turn v ps h) = h @ (as @ Do_WaitProgress v # bs)"
        using True r s rs as(1) h2 bs(1) by (subst join_loop.simps) simp
      moreover have "length (filter waits (as @ Do_WaitProgress v # bs)) \<le> jw_total w - v"
        using quiet bs(2) \<open>v < n\<close> True by simp
      ultimately show ?thesis by blast
    qed
  qed
qed

text \<open>
  C34. The download loop ends, whatever the peers do: it waits at most once for each piece that was missing when it began, because a wait either ends
  with more verified pieces or fails when its timer fires.
\<close>

theorem join_loop_ends:
  "\<exists>as. fst (join_loop w (\<lambda>ps. case peer of Some p \<Rightarrow> grid_round w owner p window ps | None \<Rightarrow> direct_round w owner window ps) v ps h) = h @ as \<and>
     length (filter waits as) \<le> jw_total w - v"
  by (rule join_loop_waits) (rule emits_no_wait)

section \<open>From one side to the other\<close>

lemma runJoin_joins:
  assumes "decodeJoinDescriptor (jp_codec pf) (jn_session c) = Inr d" and "parseListenPort (jn_listen c) = Inr port"
    and "jw_fails w (started_as c d port) = None"
  shows "Do_JoinSession (jfield d ''sessionId'') (jfield d ''manifests'') \<in> set (fst (runJoin pf w receiver url c []))"
proof -
  let ?s = "started_as c d port"
  obtain h2 s where b: "join_body pf w receiver url c d ?s = (h2, s)" by (cases "join_body pf w receiver url c d ?s")
  have perf: "perform w (Do_Listen (parseListenHost (jn_listen c)) port) [Do_RegisterEndpoint (jfield d ''ownerEndpoint'')] = (?s, Inr ())"
    using assms(3) by (simp add: perform_def started_as_def Let_def)
  have "set h2 \<subseteq> set (fst (runJoin pf w receiver url c []))"
    using assms(1,2) perf b cleanup_history [of w True False h2]
    by (cases "cli_cleanup w True False None h2")
      (auto simp: runJoin_def Let_def rethrowWithCleanup_def cli_cleanup_def split: sum.splits join_result.splits)
  with body_joins_first [OF b] show ?thesis by blast
qed

lemma runSend_serves:
  assumes "runSend pf w owner url c [] = (h', Inr link)"
  shows "\<exists>g full rest. link = send_link pf owner url c (jw_session w (g @ [Do_CreateSession (sn_session c) (sn_pieceSize c) full])) \<and>
    h' = (g @ [Do_CreateSession (sn_session c) (sn_pieceSize c) full]) @ rest"
proof -
  from assms obtain port where port: "parseListenPort (sn_listen c) = Inr port" by (auto simp: runSend_def split: sum.splits)
  let ?g = "[Do_Listen (parseListenHost (sn_listen c)) port, Do_TuneEngine (chunkBytesForPathKind (sn_pathKind c)), Do_OpenSource (sn_file c)]"
  let ?create = "Do_CreateSession (sn_session c) (sn_pieceSize c) (jw_sourceSize w ?g \<le> MAX_HASHED_SOURCE)"
  have "link = send_link pf owner url c (jw_session w (?g @ [?create]))"
    and "h' = (?g @ [?create]) @ ((if sn_signal c = ''auto'' then [] else [Do_SignalRoom (sn_signal c)]) @ [Do_AwaitShutdown])"
    using assms port
    by (simp_all add: runSend_def perform_def Let_def rethrowWithCleanup_def applyEnginePathKind_def split: option.splits if_splits)
  then show ?thesis by blast
qed

lemma sent_fields:
  "jfield (json_value (session_value d)) ''sessionId'' = JStr (sd_sessionId d)"
  "jfield (json_value (session_value d)) ''manifests'' = json_value (JArr (map encode_manifest (sd_manifests d)))"
  by (simp_all add: session_value_def endpoint_value_def)

text \<open>
  C35. A receiver that is given the link a sender printed joins the sender's session with the manifests that the sender serves, when its transport
  can listen.
\<close>

theorem sent_link_is_joined:
  assumes "runSend pf w owner url c [] = (h', Inr link)" and "jn_session j = link" and "parseListenPort (jn_listen j) = Inr port"
    and "\<forall>g host p. jw_fails w' (g @ [Do_Listen host p]) = None"
    and "\<forall>g. json_roundtrips (jp_codec pf) (session_value (sent_descriptor owner url c (jw_session w g))) \<and> fst (jw_session w g) \<noteq> ''''"
    and "owner \<noteq> ''''" and "url \<noteq> ''''"
  shows "\<exists>g full rest. h' = g @ Do_CreateSession (sn_session c) (sn_pieceSize c) full # rest \<and>
    (case jw_session w (g @ [Do_CreateSession (sn_session c) (sn_pieceSize c) full]) of (sid, manifests) \<Rightarrow>
       Do_JoinSession (JStr sid) (json_value (JArr (map encode_manifest manifests))) \<in> set (fst (runJoin pf w' receiver receiverUrl j [])))"
proof -
  from runSend_serves [OF assms(1)] obtain g full rest
    where link: "link = send_link pf owner url c (jw_session w (g @ [Do_CreateSession (sn_session c) (sn_pieceSize c) full]))"
      and h': "h' = (g @ [Do_CreateSession (sn_session c) (sn_pieceSize c) full]) @ rest" by blast
  define s where "s = jw_session w (g @ [Do_CreateSession (sn_session c) (sn_pieceSize c) full])"
  let ?d = "sent_descriptor owner url c s"
  have "decodeJoinDescriptor (jp_codec pf) (jn_session j) = Inr (json_value (session_value ?d))"
    unfolding assms(2) link send_link_def s_def
    by (rule join_link_roundtrip) (use assms(5-7) in \<open>auto simp: sent_descriptor_def split: option.split\<close>)
  moreover have "jw_fails w' (started_as j (json_value (session_value ?d)) port) = None"
    using assms(4) by (metis append_Cons append_Nil started_as_def)
  ultimately have "Do_JoinSession (jfield (json_value (session_value ?d)) ''sessionId'') (jfield (json_value (session_value ?d)) ''manifests'')
      \<in> set (fst (runJoin pf w' receiver receiverUrl j []))" using assms(3) by (intro runJoin_joins)
  then have "Do_JoinSession (JStr (fst s)) (json_value (JArr (map encode_manifest (snd s)))) \<in> set (fst (runJoin pf w' receiver receiverUrl j []))"
    unfolding sent_fields by (simp only: sent_descriptor_def session_descriptor.simps)
  with h' show ?thesis unfolding s_def by (intro exI [of _ g] exI [of _ full] exI [of _ rest]) (simp add: case_prod_unfold)
qed

section \<open>An example\<close>

definition example_join_descriptor :: js_value where
  "example_join_descriptor =
     JObj [(''schemaVersion'', JNum (Fin 1)), (''sessionId'', JStr ''s''), (''ownerPeerId'', JStr ''p''),
           (''ownerEndpoint'', JObj [(''url'', JStr ''ws://a'')]),
           (''manifests'', JArr [JObj [(''fileId'', JStr ''f''), (''name'', JStr ''n''), (''size'', JNum (num_of_int 7)), (''fileHash'', JStr ''H'')]])]"

definition example_joiner :: join_platform where
  "example_joiner =
     \<lparr>jp_codec = \<lparr>jc_print = (\<lambda>v. []), jc_parse = (\<lambda>b. Some example_join_descriptor)\<rparr>, jp_join = (\<lambda>d n. n), jp_basename = id, jp_show = (\<lambda>n. ''0'')\<rparr>"

definition example_join_world :: join_world where
  "example_join_world =
     \<lparr>jw_fails = (\<lambda>h. None), jw_verified = (\<lambda>h. 0), jw_total = 1, jw_events = (\<lambda>h. [0, 1]), jw_grid = (\<lambda>h. []), jw_direct = (\<lambda>h. 1),
      jw_outstanding = (\<lambda>h. 1), jw_usage = (\<lambda>h. \<lparr>su_offset = True, su_outputBytes = 7, su_verifiedPieces = 1, su_totalPieces = 1\<rparr>),
      jw_hash = (\<lambda>h. ''H''), jw_sourceSize = (\<lambda>h. 7), jw_session = (\<lambda>h. (''s'', []))\<rparr>"

definition example_join :: join_command where
  "example_join =
     \<lparr>jn_session = ''x'', jn_signal = ''auto'', jn_listen = ''127.0.0.1'', jn_advertise = None, jn_peer = None, jn_outDir = ''.'',
      jn_seedAfterComplete = False, jn_maxPeers = 8, jn_transferWindow = 1, jn_pathKind = Path_Unknown\<rparr>"

lemma example_join_decoded: "decodeJoinDescriptor (jp_codec example_joiner) (jn_session example_join) = Inr example_join_descriptor"
  by (simp add: decodeJoinDescriptor_def decode_descriptor_def example_joiner_def example_join_descriptor_def join_descriptor_ok_def)

lemma example_port: "parseListenPort (jn_listen example_join) = Inr 0"
  using js_Number_digits [of "''0''"]
  by (simp add: example_join_def parseListenPort_def Let_def radix_digit_def digit_value_def digits_value_def is_integral_def MAX_SAFE_INTEGER_def)

lemma example_world_fields [simp]:
  "jw_fails example_join_world h = None" "jw_verified example_join_world h = 0" "jw_total example_join_world = 1"
  "jw_events example_join_world h = [0, 1]" "jw_direct example_join_world h = 1" "jw_outstanding example_join_world h = 1"
  "jw_usage example_join_world h = \<lparr>su_offset = True, su_outputBytes = 7, su_verifiedPieces = 1, su_totalPieces = 1\<rparr>"
  "jw_hash example_join_world h = ''H''"
  by (simp_all add: example_join_world_def)

lemma example_performs: "perform example_join_world a h = (h @ [a], Inr ())"
  by (simp add: perform_def Let_def)

lemma example_loop:
  "join_loop example_join_world (direct_round example_join_world owner 1) 0 [] h =
     (h @ [Do_DirectWindow owner 1, Do_WaitProgress 0], Inr (1, [(owner, 1)]))"
  by (subst join_loop.simps, simp, subst join_loop.simps)
    (simp add: direct_round_def effect_bind_def effect_lift_def example_performs ask_def waitForProgress_def count_provider_def)

lemma example_command_fields [simp]:
  "jn_outDir example_join = ''.''" "\<not> jn_seedAfterComplete example_join" "jn_transferWindow example_join = 1" "jn_signal example_join = ''auto''"
  "jn_peer example_join = None" "jp_join example_joiner d n = n" "jp_basename example_joiner n = n"
  by (simp_all add: example_join_def example_joiner_def)

definition example_manifest :: js_value where
  "example_manifest = first_manifest example_join_descriptor"

lemma example_manifest_fields [simp]:
  "first_manifest example_join_descriptor = example_manifest" "truthy_value example_manifest"
  "jfield example_manifest ''name'' = JStr ''n''" "jfield example_manifest ''size'' = JNum (num_of_int 7)"
  "jfield example_manifest ''fileHash'' = JStr ''H''"
  by (simp_all add: example_manifest_def first_manifest_def example_join_descriptor_def)

lemma example_setup: "\<exists>as. join_setup example_joiner example_join_world example_join example_join_descriptor h = (h @ as, Inr (''n'', None))"
  by (simp add: join_setup_def Let_def effect_bind_def effect_lift_def example_performs bestEffortJoinSignalingRoom_def join_given_peer_def applyEnginePathKind_def)

lemma example_transfer:
  "\<exists>as r. join_transfer example_joiner example_join_world example_join owner example_manifest ''n'' None h =
     (h @ as @ [Do_Rename (temp_name ''n'') ''n''], Inr r)"
  by (simp add: join_transfer_def Let_def effect_bind_def effect_lift_def example_performs example_loop ask_def check_output_def check_file_hash_def)

lemma example_body:
  "\<exists>as r. join_body example_joiner example_join_world ''r'' ''u'' example_join example_join_descriptor h =
      (h @ as @ [Do_Rename (temp_name ''n'') ''n''], Inr (Finished r))"
proof -
  obtain as where sets: "join_setup example_joiner example_join_world example_join example_join_descriptor h = (h @ as, Inr (''n'', None))"
    using example_setup by blast
  obtain bs r where "join_transfer example_joiner example_join_world example_join (jfield example_join_descriptor ''ownerPeerId'')
      example_manifest ''n'' None (h @ as) = ((h @ as) @ bs @ [Do_Rename (temp_name ''n'') ''n''], Inr r)"
    using example_transfer by blast
  with sets show ?thesis by (simp add: join_body_def effect_bind_def effect_lift_def)
qed

lemma example_join_run:
  "\<exists>h' r. runJoin example_joiner example_join_world ''r'' ''u'' example_join [] = (h', Inr (Finished r)) \<and>
     Do_Rename (temp_name ''n'') ''n'' \<in> set h' \<and> Do_Listen ''127.0.0.1'' 0 \<in> set h'"
proof -
  let ?s = "started_as example_join example_join_descriptor 0"
  obtain as r where body: "join_body example_joiner example_join_world ''r'' ''u'' example_join example_join_descriptor ?s =
      (?s @ as @ [Do_Rename (temp_name ''n'') ''n''], Inr (Finished r))" using example_body by blast
  have clean: "attempt_all example_join_world (cleanup_actions True False) None g = (g @ cleanup_actions True False, Inr ())" for g
    by (simp add: cleanup_actions_def example_performs)
  have host: "parseListenHost (jn_listen example_join) = ''127.0.0.1''"
    by (simp add: example_join_def parseListenHost_def)
  show ?thesis
    using body by (simp add: runJoin_def example_join_decoded example_port example_performs started_as_def Let_def cli_cleanup_def clean host)
qed


theorem join_releases_everything_witness:
  "\<exists>as. fst (runJoin example_joiner example_join_world ''r'' ''u'' example_join []) =
     as @ (if \<exists>s m. Do_JoinSession s m \<in> set (fst (runJoin example_joiner example_join_world ''r'' ''u'' example_join []))
           then [Do_DisposeEngine, Do_CloseTransport] else [Do_CloseTransport]) \<and>
     list_all (\<lambda>a. \<not> releases a) as"
proof -
  obtain h' r where run: "runJoin example_joiner example_join_world ''r'' ''u'' example_join [] = (h', Inr (Finished r))"
    and listens: "Do_Listen ''127.0.0.1'' 0 \<in> set h'" using example_join_run by blast
  from join_releases_everything [OF run listens] run show ?thesis by simp
qed


definition example_send :: send_command where
  "example_send =
     \<lparr>sn_file = ''f'', sn_signal = ''auto'', sn_listen = ''127.0.0.1'', sn_advertise = None, sn_pieceSize = 4, sn_session = None, sn_keepOpen = False,
      sn_pathKind = Path_Relay\<rparr>"

definition example_sender :: join_platform where
  "example_sender = example_joiner
     \<lparr>jp_codec := \<lparr>jc_print = (\<lambda>v. []), jc_parse = (\<lambda>b. Some (json_value (session_value (sent_descriptor ''p'' ''u'' example_send (''s'', [])))))\<rparr>\<rparr>"

lemma example_sends:
  "\<exists>h' link. runSend example_sender example_join_world ''p'' ''u'' example_send [] = (h', Inr link)"
proof -
  have "parseListenPort (sn_listen example_send) = Inr 0" using example_port by (simp add: example_send_def example_join_def)
  then show ?thesis by (simp add: runSend_def example_performs applyEnginePathKind_def Let_def)
qed

theorem sent_link_is_joined_witness:
  "\<exists>j. Do_JoinSession (JStr ''s'') (JArr []) \<in> set (fst (runJoin example_sender example_join_world ''r'' ''u2'' j []))"
proof -
  obtain h' link where sends: "runSend example_sender example_join_world ''p'' ''u'' example_send [] = (h', Inr link)" using example_sends by blast
  have port: "parseListenPort (jn_listen (example_join\<lparr>jn_session := link\<rparr>)) = Inr 0" using example_port by simp
  have sess: "jw_session example_join_world g = (''s'', [])" for g by (simp add: example_join_world_def)
  have codec: "\<forall>g. json_roundtrips (jp_codec example_sender) (session_value (sent_descriptor ''p'' ''u'' example_send (jw_session example_join_world g))) \<and>
      fst (jw_session example_join_world g) \<noteq> ''''"
    by (simp add: sess json_roundtrips_def example_sender_def)
  have "\<forall>g host p. jw_fails example_join_world (g @ [Do_Listen host p]) = None" by simp
  from sent_link_is_joined [OF sends _ port this codec, where receiver = "''r''" and receiverUrl = "''u2''"]
  show ?thesis by (auto simp: sess)
qed

end
