(* ===== verification/Cli_Sessions.thy ===== *)
theory Cli_Sessions
  imports Cli_Descriptors Piece_Layout
begin

text \<open>
  The stored sessions of the CLI, \<open>packages/cli/src/cli-runtime.ts\<close>: where they are kept (\<open>getCliStorageRoot\<close>, \<open>safeStorageKey\<close>), how \<open>status\<close>
  and \<open>clean\<close> find them, and the signal handlers that end a running command (\<open>installCliShutdownHandlers\<close>). The file system is a list of paths
  with their contents; a path is the list of its segments.
\<close>

section \<open>The file system\<close>

datatype fs_node = Folder | Plain_File bytes | Special_File

type_synonym fs_path = "string list"
type_synonym file_system = "(fs_path \<times> fs_node) list"

datatype fs_error = ENOENT | ENOTDIR | EISDIR | EACCES

text \<open>Following a path from the root: every segment before the last must name a folder.\<close>

fun fs_walk :: "file_system \<Rightarrow> fs_path \<Rightarrow> fs_path \<Rightarrow> fs_error + fs_node" where
  "fs_walk fs done [] = (case map_of fs done of None \<Rightarrow> Inl ENOENT | Some n \<Rightarrow> Inr n)"
| "fs_walk fs done (s # rest) =
     (case map_of fs done of
        None \<Rightarrow> Inl ENOENT
      | Some Folder \<Rightarrow> fs_walk fs (done @ [s]) rest
      | Some _ \<Rightarrow> Inl ENOTDIR)"

definition fs_readFile :: "file_system \<Rightarrow> fs_path \<Rightarrow> fs_error + bytes" where
  "fs_readFile fs p =
     bind_result (fs_walk fs [] p) (\<lambda>n. case n of Plain_File bs \<Rightarrow> Inr bs | Folder \<Rightarrow> Inl EISDIR | Special_File \<Rightarrow> Inl EACCES)"

definition fs_children :: "file_system \<Rightarrow> fs_path \<Rightarrow> (string \<times> bool) list" where
  "fs_children fs p = map (\<lambda>(q, n). (last q, n = Folder)) (filter (\<lambda>(q, n). q \<noteq> [] \<and> butlast q = p) fs)"

definition fs_readdir :: "file_system \<Rightarrow> fs_path \<Rightarrow> fs_error + (string \<times> bool) list" where
  "fs_readdir fs p =
     bind_result (fs_walk fs [] p) (\<lambda>n. if n = Folder then Inr (fs_children fs p) else Inl ENOTDIR)"

text \<open>\<open>rm\<close> with \<open>recursive\<close> and \<open>force\<close>.\<close>

definition below :: "fs_path \<Rightarrow> fs_path \<Rightarrow> bool" where
  "below p q \<longleftrightarrow> take (length p) q = p"

definition fs_rm :: "fs_path \<Rightarrow> file_system \<Rightarrow> file_system" where
  "fs_rm p fs = filter (\<lambda>(q, n). \<not> below p q) fs"

section \<open>Where sessions are kept\<close>

definition getCliStorageRoot :: "(string \<Rightarrow> string \<Rightarrow> string) \<Rightarrow> string \<Rightarrow> string option \<Rightarrow> string" where
  "getCliStorageRoot join_path cwd configured =
     (case map_option js_trim configured of
        Some dir \<Rightarrow> if dir \<noteq> '''' then dir else join_path cwd ''.ponswarp-grid''
      | None \<Rightarrow> join_path cwd ''.ponswarp-grid'')"

definition safeStorageKey :: "(bytes \<Rightarrow> bytes) \<Rightarrow> bytes \<Rightarrow> string" where
  "safeStorageKey sha256 v = take 24 (bytesToHex (sha256 v))"

section \<open>Reading a state file\<close>

record manifest_view =
  mv_name :: "string option"
  mv_size :: "jsnum option"
  mv_pieceCount :: "jsnum option"

record session_view =
  vw_sessionId :: string
  vw_mode :: "string option"
  vw_manifests :: "manifest_view list option"
  vw_pieceMaps :: "string option list option list option"
  vw_updatedAt :: "jsnum option"

definition text_field :: "js_value \<Rightarrow> string \<Rightarrow> string option" where
  "text_field v k = (case jfield v k of JStr s \<Rightarrow> Some s | _ \<Rightarrow> None)"

definition number_field :: "js_value \<Rightarrow> string \<Rightarrow> jsnum option" where
  "number_field v k = (case jfield v k of JNum n \<Rightarrow> Some n | _ \<Rightarrow> None)"

text \<open>An array is an object too.\<close>

fun is_object :: "js_value \<Rightarrow> bool" where
  "is_object (JArr _) = True"
| "is_object (JObj _) = True"
| "is_object _ = False"

definition object_list :: "js_value \<Rightarrow> js_value list option" where
  "object_list v = (case v of JArr vs \<Rightarrow> Some (filter is_object vs) | _ \<Rightarrow> None)"

definition parsePersistedCliSessionState :: "json_codec \<Rightarrow> bytes \<Rightarrow> cli_error + session_view" where
  "parsePersistedCliSessionState jc raw =
     (case jc_parse jc raw of
        None \<Rightarrow> Inl Syntax_Error
      | Some v \<Rightarrow>
          if \<not> is_object v then Inl (Plain_Error ''Invalid CLI session state: expected object'')
          else Inr
            \<lparr>vw_sessionId = (case text_field v ''sessionId'' of Some s \<Rightarrow> s | None \<Rightarrow> ''''),
             vw_mode = text_field v ''mode'',
             vw_manifests = map_option (map (\<lambda>m.
               \<lparr>mv_name = text_field m ''name'', mv_size = number_field m ''size'', mv_pieceCount = number_field m ''pieceCount''\<rparr>))
               (object_list (jfield v ''manifests'')),
             vw_pieceMaps = map_option (map (\<lambda>m. map_option (map (\<lambda>p. text_field p ''status'')) (object_list (jfield m ''pieces''))))
               (object_list (jfield v ''pieceMaps'')),
             vw_updatedAt = number_field v ''updatedAt''\<rparr>)"

section \<open>Finding the records of a session\<close>

datatype session_role = Owner_Role | Receiver_Role

fun role_folder :: "session_role \<Rightarrow> string" where
  "role_folder Owner_Role = ''owners''"
| "role_folder Receiver_Role = ''receivers''"

record session_record =
  sr_role :: session_role
  sr_bucket :: string
  sr_dir :: fs_path
  sr_state :: session_view

definition session_dir :: "fs_path \<Rightarrow> session_role \<Rightarrow> string \<Rightarrow> string \<Rightarrow> fs_path" where
  "session_dir base role bucket session = base @ [role_folder role, bucket, ''sessions'', session]"

definition safe_segment :: "string \<Rightarrow> bool" where
  "safe_segment s \<longleftrightarrow> s \<noteq> '''' \<and> s \<noteq> ''.'' \<and> s \<noteq> ''..'' \<and> CHR ''/'' \<notin> set s \<and> CHR 0x5C \<notin> set s"

datatype session_error = Fs_Error fs_error | State_Error cli_error | Unsafe_Session

text \<open>One bucket: none when it is no folder or has no state file of the session; any other failure ends the search.\<close>

definition bucket_record ::
    "json_codec \<Rightarrow> file_system \<Rightarrow> fs_path \<Rightarrow> session_role \<Rightarrow> string \<Rightarrow> string \<times> bool \<Rightarrow> session_error + session_record option" where
  "bucket_record jc fs base role session entry =
     (case entry of (bucket, folder) \<Rightarrow>
        if \<not> folder then Inr None
        else
          let dir = session_dir base role bucket session in
          (case fs_readFile fs (dir @ [''state.json'']) of
             Inl e \<Rightarrow> if e = ENOENT then Inr None else Inl (Fs_Error e)
           | Inr raw \<Rightarrow>
               (case parsePersistedCliSessionState jc raw of
                  Inl e \<Rightarrow> Inl (State_Error e)
                | Inr st \<Rightarrow> Inr (Some \<lparr>sr_role = role, sr_bucket = bucket, sr_dir = dir, sr_state = st\<rparr>))))"

fun bucket_records ::
    "json_codec \<Rightarrow> file_system \<Rightarrow> fs_path \<Rightarrow> session_role \<Rightarrow> string \<Rightarrow> (string \<times> bool) list \<Rightarrow> session_error + session_record list" where
  "bucket_records jc fs base role session [] = Inr []"
| "bucket_records jc fs base role session (b # bs) =
     bind_result (bucket_record jc fs base role session b) (\<lambda>r.
     bind_result (bucket_records jc fs base role session bs) (\<lambda>rs. Inr (case r of None \<Rightarrow> rs | Some x \<Rightarrow> x # rs)))"

definition role_records :: "json_codec \<Rightarrow> file_system \<Rightarrow> fs_path \<Rightarrow> string \<Rightarrow> session_role \<Rightarrow> session_error + session_record list" where
  "role_records jc fs base session role =
     (case fs_readdir fs (base @ [role_folder role]) of
        Inl e \<Rightarrow> if e = ENOENT then Inr [] else Inl (Fs_Error e)
      | Inr buckets \<Rightarrow> bucket_records jc fs base role session buckets)"

definition findSessionStorageRecords :: "json_codec \<Rightarrow> file_system \<Rightarrow> fs_path \<Rightarrow> string \<Rightarrow> session_error + session_record list" where
  "findSessionStorageRecords jc fs base session =
     (if \<not> safe_segment session then Inl Unsafe_Session
      else
        bind_result (role_records jc fs base session Owner_Role) (\<lambda>owners.
        bind_result (role_records jc fs base session Receiver_Role) (\<lambda>receivers. Inr (owners @ receivers))))"

section \<open>The commands\<close>

definition runClean :: "json_codec \<Rightarrow> file_system \<Rightarrow> fs_path \<Rightarrow> string \<Rightarrow> file_system \<times> (session_error + nat)" where
  "runClean jc fs base session =
     (case findSessionStorageRecords jc fs base session of
        Inl e \<Rightarrow> (fs, Inl e)
      | Inr rs \<Rightarrow> (fold (\<lambda>r. fs_rm (sr_dir r)) rs fs, Inr (length rs)))"


text \<open>
  \<open>status\<close> prints lines; how a number, a path and a time are printed are parameters. \<open>toISOString\<close> throws for a time out of range: the lines
  before it are printed, and the command fails.
\<close>

record printers =
  pr_number :: "jsnum \<Rightarrow> string"
  pr_path :: "fs_path \<Rightarrow> string"
  pr_time :: "jsnum \<Rightarrow> string option"

definition or_default :: "'a option \<Rightarrow> 'a \<Rightarrow> 'a" where
  "or_default x d = (case x of Some v \<Rightarrow> v | None \<Rightarrow> d)"

definition manifest_line :: "printers \<Rightarrow> manifest_view \<Rightarrow> string" where
  "manifest_line pr m =
     ''File: '' @ or_default (mv_name m) ''unknown'' @ '' ('' @ pr_number pr (or_default (mv_size m) (Fin 0)) @ '' bytes, '' @
     pr_number pr (or_default (mv_pieceCount m) (Fin 0)) @ '' pieces)''"

definition progress_line :: "nat \<Rightarrow> string option list option \<Rightarrow> string" where
  "progress_line i pieces =
     (let ps = or_default pieces [] in
      ''Progress '' @ show_nat (i + 1) @ '': '' @ show_nat (length (filter (\<lambda>s. s = Some ''verified'') ps)) @ ''/'' @ show_nat (length ps) @ '' verified'')"

definition record_lines :: "printers \<Rightarrow> session_record \<Rightarrow> string list" where
  "record_lines pr r =
     [''Entry: '' @ (case sr_role r of Owner_Role \<Rightarrow> ''owner'' | Receiver_Role \<Rightarrow> ''receiver'') @ ''/'' @ sr_bucket r,
      ''Path: '' @ pr_path pr (sr_dir r),
      ''Mode: '' @ or_default (vw_mode (sr_state r)) ''unknown''] @
     map (manifest_line pr) (or_default (vw_manifests (sr_state r)) []) @
     map (\<lambda>(i, ps). progress_line i ps) (List.enumerate 0 (or_default (vw_pieceMaps (sr_state r)) []))"

text \<open>A missing time, 0 and NaN are falsy and print nothing. \<open>False\<close>: the command has thrown.\<close>

definition updated_lines :: "printers \<Rightarrow> session_view \<Rightarrow> string list \<times> bool" where
  "updated_lines pr st =
     (case vw_updatedAt st of
        None \<Rightarrow> ([], True)
      | Some n \<Rightarrow>
          if \<not> truthy_value (JNum n) then ([], True)
          else (case pr_time pr n of Some t \<Rightarrow> ([''Updated: '' @ t], True) | None \<Rightarrow> ([], False)))"

fun status_lines :: "printers \<Rightarrow> session_record list \<Rightarrow> string list \<times> bool" where
  "status_lines pr [] = ([], True)"
| "status_lines pr (r # rs) =
     (case updated_lines pr (sr_state r) of
        (ls, False) \<Rightarrow> (record_lines pr r @ ls, False)
      | (ls, True) \<Rightarrow> (case status_lines pr rs of (ms, ok) \<Rightarrow> (record_lines pr r @ ls @ ms, ok)))"

definition runStatus :: "printers \<Rightarrow> json_codec \<Rightarrow> file_system \<Rightarrow> fs_path \<Rightarrow> string \<Rightarrow> session_error + string list \<times> bool" where
  "runStatus pr jc fs base session =
     bind_result (findSessionStorageRecords jc fs base session) (\<lambda>rs.
       if rs = [] then Inr ([''Session: '' @ session, ''Status: not_found''], True)
       else (case status_lines pr rs of (ls, ok) \<Rightarrow> Inr ([''Session: '' @ session, ''Status: found''] @ ls, ok)))"

section \<open>What clean removes\<close>

lemma bucket_record_Some:
  "bucket_record jc fs base role session entry = Inr (Some r) \<Longrightarrow>
     sr_role r = role \<and> sr_dir r = session_dir base role (sr_bucket r) session \<and> fst entry = sr_bucket r \<and> snd entry \<and>
     (\<exists>raw. fs_readFile fs (sr_dir r @ [''state.json'']) = Inr raw)"
  by (auto simp: bucket_record_def Let_def split: prod.splits if_splits sum.splits)

lemma bucket_records_mem:
  "bucket_records jc fs base role session bs = Inr rs \<Longrightarrow> r \<in> set rs \<longleftrightarrow> (\<exists>b \<in> set bs. bucket_record jc fs base role session b = Inr (Some r))"
proof (induction bs arbitrary: rs)
  case (Cons b bs)
  then show ?case by (auto simp: bind_result_Inr_iff split: option.splits)
qed simp

lemma role_records_mem:
  assumes "role_records jc fs base session role = Inr rs" and "r \<in> set rs"
  shows "sr_role r = role \<and> sr_dir r = session_dir base role (sr_bucket r) session"
  using assms bucket_records_mem bucket_record_Some
  by (auto simp: role_records_def split: sum.splits if_splits)

lemma records_mem:
  assumes "findSessionStorageRecords jc fs base session = Inr rs" and "r \<in> set rs"
  shows "safe_segment session \<and> sr_dir r = session_dir base (sr_role r) (sr_bucket r) session"
  using assms role_records_mem by (auto simp: findSessionStorageRecords_def bind_result_Inr_iff split: if_splits)

lemma record_readable:
  assumes "findSessionStorageRecords jc fs base session = Inr rs" and "r \<in> set rs"
  shows "\<exists>raw. fs_readFile fs (sr_dir r @ [''state.json'']) = Inr raw"
proof -
  obtain role rs' where "role_records jc fs base session role = Inr rs'" "r \<in> set rs'"
    using assms by (auto simp: findSessionStorageRecords_def bind_result_Inr_iff split: if_splits)
  then obtain bs b where "bucket_records jc fs base role session bs = Inr rs'" "bucket_record jc fs base role session b = Inr (Some r)"
    using bucket_records_mem by (fastforce simp: role_records_def split: sum.splits if_splits)
  with bucket_record_Some show ?thesis by blast
qed

lemma rm_filter: "fold (\<lambda>r. fs_rm (f r)) rs fs = filter (\<lambda>(q, n). \<forall>r \<in> set rs. \<not> below (f r) q) fs"
  by (induction rs arbitrary: fs) (auto simp: fs_rm_def case_prod_unfold conj_commute intro!: filter_cong)

lemma map_of_removed:
  "map_of (filter (\<lambda>(q, n). P q) fs) q = (if P q then map_of fs q else None)"
  by (induction fs) auto


section \<open>A cleaned session is gone\<close>

lemma walk_cong:
  "(\<And>k. k \<le> length p \<Longrightarrow> map_of fs' (at' @ take k p) = map_of fs (at' @ take k p)) \<Longrightarrow> fs_walk fs' at' p = fs_walk fs at' p"
proof (induction p arbitrary: at')
  case Nil
  from Nil [of 0] show ?case by simp
next
  case (Cons s p)
  have here: "map_of fs' at' = map_of fs at'" using Cons.prems [of 0] by simp
  have "fs_walk fs' (at' @ [s]) p = fs_walk fs (at' @ [s]) p"
    by (rule Cons.IH) (use Cons.prems [of "Suc k" for k] in auto)
  with here show ?case by (simp split: option.split fs_node.split)
qed

lemma walk_removed:
  assumes "fs_walk fs at' (p @ s) = Inr n" and "\<And>k. k < length p \<Longrightarrow> map_of fs' (at' @ take k p) = map_of fs (at' @ take k p)"
    and "map_of fs' (at' @ p) = None"
  shows "fs_walk fs' at' (p @ s) = Inl ENOENT"
  using assms
proof (induction p arbitrary: at')
  case Nil
  then show ?case by (cases s) simp_all
next
  case (Cons a p)
  have here: "map_of fs' at' = map_of fs at'" using Cons.prems(2) [of 0] by simp
  have walk: "fs_walk fs (at' @ [a]) (p @ s) = Inr n" "map_of fs at' = Some Folder"
    using Cons.prems(1) by (auto split: option.splits fs_node.splits)
  have "fs_walk fs' (at' @ [a]) (p @ s) = Inl ENOENT"
    by (rule Cons.IH [OF walk(1)]) (use Cons.prems(2) [of "Suc k" for k] Cons.prems(3) in auto)
  with here walk(2) show ?case by simp
qed

lemma readFile_walk: "fs_walk fs' [] p = fs_walk fs [] p \<Longrightarrow> fs_readFile fs' p = fs_readFile fs p"
  by (simp add: fs_readFile_def)

lemma below_dir: "below (base @ [a, b, c, d]) (take k (base @ [a', b', c', d', e])) \<longleftrightarrow> length base + 4 \<le> k \<and> a = a' \<and> b = b' \<and> c = c' \<and> d = d'"
proof (cases "length base + 4 \<le> k")
  case False
  then show ?thesis by (auto simp: below_def dest: arg_cong [where f = length])
next
  case True
  then have "k = length base + 4 \<or> length base + 5 \<le> k" by auto
  with True show ?thesis by (auto simp: below_def)
qed

lemma role_folder_inj [simp]: "role_folder a = role_folder b \<longleftrightarrow> a = b"
  by (cases a; cases b) simp_all

lemma kept_lookup:
  "map_of (fold (\<lambda>r. fs_rm (sr_dir r)) rs fs) q = (if \<forall>r \<in> set rs. \<not> below (sr_dir r) q then map_of fs q else None)"
  unfolding rm_filter map_of_removed ..

lemma kept_above:
  assumes "findSessionStorageRecords jc fs base session = Inr rs" and "length q < length base + 4"
  shows "map_of (fold (\<lambda>r. fs_rm (sr_dir r)) rs fs) q = map_of fs q"
proof -
  have "\<not> below (sr_dir r) q" if "r \<in> set rs" for r
    using records_mem [OF assms(1) that] assms(2) by (auto simp: below_def session_dir_def dest: arg_cong [where f = length])
  then show ?thesis by (simp add: kept_lookup)
qed

lemma kept_folder:
  assumes "findSessionStorageRecords jc fs base session = Inr rs"
  shows "fs_readdir (fold (\<lambda>r. fs_rm (sr_dir r)) rs fs) (base @ [role_folder role]) = fs_readdir fs (base @ [role_folder role])"
proof -
  have "fs_walk (fold (\<lambda>r. fs_rm (sr_dir r)) rs fs) [] (base @ [role_folder role]) = fs_walk fs [] (base @ [role_folder role])"
    by (rule walk_cong, rule kept_above [OF assms]) simp
  moreover have "fs_children (fold (\<lambda>r. fs_rm (sr_dir r)) rs fs) (base @ [role_folder role]) = fs_children fs (base @ [role_folder role])"
  proof -
    have "\<not> below (sr_dir r) q" if "r \<in> set rs" and "q \<noteq> [] \<and> butlast q = base @ [role_folder role]" for r q
      using records_mem [OF assms that(1)] arg_cong [OF conjunct2 [OF that(2)], of length] 
      by (auto simp: below_def session_dir_def dest: arg_cong [where f = length])
    then show ?thesis unfolding fs_children_def rm_filter filter_filter by (intro arg_cong [where f = "map _"] filter_cong) auto
  qed
  ultimately show ?thesis unfolding fs_readdir_def by (simp only:)
qed

lemma state_path: "session_dir base role bucket session @ [''state.json''] = base @ [role_folder role, bucket, ''sessions'', session, ''state.json'']"
  by (simp add: session_dir_def)

lemma kept_state:
  assumes "findSessionStorageRecords jc fs base session = Inr rs" and "\<forall>r \<in> set rs. sr_dir r \<noteq> session_dir base role bucket session"
  shows "fs_readFile (fold (\<lambda>r. fs_rm (sr_dir r)) rs fs) (session_dir base role bucket session @ [''state.json'']) =
    fs_readFile fs (session_dir base role bucket session @ [''state.json''])"
proof (rule readFile_walk, rule walk_cong)
  fix k
  have "\<not> below (sr_dir r) ([] @ take k (session_dir base role bucket session @ [''state.json'']))" if "r \<in> set rs" for r
    using records_mem [OF assms(1) that] assms(2) that unfolding state_path append_Nil by (auto simp: session_dir_def below_dir simp del: take_append)
  then show "map_of (fold (\<lambda>r. fs_rm (sr_dir r)) rs fs) ([] @ take k (session_dir base role bucket session @ [''state.json''])) =
      map_of fs ([] @ take k (session_dir base role bucket session @ [''state.json'']))"
    by (simp add: kept_lookup)
qed

lemma removed_state:
  assumes "findSessionStorageRecords jc fs base session = Inr rs" and "r \<in> set rs" and "fs_readFile fs (sr_dir r @ [''state.json'']) = Inr raw"
  shows "fs_readFile (fold (\<lambda>r. fs_rm (sr_dir r)) rs fs) (sr_dir r @ [''state.json'']) = Inl ENOENT"
proof -
  obtain n where n: "fs_walk fs [] (sr_dir r @ [''state.json'']) = Inr n"
    using assms(3) by (auto simp: fs_readFile_def bind_result_Inr_iff)
  have dir: "length (sr_dir r) = length base + 4" using records_mem [OF assms(1,2)] by (simp add: session_dir_def)
  have "fs_walk (fold (\<lambda>r. fs_rm (sr_dir r)) rs fs) [] (sr_dir r @ [''state.json'']) = Inl ENOENT"
  proof (rule walk_removed [OF n])
    show "map_of (fold (\<lambda>r. fs_rm (sr_dir r)) rs fs) ([] @ sr_dir r) = None"
      using assms(2) by (auto simp: kept_lookup below_def)
  qed (use dir in \<open>auto intro: kept_above [OF assms(1)]\<close>)
  then show ?thesis by (simp add: fs_readFile_def)
qed

lemma bucket_records_all:
  "bucket_records jc fs base role session bs = Inr rs \<Longrightarrow> b \<in> set bs \<Longrightarrow> \<exists>r. bucket_record jc fs base role session b = Inr r"
  by (induction bs arbitrary: rs) (auto simp: bind_result_Inr_iff)

lemma bucket_records_none:
  "(\<And>b. b \<in> set bs \<Longrightarrow> bucket_record jc fs base role session b = Inr None) \<Longrightarrow> bucket_records jc fs base role session bs = Inr []"
  by (induction bs) simp_all

lemma bucket_cleaned:
  assumes "findSessionStorageRecords jc fs base session = Inr rs" and "bucket_record jc fs base role session b = Inr x"
    and "\<And>r. x = Some r \<Longrightarrow> r \<in> set rs"
  shows "bucket_record jc (fold (\<lambda>r. fs_rm (sr_dir r)) rs fs) base role session b = Inr None"
proof (cases x)
  case (Some r)
  from bucket_record_Some [of jc fs base role session b r] assms(2) Some obtain raw where
    r: "sr_dir r = session_dir base role (sr_bucket r) session" "fst b = sr_bucket r" "fs_readFile fs (sr_dir r @ [''state.json'']) = Inr raw"
    by blast
  from removed_state [OF assms(1) assms(3) [OF Some] r(3)] r(1,2) show ?thesis
    by (cases b) (simp add: bucket_record_def Let_def)
next
  case None
  obtain bucket folder where b: "b = (bucket, folder)" by (cases b)
  show ?thesis
  proof (cases folder)
    case True
    let ?p = "session_dir base role bucket session @ [''state.json'']"
    have before: "fs_readFile fs ?p = Inl ENOENT"
      using assms(2) None b True by (auto simp: bucket_record_def Let_def split: sum.splits if_splits)
    have "\<forall>r \<in> set rs. sr_dir r \<noteq> session_dir base role bucket session"
    proof
      fix r assume "r \<in> set rs"
      then obtain raw where "fs_readFile fs (sr_dir r @ [''state.json'']) = Inr raw"
        using record_readable [OF assms(1)] by blast
      with before show "sr_dir r \<noteq> session_dir base role bucket session" by auto
    qed
    from kept_state [OF assms(1) this] before b show ?thesis by (simp add: bucket_record_def Let_def)
  qed (simp add: b bucket_record_def)
qed

lemma role_cleaned:
  assumes "findSessionStorageRecords jc fs base session = Inr rs" and "role_records jc fs base session role = Inr rs'" and "set rs' \<subseteq> set rs"
  shows "role_records jc (fold (\<lambda>r. fs_rm (sr_dir r)) rs fs) base session role = Inr []"
proof (cases "fs_readdir fs (base @ [role_folder role])")
  case (Inl e)
  with assms(2) kept_folder [OF assms(1), of role] show ?thesis by (auto simp: role_records_def split: if_splits)
next
  case (Inr bs)
  then have all: "bucket_records jc fs base role session bs = Inr rs'" using assms(2) by (simp add: role_records_def)
  have "bucket_record jc (fold (\<lambda>r. fs_rm (sr_dir r)) rs fs) base role session b = Inr None" if mem: "b \<in> set bs" for b
  proof -
    obtain x where x: "bucket_record jc fs base role session b = Inr x" using bucket_records_all [OF all mem] by blast
    have "r \<in> set rs" if "x = Some r" for r
      using bucket_records_mem [OF all, of r] mem x that assms(3) by auto
    with bucket_cleaned [OF assms(1) x] show ?thesis by blast
  qed
  then show ?thesis using Inr kept_folder [OF assms(1), of role] by (simp add: role_records_def bucket_records_none)
qed

text \<open>After a successful \<open>clean\<close>, \<open>status\<close> reports that the session is not found.\<close>

theorem cleaned_session_not_found:
  assumes "runClean jc fs base session = (fs', Inr n)"
  shows "runStatus pr jc fs' base session = Inr ([''Session: '' @ session, ''Status: not_found''], True)"
proof -
  obtain rs where rs: "findSessionStorageRecords jc fs base session = Inr rs" "fs' = fold (\<lambda>r. fs_rm (sr_dir r)) rs fs"
    using assms by (auto simp: runClean_def split: sum.splits)
  then obtain owners receivers where parts: "role_records jc fs base session Owner_Role = Inr owners"
      "role_records jc fs base session Receiver_Role = Inr receivers" "rs = owners @ receivers" "safe_segment session"
    by (auto simp: findSessionStorageRecords_def bind_result_Inr_iff split: if_splits)
  have "role_records jc fs' base session role = Inr []" for role
    unfolding rs(2) by (cases role) (use role_cleaned [OF rs(1) parts(1)] role_cleaned [OF rs(1) parts(2)] parts(3) in auto)
  then show ?thesis using parts(4) by (simp add: runStatus_def findSessionStorageRecords_def)
qed


text \<open>A state file that does not parse, in any bucket, makes \<open>clean\<close> fail for the session before it has removed anything.\<close>

theorem unreadable_state_blocks_clean:
  assumes "fs_readdir fs (base @ [role_folder role]) = Inr buckets" and "(bucket, True) \<in> set buckets"
    and "fs_readFile fs (session_dir base role bucket session @ [''state.json'']) = Inr raw"
    and "parsePersistedCliSessionState jc raw = Inl e"
  shows "\<exists>e. runClean jc fs base session = (fs, Inl e)"
proof (cases "findSessionStorageRecords jc fs base session")
  case (Inr rs)
  then obtain rs' where "role_records jc fs base session role = Inr rs'"
    by (cases role) (auto simp: findSessionStorageRecords_def bind_result_Inr_iff split: if_splits)
  then have "bucket_records jc fs base role session buckets = Inr rs'" using assms(1) by (simp add: role_records_def)
  from bucket_records_all [OF this assms(2)] assms(3,4) show ?thesis by (auto simp: bucket_record_def)
qed (simp add: runClean_def)

section \<open>Signals\<close>

text \<open>
  \<open>installCliShutdownHandlers\<close>: the first signal starts the clean-up, whose end ends the process with the code of the signal, or 1 when it failed;
  later signals wait. Handlers that are removed, which a running clean-up refuses, hear nothing. \<open>sd_waiting\<close> is the signal whose clean-up runs.
\<close>

datatype stop_signal = SIGINT | SIGTERM

datatype shutdown_event = Stop_Signal stop_signal | Cleanup_Ended bool | Remove_Handlers

record shutdown_state =
  sd_closing :: bool
  sd_removed :: bool
  sd_waiting :: "stop_signal option"
  sd_cleanups :: nat
  sd_exits :: "int list"

definition new_shutdown :: shutdown_state where
  "new_shutdown = \<lparr>sd_closing = False, sd_removed = False, sd_waiting = None, sd_cleanups = 0, sd_exits = []\<rparr>"

definition exit_code :: "stop_signal \<Rightarrow> bool \<Rightarrow> int" where
  "exit_code s ok = (if \<not> ok then 1 else if s = SIGINT then 130 else 143)"

definition shutdown_finish :: "int \<Rightarrow> shutdown_state \<Rightarrow> shutdown_state" where
  "shutdown_finish code s = s\<lparr>sd_removed := True, sd_exits := sd_exits s @ [code]\<rparr>"

fun shutdown_step :: "shutdown_event \<Rightarrow> shutdown_state \<Rightarrow> shutdown_state" where
  "shutdown_step (Stop_Signal g) s =
     (if sd_removed s \<or> sd_closing s then s
      else s\<lparr>sd_closing := True, sd_waiting := Some g, sd_cleanups := sd_cleanups s + 1\<rparr>)"
| "shutdown_step (Cleanup_Ended ok) s =
     (case sd_waiting s of None \<Rightarrow> s | Some g \<Rightarrow> shutdown_finish (exit_code g ok) (s\<lparr>sd_waiting := None\<rparr>))"
| "shutdown_step Remove_Handlers s = (if sd_removed s \<or> sd_closing s then s else s\<lparr>sd_removed := True\<rparr>)"

text \<open>What a sequence of events should do: how often it cleans up and with which codes the process exits.\<close>

fun ends_cleanup :: "shutdown_event \<Rightarrow> bool" where
  "ends_cleanup (Cleanup_Ended _) = True"
| "ends_cleanup _ = False"

definition shutdown_outcome :: "shutdown_event list \<Rightarrow> nat \<times> int list" where
  "shutdown_outcome es =
     (case dropWhile ends_cleanup es of
        Stop_Signal g # rest \<Rightarrow> (1, case List.find ends_cleanup rest of Some (Cleanup_Ended ok) \<Rightarrow> [exit_code g ok] | _ \<Rightarrow> [])
      | _ \<Rightarrow> (0, []))"

lemma shutdown_after:
  assumes "sd_closing s \<or> sd_removed s" and "sd_waiting s = None"
  shows "fold shutdown_step es s = s"
  using assms
proof (induction es)
  case (Cons e es)
  then show ?case by (cases e) auto
qed simp

lemma shutdown_waiting:
  assumes "sd_closing s" and "\<not> sd_removed s" and "sd_waiting s = Some g"
  shows "fold shutdown_step es s =
    (case List.find ends_cleanup es of
       Some (Cleanup_Ended ok) \<Rightarrow> shutdown_finish (exit_code g ok) (s\<lparr>sd_waiting := None\<rparr>) | _ \<Rightarrow> s)"
proof (induction es)
  case (Cons e es)
  with assms show ?case by (cases e) (simp_all add: shutdown_after shutdown_finish_def)
qed simp

lemma shutdown_idle:
  assumes "sd_waiting s = None"
  shows "fold shutdown_step es s = fold shutdown_step (dropWhile ends_cleanup es) s"
proof (induction es)
  case (Cons e es)
  with assms show ?case by (cases e) simp_all
qed simp

text \<open>
  C37. For every order of signals, ends of clean-ups and removals: the handlers clean up at most once and exit at most once, for the first signal if it
  came before the handlers were removed, with the code of that signal when the clean-up succeeded and 1 when it failed.
\<close>

theorem shutdown_exits_once:
  "(sd_cleanups (fold shutdown_step es new_shutdown), sd_exits (fold shutdown_step es new_shutdown)) = shutdown_outcome es"
proof -
  have idle: "fold shutdown_step es new_shutdown = fold shutdown_step (dropWhile ends_cleanup es) new_shutdown"
    by (rule shutdown_idle) (simp add: new_shutdown_def)
  show ?thesis
  proof (cases "dropWhile ends_cleanup es")
    case (Cons e rest)
    then have "\<not> ends_cleanup e" by (metis hd_dropWhile list.distinct(1) list.sel(1))
    with Cons idle show ?thesis
      by (cases e; cases "List.find ends_cleanup rest")
        (auto simp: shutdown_outcome_def new_shutdown_def shutdown_waiting shutdown_after shutdown_finish_def split: shutdown_event.split)
  next
    case Nil
    show ?thesis unfolding idle Nil shutdown_outcome_def by (simp add: new_shutdown_def)
  qed
qed

section \<open>The file of a source\<close>

text \<open>\<open>slice\<close> of \<open>toBlobLikeFile\<close>: the offset and the length that are read.\<close>

definition blob_slice :: "int \<Rightarrow> int \<Rightarrow> int \<Rightarrow> int \<times> int" where
  "blob_slice full start stop =
     (let offset = max 0 start; boundedEnd = min full (max offset stop) in (offset, boundedEnd - offset))"

lemma blob_slice_inside: "0 \<le> start \<Longrightarrow> start \<le> stop \<Longrightarrow> stop \<le> full \<Longrightarrow> blob_slice full start stop = (start, stop - start)"
  by (simp add: blob_slice_def Let_def)

text \<open>A slice that starts beyond the end has a negative size, where \<open>Blob.slice\<close> gives an empty one.\<close>

theorem slice_beyond_end_negative: "0 \<le> full \<Longrightarrow> full < start \<Longrightarrow> snd (blob_slice full start stop) = full - start"
  by (auto simp: blob_slice_def Let_def)


section \<open>An example\<close>

text \<open>A root with one bucket of an owner that holds the session \<open>s\<close> with one file.\<close>

definition example_files :: file_system where
  "example_files =
     [([], Folder), ([''r''], Folder), ([''r'', ''owners''], Folder), ([''r'', ''owners'', ''b''], Folder),
      ([''r'', ''owners'', ''b'', ''sessions''], Folder), ([''r'', ''owners'', ''b'', ''sessions'', ''s''], Folder),
      ([''r'', ''owners'', ''b'', ''sessions'', ''s'', ''state.json''], Plain_File [])]"

definition example_state_codec :: "js_value option \<Rightarrow> json_codec" where
  "example_state_codec v = \<lparr>jc_print = (\<lambda>v. []), jc_parse = (\<lambda>b. v)\<rparr>"

lemma example_owner_folder: "fs_readdir example_files ([''r''] @ [role_folder Owner_Role]) = Inr [(''b'', True)]"
  by (simp add: example_files_def fs_readdir_def fs_children_def)

lemma example_state_file: "fs_readFile example_files (session_dir [''r''] Owner_Role ''b'' ''s'' @ [''state.json'']) = Inr []"
  by (simp add: example_files_def fs_readFile_def session_dir_def)

lemma example_cleans:
  "\<exists>fs'. runClean (example_state_codec (Some (JObj []))) example_files [''r''] ''s'' = (fs', Inr 1) \<and>
     map_of fs' (session_dir [''r''] Owner_Role ''b'' ''s'') \<noteq> map_of example_files (session_dir [''r''] Owner_Role ''b'' ''s'')"
proof -
  have owners: "\<exists>r. role_records (example_state_codec (Some (JObj []))) example_files [''r''] ''s'' Owner_Role = Inr [r] \<and>
      sr_dir r = session_dir [''r''] Owner_Role ''b'' ''s''"
    using example_owner_folder example_state_file
    by (simp add: role_records_def bucket_record_def Let_def parsePersistedCliSessionState_def example_state_codec_def)
  have receivers: "role_records (example_state_codec (Some (JObj []))) example_files [''r''] ''s'' Receiver_Role = Inr []"
    by (simp add: role_records_def example_files_def fs_readdir_def)
  have safe: "safe_segment ''s''" by (simp add: safe_segment_def)
  show ?thesis
    using owners receivers safe
    by (auto simp: runClean_def findSessionStorageRecords_def example_files_def fs_rm_def below_def session_dir_def)
qed


theorem cleaned_session_not_found_witness:
  "\<exists>fs'. runClean (example_state_codec (Some (JObj []))) example_files [''r''] ''s'' = (fs', Inr 1) \<and>
     runStatus \<lparr>pr_number = (\<lambda>n. []), pr_path = concat, pr_time = (\<lambda>n. None)\<rparr> (example_state_codec (Some (JObj []))) fs' [''r''] ''s'' =
       Inr ([''Session: s'', ''Status: not_found''], True)"
proof -
  obtain fs' where fs': "runClean (example_state_codec (Some (JObj []))) example_files [''r''] ''s'' = (fs', Inr 1)"
    using example_cleans by blast
  from cleaned_session_not_found [OF fs'] fs' show ?thesis by auto
qed

theorem unreadable_state_blocks_clean_witness:
  "\<exists>e. runClean (example_state_codec None) example_files [''r''] ''s'' = (example_files, Inl e)"
  by (rule unreadable_state_blocks_clean [OF example_owner_folder _ example_state_file, of _ Syntax_Error])
    (simp_all add: parsePersistedCliSessionState_def example_state_codec_def)

end
