(* ===== verification/Event_Bus.thy ===== *)
theory Event_Bus
  imports Grid_Prelude "HOL-Library.Sublist"
begin

text \<open>
  \<open>EventBus\<close> of \<open>packages/core/src/index.ts\<close>, and how the engine subscribes to its transport (\<open>bindTransport\<close>, \<open>setTransport\<close>, \<open>dispose\<close>). A bus keeps
  one JavaScript \<open>Set\<close> of handlers per type, in a map. A handler may change the bus while it is called; a \<open>Set\<close> is therefore the list of its
  slots, of which removed ones are empty, and \<open>forEach\<close> a walk over the slots that meets what is added behind it. Clearing the bus forgets the
  sets, not their handlers.
\<close>

section \<open>The bus\<close>

type_synonym 'h slots = "'h option list"

record ('k, 'h) event_bus =
  eb_sets :: "'h slots list"
  eb_handlers :: "('k, nat) js_map"

definition new_bus :: "('k, 'h) event_bus" where
  "new_bus = \<lparr>eb_sets = [], eb_handlers = []\<rparr>"

definition slots_add :: "'h \<Rightarrow> 'h slots \<Rightarrow> 'h slots" where
  "slots_add h s = (if Some h \<in> set s then s else s @ [Some h])"

definition slots_delete :: "'h \<Rightarrow> 'h slots \<Rightarrow> 'h slots" where
  "slots_delete h s = map (\<lambda>x. if x = Some h then None else x) s"

definition bus_on :: "'k \<Rightarrow> 'h \<Rightarrow> ('k, 'h) event_bus \<Rightarrow> ('k, 'h) event_bus" where
  "bus_on k h b =
     (case jm_get (eb_handlers b) k of
        Some i \<Rightarrow> b\<lparr>eb_sets := (eb_sets b)[i := slots_add h (eb_sets b ! i)]\<rparr>
      | None \<Rightarrow> b\<lparr>eb_sets := eb_sets b @ [slots_add h []], eb_handlers := jm_set k (length (eb_sets b)) (eb_handlers b)\<rparr>)"

definition bus_off :: "'k \<Rightarrow> 'h \<Rightarrow> ('k, 'h) event_bus \<Rightarrow> ('k, 'h) event_bus" where
  "bus_off k h b =
     (case jm_get (eb_handlers b) k of
        Some i \<Rightarrow> b\<lparr>eb_sets := (eb_sets b)[i := slots_delete h (eb_sets b ! i)]\<rparr>
      | None \<Rightarrow> b)"

definition bus_clear :: "('k, 'h) event_bus \<Rightarrow> ('k, 'h) event_bus" where
  "bus_clear b = b\<lparr>eb_handlers := []\<rparr>"

datatype ('k, 'h) bus_op = Bus_On 'k 'h | Bus_Off 'k 'h | Bus_Clear

fun bus_call :: "('k, 'h) bus_op \<Rightarrow> ('k, 'h) event_bus \<Rightarrow> ('k, 'h) event_bus" where
  "bus_call (Bus_On k h) b = bus_on k h b"
| "bus_call (Bus_Off k h) b = bus_off k h b"
| "bus_call Bus_Clear b = bus_clear b"

text \<open>
  \<open>emit\<close>: what a handler does to the bus, and whether it returns or throws, depends on the handlers that were called before. A handler that throws
  ends the emission.
\<close>

partial_function (option) emit_from ::
    "('h list \<Rightarrow> 'h \<Rightarrow> ('k, 'h) bus_op list \<times> bool) \<Rightarrow> nat \<Rightarrow> nat \<Rightarrow> ('k, 'h) event_bus \<Rightarrow> 'h list \<Rightarrow>
      (('k, 'h) event_bus \<times> 'h list \<times> bool) option" where
  "emit_from react i j b called =
     (if length (eb_sets b ! i) \<le> j then Some (b, called, True)
      else case eb_sets b ! i ! j of
        None \<Rightarrow> emit_from react i (j + 1) b called
      | Some h \<Rightarrow>
          (case react called h of
             (calls, returned) \<Rightarrow>
               let b' = fold bus_call calls b in
               if returned then emit_from react i (j + 1) b' (called @ [h]) else Some (b', called @ [h], False)))"

definition bus_emit ::
    "('h list \<Rightarrow> 'h \<Rightarrow> ('k, 'h) bus_op list \<times> bool) \<Rightarrow> 'k \<Rightarrow> ('k, 'h) event_bus \<Rightarrow> (('k, 'h) event_bus \<times> 'h list \<times> bool) option" where
  "bus_emit react k b = (case jm_get (eb_handlers b) k of None \<Rightarrow> Some (b, [], True) | Some i \<Rightarrow> emit_from react i 0 b [])"

section \<open>Well-formed buses\<close>

definition live :: "'h slots \<Rightarrow> 'h list" where
  "live s = List.map_filter id s"

definition listeners :: "'k \<Rightarrow> ('k, 'h) event_bus \<Rightarrow> 'h list" where
  "listeners k b = (case jm_get (eb_handlers b) k of None \<Rightarrow> [] | Some i \<Rightarrow> live (eb_sets b ! i))"

definition bus_ok :: "('k, 'h) event_bus \<Rightarrow> bool" where
  "bus_ok b \<longleftrightarrow>
     (\<forall>k i. jm_get (eb_handlers b) k = Some i \<longrightarrow> i < length (eb_sets b)) \<and>
     (\<forall>k k' i. jm_get (eb_handlers b) k = Some i \<and> jm_get (eb_handlers b) k' = Some i \<longrightarrow> k = k') \<and>
     (\<forall>s \<in> set (eb_sets b). distinct (live s))"

lemma live_simps [simp]: "live [] = []" "live (None # s) = live s" "live (Some h # s) = h # live s" "live (s @ t) = live s @ live t"
  by (simp_all add: live_def List.map_filter_def)

lemma set_live: "h \<in> set (live s) \<longleftrightarrow> Some h \<in> set s"
  by (induction s) (auto simp: live_def List.map_filter_def split: option.splits)

lemma live_add: "live (slots_add h s) = (if h \<in> set (live s) then live s else live s @ [h])"
  by (simp add: slots_add_def set_live)

lemma live_delete: "live (slots_delete h s) = filter (\<lambda>x. x \<noteq> h) (live s)"
proof (induction s)
  case (Cons x s)
  then show ?case by (cases x) (simp_all add: slots_delete_def)
qed (simp add: slots_delete_def)

lemma bus_on_ok: "bus_ok b \<Longrightarrow> bus_ok (bus_on k h b)"
  by (auto simp: bus_ok_def bus_on_def live_add less_Suc_eq dest!: set_update_subset_insert [THEN subsetD] split: option.splits if_splits)

lemma bus_off_ok: "bus_ok b \<Longrightarrow> bus_ok (bus_off k h b)"
  by (auto simp: bus_ok_def bus_off_def live_delete dest!: set_update_subset_insert [THEN subsetD] split: option.splits if_splits)

lemma bus_call_ok: "bus_ok b \<Longrightarrow> bus_ok (bus_call c b)"
proof (cases c)
  case Bus_Clear
  then show "bus_ok b \<Longrightarrow> bus_ok (bus_call c b)" by (simp add: bus_clear_def bus_ok_def)
qed (simp_all add: bus_on_ok bus_off_ok)

lemma bus_calls_ok: "bus_ok b \<Longrightarrow> bus_ok (fold bus_call cs b)"
  by (induction cs arbitrary: b) (simp_all add: bus_call_ok)

lemma new_bus_ok: "bus_ok new_bus"
  by (simp add: bus_ok_def new_bus_def)

section \<open>What an emission calls\<close>

text \<open>Handlers that add no handler empty slots, and only those that they name.\<close>

fun adds :: "('k, 'h) bus_op \<Rightarrow> bool" where
  "adds (Bus_On k h) = True"
| "adds _ = False"

definition only_set :: "'k \<Rightarrow> nat \<Rightarrow> ('k, 'h) event_bus \<Rightarrow> bool" where
  "only_set k i b \<longleftrightarrow> i < length (eb_sets b) \<and> (\<forall>k'. jm_get (eb_handlers b) k' = Some i \<longrightarrow> k' = k)"

lemma removal_step:
  assumes "only_set k i b" and "\<not> adds c"
  shows "only_set k i (bus_call c b) \<and> length (eb_sets (bus_call c b) ! i) = length (eb_sets b ! i) \<and>
    (\<forall>m < length (eb_sets b ! i). eb_sets (bus_call c b) ! i ! m = eb_sets b ! i ! m \<or>
       (\<exists>h. eb_sets b ! i ! m = Some h \<and> eb_sets (bus_call c b) ! i ! m = None \<and> c = Bus_Off k h))"
proof (cases c)
  case (Bus_Off k' h)
  then show ?thesis using assms
    by (cases "jm_get (eb_handlers b) k' = Some i")
      (auto simp: bus_off_def only_set_def slots_delete_def nth_list_update split: option.splits)
qed (use assms in \<open>auto simp: bus_clear_def only_set_def\<close>)

lemma removal_steps:
  assumes "only_set k i b" and "list_all (\<lambda>c. \<not> adds c) cs"
  shows "only_set k i (fold bus_call cs b) \<and> length (eb_sets (fold bus_call cs b) ! i) = length (eb_sets b ! i) \<and>
    (\<forall>m < length (eb_sets b ! i). eb_sets (fold bus_call cs b) ! i ! m = eb_sets b ! i ! m \<or>
       (\<exists>h. eb_sets b ! i ! m = Some h \<and> eb_sets (fold bus_call cs b) ! i ! m = None \<and> Bus_Off k h \<in> set cs))"
  using assms
proof (induction cs arbitrary: b)
  case (Cons c cs)
  have step: "only_set k i (bus_call c b)" "length (eb_sets (bus_call c b) ! i) = length (eb_sets b ! i)"
    "\<And>m. m < length (eb_sets b ! i) \<Longrightarrow> eb_sets (bus_call c b) ! i ! m = eb_sets b ! i ! m \<or>
       (\<exists>h. eb_sets b ! i ! m = Some h \<and> eb_sets (bus_call c b) ! i ! m = None \<and> c = Bus_Off k h)"
    using removal_step [OF Cons.prems(1), of c] Cons.prems(2) by auto
  from Cons.IH [OF step(1)] Cons.prems(2) step show ?case
    by (simp del: fold_simps add: fold_simps(2)) (metis list.set_intros(1,2) option.discI)
qed simp

lemma live_drop_removed:
  assumes "length s' = length s" and "\<forall>m < length s. s' ! m = s ! m \<or> (\<exists>h. s ! m = Some h \<and> s' ! m = None \<and> R h)"
  shows "subseq (live (drop j s')) (live (drop j s)) \<and> (\<forall>h \<in> set (live (drop j s)). h \<in> set (live (drop j s')) \<or> R h)"
proof -
  have "list_all2 (\<lambda>x y. x = y \<or> (\<exists>h. y = Some h \<and> x = None \<and> R h)) s' s"
    using assms by (auto simp: list_all2_conv_all_nth)
  then have "list_all2 (\<lambda>x y. x = y \<or> (\<exists>h. y = Some h \<and> x = None \<and> R h)) (drop j s') (drop j s)"
    by (rule list_all2_dropI)
  then show ?thesis
  proof (induction rule: list_all2_induct)
    case (Cons x xs y ys)
    then show ?case by (cases y) auto
  qed simp
qed

lemma emit_from_reaches:
  assumes "\<And>called h. list_all (\<lambda>c. \<not> adds c) (fst (react called h)) \<and> snd (react called h)"
  shows "only_set k i b \<Longrightarrow> \<exists>b' cs. emit_from react i j b called = Some (b', called @ cs, True) \<and> subseq cs (live (drop j (eb_sets b ! i))) \<and>
    (\<forall>h \<in> set (live (drop j (eb_sets b ! i))). h \<in> set cs \<or>
       (\<exists>pre g post. called @ cs = pre @ g # post \<and> Bus_Off k h \<in> set (fst (react pre g))))"
proof (induction "length (eb_sets b ! i) - j" arbitrary: j b called)
  case 0
  then show ?case by (subst emit_from.simps) simp
next
  case (Suc n)
  let ?s = "eb_sets b ! i"
  have j: "j < length ?s" using Suc.hyps(2) by simp
  then have split: "drop j ?s = ?s ! j # drop (j + 1) ?s" by (simp add: Cons_nth_drop_Suc)
  show ?case
  proof (cases "?s ! j")
    case None
    have "n = length ?s - (j + 1)" using Suc.hyps(2) by simp
    from Suc.hyps(1) [OF this Suc.prems, of called] show ?thesis
      using j None unfolding split by (subst emit_from.simps) simp
  next
    case (Some h)
    obtain ops where ops: "react called h = (ops, True)" "list_all (\<lambda>c. \<not> adds c) ops"
      using assms [of called h] by (cases "react called h") simp
    let ?b = "fold bus_call ops b"
    from removal_steps [OF Suc.prems ops(2)] have kept: "only_set k i ?b" "length (eb_sets ?b ! i) = length ?s"
      and slots: "\<forall>m < length ?s. eb_sets ?b ! i ! m = ?s ! m \<or> (\<exists>h. ?s ! m = Some h \<and> eb_sets ?b ! i ! m = None \<and> Bus_Off k h \<in> set ops)"
      by auto
    have fewer: "subseq (live (drop (j + 1) (eb_sets ?b ! i))) (live (drop (j + 1) ?s))"
        "\<forall>h \<in> set (live (drop (j + 1) ?s)). h \<in> set (live (drop (j + 1) (eb_sets ?b ! i))) \<or> Bus_Off k h \<in> set ops"
      using live_drop_removed [OF kept(2) slots] by auto
    have "n = length (eb_sets ?b ! i) - (j + 1)" using Suc.hyps(2) kept(2) by simp
    from Suc.hyps(1) [OF this kept(1), of "called @ [h]"] obtain b' cs where
      ih: "emit_from react i (j + 1) ?b (called @ [h]) = Some (b', (called @ [h]) @ cs, True)"
      "subseq cs (live (drop (j + 1) (eb_sets ?b ! i)))"
      "\<forall>x \<in> set (live (drop (j + 1) (eb_sets ?b ! i))). x \<in> set cs \<or>
         (\<exists>pre g post. (called @ [h]) @ cs = pre @ g # post \<and> Bus_Off k x \<in> set (fst (react pre g)))" by blast
    have "emit_from react i j b called = Some (b', called @ (h # cs), True)"
      using j Some ops(1) ih(1) by (subst emit_from.simps) (simp add: Let_def)
    moreover have "subseq (h # cs) (live (drop j ?s))"
      using subseq_order.trans [OF ih(2) fewer(1)] Some unfolding split by simp
    moreover have "\<forall>x \<in> set (live (drop j ?s)). x \<in> set (h # cs) \<or>
        (\<exists>pre g post. called @ (h # cs) = pre @ g # post \<and> Bus_Off k x \<in> set (fst (react pre g)))"
    proof
      fix x assume "x \<in> set (live (drop j ?s))"
      then consider "x = h" | "x \<in> set (live (drop (j + 1) (eb_sets ?b ! i)))" | "Bus_Off k x \<in> set ops"
        using fewer(2) Some unfolding split by auto
      then show "x \<in> set (h # cs) \<or> (\<exists>pre g post. called @ (h # cs) = pre @ g # post \<and> Bus_Off k x \<in> set (fst (react pre g)))"
      proof cases
        case 2
        then show ?thesis using ih(3) by auto
      next
        case 3
        then show ?thesis using ops(1) by (intro disjI2 exI [of _ called] exI [of _ h] exI [of _ cs]) simp
      qed simp
    qed
    ultimately show ?thesis by blast
  qed
qed

text \<open>
  C25. On every bus that was made by its operations: when no handler throws or subscribes another while it is called, an emission ends; it calls
  handlers of the type in the order of their subscription, each once, and leaves out only those that a handler it called has unsubscribed.
\<close>

theorem emit_reaches_listeners:
  assumes "\<forall>called h. list_all (\<lambda>c. \<not> adds c) (fst (react called h)) \<and> snd (react called h)"
  shows "\<exists>b' called. bus_emit react k (fold bus_call cs new_bus) = Some (b', called, True) \<and>
    subseq called (listeners k (fold bus_call cs new_bus)) \<and> distinct called \<and>
    (\<forall>h \<in> set (listeners k (fold bus_call cs new_bus)). h \<in> set called \<or>
       (\<exists>pre g post. called = pre @ g # post \<and> Bus_Off k h \<in> set (fst (react pre g))))"
proof -
  let ?b = "fold bus_call cs new_bus"
  have ok: "bus_ok ?b" by (rule bus_calls_ok [OF new_bus_ok])
  show ?thesis
  proof (cases "jm_get (eb_handlers ?b) k")
    case None
    then show ?thesis by (simp add: bus_emit_def listeners_def)
  next
    case (Some i)
    then have only: "only_set k i ?b" using ok unfolding bus_ok_def only_set_def by blast
    have distinct: "distinct (live (eb_sets ?b ! i))" using ok only unfolding bus_ok_def only_set_def by auto
    from emit_from_reaches [of react, OF _ only, of 0 "[]"] assms obtain b' called where
      "emit_from react i 0 ?b [] = Some (b', called, True)" "subseq called (live (eb_sets ?b ! i))"
      "\<forall>h \<in> set (live (eb_sets ?b ! i)). h \<in> set called \<or>
         (\<exists>pre g post. called = pre @ g # post \<and> Bus_Off k h \<in> set (fst (react pre g)))" by auto
    moreover have "distinct called"
      using \<open>subseq called _\<close> distinct by (auto simp: subseq_conv_nths intro: distinct_nthsI)
    ultimately show ?thesis using Some by (simp add: bus_emit_def listeners_def)
  qed
qed


theorem emit_reaches_listeners_witness:
  "\<exists>b' called. bus_emit (\<lambda>called h. ([Bus_Off ''progress'' (2 :: nat)], True)) ''progress''
       (fold bus_call [Bus_On ''progress'' 1, Bus_On ''progress'' 2] new_bus) = Some (b', called, True) \<and> distinct called"
proof -
  have "\<forall>called h. list_all (\<lambda>c. \<not> adds c) (fst ([Bus_Off ''progress'' (2 :: nat)], True)) \<and> snd ([Bus_Off ''progress'' (2 :: nat)], True)"
    by simp
  from emit_reaches_listeners [where react = "\<lambda>called h. ([Bus_Off ''progress'' (2 :: nat)], True)" and k = "''progress''"
      and cs = "[Bus_On ''progress'' 1, Bus_On ''progress'' 2]"] this
  show ?thesis by fastforce
qed

text \<open>A handler that throws keeps the event from the handlers behind it; the exception goes to whoever emitted.\<close>

theorem throwing_listener_hides_event:
  "bus_emit (\<lambda>called h. ([], h \<noteq> (1 :: nat))) ''progress'' (fold bus_call [Bus_On ''progress'' 1, Bus_On ''progress'' 2] new_bus) =
     Some (fold bus_call [Bus_On ''progress'' 1, Bus_On ''progress'' 2] new_bus, [1], False)"
  by (simp add: bus_emit_def bus_on_def new_bus_def slots_add_def emit_from.simps)

section \<open>The engine and its transport\<close>

text \<open>
  The engine subscribes to the messages and to the frames of its transport, each with a closure of its own. \<open>wr_listening\<close> is where its closures
  are subscribed, over all transports; unsubscribing does not throw.
\<close>

datatype wire_kind = Wire_Messages | Wire_Frames

record wiring =
  wr_transport :: "nat option"
  wr_unsubscribers :: "(nat \<times> wire_kind) list"
  wr_listening :: "(nat \<times> wire_kind) list"

definition bindTransport :: "nat \<Rightarrow> wiring \<Rightarrow> wiring" where
  "bindTransport t w =
     w\<lparr>wr_unsubscribers := wr_unsubscribers w @ [(t, Wire_Messages), (t, Wire_Frames)],
       wr_listening := wr_listening w @ [(t, Wire_Messages), (t, Wire_Frames)]\<rparr>"

definition unsubscribe_transport :: "wiring \<Rightarrow> wiring" where
  "unsubscribe_transport w = w\<lparr>wr_unsubscribers := [], wr_listening := fold remove1 (wr_unsubscribers w) (wr_listening w)\<rparr>"

definition new_wiring :: "nat option \<Rightarrow> wiring" where
  "new_wiring t =
     (let w = \<lparr>wr_transport = t, wr_unsubscribers = [], wr_listening = []\<rparr> in case t of None \<Rightarrow> w | Some t' \<Rightarrow> bindTransport t' w)"

definition setTransport :: "nat \<Rightarrow> wiring \<Rightarrow> wiring" where
  "setTransport t w = bindTransport t ((unsubscribe_transport w)\<lparr>wr_transport := Some t\<rparr>)"

datatype wiring_op = Set_Transport nat | Dispose_Wiring

fun wiring_step :: "wiring_op \<Rightarrow> wiring \<Rightarrow> wiring" where
  "wiring_step (Set_Transport t) w = setTransport t w"
| "wiring_step Dispose_Wiring w = unsubscribe_transport w"

lemma unsubscribe_own: "fold remove1 xs xs = []"
  by (induction xs) auto

lemma wiring_balanced: "wr_listening (fold wiring_step ops (new_wiring t)) = wr_unsubscribers (fold wiring_step ops (new_wiring t))"
proof (induction ops rule: rev_induct)
  case Nil
  then show ?case by (simp add: new_wiring_def bindTransport_def Let_def split: option.split)
next
  case (snoc op ops)
  then show ?case by (cases op) (simp_all add: setTransport_def bindTransport_def unsubscribe_transport_def unsubscribe_own)
qed

text \<open>
  After any changes of its transport the engine listens exactly to the transport it has, once for messages and once for frames; disposing of it ends
  that, until a transport is set again.
\<close>

theorem engine_hears_only_its_transport:
  "wr_listening (wiring_step op (fold wiring_step ops (new_wiring t))) =
     (case op of Set_Transport t' \<Rightarrow> [(t', Wire_Messages), (t', Wire_Frames)] | Dispose_Wiring \<Rightarrow> [])"
  using wiring_balanced [of ops t]
  by (cases op) (simp_all add: setTransport_def bindTransport_def unsubscribe_transport_def unsubscribe_own)

end
