(* ===== verification/Hybrid_Policy.thy ===== *)
theory Hybrid_Policy
  imports Js_Text
begin

text \<open>
  \<open>shouldArmHybrid\<close> of \<open>packages/core/src/index.ts\<close>: whether the engine may fall back to a cloud copy. It is stated against a reference: the
  gates that must all be open, and the signs of a slow path of which one is enough.
\<close>

section \<open>The policy\<close>

definition HYBRID_MIN_BYTES :: jsnum where
  "HYBRID_MIN_BYTES = Fin (4 * 1024 * 1024)"

definition HYBRID_TRIGGER_MBps :: jsnum where
  "HYBRID_TRIGGER_MBps = Fin (3 / 2)"

definition HYBRID_ELEVATED_RTT_MS :: jsnum where
  "HYBRID_ELEVATED_RTT_MS = Fin 200"

definition HYBRID_COMPILE_ENABLED_DEFAULT :: bool where
  "HYBRID_COMPILE_ENABLED_DEFAULT = False"

text \<open>An absent field and null are alike everywhere.\<close>

record hybrid_params =
  hp_compileEnabled :: "bool option"
  hp_remoteHybridHttp :: "bool option"
  hp_totalBytes :: jsnum
  hp_cloudApiConfigured :: bool
  hp_minBytes :: "jsnum option"
  hp_pathKind :: "string option"
  hp_rttMs :: "jsnum option"
  hp_observedMBps :: "jsnum option"
  hp_triggerMBps :: "jsnum option"
  hp_elevatedRttMs :: "jsnum option"
  hp_force :: bool

record hybrid_decision =
  hd_armed :: bool
  hd_reason :: string

text \<open>How numbers are printed: as such, rounded, and with two decimals.\<close>

record number_texts =
  nt_show :: "jsnum \<Rightarrow> string"
  nt_round :: "jsnum \<Rightarrow> string"
  nt_fixed2 :: "jsnum \<Rightarrow> string"

abbreviation given :: "'a option \<Rightarrow> 'a \<Rightarrow> 'a" where
  "given x d \<equiv> case x of Some v \<Rightarrow> v | None \<Rightarrow> d"

definition finite_or_none :: "jsnum option \<Rightarrow> jsnum option" where
  "finite_or_none x = (case x of Some n \<Rightarrow> if js_isFinite n then Some n else None | None \<Rightarrow> None)"

definition path_kind_of :: "string option \<Rightarrow> string" where
  "path_kind_of k = map lower_char (case k of Some s \<Rightarrow> if s = '''' then ''unknown'' else s | None \<Rightarrow> ''unknown'')"

definition armed :: "string \<Rightarrow> hybrid_decision" where
  "armed why = \<lparr>hd_armed = True, hd_reason = why\<rparr>"

definition unarmed :: "string \<Rightarrow> hybrid_decision" where
  "unarmed why = \<lparr>hd_armed = False, hd_reason = why\<rparr>"

definition shouldArmHybrid :: "number_texts \<Rightarrow> hybrid_params \<Rightarrow> hybrid_decision" where
  "shouldArmHybrid nt p =
     (let minBytes = given (hp_minBytes p) HYBRID_MIN_BYTES in
      if \<not> given (hp_compileEnabled p) HYBRID_COMPILE_ENABLED_DEFAULT then unarmed ''compile-flag-off''
      else if \<not> hp_cloudApiConfigured p then unarmed ''cloud-api-unconfigured''
      else if hp_remoteHybridHttp p \<noteq> Some True then unarmed ''remote-caps-missing''
      else if js_less (hp_totalBytes p) minBytes then unarmed (''below-min-bytes:'' @ nt_show nt minBytes)
      else if hp_force p then armed ''force''
      else
        (let pathKind = path_kind_of (hp_pathKind p);
             rttMs = finite_or_none (hp_rttMs p);
             elevatedRtt = given (hp_elevatedRttMs p) HYBRID_ELEVATED_RTT_MS;
             trigger = given (hp_triggerMBps p) HYBRID_TRIGGER_MBps;
             observed = finite_or_none (hp_observedMBps p);
             elevated = (case rttMs of Some r \<Rightarrow> js_le elevatedRtt r | None \<Rightarrow> False);
             slow = (case observed of Some m \<Rightarrow> js_less (Fin 0) m \<and> js_less m trigger | None \<Rightarrow> False) in
         if pathKind = ''host'' \<or> pathKind = ''srflx''
         then (if elevated then armed (''elevated-rtt:'' @ nt_round nt (the rttMs) @ ''ms'')
               else if slow then armed (''slow-direct:'' @ nt_fixed2 nt (the observed) @ ''MBps'')
               else unarmed (''direct-path:'' @ pathKind))
         else if pathKind = ''relay'' then armed ''path-relay''
         else if pathKind = ''unknown''
         then (if elevated then armed (''unknown-elevated-rtt:'' @ nt_round nt (the rttMs) @ ''ms'')
               else if slow then armed (''unknown-slow:'' @ nt_fixed2 nt (the observed) @ ''MBps'')
               else unarmed ''path-unknown-not-slow'')
         else if slow then armed (''path-'' @ pathKind @ ''-slow'')
         else if elevated then armed (''path-'' @ pathKind @ ''-elevated-rtt'')
         else unarmed (''path-'' @ pathKind @ ''-not-slow'')))"

section \<open>The reference\<close>

definition gates_open :: "hybrid_params \<Rightarrow> bool" where
  "gates_open p \<longleftrightarrow>
     hp_compileEnabled p = Some True \<and> hp_cloudApiConfigured p \<and> hp_remoteHybridHttp p = Some True \<and>
     \<not> js_less (hp_totalBytes p) (given (hp_minBytes p) HYBRID_MIN_BYTES)"

definition path_is_slow :: "hybrid_params \<Rightarrow> bool" where
  "path_is_slow p \<longleftrightarrow>
     path_kind_of (hp_pathKind p) = ''relay'' \<or>
     (\<exists>r. hp_rttMs p = Some (Fin r) \<and> js_le (given (hp_elevatedRttMs p) HYBRID_ELEVATED_RTT_MS) (Fin r)) \<or>
     (\<exists>m. hp_observedMBps p = Some (Fin m) \<and> 0 < m \<and> js_less (Fin m) (given (hp_triggerMBps p) HYBRID_TRIGGER_MBps))"

text \<open>
  The decision is the same for every kind of path but a relay: assistance is armed exactly when every gate is open and the caller forces it or the
  path is a relay, has a finite round trip time at or beyond the limit, or a positive finite throughput below the trigger. Without options it is
  never armed.
\<close>

theorem armed_iff:
  "hd_armed (shouldArmHybrid nt p) \<longleftrightarrow> gates_open p \<and> (hp_force p \<or> path_is_slow p)"
proof -
  have rtt: "(case finite_or_none (hp_rttMs p) of Some r \<Rightarrow> js_le limit r | None \<Rightarrow> False) \<longleftrightarrow>
      (\<exists>r. hp_rttMs p = Some (Fin r) \<and> js_le limit (Fin r))" for limit
    by (auto simp: finite_or_none_def js_isFinite_iff split: option.split)
  have observed: "(case finite_or_none (hp_observedMBps p) of Some m \<Rightarrow> js_less (Fin 0) m \<and> js_less m trigger | None \<Rightarrow> False) \<longleftrightarrow>
      (\<exists>m. hp_observedMBps p = Some (Fin m) \<and> 0 < m \<and> js_less (Fin m) trigger)" for trigger
    by (auto simp: finite_or_none_def js_isFinite_iff split: option.split)
  have enabled: "given (hp_compileEnabled p) HYBRID_COMPILE_ENABLED_DEFAULT \<longleftrightarrow> hp_compileEnabled p = Some True"
    by (auto simp: HYBRID_COMPILE_ENABLED_DEFAULT_def split: option.split)
  define E S where "E \<longleftrightarrow> (\<exists>r. hp_rttMs p = Some (Fin r) \<and> js_le (given (hp_elevatedRttMs p) HYBRID_ELEVATED_RTT_MS) (Fin r))"
    and "S \<longleftrightarrow> (\<exists>m. hp_observedMBps p = Some (Fin m) \<and> 0 < m \<and> js_less (Fin m) (given (hp_triggerMBps p) HYBRID_TRIGGER_MBps))"
  show ?thesis
    unfolding shouldArmHybrid_def Let_def rtt observed enabled gates_open_def path_is_slow_def E_def [symmetric] S_def [symmetric]
    by (cases E; cases S; cases "hp_force p") (simp_all add: armed_def unarmed_def)
qed

end
