(* ===== verification/Grid_Scheduling.thy ===== *)
theory Grid_Scheduling
  imports Engine_Requests
begin

text \<open>
  Grid scheduling in \<open>PonsWarpEngine\<close> (\<open>packages/core/src/index.ts\<close>): local piece maps, lease expiry,
  \<open>requestNextGridPiece\<close> with its rarest-first order, the grid window, the endgame and the cancellation of
  the requests that lost.
\<close>

section \<open>Maps and health\<close>

definition exportPieceMapBroadcast :: "turn \<Rightarrow> string \<Rightarrow> engine \<Rightarrow> piece_map_broadcast turn_result" where
  "exportPieceMapBroadcast tn fileId e =
     (case requireManager e fileId of
        Inl err \<Rightarrow> (e, Inl err)
      | Inr manager \<Rightarrow>
          let generation = (case jm_get (en_localGenerations e) fileId of Some g \<Rightarrow> g | None \<Rightarrow> 0) + 1;
              e1 = e\<lparr>en_localGenerations := jm_set fileId generation (en_localGenerations e)\<rparr>;
              verifiedPieces = js_sort (\<lambda>a b. 0 < a - b) (getVerifiedPieces manager)
          in (case requireManifest e1 fileId of
                Inl err \<Rightarrow> (e1, Inl err)
              | Inr manifest \<Rightarrow> (e1, Inr \<lparr>pb_type = ''PIECE_MAP'', pb_fileId = fileId,
                  pb_verifiedPieces = map num_of_int verifiedPieces, pb_totalPieces = num_of_int (fm_pieceCount manifest),
                  pb_generation = of_int generation, pb_updatedAt = of_int (tn_now tn)\<rparr>)))"

text \<open>The broadcast's sends are started together; the caller awaits them all.\<close>

definition broadcastPieceMap :: "turn \<Rightarrow> string \<Rightarrow> string list \<Rightarrow> frame list \<Rightarrow> engine \<Rightarrow> engine \<times> activation" where
  "broadcastPieceMap tn fileId peers frames e =
     (case exportPieceMapBroadcast tn fileId e of
        (e1, Inl err) \<Rightarrow> (e1, Some (Err (Pons err)), frames)
      | (e1, Inr m) \<Rightarrow>
          if peers \<noteq> [] \<and> \<not> en_hasTransport e1 then (e1, Some (Err (Pons transport_missing)), frames)
          else (fold (\<lambda>p e. send_message p (PieceMapMsg m) e) peers e1, None, frames))"

definition updatePeerPieceMapEngine :: "string \<Rightarrow> piece_map_broadcast \<Rightarrow> provider_role \<Rightarrow> engine \<Rightarrow> unit turn_result" where
  "updatePeerPieceMapEngine peerId m role e =
     (let (t, h) = health_get (en_health e) peerId;
          e1 = e\<lparr>en_health := t\<rparr>
      in case updatePeerPieceMap (en_availability e1)
             \<lparr>au_peerId = peerId, au_role = role, au_map = m, au_healthScore = Some (ph_score h), au_expiresAt = None\<rparr> of
          Inl err \<Rightarrow> (e1, Inl err)
        | Inr (av, changed) \<Rightarrow>
            (let e2 = e1\<lparr>en_availability := av\<rparr>
             in (if changed then emit (Ev_AvailabilityChanged peerId (pb_fileId m) (pb_verifiedPieces m) (pb_generation m)) e2
                 else e2, Inr ())))"

definition getAvailability :: "engine \<Rightarrow> string \<Rightarrow> availability_snapshot result" where
  "getAvailability e fileId =
     (case getSnapshot (en_availability e) fileId of
        Some s \<Rightarrow> Inr s
      | None \<Rightarrow> bind_result (requireManifest e fileId) (\<lambda>m. Inr \<lparr>as_fileId = fileId, as_pieceCount = fm_pieceCount m,
          as_pieces = map (\<lambda>i. (i, [], None)) [0..fm_pieceCount m - 1]\<rparr>))"

definition setPeerHealth :: "string \<Rightarrow> (peer_health \<Rightarrow> peer_health) \<Rightarrow> engine \<Rightarrow> engine" where
  "setPeerHealth peerId patch e = e\<lparr>en_health := fst (health_set (en_health e) peerId patch)\<rparr>"

definition emitRetryPerformance :: "string \<Rightarrow> int \<Rightarrow> string \<Rightarrow> string \<Rightarrow> string \<Rightarrow> engine \<Rightarrow> unit turn_result" where
  "emitRetryPerformance fileId pieceIndex peerId requestId reason e =
     (case jm_get (en_managers e) fileId of
        None \<Rightarrow> (emit (Ev_Performance (Perf_Retry fileId pieceIndex peerId requestId reason 0 (en_maxRetries e))) e, Inr ())
      | Some m \<Rightarrow>
          (case getPieceState m pieceIndex of
             Inl err \<Rightarrow> (e, Inl err)
           | Inr p \<Rightarrow> (emit (Ev_Performance (Perf_Retry fileId pieceIndex peerId requestId reason (ps_retryCount p)
               (en_maxRetries e))) e, Inr ())))"

section \<open>Lease expiry\<close>

fun expire_leased :: "turn \<Rightarrow> request_lease list \<Rightarrow> engine \<Rightarrow> unit turn_result" where
  "expire_leased tn [] e = (e, Inr ())"
| "expire_leased tn (l # rest) e =
     (case jm_get (en_outstanding e) (rl_requestId l) of
        None \<Rightarrow> expire_leased tn rest e
      | Some r \<Rightarrow>
          let rid = rl_requestId l;
              e1 = e\<lparr>en_outstanding := jm_delete rid (en_outstanding e), en_incomingChunks := jm_delete rid (en_incomingChunks e)\<rparr>
          in turn_bind (call_manager e1 (or_fileId r) (\<lambda>m. bind_result (markFailed m (tn_now tn) (or_pieceIndex r) ''request_timeout'')
                 (\<lambda>m. resetFailedToMissing m (tn_now tn) (or_pieceIndex r)))) (\<lambda>e2 _.
             let e3 = e2\<lparr>en_health := markTimeout (en_health e2) (or_peerId r)\<rparr>
             in turn_bind (emitRetryPerformance (or_fileId r) (or_pieceIndex r) (or_peerId r) rid ''request_timeout'' e3) (\<lambda>e4 _.
                  expire_leased tn rest (emit (Ev_RequestTimedOut (or_fileId r) (or_pieceIndex r) (or_peerId r) rid) e4))))"

definition expireRequestLeases :: "turn \<Rightarrow> int \<Rightarrow> engine \<Rightarrow> unit turn_result" where
  "expireRequestLeases tn now e =
     (let (av, expired) = expireLeases (en_availability e) now
      in expire_leased tn expired (e\<lparr>en_availability := av\<rparr>))"

section \<open>Choosing the next piece\<close>

record grid_item =
  gi_index :: int
  gi_retryCount :: int
  gi_providers :: "provider_state list"
  gi_rarityCount :: int

definition active_per_peer :: "outstanding_request list \<Rightarrow> (string, int) js_map" where
  "active_per_peer rs = fold (\<lambda>r m. jm_set (or_peerId r) (active_count m (or_peerId r) + 1) m) rs []"

definition grid_candidates :: "grid_options \<Rightarrow> string js_set" where
  "grid_candidates opts = js_add (go_ownerPeerId opts) (js_set_of (go_candidatePeers opts))"

definition has_receiver :: "grid_item \<Rightarrow> bool" where
  "has_receiver item \<longleftrightarrow> list_ex (\<lambda>v. pv_role v \<noteq> Owner) (gi_providers item)"

text \<open>The comparison of the sort is positive: \<open>b\<close> before \<open>a\<close>.\<close>

definition grid_after :: "grid_item \<Rightarrow> grid_item \<Rightarrow> bool" where
  "grid_after a b =
     (let aHasReceiver = (if has_receiver a then 1 else 0 :: int);
          bHasReceiver = (if has_receiver b then 1 else 0)
      in if aHasReceiver \<noteq> bHasReceiver then 0 < bHasReceiver - aHasReceiver
         else let rarity = gi_rarityCount a - gi_rarityCount b
              in if rarity \<noteq> 0 then 0 < rarity
                 else let retry = gi_retryCount a - gi_retryCount b
                      in if retry \<noteq> 0 then 0 < retry else 0 < gi_index a - gi_index b)"

definition rarity_count :: "availability \<Rightarrow> string \<Rightarrow> int \<Rightarrow> string \<Rightarrow> int \<Rightarrow> int" where
  "rarity_count av fileId index ownerPeerId now =
     (let allProviders = getProviders av fileId index now;
          nonOwner = filter (\<lambda>v. pv_peerId v \<noteq> ownerPeerId) allProviders
      in if nonOwner \<noteq> [] then int (length nonOwner) else int (length allProviders))"

fun grid_items :: "string \<Rightarrow> grid_options \<Rightarrow> int \<Rightarrow> (string, int) js_map \<Rightarrow> int \<Rightarrow> int list \<Rightarrow> engine \<Rightarrow> grid_item list turn_result" where
  "grid_items fileId opts k act now [] e = (e, Inr [])"
| "grid_items fileId opts k act now (index # rest) e =
     (case bind_result (requireManager e fileId) (\<lambda>m. getPieceState m index) of
        Inl err \<Rightarrow> (e, Inl err)
      | Inr p \<Rightarrow>
          let (t, known, providers) = rankProviders (en_availability e) (en_health e) (en_knownPeers e) fileId index
                (grid_candidates opts) (go_ownerPeerId opts) k act now;
              item = \<lparr>gi_index = index, gi_retryCount = ps_retryCount p, gi_providers = providers,
                gi_rarityCount = rarity_count (en_availability e) fileId index (go_ownerPeerId opts) now\<rparr>
          in turn_bind (grid_items fileId opts k act now rest (e\<lparr>en_health := t, en_knownPeers := known\<rparr>)) (\<lambda>e2 items.
               (e2, Inr (item # items))))"

text \<open>The loop over the ranked pieces up to its decision.\<close>

datatype grid_choice = Choose grid_item provider_state | GiveUp int | NoChoice

fun choose_item :: "int \<Rightarrow> grid_item list \<Rightarrow> grid_choice" where
  "choose_item maxRetries [] = NoChoice"
| "choose_item maxRetries (item # rest) =
     (if maxRetries < gi_retryCount item then GiveUp (gi_index item)
      else case gi_providers item of
          [] \<Rightarrow> choose_item maxRetries rest
        | provider # _ \<Rightarrow> Choose item provider)"

definition owner_map :: "file_manifest \<Rightarrow> string \<Rightarrow> int \<Rightarrow> piece_map_broadcast" where
  "owner_map manifest fileId now = \<lparr>pb_type = ''PIECE_MAP'', pb_fileId = fileId,
     pb_verifiedPieces = map (\<lambda>p. num_of_int (pd_index p)) (fm_pieces manifest),
     pb_totalPieces = num_of_int (fm_pieceCount manifest), pb_generation = 1, pb_updatedAt = of_int now\<rparr>"

definition seed_availability :: "string \<Rightarrow> grid_options \<Rightarrow> int \<Rightarrow> engine \<Rightarrow> unit turn_result" where
  "seed_availability fileId opts now e =
     (if getSnapshot (en_availability e) fileId \<noteq> None then (e, Inr ())
      else case requireManifest e fileId of
          Inl err \<Rightarrow> (e, Inl err)
        | Inr manifest \<Rightarrow>
            (let (t, h) = health_get (en_health e) (go_ownerPeerId opts);
                 e1 = e\<lparr>en_health := t\<rparr>
             in case updatePeerPieceMap (en_availability e1)
                    \<lparr>au_peerId = go_ownerPeerId opts, au_role = Owner, au_map = owner_map manifest fileId now,
                     au_healthScore = Some (ph_score h), au_expiresAt = None\<rparr> of
                 Inl err \<Rightarrow> (e1, Inl err)
               | Inr (av, _) \<Rightarrow> (e1\<lparr>en_availability := av\<rparr>, Inr ())))"

definition ranked_items :: "string \<Rightarrow> grid_options \<Rightarrow> int \<Rightarrow> int list \<Rightarrow> engine \<Rightarrow> grid_item list turn_result" where
  "ranked_items fileId opts now missing e =
     turn_bind (grid_items fileId opts (case go_maxRequestsPerPeer opts of Some k \<Rightarrow> k | None \<Rightarrow> 1)
         (active_per_peer (map snd (en_outstanding e))) now missing e) (\<lambda>e1 items.
       (e1, Inr (js_sort grid_after (filter (\<lambda>item. getLease (en_availability e1) fileId (gi_index item) = None) items))))"

definition schedule_reason :: "grid_item \<Rightarrow> provider_state \<Rightarrow> grid_reason" where
  "schedule_reason item provider =
     (if pv_role provider = Owner then OwnerFallback
      else if length (gi_providers item) = 1 then RarestFirst else FastestPeer)"

definition schedule_item :: "turn \<Rightarrow> string \<Rightarrow> grid_options \<Rightarrow> int \<Rightarrow> grid_item \<Rightarrow> provider_state \<Rightarrow> engine \<Rightarrow> engine \<times> activation" where
  "schedule_item tn fileId opts now item provider e =
     (let requestId = createRequestId tn fileId (gi_index item);
          leaseMs = (case go_requestLeaseMs opts of Some ms \<Rightarrow> ms | None \<Rightarrow> 15000)
      in case lease (en_availability e) fileId (gi_index item)
             \<lparr>rl_peerId = pv_peerId provider, rl_requestId = requestId, rl_leasedAt = now, rl_expiresAt = now + leaseMs\<rparr> of
          Inl err \<Rightarrow> (e, throws err)
        | Inr av \<Rightarrow>
            continue_with (call_manager (e\<lparr>en_availability := av\<rparr>) fileId
                (\<lambda>m. markRequested m (tn_now tn) (gi_index item) (pv_peerId provider))) (\<lambda>e1 _.
              let e2 = e1\<lparr>en_outstanding := jm_set requestId
                    \<lparr>or_fileId = fileId, or_pieceIndex = gi_index item, or_peerId = pv_peerId provider, or_requestedAt = now,
                     or_gridOptions = Some opts, or_direct = None\<rparr> (en_outstanding e1)\<rparr>
              in sendPieceRequest (pv_peerId provider) fileId (gi_index item) requestId
                   [F_GridSent (Scheduled (gi_index item) (pv_peerId provider) requestId (schedule_reason item provider))] e2))"

definition requestNextGridPiece_start :: "turn \<Rightarrow> string \<Rightarrow> grid_options \<Rightarrow> engine \<Rightarrow> engine \<times> activation" where
  "requestNextGridPiece_start tn fileId opts e =
     (case requireManager e fileId of
        Inl err \<Rightarrow> (e, throws err)
      | Inr manager \<Rightarrow>
          let missing = getMissingPieces manager
          in if missing = [] then (e, returns (V_Grid (Idle Idle_Complete)))
             else
               let now = (case go_now opts of Some n \<Rightarrow> n | None \<Rightarrow> tn_now tn)
               in continue_with
                    (turn_bind (expireRequestLeases tn now e) (\<lambda>e1 _.
                     turn_bind (seed_availability fileId opts now e1) (\<lambda>e2 _.
                     ranked_items fileId opts now missing e2)))
                    (\<lambda>e3 items.
                       case choose_item (en_maxRetries e3) items of
                         GiveUp i \<Rightarrow> (e3, returns (V_Grid (Exhausted i)))
                       | NoChoice \<Rightarrow> (e3, returns (V_Grid (Idle Idle_NoAvailablePeer)))
                       | Choose item provider \<Rightarrow> schedule_item tn fileId opts now item provider e3))"

definition grid_sent :: "turn \<Rightarrow> grid_result \<Rightarrow> outcome \<Rightarrow> engine \<Rightarrow> engine \<times> activation" where
  "grid_sent tn res out e = (case out of Err err \<Rightarrow> (e, Some (Err err), []) | Ok _ \<Rightarrow> persistState tn [F_GridSaved res] e)"

definition grid_saved :: "grid_result \<Rightarrow> outcome \<Rightarrow> engine \<Rightarrow> engine \<times> activation" where
  "grid_saved res out e = (case out of Err err \<Rightarrow> (e, Some (Err err), []) | Ok _ \<Rightarrow> (e, returns (V_Grid res)))"

section \<open>Endgame and the grid window\<close>

text \<open>\<open>null\<close> is the value \<open>V_Unit\<close>.\<close>

fun endgame_loop :: "turn \<Rightarrow> string \<Rightarrow> grid_options \<Rightarrow> int \<Rightarrow> (string, int) js_map \<Rightarrow> int list \<Rightarrow> engine \<Rightarrow> engine \<times> activation" where
  "endgame_loop tn fileId opts now act [] e = (e, returns V_Unit)"
| "endgame_loop tn fileId opts now act (index # rest) e =
     (let used = map or_peerId (filter (\<lambda>r. or_fileId r = fileId \<and> or_pieceIndex r = index) (map snd (en_outstanding e)));
          maxProviders = (case go_endgameMaxProviders opts of Some n \<Rightarrow> n | None \<Rightarrow> 2)
      in if used = [] \<or> maxProviders \<le> int (length used) then endgame_loop tn fileId opts now act rest e
         else
           let (t, known, ranked) = rankProviders (en_availability e) (en_health e) (en_knownPeers e) fileId index
                 (grid_candidates opts) (go_ownerPeerId opts)
                 (case go_maxRequestsPerPeer opts of Some k \<Rightarrow> k | None \<Rightarrow> 1) act now;
               e1 = e\<lparr>en_health := t, en_knownPeers := known\<rparr>
           in case filter (\<lambda>v. pv_peerId v \<notin> set used) ranked of
               [] \<Rightarrow> endgame_loop tn fileId opts now act rest e1
             | provider # _ \<Rightarrow>
                 let requestId = createRequestId tn fileId index
                 in continue_with (call_manager e1 fileId (\<lambda>m. markRequested m (tn_now tn) index (pv_peerId provider))) (\<lambda>e2 _.
                      let e3 = e2\<lparr>en_outstanding := jm_set requestId
                            \<lparr>or_fileId = fileId, or_pieceIndex = index, or_peerId = pv_peerId provider, or_requestedAt = now,
                             or_gridOptions = Some opts, or_direct = None\<rparr> (en_outstanding e2)\<rparr>
                      in sendPieceRequest (pv_peerId provider) fileId index requestId
                           [F_EndgameSent (Scheduled index (pv_peerId provider) requestId FastestPeer)] e3))"

definition endgame_start :: "turn \<Rightarrow> string \<Rightarrow> grid_options \<Rightarrow> engine \<Rightarrow> engine \<times> activation" where
  "endgame_start tn fileId opts e =
     (if go_endgame opts = Some False then (e, returns V_Unit)
      else case requireManager e fileId of
          Inl err \<Rightarrow> (e, throws err)
        | Inr manager \<Rightarrow>
            let missing = getMissingPieces manager;
                endgameMax = (case go_endgameMaxPieces opts of Some n \<Rightarrow> n | None \<Rightarrow> 4)
            in if missing = [] \<or> endgameMax < int (length missing) then (e, returns V_Unit)
               else
                 let now = (case go_now opts of Some n \<Rightarrow> n | None \<Rightarrow> tn_now tn)
                 in continue_with (expireRequestLeases tn now e) (\<lambda>e1 _.
                      endgame_loop tn fileId opts now
                        (active_per_peer (filter (\<lambda>r. or_fileId r = fileId) (map snd (en_outstanding e1)))) missing e1))"

definition endgame_sent :: "grid_result \<Rightarrow> outcome \<Rightarrow> engine \<Rightarrow> engine \<times> activation" where
  "endgame_sent res out e = (case out of Err err \<Rightarrow> (e, Some (Err err), []) | Ok _ \<Rightarrow> (e, returns (V_Grid res)))"

text \<open>The window's loop. A result that schedules nothing ends it and is reported only when it is the first.\<close>

definition grid_fill_step :: "turn \<Rightarrow> string \<Rightarrow> grid_options \<Rightarrow> int \<Rightarrow> grid_result list \<Rightarrow> engine \<Rightarrow> engine \<times> activation" where
  "grid_fill_step tn fileId opts maxTotal scheduled e =
     (if countOutstandingRequestsForFile e fileId < maxTotal
      then await_call (F_GridEndgame fileId opts maxTotal scheduled) (endgame_start tn fileId opts e)
      else (e, returns (V_GridList scheduled)))"

definition grid_fill_result :: "turn \<Rightarrow> string \<Rightarrow> grid_options \<Rightarrow> int \<Rightarrow> grid_result list \<Rightarrow> grid_result \<Rightarrow> engine \<Rightarrow> engine \<times> activation" where
  "grid_fill_result tn fileId opts maxTotal scheduled res e =
     (case res of
        Scheduled _ _ _ _ \<Rightarrow> grid_fill_step tn fileId opts maxTotal (scheduled @ [res]) e
      | _ \<Rightarrow> (e, returns (V_GridList (if scheduled = [] then [res] else scheduled))))"

definition grid_endgame_resume :: "turn \<Rightarrow> string \<Rightarrow> grid_options \<Rightarrow> int \<Rightarrow> grid_result list \<Rightarrow> outcome \<Rightarrow> engine \<Rightarrow> engine \<times> activation" where
  "grid_endgame_resume tn fileId opts maxTotal scheduled out e =
     (case out of
        Err err \<Rightarrow> (e, Some (Err err), [])
      | Ok (V_Grid res) \<Rightarrow> grid_fill_result tn fileId opts maxTotal scheduled res e
      | Ok _ \<Rightarrow> await_call (F_GridFill fileId opts maxTotal scheduled) (requestNextGridPiece_start tn fileId opts e))"

definition grid_fill_resume :: "turn \<Rightarrow> string \<Rightarrow> grid_options \<Rightarrow> int \<Rightarrow> grid_result list \<Rightarrow> outcome \<Rightarrow> engine \<Rightarrow> engine \<times> activation" where
  "grid_fill_resume tn fileId opts maxTotal scheduled out e =
     (case out of
        Err err \<Rightarrow> (e, Some (Err err), [])
      | Ok (V_Grid res) \<Rightarrow> grid_fill_result tn fileId opts maxTotal scheduled res e
      | Ok _ \<Rightarrow> (e, returns (V_GridList scheduled)))"

definition requestGridPieceWindow_start :: "turn \<Rightarrow> string \<Rightarrow> grid_options \<Rightarrow> jsnum option \<Rightarrow> jsnum option \<Rightarrow> engine \<Rightarrow> engine \<times> activation" where
  "requestGridPieceWindow_start tn fileId opts maxInFlightTotal maxInFlightPerPeer e =
     (case bind_result (assertPositiveSafeInteger (case maxInFlightTotal of Some n \<Rightarrow> n | None \<Rightarrow> num_of_int 1)) (\<lambda>maxTotal.
           bind_result (assertPositiveSafeInteger (case maxInFlightPerPeer of Some n \<Rightarrow> n
             | None \<Rightarrow> num_of_int (case go_maxRequestsPerPeer opts of Some k \<Rightarrow> k | None \<Rightarrow> 1))) (\<lambda>per. Inr (maxTotal, per))) of
        Inl err \<Rightarrow> (e, throws err)
      | Inr (maxTotal, per) \<Rightarrow> grid_fill_step tn fileId (opts\<lparr>go_maxRequestsPerPeer := Some per\<rparr>) maxTotal [] e)"

section \<open>Cancelling the losers\<close>

fun cancel_competing_loop :: "string \<Rightarrow> int \<Rightarrow> string \<Rightarrow> (string \<times> outstanding_request) list \<Rightarrow> engine \<Rightarrow> unit turn_result" where
  "cancel_competing_loop fileId pieceIndex keep [] e = (e, Inr ())"
| "cancel_competing_loop fileId pieceIndex keep ((requestId, r) # rest) e =
     (if or_fileId r \<noteq> fileId \<or> or_pieceIndex r \<noteq> pieceIndex \<or> requestId = keep
      then cancel_competing_loop fileId pieceIndex keep rest e
      else
        let e1 = e\<lparr>en_outstanding := jm_delete requestId (en_outstanding e),
              en_incomingChunks := jm_delete requestId (en_incomingChunks e),
              en_tombstones := js_add requestId (en_tombstones e),
              en_pendingChunks := filter (\<lambda>(p, h). ch_requestId h \<noteq> requestId) (en_pendingChunks e)\<rparr>
        in case requireTransport e1 of
            Inl err \<Rightarrow> (e1, Inl err)
          | Inr _ \<Rightarrow> cancel_competing_loop fileId pieceIndex keep rest
              (send_message (or_peerId r) (PieceCancel fileId pieceIndex requestId) e1))"

definition cancelCompetingGridRequests :: "string \<Rightarrow> int \<Rightarrow> string \<Rightarrow> engine \<Rightarrow> unit turn_result" where
  "cancelCompetingGridRequests fileId pieceIndex keepRequestId e =
     cancel_competing_loop fileId pieceIndex keepRequestId (en_outstanding e) e"

end
