(* ===== verification/Chunk_Transfer.thy ===== *)
theory Chunk_Transfer
  imports Grid_Scheduling
begin

text \<open>
  Pieces on the wire (\<open>packages/core/src/index.ts\<close>): the parsers of incoming messages, the provider's side that cuts a
  piece into chunks (\<open>sendRequestedPiece\<close>), and the receiver's side that puts them together again
  (\<open>appendIncomingChunk\<close>), with the theorem that the second undoes the first.
\<close>

section \<open>Parsing messages\<close>

definition protocol_invalid :: pons_error where
  "protocol_invalid = PonsWarpError ''protocol:invalid_message'' (Some ''protocol'') (Some True)"

definition requireStringField :: "js_value \<Rightarrow> string \<Rightarrow> string result" where
  "requireStringField value key =
     (case jfield value key of JStr s \<Rightarrow> if s = '''' then Inl protocol_invalid else Inr s | _ \<Rightarrow> Inl protocol_invalid)"

definition requireNumberField :: "js_value \<Rightarrow> string \<Rightarrow> real result" where
  "requireNumberField value key =
     (case jfield value key of JNum (Fin x) \<Rightarrow> Inr x | _ \<Rightarrow> Inl protocol_invalid)"

definition parsePieceRequest :: "js_value \<Rightarrow> piece_request result" where
  "parsePieceRequest v =
     bind_result (requireStringField v ''fileId'') (\<lambda>f.
     bind_result (requireNumberField v ''pieceIndex'') (\<lambda>i.
     bind_result (requireStringField v ''requestId'') (\<lambda>r.
     bind_result (requireNumberField v ''fromOffset'') (\<lambda>off. Inr
       \<lparr>rq_fileId = f, rq_pieceIndex = i, rq_requestId = r, rq_fromOffset = off\<rparr>))))"

definition parseChunkHeader :: "js_value \<Rightarrow> chunk_header result" where
  "parseChunkHeader v =
     bind_result (requireStringField v ''fileId'') (\<lambda>f.
     bind_result (requireNumberField v ''pieceIndex'') (\<lambda>i.
     bind_result (requireNumberField v ''chunkIndex'') (\<lambda>c.
     bind_result (requireNumberField v ''totalChunks'') (\<lambda>t.
     bind_result (requireStringField v ''requestId'') (\<lambda>r.
     bind_result (requireNumberField v ''payloadSize'') (\<lambda>s. Inr
       \<lparr>ch_fileId = f, ch_pieceIndex = i, ch_chunkIndex = c, ch_totalChunks = t, ch_requestId = r, ch_payloadSize = s\<rparr>))))))"

fun number_element :: "js_value \<Rightarrow> jsnum result" where
  "number_element (JNum n) = Inr n"
| "number_element _ = Inl (scheduler_error ''availability:invalid_piece_index'')"

definition parsePieceMapBroadcast :: "js_value \<Rightarrow> piece_map_broadcast result" where
  "parsePieceMapBroadcast v =
     bind_result (case jfield v ''verifiedPieces'' of JArr vs \<Rightarrow> map_result number_element vs | _ \<Rightarrow> Inr []) (\<lambda>verified.
     bind_result (requireStringField v ''fileId'') (\<lambda>f.
     bind_result (requireNumberField v ''totalPieces'') (\<lambda>t.
     bind_result (requireNumberField v ''generation'') (\<lambda>g.
     bind_result (requireNumberField v ''updatedAt'') (\<lambda>u. Inr
       \<lparr>pb_type = ''PIECE_MAP'', pb_fileId = f, pb_verifiedPieces = verified, pb_totalPieces = Fin t, pb_generation = g,
        pb_updatedAt = u\<rparr>)))))"

section \<open>Cutting a piece into chunks\<close>

text \<open>The headers and frames that carry \<open>data\<close> with a configured chunk size of \<open>k\<close> bytes, \<open>k \<ge> 1\<close>.\<close>

definition chunk_size :: "int \<Rightarrow> bytes \<Rightarrow> int" where
  "chunk_size k data = min k (if data = [] then k else int (length data))"

definition chunk_count :: "int \<Rightarrow> bytes \<Rightarrow> int" where
  "chunk_count k data = max 1 (ceil_div (int (length data)) (chunk_size k data))"

definition chunk_at :: "int \<Rightarrow> bytes \<Rightarrow> int \<Rightarrow> bytes" where
  "chunk_at k data chunkIndex =
     (let offset = chunkIndex * chunk_size k data
      in take (nat (min (chunk_size k data) (int (length data) - offset))) (drop (nat offset) data))"

definition chunk_messages :: "int \<Rightarrow> piece_request \<Rightarrow> bytes \<Rightarrow> wire_message list" where
  "chunk_messages k request data =
     concat (map (\<lambda>chunkIndex.
       [PieceChunkHeader \<lparr>ch_fileId = rq_fileId request, ch_pieceIndex = rq_pieceIndex request,
          ch_chunkIndex = of_int chunkIndex, ch_totalChunks = of_int (chunk_count k data), ch_requestId = rq_requestId request,
          ch_payloadSize = of_int (int (length (chunk_at k data chunkIndex)))\<rparr>,
        BinaryFrame (chunk_at k data chunkIndex)])
       [0..chunk_count k data - 1])"

section \<open>Serving a request\<close>

text \<open>
  \<open>Blob.slice\<close> rounds its arguments to integers, ties to even, and \<open>ArrayBuffer.slice\<close> truncates them; both count
  negative positions from the end and clip to the length.
\<close>

definition round_half_even :: "real \<Rightarrow> int" where
  "round_half_even x =
     (let f = \<lfloor>x\<rfloor>; d = x - of_int f
      in if d < 1/2 then f else if 1/2 < d then f + 1 else if even f then f else f + 1)"

definition truncate_number :: "real \<Rightarrow> int" where
  "truncate_number x = (if x < 0 then \<lceil>x\<rceil> else \<lfloor>x\<rfloor>)"

definition relative_position :: "int \<Rightarrow> int \<Rightarrow> int" where
  "relative_position n i = (if i < 0 then max 0 (n + i) else min i n)"

definition js_slice :: "bytes \<Rightarrow> int \<Rightarrow> int \<Rightarrow> bytes" where
  "js_slice bs a b =
     (let n = int (length bs); s = relative_position n a; t = relative_position n b
      in take (nat (t - s)) (drop (nat s) bs))"

text \<open>An array read with a number that need not be an index.\<close>

definition real_at :: "'a list \<Rightarrow> real \<Rightarrow> 'a option" where
  "real_at xs x = (if is_integral x then arr_at xs \<lfloor>x\<rfloor> else None)"

definition reject_message :: "piece_request \<Rightarrow> string \<Rightarrow> wire_message" where
  "reject_message request reason = PieceReject (rq_fileId request) (rq_pieceIndex request) (rq_requestId request) reason None"

text \<open>
  What \<open>sendRequestedPiece\<close> sends: one reject, or the chunks of the piece from the requested offset, read from the
  owner's file or, for a receiver, from its store when the piece is verified.
\<close>

definition requested_piece_messages :: "engine \<Rightarrow> piece_request \<Rightarrow> wire_message list result" where
  "requested_piece_messages e request =
     bind_result (requireManifest e (rq_fileId request)) (\<lambda>manifest.
       case real_at (fm_pieces manifest) (rq_pieceIndex request) of
         None \<Rightarrow> Inr [reject_message request ''missing_piece'']
       | Some piece \<Rightarrow>
           bind_result
             (case jm_get (en_ownerSources e) (rq_fileId request) of
                Some source \<Rightarrow>
                  Inr (Inr (js_slice source (round_half_even (of_int (pd_offset piece) + rq_fromOffset request))
                    (pd_offset piece + pd_size piece)))
              | None \<Rightarrow>
                  (case jm_get (en_managers e) (rq_fileId request) of
                     None \<Rightarrow> Inr (Inl ''missing_piece'')
                   | Some manager \<Rightarrow>
                       bind_result (getPieceState manager \<lfloor>rq_pieceIndex request\<rfloor>) (\<lambda>p.
                         if ps_status p \<noteq> Verified then Inr (Inl ''missing_piece'')
                         else case en_store e (rq_fileId request, \<lfloor>rq_pieceIndex request\<rfloor>) of
                             None \<Rightarrow> Inr (Inl ''storage_read_failed'')
                           | Some stored \<Rightarrow> Inr (Inr (js_slice stored (truncate_number (rq_fromOffset request)) (int (length stored)))))))
             (\<lambda>r. case r of
                Inl reason \<Rightarrow> Inr [reject_message request reason]
              | Inr data \<Rightarrow>
                  (case en_chunkBytes e of
                     Fin k \<Rightarrow> Inr (chunk_messages \<lfloor>k\<rfloor> request data)
                   | _ \<Rightarrow> Inr [])))"

definition queueRequestedPiece :: "string \<Rightarrow> piece_request \<Rightarrow> engine \<Rightarrow> engine" where
  "queueRequestedPiece peerId request e =
     e\<lparr>en_sendQueues := jm_set peerId
       ((case jm_get (en_sendQueues e) peerId of Some q \<Rightarrow> q | None \<Rightarrow> []) @ [request]) (en_sendQueues e)\<rparr>"

text \<open>
  The queue of a peer serves one request at a time, so the chunks of different requests do not mix on its channel; a
  failed request does not stop the next one. \<open>sent\<close> is how many messages the transport took before it failed, if it did.
\<close>

definition serve_next :: "string \<Rightarrow> nat option \<Rightarrow> engine \<Rightarrow> engine" where
  "serve_next peerId sent e =
     (case jm_get (en_sendQueues e) peerId of
        Some (request # rest) \<Rightarrow>
          (let e1 = e\<lparr>en_sendQueues := (if rest = [] then jm_delete peerId (en_sendQueues e)
                        else jm_set peerId rest (en_sendQueues e))\<rparr>
           in case bind_result (requireTransport e1) (\<lambda>_. requested_piece_messages e1 request) of
               Inl err \<Rightarrow> emit (Ev_PieceRejected '''' (- 1) (err_code err)) e1
             | Inr msgs \<Rightarrow>
                 (case sent of
                    None \<Rightarrow> fold (\<lambda>m e. send_message peerId m e) msgs e1
                  | Some n \<Rightarrow> emit (Ev_PieceRejected '''' (- 1) ''send_failed'')
                      (fold (\<lambda>m e. send_message peerId m e) (take n msgs) e1)))
      | _ \<Rightarrow> e)"

section \<open>Putting chunks together\<close>

datatype append_result =
    Append_Reject
  | Append_Throw
  | Append_Wait
  | Append_Data bytes

text \<open>\<open>Array.from({ length: n })\<close> throws for a length that is no array length.\<close>

definition max_array_length :: int where
  "max_array_length = 2 ^ 32 - 1"

definition appendIncomingChunk :: "(string, chunk_assembly) js_map \<Rightarrow> string \<Rightarrow> chunk_header \<Rightarrow> bytes
    \<Rightarrow> (string, chunk_assembly) js_map \<times> append_result" where
  "appendIncomingChunk incoming peerId header frame =
     (case safe_int (Fin (ch_totalChunks header)) of
        None \<Rightarrow> (incoming, Append_Reject)
      | Some totalChunks \<Rightarrow>
          if totalChunks \<le> 0 then (incoming, Append_Reject)
          else case safe_int (Fin (ch_chunkIndex header)) of
              None \<Rightarrow> (incoming, Append_Reject)
            | Some chunkIndex \<Rightarrow>
                if chunkIndex < 0 \<or> totalChunks \<le> chunkIndex then (incoming, Append_Reject)
                else if ch_payloadSize header \<noteq> of_int (int (length frame)) then (incoming, Append_Reject)
                else if jm_get incoming (ch_requestId header) = None \<and> max_array_length < totalChunks then (incoming, Append_Throw)
                else
                  let found = (case jm_get incoming (ch_requestId header) of
                        Some a \<Rightarrow> a
                      | None \<Rightarrow> \<lparr>ca_peerId = peerId, ca_header = header, ca_chunks = replicate (nat totalChunks) None,
                          ca_receivedBytes = 0, ca_receivedChunks = 0\<rparr>);
                      incoming1 = jm_set (ch_requestId header) found incoming
                  in if ca_peerId found \<noteq> peerId \<or> ch_fileId (ca_header found) \<noteq> ch_fileId header \<or>
                        ch_pieceIndex (ca_header found) \<noteq> ch_pieceIndex header \<or>
                        ch_totalChunks (ca_header found) \<noteq> ch_totalChunks header \<or>
                        (case arr_at (ca_chunks found) chunkIndex of Some (Some _) \<Rightarrow> True | _ \<Rightarrow> False)
                     then (incoming1, Append_Reject)
                     else
                       let a = found\<lparr>ca_chunks := (ca_chunks found)[nat chunkIndex := Some frame],
                             ca_receivedBytes := ca_receivedBytes found + int (length frame),
                             ca_receivedChunks := ca_receivedChunks found + 1\<rparr>
                       in if ca_receivedChunks a < totalChunks
                          then (jm_set (ch_requestId header) a incoming1, Append_Wait)
                          else (jm_delete (ch_requestId header) incoming1,
                                if None \<in> set (ca_chunks a) then Append_Reject
                                else Append_Data (concat (map the (ca_chunks a)))))"

section \<open>The receiver puts together what the provider cut\<close>

definition sent_header :: "int \<Rightarrow> piece_request \<Rightarrow> bytes \<Rightarrow> int \<Rightarrow> chunk_header" where
  "sent_header k request data i =
     \<lparr>ch_fileId = rq_fileId request, ch_pieceIndex = rq_pieceIndex request, ch_chunkIndex = of_int i,
      ch_totalChunks = of_int (chunk_count k data), ch_requestId = rq_requestId request,
      ch_payloadSize = of_int (int (length (chunk_at k data i)))\<rparr>"

lemma chunk_messages_eq:
  "chunk_messages k request data =
     concat (map (\<lambda>i. [PieceChunkHeader (sent_header k request data i), BinaryFrame (chunk_at k data i)]) [0..chunk_count k data - 1])"
  by (simp add: chunk_messages_def sent_header_def)

text \<open>Handing over a list of headers with their frames, one after the other.\<close>

fun feed_chunks :: "(string, chunk_assembly) js_map \<Rightarrow> string \<Rightarrow> (chunk_header \<times> bytes) list
    \<Rightarrow> (string, chunk_assembly) js_map \<times> append_result list" where
  "feed_chunks incoming peerId [] = (incoming, [])"
| "feed_chunks incoming peerId ((h, b) # rest) =
     (let (incoming1, r) = appendIncomingChunk incoming peerId h b;
          (incoming2, rs) = feed_chunks incoming1 peerId rest
      in (incoming2, r # rs))"

lemma chunk_size_pos: "1 \<le> k \<Longrightarrow> 1 \<le> chunk_size k data"
  by (cases data) (simp_all add: chunk_size_def)

lemma chunk_count_pos: "1 \<le> chunk_count k data"
  by (simp add: chunk_count_def)

lemma chunks_concat: "1 \<le> k \<Longrightarrow> concat (map (chunk_at k data) [0..chunk_count k data - 1]) = data"
proof -
  assume k: "1 \<le> k"
  let ?c = "chunk_size k data"
  have c: "0 < ?c" using chunk_size_pos [OF k, of data] by simp
  have "int (length data) \<le> ceil_div (int (length data)) ?c * ?c" by (rule ceil_div_bounds(1) [OF c])
  also have "\<dots> \<le> chunk_count k data * ?c" using c by (intro mult_right_mono) (auto simp: chunk_count_def)
  finally have "int (length data) \<le> chunk_count k data * ?c" .
  note len = this
  have eq: "chunk_at k data = (\<lambda>i. take (nat (min ?c (int (length data) - i * ?c))) (drop (nat (i * ?c)) data))"
    by (simp add: fun_eq_iff chunk_at_def Let_def)
  show ?thesis unfolding eq using concat_int_blocks [OF c len] chunk_count_pos [of k data] by simp
qed

text \<open>The assembly after the chunks with indices in \<open>S\<close> have arrived.\<close>

definition assembly_at :: "string \<Rightarrow> chunk_header \<Rightarrow> int \<Rightarrow> bytes \<Rightarrow> int set \<Rightarrow> chunk_assembly \<Rightarrow> bool" where
  "assembly_at peerId h k data S a \<longleftrightarrow> ca_peerId a = peerId \<and> ch_fileId (ca_header a) = ch_fileId h \<and>
     ch_pieceIndex (ca_header a) = ch_pieceIndex h \<and> ch_totalChunks (ca_header a) = of_int (chunk_count k data) \<and>
     ca_chunks a = map (\<lambda>i. if i \<in> S then Some (chunk_at k data i) else None) [0..chunk_count k data - 1] \<and>
     ca_receivedChunks a = int (card S)"

lemma safe_int_of_int: "\<bar>i\<bar> \<le> MAX_SAFE_INTEGER \<Longrightarrow> safe_int (Fin (of_int i)) = Some i"
  using safe_int_num_of_int [of i] by (simp add: num_of_int_def)

lemma append_step:
  assumes i: "0 \<le> i" "i < chunk_count k data" and n: "chunk_count k data \<le> max_array_length"
    and S: "i \<notin> S" "S \<subseteq> {0..<chunk_count k data}"
    and inc: "case jm_get inc (rq_requestId rq) of None \<Rightarrow> S = {} | Some a \<Rightarrow> assembly_at p (sent_header k rq data j) k data S a"
  shows "\<exists>inc' r. appendIncomingChunk inc p (sent_header k rq data i) (chunk_at k data i) = (inc', r) \<and>
    (\<forall>x. x \<noteq> rq_requestId rq \<longrightarrow> jm_get inc' x = jm_get inc x) \<and>
    (if insert i S = {0..<chunk_count k data}
     then r = Append_Data (concat (map (chunk_at k data) [0..chunk_count k data - 1])) \<and> jm_get inc' (rq_requestId rq) = None
     else r = Append_Wait \<and> (\<exists>a. jm_get inc' (rq_requestId rq) = Some a \<and> assembly_at p (sent_header k rq data j) k data (insert i S) a))"
proof -
  let ?n = "chunk_count k data"
  let ?h = "sent_header k rq data i"
  have h: "ch_totalChunks ?h = of_int ?n" "ch_chunkIndex ?h = of_int i" "ch_requestId ?h = rq_requestId rq"
    "ch_payloadSize ?h = of_int (int (length (chunk_at k data i)))" "ch_fileId ?h = rq_fileId rq" "ch_pieceIndex ?h = rq_pieceIndex rq"
    by (simp_all add: sent_header_def)
  have hj: "ch_fileId (sent_header k rq data j) = rq_fileId rq" "ch_pieceIndex (sent_header k rq data j) = rq_pieceIndex rq"
    by (simp_all add: sent_header_def)
  have big: "?n \<le> MAX_SAFE_INTEGER" using n by (simp add: max_array_length_def MAX_SAFE_INTEGER_def)
  have s1: "safe_int (Fin (ch_totalChunks ?h)) = Some ?n" using big i by (simp add: h safe_int_of_int)
  have s2: "safe_int (Fin (ch_chunkIndex ?h)) = Some i" using big i by (simp add: h safe_int_of_int)
  define found where "found = (case jm_get inc (rq_requestId rq) of Some a \<Rightarrow> a
     | None \<Rightarrow> \<lparr>ca_peerId = p, ca_header = ?h, ca_chunks = replicate (nat ?n) None, ca_receivedBytes = 0, ca_receivedChunks = 0\<rparr>)"
  have found: "assembly_at p (sent_header k rq data j) k data S found"
  proof (cases "jm_get inc (rq_requestId rq)")
    case None
    have "replicate (nat ?n) None = map (\<lambda>i. None) [0..?n - 1]" by (simp add: map_replicate_const)
    with None inc show ?thesis by (simp add: found_def assembly_at_def h hj)
  next
    case (Some a)
    with inc show ?thesis by (simp add: found_def)
  qed
  have at: "arr_at (ca_chunks found) i = Some None"
    using found i S(1) by (simp add: assembly_at_def arr_at_def)
  define a where "a = found\<lparr>ca_chunks := (ca_chunks found)[nat i := Some (chunk_at k data i)],
     ca_receivedBytes := ca_receivedBytes found + int (length (chunk_at k data i)),
     ca_receivedChunks := ca_receivedChunks found + 1\<rparr>"
  have fin: "finite S" using S(2) finite_subset by blast
  have card: "card (insert i S) = Suc (card S)" using S(1) fin by simp
  have upd: "(map (\<lambda>i. if i \<in> S then Some (chunk_at k data i) else None) [0..?n - 1])[nat i := Some (chunk_at k data i)] =
      map (\<lambda>j. if j \<in> insert i S then Some (chunk_at k data j) else None) [0..?n - 1]"
    by (rule nth_equalityI) (use i in \<open>auto simp: nth_list_update\<close>)
  have a: "assembly_at p (sent_header k rq data j) k data (insert i S) a"
    using found card upd by (simp add: assembly_at_def a_def)
  have app: "appendIncomingChunk inc p ?h (chunk_at k data i) =
      (if ca_receivedChunks a < ?n then (jm_set (rq_requestId rq) a (jm_set (rq_requestId rq) found inc), Append_Wait)
       else (jm_delete (rq_requestId rq) (jm_set (rq_requestId rq) found inc),
             if None \<in> set (ca_chunks a) then Append_Reject else Append_Data (concat (map the (ca_chunks a)))))"
    unfolding appendIncomingChunk_def s1 s2 option.case h(3)
    using i n h at found hj
    by (simp add: Let_def a_def flip: found_def) (simp add: assembly_at_def)
  show ?thesis
  proof (cases "insert i S = {0..<?n}")
    case True
    then have "ca_receivedChunks a = ?n" using a i by (simp add: assembly_at_def)
    moreover have "ca_chunks a = map (\<lambda>j. Some (chunk_at k data j)) [0..?n - 1]"
      using a True by (auto simp: assembly_at_def)
    ultimately show ?thesis using True app by (auto simp: comp_def)
  next
    case False
    then have "insert i S \<subset> {0..<?n}" using S(2) i by auto
    then have "card (insert i S) < card {0..<?n}" by (intro psubset_card_mono) auto
    then have "ca_receivedChunks a < ?n" using a by (simp add: assembly_at_def)
    then show ?thesis using False app a by auto
  qed
qed

lemma feed_chunks_spec:
  assumes "chunk_count k data \<le> max_array_length" and "distinct ids" and "S \<inter> set ids = {}" and "ids \<noteq> []"
    and "S \<union> set ids = {0..<chunk_count k data}"
    and "case jm_get inc (rq_requestId rq) of None \<Rightarrow> S = {} | Some a \<Rightarrow> assembly_at p (sent_header k rq data j) k data S a"
  shows "\<exists>inc'. feed_chunks inc p (map (\<lambda>i. (sent_header k rq data i, chunk_at k data i)) ids) =
      (inc', replicate (length ids - 1) Append_Wait @ [Append_Data (concat (map (chunk_at k data) [0..chunk_count k data - 1]))]) \<and>
    jm_get inc' (rq_requestId rq) = None \<and> (\<forall>x. x \<noteq> rq_requestId rq \<longrightarrow> jm_get inc' x = jm_get inc x)"
  using assms(2-6)
proof (induction ids arbitrary: inc S)
  case Nil
  then show ?case by simp
next
  case (Cons i ids)
  let ?n = "chunk_count k data"
  have i: "0 \<le> i" "i < ?n" "i \<notin> S" "S \<subseteq> {0..<?n}" using Cons.prems(2,4) by auto
  from append_step [OF i(1,2) assms(1) i(3,4) Cons.prems(5)]
  obtain inc1 r where app: "appendIncomingChunk inc p (sent_header k rq data i) (chunk_at k data i) = (inc1, r)"
    and other: "\<forall>x. x \<noteq> rq_requestId rq \<longrightarrow> jm_get inc1 x = jm_get inc x"
    and res: "if insert i S = {0..<?n}
     then r = Append_Data (concat (map (chunk_at k data) [0..?n - 1])) \<and> jm_get inc1 (rq_requestId rq) = None
     else r = Append_Wait \<and> (\<exists>a. jm_get inc1 (rq_requestId rq) = Some a \<and> assembly_at p (sent_header k rq data j) k data (insert i S) a)"
    by blast
  show ?case
  proof (cases ids)
    case Nil
    then have "insert i S = {0..<?n}" using Cons.prems(4) by auto
    with Nil app other res show ?thesis by simp
  next
    case (Cons i2 ids2)
    then have ne: "insert i S \<noteq> {0..<?n}" using Cons.prems(1,2,4) by auto
    with res obtain a where r: "r = Append_Wait" and a: "jm_get inc1 (rq_requestId rq) = Some a"
      "assembly_at p (sent_header k rq data j) k data (insert i S) a" by auto
    have "\<exists>inc'. feed_chunks inc1 p (map (\<lambda>i. (sent_header k rq data i, chunk_at k data i)) ids) =
      (inc', replicate (length ids - 1) Append_Wait @ [Append_Data (concat (map (chunk_at k data) [0..?n - 1]))]) \<and>
      jm_get inc' (rq_requestId rq) = None \<and> (\<forall>x. x \<noteq> rq_requestId rq \<longrightarrow> jm_get inc' x = jm_get inc1 x)"
      by (rule Cons.IH [of "insert i S"]) (use Cons.prems Cons a in auto)
    with app r other Cons show ?thesis by auto
  qed
qed

text \<open>
  C8. The chunks that a provider sends for a piece, in whatever order they reach the receiver, give exactly the
  piece: every chunk but the last to arrive is kept waiting, the last one yields the bytes, the
  assembly is gone afterwards, and the assemblies of other requests are untouched.
\<close>

theorem chunk_transfer_roundtrip:
  assumes "1 \<le> k" and "chunk_count k data \<le> max_array_length"
    and "distinct order" and "set order = {0..<chunk_count k data}" and "jm_get incoming (rq_requestId request) = None"
  shows "\<exists>incoming'. feed_chunks incoming peerId (map (\<lambda>i. (sent_header k request data i, chunk_at k data i)) order) =
      (incoming', replicate (length order - 1) Append_Wait @ [Append_Data data]) \<and>
    (\<forall>r. jm_get incoming' r = jm_get incoming r) \<and>
    chunk_messages k request data =
      concat (map (\<lambda>i. [PieceChunkHeader (sent_header k request data i), BinaryFrame (chunk_at k data i)]) [0..chunk_count k data - 1])"
proof -
  have "order \<noteq> []" using assms(4) chunk_count_pos [of k data] by auto
  with feed_chunks_spec [OF assms(2,3), where S = "{}" and inc = incoming and rq = request and p = peerId and j = 0] assms(4,5)
  obtain inc' where "feed_chunks incoming peerId (map (\<lambda>i. (sent_header k request data i, chunk_at k data i)) order) =
      (inc', replicate (length order - 1) Append_Wait @ [Append_Data (concat (map (chunk_at k data) [0..chunk_count k data - 1]))])"
    and "jm_get inc' (rq_requestId request) = None" "\<forall>x. x \<noteq> rq_requestId request \<longrightarrow> jm_get inc' x = jm_get incoming x"
    by auto
  with chunks_concat [OF assms(1)] assms(5) chunk_messages_eq show ?thesis by (metis (no_types, lifting))
qed

theorem chunk_transfer_roundtrip_witness:
  "\<exists>incoming'. feed_chunks [] ''p'' (map (\<lambda>i. (sent_header 2 \<lparr>rq_fileId = ''f'', rq_pieceIndex = 0, rq_requestId = ''r'', rq_fromOffset = 0\<rparr>
       [5, 6, 7] i, chunk_at 2 [5, 6, 7] i)) [1, 0]) = (incoming', [Append_Wait, Append_Data [5, 6, 7]])"
proof -
  have n: "chunk_count 2 [5, 6, 7] = 2" by (simp add: chunk_count_def chunk_size_def ceil_div_eq)
  have "set [1, 0] = {0..<chunk_count 2 [5, 6, 7]}" unfolding n by auto
  from chunk_transfer_roundtrip [where request = "\<lparr>rq_fileId = ''f'', rq_pieceIndex = 0, rq_requestId = ''r'', rq_fromOffset = 0\<rparr>",
      OF _ _ _ this, where incoming = "[]" and peerId = "''p''"]
  show ?thesis by (auto simp: n max_array_length_def)
qed

end
