(* ===== verification/Engine_Receive.thy ===== *)
theory Engine_Receive
  imports Chunk_Transfer
begin

text \<open>
  Receiving pieces in \<open>PonsWarpEngine\<close> (\<open>packages/core/src/index.ts\<close>): \<open>receivePiece\<close> with its turns after the hash, the
  write, the saved state and the broadcast, \<open>rejectIncomingChunk\<close>, the handlers of messages and of
  binary frames, and the set-up of sessions. A storage write or delete takes effect in the turn that its
  \<open>await\<close> resumes.
\<close>

section \<open>Small steps\<close>

text \<open>The index that a number of a message names; \<open>- 1\<close>, which no piece has, for a number that is no integer.\<close>

definition piece_number :: "real \<Rightarrow> int" where
  "piece_number x = (if is_integral x then \<lfloor>x\<rfloor> else - 1)"

definition drop_request :: "string \<Rightarrow> engine \<Rightarrow> engine" where
  "drop_request requestId e = e\<lparr>en_outstanding := jm_delete requestId (en_outstanding e)\<rparr>"

text \<open>\<open>if (!this.finalizeDirectRequest(requestId, status)) this.outstandingRequests.delete(requestId)\<close>\<close>

definition end_request :: "turn \<Rightarrow> string \<Rightarrow> terminal_reason \<Rightarrow> engine \<Rightarrow> engine" where
  "end_request tn requestId status e =
     (case finalizeDirectRequest tn requestId status e of
        (e1, True) \<Rightarrow> e1
      | (e1, False) \<Rightarrow> drop_request requestId e1)"

definition release_lease :: "string \<Rightarrow> int \<Rightarrow> string \<Rightarrow> engine \<Rightarrow> engine" where
  "release_lease fileId pieceIndex requestId e =
     e\<lparr>en_availability := release (en_availability e) fileId pieceIndex (Some requestId)\<rparr>"

definition reject_peer :: "string \<Rightarrow> engine \<Rightarrow> engine" where
  "reject_peer peerId e = e\<lparr>en_health := markReject (en_health e) peerId\<rparr>"

definition progress_event :: "string \<Rightarrow> engine \<Rightarrow> unit turn_result" where
  "progress_event fileId e =
     (case requireManager e fileId of Inl err \<Rightarrow> (e, Inl err) | Inr m \<Rightarrow> (emit (Ev_Progress (getProgress m)) e, Inr ()))"

definition unauthorized :: "receive_input \<Rightarrow> call_value" where
  "unauthorized inp = V_Receive (RecvReject (ri_fileId inp) (ri_pieceIndex inp) (ri_requestId inp) ''unauthorized'' None)"

definition reject_result :: "receive_input \<Rightarrow> string \<Rightarrow> string option \<Rightarrow> call_value" where
  "reject_result inp reason hash = V_Receive (RecvReject (ri_fileId inp) (ri_pieceIndex inp) (ri_requestId inp) reason hash)"

section \<open>\<open>receivePiece\<close>\<close>

definition receivePiece_start :: "receive_input \<Rightarrow> string option \<Rightarrow> engine \<Rightarrow> engine \<times> activation" where
  "receivePiece_start inp expectedPeerId e =
     (if ri_requestId inp \<in> set (en_tombstones e) \<or>
         isEngineGeneratedRequestId (ri_requestId inp) \<and> jm_get (en_outstanding e) (ri_requestId inp) = None
      then (e, returns (unauthorized inp))
      else case requireManifest e (ri_fileId inp) of
          Inl err \<Rightarrow> (e, throws err)
        | Inr manifest \<Rightarrow>
            (case arr_at (fm_pieces manifest) (ri_pieceIndex inp) of
               None \<Rightarrow> (e, throws (PonsWarpError ''piece:not_found'' (Some ''piece'') (Some True)))
             | Some descriptor \<Rightarrow>
                 (case requireManager e (ri_fileId inp) of
                    Inl err \<Rightarrow> (e, throws err)
                  | Inr _ \<Rightarrow> await_platform [F_Hashed inp expectedPeerId descriptor] e)))"

definition still_expected :: "receive_input \<Rightarrow> string option \<Rightarrow> engine \<Rightarrow> bool" where
  "still_expected inp expectedPeerId e =
     (case expectedPeerId of
        None \<Rightarrow> True
      | Some p \<Rightarrow> isExactActiveRequest e p (ri_fileId inp) (ri_pieceIndex inp) (ri_requestId inp))"

text \<open>After the hash: a bad piece is failed and deleted from the storage, a good one is written.\<close>

definition reject_hash :: "turn \<Rightarrow> receive_input \<Rightarrow> piece_descriptor \<Rightarrow> engine \<Rightarrow> engine \<times> activation" where
  "reject_hash tn inp descriptor e =
     (let outstanding = jm_get (en_outstanding e) (ri_requestId inp);
          e1 = release_lease (ri_fileId inp) (ri_pieceIndex inp) (ri_requestId inp) e
      in continue_with
           (turn_bind (call_manager e1 (ri_fileId inp) (\<lambda>m. markFailed m (tn_now tn) (ri_pieceIndex inp) ''hash_mismatch'')) (\<lambda>e2 _.
              case outstanding of
                None \<Rightarrow> (e2, Inr ())
              | Some r \<Rightarrow> emitRetryPerformance (ri_fileId inp) (ri_pieceIndex inp) (or_peerId r) (ri_requestId inp)
                  ''hash_mismatch'' (reject_peer (or_peerId r) e2)))
           (\<lambda>e3 _. await_platform [F_RejectDeleted inp outstanding descriptor] e3))"

definition receivePiece_hashed :: "digest \<Rightarrow> turn \<Rightarrow> receive_input \<Rightarrow> string option \<Rightarrow> piece_descriptor \<Rightarrow> outcome
    \<Rightarrow> engine \<Rightarrow> engine \<times> activation" where
  "receivePiece_hashed D tn inp expectedPeerId descriptor out e =
     (case out of
        Err err \<Rightarrow> (e, Some (Err err), [])
      | Ok _ \<Rightarrow>
          if \<not> still_expected inp expectedPeerId e then (e, returns (unauthorized inp))
          else if \<not> verifyPiece D (ri_data inp) descriptor then reject_hash tn inp descriptor e
          else await_platform [F_Written inp (jm_get (en_outstanding e) (ri_requestId inp)) descriptor (tn_clock tn)] e)"

definition receivePiece_deleted :: "turn \<Rightarrow> receive_input \<Rightarrow> outstanding_request option \<Rightarrow> piece_descriptor \<Rightarrow> outcome
    \<Rightarrow> engine \<Rightarrow> engine \<times> activation" where
  "receivePiece_deleted tn inp outstanding descriptor out e =
     (case out of
        Err err \<Rightarrow> (e, Some (Err err), [])
      | Ok _ \<Rightarrow> persistState tn [F_RejectSaved inp outstanding descriptor]
          (e\<lparr>en_store := (en_store e)((ri_fileId inp, ri_pieceIndex inp) := None)\<rparr>))"

definition receivePiece_reject_saved :: "turn \<Rightarrow> receive_input \<Rightarrow> outstanding_request option \<Rightarrow> piece_descriptor \<Rightarrow> outcome
    \<Rightarrow> engine \<Rightarrow> engine \<times> activation" where
  "receivePiece_reject_saved tn inp outstanding descriptor out e =
     (let e1 = (case out of
                  Ok _ \<Rightarrow> e
                | Err err \<Rightarrow> fst (finalizeDirectRequest tn (ri_requestId inp) R_Cancelled
                    (emitDirectLifecycleError tn ''persist'' outstanding (Some (ri_requestId inp)) err e)));
          e2 = end_request tn (ri_requestId inp) R_HashMismatch e1;
          e3 = emit (Ev_PieceRejected (ri_fileId inp) (of_int (ri_pieceIndex inp)) ''hash_mismatch'') e2
      in continue_with (progress_event (ri_fileId inp) e3) (\<lambda>e4 _.
           (e4, returns (reject_result inp ''hash_mismatch'' (pd_hash descriptor)))))"

text \<open>After the write: the piece is verified, and then the state is saved.\<close>

definition credit_peer :: "turn \<Rightarrow> receive_input \<Rightarrow> outstanding_request \<Rightarrow> engine \<Rightarrow> engine" where
  "credit_peer tn inp r e =
     (let windowMs = max 1 (tn_clock tn - or_requestedAt r);
          size = int (length (ri_data inp));
          e1 = e\<lparr>en_health := markSuccess (en_health e) (or_peerId r) (of_int size) (of_int windowMs) (tn_now tn)\<rparr>
      in emit (Ev_Performance (Perf_Speed (ri_fileId inp) (ri_pieceIndex inp) (or_peerId r) size
           (of_int size / of_int windowMs * 1000) windowMs)) e1)"

definition receivePiece_written :: "turn \<Rightarrow> receive_input \<Rightarrow> outstanding_request option \<Rightarrow> piece_descriptor \<Rightarrow> int \<Rightarrow> outcome
    \<Rightarrow> engine \<Rightarrow> engine \<times> activation" where
  "receivePiece_written tn inp outstanding descriptor writeStartedAt out e =
     (case out of
        Err err \<Rightarrow>
          (let e1 = emitDirectLifecycleError tn ''storage'' outstanding (Some (ri_requestId inp)) err e
           in continue_with (call_manager e1 (ri_fileId inp) (\<lambda>m. markFailed m (tn_now tn) (ri_pieceIndex inp) ''storage_failed'')) (\<lambda>e2 _.
                (fst (finalizeDirectRequest tn (ri_requestId inp) R_Cancelled e2), returns (reject_result inp ''storage_failed'' None))))
      | Ok _ \<Rightarrow>
          (let e1 = e\<lparr>en_store := (en_store e)((ri_fileId inp, ri_pieceIndex inp) := Some (ri_data inp)),
                      en_writes := en_writes e @ [(ri_fileId inp, ri_pieceIndex inp, ri_data inp)]\<rparr>;
               e2 = emit (Ev_Performance (Perf_StorageWrite (ri_fileId inp) (ri_pieceIndex inp) (int (length (ri_data inp)))
                      (max 0 (tn_clock tn - writeStartedAt)))) e1
           in continue_with (call_manager e2 (ri_fileId inp) (\<lambda>m. markVerified m (tn_now tn) (ri_pieceIndex inp))) (\<lambda>e3 _.
                let e4 = release_lease (ri_fileId inp) (ri_pieceIndex inp) (ri_requestId inp) e3;
                    e5 = (case outstanding of None \<Rightarrow> e4 | Some r \<Rightarrow> credit_peer tn inp r e4)
                in persistState tn [F_VerifiedSaved inp outstanding descriptor] e5)))"

definition receivePiece_finish :: "receive_input \<Rightarrow> piece_descriptor \<Rightarrow> engine \<Rightarrow> engine \<times> activation" where
  "receivePiece_finish inp descriptor e =
     (let e1 = emit (Ev_PieceVerified (ri_fileId inp) (ri_pieceIndex inp)) e
      in continue_with (progress_event (ri_fileId inp) e1) (\<lambda>e2 _.
           (e2, returns (V_Receive (RecvAck (ri_fileId inp) (ri_pieceIndex inp) (ri_requestId inp) (pd_hash descriptor))))))"

definition receivePiece_verified_saved :: "turn \<Rightarrow> receive_input \<Rightarrow> outstanding_request option \<Rightarrow> piece_descriptor \<Rightarrow> outcome
    \<Rightarrow> engine \<Rightarrow> engine \<times> activation" where
  "receivePiece_verified_saved tn inp outstanding descriptor out e =
     (case out of
        Err err \<Rightarrow>
          (let e1 = emitDirectLifecycleError tn ''persist'' outstanding (Some (ri_requestId inp)) err e
           in continue_with (call_manager e1 (ri_fileId inp) (\<lambda>m. markFailed m (tn_now tn) (ri_pieceIndex inp) ''persist_failed'')) (\<lambda>e2 _.
                (fst (finalizeDirectRequest tn (ri_requestId inp) R_Cancelled e2), returns (reject_result inp ''persist_failed'' None))))
      | Ok _ \<Rightarrow>
          continue_with (cancelCompetingGridRequests (ri_fileId inp) (ri_pieceIndex inp) (ri_requestId inp)
              (end_request tn (ri_requestId inp) R_Verified e)) (\<lambda>e1 _.
            if en_knownPeers e1 = [] then receivePiece_finish inp descriptor e1
            else broadcastPieceMap tn (ri_fileId inp) (en_knownPeers e1) [F_Broadcast inp descriptor] e1))"

definition receivePiece_broadcast :: "receive_input \<Rightarrow> piece_descriptor \<Rightarrow> outcome \<Rightarrow> engine \<Rightarrow> engine \<times> activation" where
  "receivePiece_broadcast inp descriptor out e =
     (case out of Err err \<Rightarrow> (e, Some (Err err), []) | Ok _ \<Rightarrow> receivePiece_finish inp descriptor e)"

section \<open>Rejecting a chunk\<close>

definition rejectIncomingChunk_start :: "turn \<Rightarrow> string \<Rightarrow> chunk_header \<Rightarrow> engine \<Rightarrow> engine \<times> activation" where
  "rejectIncomingChunk_start tn peerId header e =
     (let requestId = ch_requestId header;
          index = piece_number (ch_pieceIndex header);
          outstanding = jm_get (en_outstanding e) requestId;
          hasManager = (jm_get (en_managers e) (ch_fileId header) \<noteq> None);
          e1 = release_lease (ch_fileId header) index requestId
                 (e\<lparr>en_incomingChunks := jm_delete requestId (en_incomingChunks e)\<rparr>)
      in continue_with (call_manager_if e1 (ch_fileId header) (\<lambda>m. markFailed m (tn_now tn) index ''invalid_chunk'')) (\<lambda>e2 _.
           let (e3, finalizedDirect) = finalizeDirectRequest tn requestId R_InvalidChunk e2;
               e4 = (if finalizedDirect then e3 else drop_request requestId e3);
               e5 = reject_peer peerId e4
           in continue_with (if hasManager then emitRetryPerformance (ch_fileId header) index peerId requestId ''invalid_chunk'' e5
                             else (e5, Inr ())) (\<lambda>e6 _.
                await_send peerId (PieceReject (ch_fileId header) (ch_pieceIndex header) requestId ''invalid_chunk'' None)
                  [F_ChunkRejectSent peerId header outstanding finalizedDirect hasManager] e6)))"

definition rejectIncomingChunk_sent :: "turn \<Rightarrow> string \<Rightarrow> chunk_header \<Rightarrow> outstanding_request option \<Rightarrow> bool \<Rightarrow> bool \<Rightarrow> outcome
    \<Rightarrow> engine \<Rightarrow> engine \<times> activation" where
  "rejectIncomingChunk_sent tn peerId header outstanding finalizedDirect hasManager out e =
     (case out of
        Err err \<Rightarrow> (e, Some (Err err), [])
      | Ok _ \<Rightarrow>
          let e1 = emit (Ev_PieceRejected (ch_fileId header) (ch_pieceIndex header) ''invalid_chunk'') e;
              index = piece_number (ch_pieceIndex header);
              fileId = ch_fileId header
          in if \<not> hasManager then persistState tn [F_Discard] e1
             else continue_with
               (turn_bind (progress_event fileId e1) (\<lambda>e2 _.
                  case bind_result (requireManager e2 fileId) (\<lambda>m. getPieceState m index) of
                    Inl err \<Rightarrow> (e2, if finalizedDirect then Inr False else Inl err)
                  | Inr p \<Rightarrow>
                      if finalizedDirect \<or> en_maxRetries e2 < ps_retryCount p then (e2, Inr False)
                      else turn_bind (call_manager e2 fileId (\<lambda>m. resetFailedToMissing m (tn_now tn) index)) (\<lambda>e3 _. (e3, Inr True))))
               (\<lambda>e4 retry.
                  if \<not> retry then persistState tn [F_Discard] e4
                  else await_call F_PersistTail
                    (case outstanding of
                       Some r \<Rightarrow>
                         (case or_gridOptions r of
                            Some opts \<Rightarrow> requestNextGridPiece_start tn fileId opts e4
                          | None \<Rightarrow> requestNextPiece_start tn peerId fileId None e4)
                     | None \<Rightarrow> requestNextPiece_start tn peerId fileId None e4)))"

definition persist_tail :: "turn \<Rightarrow> outcome \<Rightarrow> engine \<Rightarrow> engine \<times> activation" where
  "persist_tail tn out e = (case out of Err err \<Rightarrow> (e, Some (Err err), []) | Ok _ \<Rightarrow> persistState tn [F_Discard] e)"

definition discard_value :: "outcome \<Rightarrow> engine \<Rightarrow> engine \<times> activation" where
  "discard_value out e = (case out of Err err \<Rightarrow> (e, Some (Err err), []) | Ok _ \<Rightarrow> (e, returns V_Unit))"

definition chunk_rejected :: "outcome \<Rightarrow> engine \<Rightarrow> engine \<times> activation" where
  "chunk_rejected out e = (case out of Err err \<Rightarrow> (e, Some (Err err), []) | Ok _ \<Rightarrow> (e, returns (V_Assembled None)))"

section \<open>Binary frames\<close>

definition unexpected_binary :: pons_error where
  "unexpected_binary = PonsWarpError ''transport:unexpected_binary'' (Some ''transport'') (Some True)"

text \<open>\<open>appendIncomingChunk\<close> on the engine: a bad chunk is rejected before the call returns \<open>null\<close>.\<close>

definition append_start :: "turn \<Rightarrow> string \<Rightarrow> chunk_header \<Rightarrow> bytes \<Rightarrow> engine \<Rightarrow> engine \<times> activation" where
  "append_start tn peerId header frame e =
     (let (incoming, r) = appendIncomingChunk (en_incomingChunks e) peerId header frame;
          e1 = e\<lparr>en_incomingChunks := incoming\<rparr>
      in case r of
          Append_Reject \<Rightarrow> await_call F_ChunkRejected (rejectIncomingChunk_start tn peerId header e1)
        | Append_Throw \<Rightarrow> (e1, throws js_type_error)
        | Append_Wait \<Rightarrow> (e1, returns (V_Assembled None))
        | Append_Data bs \<Rightarrow> (e1, returns (V_Assembled (Some bs))))"

definition handleTransportBinary :: "turn \<Rightarrow> string \<Rightarrow> bytes \<Rightarrow> engine \<Rightarrow> engine \<times> activation" where
  "handleTransportBinary tn peerId frame e =
     await_call F_Handler
       (case jm_get (en_pendingChunks e) peerId of
          None \<Rightarrow> (e, throws unexpected_binary)
        | Some header \<Rightarrow>
            await_call (F_Assembled peerId header)
              (append_start tn peerId header frame (e\<lparr>en_pendingChunks := jm_delete peerId (en_pendingChunks e)\<rparr>)))"

definition header_matches :: "string \<Rightarrow> chunk_header \<Rightarrow> outstanding_request \<Rightarrow> bool" where
  "header_matches peerId header r \<longleftrightarrow>
     or_peerId r = peerId \<and> or_fileId r = ch_fileId header \<and> of_int (or_pieceIndex r) = ch_pieceIndex header"

definition binary_assembled :: "string \<Rightarrow> chunk_header \<Rightarrow> outcome \<Rightarrow> engine \<Rightarrow> engine \<times> activation" where
  "binary_assembled peerId header out e =
     (case out of
        Err err \<Rightarrow> (e, Some (Err err), [])
      | Ok (V_Assembled (Some bs)) \<Rightarrow>
          (case jm_get (en_outstanding e) (ch_requestId header) of
             None \<Rightarrow> (e, returns V_Unit)
           | Some r \<Rightarrow>
               if \<not> header_matches peerId header r then (e, returns V_Unit)
               else await_call (F_Respond peerId header r)
                 (receivePiece_start \<lparr>ri_fileId = ch_fileId header, ri_pieceIndex = or_pieceIndex r,
                    ri_requestId = ch_requestId header, ri_data = bs\<rparr> (Some peerId) e))
      | Ok _ \<Rightarrow> (e, returns V_Unit))"

definition response_message :: "receive_result \<Rightarrow> wire_message" where
  "response_message r =
     (case r of
        RecvAck f i rid hash \<Rightarrow> PieceAck f (of_int i) rid hash
      | RecvReject f i rid reason hash \<Rightarrow>
          PieceReject f (of_int i) rid (if reason = ''hash_mismatch'' then ''hash_mismatch'' else ''missing_piece'') hash)"

definition binary_respond :: "turn \<Rightarrow> string \<Rightarrow> chunk_header \<Rightarrow> outstanding_request \<Rightarrow> outcome \<Rightarrow> engine \<Rightarrow> engine \<times> activation" where
  "binary_respond tn peerId header outstanding out e =
     (case out of
        Err err \<Rightarrow>
          (let e1 = emitDirectLifecycleError tn ''receive'' (Some outstanding) (Some (ch_requestId header)) err e
           in continue_with (call_manager_if e1 (ch_fileId header)
                  (\<lambda>m. markFailed m (tn_now tn) (piece_number (ch_pieceIndex header)) ''receive_failed'')) (\<lambda>e2 _.
                (fst (finalizeDirectRequest tn (ch_requestId header) R_Cancelled e2), returns V_Unit)))
      | Ok (V_Receive result) \<Rightarrow> await_send peerId (response_message result) [F_Responded result outstanding] e
      | Ok _ \<Rightarrow> (e, returns V_Unit))"

definition binary_responded :: "turn \<Rightarrow> receive_result \<Rightarrow> outstanding_request \<Rightarrow> outcome \<Rightarrow> engine \<Rightarrow> engine \<times> activation" where
  "binary_responded tn result outstanding out e =
     (case out of
        Err err \<Rightarrow> (e, Some (Err err), [])
      | Ok _ \<Rightarrow>
          (case (result, or_gridOptions outstanding) of
             (RecvReject fileId index _ _ _, Some opts) \<Rightarrow>
               (case bind_result (requireManager e fileId) (\<lambda>m. getPieceState m index) of
                  Inl err \<Rightarrow> (e, throws err)
                | Inr p \<Rightarrow>
                    if en_maxRetries e < ps_retryCount p then (e, returns V_Unit)
                    else continue_with (call_manager e fileId (\<lambda>m. resetFailedToMissing m (tn_now tn) index)) (\<lambda>e1 _.
                           await_call F_Discard (requestNextGridPiece_start tn fileId opts e1)))
           | _ \<Rightarrow> (e, returns V_Unit)))"

section \<open>Messages\<close>

definition on_chunk_header :: "turn \<Rightarrow> string \<Rightarrow> chunk_header \<Rightarrow> engine \<Rightarrow> engine \<times> activation" where
  "on_chunk_header tn peerId header e =
     (case jm_get (en_outstanding e) (ch_requestId header) of
        None \<Rightarrow> (e, returns V_Unit)
      | Some active \<Rightarrow>
          if \<not> header_matches peerId header active \<or> ch_requestId header \<in> set (en_tombstones e) then (e, returns V_Unit)
          else case jm_get (en_pendingChunks e) peerId of
              Some previous \<Rightarrow>
                if previous = header then (e, returns V_Unit)
                else await_call F_Discard (rejectIncomingChunk_start tn peerId header e)
            | None \<Rightarrow> (e\<lparr>en_pendingChunks := jm_set peerId header (en_pendingChunks e)\<rparr>, returns V_Unit))"

definition on_ack :: "turn \<Rightarrow> string \<Rightarrow> js_value \<Rightarrow> engine \<Rightarrow> engine \<times> activation" where
  "on_ack tn peerId message e =
     (case bind_result (requireStringField message ''requestId'') (\<lambda>r.
           bind_result (requireStringField message ''fileId'') (\<lambda>f.
           bind_result (requireNumberField message ''pieceIndex'') (\<lambda>i. Inr (r, f, i)))) of
        Inl err \<Rightarrow> (e, throws err)
      | Inr (requestId, ackFileId, ackPieceIndex) \<Rightarrow>
          (case jm_get (en_outstanding e) requestId of
             None \<Rightarrow> (end_request tn requestId R_Acknowledged e, returns V_Unit)
           | Some r \<Rightarrow>
               if or_peerId r \<noteq> peerId \<or> or_fileId r \<noteq> ackFileId \<or> of_int (or_pieceIndex r) \<noteq> ackPieceIndex then (e, returns V_Unit)
               else
                 let e1 = release_lease (or_fileId r) (or_pieceIndex r) requestId e;
                     e2 = e1\<lparr>en_health := markSuccess (en_health e1) (or_peerId r) 0
                            (of_int (max 1 (tn_clock tn - or_requestedAt r))) (tn_now tn)\<rparr>
                 in (end_request tn requestId R_Acknowledged e2, returns V_Unit)))"

definition on_cancel :: "js_value \<Rightarrow> engine \<Rightarrow> engine \<times> activation" where
  "on_cancel message e =
     (case requireStringField message ''requestId'' of
        Inl err \<Rightarrow> (e, throws err)
      | Inr requestId \<Rightarrow> (e\<lparr>en_tombstones := js_add requestId (en_tombstones e)\<rparr>, returns V_Unit))"

definition on_reject :: "turn \<Rightarrow> string \<Rightarrow> js_value \<Rightarrow> engine \<Rightarrow> engine \<times> activation" where
  "on_reject tn peerId message e =
     (case requireStringField message ''requestId'' of
        Inl err \<Rightarrow> (e, throws err)
      | Inr requestId \<Rightarrow>
          (case jm_get (en_outstanding e) requestId of
             None \<Rightarrow> (e, returns V_Unit)
           | Some r \<Rightarrow>
               if or_peerId r \<noteq> peerId then (e, returns V_Unit)
               else
                 let e1 = reject_peer (or_peerId r) (release_lease (or_fileId r) (or_pieceIndex r) requestId e)
                 in continue_with
                      (case bind_result (requireManager e1 (or_fileId r)) (\<lambda>_. requireStringField message ''reason'') of
                         Inl err \<Rightarrow> (e1, Inl err)
                       | Inr reason \<Rightarrow>
                           turn_bind (call_manager e1 (or_fileId r) (\<lambda>m. markFailed m (tn_now tn) (or_pieceIndex r) reason)) (\<lambda>e2 _.
                             emitRetryPerformance (or_fileId r) (or_pieceIndex r) (or_peerId r) requestId reason e2))
                      (\<lambda>e3 _.
                         case finalizeDirectRequest tn requestId R_ProviderReject e3 of
                           (e4, True) \<Rightarrow> (e4, returns V_Unit)
                         | (e4, False) \<Rightarrow>
                             let e5 = drop_request requestId e4
                             in (case bind_result (requireManager e5 (or_fileId r)) (\<lambda>m. getPieceState m (or_pieceIndex r)) of
                                   Inl err \<Rightarrow> (e5, throws err)
                                 | Inr p \<Rightarrow>
                                     if en_maxRetries e5 < ps_retryCount p then (e5, returns V_Unit)
                                     else continue_with (call_manager e5 (or_fileId r)
                                            (\<lambda>m. resetFailedToMissing m (tn_now tn) (or_pieceIndex r))) (\<lambda>e6 _.
                                       await_call F_Discard
                                         (case or_gridOptions r of
                                            Some opts \<Rightarrow> requestNextGridPiece_start tn (or_fileId r) opts e6
                                          | None \<Rightarrow> requestNextPiece_start tn (or_peerId r) (or_fileId r) None e6))))))"

definition message_type :: "js_value \<Rightarrow> string option" where
  "message_type message = (if isRecord message then (case jfield message ''type'' of JStr t \<Rightarrow> Some t | _ \<Rightarrow> None) else None)"

definition handleTransportMessage :: "turn \<Rightarrow> string \<Rightarrow> js_value \<Rightarrow> engine \<Rightarrow> engine \<times> activation" where
  "handleTransportMessage tn peerId message e =
     await_call F_Handler
       (case message_type message of
          None \<Rightarrow> (e, returns V_Unit)
        | Some type \<Rightarrow>
            let e1 = e\<lparr>en_knownPeers := js_add peerId (en_knownPeers e)\<rparr>
            in if type = ''PIECE_REQUEST'' then
                 (case parsePieceRequest message of
                    Inl err \<Rightarrow> (e1, throws err)
                  | Inr request \<Rightarrow> (queueRequestedPiece peerId request e1, returns V_Unit))
               else if type = ''PIECE_MAP'' then
                 (case parsePieceMapBroadcast message of
                    Inl err \<Rightarrow> (e1, throws err)
                  | Inr m \<Rightarrow> continue_with (updatePeerPieceMapEngine peerId m (if peerId = ''owner'' then Owner else Receiver) e1)
                      (\<lambda>e2 _. (e2, returns V_Unit)))
               else if type = ''PIECE_CHUNK_HEADER'' then
                 (case parseChunkHeader message of
                    Inl err \<Rightarrow> (e1, throws err)
                  | Inr header \<Rightarrow> on_chunk_header tn peerId header e1)
               else if type = ''PIECE_ACK'' then on_ack tn peerId message e1
               else if type = ''PIECE_CANCEL'' then on_cancel message e1
               else if type = ''PIECE_REJECT'' then on_reject tn peerId message e1
               else (e1, returns V_Unit))"

text \<open>The \<open>catch\<close> of \<open>bindTransport\<close>; the code of the error stands for its message.\<close>

definition handler_done :: "outcome \<Rightarrow> engine \<Rightarrow> engine \<times> activation" where
  "handler_done out e =
     (case out of
        Ok _ \<Rightarrow> (e, returns V_Unit)
      | Err err \<Rightarrow> (emit (Ev_PieceRejected '''' (- 1) (error_code_of err)) e, returns V_Unit))"

end
