(* ===== verification/Engine_Loop.thy ===== *)
theory Engine_Loop
  imports Engine_Receive
begin

text \<open>
  The running engine: \<open>PonsWarpEngine\<close> of \<open>packages/core/src/index.ts\<close> as a state together with its suspended calls.
  A \<open>grid_event\<close> is one turn of the event loop: a call from the application, a message, a timer, a task of a window queue,
  the end of an awaited operation, or the resumption of a suspended call. Any order of
  events is allowed, so every interleaving of the real scheduler is among them. \<open>createSession\<close>,
  \<open>joinSession\<close> and \<open>resumeFile\<close> are given as whole calls; they replace piece managers and are meant to run while no other call of their
  files is suspended.
\<close>

section \<open>Resuming a call\<close>

definition resume_frame :: "digest \<Rightarrow> turn \<Rightarrow> frame \<Rightarrow> outcome \<Rightarrow> engine \<Rightarrow> engine \<times> activation" where
  "resume_frame D tn frame out e =
     (case frame of
        F_RequestSent requestId peerId fileId index scheduled \<Rightarrow> requestNextPiece_sent tn requestId peerId fileId index scheduled out e
      | F_RequestSaved requestId peerId fileId index scheduled \<Rightarrow> requestNextPiece_saved tn requestId peerId fileId index scheduled out e
      | F_Fill a key cap peerId fileId opts scheduled \<Rightarrow> fill_resume tn a key cap peerId fileId opts scheduled out e
      | F_TaskDone a trackFailure \<Rightarrow> task_done a trackFailure out e
      | F_GridSent res \<Rightarrow> grid_sent tn res out e
      | F_GridSaved res \<Rightarrow> grid_saved res out e
      | F_EndgameSent res \<Rightarrow> endgame_sent res out e
      | F_GridEndgame fileId opts maxTotal scheduled \<Rightarrow> grid_endgame_resume tn fileId opts maxTotal scheduled out e
      | F_GridFill fileId opts maxTotal scheduled \<Rightarrow> grid_fill_resume tn fileId opts maxTotal scheduled out e
      | F_Hashed inp expectedPeerId descriptor \<Rightarrow> receivePiece_hashed D tn inp expectedPeerId descriptor out e
      | F_RejectDeleted inp outstanding descriptor \<Rightarrow> receivePiece_deleted tn inp outstanding descriptor out e
      | F_RejectSaved inp outstanding descriptor \<Rightarrow> receivePiece_reject_saved tn inp outstanding descriptor out e
      | F_Written inp outstanding descriptor startedAt \<Rightarrow> receivePiece_written tn inp outstanding descriptor startedAt out e
      | F_VerifiedSaved inp outstanding descriptor \<Rightarrow> receivePiece_verified_saved tn inp outstanding descriptor out e
      | F_Broadcast inp descriptor \<Rightarrow> receivePiece_broadcast inp descriptor out e
      | F_Assembled peerId header \<Rightarrow> binary_assembled peerId header out e
      | F_Respond peerId header outstanding \<Rightarrow> binary_respond tn peerId header outstanding out e
      | F_Responded result outstanding \<Rightarrow> binary_responded tn result outstanding out e
      | F_ChunkRejectSent peerId header outstanding finalizedDirect hasManager \<Rightarrow>
          rejectIncomingChunk_sent tn peerId header outstanding finalizedDirect hasManager out e
      | F_ChunkRejected \<Rightarrow> chunk_rejected out e
      | F_PersistTail \<Rightarrow> persist_tail tn out e
      | F_Discard \<Rightarrow> discard_value out e
      | F_Handler \<Rightarrow> handler_done out e)"

section \<open>Events\<close>

text \<open>
  \<open>Call_DirectPiece\<close> and its companions are the methods that the application calls. \<open>Timer\<close> carries the request that the
  timer's closure holds. \<open>Settle\<close> ends an awaited operation of the platform and \<open>Resume\<close> runs the continuation of a call whose
  awaited operation or call has ended; both name the suspended call by its position.
\<close>

datatype grid_event =
    Call_DirectPiece string string "direct_options option"
  | Call_DirectWindow string string direct_options "jsnum option"
  | Call_GridPiece string grid_options
  | Call_GridWindow string grid_options "jsnum option" "jsnum option"
  | Call_Receive receive_input "string option"
  | Call_Broadcast string "string list"
  | Call_UpdateMap string piece_map_broadcast provider_role
  | Call_SetHealth string "peer_health \<Rightarrow> peer_health"
  | Call_ChunkBytes jsnum
  | Call_ExpireDirect int
  | Call_CancelDirect cancel_selector
  | Call_Flush
  | Call_FlushEnd "nat list"
  | Call_DisposeEnd
  | Message string js_value
  | Binary string bytes
  | Serve string "nat option"
  | Timer string outstanding_request
  | Window_Turn nat
  | Settle nat outcome
  | Resume nat

record world =
  wd_engine :: engine
  wd_calls :: "activation list"

definition quiet :: "'a turn_result \<Rightarrow> engine \<times> activation" where
  "quiet r = continue_with r (\<lambda>e _. (e, returns V_Unit))"

definition timer_live :: "string \<Rightarrow> outstanding_request \<Rightarrow> engine \<Rightarrow> bool" where
  "timer_live requestId request e \<longleftrightarrow> requestId \<in> set (en_directTimers e) \<and>
     (case jm_get (en_outstanding e) requestId of None \<Rightarrow> True | Some r \<Rightarrow> request = r)"

text \<open>What an event that starts code of its own does; \<open>None\<close> when it cannot happen.\<close>

definition event_turn :: "turn \<Rightarrow> grid_event \<Rightarrow> engine \<Rightarrow> (engine \<times> activation) option" where
  "event_turn tn ev e =
     (case ev of
        Call_DirectPiece peerId fileId opts \<Rightarrow> Some (requestNextPiece_start tn peerId fileId opts e)
      | Call_DirectWindow peerId fileId opts maxInFlight \<Rightarrow> Some (quiet (requestPieceWindow tn peerId fileId opts maxInFlight e))
      | Call_GridPiece fileId opts \<Rightarrow> Some (requestNextGridPiece_start tn fileId opts e)
      | Call_GridWindow fileId opts maxTotal maxPerPeer \<Rightarrow> Some (requestGridPieceWindow_start tn fileId opts maxTotal maxPerPeer e)
      | Call_Receive inp expectedPeerId \<Rightarrow> Some (receivePiece_start inp expectedPeerId e)
      | Call_Broadcast fileId peers \<Rightarrow> Some (broadcastPieceMap tn fileId peers [F_Discard] e)
      | Call_UpdateMap peerId m role \<Rightarrow> Some (quiet (updatePeerPieceMapEngine peerId m role e))
      | Call_SetHealth peerId patch \<Rightarrow> Some (setPeerHealth peerId patch e, returns V_Unit)
      | Call_ChunkBytes b \<Rightarrow> Some (setTransferChunkBytes e b, returns V_Unit)
      | Call_ExpireDirect now \<Rightarrow> Some (quiet (expireDirectRequests tn now e))
      | Call_CancelDirect s \<Rightarrow> Some (quiet (cancelDirectRequests tn s e))
      | Call_Flush \<Rightarrow> Some (quiet (flush_begin tn e))
      | Call_FlushEnd windows \<Rightarrow> Some (fst (flush_end windows e), returns V_Unit)
      | Call_DisposeEnd \<Rightarrow> Some (dispose_end e, returns V_Unit)
      | Message peerId message \<Rightarrow> Some (handleTransportMessage tn peerId message e)
      | Binary peerId frame \<Rightarrow> Some (handleTransportBinary tn peerId frame e)
      | Serve peerId sent \<Rightarrow> Some (serve_next peerId sent e, returns V_Unit)
      | Timer requestId request \<Rightarrow>
          (if timer_live requestId request e then Some (quiet (timer_fired tn requestId request e)) else None)
      | Window_Turn a \<Rightarrow> window_turn tn a e
      | Settle _ _ \<Rightarrow> None
      | Resume _ \<Rightarrow> None)"

definition grid_step :: "digest \<Rightarrow> turn \<Rightarrow> grid_event \<Rightarrow> world \<Rightarrow> world option" where
  "grid_step D tn ev w =
     (case ev of
        Settle n out \<Rightarrow>
          if n < length (wd_calls w)
          then (case wd_calls w ! n of
                  (None, frames) \<Rightarrow> Some (w\<lparr>wd_calls := (wd_calls w)[n := (Some out, frames)]\<rparr>)
                | _ \<Rightarrow> None)
          else None
      | Resume n \<Rightarrow>
          if n < length (wd_calls w)
          then (case wd_calls w ! n of
                  (Some out, frame # rest) \<Rightarrow>
                    (case resume_frame D tn frame out (wd_engine w) of
                       (e, out', frames) \<Rightarrow> Some \<lparr>wd_engine = e, wd_calls = (wd_calls w)[n := (out', frames @ rest)]\<rparr>)
                | _ \<Rightarrow> None)
          else None
      | _ \<Rightarrow>
          (case event_turn tn ev (wd_engine w) of
             None \<Rightarrow> None
           | Some (e, call) \<Rightarrow> Some \<lparr>wd_engine = e, wd_calls = wd_calls w @ [call]\<rparr>))"

text \<open>The worlds that the engine \<open>e0\<close> can reach by events that satisfy \<open>P\<close>.\<close>

inductive reachable :: "digest \<Rightarrow> (grid_event \<Rightarrow> bool) \<Rightarrow> engine \<Rightarrow> world \<Rightarrow> bool" for D P e0 where
  start: "reachable D P e0 \<lparr>wd_engine = e0, wd_calls = []\<rparr>"
| step: "reachable D P e0 w \<Longrightarrow> P ev \<Longrightarrow> grid_step D tn ev w = Some w' \<Longrightarrow> reachable D P e0 w'"

text \<open>A run of given events, for examples.\<close>

fun run_events :: "digest \<Rightarrow> (turn \<times> grid_event) list \<Rightarrow> world \<Rightarrow> world option" where
  "run_events D [] w = Some w"
| "run_events D ((tn, ev) # rest) w = (case grid_step D tn ev w of None \<Rightarrow> None | Some w' \<Rightarrow> run_events D rest w')"

lemma reachable_run:
  "reachable D P e0 w \<Longrightarrow> \<forall>(tn, ev) \<in> set evs. P ev \<Longrightarrow> run_events D evs w = Some w' \<Longrightarrow> reachable D P e0 w'"
  by (induction D evs w rule: run_events.induct) (auto split: option.splits intro: reachable.step)

end
