(* ===== verification/Engine_Contract.thy ===== *)
theory Engine_Contract
  imports Engine_Loop
begin

text \<open>
  The interface between the engine's code and its invariants. The locale \<open>engine_contract\<close> lists what a property
  of the engine must survive: the few elementary changes out of which every turn is made, such as an emitted event, a piece
  that is marked, a request that is issued or ended, a window that changes. From these laws the
  property is carried through every method, every suspended frame and every interleaving, once and for all; an
  invariant of the engine is then an interpretation.
\<close>

section \<open>What turns must keep\<close>

text \<open>The fields that the invariants look at are unchanged.\<close>

definition soft :: "engine \<Rightarrow> engine \<Rightarrow> bool" where
  "soft e e' \<longleftrightarrow> en_sessionId e' = en_sessionId e \<and> en_manifests e' = en_manifests e \<and> en_managers e' = en_managers e \<and>
     en_outstanding e' = en_outstanding e \<and> en_hasTransport e' = en_hasTransport e \<and>
     en_directTimers e' = en_directTimers e \<and> en_windowMap e' = en_windowMap e \<and> en_windows e' = en_windows e \<and>
     en_maxRetries e' = en_maxRetries e \<and> en_store e' = en_store e \<and> en_events e' = en_events e \<and>
     en_windowCap e' = en_windowCap e \<and> en_outbox e' = en_outbox e \<and> en_writes e' = en_writes e \<and> en_saves e' = en_saves e"

fun terminal :: "engine_event \<Rightarrow> bool" where
  "terminal (Ev_Terminal t) = True"
| "terminal _ = False"

fun is_request :: "wire_message \<Rightarrow> bool" where
  "is_request (PieceRequest r) = True"
| "is_request _ = False"

definition piece_desc :: "(string, file_manifest) js_map \<Rightarrow> string \<Rightarrow> int \<Rightarrow> piece_descriptor option" where
  "piece_desc M fileId index = (case jm_get M fileId of None \<Rightarrow> None | Some m \<Rightarrow> arr_at (fm_pieces m) index)"

definition task_ok :: "(direct_options \<Rightarrow> bool) \<Rightarrow> window_task \<Rightarrow> bool" where
  "task_ok opts_ok task =
     (case task of
        Task_Fill _ _ opts \<Rightarrow> opts_ok opts
      | Task_Expire _ \<Rightarrow> True
      | Task_Retry _ key _ _ _ _ opts \<Rightarrow> opts_ok opts \<and> do_windowKey opts = Some key)"

definition frame_ok :: "digest \<Rightarrow> (string, file_manifest) js_map \<Rightarrow> (int \<Rightarrow> bool) \<Rightarrow> (direct_options \<Rightarrow> bool) \<Rightarrow> frame \<Rightarrow> bool" where
  "frame_ok D M cap_ok opts_ok frame =
     (case frame of
        F_Fill a key cap peerId fileId opts scheduled \<Rightarrow> cap_ok cap \<and> opts_ok opts
      | F_Hashed inp expectedPeerId descriptor \<Rightarrow> piece_desc M (ri_fileId inp) (ri_pieceIndex inp) = Some descriptor
      | F_Written inp outstanding descriptor startedAt \<Rightarrow>
          piece_desc M (ri_fileId inp) (ri_pieceIndex inp) = Some descriptor \<and> verifyPiece D (ri_data inp) descriptor
      | _ \<Rightarrow> True)"

lemma frame_ok_simps [simp]:
  "frame_ok D M cap_ok opts_ok (F_RequestSent r p f i s)" "frame_ok D M cap_ok opts_ok (F_RequestSaved r p f i s)"
  "frame_ok D M cap_ok opts_ok (F_Fill a key cap p f opts ss) \<longleftrightarrow> cap_ok cap \<and> opts_ok opts"
  "frame_ok D M cap_ok opts_ok (F_TaskDone a tf)" "frame_ok D M cap_ok opts_ok (F_GridSent res)"
  "frame_ok D M cap_ok opts_ok (F_GridSaved res)" "frame_ok D M cap_ok opts_ok (F_EndgameSent res)"
  "frame_ok D M cap_ok opts_ok (F_GridEndgame f gopts n rs)" "frame_ok D M cap_ok opts_ok (F_GridFill f gopts n rs)"
  "frame_ok D M cap_ok opts_ok (F_Hashed inp ex d) \<longleftrightarrow> piece_desc M (ri_fileId inp) (ri_pieceIndex inp) = Some d"
  "frame_ok D M cap_ok opts_ok (F_RejectDeleted inp q d)" "frame_ok D M cap_ok opts_ok (F_RejectSaved inp q d)"
  "frame_ok D M cap_ok opts_ok (F_Written inp q d t) \<longleftrightarrow>
     piece_desc M (ri_fileId inp) (ri_pieceIndex inp) = Some d \<and> verifyPiece D (ri_data inp) d"
  "frame_ok D M cap_ok opts_ok (F_VerifiedSaved inp q d)" "frame_ok D M cap_ok opts_ok (F_Broadcast inp d)"
  "frame_ok D M cap_ok opts_ok (F_Respond p h rq)" "frame_ok D M cap_ok opts_ok (F_Responded rr rq)"
  "frame_ok D M cap_ok opts_ok (F_ChunkRejectSent p h q fin hm)" "frame_ok D M cap_ok opts_ok F_ChunkRejected"
  "frame_ok D M cap_ok opts_ok (F_Assembled p h)" "frame_ok D M cap_ok opts_ok F_PersistTail"
  "frame_ok D M cap_ok opts_ok F_Discard" "frame_ok D M cap_ok opts_ok F_Handler"
  by (simp_all add: frame_ok_def)

text \<open>The room that a window leaves for one more request.\<close>

definition room :: "(int \<Rightarrow> bool) \<Rightarrow> direct_options \<Rightarrow> engine \<Rightarrow> bool" where
  "room cap_ok d e \<longleftrightarrow> (\<exists>key cap. do_windowKey d = Some key \<and> cap_ok cap \<and> countOutstandingRequestsForWindow e key < cap)"

definition issue :: "string \<Rightarrow> outstanding_request \<Rightarrow> engine \<Rightarrow> engine" where
  "issue requestId r e =
     fst (sendPieceRequest (or_peerId r) (or_fileId r) (or_pieceIndex r) requestId []
       ((if or_direct r = None then id else armDirectTimer requestId)
         (e\<lparr>en_outstanding := jm_set requestId r (en_outstanding e)\<rparr>)))"

text \<open>The calls of the application that a property allows.\<close>

definition call_ok :: "bool \<Rightarrow> (int \<Rightarrow> bool) \<Rightarrow> (direct_options \<Rightarrow> bool) \<Rightarrow> grid_event \<Rightarrow> bool" where
  "call_ok free cap_ok opts_ok ev =
     (case ev of
        Call_DirectPiece _ _ (Some d) \<Rightarrow> free \<and> opts_ok d
      | Call_DirectWindow _ _ d maxInFlight \<Rightarrow> opts_ok d \<and>
          (\<forall>c. maxInFlight = Some (num_of_int c) \<longrightarrow> cap_ok c)
      | _ \<Rightarrow> True)"

text \<open>What holds of the engine and of the frames that a turn leaves.\<close>

definition act_ok :: "(engine \<Rightarrow> bool) \<Rightarrow> (frame \<Rightarrow> bool) \<Rightarrow> engine \<times> activation \<Rightarrow> bool" where
  "act_ok I F r \<longleftrightarrow> I (fst r) \<and> (\<forall>f \<in> set (snd (snd r)). F f)"

definition turn_ok :: "(engine \<Rightarrow> bool) \<Rightarrow> 'a turn_result \<Rightarrow> bool" where
  "turn_ok I r \<longleftrightarrow> I (fst r)"

lemma with_manager_Inr:
  "with_manager e f op = Inr e' \<longleftrightarrow> (\<exists>m m'. jm_get (en_managers e) f = Some m \<and> op m = Inr m' \<and>
     e' = e\<lparr>en_managers := jm_set f m' (en_managers e)\<rparr>)"
  by (cases "jm_get (en_managers e) f") (auto simp: with_manager_def requireManager_def bind_result_Inr_iff)

lemma jm_set_set: "jm_set k v (jm_set k u m) = jm_set k v m"
  by (induction m) auto

lemma soft_sym: "soft e e' \<Longrightarrow> soft e' e"
  by (simp add: soft_def)

section \<open>The laws\<close>

locale engine_contract =
  fixes inv :: "engine \<Rightarrow> bool"
    and D :: digest
    and M :: "(string, file_manifest) js_map"
    and cap_ok :: "int \<Rightarrow> bool"
    and opts_ok :: "direct_options \<Rightarrow> bool"
    and free :: bool
  assumes manifests: "inv e \<Longrightarrow> en_manifests e = M"
    and soft_ok: "inv e \<Longrightarrow> soft e e' \<Longrightarrow> inv e'"
    and emit_ok: "inv e \<Longrightarrow> \<not> terminal ev \<Longrightarrow> inv (emit ev e)"
    and send_ok: "inv e \<Longrightarrow> \<not> is_request msg \<Longrightarrow> inv (send_message p msg e)"
    and save_ok: "inv e \<Longrightarrow> persisted_state now e = Some s \<Longrightarrow> inv (e\<lparr>en_saves := en_saves e @ [s]\<rparr>)"
    and requested_ok: "inv e \<Longrightarrow> with_manager e f (\<lambda>m. markRequested m now i p) = Inr e' \<Longrightarrow> inv e'"
    and failed_ok: "inv e \<Longrightarrow> with_manager e f (\<lambda>m. markFailed m now i reason) = Inr e' \<Longrightarrow> inv e'"
    and reset_ok: "inv e \<Longrightarrow> with_manager e f (\<lambda>m. resetFailedToMissing m now i) = Inr e' \<Longrightarrow> inv e'"
    and write_ok: "inv e \<Longrightarrow> piece_desc M f i = Some desc \<Longrightarrow> verifyPiece D bs desc \<Longrightarrow>
      inv (e\<lparr>en_store := (en_store e)((f, i) := Some bs), en_writes := en_writes e @ [(f, i, bs)]\<rparr>)"
    and verified_ok: "inv e \<Longrightarrow> (f, i, bs) \<in> set (en_writes e) \<Longrightarrow>
      with_manager e f (\<lambda>m. markVerified m now i) = Inr e' \<Longrightarrow> inv e'"
    and delete_ok: "inv e \<Longrightarrow> inv (e\<lparr>en_store := (en_store e)(k := None)\<rparr>)"
    and finalize_ok: "inv e \<Longrightarrow> inv (fst (finalizeDirectRequest tn r status e))"
    and drop_ok: "inv e \<Longrightarrow> inv (e\<lparr>en_outstanding := jm_delete r (en_outstanding e)\<rparr>)"
    and plain_ok: "inv e \<Longrightarrow> or_direct q = None \<Longrightarrow> inv (issue r q e)"
    and direct_ok: "inv e \<Longrightarrow> opts_ok d \<Longrightarrow> free \<or> room cap_ok d e \<Longrightarrow> direct_entry tn p f d e = (e2, info) \<Longrightarrow>
      inv (issue r \<lparr>or_fileId = f, or_pieceIndex = i, or_peerId = p, or_requestedAt = t, or_gridOptions = None,
        or_direct = Some info\<rparr> e2)"
    and opts_key_ok: "opts_ok d \<Longrightarrow> opts_ok (d\<lparr>do_windowKey := wk\<rparr>)"
    and window_new_ok: "inv e \<Longrightarrow> cap_ok cap \<Longrightarrow> inv (new_window key (fresh_window f p c cap g) e)"
    and window_drop_ok: "inv e \<Longrightarrow> inv (e\<lparr>en_windowMap := jm_delete key (en_windowMap e)\<rparr>)"
    and window_set_ok: "inv e \<Longrightarrow> a < length (en_windows e) \<Longrightarrow> dw_cap w = dw_cap (en_windows e ! a) \<Longrightarrow>
      set (dw_queue w) \<subseteq> set (dw_queue (en_windows e ! a)) \<Longrightarrow> inv (set_window a w e)"
    and enqueue_ok: "inv e \<Longrightarrow> task_ok opts_ok task \<Longrightarrow> inv (enqueueWindow key task track e)"
    and queue_ok: "inv e \<Longrightarrow> a < length (en_windows e) \<Longrightarrow> (task, track) \<in> set (dw_queue (en_windows e ! a)) \<Longrightarrow> task_ok opts_ok task"
    and cap_of_ok: "inv e \<Longrightarrow> a < length (en_windows e) \<Longrightarrow> cap_ok (dw_cap (en_windows e ! a))"
    and default_cap_ok: "inv e \<Longrightarrow> cap_ok (case en_windowCap e of Some c \<Rightarrow> c | None \<Rightarrow> 1)"
    and address_ok: "inv e \<Longrightarrow> jm_get (en_windowMap e) key = Some a \<Longrightarrow> a < length (en_windows e)"
    and dispose_ok: "inv e \<Longrightarrow> inv (dispose_end e)"
begin

abbreviation fok :: "frame \<Rightarrow> bool" where
  "fok \<equiv> frame_ok D M cap_ok opts_ok"

abbreviation aok :: "engine \<times> activation \<Rightarrow> bool" where
  "aok \<equiv> act_ok inv fok"

abbreviation tok :: "'a turn_result \<Rightarrow> bool" where
  "tok \<equiv> turn_ok inv"

subsection \<open>Composition\<close>

lemma act_intro [intro]: "inv e \<Longrightarrow> (\<And>f. f \<in> set fs \<Longrightarrow> fok f) \<Longrightarrow> aok (e, out, fs)"
  by (simp add: act_ok_def)

lemma act_return [intro, simp]: "aok (e, out, []) = inv e"
  by (simp add: act_ok_def)

lemma turn_intro [intro, simp]: "tok (e, r) = inv e"
  by (simp add: turn_ok_def)

lemma continue_ok:
  "tok r \<Longrightarrow> (\<And>e a. r = (e, Inr a) \<Longrightarrow> inv e \<Longrightarrow> aok (k e a)) \<Longrightarrow> aok (continue_with r k)"
  by (auto simp: continue_with_def turn_ok_def split: prod.splits sum.splits)

lemma bind_ok:
  "tok r \<Longrightarrow> (\<And>e a. r = (e, Inr a) \<Longrightarrow> inv e \<Longrightarrow> tok (f e a)) \<Longrightarrow> tok (turn_bind r f)"
  by (auto simp: turn_bind_def turn_ok_def split: prod.splits sum.splits)

lemma await_call_ok: "fok frame \<Longrightarrow> aok r \<Longrightarrow> aok (await_call frame r)"
  by (auto simp: await_call_def act_ok_def split: prod.splits)

lemma await_send_ok: "inv e \<Longrightarrow> \<not> is_request msg \<Longrightarrow> (\<And>f. f \<in> set fs \<Longrightarrow> fok f) \<Longrightarrow> aok (await_send p msg fs e)"
  by (auto simp: await_send_def act_ok_def send_ok split: sum.splits)

lemma await_platform_ok: "inv e \<Longrightarrow> (\<And>f. f \<in> set fs \<Longrightarrow> fok f) \<Longrightarrow> aok (await_platform fs e)"
  by (auto simp: await_platform_def act_ok_def)

lemma persist_ok: "inv e \<Longrightarrow> (\<And>f. f \<in> set fs \<Longrightarrow> fok f) \<Longrightarrow> aok (persistState tn fs e)"
  by (auto simp: persistState_def act_ok_def intro: save_ok split: option.splits)

lemma call_ok1:
  "inv e \<Longrightarrow> (\<And>e'. with_manager e f op = Inr e' \<Longrightarrow> inv e') \<Longrightarrow> tok (call_manager e f op)"
  by (auto simp: call_manager_def split: sum.splits)

lemma call_if_ok: "inv e \<Longrightarrow> tok (call_manager e f op) \<Longrightarrow> tok (call_manager_if e f op)"
  by (auto simp: call_manager_if_def split: option.splits)

lemma call_failed: "inv e \<Longrightarrow> tok (call_manager e f (\<lambda>m. markFailed m now i reason))"
  by (rule call_ok1) (auto intro: failed_ok)

lemma call_requested: "inv e \<Longrightarrow> tok (call_manager e f (\<lambda>m. markRequested m now i p))"
  by (rule call_ok1) (auto intro: requested_ok)

lemma call_reset: "inv e \<Longrightarrow> tok (call_manager e f (\<lambda>m. resetFailedToMissing m now i))"
  by (rule call_ok1) (auto intro: reset_ok)

lemma call_failed_reset:
  assumes "inv e"
  shows "tok (call_manager e f (\<lambda>m. bind_result (markFailed m now i reason) (\<lambda>m. resetFailedToMissing m now' i)))"
proof (rule call_ok1 [OF assms])
  fix e' assume "with_manager e f (\<lambda>m. bind_result (markFailed m now i reason) (\<lambda>m. resetFailedToMissing m now' i)) = Inr e'"
  then obtain m m1 m2 where m: "jm_get (en_managers e) f = Some m" "markFailed m now i reason = Inr m1"
    "resetFailedToMissing m1 now' i = Inr m2" and e': "e' = e\<lparr>en_managers := jm_set f m2 (en_managers e)\<rparr>"
    unfolding with_manager_Inr bind_result_Inr_iff by blast
  define e1 where "e1 = e\<lparr>en_managers := jm_set f m1 (en_managers e)\<rparr>"
  have "with_manager e f (\<lambda>m. markFailed m now i reason) = Inr e1" unfolding with_manager_Inr e1_def using m by blast
  then have "inv e1" by (rule failed_ok [OF assms])
  moreover have "with_manager e1 f (\<lambda>m. resetFailedToMissing m now' i) = Inr e'"
    unfolding with_manager_Inr using m by (auto simp: e1_def e' jm_set_set)
  ultimately show "inv e'" by (rule reset_ok)
qed

lemmas composed = continue_ok bind_ok await_call_ok await_send_ok await_platform_ok persist_ok call_if_ok call_failed
  call_requested call_reset call_failed_reset

lemma set_window_ok:
  assumes "inv e" and "a < length (en_windows e) \<Longrightarrow> dw_cap w = dw_cap (en_windows e ! a)"
    and "a < length (en_windows e) \<Longrightarrow> set (dw_queue w) \<subseteq> set (dw_queue (en_windows e ! a))"
  shows "inv (set_window a w e)"
proof (cases "a < length (en_windows e)")
  case True
  with assms show ?thesis by (auto intro: window_set_ok)
next
  case False
  then have "set_window a w e = e" by (cases e) (simp add: set_window_def list_update_beyond)
  then show ?thesis using assms(1) by simp
qed

lemma soft_iff: "soft e e' \<Longrightarrow> inv e' = inv e"
  using soft_ok soft_sym by blast

lemma soft_updates [simp]:
  "inv (e\<lparr>en_health := h\<rparr>) = inv e"
  "inv (e\<lparr>en_availability := av\<rparr>) = inv e"
  "inv (e\<lparr>en_pendingChunks := pc\<rparr>) = inv e"
  "inv (e\<lparr>en_incomingChunks := ic\<rparr>) = inv e"
  "inv (e\<lparr>en_sendQueues := sq\<rparr>) = inv e"
  "inv (e\<lparr>en_localGenerations := lg\<rparr>) = inv e"
  "inv (e\<lparr>en_knownPeers := kp\<rparr>) = inv e"
  "inv (e\<lparr>en_tombstones := ts\<rparr>) = inv e"
  "inv (e\<lparr>en_nextGeneration := ng\<rparr>) = inv e"
  "inv (e\<lparr>en_chunkBytes := cb\<rparr>) = inv e"
  by (rule soft_iff; simp add: soft_def)+

subsection \<open>The direct lifecycle\<close>

lemma soft_refl [simp, intro]: "soft e e"
  by (simp add: soft_def)

lemma finalize_fst [intro]: "inv e \<Longrightarrow> finalizeDirectRequest tn r status e = (e', b) \<Longrightarrow> inv e'"
  using finalize_ok [of e tn r status] by simp

lemma prune_loop_ok: "inv e \<Longrightarrow> inv (prune_loop e k keys)"
  by (induction e k keys rule: prune_loop.induct) (auto intro: window_drop_ok)

lemma prune_ok: "inv e \<Longrightarrow> inv (pruneDirectLifecycleMetadata k e)"
  by (simp add: pruneDirectLifecycleMetadata_def prune_loop_ok)

lemma lifecycle_error_ok: "inv e \<Longrightarrow> inv (emitDirectLifecycleError tn phase q r err e)"
  by (auto simp: emitDirectLifecycleError_def Let_def intro!: emit_ok set_window_ok split: option.splits)

lemma expire_request_ok: "inv e \<Longrightarrow> tok (expireDirectRequest tn r e)"
  unfolding expireDirectRequest_def Let_def
  by (auto intro!: composed finalize_ok emit_ok split: option.splits)

lemma timer_fired_ok: "inv e \<Longrightarrow> tok (timer_fired tn r q e)"
  by (auto simp: timer_fired_def task_ok_def intro!: expire_request_ok enqueue_ok split: option.splits)

lemma expire_loop_ok: "inv e \<Longrightarrow> tok (expire_loop tn now rs e)"
  by (induction tn now rs e rule: expire_loop.induct) (auto intro!: bind_ok expire_request_ok)

lemma expire_all_ok: "inv e \<Longrightarrow> tok (expireDirectRequests tn now e)"
  by (simp add: expireDirectRequests_def expire_loop_ok)

lemma generation_ok: "inv e \<Longrightarrow> tok (allocateDirectGeneration e)"
  by (auto simp: allocateDirectGeneration_def soft_def intro: soft_ok)

lemma cancel_windows_ok: "inv e \<Longrightarrow> tok (cancel_windows s ws e)"
proof (induction ws arbitrary: e)
  case (Cons x ws)
  obtain key a where x: "x = (key, a)" by (cases x)
  have "inv (set_window b ((en_windows e ! b)\<lparr>dw_generation := g\<rparr>) e)" if "inv e" for b g e
    using that by (intro set_window_ok) simp_all
  moreover have "inv (set_window a ((en_windows e ! a)\<lparr>dw_disabled := True\<rparr>) e)"
    using Cons.prems by (intro set_window_ok) simp_all
  ultimately show ?case unfolding x cancel_windows.simps Let_def
    using Cons.prems by (simp add: bind_ok generation_ok Cons.IH)
qed simp

lemma tombstone_ok: "inv e \<Longrightarrow> inv (addDirectTombstone r e)"
  by (rule soft_ok) (simp_all add: addDirectTombstone_def Let_def soft_def)

lemma cancel_requests_ok: "inv e \<Longrightarrow> inv (fst (cancel_requests tn s rs n e))"
proof (induction rs arbitrary: n e)
  case (Cons x rs)
  obtain r q where x: "x = (r, q)" by (cases x)
  obtain e2 b where fin: "finalizeDirectRequest tn r R_Cancelled (addDirectTombstone r e) = (e2, b)" by fastforce
  have "inv e2" by (rule finalize_fst [OF tombstone_ok [OF Cons.prems] fin])
  then show ?case using Cons by (cases "or_direct q") (simp_all add: x fin)
qed simp

lemma cancel_ok: "inv e \<Longrightarrow> tok (cancelDirectRequests tn s e)"
  unfolding cancelDirectRequests_def Let_def
  by (auto simp: case_prod_beta intro!: bind_ok cancel_windows_ok prune_ok cancel_requests_ok)

lemma flush_begin_ok: "inv e \<Longrightarrow> tok (flush_begin tn e)"
  by (auto simp: flush_begin_def intro!: bind_ok expire_all_ok)

lemma flush_end_ok: "inv e \<Longrightarrow> inv (fst (flush_end ws e))"
  by (auto simp: flush_end_def intro!: prune_ok set_window_ok split: option.splits)

end

end
