(* ===== verification/Engine_Turns.thy ===== *)
theory Engine_Turns
  imports Engine_Contract
begin

text \<open>
  The engine's methods under \<open>engine_contract\<close>: every turn of \<open>PonsWarpEngine\<close> keeps the contract's invariant and leaves
  frames that may be resumed, and so does every reachable interleaving.
\<close>

lemma call_manager_keeps:
  "call_manager e f op = (e', r) \<Longrightarrow> en_outstanding e' = en_outstanding e \<and> en_windowMap e' = en_windowMap e \<and>
     en_windows e' = en_windows e \<and> en_manifests e' = en_manifests e \<and> en_writes e' = en_writes e \<and> en_store e' = en_store e"
  by (auto simp: call_manager_def with_manager_Inr split: sum.splits)

lemma call_manager_if_keeps:
  "call_manager_if e f op = (e', r) \<Longrightarrow> en_outstanding e' = en_outstanding e \<and> en_windowMap e' = en_windowMap e \<and>
     en_windows e' = en_windows e \<and> en_manifests e' = en_manifests e"
  using call_manager_keeps by (auto simp: call_manager_if_def split: option.splits)

lemma in_set_tl: "x \<in> set (tl xs) \<Longrightarrow> x \<in> set xs"
  by (cases xs) auto

context engine_contract
begin

subsection \<open>Direct requests\<close>

lemma issue_act:
  assumes "inv (issue r q e)" and "\<And>f. f \<in> set fs \<Longrightarrow> fok f"
  shows "aok (sendPieceRequest (or_peerId q) (or_fileId q) (or_pieceIndex q) r fs
    ((if or_direct q = None then id else armDirectTimer r) (e\<lparr>en_outstanding := jm_set r q (en_outstanding e)\<rparr>)))"
  using assms by (auto simp: issue_def sendPieceRequest_def await_send_def act_ok_def split: sum.splits)

lemma next_piece_start_ok:
  assumes "inv e" and "case opts of None \<Rightarrow> True | Some d \<Rightarrow> opts_ok d \<and> (free \<or> room cap_ok d e)"
  shows "aok (requestNextPiece_start tn p f opts e)"
proof -
  have req: "aok (let (e2, direct) = (case opts of None \<Rightarrow> (e1, None)
        | Some d \<Rightarrow> (let (e2, i) = direct_entry tn p f d e1 in (e2, Some i)));
      e3 = e2\<lparr>en_outstanding := jm_set rid \<lparr>or_fileId = f, or_pieceIndex = index, or_peerId = p,
        or_requestedAt = tn_clock tn, or_gridOptions = None, or_direct = direct\<rparr> (en_outstanding e2)\<rparr>;
      e4 = (if opts = None then e3 else armDirectTimer rid e3)
    in sendPieceRequest p f index rid [F_RequestSent rid p f index sch] e4)"
    if e1: "inv e1" "en_outstanding e1 = en_outstanding e" for e1 rid index sch
  proof (cases opts)
    case None
    show ?thesis using None
      issue_act [OF plain_ok [OF e1(1), of "\<lparr>or_fileId = f, or_pieceIndex = index, or_peerId = p, or_requestedAt = tn_clock tn,
        or_gridOptions = None, or_direct = None\<rparr>" rid], of "[F_RequestSent rid p f index sch]"] by (simp add:)
  next
    case (Some d)
    obtain e2 i where de: "direct_entry tn p f d e1 = (e2, i)" by (cases "direct_entry tn p f d e1")
    have "free \<or> room cap_ok d e1"
      using assms(2) e1(2) by (auto simp: Some room_def countOutstandingRequestsForWindow_def)
    with direct_ok [OF e1(1) _ _ de, of rid index "tn_clock tn"] assms(2)
    have "inv (issue rid \<lparr>or_fileId = f, or_pieceIndex = index, or_peerId = p, or_requestedAt = tn_clock tn,
        or_gridOptions = None, or_direct = Some i\<rparr> e2)" by (simp add: Some)
    from issue_act [OF this, of "[F_RequestSent rid p f index sch]"] show ?thesis
      by (simp add: Some de)
  qed
  show ?thesis
    unfolding requestNextPiece_start_def
    using assms(1) req
    by (auto simp: Let_def intro!: continue_ok call_requested dest: call_manager_keeps split: sum.splits option.splits)
qed

lemma next_piece_sent_ok: "inv e \<Longrightarrow> aok (requestNextPiece_sent tn r p f i s out e)"
  by (auto simp: requestNextPiece_sent_def intro!: composed finalize_ok split: outcome.splits)

lemma next_piece_saved_ok: "inv e \<Longrightarrow> aok (requestNextPiece_saved tn r p f i s out e)"
  by (auto simp: requestNextPiece_saved_def Let_def intro!: composed finalize_ok lifecycle_error_ok split: outcome.splits)

lemma fill_step_ok:
  assumes "inv e" and "cap_ok cap" and "opts_ok opts"
  shows "aok (fill_step tn a key cap p f opts s e)"
  unfolding fill_step_def
  using assms opts_key_ok [OF assms(3), of "Some key"]
  by (auto simp: room_def intro!: await_call_ok next_piece_start_ok)

lemma fill_resume_ok:
  "inv e \<Longrightarrow> cap_ok cap \<Longrightarrow> opts_ok opts \<Longrightarrow> aok (fill_resume tn a key cap p f opts s out e)"
  by (auto simp: fill_resume_def intro!: fill_step_ok split: outcome.splits call_value.splits option.splits)

lemma piece_window_ok:
  assumes "inv e" and "opts_ok opts" and "\<forall>c. maxInFlight = Some (num_of_int c) \<longrightarrow> cap_ok c"
  shows "tok (requestPieceWindow tn p f opts maxInFlight e)"
proof (cases "assertPositiveSafeInteger (case maxInFlight of Some n \<Rightarrow> n
    | None \<Rightarrow> (case en_windowCap e of Some c \<Rightarrow> num_of_int c | None \<Rightarrow> num_of_int 1))")
  case (Inl err)
  with assms(1) show ?thesis by (simp add: requestPieceWindow_def)
next
  case (Inr c)
  have c: "cap_ok c"
  proof (cases maxInFlight)
    case None
    with Inr default_cap_ok [OF assms(1)] show ?thesis
      by (auto simp: assertPositiveSafeInteger_Inr num_of_int_def split: option.splits)
  next
    case (Some n)
    with Inr assms(3) show ?thesis by (auto simp: assertPositiveSafeInteger_Inr)
  qed
  show ?thesis
    unfolding requestPieceWindow_def Inr sum.case Let_def
    using assms(1,2) c
    by (auto simp: task_ok_def intro!: bind_ok generation_ok prune_ok window_new_ok enqueue_ok opts_key_ok split: option.splits)
qed

lemma retry_ok:
  assumes "inv e" and "opts_ok opts" and "do_windowKey opts = Some key"
  shows "aok (retry_start tn r key f i p g opts e)"
proof (cases "window_at e key")
  case None
  with assms(1) show ?thesis by (simp add: retry_start_def)
next
  case (Some w)
  then obtain a where a: "jm_get (en_windowMap e) key = Some a" "w = en_windows e ! a"
    by (auto simp: window_at_def split: option.splits)
  have cap: "cap_ok (dw_cap w)" using cap_of_ok address_ok assms(1) a by blast
  have start: "aok (requestNextPiece_start tn p f (Some opts) e1)"
    if "inv e1" "en_outstanding e1 = en_outstanding e" "\<not> dw_cap w \<le> countOutstandingRequestsForWindow e key" for e1
  proof -
    have "room cap_ok opts e1" using that cap assms(3)
      by (auto simp: room_def countOutstandingRequestsForWindow_def intro!: exI [of _ "dw_cap w"])
    with that(1) assms(2) show ?thesis by (intro next_piece_start_ok) auto
  qed
  show ?thesis
    unfolding retry_start_def Some option.case
    using assms(1) start
    by (auto intro!: continue_ok await_call_ok call_if_ok call_reset dest: call_manager_if_keeps)
qed

lemma task_start_ok:
  assumes "inv e" and "a < length (en_windows e)" and "task_ok opts_ok task"
  shows "aok (task_start tn a task e)"
  using assms unfolding task_start_def
  by (auto simp: task_ok_def intro!: fill_step_ok cap_of_ok retry_ok continue_ok expire_request_ok split: window_task.splits option.splits)

lemma window_turn_ok:
  assumes "inv e" and "window_turn tn a e = Some r"
  shows "aok r"
proof -
  let ?w = "en_windows e ! a"
  from assms(2) have a: "a < length (en_windows e)" "\<not> dw_running ?w"
    by (auto simp: window_turn_def Let_def split: if_splits)
  with assms(2) obtain task tf rest where q: "dw_queue ?w = (task, tf) # rest"
    by (auto simp: window_turn_def Let_def split: list.splits)
  have t: "task_ok opts_ok task" using queue_ok [OF assms(1) a(1), of task tf] q by simp
  have run: "inv (set_window a (?w\<lparr>dw_running := True\<rparr>) e)" using assms(1) by (intro set_window_ok) auto
  have "aok (task_start tn a task (set_window a (?w\<lparr>dw_running := True\<rparr>) e))"
    using a(1) by (intro task_start_ok [OF run _ t]) (simp add: set_window_def)
  moreover have "inv (set_window a (?w\<lparr>dw_queue := rest\<rparr>) e)" using assms(1) q by (intro set_window_ok) auto
  ultimately show ?thesis
    using assms(2) a q by (auto simp: window_turn_def Let_def intro!: await_call_ok split: if_splits)
qed

lemma task_done_ok:
  assumes "inv e"
  shows "aok (task_done a tf out e)"
proof -
  have "inv (set_window a w e)"
    if "dw_cap w = dw_cap (en_windows e ! a)" "dw_queue w = tl (dw_queue (en_windows e ! a))" for w
    using assms that by (intro set_window_ok) (simp_all add: subsetI in_set_tl)
  then show ?thesis by (auto simp: task_done_def Let_def split: outcome.splits)
qed

subsection \<open>Grid scheduling\<close>

lemma broadcast_ok:
  assumes "inv e" and "\<And>f. f \<in> set fs \<Longrightarrow> fok f"
  shows "aok (broadcastPieceMap tn f peers fs e)"
proof -
  have "inv (fold (\<lambda>p e. send_message p (PieceMapMsg m) e) ps e1)" if "inv e1" for ps e1 m
    using that by (induction ps arbitrary: e1) (simp_all add: send_ok)
  moreover have "inv (fst (exportPieceMapBroadcast tn f e))"
    using assms(1) by (auto simp: exportPieceMapBroadcast_def Let_def split: sum.splits)
  ultimately show ?thesis using assms(2)
    by (auto simp: broadcastPieceMap_def act_ok_def split: prod.splits sum.splits)
qed

lemma update_map_ok: "inv e \<Longrightarrow> tok (updatePeerPieceMapEngine p m role e)"
  by (auto simp: updatePeerPieceMapEngine_def Let_def case_prod_beta intro!: emit_ok split: sum.splits)

lemma set_health_ok: "inv e \<Longrightarrow> inv (setPeerHealth p patch e)"
  by (simp add: setPeerHealth_def)

lemma retry_event_ok: "inv e \<Longrightarrow> tok (emitRetryPerformance f i p r reason e)"
  by (auto simp: emitRetryPerformance_def intro!: emit_ok split: option.splits sum.splits)

lemma drop_soft_ok: "inv e \<Longrightarrow> inv (e\<lparr>en_outstanding := jm_delete r (en_outstanding e), en_incomingChunks := ic\<rparr>)"
  by (simp add: drop_ok)

lemma expire_leased_ok: "inv e \<Longrightarrow> tok (expire_leased tn ls e)"
proof (induction ls arbitrary: e)
  case (Cons l ls)
  show ?case
  proof (cases "jm_get (en_outstanding e) (rl_requestId l)")
    case None
    with Cons show ?thesis by simp
  next
    case (Some q)
    show ?thesis unfolding expire_leased.simps Some option.case Let_def
      by (intro bind_ok call_failed_reset retry_event_ok Cons.IH emit_ok drop_soft_ok Cons.prems soft_updates(1) [THEN iffD2]) simp_all
  qed
qed simp

lemma expire_leases_ok: "inv e \<Longrightarrow> tok (expireRequestLeases tn now e)"
  by (auto simp: expireRequestLeases_def case_prod_beta intro!: expire_leased_ok)

lemma grid_items_ok: "inv e \<Longrightarrow> tok (grid_items f opts k act now missing e)"
  by (induction missing arbitrary: e)
    (auto simp: Let_def case_prod_beta intro!: bind_ok split: sum.splits prod.splits)

lemma seed_ok: "inv e \<Longrightarrow> tok (seed_availability f opts now e)"
  by (auto simp: seed_availability_def Let_def case_prod_beta split: sum.splits)

lemma ranked_items_ok: "inv e \<Longrightarrow> tok (ranked_items f opts now missing e)"
  by (auto simp: ranked_items_def intro!: bind_ok grid_items_ok)

lemma plain_request_ok:
  assumes "inv e" and "\<And>f. f \<in> set fs \<Longrightarrow> fok f"
  shows "aok (sendPieceRequest p f i r fs (e\<lparr>en_outstanding := jm_set r \<lparr>or_fileId = f, or_pieceIndex = i, or_peerId = p,
    or_requestedAt = t, or_gridOptions = g, or_direct = None\<rparr> (en_outstanding e)\<rparr>))"
  using issue_act [OF plain_ok [OF assms(1), of "\<lparr>or_fileId = f, or_pieceIndex = i, or_peerId = p,
    or_requestedAt = t, or_gridOptions = g, or_direct = None\<rparr>" r], of fs] assms(2) by simp

lemma schedule_item_ok: "inv e \<Longrightarrow> aok (schedule_item tn f opts now item v e)"
  by (auto simp: schedule_item_def Let_def intro!: continue_ok call_requested plain_request_ok split: sum.splits)

lemma next_grid_ok: "inv e \<Longrightarrow> aok (requestNextGridPiece_start tn f opts e)"
  unfolding requestNextGridPiece_start_def Let_def
  by (auto intro!: continue_ok bind_ok expire_leases_ok seed_ok ranked_items_ok schedule_item_ok split: sum.splits grid_choice.splits)

lemma grid_sent_ok: "inv e \<Longrightarrow> aok (grid_sent tn res out e)"
  by (auto simp: grid_sent_def intro!: persist_ok split: outcome.splits)

lemma grid_saved_ok: "inv e \<Longrightarrow> aok (grid_saved res out e)"
  by (auto simp: grid_saved_def split: outcome.splits)

lemma endgame_loop_ok: "inv e \<Longrightarrow> aok (endgame_loop tn f opts now act is e)"
proof (induction "is" arbitrary: e)
  case (Cons i js)
  then show ?case
    by (auto simp: Let_def intro!: continue_ok call_requested plain_request_ok split: prod.splits list.splits)
qed simp

lemma endgame_start_ok: "inv e \<Longrightarrow> aok (endgame_start tn f opts e)"
  unfolding endgame_start_def Let_def
  by (auto intro!: continue_ok expire_leases_ok endgame_loop_ok split: sum.splits)

lemma endgame_sent_ok: "inv e \<Longrightarrow> aok (endgame_sent res out e)"
  by (auto simp: endgame_sent_def split: outcome.splits)

lemma grid_fill_step_ok: "inv e \<Longrightarrow> aok (grid_fill_step tn f opts n s e)"
  by (auto simp: grid_fill_step_def intro!: await_call_ok endgame_start_ok)

lemma grid_fill_result_ok: "inv e \<Longrightarrow> aok (grid_fill_result tn f opts n s res e)"
  by (auto simp: grid_fill_result_def intro!: grid_fill_step_ok split: grid_result.splits)

lemma grid_endgame_resume_ok: "inv e \<Longrightarrow> aok (grid_endgame_resume tn f opts n s out e)"
  by (auto simp: grid_endgame_resume_def intro!: grid_fill_result_ok await_call_ok next_grid_ok
      split: outcome.splits call_value.splits)

lemma grid_fill_resume_ok: "inv e \<Longrightarrow> aok (grid_fill_resume tn f opts n s out e)"
  by (auto simp: grid_fill_resume_def intro!: grid_fill_result_ok split: outcome.splits call_value.splits)

lemma grid_window_ok: "inv e \<Longrightarrow> aok (requestGridPieceWindow_start tn f opts m k e)"
  by (auto simp: requestGridPieceWindow_start_def intro!: grid_fill_step_ok split: sum.splits)

lemma cancel_competing_ok: "inv e \<Longrightarrow> tok (cancelCompetingGridRequests f i keep e)"
proof -
  have "tok (cancel_competing_loop f i keep rs e)" if "inv e" for rs e
    using that
  proof (induction rs arbitrary: e)
    case (Cons x rs)
    obtain r q where x: "x = (r, q)" by (cases x)
    define e1 where "e1 = e\<lparr>en_outstanding := jm_delete r (en_outstanding e),
      en_incomingChunks := jm_delete r (en_incomingChunks e), en_tombstones := js_add r (en_tombstones e),
      en_pendingChunks := filter (\<lambda>(p, h). ch_requestId h \<noteq> r) (en_pendingChunks e)\<rparr>"
    have "soft (e\<lparr>en_outstanding := jm_delete r (en_outstanding e)\<rparr>) e1" by (simp add: e1_def soft_def)
    then have "inv e1" using drop_ok [OF Cons.prems] soft_ok by blast
    then show ?case using Cons by (auto simp: x e1_def [symmetric] Let_def intro!: Cons.IH send_ok split: sum.splits)
  qed simp
  moreover assume "inv e"
  ultimately show ?thesis by (simp add: cancelCompetingGridRequests_def)
qed

end

context engine_contract
begin

subsection \<open>Receiving\<close>

lemma release_lease_ok [simp]: "inv (release_lease f i r e) = inv e"
  by (simp add: release_lease_def)

lemma reject_peer_ok [simp]: "inv (reject_peer p e) = inv e"
  by (simp add: reject_peer_def)

lemma drop_request_ok: "inv e \<Longrightarrow> inv (drop_request r e)"
  by (simp add: drop_request_def drop_ok)

lemma end_request_ok: "inv e \<Longrightarrow> inv (end_request tn r status e)"
  by (auto simp: end_request_def intro: drop_request_ok split: prod.splits bool.splits)

lemma progress_ok: "inv e \<Longrightarrow> tok (progress_event f e)"
  by (auto simp: progress_event_def intro!: emit_ok split: sum.splits)

lemma receive_start_ok:
  assumes "inv e"
  shows "aok (receivePiece_start inp ex e)"
  unfolding receivePiece_start_def requireManifest_def manifests [OF assms]
  using assms by (auto simp: piece_desc_def intro!: await_platform_ok split: sum.splits option.splits)

lemma reject_hash_ok: "inv e \<Longrightarrow> aok (reject_hash tn inp d e)"
  unfolding reject_hash_def Let_def
  by (auto intro!: continue_ok bind_ok call_failed retry_event_ok await_platform_ok split: option.splits)

lemma hashed_ok:
  assumes "inv e" and "piece_desc M (ri_fileId inp) (ri_pieceIndex inp) = Some d"
  shows "aok (receivePiece_hashed D tn inp ex d out e)"
  using assms by (auto simp: receivePiece_hashed_def intro!: reject_hash_ok await_platform_ok split: outcome.splits)

lemma deleted_ok: "inv e \<Longrightarrow> aok (receivePiece_deleted tn inp q d out e)"
  by (auto simp: receivePiece_deleted_def intro!: persist_ok delete_ok split: outcome.splits)

lemma reject_saved_ok:
  assumes "inv e"
  shows "aok (receivePiece_reject_saved tn inp q d out e)"
proof -
  have "inv (case out of Ok _ \<Rightarrow> e | Err err \<Rightarrow> fst (finalizeDirectRequest tn (ri_requestId inp) R_Cancelled
      (emitDirectLifecycleError tn ''persist'' q (Some (ri_requestId inp)) err e)))"
    using assms by (auto intro!: finalize_ok lifecycle_error_ok split: outcome.splits)
  then show ?thesis unfolding receivePiece_reject_saved_def Let_def
    by (intro continue_ok progress_ok emit_ok end_request_ok) auto
qed

lemma credit_peer_ok: "inv e \<Longrightarrow> inv (credit_peer tn inp q e)"
  by (auto simp: credit_peer_def Let_def intro!: emit_ok)

lemma written_ok:
  assumes "inv e" and d: "piece_desc M (ri_fileId inp) (ri_pieceIndex inp) = Some d" "verifyPiece D (ri_data inp) d"
  shows "aok (receivePiece_written tn inp q d t out e)"
proof (cases out)
  case (Err err)
  then show ?thesis using assms(1)
    by (auto simp: receivePiece_written_def Let_def intro!: continue_ok call_failed finalize_ok lifecycle_error_ok)
next
  case (Ok v)
  define e2 where "e2 = emit (Ev_Performance (Perf_StorageWrite (ri_fileId inp) (ri_pieceIndex inp) (int (length (ri_data inp)))
      (max 0 (tn_clock tn - t)))) (e\<lparr>en_store := (en_store e)((ri_fileId inp, ri_pieceIndex inp) := Some (ri_data inp)),
        en_writes := en_writes e @ [(ri_fileId inp, ri_pieceIndex inp, ri_data inp)]\<rparr>)"
  have e2: "inv e2" unfolding e2_def by (intro emit_ok write_ok [OF assms(1) d]) simp
  have "(ri_fileId inp, ri_pieceIndex inp, ri_data inp) \<in> set (en_writes e2)" by (simp add: e2_def emit_def)
  then have "tok (call_manager e2 (ri_fileId inp) (\<lambda>m. markVerified m (tn_now tn) (ri_pieceIndex inp)))"
    by (intro call_ok1 [OF e2]) (rule verified_ok [OF e2])
  then show ?thesis unfolding receivePiece_written_def Ok outcome.case Let_def e2_def [symmetric]
    by (intro continue_ok persist_ok) (auto intro!: credit_peer_ok split: option.splits)
qed

lemma finish_ok: "inv e \<Longrightarrow> aok (receivePiece_finish inp d e)"
  by (auto simp: receivePiece_finish_def Let_def intro!: continue_ok progress_ok emit_ok)

lemma verified_saved_ok: "inv e \<Longrightarrow> aok (receivePiece_verified_saved tn inp q d out e)"
  by (auto simp: receivePiece_verified_saved_def Let_def
      intro!: continue_ok call_failed finalize_ok lifecycle_error_ok cancel_competing_ok end_request_ok finish_ok broadcast_ok
      split: outcome.splits)

lemma broadcast_done_ok: "inv e \<Longrightarrow> aok (receivePiece_broadcast inp d out e)"
  by (auto simp: receivePiece_broadcast_def intro!: finish_ok split: outcome.splits)

lemma reject_chunk_start_ok:
  assumes "inv e"
  shows "aok (rejectIncomingChunk_start tn p h e)"
proof -
  have fin: "aok (let (e3, fd) = finalizeDirectRequest tn r R_InvalidChunk e2;
      e4 = (if fd then e3 else drop_request r e3); e5 = reject_peer p e4
    in continue_with (if hm then emitRetryPerformance f i p r ''invalid_chunk'' e5 else (e5, Inr ())) (\<lambda>e6 _.
         await_send p (PieceReject f x r ''invalid_chunk'' None) [F_ChunkRejectSent p h q fd hm] e6))" if "inv e2" for e2 r f i x q hm
  proof -
    obtain e3 fd where f: "finalizeDirectRequest tn r R_InvalidChunk e2 = (e3, fd)" by fastforce
    have "inv e3" by (rule finalize_fst [OF that f])
    then have "inv (reject_peer p (if fd then e3 else drop_request r e3))" by (simp add: drop_request_ok)
    then show ?thesis unfolding f Let_def prod.case
      by (intro continue_ok await_send_ok) (auto intro: retry_event_ok)
  qed
  show ?thesis unfolding rejectIncomingChunk_start_def Let_def [of "ch_requestId h"] Let_def [of "piece_number _"]
      Let_def [of "jm_get _ _"] Let_def [of "_ \<noteq> None"] Let_def [of "release_lease _ _ _ _"]
    by (intro continue_ok call_if_ok call_failed fin) (simp_all add: assms)
qed

lemma reject_chunk_sent_ok: "inv e \<Longrightarrow> aok (rejectIncomingChunk_sent tn p h q fd hm out e)"
  unfolding rejectIncomingChunk_sent_def Let_def
  by (auto intro!: continue_ok bind_ok progress_ok emit_ok persist_ok call_reset await_call_ok next_grid_ok next_piece_start_ok
      split: outcome.splits sum.splits option.splits)

lemma append_start_ok: "inv e \<Longrightarrow> aok (append_start tn p h frame e)"
  unfolding append_start_def Let_def case_prod_beta
  by (auto intro!: await_call_ok reject_chunk_start_ok split: append_result.splits)

lemma binary_ok: "inv e \<Longrightarrow> aok (handleTransportBinary tn p frame e)"
  unfolding handleTransportBinary_def
  by (intro await_call_ok) (auto intro!: await_call_ok append_start_ok split: option.splits)

lemma assembled_ok: "inv e \<Longrightarrow> aok (binary_assembled p h out e)"
  by (auto simp: binary_assembled_def intro!: await_call_ok receive_start_ok split: outcome.splits call_value.splits option.splits)

lemma respond_ok: "inv e \<Longrightarrow> aok (binary_respond tn p h q out e)"
  by (auto simp: binary_respond_def Let_def response_message_def
      intro!: continue_ok call_if_ok call_failed finalize_ok lifecycle_error_ok await_send_ok
      split: outcome.splits call_value.splits receive_result.splits)

lemma responded_ok: "inv e \<Longrightarrow> aok (binary_responded tn rr q out e)"
  by (auto simp: binary_responded_def intro!: continue_ok call_reset await_call_ok next_grid_ok
      split: outcome.splits receive_result.splits option.splits sum.splits)

subsection \<open>Messages\<close>

lemma chunk_header_ok: "inv e \<Longrightarrow> aok (on_chunk_header tn p h e)"
  by (auto simp: on_chunk_header_def intro!: await_call_ok reject_chunk_start_ok split: option.splits)

lemma ack_ok: "inv e \<Longrightarrow> aok (on_ack tn p msg e)"
  unfolding on_ack_def Let_def by (auto intro!: end_request_ok split: sum.splits option.splits)

lemma cancel_message_ok: "inv e \<Longrightarrow> aok (on_cancel msg e)"
  by (auto simp: on_cancel_def split: sum.splits)

lemma reject_message_ok:
  assumes "inv e"
  shows "aok (on_reject tn p msg e)"
proof -
  have fin: "aok (case finalizeDirectRequest tn r R_ProviderReject e3 of
      (e4, True) \<Rightarrow> (e4, returns V_Unit)
    | (e4, False) \<Rightarrow> let e5 = drop_request r e4
        in (case bind_result (requireManager e5 (or_fileId q)) (\<lambda>m. getPieceState m (or_pieceIndex q)) of
              Inl err \<Rightarrow> (e5, throws err)
            | Inr pc \<Rightarrow> if en_maxRetries e5 < ps_retryCount pc then (e5, returns V_Unit)
                else continue_with (call_manager e5 (or_fileId q) (\<lambda>m. resetFailedToMissing m (tn_now tn) (or_pieceIndex q))) (\<lambda>e6 _.
                  await_call F_Discard (case or_gridOptions q of
                      Some opts \<Rightarrow> requestNextGridPiece_start tn (or_fileId q) opts e6
                    | None \<Rightarrow> requestNextPiece_start tn (or_peerId q) (or_fileId q) None e6))))"
    if "inv e3" for e3 r q
  proof -
    obtain e4 fd where f: "finalizeDirectRequest tn r R_ProviderReject e3 = (e4, fd)" by fastforce
    have e4: "inv e4" by (rule finalize_fst [OF that f])
    then have "inv (drop_request r e4)" by (rule drop_request_ok)
    with e4 show ?thesis unfolding f
      by (cases fd) (auto simp: Let_def intro!: continue_ok call_reset await_call_ok next_grid_ok next_piece_start_ok
        split: sum.splits option.splits)
  qed
  show ?thesis
  proof (cases "requireStringField msg ''requestId''")
    case (Inl err)
    with assms show ?thesis by (simp add: on_reject_def)
  next
    case (Inr r)
    show ?thesis
    proof (cases "jm_get (en_outstanding e) r")
      case None
      with assms Inr show ?thesis by (simp add: on_reject_def)
    next
      case (Some q)
      have "inv (reject_peer (or_peerId q) (release_lease (or_fileId q) (or_pieceIndex q) r e))" using assms by simp
      then have "tok (case bind_result (requireManager e1 (or_fileId q)) (\<lambda>_. requireStringField msg ''reason'') of
            Inl err \<Rightarrow> (e1, Inl err)
          | Inr reason \<Rightarrow> turn_bind (call_manager e1 (or_fileId q) (\<lambda>m. markFailed m (tn_now tn) (or_pieceIndex q) reason)) (\<lambda>e2 _.
              emitRetryPerformance (or_fileId q) (or_pieceIndex q) (or_peerId q) r reason e2))"
        if "e1 = reject_peer (or_peerId q) (release_lease (or_fileId q) (or_pieceIndex q) r e)" for e1
        using that by (auto intro!: bind_ok call_failed retry_event_ok split: sum.splits)
      then show ?thesis using assms unfolding on_reject_def Inr Some sum.case option.case
        by (auto simp: Let_def [of "reject_peer _ _"] intro!: continue_ok fin)
    qed
  qed
qed

lemma if_ok: "aok x \<Longrightarrow> aok y \<Longrightarrow> aok (if c then x else y)"
  by simp

lemma message_ok:
  assumes "inv e"
  shows "aok (handleTransportMessage tn p msg e)"
proof -
  have e1: "inv (e\<lparr>en_knownPeers := js_add p (en_knownPeers e)\<rparr>)" using assms by simp
  note parts = chunk_header_ok [OF e1] ack_ok [OF e1] cancel_message_ok [OF e1] reject_message_ok [OF e1]
  show ?thesis unfolding handleTransportMessage_def
  proof (rule await_call_ok)
    show "aok (case message_type msg of None \<Rightarrow> (e, returns V_Unit) | Some type \<Rightarrow>
            let e1 = e\<lparr>en_knownPeers := js_add p (en_knownPeers e)\<rparr>
            in if type = ''PIECE_REQUEST'' then
                 (case parsePieceRequest msg of
                    Inl err \<Rightarrow> (e1, throws err)
                  | Inr request \<Rightarrow> (queueRequestedPiece p request e1, returns V_Unit))
               else if type = ''PIECE_MAP'' then
                 (case parsePieceMapBroadcast msg of
                    Inl err \<Rightarrow> (e1, throws err)
                  | Inr m \<Rightarrow> continue_with (updatePeerPieceMapEngine p m (if p = ''owner'' then Owner else Receiver) e1)
                      (\<lambda>e2 _. (e2, returns V_Unit)))
               else if type = ''PIECE_CHUNK_HEADER'' then
                 (case parseChunkHeader msg of
                    Inl err \<Rightarrow> (e1, throws err)
                  | Inr header \<Rightarrow> on_chunk_header tn p header e1)
               else if type = ''PIECE_ACK'' then on_ack tn p msg e1
               else if type = ''PIECE_CANCEL'' then on_cancel msg e1
               else if type = ''PIECE_REJECT'' then on_reject tn p msg e1
               else (e1, returns V_Unit))"
    proof (cases "message_type msg")
      case None
      with assms show ?thesis by simp
    next
      case (Some t)
      show ?thesis unfolding Some option.case Let_def
        by (intro if_ok parts) (use e1 in \<open>auto simp: queueRequestedPiece_def intro!: continue_ok update_map_ok parts split: sum.splits\<close>)
    qed
  qed simp
qed

lemma handler_done_ok: "inv e \<Longrightarrow> aok (handler_done out e)"
  by (auto simp: handler_done_def intro!: emit_ok split: outcome.splits)

subsection \<open>Serving\<close>

lemma send_all_ok: "inv e \<Longrightarrow> \<forall>m \<in> set ms. \<not> is_request m \<Longrightarrow> inv (fold (\<lambda>m e. send_message p m e) ms e)"
  by (induction ms arbitrary: e) (auto intro: send_ok)

lemma served_messages:
  assumes "requested_piece_messages e rq = Inr ms" and "m \<in> set ms"
  shows "\<not> is_request m"
proof -
  have "\<not> is_request m" if "m \<in> set (chunk_messages k rq data)" for k data
    using that by (auto simp: chunk_messages_def)
  moreover have "(\<exists>reason. ms = [reject_message rq reason]) \<or> (\<exists>k data. ms = chunk_messages k rq data) \<or> ms = []"
    using assms(1) unfolding requested_piece_messages_def bind_result_Inr_iff [of "requireManifest _ _"]
  proof (elim exE conjE)
    fix manifest
    assume *: "(case real_at (fm_pieces manifest) (rq_pieceIndex rq) of None \<Rightarrow> Inr [reject_message rq ''missing_piece'']
        | Some piece \<Rightarrow> bind_result
            (case jm_get (en_ownerSources e) (rq_fileId rq) of
                Some source \<Rightarrow>
                  Inr (Inr (js_slice source (round_half_even (of_int (pd_offset piece) + rq_fromOffset rq))
                    (pd_offset piece + pd_size piece)))
              | None \<Rightarrow>
                  (case jm_get (en_managers e) (rq_fileId rq) of
                     None \<Rightarrow> Inr (Inl ''missing_piece'')
                   | Some manager \<Rightarrow>
                       bind_result (getPieceState manager \<lfloor>rq_pieceIndex rq\<rfloor>) (\<lambda>p.
                         if ps_status p \<noteq> Verified then Inr (Inl ''missing_piece'')
                         else case en_store e (rq_fileId rq, \<lfloor>rq_pieceIndex rq\<rfloor>) of
                             None \<Rightarrow> Inr (Inl ''storage_read_failed'')
                           | Some stored \<Rightarrow> Inr (Inr (js_slice stored (truncate_number (rq_fromOffset rq)) (int (length stored)))))))
             (\<lambda>r. case r of
                Inl reason \<Rightarrow> Inr [reject_message rq reason]
              | Inr data \<Rightarrow>
                  (case en_chunkBytes e of
                     Fin k \<Rightarrow> Inr (chunk_messages \<lfloor>k\<rfloor> rq data)
                   | _ \<Rightarrow> Inr []))) = Inr ms"
    show ?thesis
    proof (cases "real_at (fm_pieces manifest) (rq_pieceIndex rq)")
      case None
      with * show ?thesis by auto
    next
      case (Some piece)
      from * obtain r where "(case r of Inl reason \<Rightarrow> Inr [reject_message rq reason] | Inr data \<Rightarrow>
          (case en_chunkBytes e of Fin k \<Rightarrow> Inr (chunk_messages \<lfloor>k\<rfloor> rq data) | _ \<Rightarrow> Inr [])) = (Inr ms :: wire_message list result)"
        unfolding Some option.case bind_result_Inr_iff by blast
      then show ?thesis by (cases r) (auto split: jsnum.splits)
    qed
  qed
  ultimately show ?thesis using assms(2) by (auto simp: reject_message_def)
qed

lemma serve_ok:
  assumes "inv e"
  shows "inv (serve_next p sent e)"
proof (cases "jm_get (en_sendQueues e) p")
  case None
  with assms show ?thesis by (simp add: serve_next_def)
next
  case (Some q)
  show ?thesis
  proof (cases q)
    case Nil
    with Some assms show ?thesis by (simp add: serve_next_def)
  next
    case (Cons rq rest)
    define e1 where "e1 = e\<lparr>en_sendQueues := (if rest = [] then jm_delete p (en_sendQueues e) else jm_set p rest (en_sendQueues e))\<rparr>"
    have e1: "inv e1" using assms by (simp add: e1_def)
    show ?thesis unfolding serve_next_def Some Cons option.case list.case e1_def [symmetric] Let_def
      using e1 by (auto simp: bind_result_Inr_iff intro!: emit_ok send_all_ok dest: served_messages in_set_takeD split: sum.splits option.splits)
  qed
qed

subsection \<open>The event loop\<close>

lemmas frame_cases_ok = next_piece_sent_ok next_piece_saved_ok fill_resume_ok task_done_ok grid_sent_ok grid_saved_ok endgame_sent_ok
  grid_endgame_resume_ok grid_fill_resume_ok hashed_ok deleted_ok reject_saved_ok written_ok verified_saved_ok broadcast_done_ok
  assembled_ok respond_ok responded_ok reject_chunk_sent_ok handler_done_ok

lemma resume_ok: "inv e \<Longrightarrow> fok frame \<Longrightarrow> aok (resume_frame D tn frame out e)"
  by (cases frame; simp add: resume_frame_def frame_cases_ok)
    (auto simp: chunk_rejected_def persist_tail_def discard_value_def intro!: persist_ok split: outcome.splits)

lemma quiet_ok: "tok r \<Longrightarrow> aok (quiet r)"
  by (auto simp: quiet_def intro!: continue_ok)

lemma event_ok:
  assumes "inv e" and "call_ok free cap_ok opts_ok ev" and "event_turn tn ev e = Some r"
  shows "aok r"
proof (cases ev)
  case (Call_DirectPiece p f opts)
  with assms show ?thesis
    by (auto simp: event_turn_def call_ok_def intro!: next_piece_start_ok split: option.splits)
next
  case (Window_Turn a)
  with assms show ?thesis by (auto simp: event_turn_def intro: window_turn_ok)
next
  case (Call_ChunkBytes b)
  with assms show ?thesis by (auto simp: event_turn_def setTransferChunkBytes_def)
qed (use assms in \<open>auto simp: event_turn_def call_ok_def split: if_splits
      intro!: quiet_ok piece_window_ok next_grid_ok grid_window_ok receive_start_ok broadcast_ok update_map_ok set_health_ok
        expire_all_ok cancel_ok flush_begin_ok flush_end_ok dispose_ok message_ok binary_ok serve_ok timer_fired_ok\<close>)

definition world_ok :: "world \<Rightarrow> bool" where
  "world_ok w \<longleftrightarrow> inv (wd_engine w) \<and> (\<forall>c \<in> set (wd_calls w). \<forall>f \<in> set (snd c). fok f)"

lemma step_ok:
  assumes w: "world_ok w" and "call_ok free cap_ok opts_ok ev" and step: "grid_step D tn ev w = Some w'"
  shows "world_ok w'"
proof -
  have inv: "inv (wd_engine w)" using w by (simp add: world_ok_def)
  have fin: "world_ok \<lparr>wd_engine = e, wd_calls = wd_calls w @ [call]\<rparr>"
    if "event_turn tn ev (wd_engine w) = Some (e, call)" for e call
    using event_ok [OF inv assms(2) that] w by (auto simp: world_ok_def act_ok_def)
  have upd: "world_ok \<lparr>wd_engine = e, wd_calls = (wd_calls w)[n := (out, frames)]\<rparr>"
    if "inv e" "\<And>f. f \<in> set frames \<Longrightarrow> fok f" for e n out frames
    using that w set_update_subset_insert [of "wd_calls w" n "(out, frames)"] by (auto simp: world_ok_def)
  show ?thesis
  proof (cases ev)
    case (Settle n out)
    with step obtain frames where n: "n < length (wd_calls w)" "wd_calls w ! n = (None, frames)"
      and w': "w' = w\<lparr>wd_calls := (wd_calls w)[n := (Some out, frames)]\<rparr>"
      by (auto simp: grid_step_def split: if_splits prod.splits option.splits)
    have "\<forall>f \<in> set frames. fok f" using w nth_mem [OF n(1)] n(2) by (fastforce simp: world_ok_def)
    then show ?thesis using upd [OF inv, of frames n "Some out"] by (simp add: w' world_ok_def)
  next
    case (Resume n)
    with step obtain out frame rest e out' frames where n: "n < length (wd_calls w)" "wd_calls w ! n = (Some out, frame # rest)"
      and r: "resume_frame D tn frame out (wd_engine w) = (e, out', frames)"
      and w': "w' = \<lparr>wd_engine = e, wd_calls = (wd_calls w)[n := (out', frames @ rest)]\<rparr>"
      by (auto simp: grid_step_def split: if_splits prod.splits option.splits list.splits)
    have fs: "\<forall>f \<in> set (frame # rest). fok f" using w nth_mem [OF n(1)] n(2) by (fastforce simp: world_ok_def)
    have "aok (e, out', frames)" using resume_ok [OF inv, of frame tn out] fs r by simp
    then show ?thesis using upd [of e "frames @ rest" n out'] fs by (auto simp: w' act_ok_def)
  qed (use step fin in \<open>auto simp: grid_step_def split: option.splits\<close>)
qed

lemma reachable_ok:
  assumes "reachable D P e0 w" and "inv e0" and "\<And>ev. P ev \<Longrightarrow> call_ok free cap_ok opts_ok ev"
  shows "world_ok w"
  using assms(1)
proof induction
  case start
  then show ?case using assms(2) by (simp add: world_ok_def)
next
  case step
  then show ?case using assms(3) step_ok by blast
qed

lemma reachable_inv: "reachable D P e0 w \<Longrightarrow> inv e0 \<Longrightarrow> (\<And>ev. P ev \<Longrightarrow> call_ok free cap_ok opts_ok ev) \<Longrightarrow> inv (wd_engine w)"
  using reachable_ok by (auto simp: world_ok_def)

end

end
