(* ===== verification/Engine_Safety.thy ===== *)
theory Engine_Safety
  imports Engine_Turns
begin

text \<open>
  Integrity of \<open>PonsWarpEngine\<close> under every interleaving: bytes reach the storage only after they have passed the check of
  their piece, a piece counts as verified only when such bytes were written, the piece managers stay
  well formed, and every state that is handed to the storage validates. The invariant is an interpretation of \<open>engine_contract\<close>.
\<close>

section \<open>The invariant\<close>

definition managers_ok :: "(string, file_manifest) js_map \<Rightarrow> engine \<Rightarrow> bool" where
  "managers_ok M e \<longleftrightarrow> jm_wf (en_managers e) \<and>
     (\<forall>f pm. jm_get (en_managers e) f = Some pm \<longrightarrow>
        pm_fileId pm = f \<and> (\<exists>m. jm_get M f = Some m \<and> pm_wf (map pd_size (fm_pieces m)) pm))"

text \<open>A piece that is verified, other than the pieces \<open>V\<close> that were so to begin with, was written.\<close>

definition verified_written :: "(string \<times> int) set \<Rightarrow> engine \<Rightarrow> bool" where
  "verified_written V e \<longleftrightarrow> (\<forall>f pm i. jm_get (en_managers e) f = Some pm \<and> i \<in> set (getVerifiedPieces pm) \<longrightarrow>
     (f, i) \<in> V \<or> (\<exists>bs. (f, i, bs) \<in> set (en_writes e)))"

definition writes_ok :: "digest \<Rightarrow> (string, file_manifest) js_map \<Rightarrow> (string \<times> int \<Rightarrow> bytes option) \<Rightarrow> engine \<Rightarrow> bool" where
  "writes_ok D M s0 e \<longleftrightarrow>
     (\<forall>(f, i, bs) \<in> set (en_writes e). \<exists>d. piece_desc M f i = Some d \<and> verifyPiece D bs d) \<and>
     (\<forall>f i bs. en_store e (f, i) = Some bs \<longrightarrow> s0 (f, i) = Some bs \<or> (f, i, bs) \<in> set (en_writes e))"

definition manifests_valid :: "(string, file_manifest) js_map \<Rightarrow> bool" where
  "manifests_valid M \<longleftrightarrow> jm_wf M \<and> (\<forall>(f, m) \<in> set M. fm_fileId m = f \<and> manifest_valid m)"

section \<open>Frames of the lifecycle operations\<close>

lemma enqueue_keeps [simp]:
  "en_managers (enqueueWindow key t b e) = en_managers e" "en_manifests (enqueueWindow key t b e) = en_manifests e"
  "en_writes (enqueueWindow key t b e) = en_writes e" "en_saves (enqueueWindow key t b e) = en_saves e"
  "en_store (enqueueWindow key t b e) = en_store e" "en_windowMap (enqueueWindow key t b e) = en_windowMap e"
  "en_outstanding (enqueueWindow key t b e) = en_outstanding e" "en_events (enqueueWindow key t b e) = en_events e"
  "en_outbox (enqueueWindow key t b e) = en_outbox e" "en_directTimers (enqueueWindow key t b e) = en_directTimers e"
  "en_maxRetries (enqueueWindow key t b e) = en_maxRetries e" "en_hasTransport (enqueueWindow key t b e) = en_hasTransport e"
  "length (en_windows (enqueueWindow key t b e)) = length (en_windows e)" "en_windowCap (enqueueWindow key t b e) = en_windowCap e"
  by (auto simp: enqueueWindow_def set_window_def Let_def split: option.splits)

lemma forget_keeps [simp]:
  "en_managers (forget_request r e) = en_managers e" "en_manifests (forget_request r e) = en_manifests e"
  "en_writes (forget_request r e) = en_writes e" "en_saves (forget_request r e) = en_saves e"
  "en_store (forget_request r e) = en_store e" "en_windowMap (forget_request r e) = en_windowMap e"
  "en_windows (forget_request r e) = en_windows e" "en_events (forget_request r e) = en_events e"
  "en_outbox (forget_request r e) = en_outbox e" "en_maxRetries (forget_request r e) = en_maxRetries e"
  "en_hasTransport (forget_request r e) = en_hasTransport e" "en_windowCap (forget_request r e) = en_windowCap e"
  "en_outstanding (forget_request r e) = jm_delete r (en_outstanding e)"
  "en_directTimers (forget_request r e) = filter (\<lambda>x. x \<noteq> r) (en_directTimers e)"
  by (simp_all add: forget_request_def)

lemma emit_keeps [simp]:
  "en_managers (emit ev e) = en_managers e" "en_manifests (emit ev e) = en_manifests e" "en_writes (emit ev e) = en_writes e"
  "en_saves (emit ev e) = en_saves e" "en_store (emit ev e) = en_store e" "en_windowMap (emit ev e) = en_windowMap e"
  "en_windows (emit ev e) = en_windows e" "en_outbox (emit ev e) = en_outbox e" "en_maxRetries (emit ev e) = en_maxRetries e"
  "en_hasTransport (emit ev e) = en_hasTransport e" "en_outstanding (emit ev e) = en_outstanding e"
  "en_directTimers (emit ev e) = en_directTimers e" "en_events (emit ev e) = en_events e @ [ev]"
  "en_windowCap (emit ev e) = en_windowCap e"
  by (simp_all add: emit_def)

lemma set_window_keeps [simp]:
  "en_managers (set_window a w e) = en_managers e" "en_manifests (set_window a w e) = en_manifests e"
  "en_writes (set_window a w e) = en_writes e" "en_saves (set_window a w e) = en_saves e"
  "en_store (set_window a w e) = en_store e" "en_windowMap (set_window a w e) = en_windowMap e"
  "en_windows (set_window a w e) = (en_windows e)[a := w]" "en_outbox (set_window a w e) = en_outbox e"
  "en_maxRetries (set_window a w e) = en_maxRetries e" "en_hasTransport (set_window a w e) = en_hasTransport e"
  "en_outstanding (set_window a w e) = en_outstanding e" "en_directTimers (set_window a w e) = en_directTimers e"
  "en_events (set_window a w e) = en_events e" "en_windowCap (set_window a w e) = en_windowCap e"
  by (simp_all add: set_window_def)

text \<open>What ending a request does to the windows.\<close>

lemma finalize_outcome:
  assumes "finalizeDirectRequest tn r status e = (e', b)"
  obtains (none) "e' = e" "\<not> b" "\<And>q. jm_get (en_outstanding e) r = Some q \<Longrightarrow> or_direct q = None"
  | (ended) q d te where "jm_get (en_outstanding e) r = Some q" "or_direct q = Some d" "b"
      "te_requestId te = r" "te_retryCount te = di_retryCount d" "te_reason te = status"
      "te_willRetry te \<longleftrightarrow> retryable_reason status \<and> di_retryCount d < en_maxRetries e"
      "e' = emit (Ev_Terminal te) (forget_request r e) \<or>
       (te_willRetry te \<and> (\<exists>key f i p g opts. do_windowKey opts = Some key \<and> do_retryCount opts = Some (di_retryCount d + 1) \<and>
          e' = enqueueWindow key (Task_Retry r key f i p g opts) True (emit (Ev_Terminal te) (forget_request r e)))) \<or>
       (\<exists>a xe. e' = emit (Ev_Exhausted xe) (set_window a ((en_windows e ! a)\<lparr>dw_exhausted := True\<rparr>)
          (emit (Ev_Terminal te) (forget_request r e))))"
proof (cases "\<exists>q d. jm_get (en_outstanding e) r = Some q \<and> or_direct q = Some d")
  case False
  then show ?thesis using assms none by (cases "jm_get (en_outstanding e) r"; cases "or_direct (the (jm_get (en_outstanding e) r))")
    (auto simp: finalizeDirectRequest_def)
next
  case True
  then obtain q d where q: "jm_get (en_outstanding e) r = Some q" "or_direct q = Some d" by blast
  let ?will = "retryable_reason status \<and> di_retryCount d < en_maxRetries e"
  define te where "te = \<lparr>te_fileId = or_fileId q, te_pieceIndex = or_pieceIndex q, te_peerId = or_peerId q, te_requestId = r,
    te_reason = status, te_retryCount = di_retryCount d, te_willRetry = ?will, te_at = tn_clock tn,
    te_generation = di_generation d, te_controllerId = di_controllerId d, te_windowKey = di_windowKey d\<rparr>"
  define e2 where "e2 = emit (Ev_Terminal te) (forget_request r e)"
  have te: "te_requestId te = r" "te_retryCount te = di_retryCount d" "te_reason te = status" "te_willRetry te \<longleftrightarrow> ?will"
    by (simp_all add: te_def)
  have res: "(e', b) = (if ?will then
       (if di_windowKey d = '''' then (e2, True)
        else (enqueueWindow (di_windowKey d) (Task_Retry r (di_windowKey d) (or_fileId q) (or_pieceIndex q) (or_peerId q) (di_generation d)
           \<lparr>do_timeoutMs = Some (num_of_int (di_timeoutMs d)), do_controllerId = di_controllerId d,
            do_windowKey = Some (di_windowKey d), do_retryCount = Some (di_retryCount d + 1)\<rparr>) True e2, True))
     else if retryable_reason status \<and> di_windowKey d \<noteq> '''' then
       (case jm_get (en_windowMap e2) (di_windowKey d) of None \<Rightarrow> (e2, True)
        | Some a \<Rightarrow> let w = en_windows e2 ! a in if dw_exhausted w then (e2, True)
            else let w' = w\<lparr>dw_exhausted := True\<rparr> in (emitWindowExhausted tn w' (di_windowKey d) status (or_pieceIndex q) r
                 (di_retryCount d) (set_window a w' e2), True))
     else (e2, True))"
    unfolding assms [symmetric] finalizeDirectRequest_def q option.case Let_def e2_def te_def forget_keeps by simp
  have win: "en_windows e2 = en_windows e" by (simp add: e2_def)
  show ?thesis
  proof (cases "?will \<and> di_windowKey d \<noteq> ''''")
    case True
    define opts where "opts = \<lparr>do_timeoutMs = Some (num_of_int (di_timeoutMs d)), do_controllerId = di_controllerId d,
      do_windowKey = Some (di_windowKey d), do_retryCount = Some (di_retryCount d + 1)\<rparr>"
    have "do_windowKey opts = Some (di_windowKey d) \<and> do_retryCount opts = Some (di_retryCount d + 1) \<and>
        e' = enqueueWindow (di_windowKey d) (Task_Retry r (di_windowKey d) (or_fileId q) (or_pieceIndex q) (or_peerId q)
          (di_generation d) opts) True e2"
      using res True by (simp add: opts_def)
    then have "\<exists>key f i p g opts. do_windowKey opts = Some key \<and> do_retryCount opts = Some (di_retryCount d + 1) \<and>
        e' = enqueueWindow key (Task_Retry r key f i p g opts) True e2" by blast
    then show ?thesis using ended [OF q] te res True unfolding e2_def by (auto split: if_splits)
  next
    case False
    then have "e' = e2 \<or> (\<exists>a xe. e' = emit (Ev_Exhausted xe) (set_window a ((en_windows e ! a)\<lparr>dw_exhausted := True\<rparr>) e2))"
      using res by (auto simp: win Let_def emitWindowExhausted_def split: if_splits option.splits)
    moreover have b using res by (auto simp: Let_def split: if_splits option.splits)
    ultimately show ?thesis using ended [OF q _ te] unfolding e2_def by blast
  qed
qed

section \<open>Windows\<close>

text \<open>Every address in the map is an object, and every object has an allowed cap and allowed tasks.\<close>

definition windows_ok :: "(int \<Rightarrow> bool) \<Rightarrow> (direct_options \<Rightarrow> bool) \<Rightarrow> engine \<Rightarrow> bool" where
  "windows_ok cap_ok opts_ok e \<longleftrightarrow>
     (\<forall>key a. jm_get (en_windowMap e) key = Some a \<longrightarrow> a < length (en_windows e)) \<and>
     (\<forall>w \<in> set (en_windows e). cap_ok (dw_cap w) \<and> (\<forall>(t, b) \<in> set (dw_queue w). task_ok opts_ok t)) \<and>
     cap_ok (case en_windowCap e of Some c \<Rightarrow> c | None \<Rightarrow> 1)"

lemma windows_ok_same:
  "windows_ok c p e \<Longrightarrow> en_windowMap e' = en_windowMap e \<Longrightarrow> en_windows e' = en_windows e \<Longrightarrow> en_windowCap e' = en_windowCap e \<Longrightarrow>
   windows_ok c p e'"
  by (simp add: windows_ok_def)

lemma windows_ok_new:
  "windows_ok c p e \<Longrightarrow> c cap \<Longrightarrow> windows_ok c p (new_window key (fresh_window f q ctl cap g) e)"
  by (auto simp: windows_ok_def new_window_def fresh_window_def less_Suc_eq split: if_splits)

lemma windows_ok_drop: "windows_ok c p e \<Longrightarrow> windows_ok c p (e\<lparr>en_windowMap := jm_delete key (en_windowMap e)\<rparr>)"
  by (auto simp: windows_ok_def split: if_splits)

lemma in_list_update: "x \<in> set (xs[a := w]) \<Longrightarrow> x = w \<or> x \<in> set xs"
  using set_update_subset_insert [of xs a w] by blast

lemma windows_ok_set:
  assumes "windows_ok c p e" and "a < length (en_windows e)" and "dw_cap w = dw_cap (en_windows e ! a)"
    and "set (dw_queue w) \<subseteq> set (dw_queue (en_windows e ! a))"
  shows "windows_ok c p (set_window a w e)"
proof -
  have old: "c (dw_cap (en_windows e ! a)) \<and> (\<forall>(t, b) \<in> set (dw_queue (en_windows e ! a)). task_ok p t)"
    using assms(1) nth_mem [OF assms(2)] by (simp add: windows_ok_def)
  have "c (dw_cap x) \<and> (\<forall>(t, b) \<in> set (dw_queue x). task_ok p t)" if "x \<in> set ((en_windows e)[a := w])" for x
    using in_list_update [OF that] old assms by (auto simp: windows_ok_def)
  then show ?thesis using assms(1) by (simp add: windows_ok_def)
qed

lemma windows_ok_enqueue:
  assumes "windows_ok c p e" and "task_ok p t"
  shows "windows_ok c p (enqueueWindow key t b e)"
proof (cases "jm_get (en_windowMap e) key")
  case None
  with assms show ?thesis by (simp add: enqueueWindow_def)
next
  case (Some a)
  let ?w = "en_windows e ! a"
  have a: "a < length (en_windows e)" using assms(1) Some by (simp add: windows_ok_def)
  have old: "c (dw_cap ?w) \<and> (\<forall>(t, b) \<in> set (dw_queue ?w). task_ok p t)"
    using assms(1) nth_mem [OF a] by (simp add: windows_ok_def)
  have "c (dw_cap x) \<and> (\<forall>(t, b) \<in> set (dw_queue x). task_ok p t)"
    if "x \<in> set ((en_windows e)[a := ?w\<lparr>dw_queue := dw_queue ?w @ [(t, b)]\<rparr>])" for x
    using in_list_update [OF that] old assms by (auto simp: windows_ok_def)
  then show ?thesis using assms(1) by (auto simp: Some enqueueWindow_def Let_def windows_ok_def)
qed

lemma windows_ok_finalize:
  assumes "windows_ok c p e"
    and "\<And>q d opts. jm_get (en_outstanding e) r = Some q \<Longrightarrow> or_direct q = Some d \<Longrightarrow> di_retryCount d < en_maxRetries e \<Longrightarrow>
      do_retryCount opts = Some (di_retryCount d + 1) \<Longrightarrow> p opts"
  shows "windows_ok c p (fst (finalizeDirectRequest tn r status e))"
proof (cases "finalizeDirectRequest tn r status e")
  case (Pair e' b)
  then show ?thesis
  proof (cases rule: finalize_outcome)
    case none
    with assms(1) Pair show ?thesis by simp
  next
    case (ended q d te)
    let ?e1 = "emit (Ev_Terminal te) (forget_request r e)"
    have e1: "windows_ok c p ?e1" by (rule windows_ok_same [OF assms(1)]) simp_all
    from ended(8) consider "e' = ?e1" | key f i q' g opts where "te_willRetry te" "do_windowKey opts = Some key"
        "do_retryCount opts = Some (di_retryCount d + 1)" "e' = enqueueWindow key (Task_Retry r key f i q' g opts) True ?e1"
      | a xe where "e' = emit (Ev_Exhausted xe) (set_window a ((en_windows e ! a)\<lparr>dw_exhausted := True\<rparr>) ?e1)" by blast
    then show ?thesis
    proof cases
      case 1
      with e1 Pair show ?thesis by simp
    next
      case 2
      with e1 Pair assms(2) [OF ended(1,2)] ended(7) show ?thesis by (auto simp: task_ok_def intro!: windows_ok_enqueue)
    next
      case 3
      let ?e2 = "set_window a ((en_windows e ! a)\<lparr>dw_exhausted := True\<rparr>) ?e1"
      have "windows_ok c p ?e2"
      proof (cases "a < length (en_windows e)")
        case True
        with e1 show ?thesis by (intro windows_ok_set) simp_all
      next
        case False
        then show ?thesis by (intro windows_ok_same [OF e1]) (simp_all add: list_update_beyond not_less)
      qed
      with 3 Pair show ?thesis by (auto intro: windows_ok_same)
    qed
  qed
qed

section \<open>Integrity\<close>

definition integrity :: "digest \<Rightarrow> (string, file_manifest) js_map \<Rightarrow> (string \<times> int \<Rightarrow> bytes option) \<Rightarrow> (string \<times> int) set
    \<Rightarrow> engine \<Rightarrow> bool" where
  "integrity D M s0 V e \<longleftrightarrow> en_manifests e = M \<and> manifests_valid M \<and> managers_ok M e \<and> writes_ok D M s0 e \<and>
     verified_written V e \<and> (\<forall>s \<in> set (en_saves e). session_valid s) \<and> windows_ok (\<lambda>_. True) (\<lambda>_. True) e"

lemma integrity_same:
  assumes "integrity D M s0 V e" and "en_manifests e' = en_manifests e" "en_managers e' = en_managers e" "en_writes e' = en_writes e"
    "en_saves e' = en_saves e" "en_store e' = en_store e" and "windows_ok (\<lambda>_. True) (\<lambda>_. True) e'"
  shows "integrity D M s0 V e'"
proof -
  have "managers_ok M e' = managers_ok M e" "writes_ok D M s0 e' = writes_ok D M s0 e" "verified_written V e' = verified_written V e"
    using assms(3-6) by (simp_all add: managers_ok_def writes_ok_def verified_written_def)
  with assms show ?thesis by (simp add: integrity_def)
qed

lemma manager_update:
  assumes "integrity D M s0 V e" and "with_manager e f op = Inr e'"
    and "\<And>m m' sizes. op m = Inr m' \<Longrightarrow> pm_wf sizes m \<Longrightarrow> pm_wf sizes m' \<and> pm_fileId m' = pm_fileId m"
    and "\<And>m m' i. op m = Inr m' \<Longrightarrow> i \<in> set (getVerifiedPieces m') \<Longrightarrow>
      i \<in> set (getVerifiedPieces m) \<or> (f, i) \<in> V \<or> (\<exists>bs. (f, i, bs) \<in> set (en_writes e))"
  shows "integrity D M s0 V e'"
proof -
  from assms(2) obtain m m' where m: "jm_get (en_managers e) f = Some m" "op m = Inr m'"
    and e': "e' = e\<lparr>en_managers := jm_set f m' (en_managers e)\<rparr>" by (auto simp: with_manager_Inr)
  have old: "jm_wf (en_managers e)" "\<forall>f pm. jm_get (en_managers e) f = Some pm \<longrightarrow>
      pm_fileId pm = f \<and> (\<exists>m. jm_get M f = Some m \<and> pm_wf (map pd_size (fm_pieces m)) pm)"
    using assms(1) by (auto simp: integrity_def managers_ok_def)
  from old(2) m(1) obtain mf where mf: "pm_fileId m = f" "jm_get M f = Some mf" "pm_wf (map pd_size (fm_pieces mf)) m" by blast
  have "managers_ok M e'" using old mf assms(3) [OF m(2) mf(3)] by (auto simp: managers_ok_def e')
  moreover have "verified_written V e'" unfolding verified_written_def
  proof (intro allI impI, elim conjE)
    fix g pm i assume g: "jm_get (en_managers e') g = Some pm" "i \<in> set (getVerifiedPieces pm)"
    have vw: "verified_written V e" using assms(1) by (simp add: integrity_def)
    show "(g, i) \<in> V \<or> (\<exists>bs. (g, i, bs) \<in> set (en_writes e'))"
    proof (cases "g = f")
      case True
      with g assms(4) [OF m(2), of i] m(1) vw show ?thesis by (auto simp: e' verified_written_def)
    next
      case False
      with g vw show ?thesis by (auto simp: e' verified_written_def)
    qed
  qed
  moreover have "writes_ok D M s0 e'" using assms(1) by (simp add: e' integrity_def writes_ok_def)
  ultimately show ?thesis using assms(1) by (simp add: e' integrity_def windows_ok_def)
qed

lemma mutator_keeps:
  "markRequested m now i p = Inr m' \<Longrightarrow> pm_fileId m' = pm_fileId m"
  "markFailed m now i reason = Inr m' \<Longrightarrow> pm_fileId m' = pm_fileId m"
  "resetFailedToMissing m now i = Inr m' \<Longrightarrow> pm_fileId m' = pm_fileId m"
  "markVerified m now i = Inr m' \<Longrightarrow> pm_fileId m' = pm_fileId m"
  by (auto simp: mutator_defs bind_result_Inr_iff split: if_splits)

lemma verified_list_update:
  "x \<in> set (getVerifiedPieces (m\<lparr>pm_states := (pm_states m)[n := p]\<rparr>)) \<Longrightarrow>
   x \<in> set (getVerifiedPieces m) \<or> ps_status p = Verified \<and> x = ps_index p"
  by (auto simp: getVerifiedPieces_def dest!: in_list_update)

lemma mutator_verified:
  assumes "x \<in> set (getVerifiedPieces m')"
  shows "markRequested m now i p = Inr m' \<Longrightarrow> x \<in> set (getVerifiedPieces m)"
    and "markFailed m now i reason = Inr m' \<Longrightarrow> x \<in> set (getVerifiedPieces m)"
    and "resetFailedToMissing m now i = Inr m' \<Longrightarrow> x \<in> set (getVerifiedPieces m)"
    and "markVerified m now i = Inr m' \<Longrightarrow> x \<in> set (getVerifiedPieces m) \<or> x = i"
  using assms
  by (auto simp: mutator_defs bind_result_Inr_iff requirePiece_Inr split: if_splits dest!: verified_list_update)

lemma saved_state_valid:
  assumes "integrity D M s0 V e" and "persisted_state now e = Some s"
  shows "session_valid s"
proof -
  from assms(1) have M: "en_manifests e = M" "jm_wf M" "\<forall>(f, m) \<in> set M. fm_fileId m = f \<and> manifest_valid m"
    and mg: "jm_wf (en_managers e)" "\<forall>f pm. jm_get (en_managers e) f = Some pm \<longrightarrow>
      pm_fileId pm = f \<and> (\<exists>m. jm_get M f = Some m \<and> pm_wf (map pd_size (fm_pieces m)) pm)"
    by (auto simp: integrity_def manifests_valid_def managers_ok_def)
  have find: "find (\<lambda>m. fm_fileId m = f) (map snd M) = Some m" if "jm_get M f = Some m" for f m
    using that M(2,3) by (induction M) (auto simp: jm_wf_def split: if_splits)
  have px: "piece_map_valid (map snd M) (exportPieceMap pm now)" if "(f, pm) \<in> set (en_managers e)" for f pm
  proof -
    have "jm_get (en_managers e) f = Some pm" using that mg(1) by (simp add: jm_get_in_set)
    with mg(2) obtain m where pm: "pm_fileId pm = f" "jm_get M f = Some m" "pm_wf (map pd_size (fm_pieces m)) pm" by blast
    have "(f, m) \<in> set M" using pm(2) by (rule map_of_SomeD)
    with M(3) have m: "fm_fileId m = f" "manifest_valid m" by auto
    have "length (pm_states pm) = length (fm_pieces m)" using wf_states_length [OF pm(3)] by simp
    moreover have "stored_state_valid p" if "p \<in> set (pm_states pm)" for p
      using pm(3) that by (auto simp: pm_wf_def in_set_conv_nth stored_state_valid_def piece_ok_def)
    ultimately show ?thesis using m pm find [OF pm(2)]
      by (auto simp: piece_map_valid_def exportPieceMap_def manifest_valid_def)
  qed
  have mv: "\<forall>m \<in> set (map snd M). manifest_valid m" using M(3) by fastforce
  from assms(2) obtain sid where "en_sessionId e = Some sid" "sid \<noteq> ''''"
    by (cases "en_sessionId e") (auto simp: persisted_state_def split: if_splits)
  with assms(2) M(1) px mv show ?thesis
    by (auto simp: persisted_state_def session_valid_def split: if_splits)
qed

section \<open>Integrity is kept\<close>

lemma issue_keeps [simp]:
  "en_managers (issue r q e) = en_managers e" "en_manifests (issue r q e) = en_manifests e" "en_writes (issue r q e) = en_writes e"
  "en_saves (issue r q e) = en_saves e" "en_store (issue r q e) = en_store e" "en_windowMap (issue r q e) = en_windowMap e"
  "en_windows (issue r q e) = en_windows e" "en_events (issue r q e) = en_events e" "en_maxRetries (issue r q e) = en_maxRetries e"
  "en_hasTransport (issue r q e) = en_hasTransport e" "en_outstanding (issue r q e) = jm_set r q (en_outstanding e)"
  "en_windowCap (issue r q e) = en_windowCap e"
  by (auto simp: issue_def sendPieceRequest_def await_send_def send_message_def armDirectTimer_def split: sum.splits option.splits)

lemma direct_entry_keeps:
  assumes "direct_entry tn p f d e = (e', i)"
  shows "(e' = e \<or> (\<exists>key. e' = new_window key (fresh_window f p (do_controllerId d) 1 0) e)) \<and>
    di_retryCount i = (case do_retryCount d of Some r \<Rightarrow> r | None \<Rightarrow> 0) \<and> (\<forall>key. do_windowKey d = Some key \<longrightarrow> di_windowKey i = key)"
  using assms by (auto simp: direct_entry_def Let_def split: if_splits option.splits)

lemma new_window_keeps [simp]:
  "en_managers (new_window k w e) = en_managers e" "en_manifests (new_window k w e) = en_manifests e"
  "en_writes (new_window k w e) = en_writes e" "en_saves (new_window k w e) = en_saves e" "en_store (new_window k w e) = en_store e"
  "en_events (new_window k w e) = en_events e" "en_maxRetries (new_window k w e) = en_maxRetries e"
  "en_hasTransport (new_window k w e) = en_hasTransport e" "en_outstanding (new_window k w e) = en_outstanding e"
  "en_outbox (new_window k w e) = en_outbox e" "en_directTimers (new_window k w e) = en_directTimers e"
  "en_windowCap (new_window k w e) = en_windowCap e"
  by (simp_all add: new_window_def)

lemma send_message_keeps [simp]:
  "en_managers (send_message p m e) = en_managers e" "en_manifests (send_message p m e) = en_manifests e"
  "en_writes (send_message p m e) = en_writes e" "en_saves (send_message p m e) = en_saves e"
  "en_store (send_message p m e) = en_store e" "en_windowMap (send_message p m e) = en_windowMap e"
  "en_windows (send_message p m e) = en_windows e" "en_windowCap (send_message p m e) = en_windowCap e"
  "en_outstanding (send_message p m e) = en_outstanding e" "en_events (send_message p m e) = en_events e"
  "en_maxRetries (send_message p m e) = en_maxRetries e" "en_hasTransport (send_message p m e) = en_hasTransport e"
  "en_directTimers (send_message p m e) = en_directTimers e" "en_outbox (send_message p m e) = en_outbox e @ [(p, m)]"
  by (simp_all add: send_message_def)

lemma integrity_windows: "integrity D M s0 V e \<Longrightarrow> windows_ok (\<lambda>_. True) (\<lambda>_. True) e"
  by (simp add: integrity_def)

lemma finalize_keeps:
  assumes "finalizeDirectRequest tn r status e = (e', b)"
  shows "en_managers e' = en_managers e" "en_manifests e' = en_manifests e" "en_writes e' = en_writes e"
    "en_saves e' = en_saves e" "en_store e' = en_store e" "en_maxRetries e' = en_maxRetries e"
    "en_hasTransport e' = en_hasTransport e" "en_outbox e' = en_outbox e"
  using assms by (cases rule: finalize_outcome; auto)+

lemma integrity_direct:
  assumes "integrity D M s0 V e" and "direct_entry tn p f d e = (e', i)"
  shows "integrity D M s0 V (issue r q e')"
proof -
  have w: "windows_ok (\<lambda>_. True) (\<lambda>_. True) e'"
    using direct_entry_keeps [OF assms(2)] integrity_windows [OF assms(1)] by (auto intro: windows_ok_new)
  show ?thesis using direct_entry_keeps [OF assms(2)]
    by (intro integrity_same [OF assms(1)] windows_ok_same [OF w]) auto
qed

lemma integrity_write:
  assumes "integrity D M s0 V e" and "piece_desc M f i = Some d" "verifyPiece D bs d"
  shows "integrity D M s0 V (e\<lparr>en_store := (en_store e)((f, i) := Some bs), en_writes := en_writes e @ [(f, i, bs)]\<rparr>)"
proof -
  let ?e = "e\<lparr>en_store := (en_store e)((f, i) := Some bs), en_writes := en_writes e @ [(f, i, bs)]\<rparr>"
  have "writes_ok D M s0 ?e" using assms by (auto simp: integrity_def writes_ok_def)
  moreover have "verified_written V ?e" using assms(1) unfolding integrity_def verified_written_def by fastforce
  ultimately show ?thesis using assms(1) by (simp add: integrity_def managers_ok_def windows_ok_def)
qed

lemma integrity_delete:
  assumes "integrity D M s0 V e"
  shows "integrity D M s0 V (e\<lparr>en_store := (en_store e)(k := None)\<rparr>)"
proof -
  have "writes_ok D M s0 (e\<lparr>en_store := (en_store e)(k := None)\<rparr>)" using assms by (auto simp: integrity_def writes_ok_def)
  moreover have "verified_written V (e\<lparr>en_store := (en_store e)(k := None)\<rparr>) = verified_written V e"
    by (simp add: verified_written_def)
  ultimately show ?thesis using assms by (simp add: integrity_def managers_ok_def windows_ok_def)
qed

lemma integrity_save:
  assumes "integrity D M s0 V e" and "persisted_state now e = Some s"
  shows "integrity D M s0 V (e\<lparr>en_saves := en_saves e @ [s]\<rparr>)"
proof -
  let ?e = "e\<lparr>en_saves := en_saves e @ [s]\<rparr>"
  have "verified_written V ?e = verified_written V e" "writes_ok D M s0 ?e = writes_ok D M s0 e" "managers_ok M ?e = managers_ok M e"
    by (simp_all add: verified_written_def writes_ok_def managers_ok_def)
  with assms(1) saved_state_valid [OF assms] show ?thesis by (simp add: integrity_def windows_ok_def)
qed

lemma integrity_requested:
  assumes "integrity D M s0 V e" and "with_manager e f (\<lambda>m. markRequested m now i p) = Inr e'"
  shows "integrity D M s0 V e'"
  by (rule manager_update [OF assms]) (use mutator_verified(1) mutator_keeps(1) markRequested_wf in blast)+

lemma integrity_failed:
  assumes "integrity D M s0 V e" and "with_manager e f (\<lambda>m. markFailed m now i reason) = Inr e'"
  shows "integrity D M s0 V e'"
  by (rule manager_update [OF assms]) (use mutator_verified(2) mutator_keeps(2) markFailed_wf in blast)+

lemma integrity_reset:
  assumes "integrity D M s0 V e" and "with_manager e f (\<lambda>m. resetFailedToMissing m now i) = Inr e'"
  shows "integrity D M s0 V e'"
  by (rule manager_update [OF assms]) (use mutator_verified(3) mutator_keeps(3) resetFailedToMissing_wf in blast)+

lemma integrity_verified:
  assumes "integrity D M s0 V e" and "with_manager e f (\<lambda>m. markVerified m now i) = Inr e'" and "(f, i, bs) \<in> set (en_writes e)"
  shows "integrity D M s0 V e'"
  by (rule manager_update [OF assms(1,2)]) (use mutator_verified(4) mutator_keeps(4) markVerified_wf assms(3) in blast)+

interpretation ig: engine_contract "integrity D M s0 V" D M "\<lambda>_. True" "\<lambda>_. True" True for D M s0 V
proof
  fix e :: engine assume inv: "integrity D M s0 V e"
  note same = integrity_same [OF inv] and win = integrity_windows [OF inv]
  show "en_manifests e = M" using inv by (simp add: integrity_def)
  show "integrity D M s0 V e'" if "soft e e'" for e'
    using that by (intro same windows_ok_same [OF win]) (simp_all add: soft_def)
  show "integrity D M s0 V (emit ev e)" for ev by (intro same windows_ok_same [OF win]) simp_all
  show "integrity D M s0 V (send_message p msg e)" for p msg by (intro same windows_ok_same [OF win]) simp_all
  show "integrity D M s0 V (e\<lparr>en_saves := en_saves e @ [s]\<rparr>)" if "persisted_state now e = Some s" for now s
    by (rule integrity_save [OF inv that])
  show "integrity D M s0 V e'" if "with_manager e f (\<lambda>m. markRequested m now i p) = Inr e'" for e' f now i p
    by (rule integrity_requested [OF inv that])
  show "integrity D M s0 V e'" if "with_manager e f (\<lambda>m. markFailed m now i reason) = Inr e'" for e' f now i reason
    by (rule integrity_failed [OF inv that])
  show "integrity D M s0 V e'" if "with_manager e f (\<lambda>m. resetFailedToMissing m now i) = Inr e'" for e' f now i
    by (rule integrity_reset [OF inv that])
  show "integrity D M s0 V (e\<lparr>en_store := (en_store e)((f, i) := Some bs), en_writes := en_writes e @ [(f, i, bs)]\<rparr>)"
    if "piece_desc M f i = Some desc" "verifyPiece D bs desc" for f i bs desc by (rule integrity_write [OF inv that])
  show "integrity D M s0 V e'" if "(f, i, bs) \<in> set (en_writes e)" "with_manager e f (\<lambda>m. markVerified m now i) = Inr e'"
    for f i bs now e' by (rule integrity_verified [OF inv that(2,1)])
  show "integrity D M s0 V (e\<lparr>en_store := (en_store e)(k := None)\<rparr>)" for k by (rule integrity_delete [OF inv])
  show "integrity D M s0 V (fst (finalizeDirectRequest tn r status e))" for tn r status
  proof (cases "finalizeDirectRequest tn r status e")
    case (Pair e' b)
    have w: "windows_ok (\<lambda>_. True) (\<lambda>_. True) e'"
      using windows_ok_finalize [OF win, of r tn status] Pair by simp
    show ?thesis unfolding Pair fst_conv by (rule same [OF _ _ _ _ _ w]) (use finalize_keeps [OF Pair] in simp_all)
  qed
  show "integrity D M s0 V (e\<lparr>en_outstanding := jm_delete r (en_outstanding e)\<rparr>)" for r
    by (intro same windows_ok_same [OF win]) simp_all
  show "integrity D M s0 V (issue r q e)" for r q by (intro same windows_ok_same [OF win]) simp_all
  show "integrity D M s0 V (issue r q e2)" if "direct_entry tn p f d e = (e2, info)" for tn p f d e2 info r q
    by (rule integrity_direct [OF inv that])
  show "integrity D M s0 V (new_window key (fresh_window f p c cap g) e)" for key f p c cap g
    by (intro same windows_ok_new [OF win]) simp_all
  show "integrity D M s0 V (e\<lparr>en_windowMap := jm_delete key (en_windowMap e)\<rparr>)" for key
    by (intro same windows_ok_drop [OF win]) simp_all
  show "integrity D M s0 V (set_window a w e)" if "a < length (en_windows e)" "dw_cap w = dw_cap (en_windows e ! a)"
    "set (dw_queue w) \<subseteq> set (dw_queue (en_windows e ! a))" for a w
    by (intro same windows_ok_set [OF win that]) simp_all
  show "integrity D M s0 V (enqueueWindow key task track e)" if "task_ok (\<lambda>_. True) task" for key task track
    by (intro same windows_ok_enqueue [OF win that]) simp_all
  show "task_ok (\<lambda>_. True) task" if "a < length (en_windows e)" "(task, track) \<in> set (dw_queue (en_windows e ! a))" for a task track
    using win nth_mem [OF that(1)] that(2) unfolding windows_ok_def by fastforce
  show "a < length (en_windows e)" if "jm_get (en_windowMap e) key = Some a" for key a
    using win that by (simp add: windows_ok_def)
  show "integrity D M s0 V (dispose_end e)"
    by (intro same) (use win in \<open>simp_all add: dispose_end_def windows_ok_def\<close>)
qed simp_all

end
