(* ===== verification/Engine_Session.thy ===== *)
theory Engine_Session
  imports Engine_Loop
begin

text \<open>
  Setting up and resuming sessions in \<open>PonsWarpEngine\<close> (\<open>packages/core/src/index.ts\<close>): \<open>createSession\<close>, \<open>joinSession\<close> and
  \<open>resumeFile\<close>, as whole calls. The storage behind the engine is the map \<open>en_store\<close>, a piece store in the sense of the
  storage interface; the results of \<open>init\<close>, \<open>loadState\<close> and \<open>saveState\<close> are arguments.
\<close>

section \<open>The engine's storage\<close>

definition table_init :: "(string \<times> int \<Rightarrow> bytes option) \<Rightarrow> string \<Rightarrow> (string \<times> int \<Rightarrow> bytes option) \<times> unit result" where
  "table_init s sessionId = (s, Inr ())"

definition table_write :: "(string \<times> int \<Rightarrow> bytes option) \<Rightarrow> string \<Rightarrow> int \<Rightarrow> bytes \<Rightarrow> (string \<times> int \<Rightarrow> bytes option) \<times> unit result" where
  "table_write s fileId pieceIndex data = (s((fileId, pieceIndex) := Some data), Inr ())"

definition table_read :: "(string \<times> int \<Rightarrow> bytes option) \<Rightarrow> string \<Rightarrow> int \<Rightarrow> bytes option result" where
  "table_read s fileId pieceIndex = Inr (s (fileId, pieceIndex))"

definition table_has :: "(string \<times> int \<Rightarrow> bytes option) \<Rightarrow> string \<Rightarrow> int \<Rightarrow> bool result" where
  "table_has s fileId pieceIndex = Inr (s (fileId, pieceIndex) \<noteq> None)"

definition table_delete :: "(string \<times> int \<Rightarrow> bytes option) \<Rightarrow> string \<Rightarrow> int \<Rightarrow> (string \<times> int \<Rightarrow> bytes option) \<times> unit result" where
  "table_delete s fileId pieceIndex = (s((fileId, pieceIndex) := None), Inr ())"

interpretation table: piece_store table_init table_write table_read table_has table_delete "\<lambda>s f i. s (f, i)" "\<lambda>_. True"
  by unfold_locales (simp_all add: table_write_def table_read_def table_has_def table_delete_def)

definition engine_storage :: "(string \<times> int \<Rightarrow> bytes option) storage_adapter" where
  "engine_storage = \<lparr>sa_init = table_init, sa_write = table_write, sa_read = table_read, sa_has = table_has, sa_delete = table_delete\<rparr>"

section \<open>Sessions\<close>

record transfer_session =
  ts_sessionId :: string
  ts_manifests :: "file_manifest list"
  ts_shareUrl :: "string option"

record create_input =
  ci_files :: "blob list"
  ci_pieceSize :: jsnum
  ci_includeFileHash :: bool
  ci_sessionId :: "string option"

type_synonym 'a call_result = "engine \<times> (platform_error + 'a)"

definition save_now :: "int \<Rightarrow> platform_error option \<Rightarrow> engine \<Rightarrow> unit call_result" where
  "save_now now saved e =
     (case persisted_state now e of
        None \<Rightarrow> (e, Inr ())
      | Some s \<Rightarrow> (e\<lparr>en_saves := en_saves e @ [s]\<rparr>, case saved of None \<Rightarrow> Inr () | Some err \<Rightarrow> Inl err))"

fun own_files :: "digest \<Rightarrow> int \<Rightarrow> create_input \<Rightarrow> file_manifest list \<Rightarrow> blob list \<Rightarrow> engine \<Rightarrow> file_manifest list call_result" where
  "own_files D now input manifests [] e = (e, Inr manifests)"
| "own_files D now input manifests (f # rest) e =
     (case snd (create_manifest D '''' f \<lparr>mo_pieceSize = ci_pieceSize input, mo_includeFileHash = ci_includeFileHash input,
           mo_maxFileHashBytes = None, mo_fileId = Some (''file_'' @ show_nat (length manifests)), mo_fileHashPolicy = None\<rparr>) of
        Inl err \<Rightarrow> (e, Inl (Pons err))
      | Inr manifest \<Rightarrow>
          let e1 = registerManifest now e manifest
          in own_files D now input (manifests @ [manifest]) rest
               (e1\<lparr>en_ownerSources := jm_set (fm_fileId manifest) (blob_bytes f) (en_ownerSources e1)\<rparr>))"

definition createSession :: "digest \<Rightarrow> int \<Rightarrow> string \<Rightarrow> platform_error option \<Rightarrow> platform_error option \<Rightarrow> create_input
    \<Rightarrow> engine \<Rightarrow> transfer_session call_result" where
  "createSession D now freshId initialised saved input e =
     (let sessionId = (case ci_sessionId input of Some s \<Rightarrow> s | None \<Rightarrow> ''sess_'' @ freshId)
      in case initialised of
          Some err \<Rightarrow> (e, Inl err)
        | None \<Rightarrow>
            (case own_files D now input [] (ci_files input) (e\<lparr>en_sessionId := Some sessionId\<rparr>) of
               (e1, Inl err) \<Rightarrow> (e1, Inl err)
             | (e1, Inr manifests) \<Rightarrow>
                 (case save_now now saved e1 of
                    (e2, Inl err) \<Rightarrow> (e2, Inl err)
                  | (e2, Inr _) \<Rightarrow> (e2, Inr \<lparr>ts_sessionId = sessionId, ts_manifests = manifests,
                      ts_shareUrl = Some (''#/join/'' @ sessionId)\<rparr>))))"

fun restore_maps :: "digest \<Rightarrow> int \<Rightarrow> piece_map list \<Rightarrow> engine \<Rightarrow> unit call_result" where
  "restore_maps D now [] e = (e, Inr ())"
| "restore_maps D now (px # rest) e =
     (case jm_get (en_manifests e) (px_fileId px) of
        None \<Rightarrow> restore_maps D now rest e
      | Some manifest \<Rightarrow>
          (case restoreResumeState engine_storage D now (en_store e) manifest px of
             (s, Inl err) \<Rightarrow> (e\<lparr>en_store := s\<rparr>, Inl (Pons err))
           | (s, Inr r) \<Rightarrow> restore_maps D now rest
               (e\<lparr>en_store := s, en_managers := jm_set (px_fileId px) (rr_manager r) (en_managers e)\<rparr>)))"

definition joinSession :: "digest \<Rightarrow> int \<Rightarrow> string \<Rightarrow> platform_error option \<Rightarrow> platform_error + persisted_session option
    \<Rightarrow> platform_error option \<Rightarrow> file_manifest list \<Rightarrow> engine \<Rightarrow> transfer_session call_result" where
  "joinSession D now sessionId initialised loaded saved manifests e =
     (case initialised of
        Some err \<Rightarrow> (e, Inl err)
      | None \<Rightarrow>
          let e1 = e\<lparr>en_sessionId := Some sessionId\<rparr>
          in (case loaded of
                Inl err \<Rightarrow> (e1, Inl err)
              | Inr state \<Rightarrow>
                  (case bind_result (case state of None \<Rightarrow> Inr () | Some s \<Rightarrow> validatePersistedSessionState (encode_session s)) (\<lambda>_.
                          mergeManifests (case state of None \<Rightarrow> [] | Some s \<Rightarrow> ss_manifests s) manifests) of
                     Inl err \<Rightarrow> (e1, Inl (Pons err))
                   | Inr merged \<Rightarrow>
                       (case restore_maps D now (case state of None \<Rightarrow> [] | Some s \<Rightarrow> ss_pieceMaps s)
                              (fold (\<lambda>m e. registerManifest now e m) merged e1) of
                          (e2, Inl err) \<Rightarrow> (e2, Inl err)
                        | (e2, Inr _) \<Rightarrow>
                            (case (if merged = [] then (e2, Inr ()) else save_now now saved e2) of
                               (e3, Inl err) \<Rightarrow> (e3, Inl err)
                             | (e3, Inr _) \<Rightarrow> (e3, Inr \<lparr>ts_sessionId = sessionId, ts_manifests = merged, ts_shareUrl = None\<rparr>))))))"

text \<open>\<open>resumeFile\<close>; \<open>started\<close> is the clock when it was called. The sends of the final broadcast are left to the transport.\<close>

definition resumeFile :: "digest \<Rightarrow> turn \<Rightarrow> int \<Rightarrow> platform_error option \<Rightarrow> string \<Rightarrow> engine \<Rightarrow> resume_result call_result" where
  "resumeFile D tn started saved fileId e =
     (case bind_result (requireManifest e fileId) (\<lambda>manifest. bind_result (requireManager e fileId) (\<lambda>m. Inr (manifest, m))) of
        Inl err \<Rightarrow> (e, Inl (Pons err))
      | Inr (manifest, manager) \<Rightarrow>
          (case restoreResumeState engine_storage D (tn_now tn) (en_store e) manifest (exportPieceMap manager (tn_now tn)) of
             (s, Inl err) \<Rightarrow> (e\<lparr>en_store := s\<rparr>, Inl (Pons err))
           | (s, Inr r) \<Rightarrow>
               (case save_now (tn_now tn) saved
                    (e\<lparr>en_store := s, en_managers := jm_set fileId (rr_manager r) (en_managers e)\<rparr>) of
                  (e1, Inl err) \<Rightarrow> (e1, Inl err)
                | (e1, Inr _) \<Rightarrow>
                    let e2 = emit (Ev_Performance (Perf_Resume fileId (int (length (rr_verifiedPieces r)))
                          (int (length (rr_discardedPieces r))) (max 0 (tn_now tn - started)))) e1
                    in if en_knownPeers e2 = [] then (e2, Inr r)
                       else (case broadcastPieceMap tn fileId (en_knownPeers e2) [] e2 of
                               (e3, Some (Err err), _) \<Rightarrow> (e3, Inl err)
                             | (e3, _, _) \<Rightarrow> (e3, Inr r)))))"

end
