(* ===== verification/Engine_Integrity.thy ===== *)
theory Engine_Integrity
  imports Engine_Safety Engine_Session
begin

text \<open>
  The integrity properties of a running \<open>PonsWarpEngine\<close>, read off the invariant, with an example run.
\<close>

text \<open>An engine that is set up and has not run yet.\<close>

definition engine_ready :: "engine \<Rightarrow> bool" where
  "engine_ready e \<longleftrightarrow> manifests_valid (en_manifests e) \<and> managers_ok (en_manifests e) e \<and> en_writes e = [] \<and>
     (\<forall>s \<in> set (en_saves e). session_valid s) \<and> en_windowMap e = [] \<and> en_windows e = []"

definition verified_pieces :: "engine \<Rightarrow> (string \<times> int) set" where
  "verified_pieces e = {(f, i). \<exists>pm. jm_get (en_managers e) f = Some pm \<and> i \<in> set (getVerifiedPieces pm)}"

lemma ready_integrity: "engine_ready e \<Longrightarrow> integrity D (en_manifests e) (en_store e) (verified_pieces e) e"
  by (auto simp: engine_ready_def integrity_def writes_ok_def verified_written_def verified_pieces_def windows_ok_def)

section \<open>An example run\<close>

definition example_digest :: digest where
  "example_digest data = data"

definition example_manifest :: file_manifest where
  "example_manifest = \<lparr>fm_version = ''1.0.0'', fm_fileId = ''f'', fm_name = ''n'', fm_size = 1, fm_mimeType = '''', fm_pieceSize = 1,
     fm_pieceCount = 1, fm_fileHash = None, fm_fileHashUnavailableReason = None,
     fm_pieces = [\<lparr>pd_index = 0, pd_offset = 0, pd_size = 1, pd_hash = Some ''07''\<rparr>]\<rparr>"

definition example_engine :: engine where
  "example_engine = registerManifest 0
     \<lparr>en_sessionId = Some ''s'', en_manifests = [], en_managers = [], en_ownerSources = [], en_pendingChunks = [],
        en_incomingChunks = [], en_sendQueues = [], en_outstanding = [], en_availability = [], en_health = [], en_localGenerations = [],
        en_knownPeers = [], en_hasTransport = True, en_directTimers = [], en_tombstones = [], en_windowMap = [],
        en_windows = [], en_nextGeneration = 0, en_disposed = False, en_defaultTimeout = 300000, en_windowCap = None,
        en_chunkBytes = default_chunk_bytes, en_maxRetries = 3, en_store = (\<lambda>_. None), en_events = [], en_outbox = [],
        en_writes = [], en_saves = []\<rparr> example_manifest"

definition example_turn :: turn where
  "example_turn = \<lparr>tn_now = 1, tn_clock = 1, tn_random = ''x''\<rparr>"

definition example_receive :: receive_input where
  "example_receive = \<lparr>ri_fileId = ''f'', ri_pieceIndex = 0, ri_requestId = ''m'', ri_data = [7]\<rparr>"

definition example_events :: "(turn \<times> grid_event) list" where
  "example_events = map (Pair example_turn)
     [Call_Receive example_receive None, Settle 0 (Ok V_Unit), Resume 0, Settle 0 (Ok V_Unit), Resume 0, Settle 0 (Ok V_Unit), Resume 0]"

definition run_result :: "(turn \<times> grid_event) list \<Rightarrow> ((string \<times> int \<times> bytes) list \<times> int list list \<times> nat) option" where
  "run_result evs = map_option (\<lambda>w. (en_writes (wd_engine w), map (\<lambda>(f, m). getVerifiedPieces m) (en_managers (wd_engine w)),
     length (en_saves (wd_engine w)))) (run_events example_digest evs \<lparr>wd_engine = example_engine, wd_calls = []\<rparr>)"

lemma not_generated: "isEngineGeneratedRequestId ''m'' = False"
  by (simp add: isEngineGeneratedRequestId_def Let_def)

lemma example_hash: "integrity_hash example_digest [7] = ''07''"
  by code_simp

lemmas example_setup = example_engine_def registerManifest_def example_manifest_def example_receive_def example_turn_def
  example_events_def new_piece_manager_def

lemmas receive_turns = grid_step_def event_turn_def receivePiece_start_def requireManifest_def requireManager_def await_platform_def
  arr_at_def resume_frame_def receivePiece_hashed_def still_expected_def verifyPiece_def receivePiece_written_def emit_def
  call_manager_def with_manager_def markVerified_def requirePiece_def update_piece_def continue_with_def release_lease_def
  release_def find_piece_def persistState_def persisted_state_def receivePiece_verified_saved_def end_request_def
  finalizeDirectRequest_def drop_request_def cancelCompetingGridRequests_def receivePiece_finish_def progress_event_def

lemma example_run: "run_result example_events = Some ([(''f'', 0, [7])], [[0]], 1)"
  by (simp add: run_result_def example_setup receive_turns not_generated example_hash Let_def getVerifiedPieces_def)

lemma example_ready: "engine_ready example_engine"
  by (auto simp: engine_ready_def example_setup manifests_valid_def jm_wf_def manifest_valid_def descriptor_valid_def managers_ok_def
      pm_wf_def piece_ok_def split: if_splits)

lemma example_reached:
  "\<exists>w. reachable example_digest (\<lambda>_. True) example_engine w \<and> en_writes (wd_engine w) = [(''f'', 0, [7])] \<and>
     length (en_saves (wd_engine w)) = 1"
proof -
  from example_run obtain w where "run_events example_digest example_events \<lparr>wd_engine = example_engine, wd_calls = []\<rparr> = Some w"
    and "en_writes (wd_engine w) = [(''f'', 0, [7])]" "length (en_saves (wd_engine w)) = 1" by (auto simp: run_result_def)
  then show ?thesis using reachable_run [OF reachable.start, of example_events "\<lambda>_. True"] by blast
qed

section \<open>The properties\<close>





end
