(* ===== verification/Engine_Lifecycle.thy ===== *)
theory Engine_Lifecycle
  imports Engine_Integrity
begin

text \<open>
  Accounting for the direct requests of \<open>PonsWarpEngine\<close>: a request is concluded at most as often as it was sent, never while it is
  outstanding, retries are bounded, every outstanding direct request has its timer, and no window has more requests in flight
  than its cap. Both results are interpretations of \<open>engine_contract\<close>.
\<close>

section \<open>Counting\<close>

fun concludes :: "string \<Rightarrow> engine_event \<Rightarrow> bool" where
  "concludes r (Ev_Terminal t) = (te_requestId t = r)"
| "concludes r _ = False"

fun sends_request :: "string \<Rightarrow> string \<times> wire_message \<Rightarrow> bool" where
  "sends_request r (p, PieceRequest q) = (rq_requestId q = r)"
| "sends_request r _ = False"

definition conclusions :: "string \<Rightarrow> engine \<Rightarrow> nat" where
  "conclusions r e = length (filter (concludes r) (en_events e))"

definition sent_requests :: "string \<Rightarrow> engine \<Rightarrow> nat" where
  "sent_requests r e = length (filter (sends_request r) (en_outbox e))"

definition direct_outstanding :: "string \<Rightarrow> engine \<Rightarrow> bool" where
  "direct_outstanding r e \<longleftrightarrow> (\<exists>q d. jm_get (en_outstanding e) r = Some q \<and> or_direct q = Some d)"

definition open_count :: "string \<Rightarrow> engine \<Rightarrow> nat" where
  "open_count r e = (if direct_outstanding r e then 1 else 0)"

definition retry_bound :: "int \<Rightarrow> direct_options \<Rightarrow> bool" where
  "retry_bound R d \<longleftrightarrow> (case do_retryCount d of None \<Rightarrow> True | Some r \<Rightarrow> r \<le> R)"

definition requests_ok :: "int \<Rightarrow> engine \<Rightarrow> bool" where
  "requests_ok R e \<longleftrightarrow> (\<forall>r q d. jm_get (en_outstanding e) r = Some q \<and> or_direct q = Some d \<longrightarrow>
     r \<in> set (en_directTimers e) \<and> di_retryCount d \<le> R)"

fun event_bound :: "int \<Rightarrow> engine_event \<Rightarrow> bool" where
  "event_bound R (Ev_Terminal t) = (te_retryCount t \<le> R \<and> (te_willRetry t \<longrightarrow> te_retryCount t < R \<and> retryable_reason (te_reason t)))"
| "event_bound R _ = True"

definition lifecycle :: "(string, file_manifest) js_map \<Rightarrow> int \<Rightarrow> engine \<Rightarrow> bool" where
  "lifecycle M R e \<longleftrightarrow> en_manifests e = M \<and> en_maxRetries e = R \<and> 0 \<le> R \<and> en_hasTransport e \<and> requests_ok R e \<and>
     (\<forall>r. conclusions r e + open_count r e \<le> sent_requests r e) \<and> (\<forall>ev \<in> set (en_events e). event_bound R ev) \<and>
     windows_ok (\<lambda>_. True) (retry_bound R) e"

lemma lifecycle_same:
  assumes "lifecycle M R e" and "en_manifests e' = en_manifests e" "en_maxRetries e' = en_maxRetries e"
    "en_hasTransport e' = en_hasTransport e" "en_outstanding e' = en_outstanding e" "en_directTimers e' = en_directTimers e"
    "en_events e' = en_events e" "en_outbox e' = en_outbox e" and "windows_ok (\<lambda>_. True) (retry_bound R) e'"
  shows "lifecycle M R e'"
proof -
  have "requests_ok R e' = requests_ok R e" "\<And>r. conclusions r e' = conclusions r e" "\<And>r. open_count r e' = open_count r e"
    "\<And>r. sent_requests r e' = sent_requests r e"
    using assms(2-8) by (simp_all add: requests_ok_def conclusions_def open_count_def direct_outstanding_def sent_requests_def)
  with assms show ?thesis by (simp add: lifecycle_def)
qed

lemma not_terminal: "\<not> terminal ev \<Longrightarrow> \<not> concludes r ev" "\<not> terminal ev \<Longrightarrow> event_bound R ev"
  by (cases ev; simp)+

lemma not_request: "\<not> is_request m \<Longrightarrow> \<not> sends_request r (p, m)"
  by (cases m) simp_all

lemma lifecycle_windows: "lifecycle M R e \<Longrightarrow> windows_ok (\<lambda>_. True) (retry_bound R) e"
  by (simp add: lifecycle_def)

lemma lifecycle_emit:
  assumes "lifecycle M R e" and "\<not> terminal ev"
  shows "lifecycle M R (emit ev e)"
proof -
  have "conclusions r (emit ev e) = conclusions r e" "open_count r (emit ev e) = open_count r e"
    "sent_requests r (emit ev e) = sent_requests r e" for r
    using not_terminal(1) [OF assms(2)] by (simp_all add: conclusions_def open_count_def direct_outstanding_def sent_requests_def)
  moreover have "requests_ok R (emit ev e) = requests_ok R e" by (simp add: requests_ok_def)
  moreover have "windows_ok (\<lambda>_. True) (retry_bound R) (emit ev e)"
    by (rule windows_ok_same [OF lifecycle_windows [OF assms(1)]]) simp_all
  ultimately show ?thesis using assms(1) not_terminal(2) [OF assms(2)] by (auto simp: lifecycle_def)
qed

lemma lifecycle_send:
  assumes "lifecycle M R e" and "\<not> is_request m"
  shows "lifecycle M R (send_message p m e)"
proof -
  have "conclusions r (send_message p m e) = conclusions r e" "open_count r (send_message p m e) = open_count r e"
    "sent_requests r (send_message p m e) = sent_requests r e" for r
    using not_request [OF assms(2)] by (simp_all add: conclusions_def open_count_def direct_outstanding_def sent_requests_def)
  moreover have "requests_ok R (send_message p m e) = requests_ok R e" by (simp add: requests_ok_def)
  moreover have "windows_ok (\<lambda>_. True) (retry_bound R) (send_message p m e)"
    by (rule windows_ok_same [OF lifecycle_windows [OF assms(1)]]) simp_all
  ultimately show ?thesis using assms(1) by (auto simp: lifecycle_def)
qed

lemma lifecycle_drop:
  assumes "lifecycle M R e"
  shows "lifecycle M R (e\<lparr>en_outstanding := jm_delete r (en_outstanding e)\<rparr>)"
proof -
  let ?e = "e\<lparr>en_outstanding := jm_delete r (en_outstanding e)\<rparr>"
  have "conclusions x ?e + open_count x ?e \<le> sent_requests x ?e" for x
  proof -
    have "conclusions x ?e + open_count x ?e \<le> conclusions x e + open_count x e"
      by (simp add: conclusions_def open_count_def direct_outstanding_def)
    also have "\<dots> \<le> sent_requests x ?e" using assms by (simp add: lifecycle_def sent_requests_def)
    finally show ?thesis .
  qed
  moreover have "requests_ok R ?e" using assms by (auto simp: lifecycle_def requests_ok_def split: if_splits)
  moreover have "windows_ok (\<lambda>_. True) (retry_bound R) ?e"
    by (rule windows_ok_same [OF lifecycle_windows [OF assms(1)]]) simp_all
  ultimately show ?thesis using assms(1) by (auto simp: lifecycle_def)
qed

lemma issue_effect:
  assumes "en_hasTransport e"
  shows "en_outbox (issue r q e) = en_outbox e @ [(or_peerId q, piece_request_message (or_fileId q) (or_pieceIndex q) r)]"
    and "en_directTimers (issue r q e) = (if or_direct q = None then en_directTimers e else js_add r (en_directTimers e))"
  using assms by (auto simp: issue_def sendPieceRequest_def await_send_def requireTransport_def armDirectTimer_def send_message_def)

lemma lifecycle_issue:
  assumes "lifecycle M R e" and "\<And>d. or_direct q = Some d \<Longrightarrow> di_retryCount d \<le> R"
  shows "lifecycle M R (issue r q e)"
proof -
  have t: "en_hasTransport e" using assms(1) by (simp add: lifecycle_def)
  have "conclusions x (issue r q e) + open_count x (issue r q e) \<le> sent_requests x (issue r q e)" for x
  proof -
    have "sent_requests x (issue r q e) = sent_requests x e + (if x = r then 1 else 0)"
      by (simp add: sent_requests_def issue_effect(1) [OF t] piece_request_message_def)
    moreover have "open_count x (issue r q e) \<le> (if x = r then 1 else open_count x e)"
      by (simp add: open_count_def direct_outstanding_def)
    moreover have "conclusions x (issue r q e) = conclusions x e" by (simp add: conclusions_def)
    moreover have "conclusions x e + open_count x e \<le> sent_requests x e" using assms(1) by (simp add: lifecycle_def)
    ultimately show ?thesis by (auto split: if_splits)
  qed
  moreover have "requests_ok R (issue r q e)"
    using assms by (auto simp: lifecycle_def requests_ok_def issue_effect(2) [OF t] split: if_splits)
  moreover have "windows_ok (\<lambda>_. True) (retry_bound R) (issue r q e)"
    by (rule windows_ok_same [OF lifecycle_windows [OF assms(1)]]) simp_all
  ultimately show ?thesis using assms(1) by (auto simp: lifecycle_def)
qed

lemma lifecycle_finalize:
  assumes "lifecycle M R e"
  shows "lifecycle M R (fst (finalizeDirectRequest tn r status e))"
proof (cases "finalizeDirectRequest tn r status e")
  case (Pair e' b)
  have "windows_ok (\<lambda>_. True) (retry_bound R) (fst (finalizeDirectRequest tn r status e))"
    using assms by (intro windows_ok_finalize) (auto simp: lifecycle_def retry_bound_def)
  then have w: "windows_ok (\<lambda>_. True) (retry_bound R) e'" by (simp add: Pair)
  from Pair show ?thesis
  proof (cases rule: finalize_outcome)
    case none
    with assms Pair show ?thesis by simp
  next
    case (ended q d te)
    note keeps = finalize_keeps [OF Pair]
    have out: "en_outstanding e' = jm_delete r (en_outstanding e)"
      and tim: "en_directTimers e' = filter (\<lambda>x. x \<noteq> r) (en_directTimers e)"
      and evs: "\<exists>more. en_events e' = en_events e @ Ev_Terminal te # more \<and> list_all (\<lambda>ev. \<not> terminal ev) more"
      using ended(8) by auto
    then obtain more where more: "en_events e' = en_events e @ Ev_Terminal te # more" "list_all (\<lambda>ev. \<not> terminal ev) more" by blast
    have none: "filter (concludes x) more = []" for x
      using more(2) not_terminal(1) by (auto simp: filter_empty_conv list_all_iff)
    have cnt: "conclusions x e' + open_count x e' \<le> sent_requests x e'" for x
    proof -
      have "conclusions x e + open_count x e \<le> sent_requests x e'"
        using assms keeps(8) by (simp add: lifecycle_def sent_requests_def)
      moreover have "conclusions x e' = conclusions x e + (if x = r then 1 else 0)"
        using ended(4) none by (simp add: conclusions_def more)
      moreover have "open_count x e' = (if x = r then 0 else open_count x e)"
        by (simp add: open_count_def direct_outstanding_def out)
      moreover have "open_count r e = 1" using ended(1,2) by (simp add: open_count_def direct_outstanding_def)
      ultimately show ?thesis by (auto split: if_splits)
    qed
    have req: "requests_ok R e'" using assms by (auto simp: lifecycle_def requests_ok_def out tim split: if_splits)
    have "di_retryCount d \<le> R" using assms ended(1,2) by (auto simp: lifecycle_def requests_ok_def)
    then have "\<forall>ev \<in> set (en_events e'). event_bound R ev"
      using assms ended(5-7) not_terminal(2) more(2) by (auto simp: more(1) lifecycle_def list_all_iff)
    with cnt req w keeps assms show ?thesis by (simp add: Pair lifecycle_def)
  qed
qed

lemma lifecycle_manager:
  assumes "lifecycle M R e" and "with_manager e f op = Inr e'"
  shows "lifecycle M R e'"
proof -
  from assms(2) obtain ms where e': "e' = e\<lparr>en_managers := ms\<rparr>" by (auto simp: with_manager_Inr)
  show ?thesis using lifecycle_windows [OF assms(1)] unfolding e'
    by (intro lifecycle_same [OF assms(1)]) (auto simp: windows_ok_def)
qed

interpretation lc: engine_contract "lifecycle M R" D M "\<lambda>_. True" "retry_bound R" True for D M R
proof
  fix e :: engine assume inv: "lifecycle M R e"
  note same = lifecycle_same [OF inv] and win = lifecycle_windows [OF inv]
  show "en_manifests e = M" using inv by (simp add: lifecycle_def)
  show "lifecycle M R e'" if "soft e e'" for e'
    using that by (intro same windows_ok_same [OF win]) (simp_all add: soft_def)
  show "lifecycle M R (emit ev e)" if "\<not> terminal ev" for ev by (rule lifecycle_emit [OF inv that])
  show "lifecycle M R (send_message p msg e)" if "\<not> is_request msg" for p msg by (rule lifecycle_send [OF inv that])
  show "lifecycle M R (e\<lparr>en_saves := en_saves e @ [s]\<rparr>)" for s by (intro same windows_ok_same [OF win]) simp_all
  show "lifecycle M R e'" if "with_manager e f (\<lambda>m. markRequested m now i p) = Inr e'" for e' f now i p
    by (rule lifecycle_manager [OF inv that])
  show "lifecycle M R e'" if "with_manager e f (\<lambda>m. markFailed m now i reason) = Inr e'" for e' f now i reason
    by (rule lifecycle_manager [OF inv that])
  show "lifecycle M R e'" if "with_manager e f (\<lambda>m. resetFailedToMissing m now i) = Inr e'" for e' f now i
    by (rule lifecycle_manager [OF inv that])
  show "lifecycle M R (e\<lparr>en_store := (en_store e)((f, i) := Some bs), en_writes := en_writes e @ [(f, i, bs)]\<rparr>)" for f i bs
    by (intro same windows_ok_same [OF win]) simp_all
  show "lifecycle M R e'" if "with_manager e f (\<lambda>m. markVerified m now i) = Inr e'" for f i now e'
    by (rule lifecycle_manager [OF inv that])
  show "lifecycle M R (e\<lparr>en_store := (en_store e)(k := None)\<rparr>)" for k by (intro same windows_ok_same [OF win]) simp_all
  show "lifecycle M R (fst (finalizeDirectRequest tn r status e))" for tn r status by (rule lifecycle_finalize [OF inv])
  show "lifecycle M R (e\<lparr>en_outstanding := jm_delete r (en_outstanding e)\<rparr>)" for r by (rule lifecycle_drop [OF inv])
  show "lifecycle M R (issue r q e)" if "or_direct q = None" for r q by (rule lifecycle_issue [OF inv]) (simp add: that)
  show new: "lifecycle M R (new_window key (fresh_window f p c cap g) e)" for key f p c cap g
    by (intro same windows_ok_new [OF win]) simp_all
  show "lifecycle M R (issue r \<lparr>or_fileId = f, or_pieceIndex = i, or_peerId = p, or_requestedAt = t, or_gridOptions = None,
      or_direct = Some info\<rparr> e2)" if "retry_bound R d" "direct_entry tn p f d e = (e2, info)" for d tn p f e2 info r i t
  proof (rule lifecycle_issue)
    show "lifecycle M R e2" using direct_entry_keeps [OF that(2)] inv new by auto
    show "di_retryCount di \<le> R" if "or_direct \<lparr>or_fileId = f, or_pieceIndex = i, or_peerId = p, or_requestedAt = t,
        or_gridOptions = None, or_direct = Some info\<rparr> = Some di" for di
      using that direct_entry_keeps [OF \<open>direct_entry tn p f d e = (e2, info)\<close>] \<open>retry_bound R d\<close> inv
      by (auto simp: retry_bound_def lifecycle_def split: option.splits)
  qed
  show "lifecycle M R (e\<lparr>en_windowMap := jm_delete key (en_windowMap e)\<rparr>)" for key
    by (intro same windows_ok_drop [OF win]) simp_all
  show "lifecycle M R (set_window a w e)" if "a < length (en_windows e)" "dw_cap w = dw_cap (en_windows e ! a)"
    "set (dw_queue w) \<subseteq> set (dw_queue (en_windows e ! a))" for a w
    by (intro same windows_ok_set [OF win that]) simp_all
  show "lifecycle M R (enqueueWindow key task track e)" if "task_ok (retry_bound R) task" for key task track
    by (intro same windows_ok_enqueue [OF win that]) simp_all
  show "task_ok (retry_bound R) task" if "a < length (en_windows e)" "(task, track) \<in> set (dw_queue (en_windows e ! a))" for a task track
    using win nth_mem [OF that(1)] that(2) unfolding windows_ok_def by fastforce
  show "a < length (en_windows e)" if "jm_get (en_windowMap e) key = Some a" for key a
    using win that by (simp add: windows_ok_def)
  show "lifecycle M R (dispose_end e)"
  proof -
    have "conclusions r (dispose_end e) + open_count r (dispose_end e) \<le> sent_requests r (dispose_end e)" for r
      using inv by (auto simp: lifecycle_def dispose_end_def conclusions_def open_count_def direct_outstanding_def sent_requests_def
          intro: add_leD1)
    then show ?thesis using inv by (simp add: lifecycle_def dispose_end_def requests_ok_def windows_ok_def)
  qed
qed (simp_all add: retry_bound_def)

section \<open>The cap of a window\<close>

definition in_flight :: "string \<Rightarrow> (string \<times> outstanding_request) list \<Rightarrow> nat" where
  "in_flight key rs = length (filter (in_window key) (map snd rs))"

lemma count_in_flight: "countOutstandingRequestsForWindow e key = int (in_flight key (en_outstanding e))"
  by (simp add: countOutstandingRequestsForWindow_def in_flight_def)

lemma in_flight_set: "in_flight key (jm_set r q rs) \<le> in_flight key rs + (if in_window key q then 1 else 0)"
  by (induction rs) (auto simp: in_flight_def)

lemma in_flight_delete: "in_flight key (jm_delete r rs) \<le> in_flight key rs"
  by (induction rs) (auto simp: in_flight_def AList.delete_eq)

definition capped :: "(string, file_manifest) js_map \<Rightarrow> int \<Rightarrow> engine \<Rightarrow> bool" where
  "capped M K e \<longleftrightarrow> en_manifests e = M \<and> 1 \<le> K \<and> (\<forall>key. countOutstandingRequestsForWindow e key \<le> K) \<and>
     windows_ok (\<lambda>c. c \<le> K) (\<lambda>_. True) e"

lemma capped_windows: "capped M K e \<Longrightarrow> windows_ok (\<lambda>c. c \<le> K) (\<lambda>_. True) e"
  by (simp add: capped_def)

lemma capped_less:
  assumes "capped M K e" and "en_manifests e' = en_manifests e"
    and "\<And>key. in_flight key (en_outstanding e') \<le> in_flight key (en_outstanding e)" and "windows_ok (\<lambda>c. c \<le> K) (\<lambda>_. True) e'"
  shows "capped M K e'"
proof -
  have "int (in_flight key (en_outstanding e')) \<le> K" for key
    using assms(3) [of key] assms(1) by (simp add: capped_def count_in_flight) (meson of_nat_mono order_trans)
  with assms show ?thesis by (simp add: capped_def count_in_flight)
qed

lemma capped_manager:
  assumes "capped M K e" and "with_manager e f op = Inr e'"
  shows "capped M K e'"
proof -
  from assms(2) obtain ms where e': "e' = e\<lparr>en_managers := ms\<rparr>" by (auto simp: with_manager_Inr)
  show ?thesis using capped_windows [OF assms(1)] unfolding e'
    by (intro capped_less [OF assms(1)]) (auto simp: windows_ok_def)
qed

lemma capped_finalize:
  assumes "capped M K e"
  shows "capped M K (fst (finalizeDirectRequest tn r status e))"
proof (cases "finalizeDirectRequest tn r status e")
  case (Pair e' b)
  have "windows_ok (\<lambda>c. c \<le> K) (\<lambda>_. True) (fst (finalizeDirectRequest tn r status e))"
    by (rule windows_ok_finalize [OF capped_windows [OF assms]]) simp
  then have w: "windows_ok (\<lambda>c. c \<le> K) (\<lambda>_. True) e'" by (simp add: Pair)
  from Pair have "in_flight key (en_outstanding e') \<le> in_flight key (en_outstanding e)" for key
    by (cases rule: finalize_outcome) (auto intro: in_flight_delete)
  then show ?thesis using finalize_keeps(2) [OF Pair] w by (auto simp: Pair intro: capped_less [OF assms])
qed

lemma capped_new: "capped M K e \<Longrightarrow> c \<le> K \<Longrightarrow> capped M K (new_window key (fresh_window f p ctl c g) e)"
  by (rule capped_less) (auto intro: windows_ok_new capped_windows)

lemma capped_direct:
  assumes "capped M K e" and "room (\<lambda>c. c \<le> K) d e" and "direct_entry tn p f d e = (e2, info)" and "or_direct q = Some info"
  shows "capped M K (issue r q e2)"
proof -
  note de = direct_entry_keeps [OF assms(3)]
  have "1 \<le> K" using assms(1) by (simp add: capped_def)
  then have e2: "capped M K e2" using de assms(1) by (auto intro: capped_new)
  have out: "en_outstanding e2 = en_outstanding e" using de by auto
  from assms(2) obtain key cap where key: "do_windowKey d = Some key" "cap \<le> K" "int (in_flight key (en_outstanding e)) < cap"
    by (auto simp: room_def count_in_flight)
  have "int (in_flight k (en_outstanding (issue r q e2))) \<le> K" for k
  proof (cases "k = key")
    case True
    with in_flight_set [of k r q "en_outstanding e2"] key out show ?thesis by (auto split: if_splits)
  next
    case False
    then have "\<not> in_window k q" using de key(1) assms(4) by (simp add: in_window_def)
    then have "in_flight k (en_outstanding (issue r q e2)) \<le> in_flight k (en_outstanding e)"
      using in_flight_set [of k r q "en_outstanding e2"] out by simp
    moreover have "int (in_flight k (en_outstanding e)) \<le> K" using assms(1) by (simp add: capped_def count_in_flight)
    ultimately show ?thesis by linarith
  qed
  then show ?thesis using e2 by (auto simp: capped_def count_in_flight windows_ok_def)
qed

interpretation cp: engine_contract "capped M K" D M "\<lambda>c. c \<le> K" "\<lambda>_. True" False for D M K
proof
  fix e :: engine assume inv: "capped M K e"
  note less = capped_less [OF inv] and win = capped_windows [OF inv]
  show "en_manifests e = M" using inv by (simp add: capped_def)
  show "capped M K e'" if "soft e e'" for e'
    using that by (intro less windows_ok_same [OF win]) (simp_all add: soft_def)
  show "capped M K (emit ev e)" for ev by (intro less windows_ok_same [OF win]) simp_all
  show "capped M K (send_message p msg e)" for p msg by (intro less windows_ok_same [OF win]) simp_all
  show "capped M K (e\<lparr>en_saves := en_saves e @ [s]\<rparr>)" for s by (intro less windows_ok_same [OF win]) simp_all
  show "capped M K e'" if "with_manager e f (\<lambda>m. markRequested m now i p) = Inr e'" for e' f now i p
    by (rule capped_manager [OF inv that])
  show "capped M K e'" if "with_manager e f (\<lambda>m. markFailed m now i reason) = Inr e'" for e' f now i reason
    by (rule capped_manager [OF inv that])
  show "capped M K e'" if "with_manager e f (\<lambda>m. resetFailedToMissing m now i) = Inr e'" for e' f now i
    by (rule capped_manager [OF inv that])
  show "capped M K (e\<lparr>en_store := (en_store e)((f, i) := Some bs), en_writes := en_writes e @ [(f, i, bs)]\<rparr>)" for f i bs
    by (intro less windows_ok_same [OF win]) simp_all
  show "capped M K e'" if "with_manager e f (\<lambda>m. markVerified m now i) = Inr e'" for f i now e'
    by (rule capped_manager [OF inv that])
  show "capped M K (e\<lparr>en_store := (en_store e)(k := None)\<rparr>)" for k by (intro less windows_ok_same [OF win]) simp_all
  show "capped M K (fst (finalizeDirectRequest tn r status e))" for tn r status by (rule capped_finalize [OF inv])
  show "capped M K (e\<lparr>en_outstanding := jm_delete r (en_outstanding e)\<rparr>)" for r
    by (intro less windows_ok_same [OF win]) (simp_all add: in_flight_delete)
  show "capped M K (issue r q e)" if "or_direct q = None" for r q
  proof (intro less windows_ok_same [OF win])
    show "in_flight key (en_outstanding (issue r q e)) \<le> in_flight key (en_outstanding e)" for key
      using in_flight_set [of key r q "en_outstanding e"] that by (simp add: in_window_def)
  qed simp_all
  show "capped M K (issue r \<lparr>or_fileId = f, or_pieceIndex = i, or_peerId = p, or_requestedAt = t, or_gridOptions = None,
      or_direct = Some info\<rparr> e2)" if "False \<or> room (\<lambda>c. c \<le> K) d e" "direct_entry tn p f d e = (e2, info)" for d tn p f e2 info r i t
    using that by (intro capped_direct [OF inv _ that(2)]) simp_all
  show "capped M K (new_window key (fresh_window f p c cap g) e)" if "cap \<le> K" for key f p c cap g
    by (rule capped_new [OF inv that])
  show "capped M K (e\<lparr>en_windowMap := jm_delete key (en_windowMap e)\<rparr>)" for key
    by (intro less windows_ok_drop [OF win]) simp_all
  show "capped M K (set_window a w e)" if "a < length (en_windows e)" "dw_cap w = dw_cap (en_windows e ! a)"
    "set (dw_queue w) \<subseteq> set (dw_queue (en_windows e ! a))" for a w
    by (intro less windows_ok_set [OF win that]) simp_all
  show "capped M K (enqueueWindow key task track e)" if "task_ok (\<lambda>_. True) task" for key task track
    by (intro less windows_ok_enqueue [OF win that]) simp_all
  show "task_ok (\<lambda>_. True) task" if "a < length (en_windows e)" "(task, track) \<in> set (dw_queue (en_windows e ! a))" for a task track
    using win nth_mem [OF that(1)] that(2) unfolding windows_ok_def by fastforce
  show "dw_cap (en_windows e ! a) \<le> K" if "a < length (en_windows e)" for a
    using win nth_mem [OF that] unfolding windows_ok_def by fastforce
  show "(case en_windowCap e of None \<Rightarrow> 1 | Some c \<Rightarrow> c) \<le> K" using win by (simp add: windows_ok_def)
  show "a < length (en_windows e)" if "jm_get (en_windowMap e) key = Some a" for key a
    using win that by (simp add: windows_ok_def)
  show "capped M K (dispose_end e)"
    using win by (intro less) (simp_all add: dispose_end_def windows_ok_def in_flight_def)
qed simp_all

section \<open>The properties\<close>

text \<open>An engine with a transport that has not asked for anything yet.\<close>

definition engine_idle :: "engine \<Rightarrow> bool" where
  "engine_idle e \<longleftrightarrow> en_outstanding e = [] \<and> en_events e = [] \<and> en_windowMap e = [] \<and> en_windows e = [] \<and> en_hasTransport e \<and>
     0 \<le> en_maxRetries e"

text \<open>
  C2. A direct request ends at most as often as it was sent, whatever the order of messages, timers, cancellations and
  retries: the terminal events of a request id and the request itself, while it is outstanding, are no more than the requests sent under
  that id. An outstanding direct request always has its timer and at most the allowed number of retries behind it,
  and a terminal event announces a retry only for a retryable reason and below that number.
\<close>

theorem direct_requests_conclude_once:
  assumes "engine_idle e0" and "reachable D (call_ok True (\<lambda>_. True) (retry_bound (en_maxRetries e0))) e0 w"
  shows "conclusions r (wd_engine w) + open_count r (wd_engine w) \<le> sent_requests r (wd_engine w) \<and>
    (direct_outstanding r (wd_engine w) \<and> sent_requests r (wd_engine w) = 1 \<longrightarrow> conclusions r (wd_engine w) = 0) \<and>
    requests_ok (en_maxRetries e0) (wd_engine w) \<and>
    (\<forall>ev \<in> set (en_events (wd_engine w)). event_bound (en_maxRetries e0) ev)"
proof -
  have "lifecycle (en_manifests e0) (en_maxRetries e0) e0"
    using assms(1) by (simp add: engine_idle_def lifecycle_def requests_ok_def conclusions_def open_count_def direct_outstanding_def windows_ok_def)
  from lc.reachable_inv [OF assms(2) this]
  have i: "lifecycle (en_manifests e0) (en_maxRetries e0) (wd_engine w)" by simp
  then have "conclusions r (wd_engine w) + open_count r (wd_engine w) \<le> sent_requests r (wd_engine w)" by (simp add: lifecycle_def)
  moreover from this have "direct_outstanding r (wd_engine w) \<and> sent_requests r (wd_engine w) = 1 \<longrightarrow> conclusions r (wd_engine w) = 0"
    by (auto simp: open_count_def)
  ultimately show ?thesis using i by (simp add: lifecycle_def)
qed


definition lifecycle_events :: "(turn \<times> grid_event) list" where
  "lifecycle_events = map (Pair example_turn)
     [Call_DirectWindow ''p'' ''f'' \<lparr>do_timeoutMs = None, do_controllerId = None, do_windowKey = Some ''k'', do_retryCount = None\<rparr> None,
      Window_Turn 0, Call_CancelDirect any_selector]"

definition lifecycle_result :: "(turn \<times> grid_event) list \<Rightarrow> (nat \<times> nat \<times> int) option" where
  "lifecycle_result evs = map_option (\<lambda>w. (length (en_outbox (wd_engine w)), length (en_events (wd_engine w)),
     countOutstandingRequestsForWindow (wd_engine w) ''k''))
     (run_events example_digest evs \<lparr>wd_engine = example_engine, wd_calls = []\<rparr>)"

lemma assert_one: "assertPositiveSafeInteger (num_of_int 1) = Inr 1"
  by (simp add: assertPositiveSafeInteger_Inr MAX_SAFE_INTEGER_def)

lemmas window_turns = requestPieceWindow_def assert_one MAX_SAFE_INTEGER_def maxDirectMetadataEntries_def allocateDirectGeneration_def new_window_def fresh_window_def
  pruneDirectLifecycleMetadata_def enqueueWindow_def quiet_def window_turn_def task_start_def fill_step_def
  countOutstandingRequestsForWindow_def requestNextPiece_start_def owner_first_next_def getMissingPieces_def getPieceState_def
  check_timeout_def direct_entry_def markRequested_def timeout_of_def armDirectTimer_def sendPieceRequest_def await_send_def
  requireTransport_def send_message_def await_call_def set_window_def window_at_def in_window_def js_add_def

lemmas cancel_turns = cancelDirectRequests_def window_selected_def selects_def any_selector_def request_selected_def
  addDirectTombstone_def forget_request_def retryable_reason_def

lemma lifecycle_run:
  "lifecycle_result (take 2 lifecycle_events) = Some (1, 0, 1)" "lifecycle_result lifecycle_events = Some (1, 1, 0)"
  by (simp_all add: lifecycle_result_def lifecycle_events_def example_setup receive_turns window_turns cancel_turns Let_def)

lemma example_idle: "engine_idle example_engine"
  by (simp add: engine_idle_def example_setup)

lemma lifecycle_reached:
  assumes "lifecycle_result evs = Some (a, b, c)" and "\<forall>(tn, ev) \<in> set evs. P ev"
  shows "\<exists>w. reachable example_digest P example_engine w \<and> length (en_outbox (wd_engine w)) = a \<and>
    length (en_events (wd_engine w)) = b \<and> countOutstandingRequestsForWindow (wd_engine w) ''k'' = c"
proof -
  from assms(1) obtain w where "run_events example_digest evs \<lparr>wd_engine = example_engine, wd_calls = []\<rparr> = Some w"
    "length (en_outbox (wd_engine w)) = a" "length (en_events (wd_engine w)) = b"
    "countOutstandingRequestsForWindow (wd_engine w) ''k'' = c" by (auto simp: lifecycle_result_def)
  with reachable_run [OF reachable.start assms(2)] show ?thesis by blast
qed

theorem direct_requests_conclude_once_witness:
  "\<exists>w ev. reachable example_digest (call_ok True (\<lambda>_. True) (retry_bound 3)) example_engine w \<and> en_events (wd_engine w) = [ev] \<and>
     event_bound 3 ev \<and> requests_ok 3 (wd_engine w) \<and>
     conclusions ''r'' (wd_engine w) + open_count ''r'' (wd_engine w) \<le> sent_requests ''r'' (wd_engine w)"
proof -
  have R: "en_maxRetries example_engine = 3" by (simp add: example_setup)
  have "\<forall>(tn, ev) \<in> set lifecycle_events. call_ok True (\<lambda>_. True) (retry_bound 3) ev"
    by (simp add: lifecycle_events_def call_ok_def retry_bound_def)
  from lifecycle_reached [OF lifecycle_run(2) this] obtain w where
    w: "reachable example_digest (call_ok True (\<lambda>_. True) (retry_bound 3)) example_engine w" "length (en_events (wd_engine w)) = 1" by blast
  then obtain ev where "en_events (wd_engine w) = [ev]" by (auto simp: length_Suc_conv)
  moreover note direct_requests_conclude_once [OF example_idle w(1) [folded R], of "''r''"]
  ultimately show ?thesis using w(1) by (auto simp: R)
qed


end
