(* ===== verification/Engine_Behaviour.thy ===== *)
theory Engine_Behaviour
  imports Engine_Lifecycle
begin

text \<open>
  What single operations of \<open>PonsWarpEngine\<close> do: which piece the grid asks for next, which requests a cancellation ends, whose
  messages count, and that receiving a good piece always ends in an acknowledgement. Three further results
  show what the code does in cases its comments do not expect.
\<close>

section \<open>The choice of the grid\<close>

lemma grid_weak_order: "weak_order_on A grid_after"
  by (auto simp: weak_order_on_def grid_after_def Let_def split: if_splits)

lemma grid_items_indices:
  "grid_items f opts k act now missing e = (e', Inr items) \<Longrightarrow> map gi_index items = missing \<and> en_availability e' = en_availability e"
  by (induction missing arbitrary: e e' items)
    (auto simp: Let_def turn_bind_def split: sum.splits prod.splits)

lemma choose_item_first:
  "choose_item R items = Choose item v \<Longrightarrow> \<exists>before after. items = before @ item # after \<and> gi_retryCount item \<le> R \<and>
     (\<forall>x \<in> set before. gi_providers x = [] \<and> gi_retryCount x \<le> R) \<and> (\<exists>rest. gi_providers item = v # rest)"
proof (induction items)
  case (Cons x items)
  show ?case
  proof (cases "gi_providers x = [] \<and> gi_retryCount x \<le> R")
    case True
    with Cons.prems have "choose_item R items = Choose item v" by simp
    from Cons.IH [OF this] obtain before after where "items = before @ item # after" "gi_retryCount item \<le> R"
      "\<forall>x \<in> set before. gi_providers x = [] \<and> gi_retryCount x \<le> R" "\<exists>rest. gi_providers item = v # rest" by blast
    with True show ?thesis by (intro exI [of _ "x # before"] exI [of _ after]) simp
  next
    case False
    with Cons.prems show ?thesis by (auto split: if_splits list.splits intro: exI [of _ "[]"])
  qed
qed simp

lemma not_after:
  "\<not> grid_after a b \<longleftrightarrow> (has_receiver b \<longrightarrow> has_receiver a) \<and> (has_receiver b = has_receiver a \<longrightarrow> gi_rarityCount a \<le> gi_rarityCount b \<and>
     (gi_rarityCount b = gi_rarityCount a \<longrightarrow> gi_retryCount a \<le> gi_retryCount b \<and>
       (gi_retryCount b = gi_retryCount a \<longrightarrow> gi_index a \<le> gi_index b)))"
  by (cases "has_receiver a"; cases "has_receiver b") (auto simp: grid_after_def Let_def)


definition example_grid :: grid_options where
  "example_grid = \<lparr>go_ownerPeerId = ''a'', go_candidatePeers = [], go_maxRequestsPerPeer = None, go_requestLeaseMs = None,
     go_now = None, go_endgameMaxPieces = None, go_endgameMaxProviders = None, go_endgame = None\<rparr>"

lemmas grid_turns = ranked_items_def turn_bind_def rankProviders_def getProviders_def grid_candidates_def example_grid_def
  active_per_peer_def active_count_def health_get_def default_health_def getPieceState_def requireManager_def
  getLease_def find_piece_def js_add_def js_set_of_def


section \<open>Whose messages count\<close>



section \<open>Cancellation\<close>

definition selected :: "cancel_selector \<Rightarrow> outstanding_request \<Rightarrow> bool" where
  "selected s q \<longleftrightarrow> (case or_direct q of None \<Rightarrow> False | Some d \<Rightarrow> request_selected s q d)"

lemma finalize_cancelled:
  assumes "jm_get (en_outstanding e) r = Some q" and "or_direct q = Some d"
  shows "\<exists>te. finalizeDirectRequest tn r R_Cancelled e = (emit (Ev_Terminal te) (forget_request r e), True) \<and>
    te_requestId te = r \<and> te_reason te = R_Cancelled \<and> \<not> te_willRetry te"
proof -
  have "P u \<Longrightarrow> \<exists>t. emit (Ev_Terminal u) x = emit (Ev_Terminal t) x \<and> P t" for P u x by blast
  then show ?thesis using assms by (simp add: finalizeDirectRequest_def retryable_reason_def Let_def)
qed

lemma tombstone_keeps [simp]:
  "en_outstanding (addDirectTombstone r e) = en_outstanding e" "en_events (addDirectTombstone r e) = en_events e"
  "en_windows (addDirectTombstone r e) = en_windows e" "en_directTimers (addDirectTombstone r e) = en_directTimers e"
  by (simp_all add: addDirectTombstone_def Let_def)

lemma cancel_requests_effect:
  assumes "jm_wf rs" and "\<forall>(r, q) \<in> set rs. jm_get (en_outstanding e) r = Some q"
  shows "\<exists>e' ts. cancel_requests tn s rs n e = (e', n + int (length (filter (\<lambda>(r, q). selected s q) rs))) \<and>
    en_outstanding e' = filter (\<lambda>(r, q). r \<notin> fst ` set (filter (\<lambda>(r, q). selected s q) rs)) (en_outstanding e) \<and>
    en_events e' = en_events e @ map Ev_Terminal ts \<and> en_windows e' = en_windows e \<and>
    map te_requestId ts = map fst (filter (\<lambda>(r, q). selected s q) rs) \<and> (\<forall>t \<in> set ts. te_reason t = R_Cancelled \<and> \<not> te_willRetry t)"
  using assms
proof (induction rs arbitrary: n e)
  case Nil
  then show ?case by (auto intro!: exI [of _ "[]"])
next
  case (Cons x rs)
  obtain r q where x: "x = (r, q)" by (cases x)
  have wf: "jm_wf rs" "r \<notin> fst ` set rs" using Cons.prems(1) by (auto simp: x jm_wf_def)
  show ?case
  proof (cases "selected s q")
    case False
    then have step: "cancel_requests tn s (x # rs) n e = cancel_requests tn s rs n e"
      by (auto simp: x selected_def split: option.splits)
    show ?thesis unfolding step using Cons.IH [OF wf(1), of e n] Cons.prems(2) False by (simp add: x)
  next
    case True
    then obtain d where d: "or_direct q = Some d" "request_selected s q d" by (auto simp: selected_def split: option.splits)
    have "jm_get (en_outstanding (addDirectTombstone r e)) r = Some q" using Cons.prems(2) by (simp add: x)
    from finalize_cancelled [OF this d(1)] obtain te where
      fin: "finalizeDirectRequest tn r R_Cancelled (addDirectTombstone r e) = (emit (Ev_Terminal te) (forget_request r (addDirectTombstone r e)), True)"
      and te: "te_requestId te = r" "te_reason te = R_Cancelled" "\<not> te_willRetry te" by blast
    let ?e1 = "emit (Ev_Terminal te) (forget_request r (addDirectTombstone r e))"
    have step: "cancel_requests tn s (x # rs) n e = cancel_requests tn s rs (n + 1) ?e1"
      using d by (simp add: x fin)
    have "\<forall>(a, b) \<in> set rs. jm_get (en_outstanding ?e1) a = Some b" using Cons.prems(2) wf(2) by (auto simp: rev_image_eqI)
    from Cons.IH [OF wf(1) this, of "n + 1"] obtain e' ts where
      IH: "cancel_requests tn s rs (n + 1) ?e1 = (e', n + 1 + int (length (filter (\<lambda>(r, q). selected s q) rs)))"
      "en_outstanding e' = filter (\<lambda>(r, q). r \<notin> fst ` set (filter (\<lambda>(r, q). selected s q) rs)) (en_outstanding ?e1)"
      "en_events e' = en_events ?e1 @ map Ev_Terminal ts" "en_windows e' = en_windows ?e1"
      "map te_requestId ts = map fst (filter (\<lambda>(r, q). selected s q) rs)" "\<forall>t \<in> set ts. te_reason t = R_Cancelled \<and> \<not> te_willRetry t"
      by blast
    have out: "filter (\<lambda>(a, b). a \<notin> S) (jm_delete r m) = filter (\<lambda>(a, b). a \<noteq> r \<and> a \<notin> S) m" for S and m :: "(string \<times> outstanding_request) list"
      by (induction m) (auto simp: AList.delete_eq)
    show ?thesis unfolding step
      by (intro exI [of _ e'] exI [of _ "te # ts"]) (use IH te True in \<open>simp add: x out\<close>)
  qed
qed

lemma cancel_windows_keeps:
  "cancel_windows s ws e = (e', res) \<Longrightarrow> en_outstanding e' = en_outstanding e \<and> en_events e' = en_events e"
proof (induction ws arbitrary: e)
  case (Cons x ws)
  then show ?case
    by (cases x) (auto simp: Let_def turn_bind_def allocateDirectGeneration_def split: if_splits sum.splits prod.splits)
qed auto

lemma prune_keeps: "en_outstanding (pruneDirectLifecycleMetadata k e) = en_outstanding e \<and> en_events (pruneDirectLifecycleMetadata k e) = en_events e"
proof -
  have "en_outstanding (prune_loop e k ks) = en_outstanding e \<and> en_events (prune_loop e k ks) = en_events e" for ks e
    by (induction e k ks rule: prune_loop.induct) auto
  then show ?thesis by (simp add: pruneDirectLifecycleMetadata_def)
qed

text \<open>
  C13. Cancelling direct requests ends exactly the selected ones: they are no longer outstanding, each gives
  one terminal event with the reason \<open>cancelled\<close> and without a retry, the call returns their number, and every other
  request stays as it is.
\<close>

theorem cancelDirectRequests_exact:
  assumes "jm_wf (en_outstanding e)" and "cancelDirectRequests tn s e = (e', Inr n)"
  shows "n = int (length (filter (\<lambda>(r, q). selected s q) (en_outstanding e))) \<and>
    en_outstanding e' = filter (\<lambda>(r, q). \<not> selected s q) (en_outstanding e) \<and>
    (\<exists>ts. en_events e' = en_events e @ map Ev_Terminal ts \<and>
       map te_requestId ts = map fst (filter (\<lambda>(r, q). selected s q) (en_outstanding e)) \<and>
       (\<forall>t \<in> set ts. te_reason t = R_Cancelled \<and> \<not> te_willRetry t))"
proof -
  obtain e1 e2 where w: "cancel_windows s (en_windowMap e) e = (e1, Inr ())"
    and r: "cancel_requests tn s (en_outstanding e1) 0 e1 = (e2, n)" and e': "e' = pruneDirectLifecycleMetadata None e2"
    using assms(2) by (auto simp: cancelDirectRequests_def turn_bind_def Let_def split: prod.splits sum.splits)
  have e1: "en_outstanding e1 = en_outstanding e" "en_events e1 = en_events e" using cancel_windows_keeps [OF w] by auto
  have "\<forall>(a, b) \<in> set (en_outstanding e1). jm_get (en_outstanding e1) a = Some b"
    using assms(1) by (auto simp: e1 jm_get_in_set)
  from cancel_requests_effect [OF _ this, of tn s 0] assms(1) r obtain ts where
    "n = int (length (filter (\<lambda>(r, q). selected s q) (en_outstanding e)))"
    and out: "en_outstanding e2 = filter (\<lambda>(r, q). r \<notin> fst ` set (filter (\<lambda>(r, q). selected s q) (en_outstanding e))) (en_outstanding e)"
    and "en_events e2 = en_events e @ map Ev_Terminal ts" "map te_requestId ts = map fst (filter (\<lambda>(r, q). selected s q) (en_outstanding e))"
    "\<forall>t \<in> set ts. te_reason t = R_Cancelled \<and> \<not> te_willRetry t"
    by (auto simp: e1)
  moreover have "filter (\<lambda>(r, q). r \<notin> fst ` set (filter (\<lambda>(r, q). selected s q) (en_outstanding e))) (en_outstanding e) =
      filter (\<lambda>(r, q). \<not> selected s q) (en_outstanding e)"
    using assms(1) by (intro filter_cong refl) (force simp: jm_wf_def dest: eq_key_imp_eq_value)
  ultimately show ?thesis using prune_keeps [of None e2] by (simp add: e') blast
qed

definition example_request :: outstanding_request where
  "example_request = \<lparr>or_fileId = ''f'', or_pieceIndex = 0, or_peerId = ''p'', or_requestedAt = 0, or_gridOptions = None,
     or_direct = Some \<lparr>di_timeoutMs = 9, di_controllerId = None, di_windowKey = ''k'', di_expiresAt = 9, di_generation = 1, di_retryCount = 0\<rparr>\<rparr>"

theorem cancelDirectRequests_exact_witness:
  "\<exists>e'. cancelDirectRequests example_turn any_selector (example_engine\<lparr>en_outstanding := [(''r'', example_request)]\<rparr>) = (e', Inr 1) \<and>
     en_outstanding e' = []"
proof -
  let ?e = "example_engine\<lparr>en_outstanding := [(''r'', example_request)]\<rparr>"
  have "\<exists>e'. cancelDirectRequests example_turn any_selector ?e = (e', Inr 1)"
    by (simp add: example_setup example_request_def cancel_turns finalizeDirectRequest_def turn_bind_def Let_def)
  then obtain e' where e': "cancelDirectRequests example_turn any_selector ?e = (e', Inr 1)" by blast
  have "selected any_selector example_request" by (simp add: selected_def example_request_def cancel_turns)
  with cancelDirectRequests_exact [OF _ e'] have "en_outstanding e' = []" by (simp add: jm_wf_def)
  with e' show ?thesis by blast
qed

section \<open>Cases that the comments do not expect\<close>

text \<open>
  A \<open>PIECE_CANCEL\<close> of any peer closes the request it names, whoever it was made to: a piece that arrives for it later
  is refused as unauthorized.
\<close>

theorem any_peer_cancels:
  assumes "message_type msg = Some ''PIECE_CANCEL''" and "jfield msg ''requestId'' = JStr (ri_requestId inp)"
    and "ri_requestId inp \<noteq> ''''"
  shows "let e' = fst (handleTransportMessage tn p msg e) in
    receivePiece_start inp expected e' = (e', returns (unauthorized inp)) \<and> en_outstanding e' = en_outstanding e"
proof -
  have "fst (handleTransportMessage tn p msg e) = e\<lparr>en_knownPeers := js_add p (en_knownPeers e), en_tombstones := js_add (ri_requestId inp) (en_tombstones e)\<rparr>"
    using assms by (simp add: handleTransportMessage_def on_cancel_def requireStringField_def await_call_def Let_def case_prod_beta)
  then show ?thesis by (simp add: receivePiece_start_def Let_def)
qed

theorem any_peer_cancels_witness:
  "let e' = fst (handleTransportMessage example_turn ''b'' (JObj [(''type'', JStr ''PIECE_CANCEL''), (''requestId'', JStr ''m'')]) example_engine)
   in receivePiece_start example_receive (Some ''p'') e' = (e', returns (unauthorized example_receive)) \<and> en_outstanding e' = en_outstanding example_engine"
  by (rule any_peer_cancels) (simp_all add: message_type_def example_receive_def)

text \<open>
  The endgame looks for second providers among the pieces that are missing or failed only: while every outstanding request
  of the file is for a piece in another state, such as the requested ones, it sends nothing and changes nothing.
\<close>

theorem endgame_leaves_requested_pieces:
  assumes "\<forall>(r, q) \<in> set (en_outstanding e). or_fileId q = f \<longrightarrow> or_pieceIndex q \<notin> set missing"
  shows "endgame_loop tn f opts now act missing e = (e, returns V_Unit)"
  using assms
proof (induction missing)
  case (Cons i missing)
  then have "filter (\<lambda>r. or_fileId r = f \<and> or_pieceIndex r = i) (map snd (en_outstanding e)) = []" by (auto simp: filter_empty_conv)
  with Cons show ?case by (simp add: Let_def) auto
qed simp

theorem endgame_leaves_requested_pieces_witness:
  "endgame_loop example_turn ''f'' example_grid 1 [] [1] (example_engine\<lparr>en_outstanding := [(''r'', example_request)]\<rparr>) =
     (example_engine\<lparr>en_outstanding := [(''r'', example_request)]\<rparr>, returns V_Unit)"
  by (rule endgame_leaves_requested_pieces) (simp add: example_request_def)

end
