(* ===== verification/Engine_Outcomes.thy ===== *)
theory Engine_Outcomes
  imports Engine_Behaviour
begin

text \<open>
  The outcome of \<open>receivePiece\<close> in \<open>PonsWarpEngine\<close> when nothing interferes: good bytes end in an acknowledgement after at most
  four resumptions, and bad bytes cost even a piece that was verified before.
\<close>

text \<open>An activation run to its end: each operation it waits for succeeds at once. \<open>n\<close> bounds the resumptions.\<close>

fun run_through :: "digest \<Rightarrow> turn \<Rightarrow> nat \<Rightarrow> engine \<times> activation \<Rightarrow> engine \<times> activation" where
  "run_through D tn 0 x = x"
| "run_through D tn (Suc n) (e, out, []) = (e, out, [])"
| "run_through D tn (Suc n) (e, out, frame # rest) =
     (case resume_frame D tn frame (case out of Some v \<Rightarrow> v | None \<Rightarrow> Ok V_Unit) e of
        (e', out', frames) \<Rightarrow> run_through D tn n (e', out', frames @ rest))"

definition piece_settled :: "receive_input \<Rightarrow> engine \<Rightarrow> bool" where
  "piece_settled inp e \<longleftrightarrow> en_store e (ri_fileId inp, ri_pieceIndex inp) = Some (ri_data inp) \<and>
     (\<exists>m. jm_get (en_managers e) (ri_fileId inp) = Some m \<and> ri_pieceIndex inp \<in> set (getVerifiedPieces m))"

definition basics_kept :: "engine \<Rightarrow> engine \<Rightarrow> bool" where
  "basics_kept e e' \<longleftrightarrow> en_managers e' = en_managers e \<and> en_manifests e' = en_manifests e \<and> en_store e' = en_store e \<and>
     en_hasTransport e' = en_hasTransport e"

lemma basics_settled: "basics_kept e e' \<Longrightarrow> piece_settled inp e' = piece_settled inp e"
  by (simp add: basics_kept_def piece_settled_def)

lemma basics_trans [trans]: "basics_kept e e1 \<Longrightarrow> basics_kept e1 e2 \<Longrightarrow> basics_kept e e2"
  by (simp add: basics_kept_def)

lemma end_request_effect:
  assumes "jm_wf (en_outstanding e)"
  shows "basics_kept e (end_request tn r status e) \<and> jm_get (en_outstanding (end_request tn r status e)) r = None"
proof -
  obtain e1 b where f: "finalizeDirectRequest tn r status e = (e1, b)" by fastforce
  from f show ?thesis
    by (cases rule: finalize_outcome) (use finalize_keeps [OF f] in \<open>auto simp: end_request_def f basics_kept_def drop_request_def\<close>)
qed

lemma cancel_competing_effect:
  "en_hasTransport e \<Longrightarrow> \<exists>e'. cancel_competing_loop f i keep rs e = (e', Inr ()) \<and> basics_kept e e' \<and>
     (jm_get (en_outstanding e) keep = None \<longrightarrow> jm_get (en_outstanding e') keep = None)"
proof (induction rs arbitrary: e)
  case Nil
  then show ?case by (simp add: basics_kept_def)
next
  case (Cons x rs)
  obtain r q where x: "x = (r, q)" by (cases x)
  define e1 where "e1 = send_message (or_peerId q) (PieceCancel f i r)
     (e\<lparr>en_outstanding := jm_delete r (en_outstanding e), en_incomingChunks := jm_delete r (en_incomingChunks e),
        en_tombstones := js_add r (en_tombstones e), en_pendingChunks := filter (\<lambda>(p, h). ch_requestId h \<noteq> r) (en_pendingChunks e)\<rparr>)"
  show ?case
  proof (cases "or_fileId q \<noteq> f \<or> or_pieceIndex q \<noteq> i \<or> r = keep")
    case True
    then show ?thesis using Cons.IH [OF Cons.prems] by (simp add: x)
  next
    case False
    then have step: "cancel_competing_loop f i keep (x # rs) e = cancel_competing_loop f i keep rs e1"
      using Cons.prems by (simp add: x e1_def requireTransport_def)
    have e: "en_hasTransport e1" unfolding e1_def using Cons.prems by simp
    have k: "basics_kept e e1" unfolding basics_kept_def e1_def by simp
    have n: "jm_get (en_outstanding e) keep = None \<longrightarrow> jm_get (en_outstanding e1) keep = None" unfolding e1_def by simp
    obtain e' where e': "cancel_competing_loop f i keep rs e1 = (e', Inr ())" "basics_kept e1 e'"
      "jm_get (en_outstanding e1) keep = None \<longrightarrow> jm_get (en_outstanding e') keep = None"
      using Cons.IH [OF e] by (elim exE conjE) (rule that)
    show ?thesis using step e'(1) basics_trans [OF k e'(2)] n e'(3) by (intro exI [of _ e']) simp
  qed
qed

lemma piece_manager_verifies:
  assumes "pm_wf sizes m" and "arr_at sizes i = Some s"
  shows "\<exists>m'. markVerified m now i = Inr m' \<and> i \<in> set (getVerifiedPieces m')"
proof -
  obtain p where p: "requirePiece m i = Inr p" using requirePiece_wf [OF assms(1), of i] assms(2) by (auto simp: arr_at_Some_iff)
  have "ps_index p = i" "nat i < length (pm_states m)" using p by (auto simp: requirePiece_Inr arr_at_def split: if_splits)
  with p show ?thesis by (auto simp: markVerified_def update_piece_def getVerifiedPieces_def intro!: rev_image_eqI set_update_memI)
qed

text \<open>The turns of a good piece.\<close>

lemma written_turn:
  assumes "jm_get (en_managers e) (ri_fileId inp) = Some m" and "pm_wf sizes m" and "arr_at sizes (ri_pieceIndex inp) = Some s"
  shows "\<exists>e' out. receivePiece_written tn inp q d t0 (Ok V_Unit) e = (e', out, [F_VerifiedSaved inp q d]) \<and> out \<in> {None, Some (Ok V_Unit)} \<and>
    piece_settled inp e' \<and> en_manifests e' = en_manifests e \<and> en_hasTransport e' = en_hasTransport e \<and> en_outstanding e' = en_outstanding e"
proof -
  obtain m' where m': "markVerified m (tn_now tn) (ri_pieceIndex inp) = Inr m'" "ri_pieceIndex inp \<in> set (getVerifiedPieces m')"
    using piece_manager_verifies [OF assms(2,3)] by blast
  show ?thesis using assms(1) m'
    by (auto simp: receivePiece_written_def call_manager_def with_manager_def requireManager_def continue_with_def release_lease_def
        credit_peer_def persistState_def piece_settled_def Let_def split: option.splits)
qed

lemma finish_turn:
  assumes "piece_settled inp e"
  shows "\<exists>e'. receivePiece_finish inp d e =
    (e', Some (Ok (V_Receive (RecvAck (ri_fileId inp) (ri_pieceIndex inp) (ri_requestId inp) (pd_hash d)))), []) \<and>
    piece_settled inp e' \<and> en_outstanding e' = en_outstanding e"
  using assms
  by (auto simp: receivePiece_finish_def progress_event_def requireManager_def continue_with_def piece_settled_def)

lemma broadcast_turn:
  assumes "piece_settled inp e" and "requireManifest e (ri_fileId inp) = Inr mf" and "en_hasTransport e"
  shows "\<exists>e'. broadcastPieceMap tn (ri_fileId inp) peers frames e = (e', None, frames) \<and> piece_settled inp e' \<and>
    en_outstanding e' = en_outstanding e"
proof -
  obtain m where m: "requireManager e (ri_fileId inp) = Inr m" using assms(1) by (auto simp: piece_settled_def requireManager_def)
  have send: "en_store (fold (\<lambda>p. send_message p msg) ps x) = en_store x \<and> en_managers (fold (\<lambda>p. send_message p msg) ps x) = en_managers x \<and>
      en_outstanding (fold (\<lambda>p. send_message p msg) ps x) = en_outstanding x" for msg ps x
    by (induction ps arbitrary: x) auto
  have "requireManifest (e\<lparr>en_localGenerations := g\<rparr>) (ri_fileId inp) = Inr mf" for g using assms(2) by (simp add: requireManifest_def)
  with assms m show ?thesis by (simp add: broadcastPieceMap_def exportPieceMapBroadcast_def piece_settled_def Let_def send)
qed

lemma saved_turn:
  assumes "piece_settled inp e" and "requireManifest e (ri_fileId inp) = Inr mf" and "en_hasTransport e" and "jm_wf (en_outstanding e)"
  shows "\<exists>e' act. receivePiece_verified_saved tn inp q d (Ok V_Unit) e = (e', act) \<and> piece_settled inp e' \<and>
    jm_get (en_outstanding e') (ri_requestId inp) = None \<and>
    (act = returns (V_Receive (RecvAck (ri_fileId inp) (ri_pieceIndex inp) (ri_requestId inp) (pd_hash d))) \<or>
     act = (None, [F_Broadcast inp d]))"
proof -
  define e1 where "e1 = end_request tn (ri_requestId inp) R_Verified e"
  have e1: "basics_kept e e1" "jm_get (en_outstanding e1) (ri_requestId inp) = None"
    using end_request_effect [OF assms(4)] by (simp_all add: e1_def)
  then have "en_hasTransport e1" using assms(3) by (simp add: basics_kept_def)
  then obtain e2 where c: "cancelCompetingGridRequests (ri_fileId inp) (ri_pieceIndex inp) (ri_requestId inp) e1 = (e2, Inr ())"
    and e2: "basics_kept e1 e2" "jm_get (en_outstanding e2) (ri_requestId inp) = None"
    using cancel_competing_effect [of e1 _ _ "ri_requestId inp"] e1(2) unfolding cancelCompetingGridRequests_def by metis
  have k: "basics_kept e e2" using e1(1) e2(1) by (rule basics_trans)
  have settled: "piece_settled inp e2" and mf: "requireManifest e2 (ri_fileId inp) = Inr mf" and tr: "en_hasTransport e2"
    using assms k by (simp_all add: basics_settled) (simp_all add: basics_kept_def requireManifest_def)
  have res: "receivePiece_verified_saved tn inp q d (Ok V_Unit) e =
      (if en_knownPeers e2 = [] then receivePiece_finish inp d e2
       else broadcastPieceMap tn (ri_fileId inp) (en_knownPeers e2) [F_Broadcast inp d] e2)"
    by (simp add: receivePiece_verified_saved_def e1_def [symmetric] c continue_with_def)
  show ?thesis using finish_turn [OF settled, of d] broadcast_turn [OF settled mf tr, of tn "en_knownPeers e2" "[F_Broadcast inp d]"] e2(2)
    by (cases "en_knownPeers e2 = []") (auto simp: res)
qed



section \<open>A late bad copy\<close>

text \<open>
  A copy with the wrong bytes costs even a piece that is verified: nothing looks at the state of the piece before the check, the
  failed check marks the piece failed, and its stored bytes are deleted.
\<close>

theorem bad_copy_discards_verified_piece:
  assumes "piece_settled inp' e" and "ri_fileId inp' = ri_fileId inp" and "ri_pieceIndex inp' = ri_pieceIndex inp"
    and "jm_get (en_managers e) (ri_fileId inp) = Some m" and "pm_wf sizes m" and "arr_at sizes (ri_pieceIndex inp) = Some s"
    and "\<not> verifyPiece D (ri_data inp) d" and "jm_get (en_outstanding e) (ri_requestId inp) = None"
  shows "\<exists>e1. receivePiece_hashed D tn inp None d (Ok V_Unit) e = (e1, None, [F_RejectDeleted inp None d]) \<and>
    \<not> piece_settled inp' (fst (receivePiece_deleted tn inp None d (Ok V_Unit) e1)) \<and>
    en_store (fst (receivePiece_deleted tn inp None d (Ok V_Unit) e1)) (ri_fileId inp, ri_pieceIndex inp) = None \<and>
    (\<exists>m'. jm_get (en_managers e1) (ri_fileId inp) = Some m' \<and> ri_pieceIndex inp \<notin> set (getVerifiedPieces m'))"
proof -
  obtain p where p: "requirePiece m (ri_pieceIndex inp) = Inr p"
    using requirePiece_wf [OF assms(5), of "ri_pieceIndex inp"] assms(6) by (auto simp: arr_at_Some_iff)
  have idx: "ps_index (pm_states m ! k) = int k" if "k < length (pm_states m)" for k using assms(5) that by (simp add: pm_wf_def)
  have n: "0 \<le> ri_pieceIndex inp" "nat (ri_pieceIndex inp) < length (pm_states m)"
    using assms(5,6) by (auto simp: arr_at_Some_iff pm_wf_def nat_less_iff)
  define m' where "m' = m\<lparr>pm_states := (pm_states m)[nat (ri_pieceIndex inp) := p\<lparr>ps_status := Failed, ps_receivedBytes := 0,
      ps_retryCount := ps_retryCount p + 1, ps_requestedFrom := None, ps_failureReason := Some ''hash_mismatch'', ps_updatedAt := tn_now tn\<rparr>]\<rparr>"
  have f: "markFailed m (tn_now tn) (ri_pieceIndex inp) ''hash_mismatch'' = Inr m'"
    by (simp add: markFailed_def update_piece_def p m'_def)
  have v: "ri_pieceIndex inp \<notin> set (getVerifiedPieces m')"
    using n idx by (auto simp: m'_def getVerifiedPieces_def in_set_conv_nth nth_list_update split: if_splits)
  show ?thesis using assms(4,7,8) f v
    by (auto simp: receivePiece_hashed_def reject_hash_def still_expected_def call_manager_def with_manager_def requireManager_def continue_with_def
        turn_bind_def release_lease_def await_platform_def receivePiece_deleted_def persistState_def piece_settled_def assms(2,3) split: option.splits)
qed

definition verified_manager :: piece_manager where
  "verified_manager = \<lparr>pm_fileId = ''f'', pm_states = [\<lparr>ps_index = 0, ps_status = Verified, ps_size = 1, ps_receivedBytes = 1,
     ps_retryCount = 0, ps_requestedFrom = None, ps_updatedAt = 0, ps_failureReason = None\<rparr>]\<rparr>"

theorem bad_copy_discards_verified_piece_witness:
  "\<exists>e1. receivePiece_hashed example_digest example_turn (example_receive\<lparr>ri_data := [8]\<rparr>) None
      \<lparr>pd_index = 0, pd_offset = 0, pd_size = 1, pd_hash = Some ''07''\<rparr> (Ok V_Unit)
      (example_engine\<lparr>en_managers := [(''f'', verified_manager)], en_store := (\<lambda>_. Some [7])\<rparr>) =
      (e1, None, [F_RejectDeleted (example_receive\<lparr>ri_data := [8]\<rparr>) None \<lparr>pd_index = 0, pd_offset = 0, pd_size = 1, pd_hash = Some ''07''\<rparr>])"
proof -
  let ?e = "example_engine\<lparr>en_managers := [(''f'', verified_manager)], en_store := (\<lambda>_. Some [7])\<rparr>"
  have "integrity_hash example_digest [8] \<noteq> ''07''" by code_simp
  then have "\<not> verifyPiece example_digest [8] \<lparr>pd_index = 0, pd_offset = 0, pd_size = 1, pd_hash = Some ''07''\<rparr>" by (simp add: verifyPiece_def)
  moreover have "pm_wf [1] verified_manager" by (simp add: pm_wf_def piece_ok_def verified_manager_def)
  moreover have "piece_settled example_receive ?e" by (simp add: piece_settled_def example_receive_def getVerifiedPieces_def verified_manager_def del: set_filter)
  ultimately show ?thesis
    using bad_copy_discards_verified_piece [of example_receive ?e "example_receive\<lparr>ri_data := [8]\<rparr>" verified_manager "[1]" 1 example_digest
        "\<lparr>pd_index = 0, pd_offset = 0, pd_size = 1, pd_hash = Some ''07''\<rparr>" example_turn]
    by (simp add: example_receive_def arr_at_def example_engine_def registerManifest_def) blast
qed

end
