(* ===== verification/Flow_Control.thy ===== *)
theory Flow_Control
  imports Js_Number
begin

text \<open>
  Flow control of \<open>packages/webrtc/src/index.ts\<close>: chunk sizes, the tuning profiles of a path, the in-flight target, the send
  budget and \<open>AdaptiveCongestionController\<close>. Byte counts are integers, measured rates and times are reals; the optional
  numbers of diagnostics keep all JavaScript values.
\<close>

section \<open>Profiles\<close>

definition KIB :: int where "KIB = 1024"

definition MIB :: int where "MIB = 1024 * KIB"

record flow_control_profile =
  fc_chunkSize :: jsnum
  fc_highWaterMark :: int
  fc_lowWaterMark :: int
  fc_batchSize :: int
  fc_prefetchBufferSize :: int

definition DEFAULT_FLOW_CONTROL_PROFILE :: flow_control_profile where
  "DEFAULT_FLOW_CONTROL_PROFILE = \<lparr>fc_chunkSize = num_of_int (16 * KIB), fc_highWaterMark = 16 * MIB, fc_lowWaterMark = 8 * MIB,
     fc_batchSize = 1, fc_prefetchBufferSize = 0\<rparr>"

definition clampDataChannelChunkSize :: "jsnum \<Rightarrow> jsnum option \<Rightarrow> jsnum" where
  "clampDataChannelChunkSize requestedBytes maxMessageSize =
     (let protocolFloor = num_of_int (16 * KIB);
          hardCap = num_of_int (256 * KIB);
          requested = (if js_isFinite requestedBytes then js_floor requestedBytes else protocolFloor);
          reportedMax = (case maxMessageSize of
                           Some m \<Rightarrow> if js_less (Fin 0) m then js_floor m else hardCap
                         | None \<Rightarrow> hardCap);
          upper = js_min hardCap reportedMax
      in if js_le requested (Fin 0) then protocolFloor
         else if js_less requested protocolFloor then js_min requested upper
         else js_min (js_max requested protocolFloor) upper)"

datatype path_kind = Host | Srflx | Relay | Unknown

record diagnostics =
  dg_candidatePathKind :: "path_kind option"
  dg_availableOutgoingBitrateBps :: "jsnum option"
  dg_rttMs :: "jsnum option"

record tuning_profile =
  tp_pathKind :: path_kind
  tp_chunkSizeBytes :: int
  tp_minInFlightBytes :: int
  tp_initialInFlightBytes :: int
  tp_maxInFlightBytes :: int
  tp_lowWaterBytes :: int

definition DIRECT_HOST_TRANSFER_TUNING_PROFILE :: tuning_profile where
  "DIRECT_HOST_TRANSFER_TUNING_PROFILE = \<lparr>tp_pathKind = Host, tp_chunkSizeBytes = 64 * KIB, tp_minInFlightBytes = 2 * MIB,
     tp_initialInFlightBytes = 4 * MIB, tp_maxInFlightBytes = 8 * MIB, tp_lowWaterBytes = 1 * MIB\<rparr>"

definition DIRECT_SRFLX_TRANSFER_TUNING_PROFILE :: tuning_profile where
  "DIRECT_SRFLX_TRANSFER_TUNING_PROFILE =
     DIRECT_HOST_TRANSFER_TUNING_PROFILE\<lparr>tp_pathKind := Srflx, tp_maxInFlightBytes := 6 * MIB\<rparr>"

definition RELAY_TRANSFER_TUNING_PROFILE :: tuning_profile where
  "RELAY_TRANSFER_TUNING_PROFILE = \<lparr>tp_pathKind = Relay, tp_chunkSizeBytes = 32 * KIB, tp_minInFlightBytes = 512 * KIB,
     tp_initialInFlightBytes = 1 * MIB, tp_maxInFlightBytes = 2 * MIB, tp_lowWaterBytes = 256 * KIB\<rparr>"

definition UNKNOWN_TRANSFER_TUNING_PROFILE :: tuning_profile where
  "UNKNOWN_TRANSFER_TUNING_PROFILE =
     DIRECT_HOST_TRANSFER_TUNING_PROFILE\<lparr>tp_pathKind := Unknown, tp_maxInFlightBytes := 4 * MIB\<rparr>"

definition selectTransferTuningProfile :: "path_kind option \<Rightarrow> tuning_profile" where
  "selectTransferTuningProfile kind =
     (case kind of
        Some Host \<Rightarrow> DIRECT_HOST_TRANSFER_TUNING_PROFILE
      | Some Srflx \<Rightarrow> DIRECT_SRFLX_TRANSFER_TUNING_PROFILE
      | Some Relay \<Rightarrow> RELAY_TRANSFER_TUNING_PROFILE
      | _ \<Rightarrow> UNKNOWN_TRANSFER_TUNING_PROFILE)"

fun positive_finite :: "jsnum option \<Rightarrow> real option" where
  "positive_finite (Some (Fin x)) = (if 0 < x then Some x else None)"
| "positive_finite _ = None"

definition bandwidth_delay :: "real \<Rightarrow> real \<Rightarrow> bool \<Rightarrow> int" where
  "bandwidth_delay bitrate rttMs direct = \<lfloor>bitrate / 8 * max rttMs 10 / 1000 * (if direct then 16 else 4)\<rfloor>"

text \<open>The diagnostics as a whole are optional too.\<close>

definition selectInFlightTargetBytes :: "tuning_profile \<Rightarrow> diagnostics option \<Rightarrow> int" where
  "selectInFlightTargetBytes profile d =
     (let kind = (case d of Some x \<Rightarrow> dg_candidatePathKind x | None \<Rightarrow> None);
          direct = (kind = Some Host \<or> kind = Some Srflx);
          bitrate = positive_finite (case d of Some x \<Rightarrow> dg_availableOutgoingBitrateBps x | None \<Rightarrow> None);
          rttMs = positive_finite (case d of Some x \<Rightarrow> dg_rttMs x | None \<Rightarrow> None)
      in case (bitrate, rttMs) of
           (Some b, Some r) \<Rightarrow>
             max (tp_minInFlightBytes profile)
               (min (tp_maxInFlightBytes profile) (max (bandwidth_delay b r direct) (tp_initialInFlightBytes profile)))
         | _ \<Rightarrow> if direct \<or> kind = Some Unknown then tp_maxInFlightBytes profile else tp_initialInFlightBytes profile)"

definition calculateSendBudget :: "real \<Rightarrow> real \<Rightarrow> bool \<Rightarrow> int" where
  "calculateSendBudget targetInFlightBytes bufferedAmountBytes paused =
     (if paused then 0 else max 0 (\<lfloor>targetInFlightBytes\<rfloor> - max 0 \<lfloor>bufferedAmountBytes\<rfloor>))"

definition flowControlProfileFromTuning :: "tuning_profile \<Rightarrow> flow_control_profile" where
  "flowControlProfileFromTuning profile =
     \<lparr>fc_chunkSize = clampDataChannelChunkSize (num_of_int (tp_chunkSizeBytes profile)) None,
      fc_highWaterMark = tp_maxInFlightBytes profile, fc_lowWaterMark = tp_lowWaterBytes profile, fc_batchSize = 1,
      fc_prefetchBufferSize = 0\<rparr>"

record batch_state =
  bs_isProcessingBatch :: bool
  bs_isTransferring :: bool
  bs_workerReady :: bool
  bs_activePeerCount :: int
  bs_highestBufferedAmount :: int
  bs_highWaterMark :: int
  bs_pausedPeerCount :: int
  bs_pendingAckCount :: "int option"

definition shouldRequestMoreChunks :: "batch_state \<Rightarrow> bool" where
  "shouldRequestMoreChunks b \<longleftrightarrow> bs_isTransferring b \<and> bs_workerReady b \<and> \<not> bs_isProcessingBatch b \<and> 0 < bs_activePeerCount b \<and>
     bs_pausedPeerCount b = 0 \<and> (case bs_pendingAckCount b of Some n \<Rightarrow> n | None \<Rightarrow> 0) = 0 \<and>
     bs_highestBufferedAmount b < bs_highWaterMark b"

section \<open>\<open>AdaptiveCongestionController\<close>\<close>

text \<open>\<open>ac_minRtt\<close> is \<open>None\<close> while it is \<open>Infinity\<close>.\<close>

record congestion =
  ac_cwndBytes :: int
  ac_minCwnd :: int
  ac_maxCwnd :: int
  ac_estimatedRttMs :: real
  ac_estimatedBwBps :: real
  ac_minRtt :: "real option"
  ac_lastUpdateTime :: int
  ac_chunkSizeBytes :: int
  ac_started :: bool
  ac_direct :: bool

record congestion_snapshot =
  cg_cwndBytes :: int
  cg_estimatedRttMs :: real
  cg_estimatedBwBps :: real
  cg_recommendedBatchChunks :: int

definition new_congestion :: "tuning_profile \<Rightarrow> congestion" where
  "new_congestion profile = \<lparr>ac_cwndBytes = tp_initialInFlightBytes profile, ac_minCwnd = tp_minInFlightBytes profile,
     ac_maxCwnd = tp_maxInFlightBytes profile, ac_estimatedRttMs = 10, ac_estimatedBwBps = 0, ac_minRtt = None,
     ac_lastUpdateTime = 0, ac_chunkSizeBytes = max 1 (tp_chunkSizeBytes profile), ac_started = False,
     ac_direct = (tp_pathKind profile = Host \<or> tp_pathKind profile = Srflx)\<rparr>"

definition congestion_start :: "congestion \<Rightarrow> congestion" where
  "congestion_start c = c\<lparr>ac_started := True, ac_lastUpdateTime := 0\<rparr>"

definition congestion_reset :: "tuning_profile option \<Rightarrow> congestion \<Rightarrow> congestion" where
  "congestion_reset profile c =
     (let c1 = (case profile of
                  None \<Rightarrow> c
                | Some p \<Rightarrow> c\<lparr>ac_minCwnd := tp_minInFlightBytes p, ac_maxCwnd := tp_maxInFlightBytes p,
                    ac_cwndBytes := tp_initialInFlightBytes p, ac_chunkSizeBytes := max 1 (tp_chunkSizeBytes p)\<rparr>)
      in c1\<lparr>ac_estimatedRttMs := 10, ac_estimatedBwBps := 0, ac_minRtt := None, ac_lastUpdateTime := 0, ac_started := False\<rparr>)"

definition updateFromCandidateStats :: "jsnum option \<Rightarrow> jsnum option \<Rightarrow> congestion \<Rightarrow> congestion" where
  "updateFromCandidateStats rttMs bitrateBps c =
     (let c1 = (case positive_finite rttMs of
                  Some r \<Rightarrow>
                    if r \<le> 10000
                    then (let c' = c\<lparr>ac_estimatedRttMs := r\<rparr>
                          in if (case ac_minRtt c of None \<Rightarrow> True | Some m \<Rightarrow> r < m) then c'\<lparr>ac_minRtt := Some r\<rparr> else c')
                    else c
                | None \<Rightarrow> c)
      in case positive_finite bitrateBps of Some b \<Rightarrow> c1\<lparr>ac_estimatedBwBps := b\<rparr> | None \<Rightarrow> c1)"

definition recommendedBatchChunks :: "congestion \<Rightarrow> int" where
  "recommendedBatchChunks c = max 1 (min 32 \<lfloor>of_int (ac_cwndBytes c) * (2 / 10 :: real) / of_int (ac_chunkSizeBytes c)\<rfloor>)"

definition congestion_snapshot_of :: "congestion \<Rightarrow> congestion_snapshot" where
  "congestion_snapshot_of c = \<lparr>cg_cwndBytes = ac_cwndBytes c, cg_estimatedRttMs = ac_estimatedRttMs c,
     cg_estimatedBwBps = ac_estimatedBwBps c, cg_recommendedBatchChunks = recommendedBatchChunks c\<rparr>"

definition rtt_ratio :: "congestion \<Rightarrow> real" where
  "rtt_ratio c = ac_estimatedRttMs c / max 1 (case ac_minRtt c of None \<Rightarrow> 10 | Some m \<Rightarrow> m)"

definition next_cwnd :: "int \<Rightarrow> congestion \<Rightarrow> int" where
  "next_cwnd bufferedAmountBytes c =
     (let rttRatio = rtt_ratio c;
          buffer = max 0 bufferedAmountBytes;
          cwnd = ac_cwndBytes c
      in if 2 < rttRatio \<or> cwnd < buffer then max (ac_minCwnd c) \<lfloor>of_int cwnd * (7 / 10 :: real)\<rfloor>
         else if rttRatio < 3 / 2 \<and> of_int buffer < of_int cwnd * (8 / 10 :: real)
         then min (ac_maxCwnd c) (cwnd + (if ac_direct c \<or> ac_estimatedRttMs c < 10 then 256 * 1024 else 64 * 1024))
         else cwnd)"

definition updateBufferState :: "int \<Rightarrow> int \<Rightarrow> congestion \<Rightarrow> congestion \<times> congestion_snapshot" where
  "updateBufferState now bufferedAmountBytes c =
     (if ac_started c \<and> 0 < ac_lastUpdateTime c \<and> now - ac_lastUpdateTime c < 100 then (c, congestion_snapshot_of c)
      else let c' = c\<lparr>ac_cwndBytes := next_cwnd bufferedAmountBytes c, ac_lastUpdateTime := now\<rparr>
           in (c', congestion_snapshot_of c'))"

section \<open>Bounds\<close>

definition profile_ok :: "tuning_profile \<Rightarrow> bool" where
  "profile_ok p \<longleftrightarrow> 0 < tp_minInFlightBytes p \<and> tp_minInFlightBytes p \<le> tp_initialInFlightBytes p \<and>
     tp_initialInFlightBytes p \<le> tp_maxInFlightBytes p \<and> tp_lowWaterBytes p \<le> tp_maxInFlightBytes p"

lemma shipped_profiles_ok: "profile_ok (selectTransferTuningProfile kind)"
  by (auto simp: selectTransferTuningProfile_def profile_ok_def DIRECT_HOST_TRANSFER_TUNING_PROFILE_def
      DIRECT_SRFLX_TRANSFER_TUNING_PROFILE_def RELAY_TRANSFER_TUNING_PROFILE_def UNKNOWN_TRANSFER_TUNING_PROFILE_def MIB_def KIB_def
      split: option.splits path_kind.splits)

text \<open>The operations of the controller; \<open>Ac_Send\<close> is \<open>recordSend\<close>, which does nothing.\<close>

datatype congestion_op =
    Ac_Start
  | Ac_Reset "tuning_profile option"
  | Ac_Stats "jsnum option" "jsnum option"
  | Ac_Send int
  | Ac_Buffer int int

fun congestion_step :: "congestion_op \<Rightarrow> congestion \<Rightarrow> congestion" where
  "congestion_step Ac_Start c = congestion_start c"
| "congestion_step (Ac_Reset p) c = congestion_reset p c"
| "congestion_step (Ac_Stats r b) c = updateFromCandidateStats r b c"
| "congestion_step (Ac_Send n) c = c"
| "congestion_step (Ac_Buffer now n) c = fst (updateBufferState now n c)"

fun op_ok :: "congestion_op \<Rightarrow> bool" where
  "op_ok (Ac_Reset (Some p)) = profile_ok p"
| "op_ok _ = True"

definition congestion_ok :: "congestion \<Rightarrow> bool" where
  "congestion_ok c \<longleftrightarrow> 0 < ac_minCwnd c \<and> ac_minCwnd c \<le> ac_cwndBytes c \<and> ac_cwndBytes c \<le> ac_maxCwnd c \<and>
     1 \<le> ac_chunkSizeBytes c \<and> 0 < ac_estimatedRttMs c \<and> 0 \<le> ac_estimatedBwBps c \<and>
     (case ac_minRtt c of None \<Rightarrow> True | Some m \<Rightarrow> 0 < m \<and> m \<le> ac_estimatedRttMs c)"

lemma positive_finite_Some: "positive_finite x = Some r \<longleftrightarrow> x = Some (Fin r) \<and> 0 < r"
  by (cases x rule: positive_finite.cases) auto

lemma next_cwnd_range:
  "congestion_ok c \<Longrightarrow> ac_minCwnd c \<le> next_cwnd n c \<and> next_cwnd n c \<le> ac_maxCwnd c"
  by (auto simp: next_cwnd_def congestion_ok_def Let_def floor_le_iff; linarith)

lemma congestion_step_ok: "congestion_ok c \<Longrightarrow> op_ok op \<Longrightarrow> congestion_ok (congestion_step op c)"
proof (cases op)
  case (Ac_Reset p)
  then show "congestion_ok c \<Longrightarrow> op_ok op \<Longrightarrow> congestion_ok (congestion_step op c)"
    by (cases p) (auto simp: congestion_reset_def congestion_ok_def profile_ok_def)
next
  case (Ac_Stats r b)
  then show "congestion_ok c \<Longrightarrow> op_ok op \<Longrightarrow> congestion_ok (congestion_step op c)"
    by (auto simp: updateFromCandidateStats_def congestion_ok_def positive_finite_Some Let_def split: option.splits)
next
  case (Ac_Buffer now n)
  then show "congestion_ok c \<Longrightarrow> op_ok op \<Longrightarrow> congestion_ok (congestion_step op c)"
    using next_cwnd_range [of c n] by (cases "ac_minRtt c") (auto simp: updateBufferState_def congestion_ok_def Let_def)
qed (cases "ac_minRtt c"; auto simp: congestion_start_def congestion_ok_def)+

lemma congestion_run_ok: "congestion_ok c \<Longrightarrow> \<forall>op \<in> set ops. op_ok op \<Longrightarrow> congestion_ok (fold congestion_step ops c)"
  by (induction ops arbitrary: c) (auto intro: congestion_step_ok)

lemma new_congestion_ok: "profile_ok p \<Longrightarrow> congestion_ok (new_congestion p)"
  by (simp add: new_congestion_def congestion_ok_def profile_ok_def)



text \<open>
  Resetting a controller with the profile of another path keeps the step of the path it was made for: a controller of a direct
  path grows by 256 KiB at a time on a relayed one, where a new controller grows by 64 KiB.
\<close>

theorem reset_keeps_step:
  assumes "ac_direct c"
  shows "ac_cwndBytes (fst (updateBufferState now 0 (congestion_reset (Some RELAY_TRANSFER_TUNING_PROFILE) c))) = 1 * MIB + 256 * KIB \<and>
    ac_cwndBytes (fst (updateBufferState now 0 (new_congestion RELAY_TRANSFER_TUNING_PROFILE))) = 1 * MIB + 64 * KIB"
  using assms by (simp add: congestion_reset_def new_congestion_def updateBufferState_def next_cwnd_def rtt_ratio_def
      RELAY_TRANSFER_TUNING_PROFILE_def MIB_def KIB_def Let_def)

theorem reset_keeps_step_witness:
  "ac_cwndBytes (fst (updateBufferState 5 0 (congestion_reset (Some RELAY_TRANSFER_TUNING_PROFILE)
     (new_congestion DIRECT_HOST_TRANSFER_TUNING_PROFILE)))) = 1 * MIB + 256 * KIB"
  using reset_keeps_step [of "new_congestion DIRECT_HOST_TRANSFER_TUNING_PROFILE" 5]
  by (simp add: new_congestion_def DIRECT_HOST_TRANSFER_TUNING_PROFILE_def)

text \<open>
  The in-flight target stays within the profile, and sending the budget that is computed from it never takes the buffered
  amount above the target, unless it was above already.
\<close>

theorem send_budget_respects_target:
  assumes "profile_ok p" and "0 \<le> buffered"
  shows "let target = selectInFlightTargetBytes p d; budget = calculateSendBudget (of_int target) (of_int buffered) paused
    in tp_minInFlightBytes p \<le> target \<and> target \<le> tp_maxInFlightBytes p \<and> 0 \<le> budget \<and>
       buffered + budget \<le> max target buffered \<and> (\<not> paused \<and> buffered < target \<longrightarrow> buffered + budget = target)"
  using assms by (auto simp: selectInFlightTargetBytes_def calculateSendBudget_def profile_ok_def Let_def split: option.splits)

theorem send_budget_respects_target_witness:
  "let target = selectInFlightTargetBytes (selectTransferTuningProfile None) None;
       budget = calculateSendBudget (of_int target) (of_int 5) False
   in 5 + budget = target"
  using send_budget_respects_target [OF shipped_profiles_ok [of None], of 5 None False]
  by (simp add: selectInFlightTargetBytes_def selectTransferTuningProfile_def UNKNOWN_TRANSFER_TUNING_PROFILE_def
      DIRECT_HOST_TRANSFER_TUNING_PROFILE_def MIB_def KIB_def Let_def)

lemma clamp_floor: "clampDataChannelChunkSize (Fin x) m = clampDataChannelChunkSize (Fin (of_int \<lfloor>x\<rfloor>)) m"
  by (simp add: clampDataChannelChunkSize_def)

lemma clamp_int:
  "clampDataChannelChunkSize (Fin (of_int n)) maxMessageSize = num_of_int (if n \<le> 0 then 16 * KIB else min n
     (case maxMessageSize of Some (Fin m) \<Rightarrow> if 0 < m then min (256 * KIB) \<lfloor>m\<rfloor> else 256 * KIB | _ \<Rightarrow> 256 * KIB))"
  by (cases maxMessageSize; cases "the maxMessageSize")
    (auto simp: clampDataChannelChunkSize_def num_of_int_def KIB_def Let_def js_min_def js_max_def le_floor_iff min_def)

text \<open>
  The chunk size of a data channel is a whole number of bytes; for a request of at least one byte it is the requested size cut to the
  peer's limit and the hard cap, and for any other finite request it is 16 KiB, whatever the peer's limit is.
\<close>

theorem clampDataChannelChunkSize_fits:
  "clampDataChannelChunkSize (Fin x) maxMessageSize = num_of_int (if \<lfloor>x\<rfloor> \<le> 0 then 16 * KIB else min \<lfloor>x\<rfloor>
     (case maxMessageSize of Some (Fin m) \<Rightarrow> if 0 < m then min (256 * KIB) \<lfloor>m\<rfloor> else 256 * KIB | _ \<Rightarrow> 256 * KIB))"
  unfolding clamp_floor [of x] by (rule clamp_int)

end
