(* ===== verification/Data_Channel.thy ===== *)
theory Data_Channel
  imports Flow_Control
begin

text \<open>
  \<open>DataChannelWrapper\<close> of \<open>packages/webrtc/src/index.ts\<close>: the bounded queue of sends in front of a data channel, its
  backpressure and its failures. \<open>drainSendQueue\<close> is one loop that holds at most one send at a time; what that send waits for is its
  phase, and each continuation is a step of its own, so any interleaving with the channel's events is covered. A
  promise is a number; how it settles is recorded.
\<close>

section \<open>State\<close>

datatype ready_state = Ch_Connecting | Ch_Open | Ch_Closing | Ch_Closed

text \<open>A send in the queue: the number of its promise, its size and what is sent.\<close>

record queued_send =
  qs_id :: nat
  qs_bytes :: int
  qs_payload :: string

text \<open>
  The send in the hands of the loop: it may go, it waits for the buffer to drain, it was drained, or it failed before it could go.
\<close>

datatype hand_phase = May_Go | Waits | Drained | Fails

datatype watermark_phase = High | Low

text \<open>A message reaches the listeners as text or as the bytes of a buffer.\<close>

datatype channel_data = Cd_Text string | Cd_Buffer string

datatype channel_event = Cv_Open | Cv_Close | Cv_Error | Cv_Drain | Cv_Watermark watermark_phase int | Cv_Message channel_data

record data_channel =
  dc_readyState :: ready_state
  dc_bufferedAmount :: int
  dc_highWaterMark :: int
  dc_lowWaterMark :: int
  dc_pendingSends :: "queued_send list"
  dc_pendingSendBytes :: int
  dc_pumping :: bool
  dc_hand :: "(queued_send \<times> hand_phase) option"
  dc_watermarkBlocked :: bool
  dc_listening :: bool
  dc_nextPromise :: nat
  dc_sent :: "queued_send list"
  dc_settled :: "(nat \<times> bool) list"
  dc_events :: "channel_event list"

definition MIN_PENDING_SEND_BYTES :: int where
  "MIN_PENDING_SEND_BYTES = 256 * KIB"

definition new_data_channel :: "ready_state \<Rightarrow> int \<Rightarrow> flow_control_profile \<Rightarrow> data_channel" where
  "new_data_channel state buffered fc = \<lparr>dc_readyState = state, dc_bufferedAmount = buffered,
     dc_highWaterMark = fc_highWaterMark fc, dc_lowWaterMark = fc_lowWaterMark fc, dc_pendingSends = [], dc_pendingSendBytes = 0,
     dc_pumping = False, dc_hand = None, dc_watermarkBlocked = False, dc_listening = True, dc_nextPromise = 0, dc_sent = [],
     dc_settled = [], dc_events = []\<rparr>"

section \<open>Operations\<close>

definition channel_emit :: "channel_event \<Rightarrow> data_channel \<Rightarrow> data_channel" where
  "channel_emit ev c = (if dc_listening c then c\<lparr>dc_events := dc_events c @ [ev]\<rparr> else c)"

definition settle_promise :: "nat \<Rightarrow> bool \<Rightarrow> data_channel \<Rightarrow> data_channel" where
  "settle_promise n ok c = c\<lparr>dc_settled := dc_settled c @ [(n, ok)]\<rparr>"

definition canSend :: "data_channel \<Rightarrow> bool" where
  "canSend c \<longleftrightarrow> dc_readyState c = Ch_Open \<and> dc_bufferedAmount c < dc_highWaterMark c"

text \<open>The part of \<open>waitForWritable\<close> before its first suspension.\<close>

definition waitForWritable :: "queued_send \<Rightarrow> data_channel \<Rightarrow> data_channel" where
  "waitForWritable p c =
     (if dc_readyState c \<noteq> Ch_Open then c\<lparr>dc_hand := Some (p, Fails)\<rparr>
      else if dc_bufferedAmount c < dc_highWaterMark c then c\<lparr>dc_hand := Some (p, May_Go)\<rparr>
      else channel_emit (Cv_Watermark High (dc_bufferedAmount c))
             (c\<lparr>dc_watermarkBlocked := True, dc_hand := Some (p, Waits)\<rparr>))"

text \<open>The head of the loop of \<open>drainSendQueue\<close>, with its \<open>finally\<close> when the queue is empty.\<close>

definition drain_next :: "data_channel \<Rightarrow> data_channel" where
  "drain_next c =
     (case dc_pendingSends c of
        [] \<Rightarrow> c\<lparr>dc_pumping := False, dc_hand := None\<rparr>
      | p # rest \<Rightarrow> waitForWritable p (c\<lparr>dc_pendingSends := rest\<rparr>))"

definition pumpSends :: "data_channel \<Rightarrow> data_channel" where
  "pumpSends c = (if dc_pumping c then c else drain_next (c\<lparr>dc_pumping := True\<rparr>))"

definition send_capacity :: "data_channel \<Rightarrow> int" where
  "send_capacity c = max (dc_highWaterMark c) MIN_PENDING_SEND_BYTES"

definition enqueueSend :: "string \<Rightarrow> int \<Rightarrow> data_channel \<Rightarrow> data_channel" where
  "enqueueSend payload bytes c =
     (let n = dc_nextPromise c;
          c1 = c\<lparr>dc_nextPromise := n + 1\<rparr>
      in if send_capacity c < bytes \<or> send_capacity c < dc_pendingSendBytes c + bytes then settle_promise n False c1
         else pumpSends (c1\<lparr>dc_pendingSendBytes := dc_pendingSendBytes c + bytes,
                dc_pendingSends := dc_pendingSends c @ [\<lparr>qs_id = n, qs_bytes = bytes, qs_payload = payload\<rparr>]\<rparr>))"

definition finish_send :: "queued_send \<Rightarrow> bool \<Rightarrow> data_channel \<Rightarrow> data_channel" where
  "finish_send p ok c =
     drain_next (settle_promise (qs_id p) ok (c\<lparr>dc_pendingSendBytes := dc_pendingSendBytes c - qs_bytes p\<rparr>))"

text \<open>
  The continuation of the loop for the send in its hands. \<open>accepted\<close> says whether the channel takes the data; a channel that is not open never
  does. \<open>None\<close> while the send waits.
\<close>

definition hand_turn :: "bool \<Rightarrow> data_channel \<Rightarrow> data_channel option" where
  "hand_turn accepted c =
     (case dc_hand c of
        None \<Rightarrow> None
      | Some (p, Waits) \<Rightarrow> None
      | Some (p, Fails) \<Rightarrow> Some (finish_send p False c)
      | Some (p, _) \<Rightarrow>
          if dc_readyState c = Ch_Open \<and> accepted
          then Some (finish_send p True (c\<lparr>dc_sent := dc_sent c @ [p], dc_bufferedAmount := dc_bufferedAmount c + qs_bytes p\<rparr>))
          else Some (finish_send p False c))"

definition rejectDrainWaiters :: "data_channel \<Rightarrow> data_channel" where
  "rejectDrainWaiters c = (case dc_hand c of Some (p, Waits) \<Rightarrow> c\<lparr>dc_hand := Some (p, Fails)\<rparr> | _ \<Rightarrow> c)"

definition rejectPendingSends :: "data_channel \<Rightarrow> data_channel" where
  "rejectPendingSends c =
     (let pending = dc_pendingSends c;
          c1 = c\<lparr>dc_pendingSends := [], dc_pendingSendBytes := dc_pendingSendBytes c - sum_list (map qs_bytes pending)\<rparr>
      in fold (\<lambda>p. settle_promise (qs_id p) False) pending c1)"

definition handleClose :: "data_channel \<Rightarrow> data_channel" where
  "handleClose c = channel_emit Cv_Close (rejectPendingSends (rejectDrainWaiters c))"

definition handleError :: "data_channel \<Rightarrow> data_channel" where
  "handleError c = channel_emit Cv_Error (rejectPendingSends (rejectDrainWaiters c))"

definition handleDrain :: "data_channel \<Rightarrow> data_channel" where
  "handleDrain c =
     (let c1 = channel_emit Cv_Drain c;
          c2 = (if dc_watermarkBlocked c1 \<and> dc_bufferedAmount c1 \<le> dc_lowWaterMark c1
                then channel_emit (Cv_Watermark Low (dc_bufferedAmount c1)) (c1\<lparr>dc_watermarkBlocked := False\<rparr>) else c1)
      in case dc_hand c2 of
           Some (p, Waits) \<Rightarrow>
             if dc_readyState c2 \<noteq> Ch_Open then c2\<lparr>dc_hand := Some (p, Fails)\<rparr>
             else if dc_bufferedAmount c2 \<le> dc_lowWaterMark c2 then c2\<lparr>dc_hand := Some (p, Drained)\<rparr> else c2
         | _ \<Rightarrow> c2)"

definition channel_dispose :: "data_channel \<Rightarrow> data_channel" where
  "channel_dispose c = (rejectPendingSends (rejectDrainWaiters c))\<lparr>dc_listening := False\<rparr>"

text \<open>Incoming data: text, a buffer or a view of one reach the listeners, anything else does not.\<close>

datatype incoming_data = In_Text string | In_Buffer string | In_View string | In_Other

definition handleMessage :: "incoming_data \<Rightarrow> data_channel \<Rightarrow> data_channel" where
  "handleMessage d c =
     (case d of
        In_Text t \<Rightarrow> channel_emit (Cv_Message (Cd_Text t)) c
      | In_Buffer b \<Rightarrow> channel_emit (Cv_Message (Cd_Buffer b)) c
      | In_View v \<Rightarrow> channel_emit (Cv_Message (Cd_Buffer v)) c
      | In_Other \<Rightarrow> c)"

section \<open>Steps\<close>

text \<open>
  Calls of the application, events of the channel, continuations of the loop, and what the platform does by itself: the ready state
  changes and the buffer empties.
\<close>

inductive channel_step :: "data_channel \<Rightarrow> data_channel \<Rightarrow> bool" where
  send: "0 \<le> bytes \<Longrightarrow> channel_step c (enqueueSend payload bytes c)"
| hand: "hand_turn accepted c = Some c' \<Longrightarrow> channel_step c c'"
| drain: "dc_listening c \<Longrightarrow> channel_step c (handleDrain c)"
| close: "dc_listening c \<Longrightarrow> channel_step c (handleClose c)"
| error: "dc_listening c \<Longrightarrow> channel_step c (handleError c)"
| opened: "dc_listening c \<Longrightarrow> channel_step c (channel_emit Cv_Open c)"
| message: "dc_listening c \<Longrightarrow> channel_step c (handleMessage d c)"
| dispose: "channel_step c (channel_dispose c)"
| state: "channel_step c (c\<lparr>dc_readyState := s\<rparr>)"
| flushed: "0 \<le> n \<Longrightarrow> channel_step c (c\<lparr>dc_bufferedAmount := n\<rparr>)"

inductive channel_reachable :: "data_channel \<Rightarrow> data_channel \<Rightarrow> bool" for c0 where
  start: "channel_reachable c0 c0"
| step: "channel_reachable c0 c \<Longrightarrow> channel_step c c' \<Longrightarrow> channel_reachable c0 c'"

section \<open>The queue's invariant\<close>

definition hand_sends :: "data_channel \<Rightarrow> queued_send list" where
  "hand_sends c = (case dc_hand c of None \<Rightarrow> [] | Some (p, _) \<Rightarrow> [p])"

abbreviation send_queue :: "data_channel \<Rightarrow> queued_send list" where
  "send_queue c \<equiv> hand_sends c @ dc_pendingSends c"

text \<open>Promises 0 to the last one are either settled, once, or queued; the resolved ones are the sent ones, in order.\<close>

definition accounts :: "queued_send list \<Rightarrow> data_channel \<Rightarrow> bool" where
  "accounts q c \<longleftrightarrow> dc_pendingSendBytes c = sum_list (map qs_bytes q) \<and> dc_pendingSendBytes c \<le> send_capacity c \<and>
     (\<forall>p \<in> set q. 0 \<le> qs_bytes p) \<and> distinct (map fst (dc_settled c) @ map qs_id q) \<and>
     set (map fst (dc_settled c) @ map qs_id q) = {..<dc_nextPromise c} \<and>
     map fst (filter snd (dc_settled c)) = map qs_id (dc_sent c) \<and> sorted_wrt (\<lambda>p r. qs_id p < qs_id r) (dc_sent c @ q)"

definition channel_ok :: "data_channel \<Rightarrow> bool" where
  "channel_ok c \<longleftrightarrow> accounts (send_queue c) c \<and> dc_pumping c = (dc_hand c \<noteq> None) \<and> (dc_hand c = None \<longrightarrow> dc_pendingSends c = [])"

lemma channel_emit_keeps [simp]:
  "accounts q (channel_emit ev c) = accounts q c" "hand_sends (channel_emit ev c) = hand_sends c"
  "dc_pendingSends (channel_emit ev c) = dc_pendingSends c" "dc_pumping (channel_emit ev c) = dc_pumping c"
  "dc_hand (channel_emit ev c) = dc_hand c" "dc_readyState (channel_emit ev c) = dc_readyState c"
  "dc_bufferedAmount (channel_emit ev c) = dc_bufferedAmount c" "dc_highWaterMark (channel_emit ev c) = dc_highWaterMark c"
  "dc_lowWaterMark (channel_emit ev c) = dc_lowWaterMark c" "dc_sent (channel_emit ev c) = dc_sent c"
  "dc_settled (channel_emit ev c) = dc_settled c"
  by (simp_all add: channel_emit_def accounts_def send_capacity_def hand_sends_def)

lemma accounts_frame [simp]:
  "accounts q (c\<lparr>dc_hand := h\<rparr>) = accounts q c" "accounts q (c\<lparr>dc_pendingSends := ps\<rparr>) = accounts q c"
  "accounts q (c\<lparr>dc_pumping := b\<rparr>) = accounts q c" "accounts q (c\<lparr>dc_watermarkBlocked := b\<rparr>) = accounts q c"
  "accounts q (c\<lparr>dc_listening := b\<rparr>) = accounts q c" "accounts q (c\<lparr>dc_readyState := s\<rparr>) = accounts q c"
  "accounts q (c\<lparr>dc_bufferedAmount := n\<rparr>) = accounts q c"
  by (simp_all add: accounts_def send_capacity_def)

lemma hand_sends_frame [simp]:
  "hand_sends (c\<lparr>dc_pendingSends := ps\<rparr>) = hand_sends c" "hand_sends (c\<lparr>dc_pumping := b\<rparr>) = hand_sends c"
  "hand_sends (c\<lparr>dc_watermarkBlocked := b\<rparr>) = hand_sends c" "hand_sends (c\<lparr>dc_listening := b\<rparr>) = hand_sends c"
  "hand_sends (c\<lparr>dc_readyState := s\<rparr>) = hand_sends c" "hand_sends (c\<lparr>dc_bufferedAmount := n\<rparr>) = hand_sends c"
  "hand_sends (c\<lparr>dc_hand := None\<rparr>) = []" "hand_sends (c\<lparr>dc_hand := Some (p, ph)\<rparr>) = [p]"
  by (simp_all add: hand_sends_def)

lemma drain_next_ok: "accounts (dc_pendingSends c) c \<Longrightarrow> dc_pumping c \<Longrightarrow> channel_ok (drain_next c)"
  by (auto simp: drain_next_def waitForWritable_def channel_ok_def split: list.splits)

lemma accounts_ids:
  assumes "accounts q c" and "x \<in> set (dc_sent c) \<or> x \<in> set q"
  shows "qs_id x < dc_nextPromise c"
proof -
  have "set (map qs_id (dc_sent c)) \<subseteq> set (map fst (dc_settled c))"
    using assms(1) unfolding accounts_def by (metis filter_is_subset image_mono list.set_map)
  with assms have "qs_id x \<in> set (map fst (dc_settled c) @ map qs_id q)" by auto
  with assms(1) show ?thesis by (simp add: accounts_def)
qed

lemma accounts_refuse:
  assumes "accounts q c"
  shows "accounts q (c\<lparr>dc_nextPromise := dc_nextPromise c + 1, dc_settled := dc_settled c @ [(dc_nextPromise c, False)]\<rparr>)"
proof -
  have ids: "set (map fst (dc_settled c) @ map qs_id q) = {..<dc_nextPromise c}" using assms by (simp add: accounts_def)
  then have "dc_nextPromise c \<notin> set (map fst (dc_settled c) @ map qs_id q)" by simp
  moreover have "{..<dc_nextPromise c + 1} = insert (dc_nextPromise c) {..<dc_nextPromise c}" by auto
  ultimately show ?thesis using assms ids unfolding accounts_def send_capacity_def by simp
qed

lemma accounts_accept:
  assumes "accounts q c" and "qs_id p = dc_nextPromise c" and "0 \<le> qs_bytes p" and "dc_pendingSendBytes c + qs_bytes p \<le> send_capacity c"
  shows "accounts (q @ [p]) (c\<lparr>dc_nextPromise := dc_nextPromise c + 1, dc_pendingSendBytes := dc_pendingSendBytes c + qs_bytes p\<rparr>)"
proof -
  have ids: "set (map fst (dc_settled c) @ map qs_id q) = {..<dc_nextPromise c}" using assms(1) by (simp add: accounts_def)
  then have "dc_nextPromise c \<notin> set (map fst (dc_settled c) @ map qs_id q)" by simp
  moreover have "{..<dc_nextPromise c + 1} = insert (dc_nextPromise c) {..<dc_nextPromise c}" by auto
  moreover have "sorted_wrt (\<lambda>p r. qs_id p < qs_id r) ((dc_sent c @ q) @ [p])"
    using assms(1,2) accounts_ids [OF assms(1)] by (subst sorted_wrt_append) (auto simp: accounts_def)
  ultimately show ?thesis using assms ids unfolding accounts_def send_capacity_def by simp
qed

lemma enqueueSend_ok:
  assumes "channel_ok c" and "0 \<le> bytes"
  shows "channel_ok (enqueueSend payload bytes c)"
proof (cases "send_capacity c < bytes \<or> send_capacity c < dc_pendingSendBytes c + bytes")
  case True
  with accounts_refuse [of "send_queue c" c] assms show ?thesis
    by (simp add: enqueueSend_def settle_promise_def channel_ok_def hand_sends_def Let_def)
next
  case False
  let ?p = "\<lparr>qs_id = dc_nextPromise c, qs_bytes = bytes, qs_payload = payload\<rparr>"
  let ?c = "c\<lparr>dc_nextPromise := dc_nextPromise c + 1, dc_pendingSendBytes := dc_pendingSendBytes c + bytes, dc_pendingSends := dc_pendingSends c @ [?p]\<rparr>"
  have "hand_sends ?c = hand_sends c" by (simp add: hand_sends_def)
  then have acc: "accounts (send_queue ?c) ?c"
    using accounts_accept [of "send_queue c" c ?p] False assms by (simp add: channel_ok_def)
  have eq: "enqueueSend payload bytes c = pumpSends ?c" using False by (simp add: enqueueSend_def Let_def)
  show ?thesis
  proof (cases "dc_pumping c")
    case True
    with acc assms(1) show ?thesis unfolding eq by (simp add: pumpSends_def channel_ok_def)
  next
    case no: False
    then have "hand_sends ?c = []" using assms(1) by (auto simp: channel_ok_def hand_sends_def split: option.splits)
    with acc have "accounts (dc_pendingSends ?c) (?c\<lparr>dc_pumping := True\<rparr>)" by simp
    then have "channel_ok (drain_next (?c\<lparr>dc_pumping := True\<rparr>))" by (intro drain_next_ok) simp_all
    with no show ?thesis unfolding eq by (simp add: pumpSends_def)
  qed
qed

lemma hand_turn_ok:
  assumes "channel_ok c" and "hand_turn accepted c = Some c'"
  shows "channel_ok c'"
proof -
  obtain p ph where h: "dc_hand c = Some (p, ph)" using assms(2) by (auto simp: hand_turn_def split: option.splits)
  then have acc: "accounts (p # dc_pendingSends c) c" "dc_pumping c" using assms(1) by (auto simp: channel_ok_def hand_sends_def split: option.splits)
  have fail: "channel_ok (finish_send p False c)"
    unfolding finish_send_def using acc
    by (intro drain_next_ok) (auto simp: settle_promise_def accounts_def send_capacity_def sorted_wrt_append)
  have ok: "channel_ok (finish_send p True (c\<lparr>dc_sent := dc_sent c @ [p], dc_bufferedAmount := n\<rparr>))" for n
    unfolding finish_send_def using acc
    by (intro drain_next_ok) (auto simp: settle_promise_def accounts_def send_capacity_def sorted_wrt_append)
  from assms(2) h fail ok show ?thesis by (auto simp: hand_turn_def split: hand_phase.splits if_splits)
qed

lemma reject_sends_effect:
  "fold (\<lambda>p. settle_promise (qs_id p) False) ps c = c\<lparr>dc_settled := dc_settled c @ map (\<lambda>p. (qs_id p, False)) ps\<rparr>"
  by (induction ps arbitrary: c) (simp_all add: settle_promise_def)

lemma accounts_reject:
  assumes "accounts (h @ ps) c"
  shows "accounts h (c\<lparr>dc_pendingSendBytes := dc_pendingSendBytes c - sum_list (map qs_bytes ps),
    dc_settled := dc_settled c @ map (\<lambda>p. (qs_id p, False)) ps\<rparr>)"
proof -
  have "0 \<le> sum_list (map qs_bytes ps)" using assms by (intro sum_list_nonneg) (auto simp: accounts_def)
  moreover have "sorted_wrt (\<lambda>p r. qs_id p < qs_id r) ((dc_sent c @ h) @ ps)" using assms by (simp add: accounts_def)
  then have "sorted_wrt (\<lambda>p r. qs_id p < qs_id r) (dc_sent c @ h)" by (auto simp: sorted_wrt_append)
  moreover have "filter snd (map (\<lambda>p. (qs_id p, False)) ps) = []" by (induction ps) simp_all
  moreover have "map fst (map (\<lambda>p. (qs_id p, False)) ps) = map qs_id ps" by simp
  ultimately show ?thesis using assms
    unfolding accounts_def by (auto simp: send_capacity_def comp_def)
qed

lemma rejectPendingSends_ok: "channel_ok c \<Longrightarrow> channel_ok (rejectPendingSends c)"
  using accounts_reject [of "hand_sends c" "dc_pendingSends c" c]
  by (auto simp: rejectPendingSends_def reject_sends_effect channel_ok_def Let_def hand_sends_def accounts_def send_capacity_def)

lemma phase_change_ok:
  "channel_ok c \<Longrightarrow> dc_hand c = Some (p, ph) \<Longrightarrow> channel_ok (c\<lparr>dc_hand := Some (p, ph')\<rparr>)"
  by (simp add: channel_ok_def) (simp add: hand_sends_def)

lemma rejectDrainWaiters_ok: "channel_ok c \<Longrightarrow> channel_ok (rejectDrainWaiters c)"
  by (auto simp: rejectDrainWaiters_def intro: phase_change_ok split: option.splits prod.splits hand_phase.splits)

lemma channel_ok_frame [simp]:
  "channel_ok (channel_emit ev c) = channel_ok c" "channel_ok (c\<lparr>dc_listening := b\<rparr>) = channel_ok c"
  "channel_ok (c\<lparr>dc_readyState := s\<rparr>) = channel_ok c" "channel_ok (c\<lparr>dc_bufferedAmount := n\<rparr>) = channel_ok c"
  by (simp_all add: channel_ok_def)

lemma handleDrain_ok: "channel_ok c \<Longrightarrow> channel_ok (handleDrain c)"
proof -
  assume ok: "channel_ok c"
  define c2 where "c2 = (let c1 = channel_emit Cv_Drain c in if dc_watermarkBlocked c1 \<and> dc_bufferedAmount c1 \<le> dc_lowWaterMark c1
    then channel_emit (Cv_Watermark Low (dc_bufferedAmount c1)) (c1\<lparr>dc_watermarkBlocked := False\<rparr>) else c1)"
  have c2: "channel_ok c2" using ok by (simp add: c2_def Let_def) (simp add: channel_ok_def)
  have "handleDrain c = (case dc_hand c2 of Some (p, Waits) \<Rightarrow> if dc_readyState c2 \<noteq> Ch_Open then c2\<lparr>dc_hand := Some (p, Fails)\<rparr>
     else if dc_bufferedAmount c2 \<le> dc_lowWaterMark c2 then c2\<lparr>dc_hand := Some (p, Drained)\<rparr> else c2 | _ \<Rightarrow> c2)"
    by (simp only: handleDrain_def c2_def Let_def)
  with c2 show ?thesis by (auto intro: phase_change_ok split: option.splits prod.splits hand_phase.splits)
qed

lemma channel_step_ok: "channel_step c c' \<Longrightarrow> channel_ok c \<Longrightarrow> channel_ok c'"
  by (induction rule: channel_step.induct)
    (auto simp: handleClose_def handleError_def channel_dispose_def handleMessage_def
      intro: enqueueSend_ok hand_turn_ok handleDrain_ok rejectPendingSends_ok rejectDrainWaiters_ok split: incoming_data.splits)

section \<open>The properties\<close>

lemma new_channel_ok: "channel_ok (new_data_channel s n fc)"
  by (simp add: new_data_channel_def channel_ok_def accounts_def hand_sends_def send_capacity_def MIN_PENDING_SEND_BYTES_def KIB_def)

lemma channel_reachable_ok: "channel_reachable c0 c \<Longrightarrow> channel_ok c0 \<Longrightarrow> channel_ok c"
  by (induction rule: channel_reachable.induct) (auto intro: channel_step_ok)

text \<open>
  C10. In every state of a data channel, whatever the order of sends, drains, failures and disposal: the queued bytes are counted exactly and stay
  within the capacity, every send's promise settles at most once and is settled unless the send is still queued,
  the promises that resolved are those of the data that was sent, in the order of the calls, and
  while anything is queued the loop that sends it is running.
\<close>

theorem data_channel_queue_safe:
  assumes "channel_reachable (new_data_channel s n fc) c"
  shows "dc_pendingSendBytes c = sum_list (map qs_bytes (send_queue c)) \<and>
    dc_pendingSendBytes c \<le> max (dc_highWaterMark c) MIN_PENDING_SEND_BYTES \<and> distinct (map fst (dc_settled c)) \<and>
    set (map fst (dc_settled c)) = {..<dc_nextPromise c} - set (map qs_id (send_queue c)) \<and>
    map fst (filter snd (dc_settled c)) = map qs_id (dc_sent c) \<and> sorted_wrt (<) (map qs_id (dc_sent c)) \<and>
    (send_queue c \<noteq> [] \<longrightarrow> dc_pumping c)"
proof -
  have "channel_ok c" using channel_reachable_ok [OF assms new_channel_ok] .
  then show ?thesis
    by (auto simp: channel_ok_def accounts_def send_capacity_def sorted_wrt_append sorted_wrt_map hand_sends_def split: option.splits)
qed

text \<open>Continuations while the channel stays open and takes everything.\<close>

fun run_hand :: "nat \<Rightarrow> data_channel \<Rightarrow> data_channel" where
  "run_hand 0 c = c"
| "run_hand (Suc n) c = (case hand_turn True c of None \<Rightarrow> c | Some c' \<Rightarrow> run_hand n c')"

lemma hand_go:
  assumes "channel_ok c" and "dc_readyState c = Ch_Open" and "dc_hand c = Some (p, ph)" and "ph \<in> {May_Go, Drained}"
    and "dc_bufferedAmount c + dc_pendingSendBytes c < dc_highWaterMark c"
  shows "\<exists>c'. hand_turn True c = Some c' \<and> channel_ok c' \<and> dc_readyState c' = Ch_Open \<and> dc_sent c' = dc_sent c @ [p] \<and>
    send_queue c' = dc_pendingSends c \<and> dc_highWaterMark c' = dc_highWaterMark c \<and>
    dc_bufferedAmount c' + dc_pendingSendBytes c' = dc_bufferedAmount c + dc_pendingSendBytes c \<and>
    (dc_hand c' = None \<or> (\<exists>p'. dc_hand c' = Some (p', May_Go)))"
proof -
  define c1 where "c1 = settle_promise (qs_id p) True (c\<lparr>dc_sent := dc_sent c @ [p], dc_bufferedAmount := dc_bufferedAmount c + qs_bytes p,
    dc_pendingSendBytes := dc_pendingSendBytes c - qs_bytes p\<rparr>)"
  have t: "hand_turn True c = Some (drain_next c1)" using assms(2-4)
    by (auto simp: hand_turn_def finish_send_def c1_def settle_promise_def)
  have acc: "accounts (p # dc_pendingSends c) c" using assms(1,3) by (simp add: channel_ok_def hand_sends_def)
  then have "0 \<le> sum_list (map qs_bytes (dc_pendingSends c))" by (intro sum_list_nonneg) (auto simp: accounts_def)
  then have room: "dc_bufferedAmount c + qs_bytes p < dc_highWaterMark c" using acc assms(5) by (simp add: accounts_def)
  have "channel_ok (drain_next c1)" using hand_turn_ok [OF assms(1) t] .
  with t room assms(2) show ?thesis
    by (auto simp: drain_next_def waitForWritable_def c1_def settle_promise_def hand_sends_def split: list.splits)
qed


definition example_channel :: data_channel where
  "example_channel = enqueueSend ''b'' 2 (enqueueSend ''a'' 1 (new_data_channel Ch_Open 0 DEFAULT_FLOW_CONTROL_PROFILE))"

lemma example_channel_ok: "channel_ok example_channel"
  unfolding example_channel_def by (intro enqueueSend_ok new_channel_ok) simp_all

theorem data_channel_queue_safe_witness:
  "\<exists>c. channel_reachable (new_data_channel Ch_Open 0 DEFAULT_FLOW_CONTROL_PROFILE) c \<and> dc_pendingSendBytes c = 3 \<and>
     dc_pendingSendBytes c = sum_list (map qs_bytes (send_queue c))"
proof -
  have r: "channel_reachable (new_data_channel Ch_Open 0 DEFAULT_FLOW_CONTROL_PROFILE) example_channel"
    unfolding example_channel_def
    by (rule channel_reachable.step [OF channel_reachable.step [OF channel_reachable.start channel_step.send] channel_step.send]) simp_all
  have "dc_pendingSendBytes example_channel = 3" by code_simp
  with r data_channel_queue_safe [OF r] show ?thesis by blast
qed


end
