(* ===== verification/Rtc_Transport.thy ===== *)
theory Rtc_Transport
  imports Session_State Data_Channel
begin

text \<open>
  \<open>PeerConnectionWrapper\<close> and \<open>WebRTCTransport\<close> of \<open>packages/webrtc/src/index.ts\<close>. Connections, wrappers and channels are objects
  that are shared, so they live in heaps and are numbered; the transport maps a peer to its wrapper. A channel is the
  \<open>data_channel\<close> of its own theory; whatever it emits while the transport listens to it becomes an event of the transport.
  \<open>json\<close> is \<open>JSON.parse\<close>. What is called on a connection is recorded.
\<close>

section \<open>State\<close>

datatype rtc_call =
    Rc_CreateDataChannel
  | Rc_CreateOffer
  | Rc_CreateAnswer
  | Rc_SetLocal js_value
  | Rc_SetRemote js_value
  | Rc_AddIce js_value
  | Rc_Close

text \<open>\<open>rc_sdp\<close>: it has a \<open>createOffer\<close> function.\<close>

record rtc_connection =
  rc_sdp :: bool
  rc_calls :: "rtc_call list"

text \<open>
  \<open>pw_listening\<close>: the wrapper's listeners are on the connection. \<open>pw_bound\<close>: the transport's handlers are on the wrapper.
  \<open>pw_forwards\<close> counts the handlers that forward ICE candidates.
\<close>

record peer_wrapper =
  pw_peerId :: string
  pw_connection :: nat
  pw_channel :: "nat option"
  pw_listening :: bool
  pw_bound :: bool
  pw_forwards :: nat

record bound_channel =
  bc_peerId :: string
  bc_bound :: bool
  bc_channel :: data_channel

datatype transport_event =
    Tv_Message string js_value
  | Tv_Binary string string
  | Tv_PeerState string string
  | Tv_Error string string
  | Tv_Watermark string watermark_phase int

text \<open>\<open>rt_factory\<close> is the optional factory of connections: whether those it makes can speak SDP.\<close>

record rtc =
  rt_flowControl :: flow_control_profile
  rt_factory :: "bool option"
  rt_connections :: "rtc_connection list"
  rt_wrappers :: "peer_wrapper list"
  rt_channels :: "bound_channel list"
  rt_peers :: "(string, nat) js_map"
  rt_listening :: bool
  rt_events :: "transport_event list"

type_synonym 'a rtc_result = "rtc \<times> (string + 'a)"

definition new_rtc :: "flow_control_profile \<Rightarrow> bool option \<Rightarrow> rtc" where
  "new_rtc fc factory = \<lparr>rt_flowControl = fc, rt_factory = factory, rt_connections = [], rt_wrappers = [], rt_channels = [],
     rt_peers = [], rt_listening = True, rt_events = []\<rparr>"

definition rtc_emit :: "transport_event \<Rightarrow> rtc \<Rightarrow> rtc" where
  "rtc_emit ev t = (if rt_listening t then t\<lparr>rt_events := rt_events t @ [ev]\<rparr> else t)"

definition reportError :: "string \<Rightarrow> string \<Rightarrow> rtc \<Rightarrow> rtc" where
  "reportError peerId err = rtc_emit (Tv_Error peerId err)"

definition update_wrapper :: "nat \<Rightarrow> (peer_wrapper \<Rightarrow> peer_wrapper) \<Rightarrow> rtc \<Rightarrow> rtc" where
  "update_wrapper w f t = t\<lparr>rt_wrappers := (rt_wrappers t)[w := f (rt_wrappers t ! w)]\<rparr>"

definition call_connection :: "nat \<Rightarrow> rtc_call \<Rightarrow> rtc \<Rightarrow> rtc" where
  "call_connection k call t =
     t\<lparr>rt_connections := (rt_connections t)[k := (rt_connections t ! k)\<lparr>rc_calls := rc_calls (rt_connections t ! k) @ [call]\<rparr>]\<rparr>"

section \<open>Channels\<close>

text \<open>\<open>bindChannel\<close>: what the transport makes of the events of a channel.\<close>

fun channel_handler :: "(string \<Rightarrow> js_value option) \<Rightarrow> string \<Rightarrow> channel_event \<Rightarrow> rtc \<Rightarrow> rtc" where
  "channel_handler json peerId (Cv_Message (Cd_Text text)) t =
     (case json text of Some v \<Rightarrow> rtc_emit (Tv_Message peerId v) t | None \<Rightarrow> rtc_emit (Tv_Error peerId ''SyntaxError'') t)"
| "channel_handler json peerId (Cv_Message (Cd_Buffer bytes)) t = rtc_emit (Tv_Binary peerId bytes) t"
| "channel_handler json peerId Cv_Error t = reportError peerId (''DataChannel error for '' @ peerId @ '': error'') t"
| "channel_handler json peerId (Cv_Watermark phase n) t = rtc_emit (Tv_Watermark peerId phase n) t"
| "channel_handler json peerId _ t = t"

text \<open>An operation of a channel, and the delivery of what it emits.\<close>

definition on_channel :: "(string \<Rightarrow> js_value option) \<Rightarrow> nat \<Rightarrow> (data_channel \<Rightarrow> data_channel) \<Rightarrow> rtc \<Rightarrow> rtc" where
  "on_channel json c f t =
     (let b = rt_channels t ! c;
          dc = f (bc_channel b);
          news = drop (length (dc_events (bc_channel b))) (dc_events dc);
          t1 = t\<lparr>rt_channels := (rt_channels t)[c := b\<lparr>bc_channel := dc\<rparr>]\<rparr>
      in if bc_bound b then fold (channel_handler json (bc_peerId b)) news t1 else t1)"

text \<open>
  A channel that is replaced is closed, unless it is closing already, and disposed of; its close event comes when nobody listens any
  more.
\<close>

definition retire_channel :: "data_channel \<Rightarrow> data_channel" where
  "retire_channel dc =
     channel_dispose (if dc_readyState dc \<noteq> Ch_Closed \<and> dc_readyState dc \<noteq> Ch_Closing then dc\<lparr>dc_readyState := Ch_Closing\<rparr> else dc)"

definition update_channel :: "nat \<Rightarrow> (data_channel \<Rightarrow> data_channel) \<Rightarrow> rtc \<Rightarrow> rtc" where
  "update_channel c f t =
     t\<lparr>rt_channels := (rt_channels t)[c := (rt_channels t ! c)\<lparr>bc_channel := f (bc_channel (rt_channels t ! c))\<rparr>]\<rparr>"

definition wrapper_attachChannel :: "nat \<Rightarrow> ready_state \<Rightarrow> int \<Rightarrow> rtc \<Rightarrow> rtc \<times> nat" where
  "wrapper_attachChannel w state buffered t =
     (let t1 = (case pw_channel (rt_wrappers t ! w) of None \<Rightarrow> t | Some previous \<Rightarrow> update_channel previous retire_channel t);
          c = length (rt_channels t1);
          b = \<lparr>bc_peerId = pw_peerId (rt_wrappers t1 ! w), bc_bound = pw_bound (rt_wrappers t1 ! w),
            bc_channel = new_data_channel state buffered (rt_flowControl t1)\<rparr>
      in (update_wrapper w (\<lambda>p. p\<lparr>pw_channel := Some c\<rparr>) (t1\<lparr>rt_channels := rt_channels t1 @ [b]\<rparr>), c))"

definition wrapper_createDataChannel :: "nat \<Rightarrow> rtc \<Rightarrow> rtc \<times> nat" where
  "wrapper_createDataChannel w t =
     wrapper_attachChannel w Ch_Connecting 0 (call_connection (pw_connection (rt_wrappers t ! w)) Rc_CreateDataChannel t)"

section \<open>Peers\<close>

definition new_connection_of :: "bool \<Rightarrow> rtc \<Rightarrow> rtc \<times> nat" where
  "new_connection_of sdp t = (t\<lparr>rt_connections := rt_connections t @ [\<lparr>rc_sdp = sdp, rc_calls = []\<rparr>]\<rparr>, length (rt_connections t))"

definition createPeerConnection :: "string \<Rightarrow> rtc \<Rightarrow> nat rtc_result" where
  "createPeerConnection peerId t =
     (case rt_factory t of
        None \<Rightarrow> (t, Inl (''No peer connection factory configured for '' @ peerId))
      | Some sdp \<Rightarrow> (case new_connection_of sdp t of (t1, k) \<Rightarrow> (t1, Inr k)))"

definition new_wrapper :: "string \<Rightarrow> nat \<Rightarrow> peer_wrapper" where
  "new_wrapper peerId k = \<lparr>pw_peerId = peerId, pw_connection = k, pw_channel = None, pw_listening = True, pw_bound = True, pw_forwards = 0\<rparr>"

definition ensurePeer :: "string \<Rightarrow> nat option \<Rightarrow> rtc \<Rightarrow> nat rtc_result" where
  "ensurePeer peerId connection t =
     (case jm_get (rt_peers t) peerId of
        Some existing \<Rightarrow> (t, Inr existing)
      | None \<Rightarrow>
          (case (case connection of Some k \<Rightarrow> (t, Inr k) | None \<Rightarrow> createPeerConnection peerId t) of
             (t1, Inl err) \<Rightarrow> (t1, Inl err)
           | (t1, Inr k) \<Rightarrow>
               let w = length (rt_wrappers t1)
               in (t1\<lparr>rt_wrappers := rt_wrappers t1 @ [new_wrapper peerId k], rt_peers := jm_set peerId w (rt_peers t1)\<rparr>, Inr w)))"

text \<open>\<open>connect\<close>\<close>

definition rtc_connect :: "string \<Rightarrow> rtc \<Rightarrow> unit rtc_result" where
  "rtc_connect peerId t = (case ensurePeer peerId None t of (t1, Inl err) \<Rightarrow> (t1, Inl err) | (t1, Inr _) \<Rightarrow> (t1, Inr ()))"

definition rtc_attachChannel :: "string \<Rightarrow> nat option \<Rightarrow> ready_state \<Rightarrow> int \<Rightarrow> rtc \<Rightarrow> nat rtc_result" where
  "rtc_attachChannel peerId connection state buffered t =
     (case ensurePeer peerId connection t of
        (t1, Inl err) \<Rightarrow> (t1, Inl err)
      | (t1, Inr w) \<Rightarrow> (case wrapper_attachChannel w state buffered t1 of (t2, c) \<Rightarrow> (t2, Inr c)))"

definition requireChannel :: "string \<Rightarrow> rtc \<Rightarrow> string + nat" where
  "requireChannel peerId t =
     (case (case jm_get (rt_peers t) peerId of None \<Rightarrow> None | Some w \<Rightarrow> pw_channel (rt_wrappers t ! w)) of
        None \<Rightarrow> Inl (''No DataChannel for peer '' @ peerId)
      | Some c \<Rightarrow> Inr c)"

text \<open>\<open>send\<close> and \<open>sendBinary\<close>, with the size of what is sent.\<close>

definition rtc_send :: "(string \<Rightarrow> js_value option) \<Rightarrow> string \<Rightarrow> string \<Rightarrow> int \<Rightarrow> rtc \<Rightarrow> unit rtc_result" where
  "rtc_send json peerId payload bytes t =
     (case requireChannel peerId t of
        Inl err \<Rightarrow> (t, Inl err)
      | Inr c \<Rightarrow> (on_channel json c (enqueueSend payload bytes) t, Inr ()))"

text \<open>The close of a wrapper; the transport's handler of its close event forgets the peer.\<close>

definition wrapper_close :: "nat \<Rightarrow> rtc \<Rightarrow> rtc" where
  "wrapper_close w t =
     (let p = rt_wrappers t ! w;
          t1 = (case pw_channel p of None \<Rightarrow> t | Some c \<Rightarrow> update_channel c channel_dispose t);
          t2 = call_connection (pw_connection p) Rc_Close (update_wrapper w (\<lambda>p. p\<lparr>pw_listening := False\<rparr>) t1);
          t3 = (if pw_bound p then t2\<lparr>rt_peers := jm_delete (pw_peerId p) (rt_peers t2)\<rparr> else t2)
      in update_wrapper w (\<lambda>p. p\<lparr>pw_bound := False, pw_forwards := 0\<rparr>) t3)"

definition rtc_close_peer :: "string \<Rightarrow> rtc \<Rightarrow> rtc" where
  "rtc_close_peer peerId t =
     (let t1 = (case jm_get (rt_peers t) peerId of None \<Rightarrow> t | Some w \<Rightarrow> wrapper_close w t)
      in t1\<lparr>rt_peers := jm_delete peerId (rt_peers t1)\<rparr>)"

definition rtc_close :: "string option \<Rightarrow> rtc \<Rightarrow> rtc" where
  "rtc_close peerId t =
     (if truthy peerId then rtc_close_peer (the peerId) t
      else (fold wrapper_close (map snd (rt_peers t)) t)\<lparr>rt_peers := [], rt_listening := False\<rparr>)"

text \<open>Events of a connection. A closed wrapper does not hear them.\<close>

definition handleConnectionState :: "nat \<Rightarrow> string \<Rightarrow> rtc \<Rightarrow> rtc" where
  "handleConnectionState w state t =
     (let p = rt_wrappers t ! w
      in if pw_listening p \<and> pw_bound p then rtc_emit (Tv_PeerState (pw_peerId p) state) t else t)"

definition handleDataChannel :: "nat \<Rightarrow> ready_state \<Rightarrow> int \<Rightarrow> rtc \<Rightarrow> rtc" where
  "handleDataChannel w state buffered t =
     (if pw_listening (rt_wrappers t ! w) then fst (wrapper_attachChannel w state buffered t) else t)"

section \<open>Steps\<close>

text \<open>
  Calls of the application and events of the platform. A channel goes through the steps of \<open>channel_step\<close>, a disposed one too.
\<close>

inductive rtc_step :: "(string \<Rightarrow> js_value option) \<Rightarrow> rtc \<Rightarrow> rtc \<Rightarrow> bool" for json where
  new_connection: "rtc_step json t (fst (new_connection_of sdp t))"
| ensure: "(case connection of None \<Rightarrow> True | Some k \<Rightarrow> k < length (rt_connections t)) \<Longrightarrow> rtc_step json t (fst (ensurePeer peerId connection t))"
| connect: "rtc_step json t (fst (rtc_connect peerId t))"
| attach: "(case connection of None \<Rightarrow> True | Some k \<Rightarrow> k < length (rt_connections t)) \<Longrightarrow>
    rtc_step json t (fst (rtc_attachChannel peerId connection state buffered t))"
| create: "jm_get (rt_peers t) peerId = Some w \<Longrightarrow> rtc_step json t (fst (wrapper_createDataChannel w t))"
| send: "0 \<le> bytes \<Longrightarrow> rtc_step json t (fst (rtc_send json peerId payload bytes t))"
| channel: "c < length (rt_channels t) \<Longrightarrow> channel_step (bc_channel (rt_channels t ! c)) dc \<Longrightarrow> rtc_step json t (on_channel json c (\<lambda>_. dc) t)"
| peer_state: "w < length (rt_wrappers t) \<Longrightarrow> rtc_step json t (handleConnectionState w state t)"
| data_channel: "w < length (rt_wrappers t) \<Longrightarrow> rtc_step json t (handleDataChannel w state buffered t)"
| close: "rtc_step json t (rtc_close peerId t)"

inductive rtc_reachable :: "(string \<Rightarrow> js_value option) \<Rightarrow> flow_control_profile \<Rightarrow> bool option \<Rightarrow> rtc \<Rightarrow> bool" for json fc factory where
  start: "rtc_reachable json fc factory (new_rtc fc factory)"
| step: "rtc_reachable json fc factory t \<Longrightarrow> rtc_step json t t' \<Longrightarrow> rtc_reachable json fc factory t'"

section \<open>Which channels are heard\<close>

text \<open>
  The invariant: the peers of the transport are wrappers of that name that listen; a wrapper that listens is one of them; every
  channel that is not the channel of its peer's wrapper is disposed of; every channel is a reachable one.
\<close>

definition rtc_ok :: "flow_control_profile \<Rightarrow> rtc \<Rightarrow> bool" where
  "rtc_ok fc t \<longleftrightarrow> rt_flowControl t = fc \<and> jm_wf (rt_peers t) \<and>
     (\<forall>p w. jm_get (rt_peers t) p = Some w \<longrightarrow> w < length (rt_wrappers t) \<and> pw_peerId (rt_wrappers t ! w) = p \<and> pw_bound (rt_wrappers t ! w)) \<and>
     (\<forall>w < length (rt_wrappers t).
        pw_listening (rt_wrappers t ! w) = pw_bound (rt_wrappers t ! w) \<and>
        (pw_bound (rt_wrappers t ! w) \<longrightarrow> jm_get (rt_peers t) (pw_peerId (rt_wrappers t ! w)) = Some w) \<and>
        (\<forall>c. pw_channel (rt_wrappers t ! w) = Some c \<longrightarrow> c < length (rt_channels t) \<and>
           bc_peerId (rt_channels t ! c) = pw_peerId (rt_wrappers t ! w))) \<and>
     (\<forall>c < length (rt_channels t).
        (\<exists>s n. channel_reachable (new_data_channel s n fc) (bc_channel (rt_channels t ! c))) \<and>
        (dc_listening (bc_channel (rt_channels t ! c)) \<longrightarrow>
           (\<exists>w. jm_get (rt_peers t) (bc_peerId (rt_channels t ! c)) = Some w \<and> pw_channel (rt_wrappers t ! w) = Some c)))"

lemma rtc_okD:
  assumes "rtc_ok fc t"
  shows "jm_get (rt_peers t) p = Some w \<Longrightarrow> w < length (rt_wrappers t) \<and> pw_peerId (rt_wrappers t ! w) = p \<and> pw_bound (rt_wrappers t ! w)"
    and "w < length (rt_wrappers t) \<Longrightarrow> pw_listening (rt_wrappers t ! w) = pw_bound (rt_wrappers t ! w)"
    and "w < length (rt_wrappers t) \<Longrightarrow> pw_bound (rt_wrappers t ! w) \<Longrightarrow> jm_get (rt_peers t) (pw_peerId (rt_wrappers t ! w)) = Some w"
    and "w < length (rt_wrappers t) \<Longrightarrow> pw_channel (rt_wrappers t ! w) = Some c \<Longrightarrow>
      c < length (rt_channels t) \<and> bc_peerId (rt_channels t ! c) = pw_peerId (rt_wrappers t ! w)"
    and "c < length (rt_channels t) \<Longrightarrow> dc_listening (bc_channel (rt_channels t ! c)) \<Longrightarrow>
      \<exists>w. jm_get (rt_peers t) (bc_peerId (rt_channels t ! c)) = Some w \<and> pw_channel (rt_wrappers t ! w) = Some c"
    and "c < length (rt_channels t) \<Longrightarrow> \<exists>s n. channel_reachable (new_data_channel s n fc) (bc_channel (rt_channels t ! c))"
    and "jm_wf (rt_peers t)" and "rt_flowControl t = fc"
  using assms by (auto simp: rtc_ok_def)

lemma listening_frame [simp]:
  "dc_listening (channel_emit ev c) = dc_listening c" "dc_listening (settle_promise n ok c) = dc_listening c"
  "dc_listening (waitForWritable p c) = dc_listening c" "dc_listening (rejectDrainWaiters c) = dc_listening c"
  by (simp_all add: channel_emit_def settle_promise_def waitForWritable_def rejectDrainWaiters_def split: option.splits prod.splits hand_phase.splits)

lemma listening_drain [simp]: "dc_listening (drain_next c) = dc_listening c"
  by (simp add: drain_next_def split: list.splits)

lemma listening_ops [simp]:
  "dc_listening (pumpSends c) = dc_listening c" "dc_listening (finish_send p ok c) = dc_listening c"
  "dc_listening (rejectPendingSends c) = dc_listening c"
  by (simp_all add: pumpSends_def finish_send_def rejectPendingSends_def reject_sends_effect Let_def)

lemma listening_handlers [simp]:
  "dc_listening (enqueueSend payload bytes c) = dc_listening c" "dc_listening (handleClose c) = dc_listening c"
  "dc_listening (handleError c) = dc_listening c" "dc_listening (handleMessage d c) = dc_listening c"
  "\<not> dc_listening (channel_dispose c)"
  by (simp_all add: enqueueSend_def handleClose_def handleError_def handleMessage_def channel_dispose_def Let_def split: incoming_data.splits)

lemma listening_handleDrain [simp]: "dc_listening (handleDrain c) = dc_listening c"
  by (simp add: handleDrain_def Let_def split: option.splits prod.splits hand_phase.splits)

lemma channel_step_listening: "channel_step c c' \<Longrightarrow> dc_listening c' \<Longrightarrow> dc_listening c"
  by (induction rule: channel_step.induct) (auto simp: hand_turn_def split: option.splits prod.splits hand_phase.splits if_splits)

lemma retire_silent [simp]: "\<not> dc_listening (retire_channel c)"
  by (simp add: retire_channel_def)

lemma retire_reachable: "channel_reachable c0 c \<Longrightarrow> channel_reachable c0 (retire_channel c)"
  unfolding retire_channel_def
  by (cases "dc_readyState c \<noteq> Ch_Closed \<and> dc_readyState c \<noteq> Ch_Closing")
    (auto intro: channel_reachable.step [OF _ channel_step.dispose] channel_reachable.step [OF _ channel_step.state])

text \<open>Events change nothing else.\<close>

fun event_peer :: "transport_event \<Rightarrow> string" where
  "event_peer (Tv_Message p v) = p"
| "event_peer (Tv_Binary p v) = p"
| "event_peer (Tv_PeerState p v) = p"
| "event_peer (Tv_Error p v) = p"
| "event_peer (Tv_Watermark p ph n) = p"

lemma rtc_emit_shape: "\<exists>evs. rtc_emit ev t = t\<lparr>rt_events := rt_events t @ evs\<rparr> \<and> (\<forall>e \<in> set evs. event_peer e = event_peer ev)"
  by (cases "rt_listening t") (auto simp: rtc_emit_def intro: exI [of _ "[ev]"] exI [of _ "[]"])

lemma channel_handler_is_emit:
  "channel_handler json p ev t = t \<or> (\<exists>e. event_peer e = p \<and> channel_handler json p ev t = rtc_emit e t)"
  by (cases "(json, p, ev, t)" rule: channel_handler.cases) (auto simp: reportError_def split: option.split, (metis event_peer.simps)+)

lemma channel_handler_shape:
  "\<exists>evs. channel_handler json p ev t = t\<lparr>rt_events := rt_events t @ evs\<rparr> \<and> (\<forall>e \<in> set evs. event_peer e = p)"
proof -
  consider "channel_handler json p ev t = t" | e where "event_peer e = p" "channel_handler json p ev t = rtc_emit e t"
    using channel_handler_is_emit by blast
  then show ?thesis
  proof cases
    case 1
    then show ?thesis by (intro exI [of _ "[]"]) simp
  next
    case 2
    with rtc_emit_shape [of e t] show ?thesis by simp
  qed
qed

lemma channel_handlers_shape:
  "\<exists>evs. fold (channel_handler json p) news t = t\<lparr>rt_events := rt_events t @ evs\<rparr> \<and> (\<forall>e \<in> set evs. event_peer e = p) \<and> (news = [] \<longrightarrow> evs = [])"
proof (induction news arbitrary: t)
  case Nil
  show ?case by (auto intro: exI [of _ "[]"])
next
  case (Cons ev news)
  obtain evs where e: "channel_handler json p ev t = t\<lparr>rt_events := rt_events t @ evs\<rparr>" "\<forall>e \<in> set evs. event_peer e = p"
    using channel_handler_shape [of json p ev t] by blast
  obtain evs' where e': "fold (channel_handler json p) news (t\<lparr>rt_events := rt_events t @ evs\<rparr>) = t\<lparr>rt_events := rt_events t @ evs @ evs'\<rparr>"
    "\<forall>e \<in> set evs'. event_peer e = p"
    using Cons [of "t\<lparr>rt_events := rt_events t @ evs\<rparr>"] by auto
  from e e' show ?case by (intro exI [of _ "evs @ evs'"]) auto
qed

text \<open>How an operation on a channel acts.\<close>

lemma on_channel_shape:
  obtains evs where "on_channel json c f t = t\<lparr>rt_channels := (rt_channels t)[c := (rt_channels t ! c)\<lparr>bc_channel := f (bc_channel (rt_channels t ! c))\<rparr>],
      rt_events := rt_events t @ evs\<rparr>"
    and "\<forall>e \<in> set evs. event_peer e = bc_peerId (rt_channels t ! c)"
    and "dc_events (f (bc_channel (rt_channels t ! c))) = dc_events (bc_channel (rt_channels t ! c)) \<longrightarrow> evs = []"
proof -
  define b where "b = rt_channels t ! c"
  define news where "news = drop (length (dc_events (bc_channel b))) (dc_events (f (bc_channel b)))"
  define t1 where "t1 = t\<lparr>rt_channels := (rt_channels t)[c := b\<lparr>bc_channel := f (bc_channel b)\<rparr>]\<rparr>"
  have on: "on_channel json c f t = (if bc_bound b then fold (channel_handler json (bc_peerId b)) news t1 else t1)"
    by (simp add: on_channel_def b_def news_def t1_def Let_def)
  obtain evs where e: "fold (channel_handler json (bc_peerId b)) news t1 = t1\<lparr>rt_events := rt_events t1 @ evs\<rparr>"
    "\<forall>e \<in> set evs. event_peer e = bc_peerId b" "news = [] \<longrightarrow> evs = []"
    using channel_handlers_shape [of json "bc_peerId b" news t1] by blast
  have "dc_events (f (bc_channel b)) = dc_events (bc_channel b) \<longrightarrow> news = []" by (simp add: news_def)
  with e that [of "if bc_bound b then evs else []"] show ?thesis by (simp add: on t1_def b_def)
qed

lemma rtc_okI:
  assumes "rt_flowControl t = fc" and "jm_wf (rt_peers t)"
    and "\<And>p w. jm_get (rt_peers t) p = Some w \<Longrightarrow> w < length (rt_wrappers t) \<and> pw_peerId (rt_wrappers t ! w) = p \<and> pw_bound (rt_wrappers t ! w)"
    and "\<And>w. w < length (rt_wrappers t) \<Longrightarrow> pw_listening (rt_wrappers t ! w) = pw_bound (rt_wrappers t ! w) \<and>
        (pw_bound (rt_wrappers t ! w) \<longrightarrow> jm_get (rt_peers t) (pw_peerId (rt_wrappers t ! w)) = Some w)"
    and "\<And>w c. w < length (rt_wrappers t) \<Longrightarrow> pw_channel (rt_wrappers t ! w) = Some c \<Longrightarrow> c < length (rt_channels t) \<and>
           bc_peerId (rt_channels t ! c) = pw_peerId (rt_wrappers t ! w)"
    and "\<And>c. c < length (rt_channels t) \<Longrightarrow> \<exists>s n. channel_reachable (new_data_channel s n fc) (bc_channel (rt_channels t ! c))"
    and "\<And>c. c < length (rt_channels t) \<Longrightarrow> dc_listening (bc_channel (rt_channels t ! c)) \<Longrightarrow>
           \<exists>w. jm_get (rt_peers t) (bc_peerId (rt_channels t ! c)) = Some w \<and> pw_channel (rt_wrappers t ! w) = Some c"
  shows "rtc_ok fc t"
  unfolding rtc_ok_def using assms by blast

lemma rtc_ok_channels:
  assumes ok: "rtc_ok fc t" and c: "c < length (rt_channels t)"
    and r: "\<And>c0. channel_reachable c0 (bc_channel (rt_channels t ! c)) \<Longrightarrow> channel_reachable c0 dc"
    and l: "dc_listening dc \<Longrightarrow> dc_listening (bc_channel (rt_channels t ! c))"
  shows "rtc_ok fc (t\<lparr>rt_channels := (rt_channels t)[c := (rt_channels t ! c)\<lparr>bc_channel := dc\<rparr>], rt_events := evs\<rparr>)"
proof -
  note D = rtc_okD [OF ok]
  let ?cs = "(rt_channels t)[c := (rt_channels t ! c)\<lparr>bc_channel := dc\<rparr>]"
  have id: "bc_peerId (?cs ! d) = bc_peerId (rt_channels t ! d)" for d
    using c by (simp add: nth_list_update)
  have ch: "bc_channel (?cs ! d) = (if d = c then dc else bc_channel (rt_channels t ! d))" for d
    using c by (simp add: nth_list_update)
  show ?thesis
  proof (rule rtc_okI, goal_cases)
    case (6 d)
    with D(6) [of d] r show ?case by (auto simp: ch)
  next
    case (7 d)
    with D(5) [of d] l show ?case by (auto simp: ch id split: if_splits)
  qed (use D(1-4,7,8) in \<open>simp_all add: id\<close>)
qed

lemma rtc_ok_frame [simp]:
  "rtc_ok fc (t\<lparr>rt_events := evs\<rparr>) = rtc_ok fc t" "rtc_ok fc (t\<lparr>rt_connections := ks\<rparr>) = rtc_ok fc t"
  "rtc_ok fc (t\<lparr>rt_listening := b\<rparr>) = rtc_ok fc t" "rtc_ok fc (call_connection k call t) = rtc_ok fc t"
  by (simp_all add: rtc_ok_def call_connection_def)

lemma rtc_emit_ok [simp]: "rtc_ok fc (rtc_emit ev t) = rtc_ok fc t"
  by (simp add: rtc_emit_def)

lemma on_channel_ok:
  assumes "rtc_ok fc t" and "c < length (rt_channels t)" and "channel_step (bc_channel (rt_channels t ! c)) (f (bc_channel (rt_channels t ! c)))"
  shows "rtc_ok fc (on_channel json c f t)"
  using on_channel_shape [of json c f t] rtc_ok_channels [OF assms(1,2)] channel_reachable.step [OF _ assms(3)]
    channel_step_listening [OF assms(3)] by metis

lemma update_channel_ok:
  assumes "rtc_ok fc t" and "c < length (rt_channels t)"
    and "\<And>c0 dc. channel_reachable c0 dc \<Longrightarrow> channel_reachable c0 (f dc)" and "\<And>dc. \<not> dc_listening (f dc)"
  shows "rtc_ok fc (update_channel c f t)"
proof -
  have "rtc_ok fc (t\<lparr>rt_channels := (rt_channels t)[c := (rt_channels t ! c)\<lparr>bc_channel := f (bc_channel (rt_channels t ! c))\<rparr>], rt_events := rt_events t\<rparr>)"
    using assms by (intro rtc_ok_channels) auto
  then show ?thesis by (simp add: update_channel_def)
qed

lemma update_channel_sel [simp]:
  "rt_wrappers (update_channel c f t) = rt_wrappers t" "rt_peers (update_channel c f t) = rt_peers t"
  "rt_flowControl (update_channel c f t) = rt_flowControl t" "length (rt_channels (update_channel c f t)) = length (rt_channels t)"
  "bc_peerId (rt_channels (update_channel c f t) ! d) = bc_peerId (rt_channels t ! d)"
  "c < length (rt_channels t) \<Longrightarrow> bc_channel (rt_channels (update_channel c f t) ! d) =
     (if d = c then f (bc_channel (rt_channels t ! d)) else bc_channel (rt_channels t ! d))"
  by (simp_all add: update_channel_def nth_list_update)
    (metis (no_types, lifting) bound_channel.select_convs(1) bound_channel.surjective bound_channel.update_convs(3) list_update_beyond not_le_imp_less nth_list_update)

lemma dispose_reachable: "channel_reachable c0 c \<Longrightarrow> channel_reachable c0 (channel_dispose c)"
  by (rule channel_reachable.step [OF _ channel_step.dispose])

lemma append_channel_ok:
  assumes ok: "rtc_ok fc t" and w: "w < length (rt_wrappers t)" "pw_bound (rt_wrappers t ! w)"
    and old: "\<And>c. pw_channel (rt_wrappers t ! w) = Some c \<Longrightarrow> \<not> dc_listening (bc_channel (rt_channels t ! c))"
    and b: "bc_peerId b = pw_peerId (rt_wrappers t ! w)" "bc_channel b = new_data_channel s n fc"
  shows "rtc_ok fc (update_wrapper w (\<lambda>p. p\<lparr>pw_channel := Some (length (rt_channels t))\<rparr>) (t\<lparr>rt_channels := rt_channels t @ [b]\<rparr>))"
    (is "rtc_ok fc ?t")
proof -
  note D = rtc_okD [OF ok]
  have wr: "pw_peerId (rt_wrappers ?t ! v) = pw_peerId (rt_wrappers t ! v)" "pw_bound (rt_wrappers ?t ! v) = pw_bound (rt_wrappers t ! v)"
    "pw_listening (rt_wrappers ?t ! v) = pw_listening (rt_wrappers t ! v)"
    "pw_channel (rt_wrappers ?t ! v) = (if v = w then Some (length (rt_channels t)) else pw_channel (rt_wrappers t ! v))" for v
    using w(1) by (simp_all add: update_wrapper_def nth_list_update)
  have len: "length (rt_wrappers ?t) = length (rt_wrappers t)" "rt_peers ?t = rt_peers t" "rt_channels ?t = rt_channels t @ [b]"
    "rt_flowControl ?t = rt_flowControl t" by (simp_all add: update_wrapper_def)
  show ?thesis
  proof (rule rtc_okI, goal_cases)
    case (5 v c)
    with D(4) [of v c] b(1) show ?case by (auto simp: wr len nth_append split: if_splits)
  next
    case (6 c)
    have "\<exists>s' n'. channel_reachable (new_data_channel s' n' fc) (new_data_channel s n fc)" using channel_reachable.start by blast
    with 6 D(6) [of c] show ?case by (cases "c < length (rt_channels t)") (simp_all add: len nth_append b(2))
  next
    case (7 c)
    show ?case
    proof (cases "c = length (rt_channels t)")
      case True
      with D(3) [OF w] show ?thesis by (auto simp: len wr b(1))
    next
      case False
      with 7 have c: "c < length (rt_channels t)" "dc_listening (bc_channel (rt_channels t ! c))" by (auto simp: len nth_append)
      with D(5) obtain v where v: "jm_get (rt_peers t) (bc_peerId (rt_channels t ! c)) = Some v" "pw_channel (rt_wrappers t ! v) = Some c" by blast
      with c(2) old have "v \<noteq> w" by blast
      with v c(1) show ?thesis by (intro exI [of _ v]) (simp add: len wr nth_append)
    qed
  qed (use D(1-3,7,8) in \<open>simp_all add: wr len\<close>)
qed

lemma wrapper_attachChannel_ok:
  assumes ok: "rtc_ok fc t" and w: "w < length (rt_wrappers t)" "pw_bound (rt_wrappers t ! w)"
  shows "rtc_ok fc (fst (wrapper_attachChannel w s n t))"
proof -
  define t1 where "t1 = (case pw_channel (rt_wrappers t ! w) of None \<Rightarrow> t | Some previous \<Rightarrow> update_channel previous retire_channel t)"
  have t1: "rtc_ok fc t1" "rt_wrappers t1 = rt_wrappers t"
    "\<And>c. pw_channel (rt_wrappers t1 ! w) = Some c \<Longrightarrow> \<not> dc_listening (bc_channel (rt_channels t1 ! c))"
    using update_channel_ok [OF ok, of _ retire_channel] rtc_okD(4) [OF ok w(1)] ok
    by (auto simp: t1_def retire_reachable split: option.split)
  have "fst (wrapper_attachChannel w s n t) = update_wrapper w (\<lambda>p. p\<lparr>pw_channel := Some (length (rt_channels t1))\<rparr>)
      (t1\<lparr>rt_channels := rt_channels t1 @ [\<lparr>bc_peerId = pw_peerId (rt_wrappers t1 ! w), bc_bound = pw_bound (rt_wrappers t1 ! w),
        bc_channel = new_data_channel s n (rt_flowControl t1)\<rparr>]\<rparr>)"
    by (simp add: wrapper_attachChannel_def t1_def Let_def)
  also have "rtc_ok fc \<dots>" using append_channel_ok [OF t1(1) _ _ t1(3)] w rtc_okD(8) [OF t1(1)] by (simp add: t1(2))
  finally show ?thesis .
qed

lemma ensurePeer_effect:
  assumes ok: "rtc_ok fc t" and e: "ensurePeer p connection t = (t', r)"
  shows "rtc_ok fc t' \<and> rt_events t' = rt_events t \<and> rt_channels t' = rt_channels t \<and> rt_listening t' = rt_listening t \<and>
    (\<forall>w. r = Inr w \<longrightarrow> jm_get (rt_peers t') p = Some w)"
proof (cases "jm_get (rt_peers t) p")
  case (Some w)
  with e ok show ?thesis by (auto simp: ensurePeer_def)
next
  case None
  note D = rtc_okD [OF ok]
  obtain t1 r1 where c: "(case connection of Some k \<Rightarrow> (t, Inr k) | None \<Rightarrow> createPeerConnection p t) = (t1, r1)" by fastforce
  then obtain ks where t1: "t1 = t\<lparr>rt_connections := ks\<rparr>"
    by (auto simp: createPeerConnection_def new_connection_of_def split: option.splits)
      (metis rtc.surjective rtc.update_convs(3))+
  show ?thesis
  proof (cases r1)
    case (Inl err)
    with e c None ok show ?thesis by (auto simp: ensurePeer_def t1)
  next
    case (Inr k)
    let ?w = "length (rt_wrappers t)"
    let ?t = "t1\<lparr>rt_wrappers := rt_wrappers t @ [new_wrapper p k], rt_peers := jm_set p ?w (rt_peers t)\<rparr>"
    have t': "t' = ?t" "r = Inr ?w" using e c None Inr by (auto simp: ensurePeer_def t1 Let_def)
    have "rtc_ok fc ?t"
    proof (rule rtc_okI, goal_cases)
      case (3 q w)
      with D(1) [of q w] show ?case by (auto simp: t1 new_wrapper_def nth_append split: if_splits)
    next
      case (4 w)
      with D(2,3) [of w] None show ?case by (auto simp: t1 new_wrapper_def nth_append less_Suc_eq)
    next
      case (5 w c)
      with D(4) [of w c] show ?case by (auto simp: t1 new_wrapper_def nth_append less_Suc_eq)
    next
      case (7 c)
      then obtain w where "jm_get (rt_peers t) (bc_peerId (rt_channels t ! c)) = Some w" "pw_channel (rt_wrappers t ! w) = Some c"
        using D(5) by (auto simp: t1)
      with D(1) None show ?case by (auto simp: t1 nth_append intro!: exI [of _ w])
    qed (use D(6-8) in \<open>auto simp: t1\<close>)
    then show ?thesis by (simp add: t' t1)
  qed
qed

lemma wrapper_close_ok:
  assumes ok: "rtc_ok fc t" and w: "w < length (rt_wrappers t)"
  shows "rtc_ok fc (wrapper_close w t)"
proof -
  define p where "p = rt_wrappers t ! w"
  define t1 where "t1 = (case pw_channel p of None \<Rightarrow> t | Some c \<Rightarrow> update_channel c channel_dispose t)"
  have t1: "rtc_ok fc t1" "rt_wrappers t1 = rt_wrappers t" "rt_peers t1 = rt_peers t"
    "\<And>c. pw_channel p = Some c \<Longrightarrow> \<not> dc_listening (bc_channel (rt_channels t1 ! c))"
    using update_channel_ok [OF ok, of _ channel_dispose] rtc_okD(4) [OF ok w] ok
    by (auto simp: t1_def p_def dispose_reachable split: option.split)
  note D = rtc_okD [OF t1(1)]
  define t2 where "t2 = t1\<lparr>rt_wrappers := (rt_wrappers t)[w := p\<lparr>pw_listening := False, pw_bound := False, pw_forwards := 0\<rparr>],
    rt_peers := if pw_bound p then jm_delete (pw_peerId p) (rt_peers t) else rt_peers t\<rparr>"
  have eq: "wrapper_close w t = t2\<lparr>rt_connections := rt_connections (wrapper_close w t)\<rparr>"
  proof -
    let ?r = "let t2 = call_connection (pw_connection p) Rc_Close (update_wrapper w (\<lambda>p. p\<lparr>pw_listening := False\<rparr>) t1);
        t3 = (if pw_bound p then t2\<lparr>rt_peers := jm_delete (pw_peerId p) (rt_peers t2)\<rparr> else t2)
      in update_wrapper w (\<lambda>p. p\<lparr>pw_bound := False, pw_forwards := 0\<rparr>) t3"
    have r: "wrapper_close w t = ?r" by (simp only: wrapper_close_def t1_def p_def Let_def)
    have "?r = t2\<lparr>rt_connections := rt_connections ?r\<rparr>" using w
      by (cases "pw_bound p") (simp_all add: t2_def update_wrapper_def call_connection_def Let_def t1(2,3) flip: p_def)
    then show ?thesis unfolding r .
  qed
  have "rtc_ok fc t2"
  proof (rule rtc_okI, goal_cases)
    case (3 q v)
    then have v: "jm_get (rt_peers t1) q = Some v" "pw_bound p \<longrightarrow> q \<noteq> pw_peerId p" by (auto simp: t2_def t1(3) split: if_splits)
    with D(1) have "v < length (rt_wrappers t) \<and> pw_peerId (rt_wrappers t ! v) = q \<and> pw_bound (rt_wrappers t ! v)" by (simp add: t1(2))
    moreover from this v(2) have "v \<noteq> w" by (auto simp: p_def)
    ultimately show ?case by (simp add: t2_def)
  next
    case (4 v)
    with D(2,3) [of v] D(3) [of w] w show ?case by (cases "v = w") (auto simp: t2_def t1 p_def)
  next
    case (5 v c)
    with D(4) [of v c] show ?case by (cases "v = w") (auto simp: t2_def t1(2) p_def)
  next
    case (7 c)
    then have c: "c < length (rt_channels t1)" "dc_listening (bc_channel (rt_channels t1 ! c))" by (auto simp: t2_def)
    then obtain v where v: "jm_get (rt_peers t1) (bc_peerId (rt_channels t1 ! c)) = Some v" "pw_channel (rt_wrappers t1 ! v) = Some c"
      using D(5) by blast
    have vw: "v \<noteq> w" using v(2) c(2) t1(2,4) by (auto simp: p_def)
    moreover have "pw_bound p \<longrightarrow> bc_peerId (rt_channels t1 ! c) \<noteq> pw_peerId p"
      using D(3) [of w] w v(1) vw by (auto simp: t1 p_def)
    ultimately show ?case using v by (intro exI [of _ v]) (auto simp: t2_def t1)
  qed (use D(6-8) in \<open>auto simp: t2_def t1\<close>)
  then show ?thesis by (subst eq) simp
qed

lemma wrapper_close_sel:
  assumes "w < length (rt_wrappers t)"
  shows "length (rt_wrappers (wrapper_close w t)) = length (rt_wrappers t)"
    "pw_bound (rt_wrappers (wrapper_close w t) ! v) = (v \<noteq> w \<and> pw_bound (rt_wrappers t ! v))"
    "rt_events (wrapper_close w t) = rt_events t"
  using assms by (auto simp: wrapper_close_def update_wrapper_def call_connection_def update_channel_def Let_def nth_list_update split: option.split)

lemma close_all_ok:
  "rtc_ok fc t \<Longrightarrow> \<forall>w \<in> set ws. w < length (rt_wrappers t) \<Longrightarrow>
   rtc_ok fc (fold wrapper_close ws t) \<and> length (rt_wrappers (fold wrapper_close ws t)) = length (rt_wrappers t) \<and>
   rt_events (fold wrapper_close ws t) = rt_events t \<and>
   (\<forall>v. pw_bound (rt_wrappers (fold wrapper_close ws t) ! v) \<longleftrightarrow> v \<notin> set ws \<and> pw_bound (rt_wrappers t ! v))"
proof (induction ws arbitrary: t)
  case (Cons w ws)
  then have w: "w < length (rt_wrappers t)" by simp
  have "rtc_ok fc (wrapper_close w t)" using Cons.prems(1) w by (rule wrapper_close_ok)
  from Cons.IH [OF this] Cons.prems(2) show ?case by (auto simp: wrapper_close_sel [OF w])
qed simp

lemma rtc_close_ok:
  assumes ok: "rtc_ok fc t"
  shows "rtc_ok fc (rtc_close peerId t) \<and> rt_events (rtc_close peerId t) = rt_events t"
proof (cases "truthy peerId")
  case True
  let ?p = "the peerId"
  define t1 where "t1 = (case jm_get (rt_peers t) ?p of None \<Rightarrow> t | Some w \<Rightarrow> wrapper_close w t)"
  have t1: "rtc_ok fc t1 \<and> rt_events t1 = rt_events t \<and> jm_get (rt_peers t1) ?p = None"
  proof (cases "jm_get (rt_peers t) ?p")
    case (Some w)
    with rtc_okD(1) [OF ok] have w: "w < length (rt_wrappers t)" "pw_peerId (rt_wrappers t ! w) = ?p" "pw_bound (rt_wrappers t ! w)" by auto
    then have "jm_get (rt_peers (wrapper_close w t)) ?p = None"
      by (simp add: wrapper_close_def update_wrapper_def call_connection_def Let_def)
    with Some w show ?thesis by (simp add: t1_def wrapper_close_ok [OF ok] wrapper_close_sel)
  qed (simp add: t1_def ok)
  then have "jm_delete ?p (rt_peers t1) = rt_peers t1" by (simp add: jm_get_None_iff)
  then have "rtc_close peerId t = t1" using True by (simp add: rtc_close_def rtc_close_peer_def t1_def Let_def)
  with t1 show ?thesis by simp
next
  case False
  define t1 where "t1 = fold wrapper_close (map snd (rt_peers t)) t"
  have mem: "w \<in> set (map snd (rt_peers t)) \<longleftrightarrow> (\<exists>p. jm_get (rt_peers t) p = Some w)" for w
    using jm_get_in_set [OF rtc_okD(7) [OF ok]] by force
  then have lt: "\<forall>w \<in> set (map snd (rt_peers t)). w < length (rt_wrappers t)" using rtc_okD(1) [OF ok] by blast
  note c = close_all_ok [OF ok lt, folded t1_def]
  have "\<not> pw_bound (rt_wrappers t1 ! w)" if "w < length (rt_wrappers t1)" for w
  proof
    assume b: "pw_bound (rt_wrappers t1 ! w)"
    with c have "pw_bound (rt_wrappers t ! w)" "w \<notin> set (map snd (rt_peers t))" by auto
    with rtc_okD(3) [OF ok, of w] that c mem show False by auto
  qed
  then have "jm_get (rt_peers t1) p = None" for p using rtc_okD(1) [of fc t1 p] c by (cases "jm_get (rt_peers t1) p") auto
  from this [of "fst (hd (rt_peers t1))"] have "rt_peers t1 = []" by (cases "rt_peers t1") auto
  then have "rtc_close peerId t = t1\<lparr>rt_listening := False\<rparr>" using False by (simp add: rtc_close_def flip: t1_def)
  with c show ?thesis by simp
qed

text \<open>A disposed channel emits nothing.\<close>

lemma silent_frame [simp]:
  "\<not> dc_listening c \<Longrightarrow> channel_emit ev c = c" "dc_events (settle_promise n ok c) = dc_events c" "dc_events (rejectDrainWaiters c) = dc_events c"
  by (simp_all add: channel_emit_def settle_promise_def rejectDrainWaiters_def split: option.split prod.split hand_phase.split)

lemma silent_drain: "\<not> dc_listening c \<Longrightarrow> dc_events (drain_next c) = dc_events c"
  by (auto simp: drain_next_def waitForWritable_def split: list.split)

lemma reject_events [simp]: "dc_events (rejectPendingSends c) = dc_events c"
  by (simp add: rejectPendingSends_def reject_sends_effect Let_def)

lemma channel_step_silent: "channel_step c c' \<Longrightarrow> \<not> dc_listening c \<Longrightarrow> dc_events c' = dc_events c"
proof (induction rule: channel_step.induct)
  case (send bytes c payload)
  then show ?case by (auto simp: enqueueSend_def pumpSends_def Let_def intro!: silent_drain [THEN trans])
next
  case (hand accepted c c')
  then show ?case by (auto simp: hand_turn_def finish_send_def split: option.splits prod.splits hand_phase.splits if_splits
      intro!: silent_drain [THEN trans])
qed (simp_all add: channel_dispose_def)

lemma retired_events [simp]: "dc_events (retire_channel c) = dc_events c" "dc_events (channel_dispose c) = dc_events c"
  by (simp_all add: retire_channel_def channel_dispose_def)

section \<open>The properties\<close>

text \<open>What a step adds to the events.\<close>

definition events_from_peers :: "rtc \<Rightarrow> rtc \<Rightarrow> bool" where
  "events_from_peers t t' \<longleftrightarrow>
     (\<exists>evs. rt_events t' = rt_events t @ evs \<and> (\<forall>e \<in> set evs. jm_get (rt_peers t) (event_peer e) \<noteq> None))"

lemma no_events: "rt_events t' = rt_events t \<Longrightarrow> events_from_peers t t'"
  by (simp add: events_from_peers_def)

lemma attach_events [simp]: "rt_events (fst (wrapper_attachChannel w s n t)) = rt_events t"
  by (simp add: wrapper_attachChannel_def update_wrapper_def update_channel_def Let_def split: option.split)

lemma on_channel_events:
  assumes ok: "rtc_ok fc t" and c: "c < length (rt_channels t)" and st: "channel_step (bc_channel (rt_channels t ! c)) (f (bc_channel (rt_channels t ! c)))"
  shows "events_from_peers t (on_channel json c f t)"
proof (cases "dc_listening (bc_channel (rt_channels t ! c))")
  case True
  with rtc_okD(5) [OF ok c] have "jm_get (rt_peers t) (bc_peerId (rt_channels t ! c)) \<noteq> None" by auto
  with on_channel_shape [of json c f t] show ?thesis
    by (auto simp: events_from_peers_def) (metis (no_types, lifting) rtc.select_convs(8) rtc.surjective rtc.update_convs(8))
next
  case False
  from channel_step_silent [OF st this] on_channel_shape [of json c f t] show ?thesis
    by (intro no_events) (metis (no_types, lifting) append_Nil2 rtc.select_convs(8) rtc.surjective rtc.update_convs(8))
qed

lemma rtc_step_ok:
  assumes "rtc_step json t t'" and ok: "rtc_ok fc t"
  shows "rtc_ok fc t' \<and> events_from_peers t t'"
  using assms(1)
proof cases
  case (new_connection sdp)
  with ok show ?thesis by (simp add: new_connection_of_def no_events)
next
  case (ensure connection peerId)
  obtain t1 r where e: "ensurePeer peerId connection t = (t1, r)" by fastforce
  from ensurePeer_effect [OF ok e] ensure e show ?thesis by (simp add: no_events)
next
  case (connect peerId)
  obtain t1 r where e: "ensurePeer peerId None t = (t1, r)" by fastforce
  from ensurePeer_effect [OF ok e] connect e show ?thesis by (simp add: rtc_connect_def no_events split: sum.split)
next
  case (attach connection peerId state buffered)
  obtain t1 r where e: "ensurePeer peerId connection t = (t1, r)" by fastforce
  note eff = ensurePeer_effect [OF ok e]
  show ?thesis
  proof (cases r)
    case (Inr w)
    with eff rtc_okD(1) [of fc t1 peerId w] have w: "w < length (rt_wrappers t1)" "pw_bound (rt_wrappers t1 ! w)" by auto
    have t': "t' = fst (wrapper_attachChannel w state buffered t1)"
      using attach e Inr by (cases "wrapper_attachChannel w state buffered t1") (simp add: rtc_attachChannel_def)
    from wrapper_attachChannel_ok [OF _ w] eff show ?thesis unfolding t' by (simp add: no_events)
  qed (use eff attach e in \<open>simp add: rtc_attachChannel_def no_events\<close>)
next
  case (create peerId w)
  then have "rtc_ok fc (call_connection k Rc_CreateDataChannel t)" for k using ok by simp
  from wrapper_attachChannel_ok [OF this] create rtc_okD(1) [OF ok] show ?thesis
    by (auto simp: wrapper_createDataChannel_def call_connection_def no_events)
next
  case (send bytes peerId payload)
  show ?thesis
  proof (cases "requireChannel peerId t")
    case (Inr c)
    then have "c < length (rt_channels t)"
      using rtc_okD(1,4) [OF ok] by (auto simp: requireChannel_def split: option.splits)
    moreover have "channel_step (bc_channel (rt_channels t ! c)) (enqueueSend payload bytes (bc_channel (rt_channels t ! c)))"
      using send(2) by (rule channel_step.send)
    ultimately show ?thesis using on_channel_ok [OF ok] on_channel_events [OF ok] send(1) Inr by (simp add: rtc_send_def)
  qed (use send(1) ok in \<open>simp add: rtc_send_def no_events\<close>)
next
  case (channel c dc)
  then show ?thesis using on_channel_ok [OF ok] on_channel_events [OF ok] by simp
next
  case (peer_state w state)
  then show ?thesis using ok rtc_okD(3) [OF ok, of w]
    by (auto simp: handleConnectionState_def events_from_peers_def rtc_emit_def Let_def)
next
  case (data_channel w state buffered)
  then show ?thesis using ok wrapper_attachChannel_ok [OF ok, of w] rtc_okD(2) [OF ok, of w] by (simp add: handleDataChannel_def no_events)
next
  case (close peerId)
  with rtc_close_ok [OF ok] show ?thesis by (simp add: no_events)
qed

lemma rtc_reachable_ok: "rtc_reachable json fc factory t \<Longrightarrow> rtc_ok fc t"
proof (induction rule: rtc_reachable.induct)
  case start
  show ?case by (simp add: rtc_ok_def new_rtc_def)
qed (use rtc_step_ok in blast)

text \<open>
  C12. Whatever connections, channels and peers come and go: a channel whose events are still heard is the current channel of the wrapper that its peer has in
  the transport, so each peer has at most one; and each channel, current or not, keeps its queue of sends within its capacity, with every byte
  accounted for.
\<close>

theorem transport_one_channel_per_peer:
  assumes "rtc_reachable json fc factory t" and "c < length (rt_channels t)"
  shows "(dc_listening (bc_channel (rt_channels t ! c)) \<longrightarrow>
      (\<exists>w. jm_get (rt_peers t) (bc_peerId (rt_channels t ! c)) = Some w \<and> w < length (rt_wrappers t) \<and>
        pw_peerId (rt_wrappers t ! w) = bc_peerId (rt_channels t ! c) \<and> pw_channel (rt_wrappers t ! w) = Some c)) \<and>
    (\<forall>d < length (rt_channels t). d \<noteq> c \<and> bc_peerId (rt_channels t ! d) = bc_peerId (rt_channels t ! c) \<longrightarrow>
      \<not> (dc_listening (bc_channel (rt_channels t ! c)) \<and> dc_listening (bc_channel (rt_channels t ! d)))) \<and>
    dc_pendingSendBytes (bc_channel (rt_channels t ! c)) = sum_list (map qs_bytes (send_queue (bc_channel (rt_channels t ! c)))) \<and>
    dc_pendingSendBytes (bc_channel (rt_channels t ! c)) \<le> send_capacity (bc_channel (rt_channels t ! c))"
proof -
  note ok = rtc_reachable_ok [OF assms(1)]
  obtain s n where "channel_reachable (new_data_channel s n fc) (bc_channel (rt_channels t ! c))" using rtc_okD(6) [OF ok assms(2)] by blast
  then have "channel_ok (bc_channel (rt_channels t ! c))" using channel_reachable_ok new_channel_ok by blast
  then have "dc_pendingSendBytes (bc_channel (rt_channels t ! c)) = sum_list (map qs_bytes (send_queue (bc_channel (rt_channels t ! c)))) \<and>
    dc_pendingSendBytes (bc_channel (rt_channels t ! c)) \<le> send_capacity (bc_channel (rt_channels t ! c))"
    by (auto simp: channel_ok_def accounts_def)
  moreover have "d = c" if "d < length (rt_channels t)" "bc_peerId (rt_channels t ! d) = bc_peerId (rt_channels t ! c)"
    "dc_listening (bc_channel (rt_channels t ! c))" "dc_listening (bc_channel (rt_channels t ! d))" for d
    using rtc_okD(5) [OF ok assms(2) that(3)] rtc_okD(5) [OF ok that(1,4)] that(2) by auto
  ultimately show ?thesis using rtc_okD(1,5) [OF ok] assms(2) by blast
qed

text \<open>
  Every event that the transport hands to its listeners carries the name of a peer that is registered at that moment: nothing is heard of a
  peer that was closed, nor from a channel that was replaced.
\<close>

theorem transport_events_registered:
  assumes "rtc_reachable json fc factory t" and "rtc_step json t t'"
  shows "\<exists>evs. rt_events t' = rt_events t @ evs \<and> (\<forall>e \<in> set evs. jm_get (rt_peers t) (event_peer e) \<noteq> None)"
  using rtc_step_ok [OF assms(2) rtc_reachable_ok [OF assms(1)]] by (simp add: events_from_peers_def)

text \<open>The peer \<open>a\<close> gets a channel, then another.\<close>

definition example_rtc :: rtc where
  "example_rtc = fst (rtc_attachChannel ''a'' None Ch_Open 0
     (fst (rtc_attachChannel ''a'' None Ch_Open 0 (new_rtc DEFAULT_FLOW_CONTROL_PROFILE (Some True)))))"

lemma example_rtc_reachable: "rtc_reachable json DEFAULT_FLOW_CONTROL_PROFILE (Some True) example_rtc"
  unfolding example_rtc_def
  by (intro rtc_reachable.step [OF _ rtc_step.attach] rtc_reachable.start) simp_all

lemma example_rtc_shape:
  "length (rt_channels example_rtc) = 2" "rt_peers example_rtc = [(''a'', 0)]"
  "dc_listening (bc_channel (rt_channels example_rtc ! 1))" "\<not> dc_listening (bc_channel (rt_channels example_rtc ! 0))"
  "bc_peerId (rt_channels example_rtc ! 0) = ''a''" "bc_peerId (rt_channels example_rtc ! 1) = ''a''"
  by (simp_all add: example_rtc_def rtc_attachChannel_def ensurePeer_def createPeerConnection_def new_connection_of_def new_wrapper_def
      wrapper_attachChannel_def update_wrapper_def update_channel_def new_rtc_def new_data_channel_def Let_def)

theorem transport_one_channel_per_peer_witness:
  "(\<exists>w. jm_get (rt_peers example_rtc) ''a'' = Some w \<and> pw_channel (rt_wrappers example_rtc ! w) = Some 1) \<and>
   \<not> dc_listening (bc_channel (rt_channels example_rtc ! 0))"
proof -
  have "1 < length (rt_channels example_rtc)" by (simp add: example_rtc_shape)
  from transport_one_channel_per_peer [OF example_rtc_reachable this] show ?thesis
    using example_rtc_shape by auto
qed

theorem transport_events_registered_witness:
  "\<exists>evs. rt_events (on_channel (\<lambda>_. None) 1 (\<lambda>_. handleError (bc_channel (rt_channels example_rtc ! 1))) example_rtc) = rt_events example_rtc @ evs \<and>
     (\<forall>e \<in> set evs. event_peer e = ''a'')"
proof -
  have "rtc_step (\<lambda>_. None) example_rtc (on_channel (\<lambda>_. None) 1 (\<lambda>_. handleError (bc_channel (rt_channels example_rtc ! 1))) example_rtc)"
    by (intro rtc_step.channel channel_step.error) (simp_all add: example_rtc_shape example_rtc_shape(3) [unfolded One_nat_def])
  from transport_events_registered [OF example_rtc_reachable this] show ?thesis
    by (simp add: example_rtc_shape) (metis option.distinct(1))
qed

end
