(* ===== verification/Signaling_Bridge.thy ===== *)
theory Signaling_Bridge
  imports Rtc_Transport Signaling_Protocol
begin

text \<open>
  \<open>SignalingBridge\<close> of \<open>packages/webrtc/src/index.ts\<close>: offers, answers and ICE candidates between the signaling relay and the
  connections of a transport. What a connection promises is pending as a task; the outcome of a task is chosen by the platform. What
  is relayed is recorded; \<open>sendRelay\<close> may throw.
\<close>

section \<open>State\<close>

record relay_message =
  rl_type :: string
  rl_to :: string
  rl_payload :: js_value

text \<open>The promise a continuation of the bridge waits for, with the peer, the connection and what is to be relayed.\<close>

datatype bridge_task =
    Bt_Offer string nat
  | Bt_OfferLocal string js_value
  | Bt_Remote string nat
  | Bt_Answer string nat
  | Bt_AnswerLocal string js_value
  | Bt_AnswerRemote string
  | Bt_Candidate string

text \<open>
  \<open>br_listeners\<close> counts the listeners on the relay, \<open>br_unsubscribe\<close> says whether the bridge holds a way to remove one; \<open>br_offers\<close> is how the
  calls of \<open>initiateOffer\<close> ended.
\<close>

record bridge =
  br_rtc :: rtc
  br_selfPeerId :: string
  br_listeners :: nat
  br_unsubscribe :: bool
  br_tasks :: "bridge_task list"
  br_relayed :: "relay_message list"
  br_offers :: "(string \<times> (string + unit)) list"

definition new_bridge :: "rtc \<Rightarrow> string \<Rightarrow> bridge" where
  "new_bridge t self = \<lparr>br_rtc = t, br_selfPeerId = self, br_listeners = 0, br_unsubscribe = False, br_tasks = [], br_relayed = [],
     br_offers = []\<rparr>"

definition bridge_start :: "bridge \<Rightarrow> bridge" where
  "bridge_start b = b\<lparr>br_listeners := br_listeners b + 1, br_unsubscribe := True\<rparr>"

definition bridge_stop :: "bridge \<Rightarrow> bridge" where
  "bridge_stop b = b\<lparr>br_listeners := (if br_unsubscribe b then br_listeners b - 1 else br_listeners b), br_unsubscribe := False\<rparr>"

definition on_rtc :: "(rtc \<Rightarrow> rtc) \<Rightarrow> bridge \<Rightarrow> bridge" where
  "on_rtc f b = b\<lparr>br_rtc := f (br_rtc b)\<rparr>"

definition add_task :: "bridge_task \<Rightarrow> bridge \<Rightarrow> bridge" where
  "add_task k b = b\<lparr>br_tasks := br_tasks b @ [k]\<rparr>"

section \<open>Operations\<close>

definition forwardIceCandidates :: "nat \<Rightarrow> rtc \<Rightarrow> rtc" where
  "forwardIceCandidates w = update_wrapper w (\<lambda>p. p\<lparr>pw_forwards := pw_forwards p + 1\<rparr>)"

text \<open>A new connection of the bridge, offered to the transport for a peer.\<close>

definition join_peer :: "string \<Rightarrow> rtc \<Rightarrow> rtc \<times> nat \<times> nat option" where
  "join_peer peerId t =
     (case new_connection_of True t of (t1, k) \<Rightarrow>
        (case ensurePeer peerId (Some k) t1 of
           (t2, Inl _) \<Rightarrow> (t2, k, None)
         | (t2, Inr w) \<Rightarrow> (forwardIceCandidates w t2, k, Some w)))"

definition initiateOffer :: "string \<Rightarrow> bridge \<Rightarrow> bridge" where
  "initiateOffer remotePeerId b =
     (case join_peer remotePeerId (br_rtc b) of
        (t, k, None) \<Rightarrow> b\<lparr>br_rtc := t\<rparr>
      | (t, k, Some w) \<Rightarrow>
          add_task (Bt_Offer remotePeerId k)
            (b\<lparr>br_rtc := call_connection k Rc_CreateOffer (fst (wrapper_createDataChannel w t))\<rparr>))"

definition getConnection :: "nat option \<Rightarrow> rtc \<Rightarrow> nat option" where
  "getConnection peer t =
     (case peer of
        None \<Rightarrow> None
      | Some w \<Rightarrow> let k = pw_connection (rt_wrappers t ! w) in if rc_sdp (rt_connections t ! k) then Some k else None)"

definition handleSignal :: "string \<Rightarrow> string \<Rightarrow> js_value \<Rightarrow> bridge \<Rightarrow> bridge" where
  "handleSignal type fromPeerId payload b =
     (if fromPeerId = br_selfPeerId b then b
      else if type = ''ICE_CANDIDATE'' then
        (let peer = jm_get (rt_peers (br_rtc b)) fromPeerId;
             candidate = jfield payload ''candidate''
         in if peer \<noteq> None \<and> truthy_value candidate then
              (case getConnection peer (br_rtc b) of
                 None \<Rightarrow> b
               | Some k \<Rightarrow> add_task (Bt_Candidate fromPeerId) (on_rtc (call_connection k (Rc_AddIce candidate)) b))
            else b)
      else if type = ''WEBRTC_OFFER'' then
        (case join_peer fromPeerId (br_rtc b) of
           (t, k, None) \<Rightarrow> b\<lparr>br_rtc := t\<rparr>
         | (t, k, Some w) \<Rightarrow>
             add_task (Bt_Remote fromPeerId k) (b\<lparr>br_rtc := call_connection k (Rc_SetRemote (jfield payload ''sdp'')) t\<rparr>))
      else if type = ''WEBRTC_ANSWER'' then
        (case getConnection (jm_get (rt_peers (br_rtc b)) fromPeerId) (br_rtc b) of
           None \<Rightarrow> b
         | Some k \<Rightarrow> add_task (Bt_AnswerRemote fromPeerId) (on_rtc (call_connection k (Rc_SetRemote (jfield payload ''sdp''))) b))
      else b)"

text \<open>A message of the relay reaches every listener.\<close>

definition bridge_message :: "string \<Rightarrow> string \<Rightarrow> js_value \<Rightarrow> bridge \<Rightarrow> bridge" where
  "bridge_message type fromPeerId payload b = (handleSignal type fromPeerId payload ^^ br_listeners b) b"

text \<open>\<open>sendRelay\<close>, which throws \<open>err\<close> or records the message.\<close>

definition sendRelay :: "string option \<Rightarrow> string \<Rightarrow> string \<Rightarrow> js_value \<Rightarrow> bridge \<Rightarrow> bridge \<times> (string + unit)" where
  "sendRelay err type peerId payload b =
     (case err of
        Some e \<Rightarrow> (b, Inl e)
      | None \<Rightarrow> (b\<lparr>br_relayed := br_relayed b @ [\<lparr>rl_type = type, rl_to = peerId, rl_payload = payload\<rparr>]\<rparr>, Inr ()))"

text \<open>The continuation of a task, given how its promise settled.\<close>

fun bridge_resume :: "string option \<Rightarrow> bridge_task \<Rightarrow> string + js_value \<Rightarrow> bridge \<Rightarrow> bridge" where
  "bridge_resume err (Bt_Offer p k) (Inr offer) b = add_task (Bt_OfferLocal p offer) (on_rtc (call_connection k (Rc_SetLocal offer)) b)"
| "bridge_resume err (Bt_OfferLocal p offer) (Inr _) b =
     (case sendRelay err ''WEBRTC_OFFER'' p (JObj [(''sdp'', offer)]) b of (b1, r) \<Rightarrow> b1\<lparr>br_offers := br_offers b1 @ [(p, r)]\<rparr>)"
| "bridge_resume err (Bt_Offer p k) (Inl e) b = b\<lparr>br_offers := br_offers b @ [(p, Inl e)]\<rparr>"
| "bridge_resume err (Bt_OfferLocal p offer) (Inl e) b = b\<lparr>br_offers := br_offers b @ [(p, Inl e)]\<rparr>"
| "bridge_resume err (Bt_Remote p k) (Inr _) b = add_task (Bt_Answer p k) (on_rtc (call_connection k Rc_CreateAnswer) b)"
| "bridge_resume err (Bt_Answer p k) (Inr answer) b = add_task (Bt_AnswerLocal p answer) (on_rtc (call_connection k (Rc_SetLocal answer)) b)"
| "bridge_resume err (Bt_AnswerLocal p answer) (Inr _) b =
     (case sendRelay err ''WEBRTC_ANSWER'' p (JObj [(''sdp'', answer)]) b of
        (b1, Inl e) \<Rightarrow> on_rtc (reportError p e) b1
      | (b1, Inr _) \<Rightarrow> b1)"
| "bridge_resume err (Bt_AnswerRemote p) (Inr _) b = b"
| "bridge_resume err (Bt_Candidate p) (Inr _) b = b"
| "bridge_resume err (Bt_Remote p k) (Inl e) b = on_rtc (reportError p e) b"
| "bridge_resume err (Bt_Answer p k) (Inl e) b = on_rtc (reportError p e) b"
| "bridge_resume err (Bt_AnswerLocal p answer) (Inl e) b = on_rtc (reportError p e) b"
| "bridge_resume err (Bt_AnswerRemote p) (Inl e) b = on_rtc (reportError p e) b"
| "bridge_resume err (Bt_Candidate p) (Inl e) b = on_rtc (reportError p e) b"

definition settle_task :: "string option \<Rightarrow> nat \<Rightarrow> string + js_value \<Rightarrow> bridge \<Rightarrow> bridge" where
  "settle_task err i outcome b =
     bridge_resume err (br_tasks b ! i) outcome (b\<lparr>br_tasks := take i (br_tasks b) @ drop (Suc i) (br_tasks b)\<rparr>)"

text \<open>
  An ICE candidate of a wrapper's connection: every forwarding handler relays it, unless the relay throws at the first. The end of candidates is
  \<open>null\<close>.
\<close>

definition handleIceCandidate :: "string option \<Rightarrow> nat \<Rightarrow> js_value \<Rightarrow> bridge \<Rightarrow> bridge" where
  "handleIceCandidate err w candidate b =
     (let p = rt_wrappers (br_rtc b) ! w
      in if pw_listening p \<and> truthy_value candidate
         then ((\<lambda>b. fst (sendRelay err ''ICE_CANDIDATE'' (pw_peerId p) (JObj [(''candidate'', candidate)]) b)) ^^ pw_forwards p) b
         else b)"

section \<open>Steps\<close>

inductive bridge_step :: "(string \<Rightarrow> js_value option) \<Rightarrow> bridge \<Rightarrow> bridge \<Rightarrow> bool" for json where
  start: "bridge_step json b (bridge_start b)"
| stop: "bridge_step json b (bridge_stop b)"
| message: "bridge_step json b (bridge_message type fromPeerId payload b)"
| offer: "bridge_step json b (initiateOffer remotePeerId b)"
| settle: "i < length (br_tasks b) \<Longrightarrow> bridge_step json b (settle_task err i outcome b)"
| candidate: "w < length (rt_wrappers (br_rtc b)) \<Longrightarrow> bridge_step json b (handleIceCandidate err w candidate b)"
| transport: "rtc_step json (br_rtc b) t \<Longrightarrow> bridge_step json b (b\<lparr>br_rtc := t\<rparr>)"

inductive bridge_reachable :: "(string \<Rightarrow> js_value option) \<Rightarrow> flow_control_profile \<Rightarrow> bool option \<Rightarrow> string \<Rightarrow> bridge \<Rightarrow> bool"
  for json fc factory self where
  start: "bridge_reachable json fc factory self (new_bridge (new_rtc fc factory) self)"
| step: "bridge_reachable json fc factory self b \<Longrightarrow> bridge_step json b b' \<Longrightarrow> bridge_reachable json fc factory self b'"

section \<open>Wrappers have connections\<close>

text \<open>Which connection each wrapper has; only a new connection and a new wrapper change it.\<close>

definition rtc_links :: "rtc \<Rightarrow> nat list \<times> nat" where
  "rtc_links t = (map pw_connection (rt_wrappers t), length (rt_connections t))"

definition links_ok :: "rtc \<Rightarrow> bool" where
  "links_ok t \<longleftrightarrow> (\<forall>k \<in> set (fst (rtc_links t)). k < snd (rtc_links t))"

lemma links_same: "rtc_links t' = rtc_links t \<Longrightarrow> links_ok t \<Longrightarrow> links_ok t'"
  by (simp add: links_ok_def)

lemma update_wrapper_links: "(\<And>p. pw_connection (f p) = pw_connection p) \<Longrightarrow> rtc_links (update_wrapper w f t) = rtc_links t"
  by (cases "w < length (rt_wrappers t)") (simp_all add: rtc_links_def update_wrapper_def map_update list_update_same_conv list_update_beyond)

lemma links_frame [simp]:
  "rtc_links (call_connection k call t) = rtc_links t" "rtc_links (rtc_emit ev t) = rtc_links t" "rtc_links (reportError p e t) = rtc_links t"
  "rtc_links (update_channel c f t) = rtc_links t" "rtc_links (t\<lparr>rt_channels := cs\<rparr>) = rtc_links t" "rtc_links (t\<lparr>rt_peers := ps\<rparr>) = rtc_links t"
  "rtc_links (t\<lparr>rt_events := evs\<rparr>) = rtc_links t" "rtc_links (t\<lparr>rt_listening := l\<rparr>) = rtc_links t"
  by (simp_all add: rtc_links_def call_connection_def rtc_emit_def reportError_def update_channel_def)

lemma forward_links [simp]: "rtc_links (forwardIceCandidates w t) = rtc_links t"
  by (simp add: forwardIceCandidates_def update_wrapper_links)

lemma attach_links [simp]: "rtc_links (fst (wrapper_attachChannel w s n t)) = rtc_links t"
  by (simp add: wrapper_attachChannel_def update_wrapper_links Let_def split: option.split)

lemma close_links [simp]: "rtc_links (wrapper_close w t) = rtc_links t"
  by (simp add: wrapper_close_def update_wrapper_links Let_def split: option.split)

lemma fold_close_links [simp]: "rtc_links (fold wrapper_close ws t) = rtc_links t"
  by (induction ws arbitrary: t) simp_all

lemma on_channel_links [simp]: "rtc_links (on_channel json c f t) = rtc_links t"
  using on_channel_shape [of json c f t] by (metis links_frame(5,7))

lemma new_connection_links: "links_ok t \<Longrightarrow> links_ok (fst (new_connection_of sdp t))"
  by (auto simp: links_ok_def rtc_links_def new_connection_of_def less_Suc_eq)

lemma ensurePeer_links:
  assumes "links_ok t" and "case connection of None \<Rightarrow> True | Some k \<Rightarrow> k < length (rt_connections t)"
  shows "links_ok (fst (ensurePeer p connection t))"
  using assms
  by (auto simp: ensurePeer_def createPeerConnection_def new_connection_of_def links_ok_def rtc_links_def new_wrapper_def Let_def less_Suc_eq
      split: option.splits)

lemma rtc_step_links:
  assumes "rtc_step json t t'" and "links_ok t"
  shows "links_ok t'"
  using assms(1)
proof cases
  case (connect peerId)
  then show ?thesis using ensurePeer_links [OF assms(2), of None peerId]
    by (auto simp: rtc_connect_def split: prod.splits sum.splits)
next
  case (attach connection peerId state buffered)
  obtain t1 r where e: "ensurePeer peerId connection t = (t1, r)" by fastforce
  then have "links_ok t1" using ensurePeer_links [OF assms(2), of connection peerId] attach(2) by simp
  moreover have "rtc_links t' = rtc_links t1"
    using attach(1) e by (cases r) (simp_all add: rtc_attachChannel_def case_prod_unfold)
  ultimately show ?thesis by (rule links_same [rotated])
next
  case (create peerId w)
  then show ?thesis using assms(2) by (simp add: wrapper_createDataChannel_def links_ok_def)
next
  case (send bytes peerId payload)
  then show ?thesis using assms(2) by (cases "requireChannel peerId t") (simp_all add: rtc_send_def links_ok_def)
next
  case (peer_state w state)
  then show ?thesis using assms(2) by (simp add: handleConnectionState_def links_ok_def Let_def)
next
  case (data_channel w state buffered)
  then show ?thesis using assms(2) by (simp add: handleDataChannel_def links_ok_def)
next
  case (close peerId)
  then show ?thesis using assms(2) by (simp add: rtc_close_def rtc_close_peer_def links_ok_def Let_def split: option.split)
qed (use assms(2) ensurePeer_links new_connection_links in \<open>simp_all add: links_ok_def\<close>)

section \<open>The transport of a bridge\<close>

definition bridge_ok :: "flow_control_profile \<Rightarrow> bridge \<Rightarrow> bool" where
  "bridge_ok fc b \<longleftrightarrow> rtc_ok fc (br_rtc b) \<and> links_ok (br_rtc b)"

lemma bridge_ok_frame [simp]:
  "bridge_ok fc (b\<lparr>br_tasks := ts\<rparr>) = bridge_ok fc b" "bridge_ok fc (b\<lparr>br_relayed := rs\<rparr>) = bridge_ok fc b"
  "bridge_ok fc (b\<lparr>br_offers := os\<rparr>) = bridge_ok fc b" "bridge_ok fc (add_task k b) = bridge_ok fc b"
  "bridge_ok fc (on_rtc (call_connection c call) b) = bridge_ok fc b" "bridge_ok fc (on_rtc (reportError p e) b) = bridge_ok fc b"
  "bridge_ok fc (fst (sendRelay err type p payload b)) = bridge_ok fc b"
  by (simp_all add: bridge_ok_def add_task_def on_rtc_def links_ok_def sendRelay_def reportError_def split: option.split)

lemma forward_ok: "rtc_ok fc t \<Longrightarrow> rtc_ok fc (forwardIceCandidates w t)"
proof (cases "w < length (rt_wrappers t)")
  case True
  assume ok: "rtc_ok fc t"
  note D = rtc_okD [OF ok]
  have w: "pw_peerId (rt_wrappers (forwardIceCandidates w t) ! v) = pw_peerId (rt_wrappers t ! v)"
    "pw_bound (rt_wrappers (forwardIceCandidates w t) ! v) = pw_bound (rt_wrappers t ! v)"
    "pw_listening (rt_wrappers (forwardIceCandidates w t) ! v) = pw_listening (rt_wrappers t ! v)"
    "pw_channel (rt_wrappers (forwardIceCandidates w t) ! v) = pw_channel (rt_wrappers t ! v)" for v
    using True by (simp_all add: forwardIceCandidates_def update_wrapper_def nth_list_update)
  show ?thesis
    by (rule rtc_okI) (use D in \<open>simp_all add: w\<close>, simp_all add: forwardIceCandidates_def update_wrapper_def)
qed (simp add: forwardIceCandidates_def update_wrapper_def list_update_beyond)

lemma join_peer_effect:
  assumes ok: "rtc_ok fc t" "links_ok t" and j: "join_peer p t = (t', k, r)"
  obtains w where "r = Some w" "k = length (rt_connections t)" "rtc_ok fc t'" "links_ok t'" "jm_get (rt_peers t') p = Some w"
    "rt_connections t' = rt_connections t @ [\<lparr>rc_sdp = True, rc_calls = []\<rparr>]" "rt_events t' = rt_events t"
    "pw_connection (rt_wrappers t' ! w) = k \<longleftrightarrow> jm_get (rt_peers t) p = None"
    "pw_forwards (rt_wrappers t' ! w) = (case jm_get (rt_peers t) p of None \<Rightarrow> 1 | Some v \<Rightarrow> pw_forwards (rt_wrappers t ! v) + 1)"
proof -
  define t1 where "t1 = fst (new_connection_of True t)"
  have t1: "t1 = t\<lparr>rt_connections := rt_connections t @ [\<lparr>rc_sdp = True, rc_calls = []\<rparr>]\<rparr>" by (simp add: t1_def new_connection_of_def)
  let ?k = "length (rt_connections t)"
  have ok1: "rtc_ok fc t1" "links_ok t1" using ok new_connection_links [OF ok(2), of True] by (simp_all add: t1_def new_connection_of_def)
  obtain t2 r2 where e: "ensurePeer p (Some ?k) t1 = (t2, r2)" by fastforce
  note eff = ensurePeer_effect [OF ok1(1) e]
  have "links_ok t2" using ensurePeer_links [OF ok1(2), of "Some ?k" p] e by (simp add: t1)
  obtain w where r2: "r2 = Inr w" and conn: "rt_connections t2 = rt_connections t1"
    and fresh: "jm_get (rt_peers t) p = None \<Longrightarrow> w = length (rt_wrappers t) \<and> rt_wrappers t2 = rt_wrappers t @ [new_wrapper p ?k]"
    and known: "\<And>v. jm_get (rt_peers t) p = Some v \<Longrightarrow> w = v \<and> t2 = t1"
    using e by (cases "jm_get (rt_peers t) p") (auto simp: ensurePeer_def t1 Let_def)
  have t': "t' = forwardIceCandidates w t2" "k = ?k" "r = Some w"
    using j e r2 by (auto simp: join_peer_def new_connection_of_def t1)
  have wl: "w < length (rt_wrappers t2)" using eff rtc_okD(1) [of fc t2 p w] r2 by auto
  have pw: "pw_connection (rt_wrappers t2 ! w) = ?k \<longleftrightarrow> jm_get (rt_peers t) p = None"
  proof (cases "jm_get (rt_peers t) p")
    case None
    with fresh show ?thesis by (simp add: new_wrapper_def)
  next
    case (Some v)
    with rtc_okD(1) [OF ok(1)] have "v < length (rt_wrappers t)" by blast
    with ok(2) have "pw_connection (rt_wrappers t ! v) < ?k" by (simp add: links_ok_def rtc_links_def)
    with Some known show ?thesis by (simp add: t1)
  qed
  have fw: "pw_forwards (rt_wrappers t2 ! w) = (case jm_get (rt_peers t) p of None \<Rightarrow> 0 | Some v \<Rightarrow> pw_forwards (rt_wrappers t ! v))"
    using fresh known by (cases "jm_get (rt_peers t) p") (auto simp: new_wrapper_def t1)
  show ?thesis
  proof (rule that [OF t'(3,2)])
    show "rtc_ok fc t'" unfolding t' using eff forward_ok by blast
    show "links_ok t'" unfolding t' using \<open>links_ok t2\<close> by (simp add: links_ok_def)
    show "jm_get (rt_peers t') p = Some w" using eff r2 by (simp add: t' forwardIceCandidates_def update_wrapper_def)
    show "rt_connections t' = rt_connections t @ [\<lparr>rc_sdp = True, rc_calls = []\<rparr>]"
      by (simp add: t' forwardIceCandidates_def update_wrapper_def conn) (simp add: t1)
    show "rt_events t' = rt_events t" using eff by (simp add: t' forwardIceCandidates_def update_wrapper_def) (simp add: t1)
    show "pw_connection (rt_wrappers t' ! w) = k \<longleftrightarrow> jm_get (rt_peers t) p = None"
      using pw wl by (simp add: t' forwardIceCandidates_def update_wrapper_def)
    show "pw_forwards (rt_wrappers t' ! w) = (case jm_get (rt_peers t) p of None \<Rightarrow> 1 | Some v \<Rightarrow> pw_forwards (rt_wrappers t ! v) + 1)"
      using fw wl by (simp add: t' forwardIceCandidates_def update_wrapper_def split: option.split)
  qed
qed

lemma initiateOffer_ok: "bridge_ok fc b \<Longrightarrow> bridge_ok fc (initiateOffer p b)"
proof -
  assume ok: "bridge_ok fc b"
  obtain t k r where j: "join_peer p (br_rtc b) = (t, k, r)" by (metis prod_cases3)
  obtain w where w: "r = Some w" "rtc_ok fc t" "links_ok t" "jm_get (rt_peers t) p = Some w"
    using join_peer_effect [OF _ _ j] ok unfolding bridge_ok_def by metis
  then have "rtc_step (\<lambda>_. None) t (fst (wrapper_createDataChannel w t))" by (intro rtc_step.create)
  then have "rtc_ok fc (fst (wrapper_createDataChannel w t)) \<and> links_ok (fst (wrapper_createDataChannel w t))"
    using rtc_step_ok rtc_step_links w by blast
  with j w(1) show ?thesis by (simp add: initiateOffer_def add_task_def bridge_ok_def links_ok_def)
qed

lemma handleSignal_ok: "bridge_ok fc b \<Longrightarrow> bridge_ok fc (handleSignal type p payload b)"
proof -
  assume ok: "bridge_ok fc b"
  obtain t k r where j: "join_peer p (br_rtc b) = (t, k, r)" by (metis prod_cases3)
  obtain w where w: "r = Some w" "rtc_ok fc t" "links_ok t"
    using join_peer_effect [OF _ _ j] ok unfolding bridge_ok_def by metis
  have offer: "bridge_ok fc (case join_peer p (br_rtc b) of (t, k, None) \<Rightarrow> b\<lparr>br_rtc := t\<rparr>
      | (t, k, Some w) \<Rightarrow> add_task (Bt_Remote p k) (b\<lparr>br_rtc := call_connection k (Rc_SetRemote (jfield payload ''sdp'')) t\<rparr>))"
    unfolding j using w by (simp add: add_task_def bridge_ok_def links_ok_def)
  show ?thesis unfolding handleSignal_def using ok offer by (simp add: Let_def split: option.split)
qed

lemma funpow_keeps: "(\<And>x. P x \<Longrightarrow> P (f x)) \<Longrightarrow> P x \<Longrightarrow> P ((f ^^ n) x)"
  by (induction n) auto

lemma resume_peers_ok: "bridge_ok fc b \<Longrightarrow> bridge_ok fc (bridge_resume err k outcome b)"
  by (cases "(err, k, outcome, b)" rule: bridge_resume.cases) (auto simp: sendRelay_def split: option.split)

lemma bridge_step_ok: "bridge_step json b b' \<Longrightarrow> bridge_ok fc b \<Longrightarrow> bridge_ok fc b'"
proof (induction rule: bridge_step.induct)
  case (message b type p payload)
  then show ?case unfolding bridge_message_def by (intro funpow_keeps [where P = "bridge_ok fc"] handleSignal_ok)
next
  case (settle i b err outcome)
  then show ?case by (simp add: settle_task_def resume_peers_ok)
next
  case (candidate w b err candidate)
  then show ?case by (simp add: handleIceCandidate_def Let_def funpow_keeps [where P = "bridge_ok fc"])
next
  case (transport b t)
  then show ?case using rtc_step_ok rtc_step_links by (auto simp: bridge_ok_def)
qed (simp_all add: initiateOffer_ok, simp_all add: bridge_start_def bridge_stop_def bridge_ok_def)

lemma bridge_reachable_ok: "bridge_reachable json fc factory self b \<Longrightarrow> bridge_ok fc b"
proof (induction rule: bridge_reachable.induct)
  case start
  show ?case by (simp add: bridge_ok_def new_bridge_def rtc_ok_def links_ok_def rtc_links_def new_rtc_def)
qed (use bridge_step_ok in blast)

section \<open>Answering an offer\<close>

text \<open>An offer, and the three promises of its answer settling in order.\<close>

definition answer_offer :: "string \<Rightarrow> js_value \<Rightarrow> js_value \<Rightarrow> bridge \<Rightarrow> bridge" where
  "answer_offer p payload answer b =
     (let i = length (br_tasks b)
      in settle_task None i (Inr JUndef) (settle_task None i (Inr answer) (settle_task None i (Inr JUndef)
           (handleSignal ''WEBRTC_OFFER'' p payload b))))"

lemma settle_last: "settle_task err (length ts) outcome (b\<lparr>br_tasks := ts @ [k]\<rparr>) = bridge_resume err k outcome (b\<lparr>br_tasks := ts\<rparr>)"
  by (simp add: settle_task_def)

text \<open>
  C20. An offer of another peer is answered: when the connection accepts it, the answer goes to that peer and to nobody else, and the
  connection that made it has been given the offer and the answer in this order. That connection is the transport's connection to the peer
  exactly when the peer was not known before; for a known peer the transport keeps its old connection, which takes no part in the exchange, and
  relays every ICE candidate once more from then on.
\<close>

theorem offers_are_answered:
  assumes "bridge_reachable json fc factory self b" and "p \<noteq> br_selfPeerId b" and "b' = answer_offer p payload answer b"
    and "k = length (rt_connections (br_rtc b))"
  shows "br_tasks b' = br_tasks b \<and>
    br_relayed b' = br_relayed b @ [\<lparr>rl_type = ''WEBRTC_ANSWER'', rl_to = p, rl_payload = JObj [(''sdp'', answer)]\<rparr>] \<and>
    rt_connections (br_rtc b') = rt_connections (br_rtc b) @
      [\<lparr>rc_sdp = True, rc_calls = [Rc_SetRemote (jfield payload ''sdp''), Rc_CreateAnswer, Rc_SetLocal answer]\<rparr>] \<and>
    (\<exists>w. jm_get (rt_peers (br_rtc b')) p = Some w \<and>
      (pw_connection (rt_wrappers (br_rtc b') ! w) = k \<longleftrightarrow> jm_get (rt_peers (br_rtc b)) p = None) \<and>
      pw_forwards (rt_wrappers (br_rtc b') ! w) =
        (case jm_get (rt_peers (br_rtc b)) p of None \<Rightarrow> 1 | Some v \<Rightarrow> pw_forwards (rt_wrappers (br_rtc b) ! v) + 1))"
proof -
  have ok: "rtc_ok fc (br_rtc b)" "links_ok (br_rtc b)" using bridge_reachable_ok [OF assms(1)] by (simp_all add: bridge_ok_def)
  obtain t k' r where j: "join_peer p (br_rtc b) = (t, k', r)" by (metis prod_cases3)
  from join_peer_effect [OF ok j] obtain w where w: "r = Some w" "k' = k" "jm_get (rt_peers t) p = Some w"
    "rt_connections t = rt_connections (br_rtc b) @ [\<lparr>rc_sdp = True, rc_calls = []\<rparr>]"
    "pw_connection (rt_wrappers t ! w) = k \<longleftrightarrow> jm_get (rt_peers (br_rtc b)) p = None"
    "pw_forwards (rt_wrappers t ! w) = (case jm_get (rt_peers (br_rtc b)) p of None \<Rightarrow> 1 | Some v \<Rightarrow> pw_forwards (rt_wrappers (br_rtc b) ! v) + 1)"
    using assms(4) by metis
  have s: "handleSignal ''WEBRTC_OFFER'' p payload b =
      b\<lparr>br_rtc := call_connection k (Rc_SetRemote (jfield payload ''sdp'')) t, br_tasks := br_tasks b @ [Bt_Remote p k]\<rparr>"
    using assms(2) j w(1,2) by (simp add: handleSignal_def add_task_def)
  have "b' = b\<lparr>br_rtc := call_connection k (Rc_SetLocal answer) (call_connection k Rc_CreateAnswer (call_connection k (Rc_SetRemote (jfield payload ''sdp'')) t)),
      br_relayed := br_relayed b @ [\<lparr>rl_type = ''WEBRTC_ANSWER'', rl_to = p, rl_payload = JObj [(''sdp'', answer)]\<rparr>]\<rparr>"
    unfolding assms(3) answer_offer_def s by (simp add: settle_task_def add_task_def on_rtc_def sendRelay_def Let_def)
  with w assms(4) show ?thesis by (simp add: call_connection_def)
qed

definition example_bridge :: bridge where
  "example_bridge = handleSignal ''WEBRTC_OFFER'' ''a'' (JObj [(''sdp'', JStr ''first'')])
     (new_bridge (new_rtc DEFAULT_FLOW_CONTROL_PROFILE None) ''me'')"

lemma example_bridge_reachable: "bridge_reachable json DEFAULT_FLOW_CONTROL_PROFILE None ''me'' example_bridge"
proof -
  let ?b = "new_bridge (new_rtc DEFAULT_FLOW_CONTROL_PROFILE None) ''me''"
  have "bridge_reachable json DEFAULT_FLOW_CONTROL_PROFILE None ''me'' (bridge_message ''WEBRTC_OFFER'' ''a'' (JObj [(''sdp'', JStr ''first'')]) (bridge_start ?b))"
    by (intro bridge_reachable.step [OF _ bridge_step.message] bridge_reachable.step [OF _ bridge_step.start] bridge_reachable.start)
  then have "bridge_reachable json DEFAULT_FLOW_CONTROL_PROFILE None ''me'' (bridge_stop (bridge_message ''WEBRTC_OFFER'' ''a'' (JObj [(''sdp'', JStr ''first'')]) (bridge_start ?b)))"
    by (rule bridge_reachable.step [OF _ bridge_step.stop])
  moreover have "bridge_stop (bridge_message ''WEBRTC_OFFER'' ''a'' (JObj [(''sdp'', JStr ''first'')]) (bridge_start ?b)) = example_bridge"
    by (simp add: bridge_stop_def bridge_message_def bridge_start_def example_bridge_def new_bridge_def handleSignal_def join_peer_def
        new_connection_of_def ensurePeer_def new_rtc_def add_task_def Let_def)
  ultimately show ?thesis by simp
qed

text \<open>The second offer of \<open>a\<close> is answered by a connection that is not the transport's.\<close>

theorem offers_are_answered_witness:
  "\<exists>w. jm_get (rt_peers (br_rtc (answer_offer ''a'' (JObj [(''sdp'', JStr ''second'')]) (JStr ''answer'') example_bridge))) ''a'' = Some w \<and>
     pw_connection (rt_wrappers (br_rtc (answer_offer ''a'' (JObj [(''sdp'', JStr ''second'')]) (JStr ''answer'') example_bridge)) ! w) \<noteq> 1"
proof -
  have e: "br_selfPeerId example_bridge = ''me''" "jm_get (rt_peers (br_rtc example_bridge)) ''a'' = Some 0"
    "length (rt_connections (br_rtc example_bridge)) = 1"
    by (simp_all add: example_bridge_def handleSignal_def join_peer_def new_connection_of_def ensurePeer_def new_bridge_def new_rtc_def
        add_task_def forwardIceCandidates_def update_wrapper_def call_connection_def Let_def)
  have "''a'' \<noteq> br_selfPeerId example_bridge" by (simp add: e)
  from offers_are_answered [OF example_bridge_reachable this refl e(3) [symmetric]] show ?thesis using e(2) by auto
qed

end
