(* ===== verification/Web_Socket_Frames.thy ===== *)
theory Web_Socket_Frames
  imports Piece_Layout
begin

unbundle bit_operations_syntax

text \<open>
  The WebSocket frame codec, which the repository has twice: \<open>createFrameHeader\<close> and \<open>readFrame\<close> of
  \<open>packages/signaling/src/server.ts\<close>, \<open>encodeFrame\<close> and \<open>parseFrames\<close> of
  \<open>packages/cli/src/node-websocket-transport.ts\<close>. The specification is the wire format of RFC 6455.
\<close>

section \<open>Numbers in a buffer\<close>

definition writeUInt16BE :: "nat \<Rightarrow> bytes" where
  "writeUInt16BE n = [of_nat (n div 256), of_nat (n mod 256)]"

fun big_endian :: "nat \<Rightarrow> nat \<Rightarrow> bytes" where
  "big_endian 0 n = []"
| "big_endian (Suc k) n = big_endian k (n div 256) @ [of_nat (n mod 256)]"

definition writeBigUInt64BE :: "nat \<Rightarrow> bytes" where
  "writeBigUInt64BE n = big_endian 8 n"

definition read_big_endian :: "bytes \<Rightarrow> nat" where
  "read_big_endian bs = foldl (\<lambda>n b. n * 256 + unat b) 0 bs"

definition readUInt16BE :: "bytes \<Rightarrow> nat \<Rightarrow> nat" where
  "readUInt16BE buffer offset = read_big_endian (take 2 (drop offset buffer))"

definition readBigUInt64BE :: "bytes \<Rightarrow> nat \<Rightarrow> nat" where
  "readBigUInt64BE buffer offset = read_big_endian (take 8 (drop offset buffer))"

section \<open>Frames\<close>

datatype frame_error = Frame_Too_Large

record ws_frame =
  wf_fin :: bool
  wf_opcode :: byte
  wf_payload :: bytes

definition MAX_FRAME_PAYLOAD_BYTES :: nat where
  "MAX_FRAME_PAYLOAD_BYTES = 16 * 1024 * 1024"

definition max_safe_length :: nat where
  "max_safe_length = 2 ^ 53 - 1"

text \<open>The header of a frame that is final and not masked.\<close>

definition createFrameHeader :: "nat \<Rightarrow> byte \<Rightarrow> bytes" where
  "createFrameHeader len opcode =
     (if len < 126 then [0x80 OR opcode, of_nat len]
      else if len \<le> 0xffff then [0x80 OR opcode, 126] @ writeUInt16BE len
      else [0x80 OR opcode, 127] @ writeBigUInt64BE len)"

definition encodeFrame :: "byte \<Rightarrow> bytes \<Rightarrow> bytes" where
  "encodeFrame opcode payload =
     (let len = length payload;
          header = (if len < 126 then [0x80 OR opcode, of_nat len]
                    else if len \<le> 0xffff then [0x80 OR opcode, 126] @ writeUInt16BE len
                    else [0x80 OR opcode, 127] @ writeBigUInt64BE len)
      in header @ payload)"

text \<open>
  The length a header announces and the bytes it takes, without the mask. Both decoders read it this way; they differ in the limit of the
  64-bit form. \<open>None\<close> means that bytes are missing.
\<close>

definition frame_length :: "nat \<Rightarrow> bytes \<Rightarrow> frame_error + (nat \<times> nat) option" where
  "frame_length limit buffer =
     (let len = unat (buffer ! 1 AND 0x7f)
      in if len = 126
         then (if length buffer < 4 then Inr None else Inr (Some (readUInt16BE buffer 2, 4)))
         else if len = 127
         then (if length buffer < 10 then Inr None
               else let big = readBigUInt64BE buffer 2
                    in if limit < big then Inl Frame_Too_Large else Inr (Some (big, 10)))
         else Inr (Some (len, 2)))"

definition frame_masked :: "bytes \<Rightarrow> bool" where
  "frame_masked buffer \<longleftrightarrow> buffer ! 1 AND 0x80 \<noteq> 0"

definition apply_mask :: "bytes \<Rightarrow> bytes \<Rightarrow> bytes" where
  "apply_mask key payload = map (\<lambda>(i, b). b XOR key ! (i mod 4)) (enumerate 0 payload)"

text \<open>\<open>readFrame\<close> is called with two bytes at least.\<close>

definition readFrame :: "bytes \<Rightarrow> frame_error + (byte \<times> bytes \<times> nat) option" where
  "readFrame buffer =
     bind_result (frame_length max_safe_length buffer) (\<lambda>r.
       case r of
         None \<Rightarrow> Inr None
       | Some (len, maskOffset) \<Rightarrow>
           let opcode = buffer ! 0 AND 0x0f;
               masked = frame_masked buffer;
               offset = (if masked then maskOffset + 4 else maskOffset)
           in if length buffer < offset + len then Inr None
              else let payload = take len (drop offset buffer);
                       payload' = (if masked then apply_mask (take 4 (drop maskOffset buffer)) payload else payload)
                   in Inr (Some (opcode, payload', offset + len)))"

function (sequential) parseFrames :: "bytes \<Rightarrow> frame_error + ws_frame list \<times> bytes" where
  "parseFrames buffer =
     (if length buffer < 2 then Inr ([], buffer)
      else case frame_length MAX_FRAME_PAYLOAD_BYTES buffer of
          Inl e \<Rightarrow> Inl e
        | Inr None \<Rightarrow> Inr ([], buffer)
        | Inr (Some (len, headerLength)) \<Rightarrow>
            if MAX_FRAME_PAYLOAD_BYTES < len then Inl Frame_Too_Large
            else
              let masked = frame_masked buffer;
                  maskLength = (if masked then 4 else 0);
                  frameEnd = headerLength + maskLength + len
              in if length buffer < frameEnd then Inr ([], buffer)
                 else
                   let raw = take len (drop (headerLength + maskLength) buffer);
                       payload = (if masked then apply_mask (take 4 (drop headerLength buffer)) raw else raw);
                       frame = \<lparr>wf_fin = (buffer ! 0 AND 0x80 \<noteq> 0), wf_opcode = buffer ! 0 AND 0x0f, wf_payload = payload\<rparr>
                   in bind_result (parseFrames (drop frameEnd buffer)) (\<lambda>(frames, remaining). Inr (frame # frames, remaining)))"
  by pat_completeness auto

lemma frame_length_header: "frame_length limit buffer = Inr (Some (len, h)) \<Longrightarrow> 2 \<le> h"
  by (auto simp: frame_length_def Let_def split: if_splits)

termination parseFrames
  by (relation "measure length") (auto dest: frame_length_header)

declare parseFrames.simps [simp del]

section \<open>The wire format\<close>

text \<open>A frame as RFC 6455 writes it, with any final flag and an optional mask.\<close>

definition wire_first :: "bool \<Rightarrow> byte \<Rightarrow> byte" where
  "wire_first fin opcode = (if fin then 0x80 OR opcode else opcode)"

definition wire_length :: "bool \<Rightarrow> nat \<Rightarrow> bytes" where
  "wire_length masked len =
     (let m = (if masked then 0x80 else 0 :: byte)
      in if len < 126 then [m OR of_nat len]
         else if len \<le> 0xffff then (m OR 126) # writeUInt16BE len
         else (m OR 127) # writeBigUInt64BE len)"

definition wire_frame :: "bytes option \<Rightarrow> ws_frame \<Rightarrow> bytes" where
  "wire_frame key f = wire_first (wf_fin f) (wf_opcode f) # wire_length (key \<noteq> None) (length (wf_payload f)) @
     (case key of None \<Rightarrow> wf_payload f | Some m \<Rightarrow> m @ apply_mask m (wf_payload f))"

definition mask_ok :: "bytes option \<Rightarrow> bool" where
  "mask_ok key \<longleftrightarrow> (case key of None \<Rightarrow> True | Some m \<Rightarrow> length m = 4)"

definition frame_ok :: "ws_frame \<Rightarrow> bool" where
  "frame_ok f \<longleftrightarrow> unat (wf_opcode f) < 16 \<and> length (wf_payload f) \<le> MAX_FRAME_PAYLOAD_BYTES"

lemma encodeFrame_wire: "encodeFrame opcode payload = wire_frame None \<lparr>wf_fin = True, wf_opcode = opcode, wf_payload = payload\<rparr>"
  by (simp add: encodeFrame_def wire_frame_def wire_first_def wire_length_def Let_def)

lemma createFrameHeader_wire:
  "createFrameHeader (length payload) opcode @ payload = wire_frame None \<lparr>wf_fin = True, wf_opcode = opcode, wf_payload = payload\<rparr>"
  by (simp add: createFrameHeader_def wire_frame_def wire_first_def wire_length_def Let_def)

section \<open>Reading what was written\<close>

lemma length_big_endian [simp]: "length (big_endian k n) = k"
  by (induction k arbitrary: n) auto

lemma unat_of_byte [simp]: "n < 256 \<Longrightarrow> unat (of_nat n :: byte) = n"
  by (simp add: unat_of_nat)

lemma read_big_endian_write: "n < 256 ^ k \<Longrightarrow> read_big_endian (big_endian k n) = n"
proof (induction k arbitrary: n)
  case (Suc k)
  then have "n div 256 < 256 ^ k" by (simp add: less_mult_imp_div_less mult.commute)
  with Suc.IH have "read_big_endian (big_endian k (n div 256)) = n div 256" by blast
  then show ?case by (simp add: read_big_endian_def)
qed (simp add: read_big_endian_def)

lemma apply_mask_length [simp]: "length (apply_mask m p) = length p"
  by (simp add: apply_mask_def)

lemma apply_mask_twice [simp]: "apply_mask m (apply_mask m p) = p"
  by (rule nth_equalityI) (simp_all add: apply_mask_def nth_enumerate_eq xor.assoc)

lemma low_bits:
  fixes b :: byte
  assumes "unat b < 128"
  shows "b AND 0x7f = b" "b AND 0x80 = 0" "(0x80 OR b) AND 0x7f = b" "(0x80 OR b) AND 0x80 = 0x80"
proof -
  have "unat (take_bit 7 b) = unat b" using assms by (simp add: unsigned_take_bit_eq take_bit_nat_eq_self)
  then have "take_bit 7 b = b" by (simp add: word_unat_eq_iff)
  then show seven: "b AND 0x7f = b" by (simp add: take_bit_eq_mask mask_eq_exp_minus_1)
  then have "b AND 0x80 = (b AND 0x7f) AND 0x80" by simp
  also have "\<dots> = b AND (0x7f AND 0x80)" by (simp only: and.assoc)
  finally show "b AND 0x80 = 0" by simp
  show "(0x80 OR b) AND 0x7f = b" using seven by (simp add: bit.conj_disj_distrib2)
  show "(0x80 OR b) AND 0x80 = 0x80" by (simp add: bit.conj_disj_distrib2 and.commute)
qed

lemma nibble_bits:
  fixes b :: byte
  assumes "unat b < 16"
  shows "b AND 0x0f = b" "(0x80 OR b) AND 0x0f = b" "b AND 0x80 = 0" "(0x80 OR b) AND 0x80 = 0x80"
proof -
  have "unat (take_bit 4 b) = unat b" using assms by (simp add: unsigned_take_bit_eq take_bit_nat_eq_self)
  then have "take_bit 4 b = b" by (simp add: word_unat_eq_iff)
  then show nib: "b AND 0x0f = b" by (simp add: take_bit_eq_mask mask_eq_exp_minus_1)
  then show "(0x80 OR b) AND 0x0f = b" by (simp add: bit.conj_disj_distrib2)
  show "b AND 0x80 = 0" "(0x80 OR b) AND 0x80 = 0x80" using assms by (simp_all add: low_bits)
qed

lemma wire_first_reads [simp]:
  assumes "unat opcode < 16"
  shows "wire_first fin opcode AND 0x0f = opcode" "(wire_first fin opcode AND 0x80 \<noteq> 0) = fin"
  using assms by (simp_all add: wire_first_def nibble_bits)

text \<open>The header of a frame, followed by anything, announces the payload's length.\<close>

definition wire_header_length :: "nat \<Rightarrow> nat" where
  "wire_header_length len = (if len < 126 then 2 else if len \<le> 0xffff then 4 else 10)"

lemma frame_length_wire:
  assumes "len \<le> limit" and "len < 2 ^ 64"
  shows "frame_length limit (a # wire_length masked len @ rest) = Inr (Some (len, wire_header_length len)) \<and>
    frame_masked (a # wire_length masked len @ rest) = masked \<and> length (a # wire_length masked len) = wire_header_length len"
proof -
  have n: "unat (of_nat n :: byte) < 128" if "n < 128" for n using that by simp
  consider "len < 126" | "126 \<le> len" "len \<le> 0xffff" | "0xffff < len" by linarith
  then show ?thesis
  proof cases
    case 1
    then show ?thesis using low_bits [OF n [of len]]
      by (cases masked) (simp_all add: wire_length_def frame_length_def frame_masked_def wire_header_length_def)
  next
    case 2
    then have "read_big_endian (writeUInt16BE len) = len" by (simp add: read_big_endian_def writeUInt16BE_def)
    with 2 low_bits [OF n [of 126]] show ?thesis
      by (cases masked) (simp_all add: wire_length_def frame_length_def frame_masked_def wire_header_length_def readUInt16BE_def
        writeUInt16BE_def Let_def)
  next
    case 3
    have "read_big_endian (writeBigUInt64BE len) = len" using assms(2) by (simp add: writeBigUInt64BE_def read_big_endian_write)
    with 3 assms(1) low_bits [OF n [of 127]] show ?thesis
      by (cases masked) (simp_all add: wire_length_def frame_length_def frame_masked_def wire_header_length_def readBigUInt64BE_def
        writeBigUInt64BE_def Let_def del: big_endian.simps)
  qed
qed

lemma wire_frame_parts:
  assumes "mask_ok key"
  shows "wire_frame key f @ rest = wire_first (wf_fin f) (wf_opcode f) # wire_length (key \<noteq> None) (length (wf_payload f)) @
      (case key of None \<Rightarrow> [] | Some m \<Rightarrow> m) @ (case key of None \<Rightarrow> wf_payload f | Some m \<Rightarrow> apply_mask m (wf_payload f)) @ rest"
    and "length (wire_frame key f) = wire_header_length (length (wf_payload f)) + (if key = None then 0 else 4) + length (wf_payload f)"
proof -
  show "wire_frame key f @ rest = wire_first (wf_fin f) (wf_opcode f) # wire_length (key \<noteq> None) (length (wf_payload f)) @
      (case key of None \<Rightarrow> [] | Some m \<Rightarrow> m) @ (case key of None \<Rightarrow> wf_payload f | Some m \<Rightarrow> apply_mask m (wf_payload f)) @ rest"
    by (cases key) (simp_all add: wire_frame_def)
  have "length (wire_length m n) = wire_header_length n - 1" for m n
    by (simp add: wire_length_def wire_header_length_def writeUInt16BE_def writeBigUInt64BE_def Let_def)
  then show "length (wire_frame key f) = wire_header_length (length (wf_payload f)) + (if key = None then 0 else 4) + length (wf_payload f)"
    using assms by (cases key) (simp_all add: wire_frame_def mask_ok_def wire_header_length_def)
qed

text \<open>What both decoders find at the head of a buffer that starts with a frame.\<close>

lemma wire_frame_head:
  assumes "frame_ok f" and "mask_ok key" and "length (wf_payload f) \<le> limit" and "buffer = wire_frame key f @ rest"
  defines "h \<equiv> wire_header_length (length (wf_payload f))"
  shows "frame_length limit buffer = Inr (Some (length (wf_payload f), h))" "frame_masked buffer = (key \<noteq> None)"
    "buffer ! 0 AND 0x0f = wf_opcode f" "(buffer ! 0 AND 0x80 \<noteq> 0) = wf_fin f" "2 \<le> length buffer"
    "length (wire_frame key f) = h + (if key = None then 0 else 4) + length (wf_payload f)"
    "(if key \<noteq> None then apply_mask (take 4 (drop h buffer)) (take (length (wf_payload f)) (drop (h + (if key = None then 0 else 4)) buffer))
      else take (length (wf_payload f)) (drop (h + (if key = None then 0 else 4)) buffer)) = wf_payload f"
proof -
  define tl where "tl = (case key of None \<Rightarrow> [] | Some m \<Rightarrow> m) @ (case key of None \<Rightarrow> wf_payload f | Some m \<Rightarrow> apply_mask m (wf_payload f)) @ rest"
  define hd where "hd = wire_first (wf_fin f) (wf_opcode f) # wire_length (key \<noteq> None) (length (wf_payload f))"
  have buffer: "buffer = hd @ tl" unfolding assms(4) hd_def tl_def using wire_frame_parts(1) [OF assms(2), of f rest] by simp
  have "length (wf_payload f) < 2 ^ 64" using assms(1) by (simp add: frame_ok_def MAX_FRAME_PAYLOAD_BYTES_def)
  from frame_length_wire [OF assms(3) this, of "wire_first (wf_fin f) (wf_opcode f)" "key \<noteq> None" tl]
  have l: "frame_length limit buffer = Inr (Some (length (wf_payload f), h)) \<and> frame_masked buffer = (key \<noteq> None) \<and> length hd = h"
    by (simp add: buffer hd_def h_def)
  then show "frame_length limit buffer = Inr (Some (length (wf_payload f), h))" "frame_masked buffer = (key \<noteq> None)" by simp_all
  have op: "unat (wf_opcode f) < 16" using assms(1) by (simp add: frame_ok_def)
  show "buffer ! 0 AND 0x0f = wf_opcode f" "(buffer ! 0 AND 0x80 \<noteq> 0) = wf_fin f" using op by (simp_all add: buffer hd_def)
  show "2 \<le> length buffer" using l by (simp add: buffer h_def wire_header_length_def)
  show "length (wire_frame key f) = h + (if key = None then 0 else 4) + length (wf_payload f)"
    using wire_frame_parts(2) [OF assms(2)] by (simp add: h_def)
  show "(if key \<noteq> None then apply_mask (take 4 (drop h buffer)) (take (length (wf_payload f)) (drop (h + (if key = None then 0 else 4)) buffer))
      else take (length (wf_payload f)) (drop (h + (if key = None then 0 else 4)) buffer)) = wf_payload f"
    using l assms(2) by (cases key) (auto simp: buffer tl_def mask_ok_def)
qed

lemma parse_wire_frame:
  assumes "frame_ok f" and "mask_ok key"
  shows "parseFrames (wire_frame key f @ rest) = bind_result (parseFrames rest) (\<lambda>(frames, remaining). Inr (f # frames, remaining))"
proof -
  define buffer where "buffer = wire_frame key f @ rest"
  have len: "length (wf_payload f) \<le> MAX_FRAME_PAYLOAD_BYTES" using assms(1) by (simp add: frame_ok_def)
  note h = wire_frame_head [OF assms len buffer_def]
  have e: "length (wire_frame key f) \<le> length buffer" "drop (length (wire_frame key f)) buffer = rest" by (simp_all add: buffer_def)
  show ?thesis unfolding buffer_def [symmetric]
    using h e len by (subst parseFrames.simps) (cases key; simp add: Let_def; cases f; simp)
qed

lemma read_wire_frame:
  assumes "frame_ok f" and "mask_ok key"
  shows "readFrame (wire_frame key f @ rest) = Inr (Some (wf_opcode f, wf_payload f, length (wire_frame key f)))"
proof -
  define buffer where "buffer = wire_frame key f @ rest"
  have len: "length (wf_payload f) \<le> max_safe_length" using assms(1) by (simp add: frame_ok_def MAX_FRAME_PAYLOAD_BYTES_def max_safe_length_def)
  note h = wire_frame_head [OF assms len buffer_def]
  have e: "length (wire_frame key f) \<le> length buffer" by (simp add: buffer_def)
  show ?thesis unfolding buffer_def [symmetric] readFrame_def using h e by (cases key) (simp_all add: Let_def)
qed

text \<open>A stream may be cut anywhere: what is parsed from a prefix stays, and its remainder goes before what follows.\<close>

lemma frame_length_append:
  "2 \<le> length a \<Longrightarrow> frame_length limit a \<noteq> Inr None \<Longrightarrow> frame_length limit (a @ b) = frame_length limit a"
  by (auto simp: frame_length_def readUInt16BE_def readBigUInt64BE_def nth_append Let_def split: if_splits)

lemma parse_append:
  "(\<forall>frames remaining. parseFrames a = Inr (frames, remaining) \<longrightarrow>
      parseFrames (a @ b) = bind_result (parseFrames (remaining @ b)) (\<lambda>(more, r). Inr (frames @ more, r))) \<and>
   (\<forall>e. parseFrames a = Inl e \<longrightarrow> parseFrames (a @ b) = Inl e)"
proof (induction a rule: parseFrames.induct)
  case (1 buffer)
  have id: "bind_result (parseFrames (buffer @ b)) (\<lambda>(more, r). Inr ([] @ more, r)) = parseFrames (buffer @ b)"
    by (simp add: bind_result_def split: sum.splits)
  show ?case
  proof (cases "length buffer < 2 \<or> frame_length MAX_FRAME_PAYLOAD_BYTES buffer = Inr None")
    case True
    then have "parseFrames buffer = Inr ([], buffer)" by (auto simp: parseFrames.simps [of buffer])
    with id show ?thesis by simp
  next
    case False
    then have two: "2 \<le> length buffer" by simp
    have fl: "frame_length MAX_FRAME_PAYLOAD_BYTES (buffer @ b) = frame_length MAX_FRAME_PAYLOAD_BYTES buffer"
      using frame_length_append [OF two] False by blast
    show ?thesis
    proof (cases "frame_length MAX_FRAME_PAYLOAD_BYTES buffer")
      case (Inl e)
      with fl two show ?thesis by (simp add: parseFrames.simps [of buffer] parseFrames.simps [of "buffer @ b"])
    next
      case (Inr r)
      with False obtain len h where r: "r = Some (len, h)" by auto
      define m where "m = (if frame_masked buffer then 4 else 0 :: nat)"
      define fr where "fr = \<lparr>wf_fin = (buffer ! 0 AND 0x80 \<noteq> 0), wf_opcode = buffer ! 0 AND 0x0f, wf_payload =
        (if frame_masked buffer then apply_mask (take 4 (drop h buffer)) (take len (drop (h + m) buffer)) else take len (drop (h + m) buffer))\<rparr>"
      have step: "parseFrames buffer = (if MAX_FRAME_PAYLOAD_BYTES < len then Inl Frame_Too_Large
          else if length buffer < h + m + len then Inr ([], buffer)
          else bind_result (parseFrames (drop (h + m + len) buffer)) (\<lambda>(fs, r). Inr (fr # fs, r)))"
        using two by (simp add: parseFrames.simps [of buffer] Inr r m_def fr_def Let_def)
      have mb: "frame_masked (buffer @ b) = frame_masked buffer" "(buffer @ b) ! 0 = buffer ! 0"
        using two by (auto simp: frame_masked_def nth_append)
      have step': "parseFrames (buffer @ b) = bind_result (parseFrames (drop (h + m + len) buffer @ b)) (\<lambda>(fs, r). Inr (fr # fs, r))"
        if "\<not> MAX_FRAME_PAYLOAD_BYTES < len" "h + m + len \<le> length buffer"
        using two that fl mb by (cases "frame_masked buffer") (simp_all add: parseFrames.simps [of "buffer @ b"] Inr r m_def fr_def Let_def)
      have IH: "(\<forall>frames remaining. parseFrames (drop (h + m + len) buffer) = Inr (frames, remaining) \<longrightarrow>
          parseFrames (drop (h + m + len) buffer @ b) = bind_result (parseFrames (remaining @ b)) (\<lambda>(more, r). Inr (frames @ more, r))) \<and>
        (\<forall>e. parseFrames (drop (h + m + len) buffer) = Inl e \<longrightarrow> parseFrames (drop (h + m + len) buffer @ b) = Inl e)"
        if "\<not> MAX_FRAME_PAYLOAD_BYTES < len" "h + m + len \<le> length buffer"
        using 1 [of "Some (len, h)" "(len, h)" len h] that two False Inr r by (simp add: m_def not_less)
      show ?thesis
      proof (cases "MAX_FRAME_PAYLOAD_BYTES < len \<or> length buffer < h + m + len")
        case True
        with step id fl two show ?thesis by (auto simp: parseFrames.simps [of "buffer @ b"] Inr r)
      next
        case False
        then have ok: "\<not> MAX_FRAME_PAYLOAD_BYTES < len" "h + m + len \<le> length buffer" by auto
        show ?thesis
        proof (cases "parseFrames (drop (h + m + len) buffer)")
          case (Inl e)
          with ok IH [OF ok] step' [OF ok] show ?thesis unfolding step by simp
        next
          case (Inr x)
          obtain fs rem where x: "x = (fs, rem)" by (cases x)
          have "parseFrames (drop (h + m + len) buffer @ b) = bind_result (parseFrames (rem @ b)) (\<lambda>(more, r). Inr (fs @ more, r))"
            using IH [OF ok] Inr x by simp
          with ok step' [OF ok] Inr x show ?thesis unfolding step by (cases "parseFrames (rem @ b)") auto
        qed
      qed
    qed
  qed
qed

section \<open>Streams of frames\<close>

lemma parse_none: "parseFrames buffer = Inr ([], remaining) \<Longrightarrow> remaining = buffer"
  by (subst (asm) parseFrames.simps) (auto simp: Let_def bind_result_Inr_iff split: sum.splits option.splits if_splits)

definition wire :: "(bytes option \<times> ws_frame) list \<Rightarrow> bytes" where
  "wire fs = concat (map (\<lambda>(key, f). wire_frame key f) fs)"

lemma parse_wire:
  "\<forall>(key, f) \<in> set fs. frame_ok f \<and> mask_ok key \<Longrightarrow> parseFrames (wire fs @ rest) =
     bind_result (parseFrames rest) (\<lambda>(gs, r). Inr (map snd fs @ gs, r))"
proof (induction fs)
  case Nil
  show ?case by (simp add: wire_def bind_result_def split: sum.splits)
next
  case (Cons x fs)
  then show ?case
    by (cases x) (auto simp: wire_def parse_wire_frame bind_result_def split: sum.splits)
qed

lemma parse_nil [simp]: "parseFrames [] = Inr ([], [])"
  by (simp add: parseFrames.simps)

text \<open>What is parsed from the first part of a stream of frames: the frames that are complete, with less than one frame left.\<close>

lemma parse_cut_frame:
  assumes "frame_ok f" and "mask_ok key" and "wire_frame key f = a @ b" and "b \<noteq> []"
  shows "parseFrames a = Inr ([], a)"
proof -
  have whole: "parseFrames (a @ b) = Inr ([f], [])" using parse_wire_frame [OF assms(1,2), of "[]"] assms(3) by simp
  obtain frames remaining where a: "parseFrames a = Inr (frames, remaining)"
    using parse_append [of a b] whole by (cases "parseFrames a") auto
  then have "bind_result (parseFrames (remaining @ b)) (\<lambda>(more, r). Inr (frames @ more, r)) = Inr ([f], [])"
    using parse_append [of a b] whole by simp
  then obtain more where m: "parseFrames (remaining @ b) = Inr (more, [])" "frames @ more = [f]" by (auto simp: bind_result_Inr_iff)
  have "frames = []"
  proof (rule ccontr)
    assume "frames \<noteq> []"
    with m(2) have "more = []" by (cases frames) auto
    with m(1) parse_none have "remaining @ b = []" by blast
    with assms(4) show False by simp
  qed
  with a parse_none show ?thesis by blast
qed

lemma parse_prefix:
  assumes "\<forall>(key, f) \<in> set fs. frame_ok f \<and> mask_ok key" and "wire fs = a @ b"
  shows "\<exists>n remaining. parseFrames a = Inr (map snd (take n fs), remaining) \<and>
    (remaining = [] \<or> (\<exists>key f. (key, f) \<in> set fs \<and> length remaining < length (wire_frame key f))) \<and> (b = [] \<longrightarrow> n = length fs)"
  using assms
proof (induction fs arbitrary: a)
  case Nil
  then show ?case by (simp add: wire_def)
next
  case (Cons x fs)
  obtain key f where x: "x = (key, f)" by (cases x)
  have ok: "frame_ok f" "mask_ok key" using Cons.prems(1) by (auto simp: x)
  have w: "wire_frame key f @ wire fs = a @ b" using Cons.prems(2) by (simp add: x wire_def)
  show ?case
  proof (cases "length a < length (wire_frame key f)")
    case True
    obtain us where us: "wire_frame key f = a @ us" "us @ wire fs = b"
      using w True by (auto simp: append_eq_append_conv2)
    with True have "us \<noteq> []" by auto
    with us(1) have "parseFrames a = Inr ([], a)" using parse_cut_frame [OF ok] by blast
    moreover have "b \<noteq> []" using us(2) \<open>us \<noteq> []\<close> by auto
    ultimately show ?thesis using True by (intro exI [of _ 0] exI [of _ a]) (auto simp: x)
  next
    case False
    then obtain a' where a': "a = wire_frame key f @ a'" "wire fs = a' @ b"
      using w by (auto simp: append_eq_append_conv2)
    from Cons.IH [OF _ a'(2)] Cons.prems(1) obtain n remaining where
      IH: "parseFrames a' = Inr (map snd (take n fs), remaining)"
      "remaining = [] \<or> (\<exists>key f. (key, f) \<in> set fs \<and> length remaining < length (wire_frame key f))" "b = [] \<longrightarrow> n = length fs" by auto
    then show ?thesis
      by (intro exI [of _ "Suc n"] exI [of _ remaining]) (auto simp: a'(1) parse_wire_frame [OF ok] x)
  qed
qed

end
