(* ===== verification/Node_Transport.thy ===== *)
theory Node_Transport
  imports Web_Socket_Frames
begin

text \<open>
  The receiving side of a raw peer socket in \<open>packages/cli/src/node-websocket-transport.ts\<close>: the receive buffer, the
  reassembly of fragmented messages and the dispatch of frames, and the registry of endpoints. \<open>JSON.parse\<close> is the predicate
  \<open>json\<close> of the texts it accepts.
\<close>

section \<open>Endpoints\<close>

type_synonym endpoint_registry = "(string, string) js_map"

definition endpoint_set :: "string \<Rightarrow> string \<Rightarrow> endpoint_registry \<Rightarrow> endpoint_registry" where
  "endpoint_set peerId url reg = jm_set peerId url reg"

definition endpoint_get :: "string \<Rightarrow> endpoint_registry \<Rightarrow> string option" where
  "endpoint_get peerId reg = jm_get reg peerId"

section \<open>Receiving\<close>

definition MAX_RAW_FRAME_OVERHEAD_BYTES :: nat where
  "MAX_RAW_FRAME_OVERHEAD_BYTES = 14"

definition MAX_PENDING_RECEIVE_BYTES :: nat where
  "MAX_PENDING_RECEIVE_BYTES = MAX_FRAME_PAYLOAD_BYTES + MAX_RAW_FRAME_OVERHEAD_BYTES"

text \<open>What the handlers see, and the errors that are reported.\<close>

datatype delivery = Got_Text bytes | Got_Binary bytes | Got_Error

record raw_receiver =
  rx_pending :: bytes
  rx_fragmentedOpcode :: "byte option"
  rx_fragmentedPayload :: bytes
  rx_open :: bool
  rx_delivered :: "delivery list"

definition new_receiver :: raw_receiver where
  "new_receiver = \<lparr>rx_pending = [], rx_fragmentedOpcode = None, rx_fragmentedPayload = [], rx_open = True, rx_delivered = []\<rparr>"

definition deliver :: "delivery \<Rightarrow> raw_receiver \<Rightarrow> raw_receiver" where
  "deliver d r = r\<lparr>rx_delivered := rx_delivered r @ [d]\<rparr>"

definition dispatchText :: "(bytes \<Rightarrow> bool) \<Rightarrow> bytes \<Rightarrow> raw_receiver \<Rightarrow> raw_receiver" where
  "dispatchText json text r =
     (if json text then deliver (Got_Text text) r else (deliver Got_Error r)\<lparr>rx_open := False\<rparr>)"

definition dispatchFrame :: "(bytes \<Rightarrow> bool) \<Rightarrow> byte \<Rightarrow> bytes \<Rightarrow> raw_receiver \<Rightarrow> raw_receiver" where
  "dispatchFrame json opcode payload r =
     (if opcode = 0x8 then r\<lparr>rx_open := False\<rparr>
      else if opcode = 0x1 then dispatchText json payload r
      else if opcode = 0x2 then deliver (Got_Binary payload) r
      else r)"

text \<open>One frame of the loop over the parsed frames; the flag says that it threw.\<close>

definition take_frame :: "(bytes \<Rightarrow> bool) \<Rightarrow> ws_frame \<Rightarrow> raw_receiver \<Rightarrow> raw_receiver \<times> bool" where
  "take_frame json f r =
     (if wf_opcode f = 0x0
      then (case rx_fragmentedOpcode r of
              None \<Rightarrow> (r, True)
            | Some opcode \<Rightarrow>
                let payload = rx_fragmentedPayload r @ wf_payload f;
                    r1 = r\<lparr>rx_fragmentedPayload := payload\<rparr>
                in if MAX_FRAME_PAYLOAD_BYTES < length payload then (r1, True)
                   else if wf_fin f
                   then ((dispatchFrame json opcode payload r1)\<lparr>rx_fragmentedOpcode := None, rx_fragmentedPayload := []\<rparr>, False)
                   else (r1, False))
      else if wf_opcode f = 0x1 \<or> wf_opcode f = 0x2
      then (if rx_fragmentedOpcode r \<noteq> None then (r, True)
            else if wf_fin f then (dispatchFrame json (wf_opcode f) (wf_payload f) r, False)
            else (r\<lparr>rx_fragmentedOpcode := Some (wf_opcode f), rx_fragmentedPayload := wf_payload f\<rparr>, False))
      else (dispatchFrame json (wf_opcode f) (wf_payload f) r, False))"

fun take_frames :: "(bytes \<Rightarrow> bool) \<Rightarrow> ws_frame list \<Rightarrow> raw_receiver \<Rightarrow> raw_receiver \<times> bool" where
  "take_frames json [] r = (r, False)"
| "take_frames json (f # frames) r =
     (let (r1, threw) = take_frame json f r in if threw then (r1, True) else take_frames json frames r1)"

definition receive_failed :: "raw_receiver \<Rightarrow> raw_receiver" where
  "receive_failed r = (deliver Got_Error r)\<lparr>rx_pending := [], rx_open := False\<rparr>"

definition parsePending :: "(bytes \<Rightarrow> bool) \<Rightarrow> raw_receiver \<Rightarrow> raw_receiver" where
  "parsePending json r =
     (case parseFrames (rx_pending r) of
        Inl _ \<Rightarrow> receive_failed r
      | Inr (frames, remaining) \<Rightarrow>
          (case take_frames json frames (r\<lparr>rx_pending := remaining\<rparr>) of
             (r1, threw) \<Rightarrow> if threw then receive_failed r1 else r1))"

text \<open>A chunk of a socket that is not destroyed.\<close>

definition receive_data :: "(bytes \<Rightarrow> bool) \<Rightarrow> bytes \<Rightarrow> raw_receiver \<Rightarrow> raw_receiver" where
  "receive_data json chunk r =
     (if \<not> rx_open r then r
      else if MAX_PENDING_RECEIVE_BYTES < length (rx_pending r) \<or> MAX_PENDING_RECEIVE_BYTES - length (rx_pending r) < length chunk
      then receive_failed r
      else parsePending json (r\<lparr>rx_pending := rx_pending r @ chunk\<rparr>))"

section \<open>The cut of the stream does not matter\<close>

lemma take_frames_append:
  "take_frames json (fs @ gs) r = (let (r1, threw) = take_frames json fs r in if threw then (r1, True) else take_frames json gs r1)"
  by (induction fs arbitrary: r) (auto simp: Let_def split: prod.splits)

lemma dispatch_keeps [simp]:
  "dispatchFrame json op p (r\<lparr>rx_pending := x\<rparr>) = (dispatchFrame json op p r)\<lparr>rx_pending := x\<rparr>"
  "rx_pending (dispatchFrame json op p r) = rx_pending r"
  "rx_fragmentedOpcode (dispatchFrame json op p r) = rx_fragmentedOpcode r"
  by (simp_all add: dispatchFrame_def dispatchText_def deliver_def)

lemma take_frame_pending:
  "take_frame json f (r\<lparr>rx_pending := x\<rparr>) = (let (r1, t) = take_frame json f r in (r1\<lparr>rx_pending := x\<rparr>, t))"
proof -
  have sw: "r\<lparr>rx_pending := x, rx_fragmentedOpcode := o1, rx_fragmentedPayload := p1\<rparr> = r\<lparr>rx_fragmentedOpcode := o1, rx_fragmentedPayload := p1, rx_pending := x\<rparr>"
    "r\<lparr>rx_pending := x, rx_fragmentedPayload := p1\<rparr> = r\<lparr>rx_fragmentedPayload := p1, rx_pending := x\<rparr>" for r :: raw_receiver and o1 p1 by simp_all
  show ?thesis by (simp add: take_frame_def Let_def sw split: option.splits)
qed

lemma take_frames_pending:
  "take_frames json fs (r\<lparr>rx_pending := x\<rparr>) = (let (r1, t) = take_frames json fs r in (r1\<lparr>rx_pending := x\<rparr>, t))"
  by (induction fs arbitrary: r) (auto simp: take_frame_pending Let_def split: prod.splits)

lemma take_frames_prefix: "take_frames json (fs @ gs) r = (r2, False) \<Longrightarrow> \<exists>r1. take_frames json fs r = (r1, False) \<and> take_frames json gs r1 = (r2, False)"
  by (cases "take_frames json fs r") (auto simp: take_frames_append split: if_splits)

lemma dispatch_open: "rx_open (dispatchFrame json op p r) \<Longrightarrow> rx_open r"
  by (auto simp: dispatchFrame_def dispatchText_def deliver_def split: if_splits)

lemma take_frame_open: "take_frame json f r = (r1, t) \<Longrightarrow> rx_open r1 \<Longrightarrow> rx_open r"
  by (auto simp: take_frame_def Let_def dest!: dispatch_open split: if_splits option.splits)

lemma take_frames_open: "take_frames json fs r = (r1, t) \<Longrightarrow> rx_open r1 \<Longrightarrow> rx_open r"
  by (induction fs arbitrary: r) (auto simp: Let_def dest: take_frame_open split: prod.splits if_splits)

lemma take_frame_keeps: "rx_pending (fst (take_frame json f r)) = rx_pending r"
  by (auto simp: take_frame_def Let_def split: option.splits)

lemma take_frames_keeps: "rx_pending (fst (take_frames json fs r)) = rx_pending r"
proof (induction fs arbitrary: r)
  case (Cons f fs)
  with take_frame_keeps [of json f r] show ?case by (cases "take_frame json f r") simp
qed simp

lemma receive_chunks:
  assumes ok: "\<forall>(key, f) \<in> set fs. frame_ok f \<and> mask_ok key \<and> length (wire_frame key f) + L \<le> MAX_PENDING_RECEIVE_BYTES + 1"
    and L: "\<forall>c \<in> set (cs @ ds). length c \<le> L" "L \<le> MAX_PENDING_RECEIVE_BYTES" and all: "concat (cs @ ds) = wire fs"
    and run: "take_frames json (map snd fs) r0 = (r, False)" "rx_open r" "rx_pending r0 = []"
  shows "\<exists>n remaining r1. parseFrames (concat cs) = Inr (map snd (take n fs), remaining) \<and>
    (remaining = [] \<or> (\<exists>key f. (key, f) \<in> set fs \<and> length remaining < length (wire_frame key f))) \<and> (ds = [] \<longrightarrow> n = length fs) \<and>
    take_frames json (map snd (take n fs)) r0 = (r1, False) \<and> fold (receive_data json) cs r0 = r1\<lparr>rx_pending := remaining\<rparr>"
  using L(1) all
proof (induction cs arbitrary: ds rule: rev_induct)
  case Nil
  have ok': "\<forall>(key, f) \<in> set fs. frame_ok f \<and> mask_ok key" using ok by auto
  from Nil(2) have "ds = [] \<longrightarrow> wire fs = []" by auto
  moreover have "wire fs = [] \<longrightarrow> fs = []" by (cases fs) (auto simp: wire_def wire_frame_def)
  ultimately show ?case using run(3) by (intro exI [of _ "if ds = [] then length fs else 0"] exI [of _ "[]"] exI [of _ r0]) auto
next
  case (snoc c cs)
  have ok': "\<forall>(key, f) \<in> set fs. frame_ok f \<and> mask_ok key" using ok by auto
  have ih: "\<forall>x \<in> set (cs @ c # ds). length x \<le> L" "concat (cs @ c # ds) = wire fs" using snoc.prems by auto
  from snoc.IH [OF ih] obtain n remaining r1 where
    p: "parseFrames (concat cs) = Inr (map snd (take n fs), remaining)"
    and b: "remaining = [] \<or> (\<exists>key f. (key, f) \<in> set fs \<and> length remaining < length (wire_frame key f))"
    and t: "take_frames json (map snd (take n fs)) r0 = (r1, False)" and st: "fold (receive_data json) cs r0 = r1\<lparr>rx_pending := remaining\<rparr>"
    by blast
  have "wire fs = concat (cs @ [c]) @ concat ds" using snoc.prems(2) by simp
  from parse_prefix [OF ok' this] obtain n' remaining' where
    p': "parseFrames (concat (cs @ [c])) = Inr (map snd (take n' fs), remaining')"
    and b': "remaining' = [] \<or> (\<exists>key f. (key, f) \<in> set fs \<and> length remaining' < length (wire_frame key f))"
    and n': "concat ds = [] \<longrightarrow> n' = length fs" by blast
  have "bind_result (parseFrames (remaining @ c)) (\<lambda>(more, r). Inr (map snd (take n fs) @ more, r)) = Inr (map snd (take n' fs), remaining')"
    using parse_append [of "concat cs" c] p p' by simp
  then obtain more where m: "parseFrames (remaining @ c) = Inr (more, remaining')" "map snd (take n fs) @ more = map snd (take n' fs)"
    by (auto simp: bind_result_Inr_iff)
  have "map snd fs = map snd (take n' fs) @ map snd (drop n' fs)" by (metis append_take_drop_id map_append)
  with run(1) obtain r2 where t': "take_frames json (map snd (take n' fs)) r0 = (r2, False)" and rest: "take_frames json (map snd (drop n' fs)) r2 = (r, False)"
    using take_frames_prefix by metis
  then have t2: "take_frames json more r1 = (r2, False)"
    using take_frames_prefix [of json "map snd (take n fs)" more r0 r2] t m(2) by auto
  have "rx_open r2" using take_frames_open [OF rest run(2)] .
  then have "rx_open r1" using take_frames_open [OF t2] by simp
  moreover have "length remaining + length c \<le> MAX_PENDING_RECEIVE_BYTES"
    using b ok snoc.prems(1) L(2) by fastforce
  ultimately have "receive_data json c (r1\<lparr>rx_pending := remaining\<rparr>) = r2\<lparr>rx_pending := remaining'\<rparr>"
    using m(1) t2 by (auto simp: receive_data_def parsePending_def take_frames_pending)
  with st p' b' n' t' show ?case by (intro exI [of _ n'] exI [of _ remaining'] exI [of _ r2]) auto
qed

section \<open>Messages arrive whole\<close>

text \<open>A message as the frames of its fragments.\<close>

fun fragments :: "byte \<Rightarrow> bytes list \<Rightarrow> ws_frame list" where
  "fragments opcode [] = []"
| "fragments opcode [p] = [\<lparr>wf_fin = True, wf_opcode = opcode, wf_payload = p\<rparr>]"
| "fragments opcode (p # q # ps) = \<lparr>wf_fin = False, wf_opcode = opcode, wf_payload = p\<rparr> # fragments 0 (q # ps)"

definition message_frames :: "(byte \<times> bytes list) list \<Rightarrow> ws_frame list" where
  "message_frames msgs = concat (map (\<lambda>(opcode, ps). fragments opcode ps) msgs)"

definition message_ok :: "(bytes \<Rightarrow> bool) \<Rightarrow> byte \<times> bytes list \<Rightarrow> bool" where
  "message_ok json = (\<lambda>(opcode, ps). (opcode = 0x1 \<and> json (concat ps) \<or> opcode = 0x2) \<and> ps \<noteq> [] \<and> length (concat ps) \<le> MAX_FRAME_PAYLOAD_BYTES)"

definition received_as :: "byte \<times> bytes list \<Rightarrow> delivery" where
  "received_as = (\<lambda>(opcode, ps). if opcode = 0x1 then Got_Text (concat ps) else Got_Binary (concat ps))"

lemma take_continuation:
  "rx_fragmentedOpcode r = Some opcode \<Longrightarrow> ps \<noteq> [] \<Longrightarrow> length (rx_fragmentedPayload r @ concat ps) \<le> MAX_FRAME_PAYLOAD_BYTES \<Longrightarrow>
   message_ok json (opcode, [rx_fragmentedPayload r @ concat ps]) \<Longrightarrow>
   take_frames json (fragments 0 ps) r =
     ((deliver (received_as (opcode, [rx_fragmentedPayload r @ concat ps])) r)\<lparr>rx_fragmentedOpcode := None, rx_fragmentedPayload := []\<rparr>, False)"
proof (induction "0 :: byte" ps arbitrary: r rule: fragments.induct)
  case (2 p)
  then show ?case
    by (auto simp: take_frame_def dispatchFrame_def dispatchText_def message_ok_def received_as_def deliver_def Let_def)
next
  case (3 p q ps)
  let ?r = "r\<lparr>rx_fragmentedPayload := rx_fragmentedPayload r @ p\<rparr>"
  have "take_frame json \<lparr>wf_fin = False, wf_opcode = 0, wf_payload = p\<rparr> r = (?r, False)"
    using 3(2,4) by (simp add: take_frame_def)
  with 3(1) [of ?r] 3(2-5) show ?case by (simp add: deliver_def)
qed simp

lemma take_message:
  assumes "message_ok json m" and "rx_fragmentedOpcode r = None" and "rx_fragmentedPayload r = []"
  shows "take_frames json (fragments (fst m) (snd m)) r = (deliver (received_as m) r, False)"
proof -
  obtain opcode p ps where m: "m = (opcode, p # ps)" using assms(1) by (cases m; cases "snd m") (auto simp: message_ok_def)
  show ?thesis
  proof (cases ps)
    case Nil
    with assms m show ?thesis
      by (auto simp: take_frame_def dispatchFrame_def dispatchText_def message_ok_def received_as_def deliver_def)
  next
    case (Cons q qs)
    let ?r = "r\<lparr>rx_fragmentedOpcode := Some opcode, rx_fragmentedPayload := p\<rparr>"
    have op: "opcode = 0x1 \<or> opcode = 0x2" using assms(1) m by (auto simp: message_ok_def)
    then have t: "take_frame json \<lparr>wf_fin = False, wf_opcode = opcode, wf_payload = p\<rparr> r = (?r, False)"
      using assms(2) by (auto simp: take_frame_def)
    have "take_frames json (fragments 0 (q # qs)) ?r =
        ((deliver (received_as (opcode, [p @ concat (q # qs)])) ?r)\<lparr>rx_fragmentedOpcode := None, rx_fragmentedPayload := []\<rparr>, False)"
      using assms(1) by (subst take_continuation) (auto simp: m Cons message_ok_def)
    with t assms(2,3) show ?thesis by (simp add: m Cons received_as_def deliver_def)
  qed
qed

lemma take_messages:
  "\<forall>m \<in> set msgs. message_ok json m \<Longrightarrow> rx_fragmentedOpcode r = None \<Longrightarrow> rx_fragmentedPayload r = [] \<Longrightarrow>
   take_frames json (message_frames msgs) r = (r\<lparr>rx_delivered := rx_delivered r @ map received_as msgs\<rparr>, False)"
proof (induction msgs arbitrary: r)
  case (Cons m msgs)
  from take_message [of json m r] Cons show ?case
    by (cases m) (simp add: message_frames_def take_frames_append deliver_def)
qed (simp add: message_frames_def)

text \<open>
  Whatever the messages' fragments, the masks of the frames and the cut of the byte stream into chunks, a peer socket delivers exactly the messages that
  were sent, whole and in order, as long as a frame and a chunk fit into the receive buffer together.
\<close>

theorem raw_socket_delivers:
  assumes "\<forall>m \<in> set msgs. message_ok json m" and "map snd fs = message_frames msgs" and "concat chunks = wire fs"
    and "\<forall>(key, f) \<in> set fs. frame_ok f \<and> mask_ok key \<and> length (wire_frame key f) + L \<le> MAX_PENDING_RECEIVE_BYTES + 1"
    and "\<forall>c \<in> set chunks. length c \<le> L" and "L \<le> MAX_PENDING_RECEIVE_BYTES"
  shows "rx_delivered (fold (receive_data json) chunks new_receiver) = map received_as msgs \<and>
    rx_open (fold (receive_data json) chunks new_receiver) \<and> rx_pending (fold (receive_data json) chunks new_receiver) = []"
proof -
  define r where "r = new_receiver\<lparr>rx_delivered := map received_as msgs\<rparr>"
  have run: "take_frames json (map snd fs) new_receiver = (r, False)"
    using take_messages [OF assms(1), of new_receiver] by (simp add: assms(2) r_def new_receiver_def)
  have r: "rx_open r" "rx_pending new_receiver = []" by (simp_all add: r_def new_receiver_def)
  from receive_chunks [OF assms(4) _ assms(6) _ run r, of chunks "[]"] assms(3,5) obtain n remaining r1 where
    p: "parseFrames (concat chunks) = Inr (map snd (take n fs), remaining)" "n = length fs"
    and t: "take_frames json (map snd (take n fs)) new_receiver = (r1, False)" "fold (receive_data json) chunks new_receiver = r1\<lparr>rx_pending := remaining\<rparr>"
    by auto
  have "\<forall>(key, f) \<in> set fs. frame_ok f \<and> mask_ok key" using assms(4) by auto
  from parse_wire [OF this, of "[]"] p assms(3) have "remaining = []" by simp
  with t p(2) run show ?thesis by (simp add: r_def new_receiver_def)
qed

theorem raw_socket_delivers_witness:
  "rx_delivered (fold (receive_data (\<lambda>_. True)) [[1, 0x81, 1, 2], [3, 4, 6, 0x80, 1], [9]] new_receiver) = [Got_Text [7, 9]]"
proof -
  let ?fs = "[(Some [1, 2, 3, 4], \<lparr>wf_fin = False, wf_opcode = 1, wf_payload = [7]\<rparr>), (None, \<lparr>wf_fin = True, wf_opcode = 0, wf_payload = [9]\<rparr>)]"
  have w: "concat [[1, 0x81, 1, 2], [3, 4, 6, 0x80, 1], [9]] = wire ?fs"
    by (simp add: wire_def wire_frame_def wire_first_def wire_length_def apply_mask_def)
  have "rx_delivered (fold (receive_data (\<lambda>_. True)) [[1, 0x81, 1, 2], [3, 4, 6, 0x80, 1], [9]] new_receiver) = map received_as [(1, [[7], [9]])]"
    using raw_socket_delivers [OF _ _ w, of "[(1, [[7], [9]])]" "\<lambda>_. True" 5]
    by (simp add: message_ok_def message_frames_def frame_ok_def mask_ok_def wire_frame_def wire_first_def wire_length_def
        MAX_PENDING_RECEIVE_BYTES_def MAX_FRAME_PAYLOAD_BYTES_def)
  then show ?thesis by (simp add: received_as_def)
qed

end
