(* ===== verification/Raw_Handshake.thy ===== *)
theory Raw_Handshake
  imports Node_Transport Js_Text
begin

text \<open>
  The accepting side of \<open>packages/cli/src/node-websocket-transport.ts\<close>: \<open>handleRawSocket\<close> collects the HTTP request of a
  peer from the chunks of a TCP socket, \<open>parseRawUpgradeRequest\<close> reads it, and \<open>acceptSocketConnection\<close> starts the receiver
  with the bytes that follow. UTF-8 decoding and the query parameter \<open>from\<close> of \<open>new URL(target, host)\<close> (none when the
  constructor throws) are parameters.
\<close>

section \<open>The request\<close>

definition MAX_RAW_HANDSHAKE_BYTES :: nat where
  "MAX_RAW_HANDSHAKE_BYTES = 16 * 1024"

record request_reader =
  rr_utf8 :: "bytes \<Rightarrow> string"
  rr_from :: "string \<Rightarrow> string \<Rightarrow> string option option"

fun split_on :: "char \<Rightarrow> string \<Rightarrow> string list" where
  "split_on d [] = [[]]"
| "split_on d (c # s) =
     (if c = d then [] # split_on d s
      else (case split_on d s of [] \<Rightarrow> [[c]] | w # ws \<Rightarrow> (c # w) # ws))"

abbreviation CR :: char where
  "CR \<equiv> CHR 0x0D"

abbreviation LF :: char where
  "LF \<equiv> CHR 0x0A"

fun split_crlf :: "string \<Rightarrow> string list" where
  "split_crlf [] = [[]]"
| "split_crlf [c] = [[c]]"
| "split_crlf (c # d # s) =
     (if c = CR \<and> d = LF then [] # split_crlf s
      else (case split_crlf (d # s) of [] \<Rightarrow> [[c]] | w # ws \<Rightarrow> (c # w) # ws))"

definition set_header :: "string \<Rightarrow> (string, string) js_map \<Rightarrow> (string, string) js_map" where
  "set_header line headers =
     (if CHR '':'' \<in> set line
      then jm_set (map lower_char (js_trim (takeWhile (\<lambda>c. c \<noteq> CHR '':'') line)))
             (js_trim (tl (dropWhile (\<lambda>c. c \<noteq> CHR '':'') line))) headers
      else headers)"

definition request_target :: "string \<Rightarrow> string" where
  "request_target requestLine = (case split_on (CHR '' '') requestLine of _ # target # _ \<Rightarrow> target | _ \<Rightarrow> ''/'')"

text \<open>The peer id and the key that the request names; \<open>None\<close> when parsing throws.\<close>

definition parseRawUpgradeRequest :: "request_reader \<Rightarrow> string \<Rightarrow> (string option \<times> string option) option" where
  "parseRawUpgradeRequest rr header =
     (let ls = split_crlf header;
          headers = fold set_header (tl ls) [];
          host = (case jm_get headers ''host'' of Some h \<Rightarrow> h | None \<Rightarrow> ''127.0.0.1'') in
      case rr_from rr (request_target (hd ls)) host of
        None \<Rightarrow> None
      | Some from \<Rightarrow> Some (from, jm_get headers ''sec-websocket-key''))"

section \<open>The socket\<close>

datatype raw_socket =
    Shaking bytes
  | Destroyed
  | Refused
  | Threw
  | Receiving string string raw_receiver

definition index_of :: "bytes \<Rightarrow> bytes \<Rightarrow> nat option" where
  "index_of pat s = find (\<lambda>k. take (length pat) (drop k s) = pat) [0..<Suc (length s)]"

definition delimiter :: bytes where
  "delimiter = [13, 10, 13, 10]"

definition acceptSocketConnection :: "(bytes \<Rightarrow> bool) \<Rightarrow> string \<Rightarrow> string \<Rightarrow> bytes \<Rightarrow> raw_socket" where
  "acceptSocketConnection json from key initialData =
     (if MAX_PENDING_RECEIVE_BYTES < length initialData then Destroyed
      else let r = new_receiver\<lparr>rx_pending := initialData\<rparr> in
           Receiving from key (if initialData \<noteq> [] then parsePending json r else r))"

text \<open>An empty peer id or key is as good as none.\<close>

definition finish_handshake :: "request_reader \<Rightarrow> (bytes \<Rightarrow> bool) \<Rightarrow> bytes \<Rightarrow> nat \<Rightarrow> raw_socket" where
  "finish_handshake rr json pending headerEnd =
     (case parseRawUpgradeRequest rr (rr_utf8 rr (take headerEnd pending)) of
        None \<Rightarrow> Threw
      | Some (Some from, Some key) \<Rightarrow>
          if from = '''' \<or> key = '''' then Refused
          else acceptSocketConnection json from key (drop (headerEnd + 4) pending)
      | Some _ \<Rightarrow> Refused)"

definition onHandshakeData :: "request_reader \<Rightarrow> (bytes \<Rightarrow> bool) \<Rightarrow> bytes \<Rightarrow> bytes \<Rightarrow> raw_socket" where
  "onHandshakeData rr json chunk pending =
     (let handshakeBytes = (case index_of delimiter chunk of
              None \<Rightarrow> length pending + length chunk
            | Some d \<Rightarrow> length pending + d + 4) in
      if MAX_RAW_HANDSHAKE_BYTES < handshakeBytes \<or> MAX_PENDING_RECEIVE_BYTES < length pending \<or>
         MAX_PENDING_RECEIVE_BYTES - length pending < length chunk
      then Destroyed
      else (case index_of delimiter (pending @ chunk) of
              None \<Rightarrow> Shaking (pending @ chunk)
            | Some headerEnd \<Rightarrow> finish_handshake rr json (pending @ chunk) headerEnd))"

text \<open>A chunk of the socket: the listener of the handshake is replaced by the one of the receiver.\<close>

fun raw_data :: "request_reader \<Rightarrow> (bytes \<Rightarrow> bool) \<Rightarrow> bytes \<Rightarrow> raw_socket \<Rightarrow> raw_socket" where
  "raw_data rr json chunk (Shaking pending) = onHandshakeData rr json chunk pending"
| "raw_data rr json chunk (Receiving from key r) = Receiving from key (receive_data json chunk r)"
| "raw_data rr json chunk s = s"

text \<open>
  With TLS the HTTP server of Node reads the request; \<open>handleUpgrade\<close> gets its target, its host and its key.
\<close>

definition readPeerIdFromRequest :: "request_reader \<Rightarrow> string option \<Rightarrow> string \<Rightarrow> string option option" where
  "readPeerIdFromRequest rr host target =
     (case rr_from rr target (case host of Some h \<Rightarrow> h | None \<Rightarrow> ''127.0.0.1'') of
        None \<Rightarrow> None
      | Some None \<Rightarrow> Some None
      | Some (Some from) \<Rightarrow> Some (if from = '''' then None else Some from))"

definition handleUpgrade :: "request_reader \<Rightarrow> (bytes \<Rightarrow> bool) \<Rightarrow> string option \<Rightarrow> string \<Rightarrow> string option \<Rightarrow> raw_socket" where
  "handleUpgrade rr json host target key =
     (case readPeerIdFromRequest rr host target of
        None \<Rightarrow> Threw
      | Some from \<Rightarrow> (case (from, key) of (Some f, Some k) \<Rightarrow> acceptSocketConnection json f k [] | _ \<Rightarrow> Refused))"

text \<open>What a dialled WebSocket hands over.\<close>

datatype socket_message = Message_Text bytes | Message_Buffer bytes | Message_View bytes | Message_Blob bytes | Message_Other

definition handleWebSocketMessage :: "(bytes \<Rightarrow> bool) \<Rightarrow> socket_message \<Rightarrow> raw_receiver \<Rightarrow> raw_receiver" where
  "handleWebSocketMessage json m r =
     (case m of
        Message_Text t \<Rightarrow> dispatchText json t r
      | Message_Buffer frame \<Rightarrow> deliver (Got_Binary frame) r
      | Message_View frame \<Rightarrow> deliver (Got_Binary frame) r
      | Message_Blob frame \<Rightarrow> deliver (Got_Binary frame) r
      | Message_Other \<Rightarrow> r)"

section \<open>From the first byte to the messages\<close>

abbreviation occurs_at :: "bytes \<Rightarrow> nat \<Rightarrow> bytes \<Rightarrow> bool" where
  "occurs_at pat k s \<equiv> take (length pat) (drop k s) = pat"

lemma index_of_Some:
  "index_of pat s = Some n \<longleftrightarrow> n \<le> length s \<and> occurs_at pat n s \<and> (\<forall>k<n. \<not> occurs_at pat k s)"
    (is "_ \<longleftrightarrow> ?R")
proof -
  let ?xs = "[0..<Suc (length s)]"
  have nth: "i < Suc (length s) \<Longrightarrow> ?xs ! i = i" for i by (simp add: nth_upt del: upt_Suc)
  have "index_of pat s = Some n \<longleftrightarrow>
      (\<exists>i < Suc (length s). occurs_at pat (?xs ! i) s \<and> n = ?xs ! i \<and> (\<forall>j<i. \<not> occurs_at pat (?xs ! j) s))"
    by (simp add: index_of_def find_Some_iff del: upt_Suc)
  also have "\<dots> \<longleftrightarrow> n < Suc (length s) \<and> occurs_at pat n s \<and> (\<forall>j<n. \<not> occurs_at pat j s)"
  proof
    assume "\<exists>i < Suc (length s). occurs_at pat (?xs ! i) s \<and> n = ?xs ! i \<and> (\<forall>j<i. \<not> occurs_at pat (?xs ! j) s)"
    then obtain i where "i < Suc (length s)" "occurs_at pat i s" "n = i" "\<forall>j<i. \<not> occurs_at pat (?xs ! j) s"
      using nth by auto
    then show "n < Suc (length s) \<and> occurs_at pat n s \<and> (\<forall>j<n. \<not> occurs_at pat j s)" using nth by (simp del: upt_Suc)
  next
    assume "n < Suc (length s) \<and> occurs_at pat n s \<and> (\<forall>j<n. \<not> occurs_at pat j s)"
    then show "\<exists>i < Suc (length s). occurs_at pat (?xs ! i) s \<and> n = ?xs ! i \<and> (\<forall>j<i. \<not> occurs_at pat (?xs ! j) s)"
      using nth by (intro exI[of _ n]) (simp del: upt_Suc)
  qed
  finally show ?thesis by (simp add: less_Suc_eq_le)
qed

lemma index_of_None: "index_of pat s = None \<longleftrightarrow> (\<forall>k \<le> length s. \<not> occurs_at pat k s)"
  by (auto simp: index_of_def find_None_iff simp del: upt_Suc)

lemma occurs_append: "pat \<noteq> [] \<Longrightarrow> k + length pat \<le> length s \<Longrightarrow> occurs_at pat k (s @ t) = occurs_at pat k s"
  by simp

lemma occurs_fits:
  assumes "occurs_at pat k s" "pat \<noteq> []"
  shows "k + length pat \<le> length s"
proof -
  have "length pat = min (length s - k) (length pat)" using arg_cong[OF assms(1), of length] by simp
  moreover have "0 < length pat" using assms(2) by simp
  ultimately show ?thesis by linarith
qed


lemma delimiter_simps [simp]: "length delimiter = 4" "delimiter \<noteq> []"
  by (simp_all add: delimiter_def)

text \<open>A stream that starts with a request; the request ends where the delimiter first occurs.\<close>

definition request_ok :: "bytes \<Rightarrow> bool" where
  "request_ok header \<longleftrightarrow> index_of delimiter (header @ delimiter) = Some (length header)"

lemma request_ends:
  assumes "request_ok header" "header @ delimiter @ rest = p @ t"
  shows "index_of delimiter p = (if length header + 4 \<le> length p then Some (length header) else None)"
proof -
  have first: "\<not> occurs_at delimiter k (header @ delimiter)" if "k < length header" for k
    using assms(1) that by (simp add: request_ok_def index_of_Some)
  have same: "occurs_at delimiter k p = occurs_at delimiter k (header @ delimiter)"
    if "k + 4 \<le> length p" "k \<le> length header" for k
  proof -
    have "occurs_at delimiter k p = occurs_at delimiter k (p @ t)" using that by (simp add: occurs_append)
    also have "\<dots> = occurs_at delimiter k ((header @ delimiter) @ rest)" using assms(2) by simp
    also have "\<dots> = occurs_at delimiter k (header @ delimiter)" using that by (subst occurs_append) simp_all
    finally show ?thesis .
  qed
  have end_at: "occurs_at delimiter (length header) (header @ delimiter)" by simp
  show ?thesis
  proof (cases "length header + 4 \<le> length p")
    case True
    have "occurs_at delimiter (length header) p" using same[of "length header"] True end_at by simp
    moreover have "\<not> occurs_at delimiter k p" if "k < length header" for k
      using same[of k] first[of k] True that by simp
    ultimately show ?thesis using True by (simp add: index_of_Some)
  next
    case False
    have "\<not> occurs_at delimiter k p" for k
    proof
      assume occ: "occurs_at delimiter k p"
      then have "k + 4 \<le> length p" using occurs_fits by fastforce
      moreover from this have "k < length header" using False by linarith
      ultimately show False using occ first[of k] same[of k] by simp
    qed
    with False show ?thesis by (simp add: index_of_None)
  qed
qed

lemma accept_receives:
  assumes "length rest \<le> MAX_PENDING_RECEIVE_BYTES"
  shows "acceptSocketConnection json from key rest = Receiving from key (receive_data json rest new_receiver)"
proof -
  have "parsePending json new_receiver = new_receiver" by (simp add: parsePending_def new_receiver_def parse_nil)
  moreover have "new_receiver\<lparr>rx_pending := []\<rparr> = new_receiver" by (simp add: new_receiver_def)
  ultimately show ?thesis
    using assms by (auto simp: acceptSocketConnection_def receive_data_def Let_def) (simp_all add: new_receiver_def)
qed

lemma receiving_fold:
  "fold (raw_data rr json) cs (Receiving from key r) = Receiving from key (fold (receive_data json) cs r)"
  by (induction cs arbitrary: r) simp_all

lemma handshake_step:
  assumes "length p + length chunk \<le> MAX_RAW_HANDSHAKE_BYTES"
  shows "onHandshakeData rr json chunk p =
    (case index_of delimiter (p @ chunk) of
       None \<Rightarrow> Shaking (p @ chunk) | Some n \<Rightarrow> finish_handshake rr json (p @ chunk) n)"
proof -
  have "d + 4 \<le> length chunk" if "index_of delimiter chunk = Some d" for d
    using that occurs_fits[of delimiter d chunk] by (simp add: index_of_Some)
  moreover have "MAX_RAW_HANDSHAKE_BYTES \<le> MAX_PENDING_RECEIVE_BYTES"
    by (simp add: MAX_RAW_HANDSHAKE_BYTES_def MAX_PENDING_RECEIVE_BYTES_def MAX_FRAME_PAYLOAD_BYTES_def)
  ultimately show ?thesis
    using assms by (fastforce simp: onHandshakeData_def Let_def split: option.splits)
qed

lemma handshake_completes:
  assumes "request_ok header" "parseRawUpgradeRequest rr (rr_utf8 rr header) = Some (Some from, Some key)"
    "from \<noteq> ''''" "key \<noteq> ''''" "length header + 4 + L \<le> MAX_RAW_HANDSHAKE_BYTES"
    and "p @ concat cs = header @ delimiter @ rest" "length p < length header + 4" "\<forall>c \<in> set cs. length c \<le> L"
  shows "\<exists>rest0 cs'. fold (raw_data rr json) cs (Shaking p) =
      fold (raw_data rr json) cs' (Receiving from key (receive_data json rest0 new_receiver)) \<and>
    rest0 @ concat cs' = rest \<and> (\<forall>c \<in> set (rest0 # cs'). length c \<le> L)"
  using assms(6-8)
proof (induction cs arbitrary: p)
  case Nil
  then have "length p = length header + 4 + length rest" by simp
  with Nil show ?case by simp
next
  case (Cons c cs)
  have "header @ delimiter @ rest = (p @ c) @ concat cs" using Cons.prems(1) by simp
  note ends = request_ends[OF assms(1) this]
  have "length p + length c \<le> MAX_RAW_HANDSHAKE_BYTES" using Cons.prems(2,3) assms(5) by simp
  note step = handshake_step[OF this, of rr json]
  show ?case
  proof (cases "length header + 4 \<le> length (p @ c)")
    case False
    then have "fold (raw_data rr json) (c # cs) (Shaking p) = fold (raw_data rr json) cs (Shaking (p @ c))"
      using step ends by simp
    then show ?thesis using Cons.IH[of "p @ c"] Cons.prems False by simp
  next
    case True
    define rest0 where "rest0 = drop (length header + 4) (p @ c)"
    have "take (length header + 4) (p @ c) = take (length header + 4) ((p @ c) @ concat cs)"
      using True by (simp only: take_append) simp
    also have "\<dots> = take (length header + 4) ((header @ delimiter) @ rest)" using Cons.prems(1) by simp
    also have "\<dots> = header @ delimiter" by (subst take_append) simp
    finally have "(header @ delimiter) @ rest0 = p @ c" unfolding rest0_def by (metis append_take_drop_id)
    then have whole: "p @ c = header @ delimiter @ rest0" by simp
    have "length rest0 \<le> L" using Cons.prems(2,3) unfolding rest0_def by (simp add: le_diff_conv)
    moreover have "rest0 @ concat cs = rest"
    proof -
      have "(p @ c) @ concat cs = header @ delimiter @ rest" using Cons.prems(1) by simp
      then show ?thesis unfolding whole by simp
    qed
    moreover have "fold (raw_data rr json) (c # cs) (Shaking p) =
        fold (raw_data rr json) cs (Receiving from key (receive_data json rest0 new_receiver))"
      using step ends True assms(2-5) calculation(1)
      by (simp add: finish_handshake_def whole accept_receives MAX_PENDING_RECEIVE_BYTES_def MAX_RAW_HANDSHAKE_BYTES_def MAX_FRAME_PAYLOAD_BYTES_def)
    ultimately show ?thesis using Cons.prems(3) by (intro exI[of _ rest0] exI[of _ cs]) simp
  qed
qed


text \<open>\<open>GET /?from=a\<close> and \<open>Sec-WebSocket-Key:k1\<close>.\<close>

definition example_header :: bytes where
  "example_header =
     [71, 69, 84, 32, 47, 63, 102, 114, 111, 109, 61, 97, 13, 10,
      83, 101, 99, 45, 87, 101, 98, 83, 111, 99, 107, 101, 116, 45, 75, 101, 121, 58, 107, 49]"

definition example_reader :: request_reader where
  "example_reader =
     \<lparr>rr_utf8 = map (\<lambda>b. char_of (unat b)),
      rr_from = (\<lambda>target _. if target = ''/?from=a'' then Some (Some ''a'') else Some None)\<rparr>"

lemma example_request_ok: "request_ok example_header"
  by (simp add: request_ok_def index_of_def example_header_def delimiter_def)

lemma example_parsed: "parseRawUpgradeRequest example_reader (rr_utf8 example_reader example_header) = Some (Some ''a'', Some ''k1'')"
proof -
  have text_of: "rr_utf8 example_reader example_header = ''GET /?from=a'' @ [CR, LF] @ ''Sec-WebSocket-Key:k1''"
    by (simp add: example_reader_def example_header_def char_of_def bit_iff_odd)
  show ?thesis
    unfolding text_of
    by (simp add: parseRawUpgradeRequest_def set_header_def js_trim_def js_space_def lower_char_def request_target_def
        example_reader_def Let_def char_of_def bit_iff_odd)
qed


text \<open>
  A host header or a target that \<open>new URL\<close> refuses makes the listener throw, outside every handler: an error that nothing
  catches ends the process. Any TCP client can send one.
\<close>

lemma bad_host_throws:
  assumes "request_ok header" "parseRawUpgradeRequest rr (rr_utf8 rr header) = None" "length header + 4 \<le> MAX_RAW_HANDSHAKE_BYTES"
  shows "raw_data rr json (header @ delimiter) (Shaking []) = Threw"
  using assms request_ends[OF assms(1), of "[]" "header @ delimiter" "[]"]
  by (simp add: handshake_step finish_handshake_def)

end
