(* ===== verification/Peer_Connections.thy ===== *)
theory Peer_Connections
  imports Raw_Handshake Uri_Codec
begin

text \<open>
  \<open>NodeWebSocketTransport\<close> of \<open>packages/cli/src/node-websocket-transport.ts\<close> without the receiving side: the map of
  connections, dialling, accepting and closing, and the outbound queue of a connection, which is a chain of promises. A
  connection is a cell of a heap, so that one that was replaced in the map lives on, as in the code. A send is three turns: its
  start, the write when the chain reaches it and the continuation after its \<open>await\<close>; the write of a raw socket may have to
  wait for \<open>drain\<close>. What a socket does is chosen by the step relation.
\<close>

section \<open>State\<close>

definition MAX_OUTBOUND_QUEUE_BYTES :: nat where
  "MAX_OUTBOUND_QUEUE_BYTES = MAX_FRAME_PAYLOAD_BYTES + MAX_RAW_FRAME_OVERHEAD_BYTES"

record peer_send =
  ps_id :: nat
  ps_data :: bytes
  ps_bytes :: nat

record peer_connection =
  pc_peer :: string
  pc_raw :: bool
  pc_open :: bool
  pc_destroyed :: bool
  pc_queuedBytes :: int
  pc_pendingSends :: "(nat, nat) js_map"
  pc_queue :: "peer_send list"
  pc_writing :: "peer_send option"
  pc_settled :: "(peer_send \<times> bool) list"
  pc_handed :: "nat list"
  pc_results :: "(nat \<times> bool) list"

text \<open>
  For a raw socket \<open>pc_open\<close> is the flag of the code and \<open>pc_destroyed\<close> the socket's; for a WebSocket \<open>pc_open\<close> says that its
  ready state is open. \<open>pc_handed\<close> are the sends given to the socket, \<open>pc_results\<close> those whose promise is settled.
\<close>

record peer_transport =
  pt_selfId :: string
  pt_host :: string
  pt_registry :: endpoint_registry
  pt_endpointUrl :: "string option"
  pt_heap :: "peer_connection list"
  pt_connections :: "(string, nat) js_map"
  pt_dialing :: "(string \<times> string) list"
  pt_errors :: "string list"
  pt_nextSend :: nat

definition new_peer_transport :: "string \<Rightarrow> string \<Rightarrow> endpoint_registry \<Rightarrow> peer_transport" where
  "new_peer_transport selfId host registry =
     \<lparr>pt_selfId = selfId, pt_host = host, pt_registry = registry, pt_endpointUrl = None, pt_heap = [], pt_connections = [],
      pt_dialing = [], pt_errors = [], pt_nextSend = 0\<rparr>"

definition new_connection_cell :: "bool \<Rightarrow> string \<Rightarrow> peer_connection" where
  "new_connection_cell raw peer =
     \<lparr>pc_peer = peer, pc_raw = raw, pc_open = True, pc_destroyed = False, pc_queuedBytes = 0, pc_pendingSends = [],
      pc_queue = [], pc_writing = None, pc_settled = [], pc_handed = [], pc_results = []\<rparr>"

definition update_cell :: "nat \<Rightarrow> (peer_connection \<Rightarrow> peer_connection) \<Rightarrow> peer_transport \<Rightarrow> peer_transport" where
  "update_cell i f t = t\<lparr>pt_heap := (pt_heap t)[i := f (pt_heap t ! i)]\<rparr>"

definition report_peer_error :: "string \<Rightarrow> peer_transport \<Rightarrow> peer_transport" where
  "report_peer_error peer t = t\<lparr>pt_errors := pt_errors t @ [peer]\<rparr>"

section \<open>Connections\<close>

definition isConnectionOpen :: "peer_connection \<Rightarrow> bool" where
  "isConnectionOpen c \<longleftrightarrow> pc_open c \<and> (pc_raw c \<longrightarrow> \<not> pc_destroyed c)"

definition releaseWebSocketSend :: "nat \<Rightarrow> peer_connection \<Rightarrow> peer_connection" where
  "releaseWebSocketSend i c =
     (case jm_get (pc_pendingSends c) i of
        None \<Rightarrow> c
      | Some n \<Rightarrow> c\<lparr>pc_pendingSends := jm_delete i (pc_pendingSends c), pc_queuedBytes := pc_queuedBytes c - int n\<rparr>)"

definition releaseWebSocketQueue :: "peer_connection \<Rightarrow> peer_connection" where
  "releaseWebSocketQueue c = fold releaseWebSocketSend (jm_keys (pc_pendingSends c)) c"

definition closeConnection :: "peer_connection \<Rightarrow> peer_connection" where
  "closeConnection c =
     (if pc_raw c then c\<lparr>pc_open := False, pc_destroyed := True\<rparr>
      else (releaseWebSocketQueue c)\<lparr>pc_open := False\<rparr>)"

text \<open>\<open>close(peerId)\<close>; an empty id closes everything, as no id does.\<close>

definition peer_close_all :: "peer_transport \<Rightarrow> peer_transport" where
  "peer_close_all t =
     (fold (\<lambda>i. update_cell i closeConnection) (map snd (pt_connections t)) t)\<lparr>pt_connections := [], pt_endpointUrl := None\<rparr>"

definition peer_close :: "string \<Rightarrow> peer_transport \<Rightarrow> peer_transport" where
  "peer_close peer t =
     (if peer = '''' then peer_close_all t
      else (case jm_get (pt_connections t) peer of
              Some i \<Rightarrow> (update_cell i closeConnection t)\<lparr>pt_connections := jm_delete peer (pt_connections t)\<rparr>
            | None \<Rightarrow> t))"

definition add_connection :: "bool \<Rightarrow> string \<Rightarrow> peer_transport \<Rightarrow> peer_transport" where
  "add_connection raw peer t =
     t\<lparr>pt_heap := pt_heap t @ [new_connection_cell raw peer],
       pt_connections := jm_set peer (length (pt_heap t)) (pt_connections t)\<rparr>"

definition drop_if_same :: "nat \<Rightarrow> peer_transport \<Rightarrow> peer_transport" where
  "drop_if_same i t =
     (let peer = pc_peer (pt_heap t ! i) in
      if jm_get (pt_connections t) peer = Some i then t\<lparr>pt_connections := jm_delete peer (pt_connections t)\<rparr> else t)"

section \<open>Listening and dialling\<close>

definition listen_url :: "bool \<Rightarrow> nat \<Rightarrow> peer_transport \<Rightarrow> string" where
  "listen_url tls port t =
     (if tls then ''wss'' else ''ws'') @ ''://'' @ pt_host t @ '':'' @ show_nat port @ ''/peer/'' @ encodeURIComponent (pt_selfId t)"

definition peer_listen :: "bool \<Rightarrow> nat \<Rightarrow> peer_transport \<Rightarrow> peer_transport \<times> string" where
  "peer_listen tls port t =
     (case pt_endpointUrl t of
        Some url \<Rightarrow> (t, url)
      | None \<Rightarrow>
          let url = listen_url tls port t in
          (t\<lparr>pt_endpointUrl := Some url, pt_registry := endpoint_set (pt_selfId t) url (pt_registry t)\<rparr>, url))"

definition registerEndpoint :: "string \<Rightarrow> string \<Rightarrow> peer_transport \<Rightarrow> peer_transport" where
  "registerEndpoint peer url t = t\<lparr>pt_registry := endpoint_set peer url (pt_registry t)\<rparr>"

definition dial_url :: "string \<Rightarrow> string \<Rightarrow> string" where
  "dial_url endpoint selfId =
     endpoint @ (if CHR ''?'' \<in> set endpoint then ''&'' else ''?'') @ ''from='' @ encodeURIComponent selfId"

text \<open>\<open>connect\<close> up to its \<open>await\<close>: \<open>Inr True\<close> when a socket is being opened, \<open>Inr False\<close> when there is one.\<close>

definition peer_connect :: "string \<Rightarrow> peer_transport \<Rightarrow> peer_transport \<times> (string + bool)" where
  "peer_connect peer t =
     (if (case jm_get (pt_connections t) peer of Some i \<Rightarrow> isConnectionOpen (pt_heap t ! i) | None \<Rightarrow> False) then (t, Inr False)
      else (case endpoint_get peer (pt_registry t) of
              None \<Rightarrow> (t, Inl (''No endpoint registered for peer '' @ peer))
            | Some endpoint \<Rightarrow>
                if endpoint = '''' then (t, Inl (''No endpoint registered for peer '' @ peer))
                else (t\<lparr>pt_dialing := pt_dialing t @ [(peer, dial_url endpoint (pt_selfId t))]\<rparr>, Inr True)))"

definition dial_fails :: "nat \<Rightarrow> peer_transport \<Rightarrow> peer_transport" where
  "dial_fails k t = t\<lparr>pt_dialing := take k (pt_dialing t) @ drop (Suc k) (pt_dialing t)\<rparr>"

definition dial_opens :: "nat \<Rightarrow> peer_transport \<Rightarrow> peer_transport" where
  "dial_opens k t = add_connection False (fst (pt_dialing t ! k)) (dial_fails k t)"

section \<open>Sending\<close>

definition queue_full :: "peer_connection \<Rightarrow> nat \<Rightarrow> nat \<Rightarrow> bool" where
  "queue_full c payloadBytes bytes \<longleftrightarrow>
     (if pc_raw c then MAX_OUTBOUND_QUEUE_BYTES < bytes else MAX_FRAME_PAYLOAD_BYTES < payloadBytes) \<or>
     int MAX_OUTBOUND_QUEUE_BYTES < pc_queuedBytes c + int bytes"

definition enqueue_write :: "nat \<Rightarrow> bytes \<Rightarrow> nat \<Rightarrow> peer_connection \<Rightarrow> peer_connection" where
  "enqueue_write k frame bytes c =
     c\<lparr>pc_queuedBytes := pc_queuedBytes c + int bytes,
       pc_pendingSends := (if pc_raw c then pc_pendingSends c else jm_set k bytes (pc_pendingSends c)),
       pc_queue := pc_queue c @ [\<lparr>ps_id = k, ps_data = frame, ps_bytes = bytes\<rparr>]\<rparr>"

definition sendRaw :: "string \<Rightarrow> byte \<Rightarrow> bytes \<Rightarrow> peer_transport \<Rightarrow> peer_transport \<times> (string + nat)" where
  "sendRaw peer opcode payload t =
     (case jm_get (pt_connections t) peer of
        None \<Rightarrow> (t, Inl (''Peer '' @ peer @ '' is not connected''))
      | Some i \<Rightarrow>
          let c = pt_heap t ! i;
              frame = (if pc_raw c then encodeFrame opcode payload else payload);
              bytes = (if pc_raw c then length frame else length payload + MAX_RAW_FRAME_OVERHEAD_BYTES);
              k = pt_nextSend t in
          if \<not> isConnectionOpen c then (t, Inl (''Peer '' @ peer @ '' is not connected''))
          else if queue_full c (length payload) bytes then (report_peer_error peer t, Inl ''WebSocket outbound queue too large'')
          else ((update_cell i (enqueue_write k frame bytes) t)\<lparr>pt_nextSend := Suc k\<rparr>, Inr k))"

text \<open>
  What a raw socket answers to a write: taken at once, buffered until \<open>drain\<close>, or destroyed by it.
\<close>

datatype write_answer = Write_Taken | Write_Buffered | Write_Destroyed

definition settle_write :: "peer_send \<Rightarrow> bool \<Rightarrow> peer_connection \<Rightarrow> peer_connection" where
  "settle_write p ok c = c\<lparr>pc_settled := pc_settled c @ [(p, ok)]\<rparr>"

definition write_turn :: "write_answer \<Rightarrow> peer_connection \<Rightarrow> peer_connection option" where
  "write_turn answer c =
     (case (pc_writing c, pc_queue c) of
        (None, p # ps) \<Rightarrow>
          let c1 = c\<lparr>pc_queue := ps\<rparr>; c2 = c1\<lparr>pc_handed := pc_handed c1 @ [ps_id p]\<rparr> in
          Some (if \<not> isConnectionOpen c1 then settle_write p False c1
                else if \<not> pc_raw c1 then settle_write p True c2
                else (case answer of
                        Write_Taken \<Rightarrow> settle_write p True c2
                      | Write_Buffered \<Rightarrow> c2\<lparr>pc_writing := Some p\<rparr>
                      | Write_Destroyed \<Rightarrow> settle_write p False (c2\<lparr>pc_destroyed := True\<rparr>)))
      | _ \<Rightarrow> None)"

definition end_writing :: "bool \<Rightarrow> peer_connection \<Rightarrow> peer_connection" where
  "end_writing ok c =
     (case pc_writing c of None \<Rightarrow> c | Some p \<Rightarrow> settle_write p ok (c\<lparr>pc_writing := None\<rparr>))"

text \<open>The code after \<open>await write\<close>.\<close>

definition release_send :: "peer_send \<Rightarrow> bool \<Rightarrow> peer_connection \<Rightarrow> peer_connection" where
  "release_send p ok c =
     (if pc_raw c then c\<lparr>pc_queuedBytes := pc_queuedBytes c - int (ps_bytes p)\<rparr> else releaseWebSocketSend (ps_id p) c)
       \<lparr>pc_results := pc_results c @ [(ps_id p, ok)]\<rparr>"

definition send_settles :: "nat \<Rightarrow> peer_transport \<Rightarrow> peer_transport option" where
  "send_settles i t =
     (case pc_settled (pt_heap t ! i) of
        [] \<Rightarrow> None
      | (p, ok) # rest \<Rightarrow>
          let peer = pc_peer (pt_heap t ! i);
              t1 = update_cell i (pc_settled_update (\<lambda>_. rest)) t;
              t2 = (if ok then t1
                    else if pc_raw (pt_heap t ! i) then peer_close peer (report_peer_error peer t1) else report_peer_error peer t1)
          in Some (update_cell i (release_send p ok) t2))"

section \<open>Events of a socket\<close>

definition socket_closes :: "nat \<Rightarrow> peer_transport \<Rightarrow> peer_transport" where
  "socket_closes i t =
     drop_if_same i (update_cell i (\<lambda>c.
       if pc_raw c then end_writing False (c\<lparr>pc_open := False, pc_destroyed := True\<rparr>)
       else (releaseWebSocketQueue c)\<lparr>pc_open := False\<rparr>) t)"

definition raw_socket_fails :: "nat \<Rightarrow> peer_transport \<Rightarrow> peer_transport" where
  "raw_socket_fails i t =
     drop_if_same i (report_peer_error (pc_peer (pt_heap t ! i))
       (update_cell i (\<lambda>c. end_writing False (c\<lparr>pc_open := False, pc_destroyed := True\<rparr>)) t))"

text \<open>A close frame, and data that cannot be parsed: the receiver of the socket closes its peer, by name.\<close>

definition receiver_closes :: "nat \<Rightarrow> bool \<Rightarrow> peer_transport \<Rightarrow> peer_transport" where
  "receiver_closes i err t =
     (let peer = pc_peer (pt_heap t ! i) in peer_close peer (if err then report_peer_error peer t else t))"

inductive peer_step :: "peer_transport \<Rightarrow> peer_transport \<Rightarrow> bool" where
  listen: "peer_step t (fst (peer_listen tls port t))"
| register: "peer_step t (registerEndpoint peer url t)"
| connect: "peer_step t (fst (peer_connect peer t))"
| dialed: "k < length (pt_dialing t) \<Longrightarrow> peer_step t (dial_opens k t)"
| undialed: "k < length (pt_dialing t) \<Longrightarrow> peer_step t (dial_fails k t)"
| accept: "peer \<noteq> '''' \<Longrightarrow> peer_step t (add_connection True peer t)"
| send_raw: "peer_step t (fst (sendRaw peer opcode payload t))"
| write_done: "i < length (pt_heap t) \<Longrightarrow> write_turn answer (pt_heap t ! i) = Some c \<Longrightarrow> peer_step t (update_cell i (\<lambda>_. c) t)"
| drain: "i < length (pt_heap t) \<Longrightarrow> peer_step t (update_cell i (end_writing True) t)"
| settle: "i < length (pt_heap t) \<Longrightarrow> send_settles i t = Some t' \<Longrightarrow> peer_step t t'"
| closing: "i < length (pt_heap t) \<Longrightarrow> \<not> pc_raw (pt_heap t ! i) \<Longrightarrow> peer_step t (update_cell i (\<lambda>c. c\<lparr>pc_open := False\<rparr>) t)"
| closed: "i < length (pt_heap t) \<Longrightarrow> peer_step t (socket_closes i t)"
| failed: "i < length (pt_heap t) \<Longrightarrow> pc_raw (pt_heap t ! i) \<Longrightarrow> peer_step t (raw_socket_fails i t)"
| received: "i < length (pt_heap t) \<Longrightarrow> pc_raw (pt_heap t ! i) \<Longrightarrow> peer_step t (receiver_closes i err t)"
| close: "peer_step t (peer_close peer t)"
| close_all: "peer_step t (peer_close_all t)"

inductive peer_reachable :: "peer_transport \<Rightarrow> peer_transport \<Rightarrow> bool" for t0 where
  start: "peer_reachable t0 t0"
| step: "peer_reachable t0 t \<Longrightarrow> peer_step t t' \<Longrightarrow> peer_reachable t0 t'"

section \<open>The queue of a connection\<close>

definition active_sends :: "peer_connection \<Rightarrow> peer_send list" where
  "active_sends c = map fst (pc_settled c) @ (case pc_writing c of Some p \<Rightarrow> [p] | None \<Rightarrow> []) @ pc_queue c"

definition reserved :: "(nat, nat) js_map \<Rightarrow> int" where
  "reserved m = sum_list (map (int \<circ> snd) m)"

definition order_ok :: "nat \<Rightarrow> peer_connection \<Rightarrow> bool" where
  "order_ok k c \<longleftrightarrow>
     sorted_wrt (<) (map fst (pc_results c) @ map ps_id (active_sends c)) \<and>
     (\<forall>x \<in> set (map fst (pc_results c) @ map ps_id (active_sends c)). x < k)"

definition handed_ok :: "nat \<Rightarrow> peer_connection \<Rightarrow> bool" where
  "handed_ok k c \<longleftrightarrow>
     sorted_wrt (<) (pc_handed c) \<and> (\<forall>h \<in> set (pc_handed c). h < k \<and> (\<forall>p \<in> set (pc_queue c). h < ps_id p)) \<and>
     (\<forall>i. (i, True) \<in> set (pc_results c) \<longrightarrow> i \<in> set (pc_handed c)) \<and>
     (\<forall>p. (p, True) \<in> set (pc_settled c) \<longrightarrow> ps_id p \<in> set (pc_handed c)) \<and>
     (\<forall>p. pc_writing c = Some p \<longrightarrow> ps_id p \<in> set (pc_handed c))"

definition bytes_ok :: "peer_connection \<Rightarrow> bool" where
  "bytes_ok c \<longleftrightarrow>
     pc_queuedBytes c \<le> int MAX_OUTBOUND_QUEUE_BYTES \<and>
     (if pc_raw c then pc_pendingSends c = [] \<and> pc_queuedBytes c = sum_list (map (int \<circ> ps_bytes) (active_sends c))
      else jm_wf (pc_pendingSends c) \<and> pc_queuedBytes c = reserved (pc_pendingSends c) \<and>
        set (jm_keys (pc_pendingSends c)) \<subseteq> set (map ps_id (active_sends c)))"

definition cell_ok :: "nat \<Rightarrow> peer_connection \<Rightarrow> bool" where
  "cell_ok k c \<longleftrightarrow> order_ok k c \<and> handed_ok k c \<and> bytes_ok c"

lemma reserved_delete:
  "jm_wf m \<Longrightarrow> jm_get m i = Some n \<Longrightarrow> reserved (jm_delete i m) = reserved m - int n"
proof (induction m)
  case (Cons e m)
  have "jm_delete i m = m" if "i \<notin> set (jm_keys m)" using that by (induction m) auto
  with Cons show ?case by (cases e) (auto simp: reserved_def jm_wf_def)
qed simp

lemma reserved_nonneg: "0 \<le> reserved m"
  by (induction m) (simp_all add: reserved_def)

lemma reserved_set_new: "k \<notin> set (jm_keys m) \<Longrightarrow> reserved (jm_set k n m) = reserved m + int n"
  by (simp add: jm_set_new reserved_def)

lemma cell_okI: "order_ok k c \<Longrightarrow> handed_ok k c \<Longrightarrow> bytes_ok c \<Longrightarrow> cell_ok k c"
  by (simp add: cell_ok_def)

lemma cell_ok_mono: "cell_ok k c \<Longrightarrow> k \<le> l \<Longrightarrow> cell_ok l c"
  unfolding cell_ok_def order_ok_def handed_ok_def by (meson order.strict_trans2)

lemma new_cell_ok: "cell_ok k (new_connection_cell raw peer)"
  by (simp add: cell_ok_def order_ok_def handed_ok_def bytes_ok_def new_connection_cell_def active_sends_def reserved_def jm_wf_def)

lemma active_frame [simp]:
  "active_sends (c\<lparr>pc_open := x\<rparr>) = active_sends c" "active_sends (c\<lparr>pc_destroyed := x\<rparr>) = active_sends c"
  "active_sends (c\<lparr>pc_queuedBytes := n\<rparr>) = active_sends c" "active_sends (c\<lparr>pc_pendingSends := m\<rparr>) = active_sends c"
  "active_sends (c\<lparr>pc_handed := hs\<rparr>) = active_sends c" "active_sends (c\<lparr>pc_results := rs\<rparr>) = active_sends c"
  by (simp_all add: active_sends_def)

lemma order_handed_frame [simp]:
  "order_ok k (c\<lparr>pc_open := x\<rparr>) = order_ok k c" "order_ok k (c\<lparr>pc_destroyed := x\<rparr>) = order_ok k c"
  "order_ok k (c\<lparr>pc_queuedBytes := n\<rparr>) = order_ok k c" "order_ok k (c\<lparr>pc_pendingSends := m\<rparr>) = order_ok k c"
  "order_ok k (c\<lparr>pc_handed := hs\<rparr>) = order_ok k c"
  "handed_ok k (c\<lparr>pc_open := x\<rparr>) = handed_ok k c" "handed_ok k (c\<lparr>pc_destroyed := x\<rparr>) = handed_ok k c"
  "handed_ok k (c\<lparr>pc_queuedBytes := n\<rparr>) = handed_ok k c" "handed_ok k (c\<lparr>pc_pendingSends := m\<rparr>) = handed_ok k c"
  by (simp_all add: order_ok_def handed_ok_def)

lemma bytes_frame [simp]:
  "bytes_ok (c\<lparr>pc_open := x\<rparr>) = bytes_ok c" "bytes_ok (c\<lparr>pc_destroyed := x\<rparr>) = bytes_ok c"
  "bytes_ok (c\<lparr>pc_handed := hs\<rparr>) = bytes_ok c" "bytes_ok (c\<lparr>pc_results := rs\<rparr>) = bytes_ok c"
  by (simp_all add: bytes_ok_def)

lemma cell_ok_flags [simp]:
  "cell_ok k (c\<lparr>pc_open := x\<rparr>) = cell_ok k c" "cell_ok k (c\<lparr>pc_destroyed := y\<rparr>) = cell_ok k c"
  by (simp_all add: cell_ok_def)

lemma delete_keys_subset: "set (jm_keys m) \<subseteq> A \<Longrightarrow> set (jm_keys (jm_delete i m)) \<subseteq> A"
  unfolding set_map jm_delete_entries by auto

lemma bytes_release: "bytes_ok c \<Longrightarrow> \<not> pc_raw c \<Longrightarrow> bytes_ok (releaseWebSocketSend i c)"
  using delete_keys_subset[of "pc_pendingSends c" "set (map ps_id (active_sends c))" i]
  by (simp add: releaseWebSocketSend_def bytes_ok_def reserved_delete split: option.splits)

lemma release_ok: "cell_ok k c \<Longrightarrow> \<not> pc_raw c \<Longrightarrow> cell_ok k (releaseWebSocketSend i c)"
  by (simp add: cell_ok_def bytes_release) (simp add: releaseWebSocketSend_def split: option.splits)

lemma release_keeps [simp]:
  "pc_raw (releaseWebSocketSend i c) = pc_raw c" "pc_peer (releaseWebSocketSend i c) = pc_peer c"
  "pc_open (releaseWebSocketSend i c) = pc_open c" "pc_settled (releaseWebSocketSend i c) = pc_settled c"
  by (simp_all add: releaseWebSocketSend_def split: option.splits)

lemma release_fold:
  "cell_ok k c \<Longrightarrow> \<not> pc_raw c \<Longrightarrow> cell_ok k (fold releaseWebSocketSend is c) \<and> \<not> pc_raw (fold releaseWebSocketSend is c) \<and>
    pc_peer (fold releaseWebSocketSend is c) = pc_peer c"
  by (induction "is" arbitrary: c) (simp_all add: release_ok)

lemma close_cell_ok: "cell_ok k c \<Longrightarrow> cell_ok k (closeConnection c)"
  using release_fold[of k c "jm_keys (pc_pendingSends c)"] by (auto simp: closeConnection_def releaseWebSocketQueue_def)

lemma enqueue_ok:
  assumes "cell_ok k c" "\<not> queue_full c n bytes"
  shows "cell_ok (Suc k) (enqueue_write k frame bytes c)"
proof -
  let ?p = "\<lparr>ps_id = k, ps_data = frame, ps_bytes = bytes\<rparr>"
  have sends: "active_sends (enqueue_write k frame bytes c) = active_sends c @ [?p]"
    by (simp add: active_sends_def enqueue_write_def)
  have rs: "pc_results (enqueue_write k frame bytes c) = pc_results c" by (simp add: enqueue_write_def)
  have order: "order_ok k c" and handed: "handed_ok k c" and bytes: "bytes_ok c" using assms(1) by (simp_all add: cell_ok_def)
  have fresh: "\<forall>x \<in> set (map ps_id (active_sends c)). x < k" using order by (simp add: order_ok_def)
  show ?thesis
  proof (rule cell_okI)
    show "order_ok (Suc k) (enqueue_write k frame bytes c)"
      using order by (auto simp: order_ok_def sends rs sorted_wrt_append less_Suc_eq)
    show "handed_ok (Suc k) (enqueue_write k frame bytes c)"
      using handed by (auto simp: handed_ok_def enqueue_write_def less_Suc_eq)
    show "bytes_ok (enqueue_write k frame bytes c)"
    proof (cases "pc_raw c")
      case True
      with bytes assms(2) show ?thesis
        by (simp add: bytes_ok_def sends queue_full_def) (simp add: enqueue_write_def)
    next
      case False
      then have "set (jm_keys (pc_pendingSends c)) \<subseteq> set (map ps_id (active_sends c))"
        using bytes by (simp only: bytes_ok_def if_False)
      then have "k \<notin> set (jm_keys (pc_pendingSends c))" using fresh by blast
      with False bytes assms(2) show ?thesis
        by (simp add: bytes_ok_def sends queue_full_def) (auto simp: enqueue_write_def jm_set_new reserved_def jm_wf_def)
    qed
  qed
qed

lemma bytes_shift:
  "active_sends c' = active_sends c \<Longrightarrow> pc_raw c' = pc_raw c \<Longrightarrow> pc_queuedBytes c' = pc_queuedBytes c \<Longrightarrow>
   pc_pendingSends c' = pc_pendingSends c \<Longrightarrow> bytes_ok c' = bytes_ok c"
  by (simp add: bytes_ok_def)

lemma order_shift:
  "active_sends c' = active_sends c \<Longrightarrow> pc_results c' = pc_results c \<Longrightarrow> order_ok k c' = order_ok k c"
  by (simp add: order_ok_def)

lemma write_turn_keeps:
  assumes "write_turn answer c = Some c'"
  shows "active_sends c' = active_sends c" "pc_raw c' = pc_raw c" "pc_queuedBytes c' = pc_queuedBytes c"
    "pc_pendingSends c' = pc_pendingSends c" "pc_results c' = pc_results c" "pc_peer c' = pc_peer c" "pc_open c' = pc_open c"
  using assms
  by (auto simp: write_turn_def settle_write_def active_sends_def Let_def split: option.splits list.splits if_splits write_answer.splits)

lemma write_turn_ok:
  assumes "cell_ok k c" "write_turn answer c = Some c'"
  shows "cell_ok k c'"
proof -
  obtain p ps where q: "pc_writing c = None" "pc_queue c = p # ps"
    using assms(2) by (auto simp: write_turn_def split: option.splits list.splits)
  have "sorted_wrt (<) (map ps_id (p # ps))" "ps_id p < k"
    using assms(1) q by (simp_all add: cell_ok_def order_ok_def active_sends_def sorted_wrt_append)
  then have "handed_ok k c'"
    using assms q unfolding write_turn_def settle_write_def Let_def cell_ok_def handed_ok_def
    by (auto simp: sorted_wrt_append split: if_splits write_answer.splits)
  then show ?thesis
    using assms(1) by (simp add: cell_ok_def order_shift[OF write_turn_keeps(1,5)[OF assms(2)]] bytes_shift[OF write_turn_keeps(1-4)[OF assms(2)]])
qed

lemma end_writing_keeps [simp]:
  "active_sends (end_writing ok c) = active_sends c" "pc_raw (end_writing ok c) = pc_raw c"
  "pc_queuedBytes (end_writing ok c) = pc_queuedBytes c" "pc_pendingSends (end_writing ok c) = pc_pendingSends c"
  "pc_results (end_writing ok c) = pc_results c" "pc_peer (end_writing ok c) = pc_peer c" "pc_open (end_writing ok c) = pc_open c"
  by (auto simp: end_writing_def settle_write_def active_sends_def split: option.splits)

lemma end_writing_ok:
  assumes "cell_ok k c"
  shows "cell_ok k (end_writing ok c)"
proof (rule cell_okI)
  show "order_ok k (end_writing ok c)" "bytes_ok (end_writing ok c)"
    using assms order_shift[of "end_writing ok c" c k] bytes_shift[of "end_writing ok c" c] by (simp_all add: cell_ok_def)
  show "handed_ok k (end_writing ok c)"
    using assms by (cases "pc_writing c") (auto simp: cell_ok_def handed_ok_def end_writing_def settle_write_def)
qed

lemma release_settled_ok:
  assumes "cell_ok k c" "pc_settled c = (p, ok) # rest"
  shows "cell_ok k (release_send p ok (c\<lparr>pc_settled := rest\<rparr>))"
proof -
  let ?c = "c\<lparr>pc_settled := rest\<rparr>"
  have sends: "active_sends c = p # active_sends ?c" by (simp add: active_sends_def assms(2))
  have kept: "active_sends (release_send p ok ?c) = active_sends ?c" "pc_results (release_send p ok ?c) = pc_results c @ [(ps_id p, ok)]"
    "pc_handed (release_send p ok ?c) = pc_handed c" "pc_queue (release_send p ok ?c) = pc_queue c"
    "pc_writing (release_send p ok ?c) = pc_writing c" "pc_settled (release_send p ok ?c) = rest"
    "pc_raw (release_send p ok ?c) = pc_raw c"
    by (auto simp: release_send_def releaseWebSocketSend_def active_sends_def split: option.splits)
  have order: "order_ok k c" and handed: "handed_ok k c" and bytes: "bytes_ok c" using assms(1) by (simp_all add: cell_ok_def)
  show ?thesis
  proof (rule cell_okI)
    show "order_ok k (release_send p ok ?c)" using order by (simp add: order_ok_def kept sends)
    show "handed_ok k (release_send p ok ?c)"
      using handed assms(2) by (auto simp: handed_ok_def kept)
    show "bytes_ok (release_send p ok ?c)"
    proof (cases "pc_raw c")
      case True
      with bytes show ?thesis by (simp add: bytes_ok_def kept sends) (simp add: release_send_def)
    next
      case False
      have "ps_id p \<notin> set (jm_keys (jm_delete (ps_id p) (pc_pendingSends c)))" unfolding set_map jm_delete_entries by auto
      moreover have "set (jm_keys (pc_pendingSends c)) \<subseteq> insert (ps_id p) (set (map ps_id (active_sends ?c)))"
        using False bytes by (simp add: bytes_ok_def sends)
      ultimately have "set (jm_keys (jm_delete (ps_id p) (pc_pendingSends c))) \<subseteq> set (map ps_id (active_sends ?c))"
        unfolding set_map jm_delete_entries by auto
      moreover have "set (jm_keys (pc_pendingSends c)) \<subseteq> set (map ps_id (active_sends ?c))" if "jm_get (pc_pendingSends c) (ps_id p) = None"
        using that \<open>set (jm_keys (pc_pendingSends c)) \<subseteq> _\<close> unfolding jm_get_None_iff by blast
      ultimately show ?thesis
        using False bytes reserved_nonneg[of "pc_pendingSends c"]
        by (simp add: bytes_ok_def kept) (auto simp: release_send_def releaseWebSocketSend_def reserved_delete split: option.splits)
    qed
  qed
qed

section \<open>The transport\<close>

definition entry_ok :: "peer_connection list \<Rightarrow> string \<Rightarrow> nat \<Rightarrow> bool" where
  "entry_ok heap peer i \<longleftrightarrow> i < length heap \<and> pc_peer (heap ! i) = peer \<and> (pc_raw (heap ! i) \<longrightarrow> pc_open (heap ! i))"

definition transport_ok :: "peer_transport \<Rightarrow> bool" where
  "transport_ok t \<longleftrightarrow>
     (\<forall>c \<in> set (pt_heap t). cell_ok (pt_nextSend t) c) \<and>
     (\<forall>peer i. jm_get (pt_connections t) peer = Some i \<longrightarrow> entry_ok (pt_heap t) peer i)"

lemma transport_okI:
  "(\<And>c. c \<in> set (pt_heap t) \<Longrightarrow> cell_ok (pt_nextSend t) c) \<Longrightarrow>
   (\<And>peer i. jm_get (pt_connections t) peer = Some i \<Longrightarrow> entry_ok (pt_heap t) peer i) \<Longrightarrow> transport_ok t"
  by (simp add: transport_ok_def)

lemma transport_ok_cell: "transport_ok t \<Longrightarrow> i < length (pt_heap t) \<Longrightarrow> cell_ok (pt_nextSend t) (pt_heap t ! i)"
  by (simp add: transport_ok_def)

lemma transport_ok_entry:
  "transport_ok t \<Longrightarrow> jm_get (pt_connections t) peer = Some i \<Longrightarrow>
   i < length (pt_heap t) \<and> pc_peer (pt_heap t ! i) = peer \<and> (pc_raw (pt_heap t ! i) \<longrightarrow> pc_open (pt_heap t ! i))"
  by (simp add: transport_ok_def entry_ok_def)

lemma transport_ok_frame [simp]:
  "transport_ok (t\<lparr>pt_registry := a\<rparr>) = transport_ok t" "transport_ok (t\<lparr>pt_endpointUrl := b\<rparr>) = transport_ok t"
  "transport_ok (t\<lparr>pt_dialing := d\<rparr>) = transport_ok t" "transport_ok (report_peer_error peer t) = transport_ok t"
  by (simp_all add: transport_ok_def report_peer_error_def)

lemma update_cell_sel [simp]:
  "length (pt_heap (update_cell i f t)) = length (pt_heap t)" "pt_connections (update_cell i f t) = pt_connections t"
  "pt_nextSend (update_cell i f t) = pt_nextSend t" "pt_endpointUrl (update_cell i f t) = pt_endpointUrl t"
  by (simp_all add: update_cell_def)

lemma report_sel [simp]:
  "pt_heap (report_peer_error peer t) = pt_heap t" "pt_connections (report_peer_error peer t) = pt_connections t"
  "pt_nextSend (report_peer_error peer t) = pt_nextSend t"
  by (simp_all add: report_peer_error_def)

text \<open>A cell may change in any way that keeps it well formed, as long as the map keeps naming open connections.\<close>

lemma update_cell_ok:
  assumes "transport_ok t" "i < length (pt_heap t)" "k = pt_nextSend t \<or> k = Suc (pt_nextSend t)"
    "cell_ok k (f (pt_heap t ! i))" "pc_peer (f (pt_heap t ! i)) = pc_peer (pt_heap t ! i)"
    "pc_raw (f (pt_heap t ! i)) = pc_raw (pt_heap t ! i)"
    and m: "\<And>peer j. jm_get m peer = Some j \<Longrightarrow> jm_get (pt_connections t) peer = Some j \<and>
      (j = i \<longrightarrow> pc_raw (pt_heap t ! i) \<longrightarrow> pc_open (pt_heap t ! i) \<longrightarrow> pc_open (f (pt_heap t ! i)))"
  shows "transport_ok ((update_cell i f t)\<lparr>pt_connections := m, pt_nextSend := k\<rparr>)"
proof (rule transport_okI)
  fix c assume "c \<in> set (pt_heap ((update_cell i f t)\<lparr>pt_connections := m, pt_nextSend := k\<rparr>))"
  then have "c = f (pt_heap t ! i) \<or> c \<in> set (pt_heap t)"
    using set_update_subset_insert[of "pt_heap t" i] by (auto simp: update_cell_def)
  then show "cell_ok (pt_nextSend ((update_cell i f t)\<lparr>pt_connections := m, pt_nextSend := k\<rparr>)) c"
    using assms(1,3,4) by (auto simp: transport_ok_def intro: cell_ok_mono)
next
  fix peer j assume "jm_get (pt_connections ((update_cell i f t)\<lparr>pt_connections := m, pt_nextSend := k\<rparr>)) peer = Some j"
  then have "jm_get m peer = Some j" by simp
  from m[OF this] transport_ok_entry[OF assms(1), of peer j] assms(2,5,6)
  show "entry_ok (pt_heap ((update_cell i f t)\<lparr>pt_connections := m, pt_nextSend := k\<rparr>)) peer j"
    by (cases "j = i") (auto simp: entry_ok_def update_cell_def)
qed

lemma update_same_ok:
  assumes "transport_ok t" "i < length (pt_heap t)" "cell_ok (pt_nextSend t) (f (pt_heap t ! i))"
    "pc_peer (f (pt_heap t ! i)) = pc_peer (pt_heap t ! i)" "pc_raw (f (pt_heap t ! i)) = pc_raw (pt_heap t ! i)"
    "pc_raw (pt_heap t ! i) \<Longrightarrow> pc_open (f (pt_heap t ! i)) = pc_open (pt_heap t ! i)"
  shows "transport_ok (update_cell i f t)"
proof -
  have "transport_ok ((update_cell i f t)\<lparr>pt_connections := pt_connections t, pt_nextSend := pt_nextSend t\<rparr>)"
    by (rule update_cell_ok) (use assms in auto)
  then show ?thesis by (simp add: update_cell_def)
qed

lemma close_keeps [simp]:
  "pc_raw (closeConnection c) = pc_raw c" "pc_peer (closeConnection c) = pc_peer c"
proof -
  have "pc_raw (fold releaseWebSocketSend is c) = pc_raw c \<and> pc_peer (fold releaseWebSocketSend is c) = pc_peer c" for "is"
    by (induction "is" arbitrary: c) simp_all
  then show "pc_raw (closeConnection c) = pc_raw c" "pc_peer (closeConnection c) = pc_peer c"
    by (simp_all add: closeConnection_def releaseWebSocketQueue_def)
qed

lemma drop_if_same_eq:
  "drop_if_same i (update_cell i f t) =
     (update_cell i f t)\<lparr>pt_connections := (if jm_get (pt_connections t) (pc_peer (pt_heap (update_cell i f t) ! i)) = Some i
        then jm_delete (pc_peer (pt_heap (update_cell i f t) ! i)) (pt_connections t) else pt_connections t)\<rparr>"
  by (simp add: drop_if_same_def Let_def)

lemma closed_cell_ok:
  assumes "transport_ok t" "i < length (pt_heap t)" "cell_ok (pt_nextSend t) (f (pt_heap t ! i))"
    "pc_peer (f (pt_heap t ! i)) = pc_peer (pt_heap t ! i)" "pc_raw (f (pt_heap t ! i)) = pc_raw (pt_heap t ! i)"
    and m: "\<And>peer j. jm_get m peer = Some j \<Longrightarrow> jm_get (pt_connections t) peer = Some j \<and> j \<noteq> i"
  shows "transport_ok ((update_cell i f t)\<lparr>pt_connections := m\<rparr>)"
proof -
  have "transport_ok ((update_cell i f t)\<lparr>pt_connections := m, pt_nextSend := pt_nextSend t\<rparr>)"
    by (rule update_cell_ok) (use assms in auto)
  then show ?thesis by (simp add: update_cell_def)
qed

lemma drop_if_same_ok:
  assumes "transport_ok t" "i < length (pt_heap t)" "cell_ok (pt_nextSend t) (f (pt_heap t ! i))"
    "pc_peer (f (pt_heap t ! i)) = pc_peer (pt_heap t ! i)" "pc_raw (f (pt_heap t ! i)) = pc_raw (pt_heap t ! i)"
  shows "transport_ok (drop_if_same i (update_cell i f t))"
proof -
  have peer: "pc_peer (pt_heap (update_cell i f t) ! i) = pc_peer (pt_heap t ! i)"
    using assms(2,4) by (simp add: update_cell_def)
  have only: "peer = pc_peer (pt_heap t ! i)" if "jm_get (pt_connections t) peer = Some i" for peer
    using transport_ok_entry[OF assms(1) that] by simp
  show ?thesis
    unfolding drop_if_same_eq peer by (rule closed_cell_ok[where f = f and i = i and t = t, OF assms]) (auto split: if_splits dest: only)
qed

lemma peer_close_ok:
  assumes "transport_ok t" "peer \<noteq> ''''"
  shows "transport_ok (peer_close peer t)"
proof (cases "jm_get (pt_connections t) peer")
  case (Some i)
  note entry = transport_ok_entry[OF assms(1) Some]
  have "transport_ok ((update_cell i closeConnection t)\<lparr>pt_connections := jm_delete peer (pt_connections t)\<rparr>)"
  proof (rule closed_cell_ok[OF assms(1)])
    fix q j assume "jm_get (jm_delete peer (pt_connections t)) q = Some j"
    then have j: "jm_get (pt_connections t) q = Some j" "q \<noteq> peer" by (simp_all split: if_splits)
    with entry transport_ok_entry[OF assms(1) j(1)] show "jm_get (pt_connections t) q = Some j \<and> j \<noteq> i" by auto
  qed (use entry transport_ok_cell[OF assms(1)] in \<open>simp_all add: close_cell_ok\<close>)
  with Some assms(2) show ?thesis by (simp add: peer_close_def)
qed (use assms in \<open>simp add: peer_close_def\<close>)

lemma close_cells_ok:
  "\<forall>c \<in> set (pt_heap t). cell_ok k c \<Longrightarrow> \<forall>i \<in> set is. i < length (pt_heap t) \<Longrightarrow>
   \<forall>c \<in> set (pt_heap (fold (\<lambda>i. update_cell i closeConnection) is t)). cell_ok k c"
proof (induction "is" arbitrary: t)
  case (Cons i "is")
  have "\<forall>c \<in> set (pt_heap (update_cell i closeConnection t)). cell_ok k c"
    using Cons.prems set_update_subset_insert[of "pt_heap t" i "closeConnection (pt_heap t ! i)"]
      close_cell_ok[of k "pt_heap t ! i"] by (auto simp: update_cell_def)
  then show ?case using Cons by simp
qed simp

lemma fold_close_sel [simp]:
  "pt_nextSend (fold (\<lambda>i. update_cell i closeConnection) is t) = pt_nextSend t"
  "length (pt_heap (fold (\<lambda>i. update_cell i closeConnection) is t)) = length (pt_heap t)"
  "pt_connections (fold (\<lambda>i. update_cell i closeConnection) is t) = pt_connections t"
  by (induction "is" arbitrary: t) simp_all

lemma peer_close_all_ok:
  assumes "transport_ok t" "jm_wf (pt_connections t)"
  shows "transport_ok (peer_close_all t)"
proof -
  have "\<forall>i \<in> set (map snd (pt_connections t)). i < length (pt_heap t)"
    using assms transport_ok_entry[OF assms(1)] jm_get_in_set[OF assms(2)] by force
  then show ?thesis
    using close_cells_ok[of t "pt_nextSend t" "map snd (pt_connections t)"] assms(1)
    by (intro transport_okI) (auto simp: peer_close_all_def transport_ok_def)
qed

abbreviation take_settled :: "(peer_send \<times> bool) list \<Rightarrow> peer_connection \<Rightarrow> peer_connection" where
  "take_settled rest c \<equiv> c\<lparr>pc_settled := rest\<rparr>"

lemma release_settled [simp]: "releaseWebSocketSend j (c\<lparr>pc_settled := rest\<rparr>) = (releaseWebSocketSend j c)\<lparr>pc_settled := rest\<rparr>"
  by (simp add: releaseWebSocketSend_def split: option.splits)

lemma close_take_settled: "closeConnection (take_settled rest c) = take_settled rest (closeConnection c)"
proof -
  have "fold releaseWebSocketSend is (take_settled rest c) = take_settled rest (fold releaseWebSocketSend is c)" for "is"
    by (induction "is" arbitrary: c) simp_all
  then show ?thesis by (simp add: closeConnection_def releaseWebSocketQueue_def)
qed

lemma close_settled [simp]: "pc_settled (closeConnection c) = pc_settled c"
proof -
  have "pc_settled (fold releaseWebSocketSend is c) = pc_settled c" for "is"
    by (induction "is" arbitrary: c) simp_all
  then show ?thesis by (simp add: closeConnection_def releaseWebSocketQueue_def)
qed

lemma update_take_settled:
  "update_cell j closeConnection (update_cell i (take_settled rest) t) = update_cell i (take_settled rest) (update_cell j closeConnection t)"
  by (cases "i = j"; cases "i < length (pt_heap t)")
    (simp_all add: update_cell_def close_take_settled list_update_swap list_update_beyond)

lemma fold_take_settled:
  "fold (\<lambda>j. update_cell j closeConnection) is (update_cell i (take_settled rest) t) =
   update_cell i (take_settled rest) (fold (\<lambda>j. update_cell j closeConnection) is t)"
  by (induction "is" arbitrary: t) (simp_all add: update_take_settled)

lemma update_cell_frame:
  "(update_cell i f t)\<lparr>pt_connections := m\<rparr> = update_cell i f (t\<lparr>pt_connections := m\<rparr>)"
  "(update_cell i f t)\<lparr>pt_endpointUrl := u\<rparr> = update_cell i f (t\<lparr>pt_endpointUrl := u\<rparr>)"
  "report_peer_error peer (update_cell i f t) = update_cell i f (report_peer_error peer t)"
  by (simp_all add: update_cell_def report_peer_error_def)

lemma peer_close_take_settled:
  "peer_close peer (update_cell i (take_settled rest) t) = update_cell i (take_settled rest) (peer_close peer t)"
  by (simp add: peer_close_def peer_close_all_def fold_take_settled update_take_settled update_cell_frame split: option.splits)

definition peers_inv :: "peer_transport \<Rightarrow> bool" where
  "peers_inv t \<longleftrightarrow> transport_ok t \<and> jm_wf (pt_connections t)"

lemma peer_close_wf: "jm_wf (pt_connections t) \<Longrightarrow> jm_wf (pt_connections (peer_close peer t))"
  by (auto simp: peer_close_def peer_close_all_def split: option.splits)

lemma peers_inv_close_all: "peers_inv t \<Longrightarrow> peers_inv (peer_close_all t)"
  by (simp add: peers_inv_def peer_close_all_ok) (simp add: peer_close_all_def)

lemma peers_inv_close: "peers_inv t \<Longrightarrow> peers_inv (peer_close peer t)"
  using peers_inv_close_all[of t] peer_close_ok[of t peer] peer_close_wf[of t peer]
  by (cases "peer = []") (auto simp: peers_inv_def peer_close_def)

lemma peers_inv_report [simp]: "peers_inv (report_peer_error peer t) = peers_inv t"
  by (simp add: peers_inv_def)

lemma peer_close_settled:
  "i < length (pt_heap t) \<Longrightarrow> pc_settled (pt_heap (peer_close peer t) ! i) = pc_settled (pt_heap t ! i) \<and> length (pt_heap (peer_close peer t)) = length (pt_heap t)"
proof -
  have one: "pc_settled (pt_heap (update_cell j closeConnection t) ! i) = pc_settled (pt_heap t ! i)" for j t
    by (cases "i = j"; cases "j < length (pt_heap t)") (simp_all add: update_cell_def list_update_beyond)
  have "pc_settled (pt_heap (fold (\<lambda>j. update_cell j closeConnection) is t) ! i) = pc_settled (pt_heap t ! i)" for "is" t
    by (induction "is" arbitrary: t) (simp_all add: one)
  then show ?thesis by (simp add: peer_close_def peer_close_all_def one split: option.splits)
qed

lemma send_settles_shape:
  assumes "send_settles i t = Some t'" "i < length (pt_heap t)"
  obtains p ok rest t3 where "t' = update_cell i (release_send p ok) (update_cell i (take_settled rest) t3)"
    "pc_settled (pt_heap t3 ! i) = (p, ok) # rest" "i < length (pt_heap t3)"
    "t3 = t \<or> (\<exists>peer. t3 = report_peer_error peer t) \<or> (\<exists>peer. t3 = peer_close peer (report_peer_error peer t))"
proof -
  obtain p ok rest where s: "pc_settled (pt_heap t ! i) = (p, ok) # rest"
    using assms(1) by (auto simp: send_settles_def split: list.splits)
  define t3 where "t3 = (if ok then t else let peer = pc_peer (pt_heap t ! i) in
      if pc_raw (pt_heap t ! i) then peer_close peer (report_peer_error peer t) else report_peer_error peer t)"
  have "t' = update_cell i (release_send p ok) (update_cell i (take_settled rest) t3)"
    using assms(1) s
    by (cases ok; cases "pc_raw (pt_heap t ! i)")
      (auto simp: send_settles_def t3_def Let_def peer_close_take_settled update_cell_frame(3))
  moreover have "pc_settled (pt_heap t3 ! i) = (p, ok) # rest" "i < length (pt_heap t3)"
    using assms(2) s peer_close_settled[of i "report_peer_error (pc_peer (pt_heap t ! i)) t"] by (simp_all add: t3_def Let_def)
  moreover have "t3 = t \<or> (\<exists>peer. t3 = report_peer_error peer t) \<or> (\<exists>peer. t3 = peer_close peer (report_peer_error peer t))"
    by (auto simp: t3_def Let_def)
  ultimately show thesis using that by blast
qed

lemma send_settles_ok:
  assumes "peers_inv t" "send_settles i t = Some t'" "i < length (pt_heap t)"
  shows "peers_inv t'"
proof -
  from assms(2,3) obtain p ok rest t3 where t': "t' = update_cell i (release_send p ok) (update_cell i (take_settled rest) t3)"
    and s: "pc_settled (pt_heap t3 ! i) = (p, ok) # rest" "i < length (pt_heap t3)"
    and t3: "t3 = t \<or> (\<exists>peer. t3 = report_peer_error peer t) \<or> (\<exists>peer. t3 = peer_close peer (report_peer_error peer t))"
    by (rule send_settles_shape)
  have inv: "peers_inv t3" using t3 assms(1) by (auto simp: peers_inv_close)
  have "t' = update_cell i (\<lambda>c. release_send p ok (take_settled rest c)) t3"
    using t' s(2) by (simp add: update_cell_def)
  moreover have "transport_ok (update_cell i (\<lambda>c. release_send p ok (take_settled rest c)) t3)"
    using inv s release_settled_ok[OF transport_ok_cell s(1)]
    by (intro update_same_ok) (auto simp: peers_inv_def release_send_def)
  ultimately show ?thesis using inv by (simp add: peers_inv_def)
qed

lemma add_connection_inv:
  assumes "peers_inv t"
  shows "peers_inv (add_connection raw peer t)"
proof -
  have "entry_ok (pt_heap (add_connection raw peer t)) q i" if "jm_get (pt_connections (add_connection raw peer t)) q = Some i" for q i
    using that assms transport_ok_entry[of t q i]
    by (auto simp: peers_inv_def entry_ok_def add_connection_def new_connection_cell_def nth_append split: if_splits)
  then show ?thesis
    using assms by (auto simp: peers_inv_def transport_ok_def add_connection_def new_cell_ok)
qed

lemma sendRaw_inv:
  assumes "peers_inv t"
  shows "peers_inv (fst (sendRaw peer opcode payload t))"
proof (cases "jm_get (pt_connections t) peer")
  case (Some i)
  let ?c = "pt_heap t ! i"
  define frame where "frame = (if pc_raw ?c then encodeFrame opcode payload else payload)"
  define bytes where "bytes = (if pc_raw ?c then length frame else length payload + MAX_RAW_FRAME_OVERHEAD_BYTES)"
  have ok: "transport_ok t" using assms by (simp add: peers_inv_def)
  note entry = transport_ok_entry[OF ok Some]
  show ?thesis
  proof (cases "isConnectionOpen ?c \<and> \<not> queue_full ?c (length payload) bytes")
    case True
    let ?f = "enqueue_write (pt_nextSend t) frame bytes"
    have "transport_ok ((update_cell i ?f t)\<lparr>pt_connections := pt_connections t, pt_nextSend := Suc (pt_nextSend t)\<rparr>)"
    proof (rule update_cell_ok)
      show "cell_ok (Suc (pt_nextSend t)) (?f ?c)" using True entry ok by (auto intro: enqueue_ok transport_ok_cell)
    qed (use ok entry in \<open>auto simp: enqueue_write_def\<close>)
    then have "transport_ok ((update_cell i ?f t)\<lparr>pt_nextSend := Suc (pt_nextSend t)\<rparr>)" by (simp add: update_cell_def)
    moreover have "fst (sendRaw peer opcode payload t) = (update_cell i ?f t)\<lparr>pt_nextSend := Suc (pt_nextSend t)\<rparr>"
      using True Some by (cases "pc_raw ?c") (auto simp: sendRaw_def Let_def frame_def bytes_def)
    ultimately show ?thesis using assms by (simp add: peers_inv_def)
  next
    case False
    then have "fst (sendRaw peer opcode payload t) \<in> {t, report_peer_error peer t}"
      using Some by (cases "pc_raw ?c") (auto simp: sendRaw_def Let_def frame_def bytes_def)
    then show ?thesis using assms by auto
  qed
qed (use assms in \<open>simp add: sendRaw_def\<close>)

lemma drop_report: "drop_if_same i (report_peer_error peer t) = report_peer_error peer (drop_if_same i t)"
  by (simp add: drop_if_same_def report_peer_error_def Let_def)

lemma drop_if_same_wf: "jm_wf (pt_connections t) \<Longrightarrow> jm_wf (pt_connections (drop_if_same i t))"
  by (simp add: drop_if_same_def Let_def)

lemma release_queue_ok:
  assumes "cell_ok k c" "\<not> pc_raw c"
  shows "cell_ok k (releaseWebSocketQueue c) \<and> \<not> pc_raw (releaseWebSocketQueue c) \<and> pc_peer (releaseWebSocketQueue c) = pc_peer c"
  using release_fold[OF assms] by (simp add: releaseWebSocketQueue_def)

lemma socket_closes_inv:
  assumes "peers_inv t" "i < length (pt_heap t)"
  shows "peers_inv (socket_closes i t)"
proof -
  have ok: "transport_ok t" and wf: "jm_wf (pt_connections t)" using assms(1) by (simp_all add: peers_inv_def)
  have "transport_ok (socket_closes i t)"
    unfolding socket_closes_def
    by (rule drop_if_same_ok[OF ok assms(2)])
      (use transport_ok_cell[OF ok assms(2)] release_queue_ok[of "pt_nextSend t" "pt_heap t ! i"] in \<open>auto simp: end_writing_ok\<close>)
  then show ?thesis using wf by (simp add: peers_inv_def) (simp add: socket_closes_def drop_if_same_wf)
qed

lemma raw_socket_fails_inv:
  assumes "peers_inv t" "i < length (pt_heap t)"
  shows "peers_inv (raw_socket_fails i t)"
proof -
  have ok: "transport_ok t" and wf: "jm_wf (pt_connections t)" using assms(1) by (simp_all add: peers_inv_def)
  have "transport_ok (drop_if_same i (update_cell i (\<lambda>c. end_writing False (c\<lparr>pc_open := False, pc_destroyed := True\<rparr>)) t))"
    by (rule drop_if_same_ok[OF ok assms(2)]) (use transport_ok_cell[OF ok assms(2)] in \<open>auto simp: end_writing_ok\<close>)
  then show ?thesis using wf by (simp add: raw_socket_fails_def drop_report peers_inv_def drop_if_same_wf)
qed

lemma peers_inv_frame [simp]:
  "peers_inv (t\<lparr>pt_registry := a\<rparr>) = peers_inv t" "peers_inv (t\<lparr>pt_endpointUrl := b\<rparr>) = peers_inv t"
  "peers_inv (t\<lparr>pt_dialing := d\<rparr>) = peers_inv t"
  by (simp_all add: peers_inv_def)

lemma update_same_inv:
  assumes "peers_inv t" "i < length (pt_heap t)" "cell_ok (pt_nextSend t) (f (pt_heap t ! i))"
    "pc_peer (f (pt_heap t ! i)) = pc_peer (pt_heap t ! i)" "pc_raw (f (pt_heap t ! i)) = pc_raw (pt_heap t ! i)"
    "pc_raw (pt_heap t ! i) \<Longrightarrow> pc_open (f (pt_heap t ! i)) = pc_open (pt_heap t ! i)"
  shows "peers_inv (update_cell i f t)"
  using assms update_same_ok[of t i f] by (simp add: peers_inv_def)

lemma cell_of: "peers_inv t \<Longrightarrow> i < length (pt_heap t) \<Longrightarrow> cell_ok (pt_nextSend t) (pt_heap t ! i)"
  by (simp add: peers_inv_def transport_ok_cell)

lemma peer_step_inv: "peer_step t t' \<Longrightarrow> peers_inv t \<Longrightarrow> peers_inv t'"
proof (induction rule: peer_step.induct)
  case (listen t tls port)
  have "peers_inv (t\<lparr>pt_endpointUrl := u, pt_registry := r\<rparr>)" for u r
    using listen peers_inv_frame(1)[where t = "t\<lparr>pt_endpointUrl := u\<rparr>" and a = r] by simp
  with listen show ?case by (simp add: peer_listen_def Let_def split: option.splits)
next
  case (register t peer url)
  then show ?case by (simp add: registerEndpoint_def)
next
  case (connect t peer)
  then show ?case by (simp add: peer_connect_def split: option.splits)
next
  case (dialed k t)
  then show ?case by (simp add: dial_opens_def add_connection_inv dial_fails_def)
next
  case (undialed k t)
  then show ?case by (simp add: dial_fails_def)
next
  case (write_done i t answer c)
  then show ?case
    using write_turn_ok[OF cell_of write_done(2)] write_turn_keeps[OF write_done(2)] by (intro update_same_inv) auto
next
  case (drain i t)
  then show ?case by (intro update_same_inv) (auto simp: end_writing_ok cell_of)
next
  case (closing i t)
  then show ?case by (intro update_same_inv) (auto simp: cell_of)
next
  case (received i t err)
  then show ?case by (simp add: receiver_closes_def Let_def peers_inv_close)
qed (auto intro: send_settles_ok sendRaw_inv add_connection_inv socket_closes_inv raw_socket_fails_inv peers_inv_close peers_inv_close_all)

lemma peer_reachable_inv: "peer_reachable t0 t \<Longrightarrow> peers_inv t0 \<Longrightarrow> peers_inv t"
  by (induction rule: peer_reachable.induct) (auto intro: peer_step_inv)

lemma new_peer_transport_inv: "peers_inv (new_peer_transport selfId host registry)"
  by (simp add: peers_inv_def transport_ok_def new_peer_transport_def)

section \<open>What callers rely on\<close>

text \<open>
  C16. The outbound queue of every peer connection is safe, whatever is sent, written, drained, failed, closed and dialled in
  whatever order: it never holds more than the limit, counts its bytes exactly, hands the sends to the socket in
  the order they were made, settles each at most once and in order, resolves only what was handed over; and the map
  of the transport names only its own peers' connections, raw ones that are open.
\<close>

theorem peer_queues_safe:
  assumes "peer_reachable (new_peer_transport selfId host registry) t"
  shows "(\<forall>c \<in> set (pt_heap t).
      0 \<le> pc_queuedBytes c \<and> pc_queuedBytes c \<le> int MAX_OUTBOUND_QUEUE_BYTES \<and>
      pc_queuedBytes c = (if pc_raw c then sum_list (map (int \<circ> ps_bytes) (active_sends c)) else reserved (pc_pendingSends c)) \<and>
      sorted_wrt (<) (pc_handed c) \<and> sorted_wrt (<) (map fst (pc_results c) @ map ps_id (active_sends c)) \<and>
      {k. (k, True) \<in> set (pc_results c)} \<subseteq> set (pc_handed c)) \<and>
    (\<forall>peer i. jm_get (pt_connections t) peer = Some i \<longrightarrow> entry_ok (pt_heap t) peer i)"
proof -
  have inv: "transport_ok t"
    using peer_reachable_inv[OF assms new_peer_transport_inv] by (simp add: peers_inv_def)
  have "0 \<le> pc_queuedBytes c \<and> pc_queuedBytes c \<le> int MAX_OUTBOUND_QUEUE_BYTES \<and>
      pc_queuedBytes c = (if pc_raw c then sum_list (map (int \<circ> ps_bytes) (active_sends c)) else reserved (pc_pendingSends c)) \<and>
      sorted_wrt (<) (pc_handed c) \<and> sorted_wrt (<) (map fst (pc_results c) @ map ps_id (active_sends c)) \<and>
      {k. (k, True) \<in> set (pc_results c)} \<subseteq> set (pc_handed c)"
    if "cell_ok (pt_nextSend t) c" for c
  proof -
    have "0 \<le> sum_list (map (int \<circ> ps_bytes) (active_sends c))" by (rule sum_list_nonneg) auto
    with that reserved_nonneg[of "pc_pendingSends c"] show ?thesis
      by (cases "pc_raw c") (auto simp: cell_ok_def bytes_ok_def order_ok_def handed_ok_def)
  qed
  with inv show ?thesis unfolding transport_ok_def by blast
qed

definition example_peers :: peer_transport where
  "example_peers = fst (sendRaw ''b'' 1 [104, 105] (add_connection True ''b'' (new_peer_transport ''a'' ''h'' [])))"

lemma example_peers_reachable: "peer_reachable (new_peer_transport ''a'' ''h'' []) example_peers"
  unfolding example_peers_def
  by (intro peer_reachable.step[OF _ send_raw] peer_reachable.step[OF _ accept] peer_reachable.start) simp

theorem peer_queues_safe_witness:
  "pt_heap example_peers ! 0 \<in> set (pt_heap example_peers) \<and> pc_queuedBytes (pt_heap example_peers ! 0) = 4 \<and>
   sorted_wrt (<) (map fst (pc_results (pt_heap example_peers ! 0)) @ map ps_id (active_sends (pt_heap example_peers ! 0)))"
proof -
  have heap: "pt_heap example_peers = [(new_connection_cell True ''b'')\<lparr>pc_queuedBytes := 4,
      pc_queue := [\<lparr>ps_id = 0, ps_data = encodeFrame 1 [104, 105], ps_bytes = 4\<rparr>]\<rparr>]"
    by (simp add: example_peers_def sendRaw_def add_connection_def new_peer_transport_def new_connection_cell_def Let_def
        isConnectionOpen_def queue_full_def encodeFrame_def MAX_OUTBOUND_QUEUE_BYTES_def MAX_FRAME_PAYLOAD_BYTES_def
        MAX_RAW_FRAME_OVERHEAD_BYTES_def update_cell_def enqueue_write_def)
  then show ?thesis using peer_queues_safe[OF example_peers_reachable] by (simp add: new_connection_cell_def)
qed

text \<open>
  A receiver closes its peer by name. When a peer connects a second time, its first socket stays open and unknown to the
  map; a close frame on it closes the second socket and leaves the first one open.
\<close>

theorem stale_socket_closes_new_one:
  assumes "jm_get (pt_connections t) peer = Some i" "pc_raw (pt_heap t ! i)" "pc_open (pt_heap t ! i)" "i < length (pt_heap t)"
    "pc_peer (pt_heap t ! i) = peer" "peer \<noteq> ''''"
  shows "let t' = receiver_closes i False (add_connection True peer t) in
    pc_open (pt_heap t' ! i) \<and> \<not> pc_open (pt_heap t' ! length (pt_heap t)) \<and> pc_destroyed (pt_heap t' ! length (pt_heap t)) \<and>
    jm_get (pt_connections t') peer = None"
  using assms
  by (simp add: receiver_closes_def add_connection_def nth_append peer_close_def update_cell_def closeConnection_def
      new_connection_cell_def Let_def nth_list_update)

theorem stale_socket_closes_new_one_witness:
  "let t' = receiver_closes 0 False (add_connection True ''b'' (add_connection True ''b'' (new_peer_transport ''a'' ''h'' []))) in
    pc_open (pt_heap t' ! 0) \<and> \<not> pc_open (pt_heap t' ! 1) \<and> jm_get (pt_connections t') ''b'' = None"
  using stale_socket_closes_new_one[of "add_connection True ''b'' (new_peer_transport ''a'' ''h'' [])" "''b''" 0]
  by (simp add: add_connection_def new_peer_transport_def new_connection_cell_def Let_def)

end
