(* ===== verification/Signaling_Socket.thy ===== *)
theory Signaling_Socket
  imports Web_Socket_Frames
begin

text \<open>
  \<open>MinimalWebSocketConnection\<close> of \<open>packages/signaling/src/server.ts\<close>: the server's end of a signaling socket, its receive loop and the
  checks before the upgrade. What \<open>onText\<close> receives and what is written to the socket are recorded; a text is its bytes.
\<close>

section \<open>The upgrade\<close>

definition isGridWebSocketPath :: "string option \<Rightarrow> bool" where
  "isGridWebSocketPath url \<longleftrightarrow> url = Some ''/ws'' \<or> url = Some ''/ws/'' \<or> url = Some ''/ws/grid'' \<or> url = Some ''/ws/grid/''"

definition isOriginAllowed :: "string option \<Rightarrow> string list \<Rightarrow> bool" where
  "isOriginAllowed origin allowedOrigins \<longleftrightarrow> allowedOrigins = [] \<or> (case origin of None \<Rightarrow> False | Some o' \<Rightarrow> o' \<in> set allowedOrigins)"

datatype upgrade_reply =
    Upgrade_Forbidden | Upgrade_Unauthorized | Upgrade_NotFound | Upgrade_BadRequest | Upgrade_Accepted | Upgrade_Throws

text \<open>\<open>parsed\<close> is the search parameter \<open>token\<close> of the request's URL, \<open>None\<close> when \<open>new URL\<close> throws.\<close>

definition upgrade :: "string list \<Rightarrow> string option \<Rightarrow> string option \<Rightarrow> string option option \<Rightarrow> string option \<Rightarrow> string option \<Rightarrow> upgrade_reply" where
  "upgrade allowedOrigins sessionToken origin parsed url key =
     (if \<not> isOriginAllowed origin allowedOrigins then Upgrade_Forbidden
      else if sessionToken \<noteq> None \<and> sessionToken \<noteq> Some '''' \<and> parsed = None then Upgrade_Throws
      else if sessionToken \<noteq> None \<and> sessionToken \<noteq> Some '''' \<and> parsed \<noteq> Some sessionToken then Upgrade_Unauthorized
      else if \<not> isGridWebSocketPath url then Upgrade_NotFound
      else if key = None then Upgrade_BadRequest
      else Upgrade_Accepted)"

section \<open>The connection\<close>

record server_socket =
  sv_buffer :: bytes
  sv_closed :: bool
  sv_texts :: "bytes list"
  sv_written :: "bytes list"
  sv_closeCalls :: nat

definition new_server_socket :: server_socket where
  "new_server_socket = \<lparr>sv_buffer = [], sv_closed = False, sv_texts = [], sv_written = [], sv_closeCalls = 0\<rparr>"

definition socket_write :: "bytes \<Rightarrow> server_socket \<Rightarrow> server_socket" where
  "socket_write data s = s\<lparr>sv_written := sv_written s @ [data]\<rparr>"

definition socket_send :: "bytes \<Rightarrow> server_socket \<Rightarrow> server_socket" where
  "socket_send data s = (if sv_closed s then s else socket_write (createFrameHeader (length data) 0x1 @ data) s)"

definition socket_handleClose :: "server_socket \<Rightarrow> server_socket" where
  "socket_handleClose s = (if sv_closed s then s else s\<lparr>sv_closed := True, sv_closeCalls := sv_closeCalls s + 1\<rparr>)"

definition socket_close :: "nat \<Rightarrow> bytes \<Rightarrow> server_socket \<Rightarrow> server_socket" where
  "socket_close code reason s =
     (if sv_closed s then s
      else let payload = writeUInt16BE code @ reason
           in socket_handleClose (socket_write (createFrameHeader (length payload) 0x8 @ payload) s))"

definition default_reason :: bytes where
  "default_reason = map (of_nat \<circ> of_char) ''closed''"

definition protocol_error :: bytes where
  "protocol_error = map (of_nat \<circ> of_char) ''protocol error''"

text \<open>The loop over the buffer.\<close>

lemma readFrame_header:
  "frame_length max_safe_length buffer = Inr (Some (len, h)) \<Longrightarrow> m = (if frame_masked buffer then 4 else 0) \<Longrightarrow>
   readFrame buffer = (if length buffer < h + m + len then Inr None else Inr (Some (buffer ! 0 AND 0x0f,
     if frame_masked buffer then apply_mask (take 4 (drop h buffer)) (take len (drop (h + m) buffer)) else take len (drop (h + m) buffer),
     h + m + len)))"
  by (simp add: readFrame_def Let_def)

lemma readFrame_consumed:
  assumes "readFrame buffer = Inr (Some (opcode, payload, consumed))"
  shows "2 \<le> consumed"
proof -
  obtain len h where l: "frame_length max_safe_length buffer = Inr (Some (len, h))"
    using assms by (cases "frame_length max_safe_length buffer") (auto simp: readFrame_def split: option.splits)
  with assms readFrame_header [OF l refl] frame_length_header [OF l] show ?thesis by (auto split: if_splits)
qed

function receive_loop :: "server_socket \<Rightarrow> server_socket" where
  "receive_loop s =
     (if length (sv_buffer s) < 2 then s
      else case readFrame (sv_buffer s) of
          Inl _ \<Rightarrow> socket_close 1002 protocol_error s
        | Inr None \<Rightarrow> s
        | Inr (Some (opcode, payload, consumed)) \<Rightarrow>
            let s1 = s\<lparr>sv_buffer := drop consumed (sv_buffer s)\<rparr>
            in if opcode = 0x8 then socket_close 1000 default_reason s1
               else if opcode = 0x9 then receive_loop (socket_write (createFrameHeader (length payload) 0xA @ payload) s1)
               else if opcode = 0x1 then receive_loop (s1\<lparr>sv_texts := sv_texts s1 @ [payload]\<rparr>)
               else receive_loop s1)"
  by pat_completeness auto
termination
  by (relation "measure (\<lambda>s. length (sv_buffer s))") (auto simp: socket_write_def dest: readFrame_consumed)

declare receive_loop.simps [simp del]

definition handleData :: "bytes \<Rightarrow> server_socket \<Rightarrow> server_socket" where
  "handleData chunk s = receive_loop (s\<lparr>sv_buffer := sv_buffer s @ chunk\<rparr>)"

section \<open>Frames arrive whole\<close>

text \<open>What one frame that is not a close does.\<close>

definition serve_frame :: "ws_frame \<Rightarrow> server_socket \<Rightarrow> server_socket" where
  "serve_frame f s =
     (if wf_opcode f = 0x9 then socket_write (createFrameHeader (length (wf_payload f)) 0xA @ wf_payload f) s
      else if wf_opcode f = 0x1 then s\<lparr>sv_texts := sv_texts s @ [wf_payload f]\<rparr> else s)"

lemma serve_frame_buffer: "serve_frame f (s\<lparr>sv_buffer := b\<rparr>) = (serve_frame f s)\<lparr>sv_buffer := b\<rparr>"
  by (simp add: serve_frame_def socket_write_def)

lemma serve_frame_keeps [simp]: "sv_buffer (serve_frame f s) = sv_buffer s" "sv_closed (serve_frame f s) = sv_closed s"
  by (simp_all add: serve_frame_def socket_write_def)

lemma receive_loop_frames:
  "parseFrames (sv_buffer s) = Inr (frames, remaining) \<Longrightarrow> \<forall>f \<in> set frames. wf_opcode f \<noteq> 0x8 \<Longrightarrow>
   receive_loop s = (fold serve_frame frames s)\<lparr>sv_buffer := remaining\<rparr>"
proof (induction "length (sv_buffer s)" arbitrary: s frames rule: less_induct)
  case (less s)
  let ?b = "sv_buffer s"
  show ?case
  proof (cases "length ?b < 2 \<or> frame_length MAX_FRAME_PAYLOAD_BYTES ?b = Inr None")
    case True
    then have p: "parseFrames ?b = Inr ([], ?b)" by (auto simp: parseFrames.simps [of ?b])
    have "frame_length max_safe_length ?b = Inr None" if "frame_length MAX_FRAME_PAYLOAD_BYTES ?b = Inr None"
      using that by (auto simp: frame_length_def Let_def split: if_splits)
    with True have "receive_loop s = s" by (auto simp: receive_loop.simps [of s] readFrame_def)
    with p less(2) show ?thesis by simp
  next
    case False
    with less(2) obtain len h where l: "frame_length MAX_FRAME_PAYLOAD_BYTES ?b = Inr (Some (len, h))"
      by (auto simp: parseFrames.simps [of ?b] split: sum.splits)
    then have ls: "frame_length max_safe_length ?b = Inr (Some (len, h))"
      by (auto simp: frame_length_def Let_def MAX_FRAME_PAYLOAD_BYTES_def max_safe_length_def split: if_splits)
    define m where "m = (if frame_masked ?b then 4 else 0 :: nat)"
    define f where "f = \<lparr>wf_fin = (?b ! 0 AND 0x80 \<noteq> 0), wf_opcode = ?b ! 0 AND 0x0f, wf_payload =
      (if frame_masked ?b then apply_mask (take 4 (drop h ?b)) (take len (drop (h + m) ?b)) else take len (drop (h + m) ?b))\<rparr>"
    have step: "parseFrames ?b = (if MAX_FRAME_PAYLOAD_BYTES < len then Inl Frame_Too_Large
        else if length ?b < h + m + len then Inr ([], ?b)
        else bind_result (parseFrames (drop (h + m + len) ?b)) (\<lambda>(fs, r). Inr (f # fs, r)))"
      using False by (simp add: parseFrames.simps [of ?b] l m_def f_def Let_def)
    have rd: "readFrame ?b = (if length ?b < h + m + len then Inr None else Inr (Some (wf_opcode f, wf_payload f, h + m + len)))"
      using readFrame_header [OF ls m_def] by (simp add: f_def)
    show ?thesis
    proof (cases "length ?b < h + m + len")
      case True
      with less(2) step rd False show ?thesis by (auto simp: receive_loop.simps [of s] split: if_splits)
    next
      case more: False
      with less(2) step obtain fs where fs: "parseFrames (drop (h + m + len) ?b) = Inr (fs, remaining)" "frames = f # fs" and "\<not> MAX_FRAME_PAYLOAD_BYTES < len"
        by (auto simp: bind_result_Inr_iff split: if_splits)
      let ?s = "serve_frame f (s\<lparr>sv_buffer := drop (h + m + len) ?b\<rparr>)"
      have "receive_loop s = receive_loop ?s" using more rd False less(3) fs(2)
        by (subst receive_loop.simps) (simp add: serve_frame_def socket_write_def Let_def)
      also have "\<dots> = (fold serve_frame fs ?s)\<lparr>sv_buffer := remaining\<rparr>"
        using less(1) [of ?s fs] False more fs less(3) frame_length_header [OF l] by simp
      also have "\<dots> = (fold serve_frame frames s)\<lparr>sv_buffer := remaining\<rparr>"
      proof -
        have "(fold serve_frame fs (t\<lparr>sv_buffer := b\<rparr>))\<lparr>sv_buffer := r\<rparr> = (fold serve_frame fs t)\<lparr>sv_buffer := r\<rparr>" for t b r
          by (induction fs arbitrary: t) (simp_all add: serve_frame_buffer)
        then show ?thesis by (simp add: fs(2) serve_frame_buffer)
      qed
      finally show ?thesis .
    qed
  qed
qed

lemma fold_serve_keeps [simp]: "sv_buffer (fold serve_frame fs s) = sv_buffer s" "sv_closed (fold serve_frame fs s) = sv_closed s"
  by (induction fs arbitrary: s) simp_all

lemma handle_chunks:
  assumes "\<forall>(key, f) \<in> set fs. frame_ok f \<and> mask_ok key \<and> wf_opcode f \<noteq> 0x8" and "wire fs = concat cs @ b" and "sv_buffer s0 = []"
  shows "\<exists>n remaining. parseFrames (concat cs) = Inr (map snd (take n fs), remaining) \<and> (b = [] \<longrightarrow> n = length fs) \<and>
    fold handleData cs s0 = (fold serve_frame (map snd (take n fs)) s0)\<lparr>sv_buffer := remaining\<rparr>"
  using assms(2)
proof (induction cs arbitrary: b rule: rev_induct)
  case Nil
  have "wire fs = [] \<longrightarrow> fs = []" by (cases fs) (auto simp: wire_def wire_frame_def)
  with Nil assms(3) show ?case by (intro exI [of _ "if b = [] then length fs else 0"] exI [of _ "[]"]) auto
next
  case (snoc c cs)
  have ok: "\<forall>(key, f) \<in> set fs. frame_ok f \<and> mask_ok key" using assms(1) by auto
  have "wire fs = concat cs @ (c @ b)" using snoc.prems by simp
  from snoc.IH [OF this] obtain n remaining where
    p: "parseFrames (concat cs) = Inr (map snd (take n fs), remaining)"
    and st: "fold handleData cs s0 = (fold serve_frame (map snd (take n fs)) s0)\<lparr>sv_buffer := remaining\<rparr>" by blast
  from parse_prefix [OF ok snoc.prems] obtain n' remaining' where
    p': "parseFrames (concat (cs @ [c])) = Inr (map snd (take n' fs), remaining')" and n': "b = [] \<longrightarrow> n' = length fs" by blast
  have "bind_result (parseFrames (remaining @ c)) (\<lambda>(more, r). Inr (map snd (take n fs) @ more, r)) = Inr (map snd (take n' fs), remaining')"
    using parse_append [of "concat cs" c] p p' by simp
  then obtain more where m: "parseFrames (remaining @ c) = Inr (more, remaining')" "map snd (take n fs) @ more = map snd (take n' fs)"
    by (auto simp: bind_result_Inr_iff)
  have "set more \<subseteq> set (map snd (take n' fs))" unfolding m(2) [symmetric] by simp
  then have "\<forall>f \<in> set more. wf_opcode f \<noteq> 0x8" using assms(1) by (fastforce dest: in_set_takeD)
  then have "handleData c (fold handleData cs s0) =
      (fold serve_frame more ((fold serve_frame (map snd (take n fs)) s0)\<lparr>sv_buffer := remaining @ c\<rparr>))\<lparr>sv_buffer := remaining'\<rparr>"
    unfolding handleData_def st by (subst receive_loop_frames [where frames = more and remaining = remaining']) (simp_all add: m(1))
  moreover have "(fold serve_frame gs (t\<lparr>sv_buffer := x\<rparr>))\<lparr>sv_buffer := r\<rparr> = (fold serve_frame gs t)\<lparr>sv_buffer := r\<rparr>" for gs t x r
    by (induction gs arbitrary: t) (simp_all add: serve_frame_buffer)
  ultimately have "handleData c (fold handleData cs s0) = (fold serve_frame (map snd (take n' fs)) s0)\<lparr>sv_buffer := remaining'\<rparr>"
    by (simp flip: m(2))
  with p' n' show ?case by auto
qed

lemma serve_frames_effect:
  "sv_texts (fold serve_frame fs s) = sv_texts s @ map wf_payload (filter (\<lambda>f. wf_opcode f = 0x1) fs)"
  "sv_written (fold serve_frame fs s) = sv_written s @ map (\<lambda>f. encodeFrame 0xA (wf_payload f)) (filter (\<lambda>f. wf_opcode f = 0x9) fs)"
  by (induction fs arbitrary: s) (simp_all add: serve_frame_def socket_write_def encodeFrame_wire createFrameHeader_wire)

text \<open>
  C17. However the bytes of a client's frames are masked and cut into chunks, the signaling server hands over the payload of every text frame, in
  order, and answers every ping with a pong of the same payload, as long as the client sends no close.
\<close>

theorem server_socket_delivers:
  assumes "\<forall>(key, f) \<in> set fs. frame_ok f \<and> mask_ok key \<and> wf_opcode f \<noteq> 0x8" and "concat chunks = wire fs"
  shows "sv_texts (fold handleData chunks new_server_socket) = map wf_payload (filter (\<lambda>f. wf_opcode f = 0x1) (map snd fs)) \<and>
    sv_written (fold handleData chunks new_server_socket) =
      map (\<lambda>f. encodeFrame 0xA (wf_payload f)) (filter (\<lambda>f. wf_opcode f = 0x9) (map snd fs)) \<and>
    \<not> sv_closed (fold handleData chunks new_server_socket)"
proof -
  obtain remaining where "fold handleData chunks new_server_socket = (fold serve_frame (map snd fs) new_server_socket)\<lparr>sv_buffer := remaining\<rparr>"
    using handle_chunks [OF assms(1), of chunks "[]" new_server_socket] assms(2) by (auto simp: new_server_socket_def)
  then show ?thesis by (simp add: serve_frames_effect) (simp add: new_server_socket_def)
qed

theorem server_socket_delivers_witness:
  "sv_texts (fold handleData [[0x81, 0x81, 1, 2], [3, 4, 6, 0x89], [1, 9]] new_server_socket) = [[7]] \<and>
   sv_written (fold handleData [[0x81, 0x81, 1, 2], [3, 4, 6, 0x89], [1, 9]] new_server_socket) = [encodeFrame 0xA [9]]"
proof -
  have "concat [[0x81, 0x81, 1, 2], [3, 4, 6, 0x89], [1, 9]] =
      wire [(Some [1, 2, 3, 4], \<lparr>wf_fin = True, wf_opcode = 1, wf_payload = [7]\<rparr>), (None, \<lparr>wf_fin = True, wf_opcode = 9, wf_payload = [9]\<rparr>)]"
    by (simp add: wire_def wire_frame_def wire_first_def wire_length_def apply_mask_def)
  from server_socket_delivers [OF _ this] show ?thesis by (simp add: frame_ok_def mask_ok_def MAX_FRAME_PAYLOAD_BYTES_def)
qed

text \<open>
  The server does not put fragmented messages together: a text message in two fragments arrives as its first fragment alone.
\<close>

theorem server_drops_continuations:
  assumes "length p \<le> MAX_FRAME_PAYLOAD_BYTES" and "length q \<le> MAX_FRAME_PAYLOAD_BYTES"
    and "fs = [(None, \<lparr>wf_fin = False, wf_opcode = 0x1, wf_payload = p\<rparr>), (None, \<lparr>wf_fin = True, wf_opcode = 0x0, wf_payload = q\<rparr>)]"
  shows "sv_texts (handleData (wire fs) new_server_socket) = [p]"
proof -
  have "\<forall>(key, f) \<in> set fs. frame_ok f \<and> mask_ok key \<and> wf_opcode f \<noteq> 0x8" using assms by (simp add: frame_ok_def mask_ok_def)
  from handle_chunks [OF this, of "[wire fs]" "[]" new_server_socket] obtain remaining where
    "handleData (wire fs) new_server_socket = (fold serve_frame (map snd fs) new_server_socket)\<lparr>sv_buffer := remaining\<rparr>"
    by (auto simp: new_server_socket_def)
  then show ?thesis by (simp add: assms(3)) (simp add: new_server_socket_def serve_frame_def)
qed

theorem server_drops_continuations_witness:
  "sv_texts (handleData (wire [(None, \<lparr>wf_fin = False, wf_opcode = 0x1, wf_payload = [1]\<rparr>),
     (None, \<lparr>wf_fin = True, wf_opcode = 0x0, wf_payload = [2]\<rparr>)]) new_server_socket) = [[1]]"
  by (rule server_drops_continuations [where q = "[2]"]) (simp_all add: MAX_FRAME_PAYLOAD_BYTES_def)

end
