(* ===== verification/Signaling_Safety.thy ===== *)
theory Signaling_Safety
  imports Signaling_Gateway
begin

text \<open>
  What \<open>SignalingGateway\<close> guarantees: its rooms stay well formed and bounded, a relayed message reaches its target alone. And what
  it does not guard against: a message may name a session and a peer that are not the connection's own.
\<close>

section \<open>Runs\<close>

inductive gateway_step :: "gateway_config \<Rightarrow> gateway \<Rightarrow> gateway \<Rightarrow> bool" for cfg where
  attach: "gateway_step cfg g (gateway_attach tn g)"
| message: "c < length (gw_connections g) \<Longrightarrow> gateway_step cfg g (fst (gateway_text cfg tn c data g))"
| close: "c < length (gw_connections g) \<Longrightarrow> gateway_step cfg g (fst (connection_close tn c g))"
| cleanup: "gateway_step cfg g (fst (cleanupStalePeers cfg tn g))"

definition new_gateway :: gateway where
  "new_gateway = \<lparr>gw_rooms = [], gw_connections = [], gw_peers = [], gw_events = []\<rparr>"

inductive gateway_reachable :: "gateway_config \<Rightarrow> gateway \<Rightarrow> bool" for cfg where
  start: "gateway_reachable cfg new_gateway"
| step: "gateway_reachable cfg g \<Longrightarrow> gateway_step cfg g g' \<Longrightarrow> gateway_reachable cfg g'"

section \<open>Rooms\<close>

lemma sends_keep_rooms [simp]:
  "gw_rooms (update_connection c f g) = gw_rooms g" "gw_rooms (gateway_send c t g) = gw_rooms g" "gw_rooms (gateway_emit ev g) = gw_rooms g"
  "gw_rooms (set_identity c s p g) = gw_rooms g" "gw_rooms (fst (send_envelope c e g)) = gw_rooms g"
  "gw_rooms (fst (sendError tn c s p m code g)) = gw_rooms g"
  by (simp_all add: update_connection_def gateway_send_def gateway_emit_def set_identity_def send_envelope_def sendError_def split: sum.splits)

lemma fold_send_keeps [simp]: "gw_rooms (fold (\<lambda>c. gateway_send c t) cs g) = gw_rooms g"
  by (induction cs arbitrary: g) simp_all

lemma broadcast_keeps_rooms [simp]:
  "gw_rooms (fst (gateway_broadcast s e p g)) = gw_rooms g" "gw_rooms (fst (broadcastPeerJoined tn s p g)) = gw_rooms g"
  "gw_rooms (fst (broadcastPeerLeft tn s p g)) = gw_rooms g"
  by (simp_all add: gateway_broadcast_def broadcastPeerJoined_def broadcastPeerLeft_def split: sum.splits)

lemma broadcast_left_rooms: "broadcastPeerLeft tn s p g = (g', r) \<Longrightarrow> gw_rooms g' = gw_rooms g"
  by (metis broadcast_keeps_rooms(3) fst_conv)

text \<open>\<open>good k r\<close>: the state that a handler leaves has well-formed rooms.\<close>

definition good :: "nat \<Rightarrow> gateway_result \<Rightarrow> bool" where
  "good k r \<longleftrightarrow> rooms_ok k (gw_rooms (fst r))"

lemma good_then: "good k r \<Longrightarrow> (\<And>g. rooms_ok k (gw_rooms g) \<Longrightarrow> good k (f g)) \<Longrightarrow> good k (gateway_then r f)"
  by (cases r; cases "snd r") (auto simp: gateway_then_def good_def)

lemma good_simps [simp]: "good k (g, r) = rooms_ok k (gw_rooms g)"
  by (simp add: good_def)

lemma good_sends:
  "rooms_ok k (gw_rooms g) \<Longrightarrow> good k (send_envelope c e g)" "rooms_ok k (gw_rooms g) \<Longrightarrow> good k (broadcastPeerJoined tn s p g)"
  "rooms_ok k (gw_rooms g) \<Longrightarrow> good k (broadcastPeerLeft tn s p g)" "rooms_ok k (gw_rooms g) \<Longrightarrow> good k (sendError tn c s p m code g)"
  by (simp_all add: good_def)

lemma detach_good: "rooms_ok k (gw_rooms g) \<Longrightarrow> good k (gateway_detach tn c g)"
  by (auto simp: gateway_detach_def Let_def intro!: good_then good_sends room_leave_ok)

lemma close_good: "rooms_ok k (gw_rooms g) \<Longrightarrow> good k (connection_close tn c g)"
  by (auto simp: connection_close_def intro!: detach_good)

lemma close_stale_good: "rooms_ok k (gw_rooms g) \<Longrightarrow> good k (close_stale tn cutoff cs g)"
  by (induction tn cutoff cs g rule: close_stale.induct) (auto intro!: good_then close_good detach_good)

lemma create_good: "rooms_ok k (gw_rooms g) \<Longrightarrow> 1 \<le> k \<Longrightarrow> good k (handleCreateSession cfg tn c e g)"
  unfolding handleCreateSession_def Let_def
  by (auto split: prod.split sum.split intro!: good_then good_sends dest: room_create_ok) (metis One_nat_def fst_conv room_create_ok)+

lemma join_good:
  assumes "rooms_ok k (gw_rooms g)" and "sc_maxPeersPerSession cfg \<le> k"
  shows "good k (handleJoinSession cfg tn c e g)"
proof -
  let ?s = "jfield e ''sessionId''" and ?p = "jfield e ''fromPeerId''"
  obtain rooms r where j: "room_join (gt_now tn) ?s ?p (gw_rooms g) = (rooms, r)" by fastforce
  show ?thesis
  proof (cases r)
    case (Inl err)
    then have "rooms_ok k rooms" using j assms(1) live_room_ok [OF assms(1), of "gt_now tn" ?s]
      by (auto simp: room_join_def Let_def split: sum.splits prod.splits)
    with j Inl assms(1) show ?thesis by (simp add: handleJoinSession_def Let_def)
  next
    case (Inr room)
    note o = room_join_ok [OF assms(1) j [unfolded Inr]]
    have leave: "rooms_ok k (fst (room_leave ?s ?p rooms))" using o(6,7) by (cases "length (rm_peers room) \<le> k") (auto intro: room_leave_ok)
    have "rooms_ok k rooms" if "\<not> sc_maxPeersPerSession cfg < length (rm_peers room)" using o(6) that assms(2) by simp
    with leave assms(1) j Inr show ?thesis
      by (auto simp: handleJoinSession_def Let_def intro!: good_then good_sends)
  qed
qed

lemma relay_rooms: "rooms_ok k rooms \<Longrightarrow> rooms_ok k (fst (relayWebRtc now e rooms))"
  using live_room_ok by (auto simp: relayWebRtc_def Let_def split: prod.splits sum.splits) (metis fst_conv)+

lemma relay_good: "rooms_ok k (gw_rooms g) \<Longrightarrow> good k (handleRelay tn c e g)"
  using relay_rooms [of k "gw_rooms g" "gt_now tn" e]
  by (auto simp: handleRelay_def Let_def intro!: good_then good_sends split: prod.splits sum.splits option.splits)

lemma leave_good: "rooms_ok k (gw_rooms g) \<Longrightarrow> good k (handleLeave tn c s p g)"
  by (auto simp: handleLeave_def intro!: good_then good_sends room_leave_ok)

lemma envelope_good:
  "rooms_ok k (gw_rooms g) \<Longrightarrow> 1 \<le> k \<Longrightarrow> sc_maxPeersPerSession cfg \<le> k \<Longrightarrow> good k (handleEnvelope cfg tn c e g)"
  by (simp add: handleEnvelope_def Let_def create_good join_good relay_good leave_good good_sends)

lemma text_good:
  assumes "rooms_ok k (gw_rooms g)" and "1 \<le> k" and "sc_maxPeersPerSession cfg \<le> k"
  shows "good k (gateway_text cfg tn c data g)"
proof -
  let ?g = "update_connection c (\<lambda>k. k\<lparr>gc_lastSeenAt := gt_now tn\<rparr>) g"
  have "good k (handleEnvelope cfg tn c e ?g)" for e using assms by (intro envelope_good) simp_all
  then have "rooms_ok k (gw_rooms g2)" if "handleEnvelope cfg tn c e ?g = (g2, r)" for e g2 r using that by (metis good_simps)
  with assms(1) show ?thesis
    by (auto simp: gateway_text_def Let_def intro!: good_sends split: option.splits sum.splits prod.splits)
qed

lemma cleanup_rooms: "rooms_ok k rooms \<Longrightarrow> rooms_ok k (fst (cleanupExpired now rooms))"
  by (auto simp: cleanupExpired_def rooms_ok_def jm_get_filter split: option.splits if_splits)

lemma reachable_rooms:
  "gateway_reachable cfg g \<Longrightarrow> 1 \<le> k \<Longrightarrow> sc_maxPeersPerSession cfg \<le> k \<Longrightarrow> rooms_ok k (gw_rooms g)"
proof (induction rule: gateway_reachable.induct)
  case start
  then show ?case by (simp add: new_gateway_def rooms_ok_def)
next
  case (step g g')
  then have ok: "rooms_ok k (gw_rooms g)" by simp
  from step(2) show ?case
  proof cases
    case (message c tn data)
    then show ?thesis using text_good [OF ok step.prems] by (simp add: good_def)
  next
    case (close c tn)
    then show ?thesis using close_good [OF ok] by (simp add: good_def)
  next
    case (cleanup tn)
    have "good k (cleanupStalePeers cfg tn g)" using ok
      by (auto simp: cleanupStalePeers_def intro!: good_then close_stale_good cleanup_rooms)
    with cleanup show ?thesis by (simp add: good_def)
  qed (use ok in \<open>simp add: gateway_attach_def\<close>)
qed

text \<open>
  C9. Whatever clients send and in whatever order connections come and go, every session of the signaling server is kept under its id, has its
  owner among its peers, and has no more peers than the configured limit (one, when the limit is zero).
\<close>

theorem gateway_rooms_bounded:
  assumes "gateway_reachable cfg g" and "jm_get (gw_rooms g) sid = Some room"
  shows "rm_sessionId room = sid \<and> jm_get (rm_peers room) (rm_ownerPeerId room) \<noteq> None \<and>
    length (rm_peers room) \<le> max 1 (sc_maxPeersPerSession cfg) \<and> jm_wf (rm_peers room)"
  using rooms_okD [OF reachable_rooms [OF assms(1), of "max 1 (sc_maxPeersPerSession cfg)"] assms(2)] by (auto simp: room_ok_def)

definition example_config :: gateway_config where
  "example_config = \<lparr>sc_publicBaseUrl = ''u/'', sc_sessionTtlMs = 60, sc_maxPeersPerSession = 2, sc_stalePeerTimeoutMs = 100\<rparr>"

definition example_gateway_turn :: gateway_turn where
  "example_gateway_turn = \<lparr>gt_now = 1, gt_session = ''1'', gt_message = ''1''\<rparr>"

definition client_envelope :: "string \<Rightarrow> js_value \<Rightarrow> js_value \<Rightarrow> js_value \<Rightarrow> js_value \<Rightarrow> js_value" where
  "client_envelope type s p q payload = JObj [(''protocol'', JStr SIGNALING_PROTOCOL), (''version'', JStr ''1.0.0''), (''messageId'', JStr ''m''),
     (''type'', JStr type), (''sessionId'', s), (''fromPeerId'', p), (''toPeerId'', q), (''timestamp'', JNum (Fin 1)), (''payload'', payload)]"

text \<open>The owner \<open>o\<close> creates the session \<open>s\<close> and \<open>a\<close> joins it; a third connection is idle.\<close>

definition example_gateway :: gateway where
  "example_gateway =
     (let add = gateway_attach example_gateway_turn;
          say = (\<lambda>c m g. fst (gateway_text example_config example_gateway_turn c (Some m) g))
      in say 1 (client_envelope ''JOIN_SESSION'' (JStr ''s'') (JStr ''a'') JUndef (JObj [(''role'', JStr ''receiver'')]))
           (say 0 (client_envelope ''CREATE_SESSION'' (JStr ''s'') (JStr ''o'') JUndef (JObj [(''ownerPeerId'', JStr ''o''), (''files'', JArr [])]))
             (add (add (add new_gateway)))))"

lemma example_gateway_length: "length (gw_connections example_gateway) = 3"
  by code_simp

lemma example_gateway_reachable: "gateway_reachable example_config example_gateway"
  unfolding example_gateway_def Let_def
  by (intro gateway_reachable.step [OF _ gateway_step.message] gateway_reachable.step [OF _ gateway_step.attach] gateway_reachable.start; code_simp)

theorem gateway_rooms_bounded_witness:
  "\<exists>room. jm_get (gw_rooms example_gateway) (JStr ''s'') = Some room \<and> length (rm_peers room) = 2 \<and>
     jm_get (rm_peers room) (rm_ownerPeerId room) \<noteq> None"
proof -
  have "map_option (\<lambda>r. length (rm_peers r)) (jm_get (gw_rooms example_gateway) (JStr ''s'')) = Some 2" by code_simp
  then obtain room where r: "jm_get (gw_rooms example_gateway) (JStr ''s'') = Some room" "length (rm_peers room) = 2" by auto
  with gateway_rooms_bounded [OF example_gateway_reachable r(1)] show ?thesis by blast
qed

section \<open>Relaying\<close>

lemma signaling_valid: "decodeSignaling v = Inr e \<Longrightarrow> e = v \<and> encodeSignaling e = Inr (json_value e)"
  by (auto simp: decodeSignaling_def encodeSignaling_def bind_result_Inr_iff)

text \<open>
  C19. A WebRTC message between two peers of a live session is handed, unchanged, to the first connection of the target in that
  session and to no other, whichever connection it came from; nothing else changes but the sender's last activity.
\<close>

theorem relay_reaches_target:
  assumes "decodeSignaling v = Inr v" and "envelope_type v \<in> set relay_types" and "jm_get (gw_rooms g) (jfield v ''sessionId'') = Some room"
    and "gt_now tn < rm_expiresAt room" and "truthy_value (jfield v ''sessionId'')" and "truthy_value (jfield v ''fromPeerId'')"
    and "truthy_value (jfield v ''toPeerId'')" and "jm_get (rm_peers room) (jfield v ''fromPeerId'') \<noteq> None"
    and "jm_get (rm_peers room) (jfield v ''toPeerId'') \<noteq> None"
    and "g1 = update_connection c (\<lambda>k. k\<lparr>gc_lastSeenAt := gt_now tn\<rparr>) g"
    and "find (\<lambda>d. gc_peerId (gw_connections g1 ! d) = jfield v ''toPeerId'' \<and> gc_sessionId (gw_connections g1 ! d) = jfield v ''sessionId'') (gw_peers g1) = Some d"
  shows "gateway_text cfg tn c (Some v) g = (gateway_emit (Gv_Relayed v) (gateway_send d (json_value v) g1), Inr ())"
proof -
  have enc: "encodeSignaling v = Inr (json_value v)" using signaling_valid [OF assms(1)] by simp
  have rooms: "gw_rooms g1 = gw_rooms g" "gw_peers g1 = gw_peers g" by (simp_all add: assms(10) update_connection_def)
  have relay: "relayWebRtc (gt_now tn) v (gw_rooms g1) = (gw_rooms g1, Inr ())"
    using assms(2-9) by (auto simp: relayWebRtc_def getMutableLiveRoom_def rooms)
  have "handleRelay tn c v g1 = (gateway_emit (Gv_Relayed v) (gateway_send d (json_value v) g1), Inr ())"
    using assms(11) by (simp add: handleRelay_def relay enc send_envelope_def gateway_then_def)
  moreover have "handleEnvelope cfg tn c v g1 = handleRelay tn c v g1"
    using assms(2) by (auto simp: handleEnvelope_def relay_types_def)
  ultimately show ?thesis by (simp add: gateway_text_def assms(1) flip: assms(10))
qed

definition example_offer :: js_value where
  "example_offer = client_envelope ''WEBRTC_OFFER'' (JStr ''s'') (JStr ''a'') (JStr ''o'')
     (JObj [(''sdp'', JObj [(''type'', JStr ''offer''), (''sdp'', JStr ''v=0'')])])"

theorem relay_reaches_target_witness:
  "\<exists>g1. gateway_text example_config example_gateway_turn 2 (Some example_offer) example_gateway =
     (gateway_emit (Gv_Relayed example_offer) (gateway_send 0 example_offer g1), Inr ())"
proof -
  have "map_option rm_expiresAt (jm_get (gw_rooms example_gateway) (JStr ''s'')) = Some 61 \<and>
      map_option (\<lambda>r. map fst (rm_peers r)) (jm_get (gw_rooms example_gateway) (JStr ''s'')) = Some [JStr ''o'', JStr ''a'']"
    by code_simp
  then obtain room where room: "jm_get (gw_rooms example_gateway) (JStr ''s'') = Some room" "rm_expiresAt room = 61"
    "map fst (rm_peers room) = [JStr ''o'', JStr ''a'']" by auto
  then have peers: "jm_get (rm_peers room) (JStr ''a'') \<noteq> None" "jm_get (rm_peers room) (JStr ''o'') \<noteq> None"
    by (auto simp: map_of_eq_None_iff simp flip: set_map)
  have f: "jfield example_offer ''sessionId'' = JStr ''s''" "jfield example_offer ''fromPeerId'' = JStr ''a''"
    "jfield example_offer ''toPeerId'' = JStr ''o''" "json_value example_offer = example_offer" by code_simp+
  let ?g1 = "update_connection 2 (\<lambda>k. k\<lparr>gc_lastSeenAt := gt_now example_gateway_turn\<rparr>) example_gateway"
  have "gateway_text example_config example_gateway_turn 2 (Some example_offer) example_gateway =
      (gateway_emit (Gv_Relayed example_offer) (gateway_send 0 (json_value example_offer) ?g1), Inr ())"
  proof (rule relay_reaches_target [where room = room])
    show "decodeSignaling example_offer = Inr example_offer" by code_simp
    show "envelope_type example_offer \<in> set relay_types" by code_simp
    show "find (\<lambda>d. gc_peerId (gw_connections ?g1 ! d) = jfield example_offer ''toPeerId'' \<and>
        gc_sessionId (gw_connections ?g1 ! d) = jfield example_offer ''sessionId'') (gw_peers ?g1) = Some 0" by code_simp
  qed (simp_all add: f room peers example_gateway_turn_def)
  then show ?thesis unfolding f by blast
qed

section \<open>What is not guarded\<close>

text \<open>
  A \<open>PEER_LEFT\<close> message counts for the peer and the session it names, whatever connection sends it: the named peer is no
  longer in the session, and the whole session is gone when that peer is its owner.
\<close>

theorem any_connection_evicts:
  assumes "decodeSignaling v = Inr v" and "envelope_type v = ''PEER_LEFT''" and "jfield v ''sessionId'' = JStr s" and "s \<noteq> ''''"
    and "jfield v ''fromPeerId'' = JStr p" and "p \<noteq> ''''" and "jm_get (gw_rooms g) (JStr s) = Some room"
  shows "case jm_get (gw_rooms (fst (gateway_text cfg tn c (Some v) g))) (JStr s) of
    None \<Rightarrow> JStr p = rm_ownerPeerId room \<or> jm_delete (JStr p) (rm_peers room) = []
  | Some room' \<Rightarrow> jm_get (rm_peers room') (JStr p) = None \<and> JStr p \<noteq> rm_ownerPeerId room"
proof -
  let ?g = "update_connection c (\<lambda>k. k\<lparr>gc_lastSeenAt := gt_now tn\<rparr>) g"
  have e: "handleEnvelope cfg tn c v ?g = handleLeave tn c (JStr s) (JStr p) ?g"
    using assms(2-6) by (simp add: handleEnvelope_def relay_types_def)
  have "gw_rooms (fst (handleLeave tn c (JStr s) (JStr p) ?g)) = fst (room_leave (JStr s) (JStr p) (gw_rooms g))"
    by (auto simp: handleLeave_def gateway_then_def dest!: broadcast_left_rooms split: prod.split sum.split)
  then have "gw_rooms (fst (gateway_text cfg tn c (Some v) g)) = fst (room_leave (JStr s) (JStr p) (gw_rooms g))"
    by (cases "handleLeave tn c (JStr s) (JStr p) ?g") (simp add: gateway_text_def assms(1) e split: sum.split)
  with assms(7) show ?thesis by (simp add: room_leave_def Let_def)
qed

definition example_left :: js_value where
  "example_left = client_envelope ''PEER_LEFT'' (JStr ''s'') (JStr ''o'') JUndef (JObj [(''peerId'', JStr ''o'')])"

theorem any_connection_evicts_witness:
  "gc_peerId (gw_connections example_gateway ! 2) = JUndef \<and> jm_get (gw_rooms example_gateway) (JStr ''s'') \<noteq> None \<and>
   jm_get (gw_rooms (fst (gateway_text example_config example_gateway_turn 2 (Some example_left) example_gateway))) (JStr ''s'') = None"
proof -
  have a: "gc_peerId (gw_connections example_gateway ! 2) = JUndef" by code_simp
  have "map_option rm_ownerPeerId (jm_get (gw_rooms example_gateway) (JStr ''s'')) = Some (JStr ''o'')" by code_simp
  then obtain room where room: "jm_get (gw_rooms example_gateway) (JStr ''s'') = Some room" "rm_ownerPeerId room = JStr ''o''" by auto
  have v: "decodeSignaling example_left = Inr example_left" "envelope_type example_left = ''PEER_LEFT''"
    "jfield example_left ''sessionId'' = JStr ''s''" "jfield example_left ''fromPeerId'' = JStr ''o''" by code_simp+
  have "jm_get (gw_rooms (fst (gateway_text example_config example_gateway_turn 2 (Some example_left) example_gateway))) (JStr ''s'') = None"
    using any_connection_evicts [OF v(1-3) _ v(4) _ room(1), of example_config example_gateway_turn 2] room(2) by (simp split: option.splits)
  with a room(1) show ?thesis by simp
qed

text \<open>The reply to a join lists the peers, and a peer whose id is not a string fails its check.\<close>

lemma joined_needs_strings:
  assumes "jm_get peers p \<noteq> None" and "\<not> nonempty_string p"
  shows "encodeSignaling (envelope_of tn ''SESSION_JOINED'' s q r (JObj [(''selfPeerId'', q), (''ownerPeerId'', w),
    (''peers'', peers_value peers), (''files'', fs)])) \<noteq> Inr e"
proof -
  obtain role where "(p, role) \<in> set peers" using assms(1) by (auto dest: map_of_SomeD)
  then have "JObj [(''peerId'', p), (''role'', JStr (role_name role))] \<in> set (map (\<lambda>(p, r). JObj [(''peerId'', p), (''role'', JStr (role_name r))]) peers)"
    by (force simp: image_iff)
  with assms(2) have "validatePeers t (map (\<lambda>(p, r). JObj [(''peerId'', p), (''role'', JStr (role_name r))]) peers) \<noteq> Inr ()" for t
    by (force simp: validatePeers_def all_checks_iff check_iff)
  then show ?thesis
    by (auto simp: encodeSignaling_def bind_result_Inr_iff validateSignalingEnvelope_def envelope_of_def envelope_type_def
        validateSignalingPayload_def all_checks_iff check_iff peers_value_def split: if_splits)
qed

text \<open>
  Once a session holds a peer whose id is not a non-empty string (a \<open>JOIN_SESSION\<close> with the number 7 as its \<open>fromPeerId\<close> is enough), no
  further join of the session succeeds.
\<close>

theorem untyped_peer_blocks_joins:
  assumes "jm_get (gw_rooms g) (jfield v ''sessionId'') = Some room" and "jm_get (rm_peers room) p \<noteq> None" and "\<not> nonempty_string p"
  shows "snd (handleJoinSession cfg tn c v g) \<noteq> Inr ()"
proof -
  have "jm_get (jm_set q ReceiverRole (rm_peers room)) p \<noteq> None" for q using assms(2) by simp
  note no = joined_needs_strings [OF this assms(3)]
  show ?thesis
    using assms(1) no
    by (auto simp: handleJoinSession_def room_join_def getMutableLiveRoom_def Let_def send_envelope_def gateway_then_def
        split: sum.splits)
qed

definition example_number_join :: js_value where
  "example_number_join = client_envelope ''JOIN_SESSION'' (JStr ''s'') (JNum (Fin 7)) JUndef (JObj [(''role'', JStr ''receiver'')])"

theorem untyped_peer_blocks_joins_witness:
  "let g = fst (gateway_text (example_config\<lparr>sc_maxPeersPerSession := 5\<rparr>) example_gateway_turn 2 (Some example_number_join) example_gateway)
   in snd (handleJoinSession (example_config\<lparr>sc_maxPeersPerSession := 5\<rparr>) example_gateway_turn 2
        (client_envelope ''JOIN_SESSION'' (JStr ''s'') (JStr ''b'') JUndef (JObj [(''role'', JStr ''receiver'')])) g) \<noteq> Inr ()"
proof -
  let ?cfg = "example_config\<lparr>sc_maxPeersPerSession := 5\<rparr>"
  let ?g = "fst (gateway_text ?cfg example_gateway_turn 2 (Some example_number_join) example_gateway)"
  let ?v = "client_envelope ''JOIN_SESSION'' (JStr ''s'') (JStr ''b'') JUndef (JObj [(''role'', JStr ''receiver'')])"
  have "map_option (\<lambda>r. map fst (rm_peers r)) (jm_get (gw_rooms ?g) (jfield ?v ''sessionId'')) = Some [JStr ''o'', JStr ''a'', JNum (Fin 7)]"
    by code_simp
  then obtain room where room: "jm_get (gw_rooms ?g) (jfield ?v ''sessionId'') = Some room"
    "map fst (rm_peers room) = [JStr ''o'', JStr ''a'', JNum (Fin 7)]" by auto
  then have "jm_get (rm_peers room) (JNum (Fin 7)) \<noteq> None" by (auto simp: map_of_eq_None_iff simp flip: set_map)
  from untyped_peer_blocks_joins [OF room(1) this] show ?thesis by (simp add: Let_def)
qed

end
