(* ===== verification/Signaling_Client.thy ===== *)
theory Signaling_Client
  imports Signaling_Protocol
begin

text \<open>
  \<open>SignalingClient\<close> and \<open>BrowserSignalingClient\<close> of \<open>packages/signaling/src/index.ts\<close>: the connection of a peer to the signaling
  server, its states, its reconnects and what its listeners hear. Sockets are numbered; a socket keeps the listeners that the client
  put on it. The platform decides when sockets open, fail and close and when a timer fires.
\<close>

section \<open>State\<close>

datatype client_phase = Sc_Idle | Sc_Connecting | Sc_Open | Sc_Reconnecting | Sc_Closing | Sc_Closed | Sc_Failed

text \<open>Who waits for a socket to open: a call of \<open>connect\<close>, or the loop of reconnects.\<close>

datatype opener = By_Connect | By_Reconnect

datatype client_event =
    Se_State client_phase
  | Se_Message js_value
  | Se_Warning string
  | Se_Error string

text \<open>
  \<open>cs_onOpen\<close>, \<open>cs_onError\<close>, \<open>cs_onClose\<close>: the listeners of \<open>openSocket\<close> that are on the socket; \<open>cs_messages\<close>: its
  \<open>SignalingClient\<close> is not disposed of. \<open>cs_readyState\<close> is 1 while it is open.
\<close>

record client_socket =
  cs_readyState :: nat
  cs_opener :: opener
  cs_opened :: bool
  cs_onOpen :: bool
  cs_onError :: bool
  cs_onClose :: bool
  cs_messages :: bool
  cs_sent :: "js_value list"
  cs_closeCalls :: nat

text \<open>\<open>cl_timers\<close> are the delays of the reconnects that are waiting, \<open>cl_connects\<close> is how calls of \<open>connect\<close> ended.\<close>

record signaling_client =
  cl_delays :: "int list"
  cl_phase :: client_phase
  cl_sockets :: "client_socket list"
  cl_socket :: "nat option"
  cl_client :: "nat option"
  cl_attempt :: nat
  cl_timers :: "int option list"
  cl_connects :: "bool list"
  cl_events :: "client_event list"

definition DEFAULT_RECONNECT_DELAYS :: "int list" where
  "DEFAULT_RECONNECT_DELAYS = [250, 500, 1000, 2000, 5000, 10000]"

definition configured_delays :: "int list option \<Rightarrow> int list" where
  "configured_delays delays = (case delays of Some ds \<Rightarrow> ds | None \<Rightarrow> DEFAULT_RECONNECT_DELAYS)"

definition new_client :: "int list option \<Rightarrow> signaling_client" where
  "new_client delays = \<lparr>cl_delays = configured_delays delays, cl_phase = Sc_Idle, cl_sockets = [],
     cl_socket = None, cl_client = None, cl_attempt = 0, cl_timers = [], cl_connects = [], cl_events = []\<rparr>"

definition client_emit :: "client_event \<Rightarrow> signaling_client \<Rightarrow> signaling_client" where
  "client_emit ev c = c\<lparr>cl_events := cl_events c @ [ev]\<rparr>"

definition setState :: "client_phase \<Rightarrow> signaling_client \<Rightarrow> signaling_client" where
  "setState s c = client_emit (Se_State s) (c\<lparr>cl_phase := s\<rparr>)"

definition update_socket :: "nat \<Rightarrow> (client_socket \<Rightarrow> client_socket) \<Rightarrow> signaling_client \<Rightarrow> signaling_client" where
  "update_socket i f c = c\<lparr>cl_sockets := (cl_sockets c)[i := f (cl_sockets c ! i)]\<rparr>"

text \<open>The end of a call of \<open>connect\<close>.\<close>

definition connect_ends :: "opener \<Rightarrow> bool \<Rightarrow> signaling_client \<Rightarrow> signaling_client" where
  "connect_ends who ok c = (case who of By_Connect \<Rightarrow> c\<lparr>cl_connects := cl_connects c @ [ok]\<rparr> | By_Reconnect \<Rightarrow> c)"

section \<open>\<open>SignalingClient\<close>\<close>

definition client_dispose :: "signaling_client \<Rightarrow> signaling_client" where
  "client_dispose c = (case cl_client c of None \<Rightarrow> c | Some i \<Rightarrow> update_socket i (\<lambda>s. s\<lparr>cs_messages := False\<rparr>) c)"

text \<open>Incoming data: no text, a text that is not JSON, or the value of a text.\<close>

datatype socket_data = Sd_Binary | Sd_Garbage | Sd_Json js_value

definition unknown_prefix :: string where
  "unknown_prefix = ''Unknown signaling message type:''"

definition client_message :: "socket_data \<Rightarrow> client_event" where
  "client_message d =
     (case d of
        Sd_Binary \<Rightarrow> Se_Error ''Signaling message must be text JSON''
      | Sd_Garbage \<Rightarrow> Se_Error ''SyntaxError''
      | Sd_Json v \<Rightarrow>
          (case decodeSignaling v of
             Inr envelope \<Rightarrow> Se_Message envelope
           | Inl msg \<Rightarrow> if take (length unknown_prefix) msg = unknown_prefix then Se_Warning msg else Se_Error msg))"

definition on_message :: "nat \<Rightarrow> socket_data \<Rightarrow> signaling_client \<Rightarrow> signaling_client" where
  "on_message i d c = (if cs_messages (cl_sockets c ! i) then client_emit (client_message d) c else c)"

definition client_send :: "js_value \<Rightarrow> signaling_client \<Rightarrow> signaling_client \<times> (string + unit)" where
  "client_send envelope c =
     (case cl_client c of
        None \<Rightarrow> (c, Inl ''Signaling client is not connected'')
      | Some i \<Rightarrow>
          if cs_readyState (cl_sockets c ! i) \<noteq> 1 then (c, Inl ''Signaling socket is not open'')
          else (case encodeSignaling envelope of
                  Inl err \<Rightarrow> (c, Inl err)
                | Inr t \<Rightarrow> (update_socket i (\<lambda>s. s\<lparr>cs_sent := cs_sent s @ [t]\<rparr>) c, Inr ())))"

definition client_relay :: "js_value \<Rightarrow> signaling_client \<Rightarrow> signaling_client \<times> (string + unit)" where
  "client_relay envelope c =
     (if envelope_type envelope \<notin> {''WEBRTC_OFFER'', ''WEBRTC_ANSWER'', ''ICE_CANDIDATE''}
      then (c, Inl (''Cannot relay '' @ envelope_type envelope)) else client_send envelope c)"

section \<open>Opening and reconnecting\<close>

definition on_open :: "nat \<Rightarrow> signaling_client \<Rightarrow> signaling_client" where
  "on_open i c =
     (if cs_onOpen (cl_sockets c ! i)
      then connect_ends (cs_opener (cl_sockets c ! i)) True (setState Sc_Open
             ((update_socket i (\<lambda>s. s\<lparr>cs_opened := True, cs_onOpen := False, cs_onError := False\<rparr>) c)\<lparr>cl_attempt := 0\<rparr>))
      else c)"

text \<open>The delay of the next reconnect; \<open>None\<close> when the list of delays is empty.\<close>

definition reconnect_delay :: "signaling_client \<Rightarrow> int option" where
  "reconnect_delay c = (if cl_delays c = [] then None else Some (cl_delays c ! min (cl_attempt c) (length (cl_delays c) - 1)))"

text \<open>\<open>scheduleReconnect\<close> up to its timer.\<close>

definition scheduleReconnect :: "signaling_client \<Rightarrow> signaling_client" where
  "scheduleReconnect c =
     (let c1 = (client_dispose c)\<lparr>cl_client := None\<rparr>
      in setState Sc_Reconnecting (c1\<lparr>cl_timers := cl_timers c1 @ [reconnect_delay c1], cl_attempt := cl_attempt c1 + 1\<rparr>))"

text \<open>The \<open>catch\<close> around the opening of a socket by the loop of reconnects.\<close>

definition reconnect_failed :: "signaling_client \<Rightarrow> signaling_client" where
  "reconnect_failed c = (if cl_phase c \<noteq> Sc_Closed \<and> cl_phase c \<noteq> Sc_Closing then scheduleReconnect c else c)"

text \<open>\<open>openSocket\<close>; \<open>made\<close> is the ready state of the new socket, \<open>None\<close> when there is none and \<open>createSocket\<close> throws.\<close>

definition openSocket :: "client_phase \<Rightarrow> opener \<Rightarrow> nat option \<Rightarrow> signaling_client \<Rightarrow> signaling_client" where
  "openSocket phase who made c =
     (let c1 = setState phase c
      in case made of
           None \<Rightarrow> (case who of By_Connect \<Rightarrow> connect_ends who False c1 | By_Reconnect \<Rightarrow> reconnect_failed c1)
         | Some ready \<Rightarrow>
             let i = length (cl_sockets c1);
                 c2 = c1\<lparr>cl_sockets := cl_sockets c1 @ [\<lparr>cs_readyState = ready, cs_opener = who, cs_opened = False, cs_onOpen = True,
                   cs_onError = True, cs_onClose = True, cs_messages = True, cs_sent = [], cs_closeCalls = 0\<rparr>],
                   cl_socket := Some i, cl_client := Some i\<rparr>
             in if ready = 1 then on_open i c2 else c2)"

definition client_connect :: "nat option \<Rightarrow> signaling_client \<Rightarrow> signaling_client" where
  "client_connect made c =
     (if cl_phase c = Sc_Open \<or> cl_phase c = Sc_Connecting then connect_ends By_Connect True c
      else openSocket (if cl_phase c = Sc_Failed \<or> cl_phase c = Sc_Closed then Sc_Reconnecting else Sc_Connecting) By_Connect made c)"

definition timer_fires :: "nat \<Rightarrow> nat option \<Rightarrow> signaling_client \<Rightarrow> signaling_client" where
  "timer_fires j made c =
     openSocket Sc_Reconnecting By_Reconnect made (c\<lparr>cl_timers := take j (cl_timers c) @ drop (Suc j) (cl_timers c)\<rparr>)"

definition on_error :: "nat \<Rightarrow> signaling_client \<Rightarrow> signaling_client" where
  "on_error i c =
     (let s = cl_sockets c ! i
      in if \<not> cs_onError s then c
         else let c1 = update_socket i (\<lambda>s. s\<lparr>cs_onOpen := False, cs_onError := False\<rparr>) c
              in if cs_opened s then client_emit (Se_Error ''Signaling socket error'') c1
                 else let c2 = client_emit (Se_Error ''Signaling socket failed to open'')
                        (setState Sc_Failed (update_socket i (\<lambda>s. s\<lparr>cs_onClose := False\<rparr>) c1))
                      in case cs_opener s of By_Connect \<Rightarrow> connect_ends By_Connect False c2 | By_Reconnect \<Rightarrow> reconnect_failed c2)"

definition on_close :: "nat \<Rightarrow> signaling_client \<Rightarrow> signaling_client" where
  "on_close i c =
     (if cs_onClose (cl_sockets c ! i)
      then let c1 = update_socket i (\<lambda>s. s\<lparr>cs_onOpen := False, cs_onError := False, cs_onClose := False\<rparr>) c
           in if cl_phase c1 \<noteq> Sc_Closing \<and> cl_phase c1 \<noteq> Sc_Closed then scheduleReconnect c1 else c1
      else c)"

text \<open>\<open>close\<close>; the events of the socket come later.\<close>

definition client_close :: "signaling_client \<Rightarrow> signaling_client" where
  "client_close c =
     (let c1 = client_dispose (setState Sc_Closing c);
          c2 = (case cl_socket c1 of None \<Rightarrow> c1
                | Some i \<Rightarrow> update_socket i (\<lambda>s. s\<lparr>cs_readyState := 2, cs_closeCalls := cs_closeCalls s + 1\<rparr>) c1)
      in setState Sc_Closed (c2\<lparr>cl_client := None, cl_socket := None\<rparr>))"

section \<open>Requests\<close>

text \<open>The envelopes that \<open>createSession\<close> and \<open>joinSession\<close> send; \<open>messageId\<close> and \<open>now\<close> are made at the call.\<close>

definition client_envelope_of :: "string \<Rightarrow> int \<Rightarrow> string \<Rightarrow> js_value \<Rightarrow> js_value \<Rightarrow> js_value \<Rightarrow> js_value" where
  "client_envelope_of messageId now type sessionId fromPeerId payload =
     JObj [(''protocol'', JStr SIGNALING_PROTOCOL), (''version'', JStr PROTOCOL_VERSION), (''messageId'', JStr messageId),
       (''type'', JStr type), (''sessionId'', sessionId), (''fromPeerId'', fromPeerId), (''timestamp'', JNum (num_of_int now)), (''payload'', payload)]"

definition client_createSession ::
  "string \<Rightarrow> int \<Rightarrow> string \<Rightarrow> js_value list \<Rightarrow> string option \<Rightarrow> string option \<Rightarrow> signaling_client \<Rightarrow> signaling_client \<times> (string + unit)" where
  "client_createSession messageId now ownerPeerId files sessionId mode c =
     client_send (client_envelope_of messageId now ''CREATE_SESSION'' (case sessionId of Some s \<Rightarrow> JStr s | None \<Rightarrow> JUndef) (JStr ownerPeerId)
       (JObj [(''ownerPeerId'', JStr ownerPeerId), (''mode'', JStr (case mode of Some m \<Rightarrow> m | None \<Rightarrow> ''grid'')), (''files'', JArr files)])) c"

definition client_joinSession :: "string \<Rightarrow> int \<Rightarrow> string \<Rightarrow> string \<Rightarrow> signaling_client \<Rightarrow> signaling_client \<times> (string + unit)" where
  "client_joinSession messageId now sessionId peerId c =
     client_send (client_envelope_of messageId now ''JOIN_SESSION'' (JStr sessionId) (JStr peerId) (JObj [(''role'', JStr ''receiver'')])) c"

section \<open>Steps\<close>

inductive client_step :: "signaling_client \<Rightarrow> signaling_client \<Rightarrow> bool" where
  connect: "client_step c (client_connect made c)"
| close: "client_step c (client_close c)"
| send: "client_step c (fst (client_send envelope c))"
| timer: "j < length (cl_timers c) \<Longrightarrow> client_step c (timer_fires j made c)"
| opened: "i < length (cl_sockets c) \<Longrightarrow> client_step c (on_open i c)"
| error: "i < length (cl_sockets c) \<Longrightarrow> client_step c (on_error i c)"
| closed: "i < length (cl_sockets c) \<Longrightarrow> client_step c (on_close i c)"
| message: "i < length (cl_sockets c) \<Longrightarrow> client_step c (on_message i d c)"
| platform: "i < length (cl_sockets c) \<Longrightarrow> client_step c (update_socket i (\<lambda>s. s\<lparr>cs_readyState := r\<rparr>) c)"

inductive client_reachable :: "int list option \<Rightarrow> signaling_client \<Rightarrow> bool" for delays where
  start: "client_reachable delays (new_client delays)"
| step: "client_reachable delays c \<Longrightarrow> client_step c c' \<Longrightarrow> client_reachable delays c'"

section \<open>What never happens\<close>

text \<open>
  A socket that opened is no longer watched for errors; the current client is the one of a socket that exists; every delay is a configured one.
\<close>

definition socket_ok :: "client_socket \<Rightarrow> bool" where
  "socket_ok s \<longleftrightarrow> cs_onOpen s = cs_onError s \<and> (cs_opened s \<longrightarrow> \<not> cs_onError s)"

definition delay_ok :: "int list \<Rightarrow> int option \<Rightarrow> bool" where
  "delay_ok ds d \<longleftrightarrow> (case d of None \<Rightarrow> ds = [] | Some x \<Rightarrow> x \<in> set ds)"

lemma delay_ok_next: "delay_ok (cl_delays c) (reconnect_delay c)"
  by (auto simp: delay_ok_def reconnect_delay_def min_less_iff_disj intro!: nth_mem)

definition client_ok :: "int list option \<Rightarrow> signaling_client \<Rightarrow> bool" where
  "client_ok delays c \<longleftrightarrow> cl_delays c = configured_delays delays \<and>
     (\<forall>s \<in> set (cl_sockets c). socket_ok s) \<and> (\<forall>i. cl_client c = Some i \<longrightarrow> i < length (cl_sockets c)) \<and>
     (\<forall>i. cl_socket c = Some i \<longrightarrow> i < length (cl_sockets c)) \<and>
     (\<forall>d \<in> set (cl_timers c). delay_ok (configured_delays delays) d)"

lemma client_ok_frame [simp]:
  "client_ok ds (client_emit ev c) = client_ok ds c" "client_ok ds (setState s c) = client_ok ds c"
  "client_ok ds (connect_ends who b c) = client_ok ds c" "client_ok ds (c\<lparr>cl_attempt := n\<rparr>) = client_ok ds c"
  by (simp_all add: client_ok_def client_emit_def setState_def connect_ends_def split: opener.split)

lemma update_socket_ok: "client_ok ds c \<Longrightarrow> (\<And>s. socket_ok s \<Longrightarrow> socket_ok (f s)) \<Longrightarrow> client_ok ds (update_socket i f c)"
  by (cases "i < length (cl_sockets c)")
    (auto simp: client_ok_def update_socket_def list_update_beyond dest!: set_update_subset_insert [THEN subsetD])

lemma dispose_ok: "client_ok ds c \<Longrightarrow> client_ok ds (client_dispose c)"
  by (auto simp: client_dispose_def socket_ok_def intro!: update_socket_ok split: option.split)

lemma dispose_keeps [simp]:
  "cl_timers (client_dispose c) = cl_timers c" "cl_attempt (client_dispose c) = cl_attempt c" "cl_delays (client_dispose c) = cl_delays c"
  "cl_phase (client_dispose c) = cl_phase c" "length (cl_sockets (client_dispose c)) = length (cl_sockets c)"
  "cl_events (client_dispose c) = cl_events c" "cl_socket (client_dispose c) = cl_socket c" "cl_connects (client_dispose c) = cl_connects c"
  by (simp_all add: client_dispose_def update_socket_def split: option.split)

lemma clear_ok: "client_ok ds c \<Longrightarrow> client_ok ds (c\<lparr>cl_client := None\<rparr>)" "client_ok ds c \<Longrightarrow> client_ok ds (c\<lparr>cl_client := None, cl_socket := None\<rparr>)"
  by (auto simp: client_ok_def)

lemma schedule_ok: "client_ok ds c \<Longrightarrow> client_ok ds (scheduleReconnect c)"
proof -
  assume "client_ok ds c"
  then have ok: "client_ok ds ((client_dispose c)\<lparr>cl_client := None\<rparr>)" by (intro clear_ok dispose_ok)
  moreover have "cl_delays ((client_dispose c)\<lparr>cl_client := None\<rparr>) = configured_delays ds" using ok by (simp add: client_ok_def)
  then have "delay_ok (configured_delays ds) (reconnect_delay ((client_dispose c)\<lparr>cl_client := None\<rparr>))" using delay_ok_next by metis
  ultimately show ?thesis unfolding scheduleReconnect_def Let_def client_ok_frame(2) by (auto simp: client_ok_def)
qed

lemma reconnect_failed_ok: "client_ok ds c \<Longrightarrow> client_ok ds (reconnect_failed c)"
  by (simp add: reconnect_failed_def schedule_ok)

lemma on_open_ok: "client_ok ds c \<Longrightarrow> client_ok ds (on_open i c)"
  by (auto simp: on_open_def socket_ok_def intro!: update_socket_ok)

lemma openSocket_ok: "client_ok ds c \<Longrightarrow> client_ok ds (openSocket phase who made c)"
proof (cases made)
  case (Some ready)
  assume "client_ok ds c"
  then have "client_ok ds ((setState phase c)\<lparr>cl_sockets := cl_sockets (setState phase c) @ [\<lparr>cs_readyState = ready, cs_opener = who, cs_opened = False,
      cs_onOpen = True, cs_onError = True, cs_onClose = True, cs_messages = True, cs_sent = [], cs_closeCalls = 0\<rparr>],
      cl_socket := Some (length (cl_sockets (setState phase c))), cl_client := Some (length (cl_sockets (setState phase c)))\<rparr>)"
    by (auto simp: client_ok_def setState_def client_emit_def socket_ok_def)
  with Some show ?thesis by (auto simp: openSocket_def Let_def intro: on_open_ok)
qed (auto simp: openSocket_def Let_def intro: reconnect_failed_ok split: opener.split)

lemma kept: "set (take j xs @ drop k xs) \<subseteq> set xs"
  using set_take_subset [of j xs] set_drop_subset [of k xs] by simp

lemma client_step_ok: "client_step c c' \<Longrightarrow> client_ok ds c \<Longrightarrow> client_ok ds c'"
proof (induction rule: client_step.induct)
  case (close c)
  then have "client_ok ds (client_dispose (setState Sc_Closing c))" by (intro dispose_ok) simp
  then have "client_ok ds (case cl_socket (client_dispose (setState Sc_Closing c)) of None \<Rightarrow> client_dispose (setState Sc_Closing c)
      | Some i \<Rightarrow> update_socket i (\<lambda>s. s\<lparr>cs_readyState := 2, cs_closeCalls := cs_closeCalls s + 1\<rparr>) (client_dispose (setState Sc_Closing c)))"
    by (auto intro!: update_socket_ok simp: socket_ok_def split: option.split)
  then show ?case unfolding client_close_def Let_def by (subst client_ok_frame(2)) (rule clear_ok(2))
next
  case (send c envelope)
  then show ?case by (auto simp: client_send_def socket_ok_def intro!: update_socket_ok split: option.split sum.split)
next
  case (timer j c made)
  have "client_ok ds (c\<lparr>cl_timers := take j (cl_timers c) @ drop (Suc j) (cl_timers c)\<rparr>)"
    using timer(2) kept [of j "cl_timers c"] unfolding client_ok_def by fastforce
  then show ?case by (simp add: timer_fires_def openSocket_ok)
next
  case (error i c)
  then show ?case
    by (auto simp: on_error_def socket_ok_def Let_def intro!: update_socket_ok reconnect_failed_ok split: opener.split)
next
  case (closed i c)
  then show ?case by (auto simp: on_close_def socket_ok_def Let_def intro!: update_socket_ok schedule_ok)
next
  case (platform i c r)
  then show ?case by (auto simp: socket_ok_def intro!: update_socket_ok)
qed (auto simp: client_connect_def on_message_def intro: openSocket_ok on_open_ok)

lemma client_reachable_ok: "client_reachable ds c \<Longrightarrow> client_ok ds c"
proof (induction rule: client_reachable.induct)
  case start
  show ?case by (simp add: client_ok_def new_client_def)
qed (use client_step_ok in blast)

section \<open>The properties\<close>

text \<open>
  A client hears of its socket's errors only until the socket is open: once it has opened, an error event changes nothing, and the client waits
  only for delays of its configuration.
\<close>

theorem open_socket_errors_unheard:
  assumes "client_reachable ds c" and "i < length (cl_sockets c)" and "cs_opened (cl_sockets c ! i)"
  shows "on_error i c = c \<and> (\<forall>d \<in> set (cl_timers c). delay_ok (configured_delays ds) d)"
proof -
  note ok = client_reachable_ok [OF assms(1)]
  then have "socket_ok (cl_sockets c ! i)" using assms(2) by (simp add: client_ok_def)
  with assms(3) have "on_error i c = c" by (simp add: socket_ok_def on_error_def Let_def)
  with ok show ?thesis unfolding client_ok_def by blast
qed

text \<open>\<open>refused n c\<close>: \<open>n\<close> times, the timer of a waiting reconnect fires, and the socket it opens fails.\<close>

fun refused :: "nat \<Rightarrow> signaling_client \<Rightarrow> signaling_client" where
  "refused 0 c = c"
| "refused (Suc n) c = (let c1 = timer_fires 0 (Some 0) c in refused n (on_error (length (cl_sockets c1) - 1) c1))"

text \<open>A client whose only activity is one reconnect that waits.\<close>

definition waiting :: "int list \<Rightarrow> nat \<Rightarrow> signaling_client \<Rightarrow> bool" where
  "waiting ds n c \<longleftrightarrow> cl_delays c = ds \<and> cl_phase c = Sc_Reconnecting \<and> cl_client c = None \<and> cl_attempt c = Suc n \<and>
     cl_timers c = [if ds = [] then None else Some (ds ! min n (length ds - 1))]"

lemma waiting_refused: "waiting ds n c \<Longrightarrow> waiting ds (n + k) (refused k c)"
proof (induction k arbitrary: n c)
  case (Suc k)
  let ?c = "timer_fires 0 (Some 0) c"
  have "waiting ds (Suc n) (on_error (length (cl_sockets ?c) - 1) ?c)" using Suc.prems
    by (simp add: waiting_def timer_fires_def openSocket_def on_error_def setState_def client_emit_def update_socket_def
        reconnect_failed_def scheduleReconnect_def client_dispose_def reconnect_delay_def Let_def)
  from Suc.IH [OF this] show ?case by (simp add: Let_def)
qed simp

lemma lost_waiting:
  assumes "cl_phase c = Sc_Open" and "cs_onClose (cl_sockets c ! i)" and "cl_timers c = []" and "cl_attempt c = 0"
  shows "waiting (cl_delays c) 0 (on_close i c)"
  using assms by (simp add: waiting_def on_close_def scheduleReconnect_def setState_def client_emit_def update_socket_def client_dispose_def
      reconnect_delay_def Let_def split: option.split)

text \<open>
  C21. A client that loses its connection comes back: however many attempts in a row are refused, it keeps waiting for the next one, with the
  configured delays in order and the last of them from then on; the first attempt that succeeds opens it, with a socket of its own
  to send on and the count of attempts at zero.
\<close>

theorem reconnects_until_open:
  assumes "cl_phase c = Sc_Open" and "cs_onClose (cl_sockets c ! i)" and "cl_timers c = []" and "cl_attempt c = 0"
    and "c1 = refused n (on_close i c)" and "c2 = on_open (length (cl_sockets (timer_fires 0 (Some 0) c1)) - 1) (timer_fires 0 (Some 0) c1)"
  shows "cl_phase c1 = Sc_Reconnecting \<and>
    cl_timers c1 = [if cl_delays c = [] then None else Some (cl_delays c ! min n (length (cl_delays c) - 1))] \<and>
    cl_phase c2 = Sc_Open \<and> cl_attempt c2 = 0 \<and> cl_timers c2 = [] \<and>
    (\<exists>j. cl_client c2 = Some j \<and> j < length (cl_sockets c2) \<and> cs_opened (cl_sockets c2 ! j) \<and> cs_messages (cl_sockets c2 ! j))"
proof -
  have w: "waiting (cl_delays c) n c1" using waiting_refused [OF lost_waiting [OF assms(1-4)], of n] by (simp add: assms(5))
  then have "cl_phase c2 = Sc_Open \<and> cl_attempt c2 = 0 \<and> cl_timers c2 = [] \<and>
      (\<exists>j. cl_client c2 = Some j \<and> j < length (cl_sockets c2) \<and> cs_opened (cl_sockets c2 ! j) \<and> cs_messages (cl_sockets c2 ! j))"
    by (simp add: assms(6) waiting_def timer_fires_def openSocket_def on_open_def setState_def client_emit_def update_socket_def
        connect_ends_def Let_def)
  with w show ?thesis by (simp add: waiting_def)
qed

text \<open>
  Closing a client does not end its reconnects: when a reconnect is waiting, its timer opens a new socket after the client was closed, and
  the client goes on as if it had not been.
\<close>

theorem closed_client_reopens:
  assumes "cl_timers c = [d]" and "c1 = client_close c" and "c2 = timer_fires 0 (Some 1) c1"
  shows "cl_phase c1 = Sc_Closed \<and> cl_client c1 = None \<and> cl_phase c2 = Sc_Open \<and>
    cl_client c2 = Some (length (cl_sockets c)) \<and> length (cl_sockets c2) = length (cl_sockets c) + 1"
proof -
  have t: "cl_timers c1 = [d]" "cl_phase c1 = Sc_Closed" "cl_client c1 = None" "length (cl_sockets c1) = length (cl_sockets c)"
    using assms(1) by (simp_all add: assms(2) client_close_def setState_def client_emit_def update_socket_def client_dispose_def Let_def split: option.split)
  then show ?thesis
    by (simp add: assms(3) timer_fires_def openSocket_def on_open_def setState_def client_emit_def update_socket_def connect_ends_def Let_def)
qed

text \<open>
  A client that is closed while it connects does not end up closed: the socket that is closed before it opens reports an error, which
  makes the client failed and its call of \<open>connect\<close> reject.
\<close>

theorem closing_while_connecting_fails:
  assumes "cl_phase c = Sc_Idle" and "c1 = client_close (client_connect (Some 0) c)" and "c2 = on_error (length (cl_sockets c)) c1"
  shows "cl_phase c1 = Sc_Closed \<and> cs_closeCalls (cl_sockets c1 ! length (cl_sockets c)) = 1 \<and> cl_phase c2 = Sc_Failed \<and>
    cl_connects c2 = cl_connects c @ [False]"
  using assms(1)
  by (simp add: assms(2,3) client_connect_def openSocket_def client_close_def on_error_def setState_def client_emit_def update_socket_def
      client_dispose_def connect_ends_def Let_def)

text \<open>A client that connected, and the same after it lost its connection.\<close>

definition open_client :: signaling_client where
  "open_client = on_open 0 (client_connect (Some 0) (new_client None))"

lemmas client_run = open_client_def client_connect_def new_client_def openSocket_def on_open_def setState_def client_emit_def update_socket_def
  connect_ends_def configured_delays_def DEFAULT_RECONNECT_DELAYS_def Let_def

lemma open_client_shape:
  "cl_phase open_client = Sc_Open" "cs_onClose (cl_sockets open_client ! 0)" "cl_timers open_client = []" "cl_attempt open_client = 0"
  "length (cl_sockets open_client) = 1" "cs_opened (cl_sockets open_client ! 0)" "cl_delays open_client = DEFAULT_RECONNECT_DELAYS"
  by (simp_all add: client_run)

theorem open_socket_errors_unheard_witness: "on_error 0 open_client = open_client"
proof -
  have "client_reachable None (client_connect (Some 0) (new_client None))"
    by (intro client_reachable.step [OF _ client_step.connect] client_reachable.start)
  moreover have "0 < length (cl_sockets (client_connect (Some 0) (new_client None)))" by (simp add: client_run)
  ultimately have "client_reachable None open_client" unfolding open_client_def by (intro client_reachable.step [OF _ client_step.opened])
  from open_socket_errors_unheard [OF this] show ?thesis by (simp add: open_client_shape)
qed

theorem reconnects_until_open_witness:
  "cl_timers (refused 8 (on_close 0 open_client)) = [Some 10000] \<and> cl_timers (refused 1 (on_close 0 open_client)) = [Some 500]"
proof -
  note r = reconnects_until_open [OF open_client_shape(1-4) refl refl]
  from r [of 8] r [of 1] show ?thesis by (simp add: open_client_shape(7) DEFAULT_RECONNECT_DELAYS_def)
qed

theorem closed_client_reopens_witness: "cl_phase (timer_fires 0 (Some 1) (client_close (on_close 0 open_client))) = Sc_Open"
proof -
  have "cl_timers (on_close 0 open_client) = [Some 250]"
    using lost_waiting [OF open_client_shape(1-4)] by (simp add: waiting_def open_client_shape(7) DEFAULT_RECONNECT_DELAYS_def)
  from closed_client_reopens [OF this refl refl] show ?thesis by simp
qed

theorem closing_while_connecting_fails_witness:
  "cl_phase (on_error 0 (client_close (client_connect (Some 0) (new_client None)))) = Sc_Failed"
  using closing_while_connecting_fails [OF _ refl refl, of "new_client None"] by (simp add: new_client_def)

end
